(* ===== verification/VDD_Prelude.thy ===== *)
theory VDD_Prelude
  imports Main "HOL-Library.Word"
begin

unbundle bit_operations_syntax

text \<open>
  Shared vocabulary of the development: the machine integer types of the C++ sources, the
  model of \<open>std::map\<close> as an association list kept in ascending key order, the counting loop
  over 32-bit indices, fixed-size character arrays, and the locale for components whose
  correctness is an invariant kept by every operation.
\<close>

section \<open>Types and lemma collections\<close>

type_synonym u8 = "8 word"
type_synonym u16 = "16 word"
type_synonym u32 = "32 word"
type_synonym u64 = "64 word"

text \<open>A \<open>std::chrono::steady_clock\<close> time point, in nanoseconds since the clock's epoch.\<close>

type_synonym time_point = int

text \<open>
  \<open>store_frame\<close> collects the facts that say which fields an operation leaves alone, and
  \<open>omap_simps\<close> the lookup laws of ordered maps.
\<close>

named_theorems omap_simps
named_theorems store_frame

section \<open>Ordered maps\<close>

text \<open>
  \<open>std::map<K, V>\<close> iterates in ascending key order, and the display store iterates over its
  maps, so the model keeps the order: a map is the list of its entries, and
  \<open>omap_wf\<close> says that the keys ascend strictly.
\<close>

type_synonym ('k, 'v) omap = "('k \<times> 'v) list"

abbreviation omap_find :: "('k, 'v) omap \<Rightarrow> 'k \<Rightarrow> 'v option" where
  "omap_find \<equiv> map_of"

fun omap_insert :: "'k::linorder \<Rightarrow> 'v \<Rightarrow> ('k, 'v) omap \<Rightarrow> ('k, 'v) omap" where
  "omap_insert k v [] = [(k, v)]"
| "omap_insert k v ((k', v') # m) =
     (if k < k' then (k, v) # (k', v') # m
      else if k = k' then (k, v) # m
      else (k', v') # omap_insert k v m)"

definition omap_erase :: "'k \<Rightarrow> ('k, 'v) omap \<Rightarrow> ('k, 'v) omap" where
  "omap_erase k m = filter (\<lambda>(k', v). k' \<noteq> k) m"

definition omap_map :: "('v \<Rightarrow> 'w) \<Rightarrow> ('k, 'v) omap \<Rightarrow> ('k, 'w) omap" where
  "omap_map f m = map (\<lambda>(k, v). (k, f v)) m"

definition omap_emplace :: "'k::linorder \<Rightarrow> 'v \<Rightarrow> ('k, 'v) omap \<Rightarrow> ('k, 'v) omap" where
  "omap_emplace k v m = (case omap_find m k of None \<Rightarrow> omap_insert k v m | Some _ \<Rightarrow> m)"

definition omap_wf :: "('k::linorder, 'v) omap \<Rightarrow> bool" where
  "omap_wf m \<longleftrightarrow> sorted_wrt (<) (map fst m)"

lemma omap_find_insert [simp, omap_simps]:
  "omap_find (omap_insert k v m) = (omap_find m)(k \<mapsto> v)"
  by (induction m) (auto simp: fun_eq_iff)

lemma omap_find_erase [simp, omap_simps]:
  "omap_find (omap_erase k m) = (omap_find m)(k := None)"
  by (induction m) (auto simp: omap_erase_def fun_eq_iff)

lemma omap_find_map [simp, omap_simps]:
  "omap_find (omap_map f m) k = map_option f (omap_find m k)"
  by (induction m) (auto simp: omap_map_def)

lemma omap_wf_Nil [simp]: "omap_wf []"
  by (simp add: omap_wf_def)

lemma omap_wf_distinct: "omap_wf m \<Longrightarrow> distinct (map fst m)"
  unfolding omap_wf_def using strict_sorted_iff by blast

lemma omap_find_Some_iff:
  "omap_wf m \<Longrightarrow> omap_find m k = Some v \<longleftrightarrow> (k, v) \<in> set m"
  by (simp add: omap_wf_distinct)

lemma fst_set_omap_insert: "fst ` set (omap_insert k v m) = insert k (fst ` set m)"
proof (induction m)
  case (Cons e m)
  then show ?case by (cases e) (simp add: insert_commute)
qed simp

lemma omap_wf_insert [simp, intro]: "omap_wf m \<Longrightarrow> omap_wf (omap_insert k v m)"
proof (induction m)
  case Nil
  then show ?case by (simp add: omap_wf_def)
next
  case (Cons e m)
  obtain k' v' where e: "e = (k', v')" by (cases e)
  from Cons.prems have wf: "omap_wf m" and lt: "\<forall>x \<in> fst ` set m. k' < x"
    by (auto simp: omap_wf_def e)
  from Cons.IH[OF wf] lt Cons.prems show ?case
    using fst_set_omap_insert[of k v m] by (auto simp: omap_wf_def e dest: less_trans)
qed

lemma omap_wf_filter [simp, intro]: "omap_wf m \<Longrightarrow> omap_wf (filter P m)"
  by (induction m) (auto simp: omap_wf_def)

lemma omap_wf_erase [simp, intro]: "omap_wf m \<Longrightarrow> omap_wf (omap_erase k m)"
  by (simp add: omap_erase_def)

lemma map_fst_omap_map [simp]: "map fst (omap_map f m) = map fst m"
  by (induction m) (auto simp: omap_map_def)

lemma omap_wf_map [simp]: "omap_wf (omap_map f m) \<longleftrightarrow> omap_wf m"
  by (simp add: omap_wf_def)

lemma length_omap_map [simp]: "length (omap_map f m) = length m"
  by (simp add: omap_map_def)

lemma omap_find_filter:
  "omap_wf m \<Longrightarrow> omap_find (filter (\<lambda>(k, v). P k v) m) k =
     (case omap_find m k of None \<Rightarrow> None | Some v \<Rightarrow> if P k v then Some v else None)"
proof (induction m)
  case (Cons e m)
  obtain k' v' where e: "e = (k', v')" by (cases e)
  from Cons.prems have wf: "omap_wf m" and lt: "\<forall>x \<in> fst ` set m. k' < x"
    by (auto simp: omap_wf_def e)
  have "omap_find (filter (\<lambda>(k, v). P k v) m) k' = None"
    using lt by (auto simp: map_of_eq_None_iff)
  then show ?case using Cons.IH[OF wf] by (auto simp: e)
qed simp

lemma omap_set_insert:
  "omap_wf m \<Longrightarrow> set (omap_insert k v m) = insert (k, v) {e \<in> set m. fst e \<noteq> k}"
proof (induction m)
  case (Cons e m)
  obtain k' v' where e: "e = (k', v')" by (cases e)
  from Cons.prems have wf: "omap_wf m" and lt: "\<forall>x \<in> set m. k' < fst x"
    by (auto simp: omap_wf_def e)
  show ?case
  proof (cases "k \<le> k'")
    case True
    with lt have "\<forall>x \<in> set m. fst x \<noteq> k" by force
    then show ?thesis using True by (auto simp: e)
  next
    case False
    then show ?thesis using Cons.IH[OF wf] by (auto simp: e)
  qed
qed simp

lemma omap_set_erase: "set (omap_erase k m) = {e \<in> set m. fst e \<noteq> k}"
  by (auto simp: omap_erase_def)

lemma omap_set_map: "set (omap_map f m) = (\<lambda>(k, v). (k, f v)) ` set m"
  by (simp add: omap_map_def)

lemma length_omap_erase_le [simp]: "length (omap_erase k m) \<le> length m"
  by (simp add: omap_erase_def)

lemma length_omap_insert_new:
  "omap_find m k = None \<Longrightarrow> length (omap_insert k v m) = Suc (length m)"
  by (induction m) (auto split: if_splits)

lemma omap_find_emplace [omap_simps]:
  "omap_find (omap_emplace k v m) k' =
     (if k' = k then (case omap_find m k of None \<Rightarrow> Some v | Some w \<Rightarrow> Some w)
      else omap_find m k')"
  by (auto simp: omap_emplace_def split: option.splits)

lemma omap_wf_emplace [simp, intro]: "omap_wf m \<Longrightarrow> omap_wf (omap_emplace k v m)"
  by (auto simp: omap_emplace_def split: option.splits)

section \<open>Counting loops\<close>

text \<open>
  The loop \<open>for (i = lo; i < limit; ++i) if (P(i)) return i;\<close> over 32-bit indices: the
  guard \<open>i < limit\<close> keeps \<open>i + 1\<close> from wrapping around.
\<close>

lemma unat_Suc_word:
  fixes i limit :: "'a::len word"
  assumes "i < limit"
  shows "unat (i + 1) = Suc (unat i)"
proof -
  have "Suc (unat i) < 2 ^ LENGTH('a)"
    using assms unsigned_less[of limit, where 'a = nat]
    by (auto simp: word_less_nat_alt intro: le_less_trans[OF Suc_leI])
  then show ?thesis by (simp add: unat_word_ariths)
qed

function first_index :: "(u32 \<Rightarrow> bool) \<Rightarrow> u32 \<Rightarrow> u32 \<Rightarrow> u32 option" where
  "first_index P i limit =
     (if i < limit then (if P i then Some i else first_index P (i + 1) limit) else None)"
  by pat_completeness auto
termination
proof (relation "measure (\<lambda>(P, i, limit). unat limit - unat i)")
  fix P :: "u32 \<Rightarrow> bool" and i limit :: u32
  assume lt: "i < limit"
  then show "((P, i + 1, limit), P, i, limit) \<in> measure (\<lambda>(P, i, limit). unat limit - unat i)"
    by (simp add: unat_Suc_word word_less_nat_alt)
qed simp

declare first_index.simps [simp del]

lemma first_index_Some:
  "first_index P i limit = Some c \<Longrightarrow> i \<le> c \<and> c < limit \<and> P c"
proof (induction P i limit rule: first_index.induct)
  case (1 P i limit)
  show ?case
  proof (cases "i < limit \<and> \<not> P i")
    case True
    with 1 have "i + 1 \<le> c \<and> c < limit \<and> P c" by (simp add: first_index.simps[of P i])
    moreover from True have "i \<le> i + 1"
      using unat_Suc_word[of i limit] by (simp add: word_le_nat_alt)
    ultimately show ?thesis by auto
  next
    case False
    with 1(2) show ?thesis by (auto simp: first_index.simps[of P i] split: if_splits)
  qed
qed

lemma first_index_None:
  "first_index P i limit = None \<Longrightarrow> i \<le> c \<Longrightarrow> c < limit \<Longrightarrow> \<not> P c"
proof (induction P i limit rule: first_index.induct)
  case (1 P i limit)
  from 1(3,4) have lt: "i < limit" by simp
  with 1(2) have no: "\<not> P i" and rest: "first_index P (i + 1) limit = None"
    by (auto simp: first_index.simps[of P i] split: if_splits)
  show ?case
  proof (cases "c = i")
    case False
    with 1(3) unat_Suc_word[OF lt] have "i + 1 \<le> c"
      by (auto simp: word_le_nat_alt word_unat_eq_iff)
    with 1(1)[OF lt no rest] 1(4) show ?thesis by simp
  qed (simp add: no)
qed

section \<open>Words\<close>

lemma unat_ucast_32_64 [simp]: "unat (ucast (w :: u32) :: u64) = unat w"
  by (simp add: unsigned_ucast_eq take_bit_nat_eq_self less_le_trans[OF unsigned_less])

lemma and_not_eq_0_iff: "(f :: 'a::len word) AND NOT m = 0 \<longleftrightarrow> f AND m = f"
proof
  assume "f AND NOT m = 0"
  moreover have "f = (f AND m) OR (f AND NOT m)" by (rule bit_word_eqI) (auto simp: bit_simps)
  ultimately show "f AND m = f" by simp
next
  assume "f AND m = f"
  then have "f AND NOT m = (f AND m) AND NOT m" by simp
  also have "\<dots> = 0" by (rule bit_word_eqI) (auto simp: bit_simps)
  finally show "f AND NOT m = 0" .
qed

section \<open>Fixed-size character arrays\<close>

text \<open>
  A \<open>char[n]\<close> is a list of \<open>n\<close> characters. \<open>c_str\<close> is the part before the first NUL
  (\<open>std::find(begin, end, NUL)\<close>), and \<open>strip_back\<close> drops trailing spaces, as the loops
  \<open>while (!value.empty() && value.back() == ' ') value.remove_suffix(1);\<close> do.
\<close>

abbreviation nul :: char where
  "nul \<equiv> CHR 0x00"

definition c_str :: "string \<Rightarrow> string" where
  "c_str cs = takeWhile (\<lambda>c. c \<noteq> nul) cs"

definition strip_back :: "string \<Rightarrow> string" where
  "strip_back cs = rev (dropWhile (\<lambda>c. c = CHR 0x20) (rev cs))"

definition pad_to :: "nat \<Rightarrow> string \<Rightarrow> string" where
  "pad_to n cs = cs @ replicate (n - length cs) nul"

definition char_code :: "char \<Rightarrow> nat" where
  "char_code c = of_char c"

definition printable :: "char \<Rightarrow> bool" where
  "printable c \<longleftrightarrow> 0x20 \<le> char_code c \<and> char_code c \<le> 0x7e"

lemma char_code_simps [simp]: "char_code nul = 0" "char_code (CHR 0x20) = 0x20"
  by (simp_all add: char_code_def)

lemma printable_not_nul: "printable c \<Longrightarrow> c \<noteq> nul"
  by (auto simp: printable_def)

lemma strip_back_prefix: "\<exists>n. cs = strip_back cs @ replicate n (CHR 0x20)"
proof -
  have "rev cs = takeWhile (\<lambda>c. c = CHR 0x20) (rev cs) @ dropWhile (\<lambda>c. c = CHR 0x20) (rev cs)"
    by simp
  then have "cs = rev (dropWhile (\<lambda>c. c = CHR 0x20) (rev cs)) @ rev (takeWhile (\<lambda>c. c = CHR 0x20) (rev cs))"
    by (metis rev_append rev_rev_ident)
  moreover have "rev (takeWhile (\<lambda>c. c = CHR 0x20) (rev cs))
      = replicate (length (takeWhile (\<lambda>c. c = CHR 0x20) (rev cs))) (CHR 0x20)"
    by (rule replicate_eqI) (auto dest: set_takeWhileD)
  ultimately show ?thesis unfolding strip_back_def by metis
qed

lemma set_strip_back: "set (strip_back cs) \<subseteq> set cs"
  by (auto simp: strip_back_def dest: set_dropWhileD)

lemma length_strip_back: "length (strip_back cs) \<le> length cs"
  by (metis length_dropWhile_le length_rev strip_back_def)

lemma strip_back_last: "strip_back cs \<noteq> [] \<Longrightarrow> last (strip_back cs) \<noteq> CHR 0x20"
  unfolding strip_back_def using hd_dropWhile[of "\<lambda>c. c = CHR 0x20" "rev cs"]
  by (simp add: last_rev)

lemma strip_back_id: "cs = [] \<or> last cs \<noteq> CHR 0x20 \<Longrightarrow> strip_back cs = cs"
  by (cases cs rule: rev_cases) (auto simp: strip_back_def)

lemma strip_back_idem [simp]: "strip_back (strip_back cs) = strip_back cs"
  by (rule strip_back_id) (use strip_back_last in blast)

lemma length_c_str: "length (c_str cs) \<le> length cs"
  by (simp add: c_str_def length_takeWhile_le)

lemma c_str_pad_to: "nul \<notin> set cs \<Longrightarrow> c_str (pad_to n cs) = cs"
proof -
  assume "nul \<notin> set cs"
  then have "c_str (cs @ replicate m nul) = cs" for m
    by (induction cs) (cases m; auto simp: c_str_def)+
  then show ?thesis by (simp add: pad_to_def)
qed

lemma nul_not_in_c_str: "nul \<notin> set (c_str cs)"
  by (auto simp: c_str_def dest: set_takeWhileD)

lemma length_pad_to [simp]: "length cs \<le> n \<Longrightarrow> length (pad_to n cs) = n"
  by (simp add: pad_to_def)

section \<open>Decimal text\<close>

text \<open>\<open>std::to_string\<close> and \<open>operator<<\<close> of an unsigned integer: its decimal digits.\<close>

fun decimal :: "nat \<Rightarrow> string" where
  "decimal n =
     (if n < 10 then [char_of (n + 48)] else decimal (n div 10) @ [char_of (n mod 10 + 48)])"

declare decimal.simps [simp del]

section \<open>Components whose correctness is an invariant\<close>

text \<open>
  Several components promise the same thing: the state a client can reach by any sequence of
  operations satisfies an invariant. A component provides its step function, its admissible
  start states, the budget of steps (\<open>guard\<close>) for which the promise is made, and the
  one-step preservation proof; the run lemmas are proved here once.
\<close>

locale step_invariant =
  fixes step :: "'op \<Rightarrow> 's \<Rightarrow> 's"
    and inv :: "'s \<Rightarrow> bool"
    and guard :: "'op \<Rightarrow> 's \<Rightarrow> bool"
  assumes step_inv: "inv s \<Longrightarrow> guard x s \<Longrightarrow> inv (step x s)"
begin

fun guarded :: "'op list \<Rightarrow> 's \<Rightarrow> bool" where
  "guarded [] s \<longleftrightarrow> True"
| "guarded (x # xs) s \<longleftrightarrow> guard x s \<and> guarded xs (step x s)"

lemma run_inv: "inv s \<Longrightarrow> guarded xs s \<Longrightarrow> inv (fold step xs s)"
  by (induction xs arbitrary: s) (auto intro: step_inv)

lemma run_inv_unguarded:
  "inv s \<Longrightarrow> (\<And>x t. inv t \<Longrightarrow> guard x t) \<Longrightarrow> inv (fold step xs s)"
  by (induction xs arbitrary: s) (auto intro: step_inv)

lemma run_relation:
  assumes "reflp R" and "transp R"
    and "\<And>x t. inv t \<Longrightarrow> guard x t \<Longrightarrow> R t (step x t)"
    and "inv s" and "guarded xs s"
  shows "R s (fold step xs s)"
  using assms(4,5)
proof (induction xs arbitrary: s)
  case Nil
  then show ?case using assms(1) by (simp add: reflpD)
next
  case (Cons x xs)
  then have "R s (step x s)" and "R (step x s) (fold step xs (step x s))"
    using assms(3) step_inv by auto
  then show ?case using assms(2) by (auto dest: transpD)
qed

end

end
