(* ===== verification/Control_Protocol.thy ===== *)
theory Control_Protocol
  imports VDD_Prelude
begin

text \<open>
  The control protocol (\<open>control_protocol.h\<close>, \<open>control_protocol.cpp\<close>): protocol constants,
  the request and result structures that cross the IOCTL boundary, and the validation of every
  request. A \<open>char\<close> array of the wire format is a list of 32 characters (\<open>name_wf\<close>), every
  integer keeps its C++ width, and a validator returns the first failed check in source order.
\<close>

section \<open>Identifiers and constants\<close>

record guid =
  data1 :: u32
  data2 :: u16
  data3 :: u16
  data4 :: "u8 list"

definition zero_guid :: guid where
  "zero_guid = \<lparr>data1 = 0, data2 = 0, data3 = 0, data4 = replicate 8 0\<rparr>"

definition guid_wf :: "guid \<Rightarrow> bool" where
  "guid_wf g \<longleftrightarrow> length (data4 g) = 8"

definition kDeviceInterfaceGuid :: guid where
  "kDeviceInterfaceGuid =
     \<lparr>data1 = 0x5f894d6c, data2 = 0x3a69, data3 = 0x48a2,
      data4 = [0x86, 0xef, 0xe4, 0xc6, 0x71, 0x93, 0x2d, 0x63]\<rparr>"

definition kApiNamespaceGuid :: guid where
  "kApiNamespaceGuid =
     \<lparr>data1 = 0xa2864284, data2 = 0x77fe, data3 = 0x4336,
      data4 = [0xa8, 0x28, 0x00, 0xfe, 0xec, 0x89, 0xeb, 0xac]\<rparr>"

abbreviation (input) kProtocolVersionMajor :: u16 where "kProtocolVersionMajor \<equiv> 3"
abbreviation (input) kProtocolVersionMinor :: u16 where "kProtocolVersionMinor \<equiv> 8"
abbreviation (input) kProtocolVersionPatch :: u16 where "kProtocolVersionPatch \<equiv> 0"
abbreviation (input) kMinimumCompatibleProtocolVersionMinor :: u16 where
  "kMinimumCompatibleProtocolVersionMinor \<equiv> 6"

abbreviation (input) kDisplayNameChars :: nat where "kDisplayNameChars \<equiv> 32"
abbreviation (input) kDefaultLeaseTimeoutMs :: u32 where "kDefaultLeaseTimeoutMs \<equiv> 10000"
abbreviation (input) kMinLeaseTimeoutMs :: u32 where "kMinLeaseTimeoutMs \<equiv> 3000"
abbreviation (input) kMaxLeaseTimeoutMs :: u32 where "kMaxLeaseTimeoutMs \<equiv> 300000"
abbreviation (input) kMinOpaqueLeaseId :: u64 where "kMinOpaqueLeaseId \<equiv> 0x6000000000000000"
abbreviation (input) kOwnerCapabilityBytes :: nat where "kOwnerCapabilityBytes \<equiv> 32"

abbreviation (input) kMinWidth :: u32 where "kMinWidth \<equiv> 320"
abbreviation (input) kMinHeight :: u32 where "kMinHeight \<equiv> 200"
abbreviation (input) kMaxWidth :: u32 where "kMaxWidth \<equiv> 7680"
abbreviation (input) kMaxHeight :: u32 where "kMaxHeight \<equiv> 4320"
abbreviation (input) kMinRefreshRateMilliHz :: u32 where "kMinRefreshRateMilliHz \<equiv> 1"
abbreviation (input) kDefaultPhysicalWidthMillimeters :: u32 where
  "kDefaultPhysicalWidthMillimeters \<equiv> 600"
abbreviation (input) kDefaultPhysicalHeightMillimeters :: u32 where
  "kDefaultPhysicalHeightMillimeters \<equiv> 340"
abbreviation (input) kMinPhysicalSizeMillimeters :: u32 where "kMinPhysicalSizeMillimeters \<equiv> 10"
abbreviation (input) kMaxPhysicalSizeMillimeters :: u32 where "kMaxPhysicalSizeMillimeters \<equiv> 2550"
abbreviation (input) kDefaultHdrMaxLuminanceNits :: u32 where "kDefaultHdrMaxLuminanceNits \<equiv> 1000"
abbreviation (input) kMinHdrMaxLuminanceNits :: u32 where "kMinHdrMaxLuminanceNits \<equiv> 400"
abbreviation (input) kMaxHdrMaxLuminanceNits :: u32 where "kMaxHdrMaxLuminanceNits \<equiv> 2000"

abbreviation (input) kCreateTemporaryDisplayFlagEphemeralIdentity :: u32 where
  "kCreateTemporaryDisplayFlagEphemeralIdentity \<equiv> 1"
abbreviation (input) kCreateTemporaryDisplayFlagRequestedResolutionOnly :: u32 where
  "kCreateTemporaryDisplayFlagRequestedResolutionOnly \<equiv> 2"
abbreviation (input) kCreateTemporaryDisplayKnownFlags :: u32 where
  "kCreateTemporaryDisplayKnownFlags \<equiv>
     kCreateTemporaryDisplayFlagEphemeralIdentity OR
     kCreateTemporaryDisplayFlagRequestedResolutionOnly"
abbreviation (input) kPermanentDisplayCountKnownFlags :: u32 where
  "kPermanentDisplayCountKnownFlags \<equiv> 0"
abbreviation (input) kMaxDisplayStateEntries :: u32 where "kMaxDisplayStateEntries \<equiv> 16"
abbreviation (input) kDisplayStateKindPermanent :: u32 where "kDisplayStateKindPermanent \<equiv> 1"
abbreviation (input) kDisplayStateKindTemporary :: u32 where "kDisplayStateKindTemporary \<equiv> 2"
abbreviation (input) kDisplayStateFlagHdrSupported :: u32 where "kDisplayStateFlagHdrSupported \<equiv> 1"
abbreviation (input) kDisplayStateFlagRetainIdentity :: u32 where "kDisplayStateFlagRetainIdentity \<equiv> 2"
abbreviation (input) kDisplayStateFlagRequestedResolutionOnly :: u32 where
  "kDisplayStateFlagRequestedResolutionOnly \<equiv> 4"
abbreviation (input) kDisplayManifestVersion :: u32 where "kDisplayManifestVersion \<equiv> 3"
abbreviation (input) kMaxPermanentDisplayProfiles :: u32 where "kMaxPermanentDisplayProfiles \<equiv> 8"
abbreviation (input) kMaxAllowedModesPerProfile :: u32 where "kMaxAllowedModesPerProfile \<equiv> 4"
abbreviation (input) kDisplayManifestProfileFlagHdrSupported :: u32 where
  "kDisplayManifestProfileFlagHdrSupported \<equiv> 1"
abbreviation (input) kDisplayManifestProfileFlagRetainIdentity :: u32 where
  "kDisplayManifestProfileFlagRetainIdentity \<equiv> 2"
abbreviation (input) kDisplayManifestProfileFlagPermanentIdentity :: u32 where
  "kDisplayManifestProfileFlagPermanentIdentity \<equiv> 4"
abbreviation (input) kDisplayManifestProfileKnownFlags :: u32 where
  "kDisplayManifestProfileKnownFlags \<equiv>
     kDisplayManifestProfileFlagHdrSupported OR
     kDisplayManifestProfileFlagRetainIdentity OR
     kDisplayManifestProfileFlagPermanentIdentity"
abbreviation (input) kDisplayManifestLayoutPolicyNone :: u32 where
  "kDisplayManifestLayoutPolicyNone \<equiv> 0"
abbreviation (input) kDisplayManifestLayoutPolicyApply :: u32 where
  "kDisplayManifestLayoutPolicyApply \<equiv> 1"
abbreviation (input) kDisplayManifestLayoutPolicyApplyAndPersist :: u32 where
  "kDisplayManifestLayoutPolicyApplyAndPersist \<equiv> 2"
abbreviation (input) kDisplayManifestOrientationDefault :: u32 where
  "kDisplayManifestOrientationDefault \<equiv> 0"

section \<open>Wire structures\<close>

record adapter_luid =
  low_part :: u32
  high_part :: u32

text \<open>
  \<open>high_part\<close> is a signed \<open>int32_t\<close>; the code only copies and compares it, so the model keeps
  its two's complement bits. The same holds for the manifest's \<open>position_x\<close> and \<open>position_y\<close>.
\<close>

record create_temporary_display_request =
  ctd_api_namespace :: guid
  ctd_lease_id :: u64
  ctd_display_id :: u64
  ctd_width :: u32
  ctd_height :: u32
  ctd_physical_width_mm :: u32
  ctd_physical_height_mm :: u32
  ctd_refresh_rate_millihz :: u32
  ctd_requested_timeout_ms :: u32
  ctd_display_name :: string
  ctd_flags :: u32
  ctd_hdr_max_luminance_nits :: u32

record create_temporary_display_result =
  ctr_api_namespace :: guid
  ctr_lease_id :: u64
  ctr_display_id :: u64
  ctr_os_adapter_luid :: adapter_luid
  ctr_target_id :: u32
  ctr_connector_index :: u32
  ctr_effective_timeout_ms :: u32

record set_render_adapter_request =
  sra_api_namespace :: guid
  sra_adapter_luid :: adapter_luid
  sra_flags :: u32
  sra_reserved :: u32

text \<open>An owner capability is an opaque token of 32 bytes.\<close>

type_synonym owner_capability = "u8 list"

record create_temporary_display_owned_request =
  cto_display :: create_temporary_display_request
  cto_owner_capability :: owner_capability

record reclaim_temporary_display_request =
  rtd_api_namespace :: guid
  rtd_display_id :: u64
  rtd_new_lease_id :: u64
  rtd_requested_timeout_ms :: u32
  rtd_reserved :: u32
  rtd_owner_capability :: owner_capability

record reclaim_temporary_display_result =
  rtr_api_namespace :: guid
  rtr_lease_id :: u64
  rtr_display_id :: u64
  rtr_connector_index :: u32
  rtr_effective_timeout_ms :: u32
  rtr_temporary_display_count :: u32

record lease_display_request =
  ldr_api_namespace :: guid
  ldr_lease_id :: u64
  ldr_display_id :: u64

record lease_request =
  lr_api_namespace :: guid
  lr_lease_id :: u64
  lr_requested_timeout_ms :: u32
  lr_reserved :: u32

record query_lease_result =
  qlr_lease_id :: u64
  qlr_temporary_display_count :: u32
  qlr_effective_timeout_ms :: u32
  qlr_remaining_ms :: u32
  qlr_lease_exists :: u32
  qlr_pending_departure_count :: u32

record permanent_display_count_request =
  pdc_api_namespace :: guid
  pdc_display_count :: u32
  pdc_flags :: u32
  pdc_width :: u32
  pdc_height :: u32
  pdc_physical_width_mm :: u32
  pdc_physical_height_mm :: u32
  pdc_refresh_rate_millihz :: u32
  pdc_display_name :: string

record permanent_display_count_result =
  pdr_current_display_count :: u32
  pdr_max_display_count :: u32
  pdr_temporary_display_count :: u32
  pdr_width :: u32
  pdr_height :: u32
  pdr_physical_width_mm :: u32
  pdr_physical_height_mm :: u32
  pdr_refresh_rate_millihz :: u32
  pdr_display_name :: string

record display_state_entry =
  dse_kind :: u32
  dse_flags :: u32
  dse_lease_id :: u64
  dse_display_id :: u64
  dse_container_id :: guid
  dse_connector_index :: u32
  dse_product_code :: u32
  dse_serial_number :: u32
  dse_width :: u32
  dse_height :: u32
  dse_physical_width_mm :: u32
  dse_physical_height_mm :: u32
  dse_refresh_rate_millihz :: u32
  dse_display_name :: string

record query_display_state_result =
  qds_permanent_display_count :: u32
  qds_temporary_display_count :: u32
  qds_entry_count :: u32
  qds_entries :: "display_state_entry list"

record display_mode =
  dm_width :: u32
  dm_height :: u32
  dm_refresh_rate_millihz :: u32

record display_manifest_profile =
  dmp_flags :: u32
  dmp_connector_index :: u32
  dmp_display_id :: u64
  dmp_container_id :: guid
  dmp_manufacturer_id :: string
  dmp_product_code :: u32
  dmp_serial_number :: u32
  dmp_physical_width_mm :: u32
  dmp_physical_height_mm :: u32
  dmp_native_mode_index :: u32
  dmp_allowed_mode_count :: u32
  dmp_layout_policy :: u32
  dmp_position_x :: u32
  dmp_position_y :: u32
  dmp_orientation :: u32
  dmp_allowed_modes :: "display_mode list"
  dmp_display_name :: string

record display_manifest =
  man_api_namespace :: guid
  man_version :: u32
  man_profile_count :: u32
  man_max_profile_count :: u32
  man_reserved :: u32
  man_profiles :: "display_manifest_profile list"

text \<open>The array lengths the C++ types fix.\<close>

definition name_wf :: "string \<Rightarrow> bool" where
  "name_wf cs \<longleftrightarrow> length cs = kDisplayNameChars"

definition profile_wf :: "display_manifest_profile \<Rightarrow> bool" where
  "profile_wf p \<longleftrightarrow>
     name_wf (dmp_display_name p) \<and> length (dmp_manufacturer_id p) = 4 \<and>
     length (dmp_allowed_modes p) = unat kMaxAllowedModesPerProfile"

definition manifest_wf :: "display_manifest \<Rightarrow> bool" where
  "manifest_wf m \<longleftrightarrow>
     length (man_profiles m) = unat kMaxPermanentDisplayProfiles \<and>
     (\<forall>p \<in> set (man_profiles m). profile_wf p)"

text \<open>The value-initialised structures \<open>DisplayMode {}\<close>, \<open>DisplayManifestProfile {}\<close>, \<open>DisplayManifest {}\<close>.\<close>

definition default_mode :: display_mode where
  "default_mode = \<lparr>dm_width = 0, dm_height = 0, dm_refresh_rate_millihz = 0\<rparr>"

definition default_profile :: display_manifest_profile where
  "default_profile =
     \<lparr>dmp_flags = 0, dmp_connector_index = 0, dmp_display_id = 0, dmp_container_id = zero_guid,
      dmp_manufacturer_id = ''SDD'' @ [nul], dmp_product_code = 0, dmp_serial_number = 0,
      dmp_physical_width_mm = 0, dmp_physical_height_mm = 0, dmp_native_mode_index = 0,
      dmp_allowed_mode_count = 0, dmp_layout_policy = 0, dmp_position_x = 0, dmp_position_y = 0,
      dmp_orientation = 0, dmp_allowed_modes = replicate 4 default_mode,
      dmp_display_name = replicate kDisplayNameChars nul\<rparr>"

definition default_manifest :: display_manifest where
  "default_manifest =
     \<lparr>man_api_namespace = kApiNamespaceGuid, man_version = kDisplayManifestVersion,
      man_profile_count = 0, man_max_profile_count = 0, man_reserved = 0,
      man_profiles = replicate 8 default_profile\<rparr>"

definition default_permanent_request :: permanent_display_count_request where
  "default_permanent_request =
     \<lparr>pdc_api_namespace = kApiNamespaceGuid, pdc_display_count = 0, pdc_flags = 0,
      pdc_width = 1920, pdc_height = 1080,
      pdc_physical_width_mm = kDefaultPhysicalWidthMillimeters,
      pdc_physical_height_mm = kDefaultPhysicalHeightMillimeters,
      pdc_refresh_rate_millihz = 60000,
      pdc_display_name = pad_to kDisplayNameChars ''Sunshine Display''\<rparr>"

end
