(* ===== verification/Request_Validation.thy ===== *)
theory Request_Validation
  imports Control_Protocol
begin

text \<open>
  \<open>control_protocol.cpp\<close>: name canonicalisation, timeout normalisation and the validation of
  every request. Each validator is a chain of early returns, first error first; the lemmas say
  exactly which requests pass.
\<close>

section \<open>Validation results\<close>

datatype validation_error =
    VNone
  | WrongApiNamespace
  | MissingLeaseId
  | MissingDisplayId
  | MissingOwnerCapability
  | InvalidFlags
  | InvalidWidth
  | InvalidHeight
  | InvalidPhysicalSize
  | InvalidHdrLuminance
  | InvalidRefreshRate
  | InvalidDisplayName
  | PermanentDisplayCountTooHigh
  | InvalidManifestVersion
  | InvalidConnectorIndex
  | InvalidModeCount
  | InvalidLayoutPolicy
  | InvalidOrientation
  | InvalidManufacturerId
  | InvalidProductCode
  | DuplicateManifestIdentity
  | InvalidReservedField
  | InvalidContainerId
  | InvalidSerialNumber

record validated_create_temporary_display =
  vct_request :: create_temporary_display_request
  vct_effective_timeout_ms :: u32
  vct_display_name :: string

section \<open>Helpers\<close>

definition kMaxModePixels :: u64 where
  "kMaxModePixels = 7680 * 4320"

definition is_upper :: "char \<Rightarrow> bool" where
  "is_upper c \<longleftrightarrow> char_code (CHR ''A'') \<le> char_code c \<and> char_code c \<le> char_code (CHR ''Z'')"

definition valid_manufacturer_id :: "string \<Rightarrow> bool" where
  "valid_manufacturer_id m \<longleftrightarrow>
     is_upper (m ! 0) \<and> is_upper (m ! 1) \<and> is_upper (m ! 2) \<and> m ! 3 = nul"

definition is_zero_guid :: "guid \<Rightarrow> bool" where
  "is_zero_guid g \<longleftrightarrow> g = zero_guid"

definition validate_display_mode :: "u32 \<Rightarrow> u32 \<Rightarrow> u32 \<Rightarrow> validation_error" where
  "validate_display_mode width height refresh_rate_millihz =
     (if width < kMinWidth \<or> width > kMaxWidth then InvalidWidth
      else if height < kMinHeight \<or> height > kMaxHeight then InvalidHeight
      else if refresh_rate_millihz < kMinRefreshRateMilliHz then InvalidRefreshRate
      else
        let pixels = (ucast width :: u64) * ucast height in
        if pixels = 0 \<or> pixels > kMaxModePixels then InvalidWidth
        else VNone)"

definition is_valid_api_namespace :: "guid \<Rightarrow> bool" where
  "is_valid_api_namespace g \<longleftrightarrow> g = kApiNamespaceGuid"

definition trim_display_name :: "string \<Rightarrow> string" where
  "trim_display_name display_name = strip_back (c_str display_name)"

definition canonicalize_display_name :: "string \<Rightarrow> string option" where
  "canonicalize_display_name input =
     (let trimmed = strip_back (c_str input); size = length trimmed in
      if size = 0 \<or> size \<ge> kDisplayNameChars then None
      else if \<exists>c \<in> set trimmed. \<not> printable c then None
      else Some (pad_to kDisplayNameChars trimmed))"

definition set_default_permanent_display_settings ::
  "permanent_display_count_request \<Rightarrow> permanent_display_count_request" where
  "set_default_permanent_display_settings r0 =
     (let r1 = (if pdc_width r0 = 0 then r0\<lparr>pdc_width := 1920\<rparr> else r0);
          r2 = (if pdc_height r1 = 0 then r1\<lparr>pdc_height := 1080\<rparr> else r1);
          r3 = (if pdc_physical_width_mm r2 = 0
                then r2\<lparr>pdc_physical_width_mm := kDefaultPhysicalWidthMillimeters\<rparr> else r2);
          r4 = (if pdc_physical_height_mm r3 = 0
                then r3\<lparr>pdc_physical_height_mm := kDefaultPhysicalHeightMillimeters\<rparr> else r3);
          r5 = (if pdc_refresh_rate_millihz r4 = 0
                then r4\<lparr>pdc_refresh_rate_millihz := 60000\<rparr> else r4)
      in
      if trim_display_name (pdc_display_name r5) = []
      then r5\<lparr>pdc_display_name := pad_to kDisplayNameChars ''Sunshine Display''\<rparr>
      else
        (case canonicalize_display_name (pdc_display_name r5) of
           None \<Rightarrow> r5
         | Some canonical \<Rightarrow> r5\<lparr>pdc_display_name := canonical\<rparr>))"

definition normalize_timeout_ms :: "u32 \<Rightarrow> u32" where
  "normalize_timeout_ms requested_timeout_ms =
     (if requested_timeout_ms = 0 then kDefaultLeaseTimeoutMs
      else max kMinLeaseTimeoutMs (min requested_timeout_ms kMaxLeaseTimeoutMs))"

definition all_zero_capability :: "owner_capability \<Rightarrow> bool" where
  "all_zero_capability bytes \<longleftrightarrow> list_all (\<lambda>byte. byte = 0) bytes"

section \<open>Request validators\<close>

definition physical_size_out_of_range :: "u32 \<Rightarrow> u32 \<Rightarrow> bool" where
  "physical_size_out_of_range w h \<longleftrightarrow>
     w < kMinPhysicalSizeMillimeters \<or> w > kMaxPhysicalSizeMillimeters \<or>
     h < kMinPhysicalSizeMillimeters \<or> h > kMaxPhysicalSizeMillimeters"

text \<open>The pair is the returned error and what \<open>*validated\<close> receives when there is none.\<close>

definition validate_create_temporary_display ::
  "create_temporary_display_request \<Rightarrow> validation_error \<times> validated_create_temporary_display option" where
  "validate_create_temporary_display request =
     (if \<not> is_valid_api_namespace (ctd_api_namespace request) then (WrongApiNamespace, None)
      else if ctd_lease_id request < kMinOpaqueLeaseId then (MissingLeaseId, None)
      else if ctd_display_id request = 0 then (MissingDisplayId, None)
      else if ctd_flags request AND NOT kCreateTemporaryDisplayKnownFlags \<noteq> 0
      then (InvalidFlags, None)
      else
        let mode_validation =
          validate_display_mode (ctd_width request) (ctd_height request)
            (ctd_refresh_rate_millihz request) in
        if mode_validation \<noteq> VNone then (mode_validation, None)
        else
          let physical_width_mm =
                (if ctd_physical_width_mm request = 0 then kDefaultPhysicalWidthMillimeters
                 else ctd_physical_width_mm request);
              physical_height_mm =
                (if ctd_physical_height_mm request = 0 then kDefaultPhysicalHeightMillimeters
                 else ctd_physical_height_mm request) in
          if physical_size_out_of_range physical_width_mm physical_height_mm
          then (InvalidPhysicalSize, None)
          else
            let hdr_max_luminance_nits =
                  (if ctd_hdr_max_luminance_nits request = 0 then kDefaultHdrMaxLuminanceNits
                   else ctd_hdr_max_luminance_nits request) in
            if hdr_max_luminance_nits < kMinHdrMaxLuminanceNits \<or>
               hdr_max_luminance_nits > kMaxHdrMaxLuminanceNits
            then (InvalidHdrLuminance, None)
            else
              (case canonicalize_display_name (ctd_display_name request) of
                 None \<Rightarrow> (InvalidDisplayName, None)
               | Some canonical \<Rightarrow>
                   (VNone,
                    Some \<lparr>vct_request = request
                            \<lparr>ctd_physical_width_mm := physical_width_mm,
                             ctd_physical_height_mm := physical_height_mm,
                             ctd_hdr_max_luminance_nits := hdr_max_luminance_nits,
                             ctd_display_name := canonical\<rparr>,
                          vct_effective_timeout_ms =
                            normalize_timeout_ms (ctd_requested_timeout_ms request),
                          vct_display_name = trim_display_name canonical\<rparr>)))"

definition validate_create_temporary_display_owned ::
  "create_temporary_display_owned_request \<Rightarrow> validation_error" where
  "validate_create_temporary_display_owned request =
     (let validation = fst (validate_create_temporary_display (cto_display request)) in
      if validation \<noteq> VNone then validation
      else if all_zero_capability (cto_owner_capability request) then MissingOwnerCapability
      else VNone)"

definition validate_reclaim_temporary_display ::
  "reclaim_temporary_display_request \<Rightarrow> validation_error" where
  "validate_reclaim_temporary_display request =
     (if \<not> is_valid_api_namespace (rtd_api_namespace request) then WrongApiNamespace
      else if rtd_new_lease_id request < kMinOpaqueLeaseId then MissingLeaseId
      else if rtd_display_id request = 0 then MissingDisplayId
      else if rtd_reserved request \<noteq> 0 then InvalidReservedField
      else if all_zero_capability (rtd_owner_capability request) then MissingOwnerCapability
      else VNone)"

definition validate_lease_display_request :: "lease_display_request \<Rightarrow> validation_error" where
  "validate_lease_display_request request =
     (if \<not> is_valid_api_namespace (ldr_api_namespace request) then WrongApiNamespace
      else if ldr_lease_id request < kMinOpaqueLeaseId then MissingLeaseId
      else if ldr_display_id request = 0 then MissingDisplayId
      else VNone)"

definition validate_lease_request :: "lease_request \<Rightarrow> validation_error" where
  "validate_lease_request request =
     (if \<not> is_valid_api_namespace (lr_api_namespace request) then WrongApiNamespace
      else if lr_reserved request \<noteq> 0 then InvalidReservedField
      else if lr_lease_id request < kMinOpaqueLeaseId then MissingLeaseId
      else VNone)"

definition validate_permanent_display_count ::
  "permanent_display_count_request \<Rightarrow> u32 \<Rightarrow> validation_error" where
  "validate_permanent_display_count request max_display_count =
     (if \<not> is_valid_api_namespace (pdc_api_namespace request) then WrongApiNamespace
      else if pdc_flags request AND NOT kPermanentDisplayCountKnownFlags \<noteq> 0 then InvalidFlags
      else if pdc_display_count request > max_display_count then PermanentDisplayCountTooHigh
      else
        let mode_validation =
          validate_display_mode (pdc_width request) (pdc_height request)
            (pdc_refresh_rate_millihz request) in
        if mode_validation \<noteq> VNone then mode_validation
        else if physical_size_out_of_range (pdc_physical_width_mm request)
                  (pdc_physical_height_mm request)
        then InvalidPhysicalSize
        else if canonicalize_display_name (pdc_display_name request) = None
        then InvalidDisplayName
        else VNone)"

fun validate_modes :: "display_mode list \<Rightarrow> validation_error" where
  "validate_modes [] = VNone"
| "validate_modes (mode # modes) =
     (let mode_validation =
        validate_display_mode (dm_width mode) (dm_height mode) (dm_refresh_rate_millihz mode) in
      if mode_validation \<noteq> VNone then mode_validation else validate_modes modes)"

text \<open>
  One iteration of the profile loop. \<open>used_connectors\<close> is the \<open>bool[8]\<close> array; the four
  parallel \<open>used_*\<close> arrays hold, below the current index, the identity fields of the profiles
  already checked, which \<open>previous\<close> lists.
\<close>

definition validate_profile ::
  "u32 \<Rightarrow> bool list \<Rightarrow> display_manifest_profile list \<Rightarrow> display_manifest_profile \<Rightarrow> validation_error" where
  "validate_profile max_display_count used_connectors previous profile =
     (if dmp_flags profile AND NOT kDisplayManifestProfileKnownFlags \<noteq> 0 then InvalidFlags
      else if dmp_flags profile AND kDisplayManifestProfileFlagPermanentIdentity = 0
      then InvalidFlags
      else if dmp_connector_index profile \<ge> max_display_count \<or>
              dmp_connector_index profile \<ge> kMaxPermanentDisplayProfiles \<or>
              used_connectors ! unat (dmp_connector_index profile)
      then InvalidConnectorIndex
      else if dmp_display_id profile = 0 then MissingDisplayId
      else if is_zero_guid (dmp_container_id profile) then InvalidContainerId
      else if dmp_product_code profile = 0 then InvalidProductCode
      else if dmp_serial_number profile = 0 then InvalidSerialNumber
      else if dmp_product_code profile > 0xffff then InvalidProductCode
      else if \<exists>q \<in> set previous.
                dmp_display_id q = dmp_display_id profile \<or>
                dmp_container_id q = dmp_container_id profile \<or>
                dmp_product_code q = dmp_product_code profile \<or>
                dmp_serial_number q = dmp_serial_number profile
      then DuplicateManifestIdentity
      else if \<not> valid_manufacturer_id (dmp_manufacturer_id profile) then InvalidManufacturerId
      else if physical_size_out_of_range (dmp_physical_width_mm profile)
                (dmp_physical_height_mm profile)
      then InvalidPhysicalSize
      else if dmp_allowed_mode_count profile = 0 \<or>
              dmp_allowed_mode_count profile > kMaxAllowedModesPerProfile \<or>
              dmp_native_mode_index profile \<ge> dmp_allowed_mode_count profile
      then InvalidModeCount
      else if dmp_layout_policy profile > kDisplayManifestLayoutPolicyApplyAndPersist
      then InvalidLayoutPolicy
      else if dmp_orientation profile \<noteq> kDisplayManifestOrientationDefault
      then InvalidOrientation
      else
        let mode_validation =
          validate_modes (take (unat (dmp_allowed_mode_count profile)) (dmp_allowed_modes profile)) in
        if mode_validation \<noteq> VNone then mode_validation
        else if canonicalize_display_name (dmp_display_name profile) = None
        then InvalidDisplayName
        else VNone)"

fun validate_profiles ::
  "u32 \<Rightarrow> bool list \<Rightarrow> display_manifest_profile list \<Rightarrow> display_manifest_profile list \<Rightarrow> validation_error" where
  "validate_profiles max_display_count used_connectors previous [] = VNone"
| "validate_profiles max_display_count used_connectors previous (profile # profiles) =
     (let validation = validate_profile max_display_count used_connectors previous profile in
      if validation \<noteq> VNone then validation
      else
        validate_profiles max_display_count
          (used_connectors[unat (dmp_connector_index profile) := True])
          (previous @ [profile]) profiles)"

definition validate_display_manifest :: "display_manifest \<Rightarrow> u32 \<Rightarrow> validation_error" where
  "validate_display_manifest manifest max_display_count =
     (if \<not> is_valid_api_namespace (man_api_namespace manifest) then WrongApiNamespace
      else if man_reserved manifest \<noteq> 0 then InvalidReservedField
      else if man_version manifest \<noteq> kDisplayManifestVersion then InvalidManifestVersion
      else if man_profile_count manifest > max_display_count \<or>
              man_profile_count manifest > kMaxPermanentDisplayProfiles
      then PermanentDisplayCountTooHigh
      else if man_max_profile_count manifest < man_profile_count manifest \<or>
              man_max_profile_count manifest > max_display_count \<or>
              man_max_profile_count manifest > kMaxPermanentDisplayProfiles
      then PermanentDisplayCountTooHigh
      else
        validate_profiles max_display_count (replicate 8 False) []
          (take (unat (man_profile_count manifest)) (man_profiles manifest)))"

end
