(* ===== verification/Request_Validation_Props.thy ===== *)
theory Request_Validation_Props
  imports Request_Validation
begin

text \<open>
  What the validators of \<open>Request_Validation\<close> accept: each is equivalent to a declarative
  description of the well-formed requests, and the normalisation functions land inside the
  ranges the validators demand.
\<close>

section \<open>Modes\<close>

definition mode_in_range :: "u32 \<Rightarrow> u32 \<Rightarrow> u32 \<Rightarrow> bool" where
  "mode_in_range w h r \<longleftrightarrow>
     kMinWidth \<le> w \<and> w \<le> kMaxWidth \<and> kMinHeight \<le> h \<and> h \<le> kMaxHeight \<and> r \<noteq> 0"

text \<open>The pixel product is computed in 64 bits, so the last check of the source never fires.\<close>

lemma mode_pixels_in_range:
  assumes "kMinWidth \<le> w" "w \<le> kMaxWidth" "kMinHeight \<le> h" "h \<le> kMaxHeight"
  shows "(ucast w :: u64) * ucast h \<noteq> 0" and "(ucast w :: u64) * ucast h \<le> kMaxModePixels"
proof -
  have w: "320 \<le> unat w" "unat w \<le> 7680" and h: "200 \<le> unat h" "unat h \<le> 4320"
    using assms by (simp_all add: word_le_nat_alt)
  have le: "unat w * unat h \<le> 7680 * 4320" using w h by (intro mult_le_mono)
  then have u: "unat ((ucast w :: u64) * ucast h) = unat w * unat h"
    by (simp add: unat_word_ariths)
  show "(ucast w :: u64) * ucast h \<le> kMaxModePixels"
    using le u by (simp add: word_le_nat_alt kMaxModePixels_def)
  have "1 \<le> unat w * unat h" using w h by simp
  with u show "(ucast w :: u64) * ucast h \<noteq> 0" by (metis not_one_le_zero unat_0)
qed

lemma validate_display_mode_iff [simp]:
  "validate_display_mode w h r = VNone \<longleftrightarrow> mode_in_range w h r"
proof (cases "kMinWidth \<le> w \<and> w \<le> kMaxWidth \<and> kMinHeight \<le> h \<and> h \<le> kMaxHeight")
  case True
  then show ?thesis using mode_pixels_in_range[of w h]
    by (auto simp: validate_display_mode_def mode_in_range_def Let_def not_less[symmetric]
        word_less_1)
next
  case False
  then show ?thesis
    by (auto simp: validate_display_mode_def mode_in_range_def Let_def not_less)
qed

lemma validate_modes_iff [simp]:
  "validate_modes ms = VNone \<longleftrightarrow>
     (\<forall>m \<in> set ms. mode_in_range (dm_width m) (dm_height m) (dm_refresh_rate_millihz m))"
  by (induction ms) (auto simp: Let_def)

section \<open>Names and timeouts\<close>

definition canonical_name :: "string \<Rightarrow> bool" where
  "canonical_name n \<longleftrightarrow>
     (\<exists>t. t \<noteq> [] \<and> length t < kDisplayNameChars \<and> (\<forall>c \<in> set t. printable c) \<and>
          last t \<noteq> CHR 0x20 \<and> n = pad_to kDisplayNameChars t)"

lemma canonicalize_Some:
  "canonicalize_display_name n = Some c \<longleftrightarrow>
     trim_display_name n \<noteq> [] \<and> length (trim_display_name n) < kDisplayNameChars \<and>
     (\<forall>x \<in> set (trim_display_name n). printable x) \<and>
     c = pad_to kDisplayNameChars (trim_display_name n)"
  by (auto simp: canonicalize_display_name_def trim_display_name_def Let_def)

lemma trim_pad_to:
  assumes "\<forall>c \<in> set t. printable c" and "t = [] \<or> last t \<noteq> CHR 0x20"
  shows "trim_display_name (pad_to n t) = t"
proof -
  have "nul \<notin> set t" using assms(1) printable_not_nul by blast
  then show ?thesis using assms(2) by (simp add: trim_display_name_def c_str_pad_to strip_back_id)
qed

lemma canonicalize_canonical:
  assumes "canonicalize_display_name n = Some c"
  shows "canonical_name c" and "name_wf c" and "trim_display_name c = trim_display_name n"
    and "canonicalize_display_name c = Some c"
proof -
  let ?t = "trim_display_name n"
  have t: "?t \<noteq> []" "length ?t < 32" "\<forall>x \<in> set ?t. printable x" "c = pad_to 32 ?t"
    using assms by (auto simp: canonicalize_Some)
  have l: "last ?t \<noteq> CHR 0x20"
    using t(1) strip_back_last by (simp add: trim_display_name_def)
  show tc: "trim_display_name c = ?t" using t l by (simp add: trim_pad_to)
  show "canonical_name c" using t l by (auto simp: canonical_name_def)
  show "name_wf c" using t by (simp add: name_wf_def)
  show "canonicalize_display_name c = Some c" using t tc by (simp add: canonicalize_Some)
qed

lemma canonical_nameD: "canonical_name n \<Longrightarrow> canonicalize_display_name n = Some n"
  by (auto simp: canonical_name_def canonicalize_Some trim_pad_to)

lemma normalize_timeout_bounds:
  "kMinLeaseTimeoutMs \<le> normalize_timeout_ms t \<and> normalize_timeout_ms t \<le> kMaxLeaseTimeoutMs"
  by (auto simp: normalize_timeout_ms_def max_def min_def)

lemma default_name_canonical: "canonical_name (pad_to kDisplayNameChars ''Sunshine Display'')"
  unfolding canonical_name_def
  by (rule exI[of _ "''Sunshine Display''"]) (simp add: printable_def char_code_def)

section \<open>Create requests\<close>

definition or_default :: "u32 \<Rightarrow> u32 \<Rightarrow> u32" where
  "or_default d v = (if v = 0 then d else v)"

definition create_request_ok :: "create_temporary_display_request \<Rightarrow> bool" where
  "create_request_ok r \<longleftrightarrow>
     ctd_api_namespace r = kApiNamespaceGuid \<and> kMinOpaqueLeaseId \<le> ctd_lease_id r \<and>
     ctd_display_id r \<noteq> 0 \<and> ctd_flags r \<in> {0, 1, 2, 3} \<and>
     mode_in_range (ctd_width r) (ctd_height r) (ctd_refresh_rate_millihz r) \<and>
     (ctd_physical_width_mm r = 0 \<or> 10 \<le> ctd_physical_width_mm r \<and> ctd_physical_width_mm r \<le> 2550) \<and>
     (ctd_physical_height_mm r = 0 \<or> 10 \<le> ctd_physical_height_mm r \<and> ctd_physical_height_mm r \<le> 2550) \<and>
     (ctd_hdr_max_luminance_nits r = 0 \<or>
      400 \<le> ctd_hdr_max_luminance_nits r \<and> ctd_hdr_max_luminance_nits r \<le> 2000) \<and>
     canonicalize_display_name (ctd_display_name r) \<noteq> None"

lemma word_le_3_iff: "(f :: u32) \<le> 3 \<longleftrightarrow> f \<in> {0, 1, 2, 3}"
proof
  assume "f \<le> 3"
  then have "unat f = 0 \<or> unat f = 1 \<or> unat f = 2 \<or> unat f = 3"
    by (auto simp: word_le_nat_alt)
  then show "f \<in> {0, 1, 2, 3}" by (auto simp: word_unat_eq_iff)
qed auto

lemma known_flags_iff: "(f :: u32) AND NOT 3 = 0 \<longleftrightarrow> f \<in> {0, 1, 2, 3}"
proof
  assume "f AND NOT 3 = 0"
  then have "f AND 3 = f" by (simp only: and_not_eq_0_iff)
  then have "f \<le> 3" using word_and_le1[of f 3] by simp
  then show "f \<in> {0, 1, 2, 3}" by (simp only: word_le_3_iff)
qed auto

text \<open>A chain of early returns passes when every check passes.\<close>

lemma check_simps:
  "e \<noteq> VNone \<Longrightarrow> (if c then e else r) = VNone \<longleftrightarrow> \<not> c \<and> r = VNone"
  "(if e' \<noteq> VNone then e' else r) = VNone \<longleftrightarrow> e' = VNone \<and> r = VNone"
  "e \<noteq> VNone \<Longrightarrow> fst (if c then (e, x) else q) = VNone \<longleftrightarrow> \<not> c \<and> fst q = VNone"
  "fst (if e' \<noteq> VNone then (e', x) else q) = VNone \<longleftrightarrow> e' = VNone \<and> fst q = VNone"
  by auto

lemma validate_create_iff:
  "fst (validate_create_temporary_display r) = VNone \<longleftrightarrow> create_request_ok r"
proof -
  have flags: "ctd_flags r AND NOT (1 OR 2) \<noteq> 0 \<longleftrightarrow> ctd_flags r \<notin> {0, 1, 2, 3}"
    using known_flags_iff[of "ctd_flags r"] by simp
  show ?thesis
    unfolding validate_create_temporary_display_def create_request_ok_def Let_def flags
      is_valid_api_namespace_def physical_size_out_of_range_def
    by (simp only: check_simps validation_error.distinct not_False_eq_True simp_thms
          validate_display_mode_iff not_less de_Morgan_disj not_not)
       (auto split: option.splits)
qed

lemma validate_create_result:
  assumes "validate_create_temporary_display r = (VNone, v)"
  obtains vr where "v = Some vr"
    and "vct_request vr = r
      \<lparr>ctd_physical_width_mm := or_default kDefaultPhysicalWidthMillimeters (ctd_physical_width_mm r),
       ctd_physical_height_mm := or_default kDefaultPhysicalHeightMillimeters (ctd_physical_height_mm r),
       ctd_hdr_max_luminance_nits := or_default kDefaultHdrMaxLuminanceNits (ctd_hdr_max_luminance_nits r),
       ctd_display_name := ctd_display_name (vct_request vr)\<rparr>"
    and "canonicalize_display_name (ctd_display_name r) = Some (ctd_display_name (vct_request vr))"
    and "vct_display_name vr = trim_display_name (ctd_display_name r)"
    and "vct_effective_timeout_ms vr = normalize_timeout_ms (ctd_requested_timeout_ms r)"
proof -
  from assms obtain c where c: "canonicalize_display_name (ctd_display_name r) = Some c"
    and v: "v = Some \<lparr>vct_request = r
         \<lparr>ctd_physical_width_mm := or_default kDefaultPhysicalWidthMillimeters (ctd_physical_width_mm r),
          ctd_physical_height_mm := or_default kDefaultPhysicalHeightMillimeters (ctd_physical_height_mm r),
          ctd_hdr_max_luminance_nits := or_default kDefaultHdrMaxLuminanceNits (ctd_hdr_max_luminance_nits r),
          ctd_display_name := c\<rparr>,
       vct_effective_timeout_ms = normalize_timeout_ms (ctd_requested_timeout_ms r),
       vct_display_name = trim_display_name c\<rparr>"
    unfolding validate_create_temporary_display_def Let_def or_default_def
    by (simp split: if_split_asm option.split_asm)
  show thesis by (rule that[OF v]) (simp_all add: c canonicalize_canonical(3)[OF c])
qed

lemma create_request_ok_of_owned:
  "validate_create_temporary_display_owned r = VNone \<longleftrightarrow>
     create_request_ok (cto_display r) \<and> \<not> all_zero_capability (cto_owner_capability r)"
  by (auto simp: validate_create_temporary_display_owned_def Let_def validate_create_iff)

section \<open>Manifests\<close>

definition profile_ok :: "u32 \<Rightarrow> display_manifest_profile \<Rightarrow> bool" where
  "profile_ok max_display_count p \<longleftrightarrow>
     dmp_flags p AND NOT kDisplayManifestProfileKnownFlags = 0 \<and>
     dmp_flags p AND kDisplayManifestProfileFlagPermanentIdentity \<noteq> 0 \<and>
     dmp_connector_index p < max_display_count \<and>
     dmp_connector_index p < kMaxPermanentDisplayProfiles \<and>
     dmp_display_id p \<noteq> 0 \<and> dmp_container_id p \<noteq> zero_guid \<and>
     dmp_product_code p \<noteq> 0 \<and> dmp_product_code p \<le> 0xffff \<and> dmp_serial_number p \<noteq> 0 \<and>
     valid_manufacturer_id (dmp_manufacturer_id p) \<and>
     \<not> physical_size_out_of_range (dmp_physical_width_mm p) (dmp_physical_height_mm p) \<and>
     dmp_native_mode_index p < dmp_allowed_mode_count p \<and>
     dmp_allowed_mode_count p \<le> kMaxAllowedModesPerProfile \<and>
     dmp_layout_policy p \<le> kDisplayManifestLayoutPolicyApplyAndPersist \<and>
     dmp_orientation p = kDisplayManifestOrientationDefault \<and>
     (\<forall>m \<in> set (take (unat (dmp_allowed_mode_count p)) (dmp_allowed_modes p)).
        mode_in_range (dm_width m) (dm_height m) (dm_refresh_rate_millihz m)) \<and>
     canonicalize_display_name (dmp_display_name p) \<noteq> None"

definition active_profiles :: "display_manifest \<Rightarrow> display_manifest_profile list" where
  "active_profiles m = take (unat (man_profile_count m)) (man_profiles m)"

definition manifest_ok :: "u32 \<Rightarrow> display_manifest \<Rightarrow> bool" where
  "manifest_ok max_display_count m \<longleftrightarrow>
     man_api_namespace m = kApiNamespaceGuid \<and> man_reserved m = 0 \<and>
     man_version m = kDisplayManifestVersion \<and>
     man_profile_count m \<le> man_max_profile_count m \<and>
     man_max_profile_count m \<le> max_display_count \<and>
     man_max_profile_count m \<le> kMaxPermanentDisplayProfiles \<and>
     (\<forall>p \<in> set (active_profiles m). profile_ok max_display_count p) \<and>
     distinct (map dmp_connector_index (active_profiles m)) \<and>
     distinct (map dmp_display_id (active_profiles m)) \<and>
     distinct (map dmp_container_id (active_profiles m)) \<and>
     distinct (map dmp_product_code (active_profiles m)) \<and>
     distinct (map dmp_serial_number (active_profiles m))"

definition same_identity :: "display_manifest_profile \<Rightarrow> display_manifest_profile \<Rightarrow> bool" where
  "same_identity q p \<longleftrightarrow>
     dmp_display_id q = dmp_display_id p \<or> dmp_container_id q = dmp_container_id p \<or>
     dmp_product_code q = dmp_product_code p \<or> dmp_serial_number q = dmp_serial_number p"

lemma validate_profile_iff:
  "validate_profile max_count used previous p = VNone \<longleftrightarrow>
     profile_ok max_count p \<and> \<not> used ! unat (dmp_connector_index p) \<and>
     (\<forall>q \<in> set previous. \<not> same_identity q p)"
proof -
  have count: "dmp_allowed_mode_count p = 0 \<or> dmp_allowed_mode_count p > k \<or>
      dmp_native_mode_index p \<ge> dmp_allowed_mode_count p \<longleftrightarrow>
      \<not> (dmp_native_mode_index p < dmp_allowed_mode_count p \<and> dmp_allowed_mode_count p \<le> k)" for k
    by (auto simp: not_less not_le)
  show ?thesis
    unfolding validate_profile_def profile_ok_def same_identity_def Let_def count is_zero_guid_def
    by (simp only: check_simps validation_error.distinct not_False_eq_True simp_thms
          validate_modes_iff not_less not_le de_Morgan_disj not_not)
       (auto simp: not_less not_le)
qed

lemma validate_profiles_iff:
  "length used = 8 \<Longrightarrow>
   validate_profiles max_count used previous ps = VNone \<longleftrightarrow>
     (\<forall>p \<in> set ps. profile_ok max_count p \<and> \<not> used ! unat (dmp_connector_index p) \<and>
        (\<forall>q \<in> set previous. \<not> same_identity q p)) \<and>
     distinct (map dmp_connector_index ps) \<and> sorted_wrt (\<lambda>q p. \<not> same_identity q p) ps"
proof (induction ps arbitrary: used previous)
  case (Cons p ps)
  show ?case
  proof (cases "profile_ok max_count p")
    case True
    then have "dmp_connector_index p < 8" by (simp add: profile_ok_def)
    then have lt: "unat (dmp_connector_index p) < length used"
      using Cons.prems by (simp add: word_less_nat_alt)
    have upd: "used[unat (dmp_connector_index p) := True] ! unat (dmp_connector_index q) \<longleftrightarrow>
        dmp_connector_index q = dmp_connector_index p \<or> used ! unat (dmp_connector_index q)" for q
      using lt by (auto simp: nth_list_update word_unat_eq_iff)
    show ?thesis
      using Cons.IH[of "used[unat (dmp_connector_index p) := True]" "previous @ [p]"] Cons.prems True
      by (auto simp: Let_def validate_profile_iff upd image_iff)
  qed (auto simp: Let_def validate_profile_iff)
qed simp

lemma distinct_map_iff_sorted_wrt: "distinct (map f ps) \<longleftrightarrow> sorted_wrt (\<lambda>q p. f q \<noteq> f p) ps"
  by (induction ps) (auto simp: image_iff)

text \<open>
  A manifest passes validation exactly when its header is right, every profile is right on its
  own, and no two profiles share a connector or any identity field.
\<close>

lemma validate_display_manifest_iff:
  "validate_display_manifest m max_count = VNone \<longleftrightarrow> manifest_ok max_count m"
proof -
  have ids: "sorted_wrt (\<lambda>q p. \<not> same_identity q p) ps \<longleftrightarrow>
      distinct (map dmp_display_id ps) \<and> distinct (map dmp_container_id ps) \<and>
      distinct (map dmp_product_code ps) \<and> distinct (map dmp_serial_number ps)" for ps
    unfolding distinct_map_iff_sorted_wrt by (induction ps) (auto simp: same_identity_def)
  have used: "\<not> replicate 8 False ! unat (dmp_connector_index p)" if "profile_ok max_count p" for p
    using that by (simp add: profile_ok_def word_less_nat_alt)
  show ?thesis
    unfolding validate_display_manifest_def manifest_ok_def is_valid_api_namespace_def
      active_profiles_def
    by (simp only: check_simps validation_error.distinct not_False_eq_True simp_thms
          validate_profiles_iff length_replicate not_less ids)
       (use used in auto)
qed

end
