(* ===== verification/Display_Identity.thy ===== *)
theory Display_Identity
  imports Request_Validation_Props
begin

text \<open>
  Display identities (\<open>display_identity.h\<close>, \<open>display_identity.cpp\<close>) and the record the store
  keeps per temporary display (\<open>TemporaryDisplayRecord\<close> of \<open>lease_store.h\<close>). The lemmas state
  what keeps identities apart: permanent and temporary displays never share an EDID product
  code, serial numbers are never zero, and the container GUID determines the display id.
\<close>

section \<open>The temporary display record\<close>

record temporary_display_record =
  tdr_lease_id :: u64
  tdr_display_id :: u64
  tdr_width :: u32
  tdr_height :: u32
  tdr_physical_width_mm :: u32
  tdr_physical_height_mm :: u32
  tdr_refresh_rate_millihz :: u32
  tdr_timeout_ms :: u32
  tdr_connector_index :: u32
  tdr_display_name :: string
  tdr_expires_at :: time_point
  tdr_retain_identity :: bool
  tdr_identity_display_id :: u64
  tdr_generation :: u64
  tdr_pending_departure :: bool
  tdr_hdr_max_luminance_nits :: u32
  tdr_requested_resolution_only :: bool

section \<open>Identity functions\<close>

abbreviation (input) kPermanentDisplayIdBase :: u64 where
  "kPermanentDisplayIdBase \<equiv> 0x7000000000000000"
abbreviation (input) kPermanentDisplayProductCodeBase :: u16 where
  "kPermanentDisplayProductCodeBase \<equiv> 0x4000"
abbreviation (input) kTemporaryDisplayProductCodeBase :: u16 where
  "kTemporaryDisplayProductCodeBase \<equiv> 0x5000"

definition kSunshineDriverManufacturerId :: string where
  "kSunshineDriverManufacturerId = ''SDD''"

definition permanent_display_id :: "u32 \<Rightarrow> u64" where
  "permanent_display_id index = kPermanentDisplayIdBase OR (ucast index + 1)"

definition permanent_product_code :: "u32 \<Rightarrow> u16" where
  "permanent_product_code index = kPermanentDisplayProductCodeBase OR ucast (index AND 0x0fff)"

definition serial_number_from_display_id :: "u64 \<Rightarrow> u32" where
  "serial_number_from_display_id display_id =
     (let folded = (ucast display_id :: u32) XOR ucast (drop_bit 32 display_id) in
      if folded = 0 then 1 else folded)"

definition product_code_from_display_id :: "u64 \<Rightarrow> u16" where
  "product_code_from_display_id display_id =
     kTemporaryDisplayProductCodeBase OR ucast (display_id AND 0x0fff)"

definition container_guid_from_display_id :: "u64 \<Rightarrow> guid" where
  "container_guid_from_display_id display_id =
     \<lparr>data1 = 0x9161d0d5,
      data2 = ucast (drop_bit 48 display_id AND 0xffff),
      data3 = ucast (drop_bit 32 display_id AND 0xffff),
      data4 = [0x93, 0x7d,
               ucast (drop_bit 24 display_id AND 0xff),
               ucast (drop_bit 16 display_id AND 0xff),
               ucast (drop_bit 8 display_id AND 0xff),
               ucast (display_id AND 0xff),
               0x53, 0x44]\<rparr>"

text \<open>The identity a record presents: its own display id unless an ephemeral one was assigned.\<close>

definition identity_display_id :: "temporary_display_record \<Rightarrow> u64" where
  "identity_display_id r =
     (if tdr_identity_display_id r = 0 then tdr_display_id r else tdr_identity_display_id r)"

text \<open>What distinguishes two monitors in their EDID: product code and serial number.\<close>

definition edid_identity :: "u64 \<Rightarrow> u16 \<times> u32" where
  "edid_identity i = (product_code_from_display_id i, serial_number_from_display_id i)"

section \<open>Identities stay apart\<close>

lemma serial_number_nonzero: "serial_number_from_display_id d \<noteq> 0"
  by (simp add: serial_number_from_display_id_def Let_def)

lemma product_code_bit_12: "bit (product_code_from_display_id d) 12"
  by (simp add: product_code_from_display_id_def bit_or_iff bit_numeral_rec)

lemma permanent_product_code_bit_12: "\<not> bit (permanent_product_code i) 12"
  by (simp add: permanent_product_code_def bit_or_iff bit_unsigned_iff bit_and_iff bit_numeral_rec)

lemma permanent_temporary_product_codes_differ:
  "permanent_product_code i \<noteq> product_code_from_display_id d"
  using product_code_bit_12 permanent_product_code_bit_12 by metis

lemma container_guid_inj:
  assumes "container_guid_from_display_id a = container_guid_from_display_id b"
  shows "a = b"
proof (rule bit_word_eqI)
  fix n assume "n < LENGTH(64)"
  then have n: "n < 64" by simp
  have e: "ucast (drop_bit 48 a AND 0xffff) = (ucast (drop_bit 48 b AND 0xffff) :: u16)"
    "ucast (drop_bit 32 a AND 0xffff) = (ucast (drop_bit 32 b AND 0xffff) :: u16)"
    "ucast (drop_bit 24 a AND 0xff) = (ucast (drop_bit 24 b AND 0xff) :: u8)"
    "ucast (drop_bit 16 a AND 0xff) = (ucast (drop_bit 16 b AND 0xff) :: u8)"
    "ucast (drop_bit 8 a AND 0xff) = (ucast (drop_bit 8 b AND 0xff) :: u8)"
    "ucast (a AND 0xff) = (ucast (b AND 0xff) :: u8)"
    using assms by (simp_all add: container_guid_from_display_id_def)
  have m: "(0xffff :: u64) = mask 16" "(0xff :: u64) = mask 8" by (simp_all add: mask_eq_exp_minus_1)
  have w16: "bit a (k + i) = bit b (k + i)"
    if "ucast (drop_bit k a AND 0xffff) = (ucast (drop_bit k b AND 0xffff) :: u16)" "i < 16" for i k
    using arg_cong[OF that(1), of "\<lambda>w. bit w i"] that(2) unfolding m
    by (simp add: bit_simps)
  have w8: "bit a (k + i) = bit b (k + i)"
    if "ucast (drop_bit k a AND 0xff) = (ucast (drop_bit k b AND 0xff) :: u8)" "i < 8" for i k
    using arg_cong[OF that(1), of "\<lambda>w. bit w i"] that(2) unfolding m
    by (simp add: bit_simps)
  consider "n < 8" | "8 \<le> n" "n < 16" | "16 \<le> n" "n < 24" | "24 \<le> n" "n < 32"
    | "32 \<le> n" "n < 48" | "48 \<le> n" using n by linarith
  then show "bit a n = bit b n"
  proof cases
    case 1 then show ?thesis using w8[of 0 n] e(6) by simp
  next
    case 2 then show ?thesis using w8[OF e(5), of "n - 8"] by simp
  next
    case 3 then show ?thesis using w8[OF e(4), of "n - 16"] by simp
  next
    case 4 then show ?thesis using w8[OF e(3), of "n - 24"] by simp
  next
    case 5 then show ?thesis using w16[OF e(2), of "n - 32"] by simp
  next
    case 6 then show ?thesis using w16[OF e(1), of "n - 48"] n by simp
  qed
qed

lemma container_guid_nonzero: "container_guid_from_display_id d \<noteq> zero_guid"
  by (simp add: container_guid_from_display_id_def zero_guid_def)

end
