(* ===== verification/Lease_Store.thy ===== *)
theory Lease_Store
  imports Display_Identity
begin

text \<open>
  The display store (\<open>lease_store.h\<close>, \<open>lease_store.cpp\<close>): the state of all temporary displays,
  their leases, connector reservations and quarantine, and the permanent display manifest. Every
  public operation of \<open>DisplayStore\<close> is one function on the store record; \<open>std::map\<close> is a
  key-sorted association list and \<open>steady_clock::time_point\<close> an integer count of nanoseconds.
\<close>

section \<open>State\<close>

datatype store_error =
    StoreNone
  | ValidationFailed
  | TemporaryDisplayLimitReached
  | DisplayAlreadyExists
  | DuplicateDisplayIdentity
  | LeaseNotFound
  | DisplayNotFound
  | PermanentDisplayCountTooHighError
  | StoreDiverged

text \<open>
  \<open>StoreDiverged\<close> is not an error code of the source: it marks a call whose ephemeral identity
  loop never finds a free identity, so that the call does not return.
\<close>

record store_result =
  sr_error :: store_error
  sr_validation_error :: validation_error

datatype remove_temporary_display_mode = RetainConnectorReservation | ReleaseConnectorReservation

record lease_record =
  lease_timeout_ms :: u32
  lease_expires_at :: time_point
  lease_owner_capability :: "owner_capability option"

record display_store =
  max_permanent_displays :: u32
  max_temporary_displays :: u32
  permanent_display_count :: u32
  permanent_display_settings :: permanent_display_count_request
  display_manifest_of :: display_manifest
  displays_by_id :: "(u64, temporary_display_record) omap"
  leases_by_id :: "(u64, lease_record) omap"
  connector_reservations_by_display_id :: "(u64, u32) omap"
  quarantined_connectors :: "u32 set"
  next_ephemeral_identity :: u64
  next_temporary_display_generation :: u64

definition ok_result :: store_result where
  "ok_result = \<lparr>sr_error = StoreNone, sr_validation_error = VNone\<rparr>"

definition store_failure :: "store_error \<Rightarrow> store_result" where
  "store_failure e = \<lparr>sr_error = e, sr_validation_error = VNone\<rparr>"

definition validation_failure :: "validation_error \<Rightarrow> store_result" where
  "validation_failure e = \<lparr>sr_error = ValidationFailed, sr_validation_error = e\<rparr>"

text \<open>The comparison that does not stop at the first difference.\<close>

definition owner_capabilities_equal :: "owner_capability \<Rightarrow> owner_capability \<Rightarrow> bool" where
  "owner_capabilities_equal lhs rhs \<longleftrightarrow>
     fold (\<lambda>index difference. difference OR (lhs ! index XOR rhs ! index)) [0..<length lhs] 0 = 0"

definition milliseconds :: "u32 \<Rightarrow> int" where
  "milliseconds ms = uint ms * 1000000"

definition duration_cast_milliseconds :: "int \<Rightarrow> int" where
  "duration_cast_milliseconds d = (if d < 0 then - ((- d) div 1000000) else d div 1000000)"

section \<open>The permanent display manifest\<close>

definition permanent_profile :: "permanent_display_count_request \<Rightarrow> nat \<Rightarrow> display_manifest_profile" where
  "permanent_profile normalized index = default_profile
     \<lparr>dmp_flags := kDisplayManifestProfileFlagHdrSupported OR
        kDisplayManifestProfileFlagRetainIdentity OR kDisplayManifestProfileFlagPermanentIdentity,
      dmp_connector_index := of_nat index,
      dmp_display_id := permanent_display_id (of_nat index),
      dmp_container_id := container_guid_from_display_id (permanent_display_id (of_nat index)),
      dmp_manufacturer_id :=
        kSunshineDriverManufacturerId @
        drop (length kSunshineDriverManufacturerId) (dmp_manufacturer_id default_profile),
      dmp_product_code := ucast (permanent_product_code (of_nat index)),
      dmp_serial_number := serial_number_from_display_id (permanent_display_id (of_nat index)),
      dmp_physical_width_mm := pdc_physical_width_mm normalized,
      dmp_physical_height_mm := pdc_physical_height_mm normalized,
      dmp_native_mode_index := 0,
      dmp_allowed_mode_count := 1,
      dmp_layout_policy := kDisplayManifestLayoutPolicyNone,
      dmp_orientation := kDisplayManifestOrientationDefault,
      dmp_allowed_modes := (dmp_allowed_modes default_profile)
        [0 := \<lparr>dm_width = pdc_width normalized, dm_height = pdc_height normalized,
               dm_refresh_rate_millihz = pdc_refresh_rate_millihz normalized\<rparr>],
      dmp_display_name := pdc_display_name normalized\<rparr>"

definition display_manifest_from_permanent_settings ::
  "permanent_display_count_request \<Rightarrow> u32 \<Rightarrow> display_manifest" where
  "display_manifest_from_permanent_settings request max_display_count =
     (let normalized = set_default_permanent_display_settings request in
      default_manifest
        \<lparr>man_profile_count := pdc_display_count normalized,
         man_max_profile_count := min max_display_count kMaxPermanentDisplayProfiles,
         man_profiles := map (\<lambda>index.
           if index < unat (pdc_display_count normalized) then permanent_profile normalized index
           else default_profile) [0..<8]\<rparr>)"

definition permanent_settings_from_display_manifest ::
  "display_manifest \<Rightarrow> permanent_display_count_request" where
  "permanent_settings_from_display_manifest manifest =
     (let request = default_permanent_request\<lparr>pdc_display_count := man_profile_count manifest\<rparr> in
      if man_profile_count manifest = 0 then set_default_permanent_display_settings request
      else
        let profile = man_profiles manifest ! 0;
            mode = dmp_allowed_modes profile ! unat (dmp_native_mode_index profile) in
        set_default_permanent_display_settings
          (request
             \<lparr>pdc_width := dm_width mode,
              pdc_height := dm_height mode,
              pdc_physical_width_mm := dmp_physical_width_mm profile,
              pdc_physical_height_mm := dmp_physical_height_mm profile,
              pdc_refresh_rate_millihz := dm_refresh_rate_millihz mode,
              pdc_display_name := dmp_display_name profile\<rparr>))"

text \<open>The name loop of \<open>apply_display_manifest\<close>; \<open>None\<close> is its early return.\<close>

fun canonicalize_profile_names ::
  "nat \<Rightarrow> display_manifest_profile list \<Rightarrow> display_manifest_profile list option" where
  "canonicalize_profile_names 0 profiles = Some profiles"
| "canonicalize_profile_names (Suc n) [] = Some []"
| "canonicalize_profile_names (Suc n) (profile # profiles) =
     (case canonicalize_display_name (dmp_display_name profile) of
        None \<Rightarrow> None
      | Some display_name \<Rightarrow>
          map_option (\<lambda>rest. profile\<lparr>dmp_display_name := display_name\<rparr> # rest)
            (canonicalize_profile_names n profiles))"

definition apply_display_manifest :: "display_manifest \<Rightarrow> display_store \<Rightarrow> display_store \<times> store_result" where
  "apply_display_manifest manifest s =
     (let validation = validate_display_manifest manifest (max_permanent_displays s) in
      if validation \<noteq> VNone then (s, validation_failure validation)
      else
        (case canonicalize_profile_names (unat (man_profile_count manifest)) (man_profiles manifest) of
           None \<Rightarrow> (s, validation_failure InvalidDisplayName)
         | Some profiles \<Rightarrow>
             (let canonical = manifest\<lparr>man_profiles := profiles\<rparr> in
              (s\<lparr>permanent_display_count := man_profile_count canonical,
                 display_manifest_of := canonical,
                 permanent_display_settings := permanent_settings_from_display_manifest canonical\<rparr>,
               ok_result))))"

definition set_permanent_display_count ::
  "permanent_display_count_request \<Rightarrow> display_store \<Rightarrow> display_store \<times> store_result" where
  "set_permanent_display_count request s =
     (let normalized = set_default_permanent_display_settings request;
          validation = validate_permanent_display_count normalized (max_permanent_displays s) in
      if validation \<noteq> VNone then (s, validation_failure validation)
      else
        apply_display_manifest
          (display_manifest_from_permanent_settings normalized (max_permanent_displays s)) s)"

definition query_permanent_display_count :: "display_store \<Rightarrow> permanent_display_count_result" where
  "query_permanent_display_count s =
     \<lparr>pdr_current_display_count = permanent_display_count s,
      pdr_max_display_count = max_permanent_displays s,
      pdr_temporary_display_count = of_nat (length (displays_by_id s)),
      pdr_width = pdc_width (permanent_display_settings s),
      pdr_height = pdc_height (permanent_display_settings s),
      pdr_physical_width_mm = pdc_physical_width_mm (permanent_display_settings s),
      pdr_physical_height_mm = pdc_physical_height_mm (permanent_display_settings s),
      pdr_refresh_rate_millihz = pdc_refresh_rate_millihz (permanent_display_settings s),
      pdr_display_name = pdc_display_name (permanent_display_settings s)\<rparr>"

text \<open>The constructor: an initial manifest that does not validate is ignored.\<close>

definition initial_store ::
  "u32 \<Rightarrow> u32 \<Rightarrow> (u64, u32) omap \<Rightarrow> display_manifest option \<Rightarrow> display_store" where
  "initial_store max_permanent max_temporary reservations initial_manifest =
     (let settings = set_default_permanent_display_settings default_permanent_request;
          s = \<lparr>max_permanent_displays = max_permanent,
               max_temporary_displays = max_temporary,
               permanent_display_count = 0,
               permanent_display_settings = settings,
               display_manifest_of = display_manifest_from_permanent_settings settings max_permanent,
               displays_by_id = [],
               leases_by_id = [],
               connector_reservations_by_display_id = reservations,
               quarantined_connectors = {},
               next_ephemeral_identity = 1,
               next_temporary_display_generation = 1\<rparr> in
      case initial_manifest of
        None \<Rightarrow> s
      | Some manifest \<Rightarrow>
          if validate_display_manifest manifest max_permanent = VNone
          then fst (apply_display_manifest manifest s) else s)"

section \<open>Connectors and identities\<close>

definition temporary_display_count :: "display_store \<Rightarrow> u32" where
  "temporary_display_count s = of_nat (length (displays_by_id s))"

definition temporary_connector_limit :: "display_store \<Rightarrow> u32" where
  "temporary_connector_limit s =
     (if max_temporary_displays s > 0xffffffff - max_permanent_displays s then 0xffffffff
      else max_permanent_displays s + max_temporary_displays s)"

definition is_temporary_connector_index :: "display_store \<Rightarrow> u32 \<Rightarrow> bool" where
  "is_temporary_connector_index s connector_index \<longleftrightarrow>
     connector_index \<ge> max_permanent_displays s \<and> connector_index < temporary_connector_limit s"

definition connector_index_is_active :: "display_store \<Rightarrow> u32 \<Rightarrow> bool" where
  "connector_index_is_active s connector_index \<longleftrightarrow>
     list_ex (\<lambda>entry. tdr_connector_index (snd entry) = connector_index) (displays_by_id s)"

definition connector_index_is_reserved :: "display_store \<Rightarrow> u32 \<Rightarrow> bool" where
  "connector_index_is_reserved s connector_index \<longleftrightarrow>
     list_ex (\<lambda>entry. snd entry = connector_index) (connector_reservations_by_display_id s)"

definition connector_index_is_reserved_for_other_display :: "display_store \<Rightarrow> u32 \<Rightarrow> u64 \<Rightarrow> bool" where
  "connector_index_is_reserved_for_other_display s connector_index display_id \<longleftrightarrow>
     list_ex (\<lambda>entry. fst entry \<noteq> display_id \<and> snd entry = connector_index)
       (connector_reservations_by_display_id s)"

definition edid_identity_is_active :: "(u64, temporary_display_record) omap \<Rightarrow> u64 \<Rightarrow> bool" where
  "edid_identity_is_active displays candidate \<longleftrightarrow>
     list_ex (\<lambda>entry.
       product_code_from_display_id (identity_display_id (snd entry)) =
         product_code_from_display_id candidate \<and>
       serial_number_from_display_id (identity_display_id (snd entry)) =
         serial_number_from_display_id candidate) displays"

definition remove_connector_reservation :: "u32 \<Rightarrow> u64 \<Rightarrow> display_store \<Rightarrow> display_store" where
  "remove_connector_reservation connector_index except_display_id s =
     s\<lparr>connector_reservations_by_display_id :=
         filter (\<lambda>entry. \<not> (fst entry \<noteq> except_display_id \<and> snd entry = connector_index))
           (connector_reservations_by_display_id s)\<rparr>"

definition connector_index_for_display :: "u64 \<Rightarrow> bool \<Rightarrow> display_store \<Rightarrow> display_store \<times> u32" where
  "connector_index_for_display display_id retain_identity s =
     (let reservation = omap_find (connector_reservations_by_display_id s) display_id;
          connector_limit = temporary_connector_limit s;
          usable = (\<lambda>c. \<not> connector_index_is_active s c \<and> c \<notin> quarantined_connectors s);
          free = (\<lambda>c. usable c \<and>
            (if retain_identity then \<not> connector_index_is_reserved_for_other_display s c display_id
             else \<not> connector_index_is_reserved s c)) in
      if retain_identity \<and> reservation \<noteq> None \<and>
         is_temporary_connector_index s (the reservation) \<and>
         \<not> connector_index_is_active s (the reservation)
      then (s, the reservation)
      else
        (case first_index free (max_permanent_displays s) connector_limit of
           Some connector_index \<Rightarrow> (s, connector_index)
         | None \<Rightarrow>
             (case first_index usable (max_permanent_displays s) connector_limit of
                Some connector_index \<Rightarrow>
                  (remove_connector_reservation connector_index display_id s, connector_index)
              | None \<Rightarrow> (s, connector_limit))))"

abbreviation (input) kEphemeralDisplayIdBase :: u64 where
  "kEphemeralDisplayIdBase \<equiv> 0x6000000000000000"

text \<open>The \<open>do \<dots> while\<close> loop; \<open>None\<close> when it never finds a free identity.\<close>

partial_function (option) pick_ephemeral_identity ::
  "(u64, temporary_display_record) omap \<Rightarrow> u64 \<Rightarrow> (u64 \<times> u64) option" where
  "pick_ephemeral_identity displays next =
     (let identity = kEphemeralDisplayIdBase OR next in
      if edid_identity_is_active displays identity
      then pick_ephemeral_identity displays (next + 1)
      else Some (identity, next + 1))"

declare pick_ephemeral_identity.simps [code]

section \<open>Leases\<close>

definition lease_has_displays :: "display_store \<Rightarrow> u64 \<Rightarrow> bool" where
  "lease_has_displays s lease_id \<longleftrightarrow>
     list_ex (\<lambda>entry. tdr_lease_id (snd entry) = lease_id) (displays_by_id s)"

definition lease_has_pending_departure :: "display_store \<Rightarrow> u64 \<Rightarrow> bool" where
  "lease_has_pending_departure s lease_id \<longleftrightarrow>
     list_ex (\<lambda>entry. tdr_lease_id (snd entry) = lease_id \<and> tdr_pending_departure (snd entry))
       (displays_by_id s)"

definition lease_has_expired_pending_departure :: "display_store \<Rightarrow> u64 \<Rightarrow> time_point \<Rightarrow> bool" where
  "lease_has_expired_pending_departure s lease_id now \<longleftrightarrow>
     list_ex (\<lambda>entry. tdr_lease_id (snd entry) = lease_id \<and> tdr_pending_departure (snd entry) \<and>
       tdr_expires_at (snd entry) \<le> now) (displays_by_id s)"

definition remove_lease_if_empty :: "u64 \<Rightarrow> display_store \<Rightarrow> display_store" where
  "remove_lease_if_empty lease_id s =
     (if \<not> lease_has_displays s lease_id
      then s\<lparr>leases_by_id := omap_erase lease_id (leases_by_id s)\<rparr> else s)"

section \<open>Creating a temporary display\<close>

definition empty_create_result :: create_temporary_display_result where
  "empty_create_result =
     \<lparr>ctr_api_namespace = kApiNamespaceGuid, ctr_lease_id = 0, ctr_display_id = 0,
      ctr_os_adapter_luid = \<lparr>low_part = 0, high_part = 0\<rparr>, ctr_target_id = 0,
      ctr_connector_index = 0, ctr_effective_timeout_ms = 0\<rparr>"

type_synonym create_store_result = "store_result \<times> create_temporary_display_result"

definition create_failure :: "store_error \<Rightarrow> create_store_result" where
  "create_failure e = (store_failure e, empty_create_result)"

text \<open>
  The checks that come before anything is changed: existing display, display limit, and the
  lease the display would join.
\<close>

definition create_precheck ::
  "create_temporary_display_request \<Rightarrow> owner_capability option \<Rightarrow> time_point \<Rightarrow> display_store \<Rightarrow> store_error" where
  "create_precheck request owner_capability now s =
     (let lease = omap_find (leases_by_id s) (ctd_lease_id request) in
      if omap_find (displays_by_id s) (ctd_display_id request) \<noteq> None then DisplayAlreadyExists
      else if length (displays_by_id s) \<ge> unat (max_temporary_displays s)
      then TemporaryDisplayLimitReached
      else
        (case lease of
           None \<Rightarrow> StoreNone
         | Some l \<Rightarrow>
             if lease_expires_at l \<le> now \<or> lease_has_pending_departure s (ctd_lease_id request)
             then LeaseNotFound
             else
               (case (owner_capability, lease_owner_capability l) of
                  (Some c, Some stored) \<Rightarrow>
                    if \<not> owner_capabilities_equal stored c then LeaseNotFound else StoreNone
                | _ \<Rightarrow> StoreNone)))"

text \<open>The record a create emplaces; \<open>request\<close> is the validated request.\<close>

definition new_temporary_display_record ::
  "create_temporary_display_request \<Rightarrow> string \<Rightarrow> u32 \<Rightarrow> u32 \<Rightarrow> time_point \<Rightarrow> bool \<Rightarrow> u64 \<Rightarrow> u64 \<Rightarrow>
   temporary_display_record" where
  "new_temporary_display_record request display_name effective_timeout_ms connector_index
     expires_at retain_identity identity generation =
     \<lparr>tdr_lease_id = ctd_lease_id request, tdr_display_id = ctd_display_id request,
      tdr_width = ctd_width request, tdr_height = ctd_height request,
      tdr_physical_width_mm = ctd_physical_width_mm request,
      tdr_physical_height_mm = ctd_physical_height_mm request,
      tdr_refresh_rate_millihz = ctd_refresh_rate_millihz request,
      tdr_timeout_ms = effective_timeout_ms,
      tdr_connector_index = connector_index,
      tdr_display_name = display_name,
      tdr_expires_at = expires_at,
      tdr_retain_identity = retain_identity,
      tdr_identity_display_id = identity,
      tdr_generation = generation,
      tdr_pending_departure = False,
      tdr_hdr_max_luminance_nits = ctd_hdr_max_luminance_nits request,
      tdr_requested_resolution_only =
        (ctd_flags request AND kCreateTemporaryDisplayFlagRequestedResolutionOnly \<noteq> 0)\<rparr>"

text \<open>The part after identity and connector are chosen: reservation, record and lease.\<close>

definition install_temporary_display ::
  "validated_create_temporary_display \<Rightarrow> owner_capability option \<Rightarrow> time_point \<Rightarrow>
   u32 \<Rightarrow> bool \<Rightarrow> u64 \<Rightarrow> display_store \<Rightarrow> display_store \<times> create_store_result" where
  "install_temporary_display validated owner_capability now connector_index retain_identity
     identity s =
     (let request = vct_request validated;
          lease_id = ctd_lease_id request;
          display_id = ctd_display_id request;
          lease = omap_find (leases_by_id s) lease_id;
          s1 = (if retain_identity then
                  (let r = remove_connector_reservation connector_index display_id s in
                   r\<lparr>connector_reservations_by_display_id :=
                       omap_insert display_id connector_index
                         (connector_reservations_by_display_id r)\<rparr>)
                else s);
          (effective_timeout_ms, expires_at) =
            (case lease of
               None \<Rightarrow> (vct_effective_timeout_ms validated,
                         now + milliseconds (vct_effective_timeout_ms validated))
             | Some l \<Rightarrow> (lease_timeout_ms l, lease_expires_at l));
          record = new_temporary_display_record request (vct_display_name validated)
            effective_timeout_ms connector_index expires_at retain_identity identity
            (next_temporary_display_generation s);
          s2 = s1\<lparr>displays_by_id := omap_emplace display_id record (displays_by_id s1),
                  next_temporary_display_generation := next_temporary_display_generation s + 1\<rparr>;
          s3 =
            (case lease of
               None \<Rightarrow>
                 s2\<lparr>leases_by_id := omap_emplace lease_id
                     \<lparr>lease_timeout_ms = effective_timeout_ms, lease_expires_at = expires_at,
                      lease_owner_capability = owner_capability\<rparr> (leases_by_id s2)\<rparr>
             | Some l \<Rightarrow>
                 if owner_capability \<noteq> None \<and> lease_owner_capability l = None
                 then s2\<lparr>leases_by_id := omap_insert lease_id
                          (l\<lparr>lease_owner_capability := owner_capability\<rparr>) (leases_by_id s2)\<rparr>
                 else s2)
      in (s3, ok_result,
          empty_create_result
            \<lparr>ctr_lease_id := lease_id, ctr_display_id := display_id,
             ctr_connector_index := connector_index,
             ctr_effective_timeout_ms := effective_timeout_ms\<rparr>))"

text \<open>The part after a connector is chosen: the identity is checked or picked.\<close>

definition create_on_connector ::
  "validated_create_temporary_display \<Rightarrow> owner_capability option \<Rightarrow> time_point \<Rightarrow> bool \<Rightarrow> u32 \<Rightarrow>
   display_store \<Rightarrow> display_store \<times> create_store_result" where
  "create_on_connector validated owner_capability now retain_identity connector_index s =
     (let display_id = ctd_display_id (vct_request validated) in
      if \<not> is_temporary_connector_index s connector_index
      then (s, create_failure TemporaryDisplayLimitReached)
      else if retain_identity then
        (if edid_identity_is_active (displays_by_id s) display_id
         then (s, create_failure DuplicateDisplayIdentity)
         else
           install_temporary_display validated owner_capability now connector_index
             True display_id s)
      else
        (case pick_ephemeral_identity (displays_by_id s) (next_ephemeral_identity s) of
           None \<Rightarrow> (s, create_failure StoreDiverged)
         | Some (identity, next) \<Rightarrow>
             install_temporary_display validated owner_capability now connector_index
               False identity (s\<lparr>next_ephemeral_identity := next\<rparr>)))"

definition create_temporary_display_impl ::
  "create_temporary_display_request \<Rightarrow> owner_capability option \<Rightarrow> time_point \<Rightarrow>
   display_store \<Rightarrow> display_store \<times> create_store_result" where
  "create_temporary_display_impl request owner_capability now s =
     (case validate_create_temporary_display request of
        (validation, None) \<Rightarrow> (s, validation_failure validation, empty_create_result)
      | (validation, Some validated) \<Rightarrow>
          (let precheck = create_precheck request owner_capability now s in
           if precheck \<noteq> StoreNone then (s, create_failure precheck)
           else
             let retain_identity =
                   (ctd_flags (vct_request validated) AND
                    kCreateTemporaryDisplayFlagEphemeralIdentity = 0);
                 (s1, connector_index) =
                   connector_index_for_display (ctd_display_id request) retain_identity s in
             create_on_connector validated owner_capability now retain_identity connector_index
               s1))"

definition create_temporary_display ::
  "create_temporary_display_request \<Rightarrow> time_point \<Rightarrow> display_store \<Rightarrow> display_store \<times> create_store_result" where
  "create_temporary_display request now s = create_temporary_display_impl request None now s"

definition create_temporary_display_owned ::
  "create_temporary_display_owned_request \<Rightarrow> time_point \<Rightarrow> display_store \<Rightarrow>
   display_store \<times> create_store_result" where
  "create_temporary_display_owned request now s =
     (let validation = validate_create_temporary_display_owned request in
      if validation \<noteq> VNone then (s, validation_failure validation, empty_create_result)
      else
        create_temporary_display_impl (cto_display request) (Some (cto_owner_capability request))
          now s)"

section \<open>Reclaiming a lease\<close>

definition empty_reclaim_result :: reclaim_temporary_display_result where
  "empty_reclaim_result =
     \<lparr>rtr_api_namespace = kApiNamespaceGuid, rtr_lease_id = 0, rtr_display_id = 0,
      rtr_connector_index = 0, rtr_effective_timeout_ms = 0, rtr_temporary_display_count = 0\<rparr>"

type_synonym reclaim_store_result = "store_result \<times> reclaim_temporary_display_result"

definition capability_matches :: "owner_capability option \<Rightarrow> owner_capability \<Rightarrow> bool" where
  "capability_matches stored given =
     (case stored of None \<Rightarrow> False | Some c \<Rightarrow> owner_capabilities_equal c given)"

definition reclaim_allowed ::
  "reclaim_temporary_display_request \<Rightarrow> temporary_display_record \<Rightarrow> time_point \<Rightarrow> display_store \<Rightarrow> bool" where
  "reclaim_allowed request display now s \<longleftrightarrow>
     (case omap_find (leases_by_id s) (tdr_lease_id display) of
        None \<Rightarrow> False
      | Some lease \<Rightarrow>
          \<not> (lease_expires_at lease \<le> now \<or>
             lease_has_pending_departure s (tdr_lease_id display) \<or>
             \<not> capability_matches (lease_owner_capability lease) (rtd_owner_capability request)) \<and>
          \<not> (rtd_new_lease_id request = tdr_lease_id display \<or>
             omap_find (leases_by_id s) (rtd_new_lease_id request) \<noteq> None))"

definition reclaim_temporary_display ::
  "reclaim_temporary_display_request \<Rightarrow> time_point \<Rightarrow> display_store \<Rightarrow>
   display_store \<times> reclaim_store_result" where
  "reclaim_temporary_display request now s =
     (let validation = validate_reclaim_temporary_display request in
      if validation \<noteq> VNone then (s, validation_failure validation, empty_reclaim_result)
      else
        (case omap_find (displays_by_id s) (rtd_display_id request) of
           None \<Rightarrow> (s, store_failure LeaseNotFound, empty_reclaim_result)
         | Some display \<Rightarrow>
             if tdr_pending_departure display \<or> \<not> reclaim_allowed request display now s
             then (s, store_failure LeaseNotFound, empty_reclaim_result)
             else
               let old_lease_id = tdr_lease_id display;
                   timeout_ms = normalize_timeout_ms (rtd_requested_timeout_ms request);
                   expires_at = now + milliseconds timeout_ms;
                   capability = (case omap_find (leases_by_id s) old_lease_id of
                       None \<Rightarrow> None | Some lease \<Rightarrow> lease_owner_capability lease);
                   moved = length (filter (\<lambda>entry. tdr_lease_id (snd entry) = old_lease_id)
                             (displays_by_id s));
                   s1 = s\<lparr>displays_by_id := omap_map (\<lambda>record.
                            if tdr_lease_id record \<noteq> old_lease_id then record
                            else record\<lparr>tdr_lease_id := rtd_new_lease_id request,
                                        tdr_timeout_ms := timeout_ms,
                                        tdr_expires_at := expires_at\<rparr>) (displays_by_id s)\<rparr>;
                   s2 = s1\<lparr>leases_by_id := omap_emplace (rtd_new_lease_id request)
                            \<lparr>lease_timeout_ms = timeout_ms, lease_expires_at = expires_at,
                             lease_owner_capability = capability\<rparr>
                            (omap_erase old_lease_id (leases_by_id s1))\<rparr>
               in (s2, ok_result,
                   empty_reclaim_result
                     \<lparr>rtr_lease_id := rtd_new_lease_id request,
                      rtr_display_id := rtd_display_id request,
                      rtr_connector_index := tdr_connector_index display,
                      rtr_effective_timeout_ms := timeout_ms,
                      rtr_temporary_display_count := of_nat moved\<rparr>)))"

section \<open>Removing displays\<close>

definition remove_temporary_display ::
  "lease_display_request \<Rightarrow> remove_temporary_display_mode \<Rightarrow> display_store \<Rightarrow>
   display_store \<times> store_result" where
  "remove_temporary_display request mode s =
     (let validation = validate_lease_display_request request in
      if validation \<noteq> VNone then (s, validation_failure validation)
      else
        (case omap_find (displays_by_id s) (ldr_display_id request) of
           None \<Rightarrow> (s, store_failure DisplayNotFound)
         | Some display \<Rightarrow>
             if tdr_lease_id display \<noteq> ldr_lease_id request
             then (s, store_failure DisplayNotFound)
             else
               let s1 = (if mode = ReleaseConnectorReservation
                         then s\<lparr>connector_reservations_by_display_id :=
                           omap_erase (ldr_display_id request)
                             (connector_reservations_by_display_id s)\<rparr>
                         else s);
                   s2 = s1\<lparr>displays_by_id :=
                          omap_erase (ldr_display_id request) (displays_by_id s1)\<rparr>
               in (remove_lease_if_empty (ldr_lease_id request) s2, ok_result)))"

definition mark_temporary_display_pending_departure ::
  "lease_display_request \<Rightarrow> display_store \<Rightarrow> display_store \<times> store_result" where
  "mark_temporary_display_pending_departure request s =
     (let validation = validate_lease_display_request request in
      if validation \<noteq> VNone then (s, validation_failure validation)
      else
        (case omap_find (displays_by_id s) (ldr_display_id request) of
           None \<Rightarrow> (s, store_failure DisplayNotFound)
         | Some display \<Rightarrow>
             if tdr_lease_id display \<noteq> ldr_lease_id request
             then (s, store_failure DisplayNotFound)
             else
               (s\<lparr>displays_by_id := omap_insert (ldr_display_id request)
                    (display\<lparr>tdr_pending_departure := True\<rparr>) (displays_by_id s)\<rparr>,
                ok_result)))"

definition abandon_pending_temporary_display ::
  "lease_display_request \<Rightarrow> u64 \<Rightarrow> owner_capability \<Rightarrow> display_store \<Rightarrow> display_store \<times> store_result" where
  "abandon_pending_temporary_display request expected_generation owner_capability s =
     (let validation = validate_lease_display_request request in
      if validation \<noteq> VNone then (s, validation_failure validation)
      else
        (case omap_find (displays_by_id s) (ldr_display_id request) of
           None \<Rightarrow> (s, store_failure DisplayNotFound)
         | Some display \<Rightarrow>
             if tdr_lease_id display \<noteq> ldr_lease_id request \<or>
                tdr_generation display \<noteq> expected_generation \<or>
                \<not> tdr_pending_departure display
             then (s, store_failure DisplayNotFound)
             else
               (case omap_find (leases_by_id s) (ldr_lease_id request) of
                  None \<Rightarrow> (s, store_failure LeaseNotFound)
                | Some lease \<Rightarrow>
                    if \<not> capability_matches (lease_owner_capability lease) owner_capability
                    then (s, store_failure LeaseNotFound)
                    else
                      (remove_lease_if_empty (ldr_lease_id request)
                         (s\<lparr>quarantined_connectors :=
                              insert (tdr_connector_index display) (quarantined_connectors s),
                            connector_reservations_by_display_id :=
                              omap_erase (ldr_display_id request)
                                (connector_reservations_by_display_id s),
                            displays_by_id :=
                              omap_erase (ldr_display_id request) (displays_by_id s)\<rparr>),
                       ok_result))))"

definition release_lease :: "lease_request \<Rightarrow> display_store \<Rightarrow> display_store \<times> store_result" where
  "release_lease request s =
     (let validation = validate_lease_request request in
      if validation \<noteq> VNone then (s, validation_failure validation)
      else if omap_find (leases_by_id s) (lr_lease_id request) = None
      then (s, store_failure LeaseNotFound)
      else
        (s\<lparr>displays_by_id :=
             filter (\<lambda>entry. tdr_lease_id (snd entry) \<noteq> lr_lease_id request) (displays_by_id s),
           leases_by_id := omap_erase (lr_lease_id request) (leases_by_id s)\<rparr>,
         ok_result))"

text \<open>The iterator loop of \<open>reap_expired\<close> over the entries the map held at the start.\<close>

fun reap_from ::
  "time_point \<Rightarrow> (u64, temporary_display_record) omap \<Rightarrow> display_store \<Rightarrow> u32 \<Rightarrow> display_store \<times> u32" where
  "reap_from now [] s removed_count = (s, removed_count)"
| "reap_from now (entry # entries) s removed_count =
     (if tdr_expires_at (snd entry) \<le> now
      then
        reap_from now entries
          (remove_lease_if_empty (tdr_lease_id (snd entry))
             (s\<lparr>displays_by_id := omap_erase (fst entry) (displays_by_id s)\<rparr>))
          (removed_count + 1)
      else reap_from now entries s removed_count)"

definition reap_expired :: "time_point \<Rightarrow> display_store \<Rightarrow> display_store \<times> u32" where
  "reap_expired now s = reap_from now (displays_by_id s) s 0"

section \<open>Feeding and querying leases\<close>

definition feed_lease :: "lease_request \<Rightarrow> time_point \<Rightarrow> display_store \<Rightarrow> display_store \<times> store_result" where
  "feed_lease request now s =
     (let validation = validate_lease_request request in
      if validation \<noteq> VNone then (s, validation_failure validation)
      else
        (case omap_find (leases_by_id s) (lr_lease_id request) of
           None \<Rightarrow> (s, store_failure LeaseNotFound)
         | Some lease \<Rightarrow>
             if lease_expires_at lease \<le> now \<or>
                lease_has_expired_pending_departure s (lr_lease_id request) now
             then (s, store_failure LeaseNotFound)
             else
               let timeout_ms = normalize_timeout_ms (lr_requested_timeout_ms request);
                   expires_at = now + milliseconds timeout_ms
               in (s\<lparr>leases_by_id := omap_insert (lr_lease_id request)
                       (lease\<lparr>lease_timeout_ms := timeout_ms, lease_expires_at := expires_at\<rparr>)
                       (leases_by_id s),
                     displays_by_id := omap_map (\<lambda>display.
                       if tdr_lease_id display = lr_lease_id request \<and>
                          \<not> tdr_pending_departure display
                       then display\<lparr>tdr_timeout_ms := timeout_ms, tdr_expires_at := expires_at\<rparr>
                       else display) (displays_by_id s)\<rparr>,
                   ok_result)))"

definition query_lease :: "u64 \<Rightarrow> time_point \<Rightarrow> display_store \<Rightarrow> query_lease_result" where
  "query_lease lease_id now s =
     (let result = \<lparr>qlr_lease_id = lease_id, qlr_temporary_display_count = 0,
                    qlr_effective_timeout_ms = 0, qlr_remaining_ms = 0, qlr_lease_exists = 0,
                    qlr_pending_departure_count = 0\<rparr> in
      case omap_find (leases_by_id s) lease_id of
        None \<Rightarrow> result
      | Some lease \<Rightarrow>
          result
            \<lparr>qlr_lease_exists := 1,
             qlr_effective_timeout_ms := lease_timeout_ms lease,
             qlr_remaining_ms :=
               of_int (max 0 (duration_cast_milliseconds (lease_expires_at lease - now))),
             qlr_temporary_display_count :=
               of_nat (length (filter (\<lambda>entry. tdr_lease_id (snd entry) = lease_id)
                 (displays_by_id s))),
             qlr_pending_departure_count :=
               of_nat (length (filter (\<lambda>entry. tdr_lease_id (snd entry) = lease_id \<and>
                 tdr_pending_departure (snd entry)) (displays_by_id s)))\<rparr>)"

section \<open>Queries\<close>

definition find_temporary_display :: "u64 \<Rightarrow> display_store \<Rightarrow> temporary_display_record option" where
  "find_temporary_display display_id s = omap_find (displays_by_id s) display_id"

definition authorize_temporary_display_owner ::
  "lease_display_request \<Rightarrow> owner_capability \<Rightarrow> time_point \<Rightarrow> display_store \<Rightarrow>
   temporary_display_record option" where
  "authorize_temporary_display_owner request owner_capability now s =
     (if validate_lease_display_request request \<noteq> VNone then None
      else
        (case (omap_find (displays_by_id s) (ldr_display_id request),
               omap_find (leases_by_id s) (ldr_lease_id request)) of
           (Some display, Some lease) \<Rightarrow>
             if tdr_lease_id display \<noteq> ldr_lease_id request \<or> tdr_pending_departure display \<or>
                lease_expires_at lease \<le> now \<or> tdr_expires_at display \<le> now \<or>
                \<not> capability_matches (lease_owner_capability lease) owner_capability
             then None else Some display
         | _ \<Rightarrow> None))"

definition temporary_displays :: "display_store \<Rightarrow> temporary_display_record list" where
  "temporary_displays s = map snd (displays_by_id s)"

definition temporary_displays_for_lease :: "u64 \<Rightarrow> display_store \<Rightarrow> temporary_display_record list" where
  "temporary_displays_for_lease lease_id s =
     filter (\<lambda>display. tdr_lease_id display = lease_id) (map snd (displays_by_id s))"

definition pending_departure_temporary_displays :: "display_store \<Rightarrow> temporary_display_record list" where
  "pending_departure_temporary_displays s = filter tdr_pending_departure (map snd (displays_by_id s))"

definition expired_temporary_displays ::
  "time_point \<Rightarrow> display_store \<Rightarrow> temporary_display_record list" where
  "expired_temporary_displays now s =
     filter (\<lambda>display. tdr_expires_at display \<le> now) (map snd (displays_by_id s))"

end
