(* ===== verification/Lease_Store_Props.thy ===== *)
theory Lease_Store_Props
  imports Lease_Store
begin

text \<open>
  The invariant of the display store and its preservation by every operation. It has three
  parts: the table of displays with its connectors, reservations, quarantine and identities
  (\<open>table_ok\<close>); the correspondence of leases and displays (\<open>leases_ok\<close>); and the permanent
  manifest (\<open>permanent_ok\<close>). Operations that only remove displays or change lease data are
  covered by one evolution lemma; creating a display has its own.
\<close>

section \<open>Scans of the tables as lookups\<close>

abbreviation (input) display_at :: "display_store \<Rightarrow> u64 \<Rightarrow> temporary_display_record option" where
  "display_at s \<equiv> omap_find (displays_by_id s)"

abbreviation (input) lease_at :: "display_store \<Rightarrow> u64 \<Rightarrow> lease_record option" where
  "lease_at s \<equiv> omap_find (leases_by_id s)"

abbreviation (input) reservation_at :: "display_store \<Rightarrow> u64 \<Rightarrow> u32 option" where
  "reservation_at s \<equiv> omap_find (connector_reservations_by_display_id s)"

definition maps_ok :: "display_store \<Rightarrow> bool" where
  "maps_ok s \<longleftrightarrow>
     omap_wf (displays_by_id s) \<and> omap_wf (leases_by_id s) \<and>
     omap_wf (connector_reservations_by_display_id s)"

lemma list_ex_omap:
  "omap_wf m \<Longrightarrow> list_ex P m \<longleftrightarrow> (\<exists>k v. omap_find m k = Some v \<and> P (k, v))"
  by (auto simp: list_ex_iff omap_find_Some_iff)

lemma omap_find_filter_entry:
  "omap_wf m \<Longrightarrow> omap_find (filter P m) k =
     (case omap_find m k of None \<Rightarrow> None | Some v \<Rightarrow> if P (k, v) then Some v else None)"
  using omap_find_filter[of m "\<lambda>k v. P (k, v)" k] by simp

lemma scan_simps:
  assumes "maps_ok s"
  shows "connector_index_is_active s c \<longleftrightarrow>
      (\<exists>d r. display_at s d = Some r \<and> tdr_connector_index r = c)"
    and "connector_index_is_reserved s c \<longleftrightarrow> (\<exists>d. reservation_at s d = Some c)"
    and "connector_index_is_reserved_for_other_display s c e \<longleftrightarrow>
      (\<exists>d. d \<noteq> e \<and> reservation_at s d = Some c)"
    and "lease_has_displays s l \<longleftrightarrow> (\<exists>d r. display_at s d = Some r \<and> tdr_lease_id r = l)"
    and "lease_has_pending_departure s l \<longleftrightarrow>
      (\<exists>d r. display_at s d = Some r \<and> tdr_lease_id r = l \<and> tdr_pending_departure r)"
    and "lease_has_expired_pending_departure s l now \<longleftrightarrow>
      (\<exists>d r. display_at s d = Some r \<and> tdr_lease_id r = l \<and> tdr_pending_departure r \<and>
         tdr_expires_at r \<le> now)"
  using assms
  by (auto simp: maps_ok_def connector_index_is_active_def connector_index_is_reserved_def
      connector_index_is_reserved_for_other_display_def lease_has_displays_def
      lease_has_pending_departure_def lease_has_expired_pending_departure_def list_ex_omap)

lemma edid_active_iff:
  "omap_wf m \<Longrightarrow> edid_identity_is_active m i \<longleftrightarrow>
     (\<exists>d r. omap_find m d = Some r \<and> edid_identity (identity_display_id r) = edid_identity i)"
  by (auto simp: edid_identity_is_active_def edid_identity_def list_ex_omap)

lemma fold_or_zero_iff:
  fixes f :: "'i \<Rightarrow> 'a::len word"
  shows "fold (\<lambda>i d. d OR f i) xs a = 0 \<longleftrightarrow> a = 0 \<and> (\<forall>i \<in> set xs. f i = 0)"
  by (induction xs arbitrary: a) (auto simp: or_eq_0_iff)

lemma xor_zero_iff: "(a :: 'a::len word) XOR b = 0 \<longleftrightarrow> a = b"
proof
  assume "a XOR b = 0"
  then have "(a XOR b) XOR b = b" by simp
  then show "a = b" by (simp add: xor.assoc)
qed simp

lemma owner_capabilities_equal_iff:
  assumes "length lhs = length rhs"
  shows "owner_capabilities_equal lhs rhs \<longleftrightarrow> lhs = rhs"
proof -
  have "owner_capabilities_equal lhs rhs \<longleftrightarrow> (\<forall>i < length lhs. lhs ! i XOR rhs ! i = 0)"
    unfolding owner_capabilities_equal_def by (auto simp: fold_or_zero_iff)
  also have "\<dots> \<longleftrightarrow> lhs = rhs" using assms by (auto simp: list_eq_iff_nth_eq xor_zero_iff)
  finally show ?thesis .
qed

lemma owner_capabilities_equal_refl [simp]: "owner_capabilities_equal c c"
  by (simp add: owner_capabilities_equal_iff)

section \<open>The invariant\<close>

text \<open>What a record says of its monitor, with the lease-related fields blanked out.\<close>

definition monitor_of :: "temporary_display_record \<Rightarrow> temporary_display_record" where
  "monitor_of r = r
     \<lparr>tdr_lease_id := 0, tdr_timeout_ms := 0, tdr_expires_at := 0, tdr_pending_departure := False\<rparr>"

definition record_ok :: "display_store \<Rightarrow> u64 \<Rightarrow> temporary_display_record \<Rightarrow> bool" where
  "record_ok s d r \<longleftrightarrow>
     tdr_display_id r = d \<and> d \<noteq> 0 \<and> tdr_identity_display_id r \<noteq> 0 \<and>
     (tdr_retain_identity r \<longrightarrow>
        tdr_identity_display_id r = d \<and> reservation_at s d = Some (tdr_connector_index r)) \<and>
     is_temporary_connector_index s (tdr_connector_index r) \<and>
     mode_in_range (tdr_width r) (tdr_height r) (tdr_refresh_rate_millihz r) \<and>
     \<not> physical_size_out_of_range (tdr_physical_width_mm r) (tdr_physical_height_mm r) \<and>
     400 \<le> tdr_hdr_max_luminance_nits r \<and> tdr_hdr_max_luminance_nits r \<le> 2000 \<and>
     tdr_display_name r \<noteq> [] \<and> length (tdr_display_name r) < kDisplayNameChars \<and>
     (\<forall>c \<in> set (tdr_display_name r). printable c) \<and>
     tdr_generation r < next_temporary_display_generation s"

definition table_ok :: "display_store \<Rightarrow> bool" where
  "table_ok s \<longleftrightarrow>
     (\<forall>d r. display_at s d = Some r \<longrightarrow> record_ok s d r) \<and>
     (\<forall>d r e q. display_at s d = Some r \<longrightarrow> display_at s e = Some q \<longrightarrow> d \<noteq> e \<longrightarrow>
        tdr_connector_index r \<noteq> tdr_connector_index q \<and>
        edid_identity (identity_display_id r) \<noteq> edid_identity (identity_display_id q) \<and>
        tdr_generation r \<noteq> tdr_generation q) \<and>
     (\<forall>d r e. display_at s d = Some r \<longrightarrow> reservation_at s e = Some (tdr_connector_index r) \<longrightarrow>
        e = d) \<and>
     (\<forall>c \<in> quarantined_connectors s. \<forall>e. reservation_at s e \<noteq> Some c) \<and>
     (\<forall>c \<in> quarantined_connectors s. \<forall>d r. display_at s d = Some r \<longrightarrow>
        tdr_connector_index r \<noteq> c) \<and>
     length (displays_by_id s) \<le> unat (max_temporary_displays s)"

definition leases_ok :: "display_store \<Rightarrow> bool" where
  "leases_ok s \<longleftrightarrow>
     (\<forall>l. lease_at s l \<noteq> None \<longleftrightarrow> (\<exists>d r. display_at s d = Some r \<and> tdr_lease_id r = l)) \<and>
     (\<forall>d r l. display_at s d = Some r \<longrightarrow> lease_at s (tdr_lease_id r) = Some l \<longrightarrow>
        \<not> tdr_pending_departure r \<longrightarrow>
        tdr_expires_at r = lease_expires_at l \<and> tdr_timeout_ms r = lease_timeout_ms l) \<and>
     (\<forall>l rec. lease_at s l = Some rec \<longrightarrow>
        kMinOpaqueLeaseId \<le> l \<and> kMinLeaseTimeoutMs \<le> lease_timeout_ms rec \<and>
        lease_timeout_ms rec \<le> kMaxLeaseTimeoutMs)"

definition permanent_ok :: "display_store \<Rightarrow> bool" where
  "permanent_ok s \<longleftrightarrow>
     manifest_ok (max_permanent_displays s) (display_manifest_of s) \<and>
     permanent_display_count s = man_profile_count (display_manifest_of s) \<and>
     permanent_display_settings s = permanent_settings_from_display_manifest (display_manifest_of s)"

definition store_inv :: "display_store \<Rightarrow> bool" where
  "store_inv s \<longleftrightarrow> maps_ok s \<and> table_ok s \<and> leases_ok s \<and> permanent_ok s"

lemma store_invI [intro?]:
  "maps_ok s \<Longrightarrow> table_ok s \<Longrightarrow> leases_ok s \<Longrightarrow> permanent_ok s \<Longrightarrow> store_inv s"
  by (simp add: store_inv_def)

lemma store_invD:
  assumes "store_inv s"
  shows "maps_ok s" and "table_ok s" and "leases_ok s" and "permanent_ok s"
  using assms by (simp_all add: store_inv_def)

lemma table_okD:
  assumes "table_ok s" and "display_at s d = Some r"
  shows "record_ok s d r"
    and "display_at s e = Some q \<Longrightarrow> d \<noteq> e \<Longrightarrow> tdr_connector_index r \<noteq> tdr_connector_index q"
    and "display_at s e = Some q \<Longrightarrow> d \<noteq> e \<Longrightarrow>
      edid_identity (identity_display_id r) \<noteq> edid_identity (identity_display_id q)"
    and "display_at s e = Some q \<Longrightarrow> d \<noteq> e \<Longrightarrow> tdr_generation r \<noteq> tdr_generation q"
    and "reservation_at s e = Some (tdr_connector_index r) \<Longrightarrow> e = d"
    and "tdr_connector_index r \<notin> quarantined_connectors s"
  using assms unfolding table_ok_def by blast+

lemma leases_okD:
  assumes "leases_ok s"
  shows "lease_at s l = Some rec \<Longrightarrow> \<exists>d r. display_at s d = Some r \<and> tdr_lease_id r = l"
    and "display_at s d = Some r \<Longrightarrow> \<exists>rec. lease_at s (tdr_lease_id r) = Some rec"
    and "display_at s d = Some r \<Longrightarrow> lease_at s (tdr_lease_id r) = Some rec \<Longrightarrow>
      \<not> tdr_pending_departure r \<Longrightarrow>
      tdr_expires_at r = lease_expires_at rec \<and> tdr_timeout_ms r = lease_timeout_ms rec"
    and "lease_at s l = Some rec \<Longrightarrow> kMinOpaqueLeaseId \<le> l \<and>
      kMinLeaseTimeoutMs \<le> lease_timeout_ms rec \<and> lease_timeout_ms rec \<le> kMaxLeaseTimeoutMs"
  using assms unfolding leases_ok_def by blast+

lemma leases_okI:
  assumes "\<And>l rec. lease_at s l = Some rec \<Longrightarrow> \<exists>d r. display_at s d = Some r \<and> tdr_lease_id r = l"
    and "\<And>d r. display_at s d = Some r \<Longrightarrow> \<exists>rec. lease_at s (tdr_lease_id r) = Some rec"
    and "\<And>d r rec. display_at s d = Some r \<Longrightarrow> lease_at s (tdr_lease_id r) = Some rec \<Longrightarrow>
      \<not> tdr_pending_departure r \<Longrightarrow>
      tdr_expires_at r = lease_expires_at rec \<and> tdr_timeout_ms r = lease_timeout_ms rec"
    and "\<And>l rec. lease_at s l = Some rec \<Longrightarrow> kMinOpaqueLeaseId \<le> l \<and>
      kMinLeaseTimeoutMs \<le> lease_timeout_ms rec \<and> lease_timeout_ms rec \<le> kMaxLeaseTimeoutMs"
  shows "leases_ok s"
  using assms unfolding leases_ok_def by blast

lemma monitor_of_fields:
  assumes "monitor_of r' = monitor_of r"
  shows "tdr_display_id r' = tdr_display_id r"
    and "tdr_identity_display_id r' = tdr_identity_display_id r"
    and "tdr_retain_identity r' = tdr_retain_identity r"
    and "tdr_connector_index r' = tdr_connector_index r"
    and "tdr_width r' = tdr_width r" and "tdr_height r' = tdr_height r"
    and "tdr_refresh_rate_millihz r' = tdr_refresh_rate_millihz r"
    and "tdr_physical_width_mm r' = tdr_physical_width_mm r"
    and "tdr_physical_height_mm r' = tdr_physical_height_mm r"
    and "tdr_hdr_max_luminance_nits r' = tdr_hdr_max_luminance_nits r"
    and "tdr_display_name r' = tdr_display_name r"
    and "tdr_generation r' = tdr_generation r"
    and "identity_display_id r' = identity_display_id r"
  using assms by (cases r; cases r'; simp add: monitor_of_def identity_display_id_def)+

text \<open>
  The evolution lemma: a store whose displays are all displays of the old store (up to their
  lease data), with fewer reservations and perhaps more quarantined connectors, is still in
  order.
\<close>

lemma table_evolves:
  assumes ok: "table_ok s"
    and static: "max_permanent_displays s' = max_permanent_displays s"
      "max_temporary_displays s' = max_temporary_displays s"
      "next_temporary_display_generation s' = next_temporary_display_generation s"
    and displays: "\<And>d r'. display_at s' d = Some r' \<Longrightarrow>
      \<exists>r. display_at s d = Some r \<and> monitor_of r' = monitor_of r"
    and reservations: "\<And>e c. reservation_at s' e = Some c \<Longrightarrow> reservation_at s e = Some c"
    and kept: "\<And>d r'. display_at s' d = Some r' \<Longrightarrow> tdr_retain_identity r' \<Longrightarrow>
      reservation_at s' d = reservation_at s d"
    and quarantine: "\<And>c. c \<in> quarantined_connectors s' \<Longrightarrow> c \<notin> quarantined_connectors s \<Longrightarrow>
      (\<forall>e. reservation_at s' e \<noteq> Some c) \<and>
      (\<forall>d r. display_at s' d = Some r \<longrightarrow> tdr_connector_index r \<noteq> c)"
    and len: "length (displays_by_id s') \<le> length (displays_by_id s)"
  shows "table_ok s'"
proof -
  have lim: "is_temporary_connector_index s' c = is_temporary_connector_index s c" for c
    using static by (simp add: is_temporary_connector_index_def temporary_connector_limit_def)
  have rec: "record_ok s' d r'" if d: "display_at s' d = Some r'" for d r'
  proof -
    obtain r where r: "display_at s d = Some r" "monitor_of r' = monitor_of r"
      using displays d by blast
    have "record_ok s d r" using table_okD(1)[OF ok r(1)] .
    then show ?thesis
      using kept[OF d] unfolding record_ok_def
      by (simp add: monitor_of_fields[OF r(2)] lim static)
  qed
  have pair: "tdr_connector_index r \<noteq> tdr_connector_index q \<and>
      edid_identity (identity_display_id r) \<noteq> edid_identity (identity_display_id q) \<and>
      tdr_generation r \<noteq> tdr_generation q"
    if d: "display_at s' d = Some r" and e: "display_at s' e = Some q" and ne: "d \<noteq> e" for d e r q
  proof -
    obtain r0 q0 where r0: "display_at s d = Some r0" "monitor_of r = monitor_of r0"
      and q0: "display_at s e = Some q0" "monitor_of q = monitor_of q0"
      using displays d e by metis
    show ?thesis
      using table_okD(2-4)[OF ok r0(1) q0(1) ne]
      by (simp add: monitor_of_fields[OF r0(2)] monitor_of_fields[OF q0(2)])
  qed
  have own: "e = d"
    if d: "display_at s' d = Some r" and "reservation_at s' e = Some (tdr_connector_index r)" for d e r
  proof -
    obtain r0 where r0: "display_at s d = Some r0" "monitor_of r = monitor_of r0"
      using displays d by blast
    then show ?thesis
      using that table_okD(5)[OF ok r0(1), of e] reservations
      by (simp add: monitor_of_fields[OF r0(2)])
  qed
  have q1: "reservation_at s' e \<noteq> Some c" if "c \<in> quarantined_connectors s'" for c e
    using that quarantine reservations ok unfolding table_ok_def by metis
  have q2: "tdr_connector_index r \<noteq> c"
    if c: "c \<in> quarantined_connectors s'" and d: "display_at s' d = Some r" for c d r
  proof (cases "c \<in> quarantined_connectors s")
    case True
    obtain r0 where r0: "display_at s d = Some r0" "monitor_of r = monitor_of r0"
      using displays d by blast
    then show ?thesis using table_okD(6)[OF ok r0(1)] True
      by (auto simp: monitor_of_fields[OF r0(2)])
  qed (use c d quarantine in blast)
  have "length (displays_by_id s') \<le> unat (max_temporary_displays s')"
    using ok len static by (simp add: table_ok_def)
  then show ?thesis unfolding table_ok_def using rec pair own q1 q2 by blast
qed

section \<open>Removing displays\<close>

lemma leases_shrink:
  assumes ok: "leases_ok s"
    and displays: "\<And>d r. display_at s' d = Some r \<Longrightarrow> display_at s d = Some r"
    and leases: "\<And>l. lease_at s' l =
      (if \<exists>d r. display_at s' d = Some r \<and> tdr_lease_id r = l then lease_at s l else None)"
  shows "leases_ok s'"
proof -
  have live: "lease_at s' l \<noteq> None \<longleftrightarrow> (\<exists>d r. display_at s' d = Some r \<and> tdr_lease_id r = l)" for l
    using ok displays unfolding leases_ok_def leases[of l] by (auto split: if_splits)
  have sub: "lease_at s' l = Some rec \<Longrightarrow> lease_at s l = Some rec" for l rec
    using leases[of l] by (simp split: if_split_asm)
  show ?thesis unfolding leases_ok_def
  proof (intro conjI allI impI)
    fix d r l
    assume "display_at s' d = Some r" "lease_at s' (tdr_lease_id r) = Some l"
      "\<not> tdr_pending_departure r"
    then show "tdr_expires_at r = lease_expires_at l" "tdr_timeout_ms r = lease_timeout_ms l"
      using ok displays sub unfolding leases_ok_def by blast+
  next
    fix l rec
    assume "lease_at s' l = Some rec"
    then show "kMinOpaqueLeaseId \<le> l" "kMinLeaseTimeoutMs \<le> lease_timeout_ms rec"
      "lease_timeout_ms rec \<le> kMaxLeaseTimeoutMs"
      using ok sub unfolding leases_ok_def by blast+
  qed (use live in blast)
qed

text \<open>Erasing one display and then its lease if that was the last one.\<close>

definition drop_display :: "u64 \<Rightarrow> u64 \<Rightarrow> display_store \<Rightarrow> display_store" where
  "drop_display d l s =
     remove_lease_if_empty l (s\<lparr>displays_by_id := omap_erase d (displays_by_id s)\<rparr>)"

lemma remove_lease_if_empty_frame [simp, store_frame]:
  "displays_by_id (remove_lease_if_empty l s) = displays_by_id s"
  "connector_reservations_by_display_id (remove_lease_if_empty l s) =
     connector_reservations_by_display_id s"
  "quarantined_connectors (remove_lease_if_empty l s) = quarantined_connectors s"
  "max_permanent_displays (remove_lease_if_empty l s) = max_permanent_displays s"
  "max_temporary_displays (remove_lease_if_empty l s) = max_temporary_displays s"
  "next_temporary_display_generation (remove_lease_if_empty l s) =
     next_temporary_display_generation s"
  "next_ephemeral_identity (remove_lease_if_empty l s) = next_ephemeral_identity s"
  "permanent_display_count (remove_lease_if_empty l s) = permanent_display_count s"
  "permanent_display_settings (remove_lease_if_empty l s) = permanent_display_settings s"
  "display_manifest_of (remove_lease_if_empty l s) = display_manifest_of s"
  by (simp_all add: remove_lease_if_empty_def)

lemma drop_display_frame [simp, store_frame]:
  "displays_by_id (drop_display d l s) = omap_erase d (displays_by_id s)"
  "connector_reservations_by_display_id (drop_display d l s) =
     connector_reservations_by_display_id s"
  "quarantined_connectors (drop_display d l s) = quarantined_connectors s"
  "max_permanent_displays (drop_display d l s) = max_permanent_displays s"
  "max_temporary_displays (drop_display d l s) = max_temporary_displays s"
  "next_temporary_display_generation (drop_display d l s) = next_temporary_display_generation s"
  "next_ephemeral_identity (drop_display d l s) = next_ephemeral_identity s"
  "permanent_display_count (drop_display d l s) = permanent_display_count s"
  "permanent_display_settings (drop_display d l s) = permanent_display_settings s"
  "display_manifest_of (drop_display d l s) = display_manifest_of s"
  by (simp_all add: drop_display_def)

lemma permanent_ok_cong:
  assumes "permanent_ok s"
    and "max_permanent_displays s' = max_permanent_displays s"
    and "permanent_display_count s' = permanent_display_count s"
    and "permanent_display_settings s' = permanent_display_settings s"
    and "display_manifest_of s' = display_manifest_of s"
  shows "permanent_ok s'"
  using assms by (simp add: permanent_ok_def)

lemma maps_ok_erase:
  "maps_ok s \<Longrightarrow> maps_ok (s\<lparr>displays_by_id := omap_erase d (displays_by_id s)\<rparr>)"
  by (simp add: maps_ok_def)

lemma drop_display_maps: "maps_ok s \<Longrightarrow> maps_ok (drop_display d l s)"
  by (auto simp: drop_display_def remove_lease_if_empty_def maps_ok_def)

lemma drop_display_leases:
  assumes inv: "maps_ok s" "leases_ok s" and d: "display_at s d = Some r" "tdr_lease_id r = l"
  shows "lease_at (drop_display d l s) k =
     (if \<exists>e q. display_at (drop_display d l s) e = Some q \<and> tdr_lease_id q = k
      then lease_at s k else None)"
proof -
  let ?s = "s\<lparr>displays_by_id := omap_erase d (displays_by_id s)\<rparr>"
  have has: "lease_has_displays ?s l \<longleftrightarrow>
      (\<exists>e q. display_at (drop_display d l s) e = Some q \<and> tdr_lease_id q = l)"
    using scan_simps(4)[OF maps_ok_erase[OF inv(1)], of d l] by simp
  show ?thesis
  proof (cases "k = l")
    case True
    then show ?thesis using has
      by (simp add: drop_display_def remove_lease_if_empty_def)
  next
    case False
    have "lease_at (drop_display d l s) k = lease_at s k"
      using False by (simp add: drop_display_def remove_lease_if_empty_def)
    moreover have "lease_at s k = None"
      if "\<nexists>e q. display_at (drop_display d l s) e = Some q \<and> tdr_lease_id q = k"
    proof (rule ccontr)
      assume "lease_at s k \<noteq> None"
      then obtain e q where e: "display_at s e = Some q" "tdr_lease_id q = k"
        using inv(2) unfolding leases_ok_def by blast
      then have "e \<noteq> d" using d False by auto
      then have "display_at (drop_display d l s) e = Some q" using e by simp
      then show False using e that by blast
    qed
    ultimately show ?thesis by metis
  qed
qed

text \<open>
  Removing a display keeps the invariant, also when its own reservation goes with it and its
  connector is quarantined.
\<close>

lemma drop_display_inv:
  assumes inv: "store_inv s" and d: "display_at s d = Some r" "tdr_lease_id r = l"
    and res: "R = connector_reservations_by_display_id s \<or>
      R = omap_erase d (connector_reservations_by_display_id s)"
    and quar: "Q = quarantined_connectors s \<or>
      Q = insert (tdr_connector_index r) (quarantined_connectors s) \<and>
      R = omap_erase d (connector_reservations_by_display_id s)"
  shows "store_inv (drop_display d l s
    \<lparr>connector_reservations_by_display_id := R, quarantined_connectors := Q\<rparr>)"
    (is "store_inv ?t")
proof
  note ok = store_invD[OF inv]
  show "maps_ok ?t"
    using drop_display_maps[OF ok(1), of d l] ok(1) res by (auto simp: maps_ok_def)
  show "leases_ok ?t"
    by (rule leases_shrink[OF ok(3)])
       (use drop_display_leases[OF ok(1,3) d] in \<open>auto simp: fun_upd_def split: if_splits\<close>)
  show "permanent_ok ?t" by (rule permanent_ok_cong[OF ok(4)]) simp_all
  show "table_ok ?t"
  proof (rule table_evolves[OF ok(2)])
    fix e q
    assume "display_at ?t e = Some q"
    then have e: "display_at s e = Some q" "e \<noteq> d" by (simp_all add: fun_upd_def split: if_splits)
    then show "\<exists>r. display_at s e = Some r \<and> monitor_of q = monitor_of r" by blast
    show "reservation_at ?t e = reservation_at s e" using e res by auto
  next
    fix c
    assume "c \<in> quarantined_connectors ?t" "c \<notin> quarantined_connectors s"
    then have c: "c = tdr_connector_index r" "R = omap_erase d (connector_reservations_by_display_id s)"
      using quar by auto
    then show "(\<forall>e. reservation_at ?t e \<noteq> Some c) \<and>
      (\<forall>e q. display_at ?t e = Some q \<longrightarrow> tdr_connector_index q \<noteq> c)"
      using table_okD(2,5)[OF ok(2) d(1)] by (fastforce simp: fun_upd_def split: if_splits)
  qed (use res in \<open>auto simp: fun_upd_def split: if_splits\<close>)
qed

lemma remove_temporary_display_cases:
  "remove_temporary_display request mode s =
     (if validate_lease_display_request request \<noteq> VNone
      then (s, validation_failure (validate_lease_display_request request))
      else
        (case display_at s (ldr_display_id request) of
           None \<Rightarrow> (s, store_failure DisplayNotFound)
         | Some display \<Rightarrow>
             if tdr_lease_id display \<noteq> ldr_lease_id request then (s, store_failure DisplayNotFound)
             else
               (drop_display (ldr_display_id request) (ldr_lease_id request) s
                  \<lparr>connector_reservations_by_display_id :=
                     (if mode = ReleaseConnectorReservation
                      then omap_erase (ldr_display_id request) (connector_reservations_by_display_id s)
                      else connector_reservations_by_display_id s),
                   quarantined_connectors := quarantined_connectors s\<rparr>, ok_result)))"
  by (simp add: remove_temporary_display_def drop_display_def remove_lease_if_empty_def
      lease_has_displays_def Let_def split: option.split)

lemma abandon_cases:
  "abandon_pending_temporary_display request generation cap s =
     (if validate_lease_display_request request \<noteq> VNone
      then (s, validation_failure (validate_lease_display_request request))
      else
        (case display_at s (ldr_display_id request) of
           None \<Rightarrow> (s, store_failure DisplayNotFound)
         | Some display \<Rightarrow>
             if tdr_lease_id display \<noteq> ldr_lease_id request \<or> tdr_generation display \<noteq> generation \<or>
                \<not> tdr_pending_departure display
             then (s, store_failure DisplayNotFound)
             else
               (case lease_at s (ldr_lease_id request) of
                  None \<Rightarrow> (s, store_failure LeaseNotFound)
                | Some lease \<Rightarrow>
                    if \<not> capability_matches (lease_owner_capability lease) cap
                    then (s, store_failure LeaseNotFound)
                    else
                      (drop_display (ldr_display_id request) (ldr_lease_id request) s
                         \<lparr>connector_reservations_by_display_id :=
                            omap_erase (ldr_display_id request) (connector_reservations_by_display_id s),
                          quarantined_connectors :=
                            insert (tdr_connector_index display) (quarantined_connectors s)\<rparr>,
                       ok_result))))"
  by (simp add: abandon_pending_temporary_display_def drop_display_def remove_lease_if_empty_def
      lease_has_displays_def Let_def split: option.split)

lemma remove_temporary_display_inv:
  "store_inv s \<Longrightarrow> store_inv (fst (remove_temporary_display request mode s))"
  unfolding remove_temporary_display_cases
  by (auto split: option.split intro!: drop_display_inv)

lemma abandon_inv:
  "store_inv s \<Longrightarrow> store_inv (fst (abandon_pending_temporary_display request generation cap s))"
  unfolding abandon_cases
  by (auto split: option.split intro!: drop_display_inv)

lemma lookup_if_live:
  "y = (if k = l then None else x) \<Longrightarrow> (k = l \<Longrightarrow> \<not> P) \<Longrightarrow> (k \<noteq> l \<Longrightarrow> \<not> P \<Longrightarrow> x = None) \<Longrightarrow>
   y = (if P then x else None)"
  by auto

lemma release_lease_inv:
  assumes inv: "store_inv s"
  shows "store_inv (fst (release_lease request s))"
proof (cases "validate_lease_request request \<noteq> VNone \<or> lease_at s (lr_lease_id request) = None")
  case True
  then show ?thesis using inv by (auto simp: release_lease_def Let_def)
next
  case False
  let ?l = "lr_lease_id request"
  let ?t = "s\<lparr>displays_by_id := filter (\<lambda>e. tdr_lease_id (snd e) \<noteq> ?l) (displays_by_id s),
    leases_by_id := omap_erase ?l (leases_by_id s)\<rparr>"
  note ok = store_invD[OF inv]
  have disp: "display_at ?t d = Some r \<longleftrightarrow> display_at s d = Some r \<and> tdr_lease_id r \<noteq> ?l" for d r
    using ok(1) by (auto simp: maps_ok_def omap_find_filter_entry split: option.splits)
  have "store_inv ?t"
  proof
    show "maps_ok ?t" using ok(1) by (simp add: maps_ok_def)
    show "table_ok ?t" by (rule table_evolves[OF ok(2)]) (use disp in auto)
    show "permanent_ok ?t" by (rule permanent_ok_cong[OF ok(4)]) simp_all
    show "leases_ok ?t"
    proof (rule leases_shrink[OF ok(3)])
      fix k
      have gone: "lease_at s k = None"
        if ne: "k \<noteq> ?l" and none: "\<nexists>d r. display_at ?t d = Some r \<and> tdr_lease_id r = k"
      proof (rule ccontr)
        assume "lease_at s k \<noteq> None"
        then obtain d r where "display_at s d = Some r" "tdr_lease_id r = k"
          using ok(3) unfolding leases_ok_def by blast
        with disp[of d r] ne none show False by blast
      qed
      show "lease_at ?t k =
        (if \<exists>d r. display_at ?t d = Some r \<and> tdr_lease_id r = k then lease_at s k else None)"
        by (rule lookup_if_live[of _ k ?l]) (use disp gone in \<open>simp, blast, blast\<close>)
    qed (use disp in blast)
  qed
  then show ?thesis using False by (auto simp: release_lease_def Let_def)
qed

text \<open>What the reap loop leaves: exactly the displays that had not expired, and their leases.\<close>

definition reap_result :: "display_store \<Rightarrow> (u64 \<times> temporary_display_record \<Rightarrow> bool) \<Rightarrow> display_store \<Rightarrow> bool" where
  "reap_result s gone t \<longleftrightarrow>
     displays_by_id t = filter (\<lambda>e. \<not> gone e) (displays_by_id s) \<and>
     (\<forall>l. lease_at t l =
        (if \<exists>d r. display_at t d = Some r \<and> tdr_lease_id r = l then lease_at s l else None)) \<and>
     connector_reservations_by_display_id t = connector_reservations_by_display_id s \<and>
     quarantined_connectors t = quarantined_connectors s \<and>
     max_permanent_displays t = max_permanent_displays s \<and>
     max_temporary_displays t = max_temporary_displays s \<and>
     permanent_display_count t = permanent_display_count s \<and>
     permanent_display_settings t = permanent_display_settings s \<and>
     display_manifest_of t = display_manifest_of s \<and>
     next_ephemeral_identity t = next_ephemeral_identity s \<and>
     next_temporary_display_generation t = next_temporary_display_generation s"

lemma omap_erase_entry:
  assumes "omap_wf m" "omap_find m k = Some v"
  shows "omap_erase k m = filter (\<lambda>e. e \<noteq> (k, v)) m"
proof -
  have "w = v" if "(k, w) \<in> set m" for w
    using that assms omap_find_Some_iff[OF assms(1), of k w] by simp
  moreover have "(k, v) \<in> set m" using assms by (simp add: omap_find_Some_iff)
  ultimately have "(case e of (k', w) \<Rightarrow> k' \<noteq> k) \<longleftrightarrow> e \<noteq> (k, v)" if "e \<in> set m" for e
    using that by (cases e) blast
  then show ?thesis unfolding omap_erase_def by (intro filter_cong refl)
qed

lemma leases_ok_lookup:
  assumes "leases_ok s"
  shows "lease_at s l =
    (if \<exists>d r. display_at s d = Some r \<and> tdr_lease_id r = l then lease_at s l else None)"
proof (cases "\<exists>d r. display_at s d = Some r \<and> tdr_lease_id r = l")
  case False
  then have "lease_at s l = None" using assms unfolding leases_ok_def by blast
  then show ?thesis by simp
qed (simp only: if_True)

lemma reap_result_lookup:
  assumes "reap_result s gone t" "maps_ok s"
  shows "display_at t e = Some q \<longleftrightarrow> display_at s e = Some q \<and> \<not> gone (e, q)"
  using assms unfolding reap_result_def maps_ok_def
  by (auto simp: omap_find_filter_entry split: option.splits)

lemma reap_result_leases:
  "reap_result s gone t \<Longrightarrow> lease_at t l =
     (if \<exists>d r. display_at t d = Some r \<and> tdr_lease_id r = l then lease_at s l else None)"
  unfolding reap_result_def by blast

lemma reap_from_result:
  assumes "store_inv s" and "\<forall>e \<in> set es. display_at s (fst e) = Some (snd e)"
    and "distinct (map fst es)"
  shows "store_inv (fst (reap_from now es s n)) \<and>
    reap_result s (\<lambda>e. e \<in> set es \<and> tdr_expires_at (snd e) \<le> now) (fst (reap_from now es s n)) \<and>
    snd (reap_from now es s n) = n + of_nat (length (filter (\<lambda>e. tdr_expires_at (snd e) \<le> now) es))"
  using assms
proof (induction es arbitrary: s n)
  case Nil
  have "reap_result s (\<lambda>e. e \<in> set [] \<and> tdr_expires_at (snd e) \<le> now) s"
    unfolding reap_result_def
    by (intro conjI allI; (rule leases_ok_lookup[OF store_invD(3)[OF Nil(1)]] | simp))
  then show ?case using Nil(1) by simp
next
  case (Cons entry es)
  obtain d r where entry: "entry = (d, r)" by (cases entry)
  have d: "display_at s d = Some r" using Cons.prems(2) by (simp add: entry)
  show ?case
  proof (cases "tdr_expires_at r \<le> now")
    case False
    then have same: "(\<lambda>e. e \<in> set (entry # es) \<and> tdr_expires_at (snd e) \<le> now) =
        (\<lambda>e. e \<in> set es \<and> tdr_expires_at (snd e) \<le> now)"
      "reap_from now (entry # es) s n = reap_from now es s n"
      "filter (\<lambda>e. tdr_expires_at (snd e) \<le> now) (entry # es) =
         filter (\<lambda>e. tdr_expires_at (snd e) \<le> now) es"
      by (auto simp: entry fun_eq_iff)
    show ?thesis unfolding same
      by (rule Cons.IH[OF Cons.prems(1)]) (use Cons.prems(2,3) in simp_all)
  next
    case True
    let ?l = "tdr_lease_id r"
    let ?s1 = "drop_display d ?l s"
    note ok = store_invD[OF Cons.prems(1)]
    have wf: "omap_wf (displays_by_id s)" using ok(1) by (simp add: maps_ok_def)
    have same: "?s1\<lparr>connector_reservations_by_display_id := connector_reservations_by_display_id s,
        quarantined_connectors := quarantined_connectors s\<rparr> = ?s1"
      by (simp add: drop_display_def remove_lease_if_empty_def)
    have inv1: "store_inv ?s1"
      using drop_display_inv[OF Cons.prems(1) d refl, of "connector_reservations_by_display_id s"
          "quarantined_connectors s"] unfolding same by blast
    have es1: "\<forall>e \<in> set es. display_at ?s1 (fst e) = Some (snd e)"
      using Cons.prems(2,3) by (force simp: entry)
    have step: "reap_from now (entry # es) s n = reap_from now es ?s1 (n + 1)"
      using True by (simp add: entry drop_display_def)
    have IH: "store_inv (fst (reap_from now es ?s1 (n + 1)))"
      "reap_result ?s1 (\<lambda>e. e \<in> set es \<and> tdr_expires_at (snd e) \<le> now) (fst (reap_from now es ?s1 (n + 1)))"
      "snd (reap_from now es ?s1 (n + 1)) =
         n + 1 + of_nat (length (filter (\<lambda>e. tdr_expires_at (snd e) \<le> now) es))"
      using Cons.IH[OF inv1 es1, of "n + 1"] Cons.prems(3) unfolding list.map distinct.simps
      by blast+
    let ?t = "fst (reap_from now es ?s1 (n + 1))"
    have disp: "displays_by_id ?t =
        filter (\<lambda>e. \<not> (e \<in> set (entry # es) \<and> tdr_expires_at (snd e) \<le> now)) (displays_by_id s)"
    proof -
      have "displays_by_id ?t =
          filter (\<lambda>e. \<not> (e \<in> set es \<and> tdr_expires_at (snd e) \<le> now)) (displays_by_id ?s1)"
        using IH(2) unfolding reap_result_def by blast
      also have "displays_by_id ?s1 = filter (\<lambda>e. e \<noteq> (d, r)) (displays_by_id s)"
        using omap_erase_entry[OF wf d] by simp
      finally show ?thesis
        unfolding filter_filter entry by (rule trans) (rule filter_cong, use True in auto)
    qed
    have live: "\<exists>e q. display_at ?s1 e = Some q \<and> tdr_lease_id q = k"
      if "display_at ?t e = Some q" "tdr_lease_id q = k" for e q k
    proof -
      have "display_at ?s1 e = Some q"
        using that(1) reap_result_lookup[OF IH(2) store_invD(1)[OF inv1]] by blast
      then show ?thesis using that(2) by blast
    qed
    have lease: "lease_at ?t k =
        (if \<exists>d r. display_at ?t d = Some r \<and> tdr_lease_id r = k then lease_at s k else None)" for k
    proof (cases "\<exists>d r. display_at ?t d = Some r \<and> tdr_lease_id r = k")
      case True
      have "lease_at ?t k = lease_at ?s1 k" by (rule trans[OF reap_result_leases[OF IH(2)] if_P[OF True]])
      also have "\<dots> = lease_at s k"
      proof -
        have "\<exists>e q. display_at ?s1 e = Some q \<and> tdr_lease_id q = k" using True live by blast
        then show ?thesis by (rule trans[OF drop_display_leases[OF ok(1,3) d refl] if_P])
      qed
      finally show ?thesis using True by (simp only: if_True)
    next
      case False
      show ?thesis
        by (rule trans[OF reap_result_leases[OF IH(2)]]) (simp only: if_not_P[OF False])
    qed
    have frame: "reap_result s (\<lambda>e. e \<in> set (entry # es) \<and> tdr_expires_at (snd e) \<le> now) ?t"
      using IH(2) unfolding reap_result_def drop_display_frame
      by (elim conjE) (intro conjI allI; (rule lease | rule disp | assumption))
    have count: "snd (reap_from now es ?s1 (n + 1)) =
        n + of_nat (length (filter (\<lambda>e. tdr_expires_at (snd e) \<le> now) (entry # es)))"
      using IH(3) True by (simp add: entry)
    show ?thesis unfolding step using IH(1) frame count by blast
  qed
qed

lemma reap_expired_result:
  assumes inv: "store_inv s"
  shows "store_inv (fst (reap_expired now s))"
    and "reap_result s (\<lambda>e. tdr_expires_at (snd e) \<le> now) (fst (reap_expired now s))"
    and "snd (reap_expired now s) = of_nat (length (expired_temporary_displays now s))"
proof -
  have wf: "omap_wf (displays_by_id s)" using inv by (simp add: store_inv_def maps_ok_def)
  have all: "\<forall>e \<in> set (displays_by_id s). display_at s (fst e) = Some (snd e)"
    using wf by (auto simp: omap_find_Some_iff)
  note r = reap_from_result[OF inv all omap_wf_distinct[OF wf], of now 0, folded reap_expired_def]
  show "store_inv (fst (reap_expired now s))" using r by blast
  have "filter (\<lambda>e. \<not> (e \<in> set (displays_by_id s) \<and> tdr_expires_at (snd e) \<le> now)) (displays_by_id s)
      = filter (\<lambda>e. \<not> tdr_expires_at (snd e) \<le> now) (displays_by_id s)"
    by (rule filter_cong) auto
  then show "reap_result s (\<lambda>e. tdr_expires_at (snd e) \<le> now) (fst (reap_expired now s))"
    using r unfolding reap_result_def by simp
  show "snd (reap_expired now s) = of_nat (length (expired_temporary_displays now s))"
    using r by (simp add: expired_temporary_displays_def filter_map o_def)
qed

section \<open>Changing lease data\<close>

text \<open>Rewriting every record without touching its monitor keeps the table.\<close>

lemma table_map:
  assumes ok: "table_ok s" and f: "\<And>r. monitor_of (f r) = monitor_of r"
  shows "table_ok (s\<lparr>displays_by_id := omap_map f (displays_by_id s), leases_by_id := L\<rparr>)"
  by (rule table_evolves[OF ok]) (auto simp: f)

lemma length_omap_insert_old:
  "omap_wf m \<Longrightarrow> omap_find m k \<noteq> None \<Longrightarrow> length (omap_insert k v m) = length m"
proof (induction m)
  case (Cons e m)
  then show ?case by (cases e) (auto simp: omap_wf_def dest!: map_of_SomeD split: if_splits)
qed simp

lemma mark_pending_inv:
  assumes inv: "store_inv s"
  shows "store_inv (fst (mark_temporary_display_pending_departure request s))"
proof (cases "validate_lease_display_request request = VNone \<and>
    (\<exists>r. display_at s (ldr_display_id request) = Some r \<and> tdr_lease_id r = ldr_lease_id request)")
  case False
  then show ?thesis using inv
    by (auto simp: mark_temporary_display_pending_departure_def Let_def split: option.split)
next
  case True
  then obtain r where r: "display_at s (ldr_display_id request) = Some r"
    "tdr_lease_id r = ldr_lease_id request" by blast
  let ?d = "ldr_display_id request"
  let ?t = "s\<lparr>displays_by_id := omap_insert ?d (r\<lparr>tdr_pending_departure := True\<rparr>) (displays_by_id s)\<rparr>"
  note ok = store_invD[OF inv]
  have len: "length (displays_by_id ?t) = length (displays_by_id s)"
    using r ok(1) by (simp add: maps_ok_def length_omap_insert_old)
  have "store_inv ?t"
  proof
    show "maps_ok ?t" using ok(1) by (simp add: maps_ok_def)
    show "permanent_ok ?t" by (rule permanent_ok_cong[OF ok(4)]) simp_all
    show "table_ok ?t"
      by (rule table_evolves[OF ok(2)])
         (use r len in \<open>auto simp: monitor_of_def split: if_splits\<close>)
    have live: "(\<exists>d q. display_at ?t d = Some q \<and> tdr_lease_id q = l) \<longleftrightarrow>
        (\<exists>d q. display_at s d = Some q \<and> tdr_lease_id q = l)" for l
      using r by (auto split: if_splits) (metis option.inject)
    show "leases_ok ?t"
      using ok(3) unfolding leases_ok_def live by (auto split: if_splits)
  qed
  then show ?thesis using True r
    by (simp add: mark_temporary_display_pending_departure_def Let_def)
qed

lemma feed_lease_inv:
  assumes inv: "store_inv s"
  shows "store_inv (fst (feed_lease request now s))"
proof (cases "fst (feed_lease request now s) = s")
  case False
  let ?l = "lr_lease_id request"
  let ?t = "normalize_timeout_ms (lr_requested_timeout_ms request)"
  let ?e = "now + milliseconds ?t"
  let ?f = "\<lambda>r. if tdr_lease_id r = ?l \<and> \<not> tdr_pending_departure r
    then r\<lparr>tdr_timeout_ms := ?t, tdr_expires_at := ?e\<rparr> else r"
  from False obtain lease where lease: "lease_at s ?l = Some lease"
    and res: "fst (feed_lease request now s) =
      s\<lparr>displays_by_id := omap_map ?f (displays_by_id s),
        leases_by_id := omap_insert ?l
          (lease\<lparr>lease_timeout_ms := ?t, lease_expires_at := ?e\<rparr>) (leases_by_id s)\<rparr>" (is "_ = ?s")
    by (auto simp: feed_lease_def Let_def split: option.splits if_split_asm)
  note ok = store_invD[OF inv]
  have id: "tdr_lease_id (?f r) = tdr_lease_id r" for r by simp
  have "store_inv ?s"
  proof
    show "maps_ok ?s" using ok(1) by (simp add: maps_ok_def)
    show "permanent_ok ?s" by (rule permanent_ok_cong[OF ok(4)]) simp_all
    show "table_ok ?s" by (rule table_map[OF ok(2)]) (simp add: monitor_of_def)
    show "leases_ok ?s"
    proof (rule leases_okI)
      fix l rec
      assume l: "lease_at ?s l = Some rec"
      then obtain old where "lease_at s l = Some old" using lease by (auto split: if_splits)
      then obtain d r where "display_at s d = Some r" "tdr_lease_id r = l"
        using leases_okD(1)[OF ok(3)] by blast
      then have "display_at ?s d = Some (?f r)" "tdr_lease_id (?f r) = l" by simp_all
      then show "\<exists>d r. display_at ?s d = Some r \<and> tdr_lease_id r = l" by blast
    next
      fix l rec
      assume "lease_at ?s l = Some rec"
      then show "kMinOpaqueLeaseId \<le> l \<and> kMinLeaseTimeoutMs \<le> lease_timeout_ms rec \<and>
        lease_timeout_ms rec \<le> kMaxLeaseTimeoutMs"
        using leases_okD(4)[OF ok(3), of l] lease
          normalize_timeout_bounds[of "lr_requested_timeout_ms request"]
        by (auto split: if_splits)
    next
      fix d r
      assume "display_at ?s d = Some r"
      then obtain q where q: "display_at s d = Some q" "r = ?f q" by auto
      then show "\<exists>rec. lease_at ?s (tdr_lease_id r) = Some rec"
        using leases_okD(2)[OF ok(3) q(1)] by auto
      fix rec
      assume "lease_at ?s (tdr_lease_id r) = Some rec" "\<not> tdr_pending_departure r"
      then show "tdr_expires_at r = lease_expires_at rec \<and> tdr_timeout_ms r = lease_timeout_ms rec"
        using q leases_okD(3)[OF ok(3) q(1)] by (auto split: if_splits)
    qed
  qed
  then show ?thesis unfolding res .
qed (use inv in simp)

text \<open>What a successful reclaim does to the store.\<close>

definition reclaimed ::
  "reclaim_temporary_display_request \<Rightarrow> time_point \<Rightarrow> u64 \<Rightarrow> owner_capability option \<Rightarrow>
   display_store \<Rightarrow> display_store" where
  "reclaimed request now old cap s =
     (let t = normalize_timeout_ms (rtd_requested_timeout_ms request); e = now + milliseconds t in
      s\<lparr>displays_by_id := omap_map (\<lambda>r. if tdr_lease_id r \<noteq> old then r
            else r\<lparr>tdr_lease_id := rtd_new_lease_id request, tdr_timeout_ms := t,
                   tdr_expires_at := e\<rparr>) (displays_by_id s),
        leases_by_id := omap_emplace (rtd_new_lease_id request)
          \<lparr>lease_timeout_ms = t, lease_expires_at = e, lease_owner_capability = cap\<rparr>
          (omap_erase old (leases_by_id s))\<rparr>)"

lemma reclaim_outcome:
  obtains (rejected) "fst (reclaim_temporary_display request now s) = s"
      and "sr_error (fst (snd (reclaim_temporary_display request now s))) \<noteq> StoreNone"
  | (accepted) r lease where "validate_reclaim_temporary_display request = VNone"
      and "display_at s (rtd_display_id request) = Some r" and "\<not> tdr_pending_departure r"
      and "lease_at s (tdr_lease_id r) = Some lease" and "now < lease_expires_at lease"
      and "\<not> lease_has_pending_departure s (tdr_lease_id r)"
      and "capability_matches (lease_owner_capability lease) (rtd_owner_capability request)"
      and "rtd_new_lease_id request \<noteq> tdr_lease_id r"
      and "lease_at s (rtd_new_lease_id request) = None"
      and "fst (reclaim_temporary_display request now s) =
        reclaimed request now (tdr_lease_id r) (lease_owner_capability lease) s"
      and "snd (reclaim_temporary_display request now s) =
        (ok_result,
         \<lparr>rtr_api_namespace = kApiNamespaceGuid, rtr_lease_id = rtd_new_lease_id request,
          rtr_display_id = rtd_display_id request, rtr_connector_index = tdr_connector_index r,
          rtr_effective_timeout_ms = normalize_timeout_ms (rtd_requested_timeout_ms request),
          rtr_temporary_display_count = of_nat (length
            (temporary_displays_for_lease (tdr_lease_id r) s))\<rparr>)"
proof (cases "validate_reclaim_temporary_display request = VNone")
  case False
  show ?thesis by (rule rejected) (simp_all add: False reclaim_temporary_display_def validation_failure_def)
next
  case valid: True
  show ?thesis
  proof (cases "display_at s (rtd_display_id request)")
    case None
    show ?thesis by (rule rejected) (simp_all add: valid None reclaim_temporary_display_def store_failure_def)
  next
    case (Some r)
    show ?thesis
    proof (cases "tdr_pending_departure r \<or> \<not> reclaim_allowed request r now s")
      case True
      show ?thesis
        by (rule rejected) (simp_all add: valid Some True reclaim_temporary_display_def store_failure_def)
    next
      case False
      then obtain lease where lease: "lease_at s (tdr_lease_id r) = Some lease"
        "now < lease_expires_at lease" "\<not> lease_has_pending_departure s (tdr_lease_id r)"
        "capability_matches (lease_owner_capability lease) (rtd_owner_capability request)"
        "rtd_new_lease_id request \<noteq> tdr_lease_id r" "lease_at s (rtd_new_lease_id request) = None"
        by (auto simp: reclaim_allowed_def not_le split: option.splits)
      show ?thesis
        by (rule accepted[OF valid Some _ lease])
           (use False in \<open>simp_all add: valid Some lease(1) reclaim_temporary_display_def reclaimed_def
              Let_def empty_reclaim_result_def temporary_displays_for_lease_def filter_map o_def\<close>)
    qed
  qed
qed

lemma reclaim_inv:
  assumes inv: "store_inv s"
  shows "store_inv (fst (reclaim_temporary_display request now s))"
proof (cases rule: reclaim_outcome[of request now s])
  case (accepted r lease)
  let ?old = "tdr_lease_id r" and ?new = "rtd_new_lease_id request"
  let ?t = "normalize_timeout_ms (rtd_requested_timeout_ms request)"
  let ?e = "now + milliseconds ?t"
  let ?f = "\<lambda>r. if tdr_lease_id r \<noteq> ?old then r
    else r\<lparr>tdr_lease_id := ?new, tdr_timeout_ms := ?t, tdr_expires_at := ?e\<rparr>"
  let ?rec = "\<lparr>lease_timeout_ms = ?t, lease_expires_at = ?e,
    lease_owner_capability = lease_owner_capability lease\<rparr>"
  let ?s = "s\<lparr>displays_by_id := omap_map ?f (displays_by_id s),
    leases_by_id := omap_emplace ?new ?rec (omap_erase ?old (leases_by_id s))\<rparr>"
  have s': "fst (reclaim_temporary_display request now s) = ?s"
    using accepted(10) by (simp add: reclaimed_def Let_def)
  note ok = store_invD[OF inv]
  have new: "kMinOpaqueLeaseId \<le> ?new"
    using accepted(1) by (auto simp: validate_reclaim_temporary_display_def split: if_splits)
  have lease': "lease_at ?s k = (if k = ?new then Some ?rec else if k = ?old then None else lease_at s k)" for k
    using accepted(8,9) by (simp add: omap_simps)
  have "store_inv ?s"
  proof
    show "maps_ok ?s" using ok(1) by (simp add: maps_ok_def)
    show "permanent_ok ?s" by (rule permanent_ok_cong[OF ok(4)]) simp_all
    show "table_ok ?s" by (rule table_map[OF ok(2)]) (simp add: monitor_of_def)
    show "leases_ok ?s"
    proof (rule leases_okI)
      fix l rec
      assume l: "lease_at ?s l = Some rec"
      show "\<exists>d q. display_at ?s d = Some q \<and> tdr_lease_id q = l"
      proof (cases "l = ?new")
        case True
        have "display_at ?s (rtd_display_id request) = Some (?f r)" "tdr_lease_id (?f r) = l"
          using accepted(2) True by simp_all
        then show ?thesis by blast
      next
        case False
        then have "lease_at s l = Some rec" "l \<noteq> ?old" using l unfolding lease' by (auto split: if_splits)
        then obtain d q where "display_at s d = Some q" "tdr_lease_id q = l" "l \<noteq> ?old"
          using leases_okD(1)[OF ok(3)] by blast
        then have "display_at ?s d = Some q" by simp
        then show ?thesis using \<open>tdr_lease_id q = l\<close> by blast
      qed
      show "kMinOpaqueLeaseId \<le> l \<and> kMinLeaseTimeoutMs \<le> lease_timeout_ms rec \<and>
        lease_timeout_ms rec \<le> kMaxLeaseTimeoutMs"
        using l leases_okD(4)[OF ok(3), of l rec] new
          normalize_timeout_bounds[of "rtd_requested_timeout_ms request"]
        unfolding lease' by (auto split: if_splits)
    next
      fix d q'
      assume "display_at ?s d = Some q'"
      then obtain q where q: "display_at s d = Some q" "q' = ?f q" by auto
      obtain rec0 where rec0: "lease_at s (tdr_lease_id q) = Some rec0"
        using leases_okD(2)[OF ok(3) q(1)] by blast
      then have ne: "tdr_lease_id q \<noteq> ?new" using accepted(9) by auto
      show "\<exists>rec. lease_at ?s (tdr_lease_id q') = Some rec"
        unfolding lease' using q(2) rec0 ne by auto
      fix rec
      assume "lease_at ?s (tdr_lease_id q') = Some rec" "\<not> tdr_pending_departure q'"
      then show "tdr_expires_at q' = lease_expires_at rec \<and> tdr_timeout_ms q' = lease_timeout_ms rec"
        unfolding lease' using q(2) rec0 ne leases_okD(3)[OF ok(3) q(1) rec0]
        by (auto split: if_splits)
    qed
  qed
  then show ?thesis unfolding s' .
qed (use inv in simp)

section \<open>Permanent displays\<close>

text \<open>The name loop replaces the name of every announced profile, or fails.\<close>

definition canonical_profile :: "display_manifest_profile \<Rightarrow> display_manifest_profile" where
  "canonical_profile p =
     p\<lparr>dmp_display_name := the (canonicalize_display_name (dmp_display_name p))\<rparr>"

lemma canonicalize_profile_names_eq:
  "canonicalize_profile_names n ps =
     (if \<forall>p \<in> set (take n ps). canonicalize_display_name (dmp_display_name p) \<noteq> None
      then Some (map canonical_profile (take n ps) @ drop n ps) else None)"
  by (induction n ps rule: canonicalize_profile_names.induct)
     (auto simp: canonical_profile_def split: option.splits)

lemma canonical_profile_ok:
  assumes "profile_ok m p"
  shows "profile_ok m (canonical_profile p)"
proof -
  obtain c where "canonicalize_display_name (dmp_display_name p) = Some c"
    using assms by (auto simp: profile_ok_def)
  with canonicalize_canonical(4)[OF this] assms show ?thesis
    by (simp add: profile_ok_def canonical_profile_def)
qed

definition canonical_manifest :: "display_manifest \<Rightarrow> display_manifest" where
  "canonical_manifest m = m
     \<lparr>man_profiles := map canonical_profile (active_profiles m) @
        drop (unat (man_profile_count m)) (man_profiles m)\<rparr>"

lemma active_canonical_manifest:
  "active_profiles (canonical_manifest m) = map canonical_profile (active_profiles m)"
proof -
  have "take n (map f (take n xs) @ drop n xs) = map f (take n xs)"
    for n :: nat and xs :: "display_manifest_profile list" and f :: "_ \<Rightarrow> display_manifest_profile"
    by (cases "n \<le> length xs") simp_all
  then show ?thesis unfolding active_profiles_def canonical_manifest_def by simp
qed

lemma canonical_manifest_ok:
  assumes "manifest_ok m man"
  shows "manifest_ok m (canonical_manifest man)"
proof -
  have keep: "dmp_connector_index \<circ> canonical_profile = dmp_connector_index"
    "dmp_display_id \<circ> canonical_profile = dmp_display_id"
    "dmp_container_id \<circ> canonical_profile = dmp_container_id"
    "dmp_product_code \<circ> canonical_profile = dmp_product_code"
    "dmp_serial_number \<circ> canonical_profile = dmp_serial_number"
    by (auto simp: canonical_profile_def)
  have "man_api_namespace (canonical_manifest man) = man_api_namespace man"
    "man_reserved (canonical_manifest man) = man_reserved man"
    "man_version (canonical_manifest man) = man_version man"
    "man_profile_count (canonical_manifest man) = man_profile_count man"
    "man_max_profile_count (canonical_manifest man) = man_max_profile_count man"
    by (simp_all add: canonical_manifest_def)
  then show ?thesis using assms canonical_profile_ok unfolding manifest_ok_def
    by (simp add: active_canonical_manifest keep)
qed

text \<open>A manifest is applied, with canonical names, exactly when it validates.\<close>

lemma apply_display_manifest_eq:
  "apply_display_manifest man s =
     (if manifest_ok (max_permanent_displays s) man
      then (s\<lparr>permanent_display_count := man_profile_count man,
              display_manifest_of := canonical_manifest man,
              permanent_display_settings :=
                permanent_settings_from_display_manifest (canonical_manifest man)\<rparr>, ok_result)
      else (s, validation_failure (validate_display_manifest man (max_permanent_displays s))))"
proof (cases "manifest_ok (max_permanent_displays s) man")
  case True
  then have "\<forall>p \<in> set (active_profiles man). canonicalize_display_name (dmp_display_name p) \<noteq> None"
    by (simp add: manifest_ok_def profile_ok_def)
  with True show ?thesis
    by (simp add: apply_display_manifest_def validate_display_manifest_iff
        canonicalize_profile_names_eq active_profiles_def canonical_manifest_def Let_def)
next
  case False
  then show ?thesis by (simp add: apply_display_manifest_def validate_display_manifest_iff Let_def)
qed

lemma apply_display_manifest_permanent:
  "permanent_ok s \<Longrightarrow> permanent_ok (fst (apply_display_manifest man s))"
  unfolding apply_display_manifest_eq
  by (auto simp: permanent_ok_def canonical_manifest_ok) (simp add: canonical_manifest_def)

lemma apply_display_manifest_frame [store_frame]:
  "displays_by_id (fst (apply_display_manifest man s)) = displays_by_id s"
  "leases_by_id (fst (apply_display_manifest man s)) = leases_by_id s"
  "connector_reservations_by_display_id (fst (apply_display_manifest man s)) =
     connector_reservations_by_display_id s"
  "quarantined_connectors (fst (apply_display_manifest man s)) = quarantined_connectors s"
  "max_permanent_displays (fst (apply_display_manifest man s)) = max_permanent_displays s"
  "max_temporary_displays (fst (apply_display_manifest man s)) = max_temporary_displays s"
  "next_ephemeral_identity (fst (apply_display_manifest man s)) = next_ephemeral_identity s"
  "next_temporary_display_generation (fst (apply_display_manifest man s)) =
     next_temporary_display_generation s"
  by (auto simp: apply_display_manifest_eq)

lemma apply_display_manifest_inv:
  assumes "store_inv s"
  shows "store_inv (fst (apply_display_manifest man s))"
proof
  note ok = store_invD[OF assms]
  show "maps_ok (fst (apply_display_manifest man s))"
    using ok(1) by (simp add: maps_ok_def store_frame)
  show "table_ok (fst (apply_display_manifest man s))"
    by (rule table_evolves[OF ok(2)]) (auto simp: store_frame)
  show "leases_ok (fst (apply_display_manifest man s))"
    using ok(3) by (simp add: leases_ok_def store_frame)
qed (rule apply_display_manifest_permanent[OF store_invD(4)[OF assms]])

lemma set_permanent_display_count_inv:
  "store_inv s \<Longrightarrow> store_inv (fst (set_permanent_display_count request s))"
  by (simp add: set_permanent_display_count_def Let_def apply_display_manifest_inv)

end
