(* ===== verification/Lease_Store_Create.thy ===== *)
theory Lease_Store_Create
  imports Lease_Store_Props
begin

text \<open>
  Creating a temporary display: what the connector choice and the ephemeral identity loop
  promise, the state and result of a successful create, preservation of the store invariant, and
  termination of the identity loop.
\<close>

section \<open>Choosing a connector and an identity\<close>

text \<open>
  The chosen connector is free of displays, not quarantined, and whatever reservations the
  choice dropped were reservations of other displays for that connector.
\<close>

definition connector_choice :: "display_store \<Rightarrow> u64 \<Rightarrow> bool \<Rightarrow> u32 \<Rightarrow> display_store \<Rightarrow> bool" where
  "connector_choice s d retain c t \<longleftrightarrow>
     (\<forall>e r. display_at s e = Some r \<longrightarrow> tdr_connector_index r \<noteq> c) \<and>
     c \<notin> quarantined_connectors s \<and>
     (t = s \<and> (\<not> retain \<longrightarrow> (\<forall>e. reservation_at s e \<noteq> Some c)) \<or>
      t = remove_connector_reservation c d s)"

lemma connector_index_for_display_cases:
  assumes inv: "store_inv s" and res: "connector_index_for_display d retain s = (t, c)"
  shows "is_temporary_connector_index s c \<and> connector_choice s d retain c t \<or>
    \<not> is_temporary_connector_index s c \<and> t = s"
proof -
  note ok = store_invD[OF inv]
  note scan = scan_simps[OF ok(1)]
  have quar: "reservation_at s e \<noteq> Some q" if "q \<in> quarantined_connectors s" for q e
    using ok(2) that unfolding table_ok_def by blast
  let ?kept = "retain \<and> reservation_at s d \<noteq> None \<and>
    is_temporary_connector_index s (the (reservation_at s d)) \<and>
    \<not> connector_index_is_active s (the (reservation_at s d))"
  let ?usable = "\<lambda>c. \<not> connector_index_is_active s c \<and> c \<notin> quarantined_connectors s"
  let ?free = "\<lambda>c. ?usable c \<and>
    (if retain then \<not> connector_index_is_reserved_for_other_display s c d
     else \<not> connector_index_is_reserved s c)"
  let ?lo = "max_permanent_displays s" and ?hi = "temporary_connector_limit s"
  show ?thesis
  proof (cases ?kept)
    case True
    then have "t = s" "reservation_at s d = Some c" "is_temporary_connector_index s c"
      "\<not> connector_index_is_active s c" "retain"
      using res by (auto simp: connector_index_for_display_def Let_def)
    then show ?thesis using quar scan(1) by (auto simp: connector_choice_def)
  next
    case kept: False
    note eq = res[unfolded connector_index_for_display_def Let_def if_not_P[OF kept]]
    show ?thesis
    proof (cases "first_index ?free ?lo ?hi")
      case (Some i)
      then have "t = s" "c = i" using eq by simp_all
      then show ?thesis using first_index_Some[OF Some] scan(1,2)
        by (auto simp: connector_choice_def is_temporary_connector_index_def)
    next
      case none: None
      show ?thesis
      proof (cases "first_index ?usable ?lo ?hi")
        case (Some i)
        then have "t = remove_connector_reservation c d s" "c = i" using eq none by auto
        then show ?thesis using first_index_Some[OF Some] scan(1)
          by (auto simp: connector_choice_def is_temporary_connector_index_def)
      next
        case None
        then have "t = s" "c = ?hi" using eq none by auto
        then show ?thesis by (auto simp: is_temporary_connector_index_def)
      qed
    qed
  qed
qed

lemma remove_connector_reservation_frame [simp, store_frame]:
  "displays_by_id (remove_connector_reservation c d s) = displays_by_id s"
  "leases_by_id (remove_connector_reservation c d s) = leases_by_id s"
  "quarantined_connectors (remove_connector_reservation c d s) = quarantined_connectors s"
  "max_permanent_displays (remove_connector_reservation c d s) = max_permanent_displays s"
  "max_temporary_displays (remove_connector_reservation c d s) = max_temporary_displays s"
  "next_temporary_display_generation (remove_connector_reservation c d s) =
     next_temporary_display_generation s"
  "next_ephemeral_identity (remove_connector_reservation c d s) = next_ephemeral_identity s"
  "permanent_display_count (remove_connector_reservation c d s) = permanent_display_count s"
  "permanent_display_settings (remove_connector_reservation c d s) = permanent_display_settings s"
  "display_manifest_of (remove_connector_reservation c d s) = display_manifest_of s"
  by (simp_all add: remove_connector_reservation_def)

lemma reservation_at_remove:
  assumes "maps_ok s"
  shows "reservation_at (remove_connector_reservation c d s) e =
    (if e \<noteq> d \<and> reservation_at s e = Some c then None else reservation_at s e)"
  using assms unfolding remove_connector_reservation_def maps_ok_def
  by (auto simp: omap_find_filter_entry split: option.splits)

text \<open>Dropping reservations of a connector no display uses is always safe.\<close>

lemma remove_connector_reservation_inv:
  assumes inv: "store_inv s" and free: "\<And>e r. display_at s e = Some r \<Longrightarrow> tdr_connector_index r \<noteq> c"
  shows "store_inv (remove_connector_reservation c d s)" (is "store_inv ?t")
proof
  note ok = store_invD[OF inv]
  show "maps_ok ?t" using ok(1) by (simp add: maps_ok_def remove_connector_reservation_def)
  show "leases_ok ?t" using ok(3) by (simp add: leases_ok_def)
  show "permanent_ok ?t" by (rule permanent_ok_cong[OF ok(4)]) simp_all
  show "table_ok ?t"
  proof (rule table_evolves[OF ok(2)])
    fix e r
    assume e: "display_at ?t e = Some r" "tdr_retain_identity r"
    then have "reservation_at s e = Some (tdr_connector_index r)"
      using table_okD(1)[OF ok(2), of e r] by (simp add: record_ok_def)
    then show "reservation_at ?t e = reservation_at s e"
      using free[of e r] e by (simp add: reservation_at_remove[OF ok(1)])
  qed (auto simp: reservation_at_remove[OF ok(1)] split: if_splits)
qed

lemma connector_choice_inv:
  assumes "store_inv s" and "connector_choice s d retain c t"
  shows "store_inv t"
  using assms remove_connector_reservation_inv[OF assms(1), of c d]
  unfolding connector_choice_def by blast

lemma pick_ephemeral_identity_Some:
  assumes "pick_ephemeral_identity m n = Some (i, n')"
  shows "\<not> edid_identity_is_active m i \<and> (\<exists>k. i = kEphemeralDisplayIdBase OR k)"
proof -
  have "\<not> edid_identity_is_active m (fst y) \<and> (\<exists>k. fst y = kEphemeralDisplayIdBase OR k)"
    if "pick_ephemeral_identity m n = Some y" for y
  proof (rule pick_ephemeral_identity.raw_induct[OF _ that])
    fix pick :: "(u64, temporary_display_record) omap \<Rightarrow> u64 \<Rightarrow> (u64 \<times> u64) option" and m n y
    assume "\<And>m n y. pick m n = Some y \<Longrightarrow>
        \<not> edid_identity_is_active m (fst y) \<and> (\<exists>k. fst y = kEphemeralDisplayIdBase OR k)"
      and "(let identity = kEphemeralDisplayIdBase OR n in
        if edid_identity_is_active m identity then pick m (n + 1) else Some (identity, n + 1)) = Some y"
    then show "\<not> edid_identity_is_active m (fst y) \<and> (\<exists>k. fst y = kEphemeralDisplayIdBase OR k)"
      by (auto simp: Let_def split: if_split_asm)
  qed
  with assms show ?thesis by fastforce
qed

lemma ephemeral_identity_nonzero: "kEphemeralDisplayIdBase OR k \<noteq> 0"
  by (simp add: or_eq_0_iff)

section \<open>Creating a display\<close>

lemma table_insert:
  assumes ok: "table_ok s" and fresh: "display_at s d = None"
    and static: "max_permanent_displays s' = max_permanent_displays s"
      "max_temporary_displays s' = max_temporary_displays s"
      "quarantined_connectors s' = quarantined_connectors s"
    and gen: "next_temporary_display_generation s' = next_temporary_display_generation s + 1"
      "next_temporary_display_generation s < next_temporary_display_generation s + 1"
      "tdr_generation r = next_temporary_display_generation s"
    and disp: "display_at s' = (display_at s)(d \<mapsto> r)"
    and room: "length (displays_by_id s') \<le> unat (max_temporary_displays s)"
    and new: "record_ok s' d r"
    and conn: "\<And>e q. display_at s e = Some q \<Longrightarrow> tdr_connector_index q \<noteq> tdr_connector_index r"
      "tdr_connector_index r \<notin> quarantined_connectors s"
    and ident: "\<And>e q. display_at s e = Some q \<Longrightarrow>
      edid_identity (identity_display_id q) \<noteq> edid_identity (identity_display_id r)"
    and res: "\<And>e c. reservation_at s' e = Some c \<Longrightarrow>
        reservation_at s e = Some c \<or> e = d \<and> c = tdr_connector_index r"
      "\<And>e. reservation_at s' e = Some (tdr_connector_index r) \<Longrightarrow> e = d"
    and kept: "\<And>e q. display_at s e = Some q \<Longrightarrow> e \<noteq> d \<Longrightarrow> tdr_retain_identity q \<Longrightarrow>
      reservation_at s' e = reservation_at s e"
  shows "table_ok s'"
proof -
  have lim: "is_temporary_connector_index s' c = is_temporary_connector_index s c" for c
    using static by (simp add: is_temporary_connector_index_def temporary_connector_limit_def)
  have old: "record_ok s' e q" if e: "display_at s e = Some q" for e q
  proof -
    have "e \<noteq> d" using e fresh by auto
    moreover have "record_ok s e q" using table_okD(1)[OF ok e] .
    moreover from this have "tdr_generation q < next_temporary_display_generation s + 1"
      using gen(2) by (auto simp: record_ok_def)
    ultimately show ?thesis using kept[OF e] gen(1) by (simp add: record_ok_def lim)
  qed
  have less: "tdr_generation q \<noteq> tdr_generation r" if "display_at s e = Some q" for e q
    using table_okD(1)[OF ok that] gen(3) by (auto simp: record_ok_def)
  have split: "display_at s' e = Some q \<longleftrightarrow> e = d \<and> q = r \<or> e \<noteq> d \<and> display_at s e = Some q" for e q
    using disp by auto
  have pair: "tdr_connector_index r1 \<noteq> tdr_connector_index r2 \<and>
      edid_identity (identity_display_id r1) \<noteq> edid_identity (identity_display_id r2) \<and>
      tdr_generation r1 \<noteq> tdr_generation r2"
    if "display_at s' d1 = Some r1" "display_at s' d2 = Some r2" "d1 \<noteq> d2" for d1 d2 r1 r2
    using that table_okD(2-4)[OF ok, of d1 r1 d2 r2] conn(1) ident less unfolding split by metis
  have own: "e = d1" if "display_at s' d1 = Some r1" "reservation_at s' e = Some (tdr_connector_index r1)"
    for d1 r1 e
    using that table_okD(5)[OF ok, of d1 r1 e] res conn(1) unfolding split by metis
  have q1: "reservation_at s' e \<noteq> Some c" if "c \<in> quarantined_connectors s'" for c e
    using that res(1)[of e c] ok conn(2) static(3) unfolding table_ok_def by metis
  have q2: "tdr_connector_index q \<noteq> c"
    if "c \<in> quarantined_connectors s'" "display_at s' e = Some q" for c e q
    using that conn(2) static(3) table_okD(6)[OF ok, of e q] unfolding split by metis
  have all: "record_ok s' e q" if "display_at s' e = Some q" for e q
    using that old new unfolding split by blast
  have "length (displays_by_id s') \<le> unat (max_temporary_displays s')"
    using room static(2) by simp
  then show ?thesis unfolding table_ok_def using all pair own q1 q2 by blast
qed

lemma leases_insert:
  assumes ok: "leases_ok s" and fresh: "display_at s d = None"
    and disp: "display_at s' = (display_at s)(d \<mapsto> r)"
    and lease: "lease_at s' = (lease_at s)(l \<mapsto> L)"
    and r: "tdr_lease_id r = l" "\<not> tdr_pending_departure r"
    and new: "tdr_expires_at r = lease_expires_at L \<and> tdr_timeout_ms r = lease_timeout_ms L"
    and bounds: "kMinOpaqueLeaseId \<le> l \<and> kMinLeaseTimeoutMs \<le> lease_timeout_ms L \<and>
      lease_timeout_ms L \<le> kMaxLeaseTimeoutMs"
    and old: "\<And>rec. lease_at s l = Some rec \<Longrightarrow>
      lease_expires_at L = lease_expires_at rec \<and> lease_timeout_ms L = lease_timeout_ms rec"
  shows "leases_ok s'"
proof (rule leases_okI)
  fix k rec
  assume k: "lease_at s' k = Some rec"
  show "\<exists>e q. display_at s' e = Some q \<and> tdr_lease_id q = k"
  proof (cases "k = l")
    case True
    have "display_at s' d = Some r" by (simp add: disp)
    then show ?thesis using r(1) True by blast
  next
    case False
    then obtain e q where e: "display_at s e = Some q" "tdr_lease_id q = k"
      using leases_okD(1)[OF ok, of k rec] k lease by auto
    then have "display_at s' e = Some q" using fresh disp by auto
    then show ?thesis using e by blast
  qed
  show "kMinOpaqueLeaseId \<le> k \<and> kMinLeaseTimeoutMs \<le> lease_timeout_ms rec \<and>
    lease_timeout_ms rec \<le> kMaxLeaseTimeoutMs"
    using k bounds leases_okD(4)[OF ok, of k rec] lease by (auto split: if_splits)
next
  fix e q
  assume e: "display_at s' e = Some q"
  show "\<exists>rec. lease_at s' (tdr_lease_id q) = Some rec"
    using e leases_okD(2)[OF ok, of e q] r(1) disp lease by (auto split: if_splits)
  fix rec
  assume rec: "lease_at s' (tdr_lease_id q) = Some rec" "\<not> tdr_pending_departure q"
  show "tdr_expires_at q = lease_expires_at rec \<and> tdr_timeout_ms q = lease_timeout_ms rec"
  proof (cases "e = d")
    case True
    then show ?thesis using e rec new r(1) disp lease by auto
  next
    case False
    then have q: "display_at s e = Some q" using e disp by simp
    then obtain rec0 where rec0: "lease_at s (tdr_lease_id q) = Some rec0"
      using leases_okD(2)[OF ok] by blast
    have "lease_expires_at rec = lease_expires_at rec0 \<and> lease_timeout_ms rec = lease_timeout_ms rec0"
      using rec rec0 old lease by (auto split: if_splits)
    then show ?thesis using leases_okD(3)[OF ok q rec0] rec by simp
  qed
qed

text \<open>What the validator guarantees about the request that is installed.\<close>

definition installable :: "validated_create_temporary_display \<Rightarrow> bool" where
  "installable v \<longleftrightarrow>
     kMinOpaqueLeaseId \<le> ctd_lease_id (vct_request v) \<and> ctd_display_id (vct_request v) \<noteq> 0 \<and>
     mode_in_range (ctd_width (vct_request v)) (ctd_height (vct_request v))
       (ctd_refresh_rate_millihz (vct_request v)) \<and>
     \<not> physical_size_out_of_range (ctd_physical_width_mm (vct_request v))
         (ctd_physical_height_mm (vct_request v)) \<and>
     400 \<le> ctd_hdr_max_luminance_nits (vct_request v) \<and>
     ctd_hdr_max_luminance_nits (vct_request v) \<le> 2000 \<and>
     vct_display_name v \<noteq> [] \<and> length (vct_display_name v) < kDisplayNameChars \<and>
     (\<forall>c \<in> set (vct_display_name v). printable c) \<and>
     kMinLeaseTimeoutMs \<le> vct_effective_timeout_ms v \<and>
     vct_effective_timeout_ms v \<le> kMaxLeaseTimeoutMs"

lemma validated_installable:
  assumes "validate_create_temporary_display request = (e, Some v)"
  shows "e = VNone" and "installable v"
    and "ctd_lease_id (vct_request v) = ctd_lease_id request"
    and "ctd_display_id (vct_request v) = ctd_display_id request"
    and "ctd_flags (vct_request v) = ctd_flags request"
    and "create_request_ok request"
proof -
  show e: "e = VNone"
    using assms unfolding validate_create_temporary_display_def Let_def
    by (simp split: if_split_asm option.split_asm)
  then have ok: "create_request_ok request" using assms validate_create_iff[of request] by simp
  obtain vr where vr: "Some v = Some vr" and req: "vct_request vr = request
      \<lparr>ctd_physical_width_mm := or_default kDefaultPhysicalWidthMillimeters (ctd_physical_width_mm request),
       ctd_physical_height_mm := or_default kDefaultPhysicalHeightMillimeters (ctd_physical_height_mm request),
       ctd_hdr_max_luminance_nits := or_default kDefaultHdrMaxLuminanceNits (ctd_hdr_max_luminance_nits request),
       ctd_display_name := ctd_display_name (vct_request vr)\<rparr>"
    and canon: "canonicalize_display_name (ctd_display_name request) = Some (ctd_display_name (vct_request vr))"
    and name: "vct_display_name vr = trim_display_name (ctd_display_name request)"
    and timeout: "vct_effective_timeout_ms vr = normalize_timeout_ms (ctd_requested_timeout_ms request)"
    using validate_create_result assms e by metis
  have vr': "vr = v" using vr by simp
  obtain request' where eq: "vct_request v = request'" by blast
  have f: "ctd_lease_id (vct_request v) = ctd_lease_id request"
    "ctd_display_id (vct_request v) = ctd_display_id request"
    "ctd_flags (vct_request v) = ctd_flags request"
    "ctd_width (vct_request v) = ctd_width request" "ctd_height (vct_request v) = ctd_height request"
    "ctd_refresh_rate_millihz (vct_request v) = ctd_refresh_rate_millihz request"
    "ctd_physical_width_mm (vct_request v) =
      or_default kDefaultPhysicalWidthMillimeters (ctd_physical_width_mm request)"
    "ctd_physical_height_mm (vct_request v) =
      or_default kDefaultPhysicalHeightMillimeters (ctd_physical_height_mm request)"
    "ctd_hdr_max_luminance_nits (vct_request v) =
      or_default kDefaultHdrMaxLuminanceNits (ctd_hdr_max_luminance_nits request)"
    using arg_cong[OF req[unfolded vr'], of ctd_lease_id] arg_cong[OF req[unfolded vr'], of ctd_display_id]
      arg_cong[OF req[unfolded vr'], of ctd_flags] arg_cong[OF req[unfolded vr'], of ctd_width]
      arg_cong[OF req[unfolded vr'], of ctd_height]
      arg_cong[OF req[unfolded vr'], of ctd_refresh_rate_millihz]
      arg_cong[OF req[unfolded vr'], of ctd_physical_width_mm]
      arg_cong[OF req[unfolded vr'], of ctd_physical_height_mm]
      arg_cong[OF req[unfolded vr'], of ctd_hdr_max_luminance_nits]
    by simp_all
  show "ctd_lease_id (vct_request v) = ctd_lease_id request"
    "ctd_display_id (vct_request v) = ctd_display_id request"
    "ctd_flags (vct_request v) = ctd_flags request" by (rule f)+
  show "create_request_ok request" by (rule ok)
  show "installable v"
    using ok canon normalize_timeout_bounds[of "ctd_requested_timeout_ms request"]
    unfolding installable_def f name[unfolded vr'] timeout[unfolded vr'] create_request_ok_def
      physical_size_out_of_range_def or_default_def
    by (auto simp: canonicalize_Some not_less not_le)
qed

text \<open>The store and the result after a successful create, spelled out.\<close>

definition effective_lease ::
  "validated_create_temporary_display \<Rightarrow> time_point \<Rightarrow> lease_record option \<Rightarrow> u32 \<times> time_point" where
  "effective_lease v now lease =
     (case lease of
        None \<Rightarrow> (vct_effective_timeout_ms v, now + milliseconds (vct_effective_timeout_ms v))
      | Some l \<Rightarrow> (lease_timeout_ms l, lease_expires_at l))"

definition created_record ::
  "validated_create_temporary_display \<Rightarrow> time_point \<Rightarrow> u32 \<Rightarrow> bool \<Rightarrow> u64 \<Rightarrow> display_store \<Rightarrow>
   temporary_display_record" where
  "created_record v now c retain i s =
     (let l = effective_lease v now (lease_at s (ctd_lease_id (vct_request v))) in
      new_temporary_display_record (vct_request v) (vct_display_name v) (fst l) c (snd l) retain i
        (next_temporary_display_generation s))"

definition created_lease ::
  "validated_create_temporary_display \<Rightarrow> owner_capability option \<Rightarrow> time_point \<Rightarrow>
   lease_record option \<Rightarrow> lease_record" where
  "created_lease v cap now lease =
     (case lease of
        None \<Rightarrow> \<lparr>lease_timeout_ms = fst (effective_lease v now None),
                lease_expires_at = snd (effective_lease v now None), lease_owner_capability = cap\<rparr>
      | Some l \<Rightarrow> if cap \<noteq> None \<and> lease_owner_capability l = None
                 then l\<lparr>lease_owner_capability := cap\<rparr> else l)"

definition created_reservations ::
  "u32 \<Rightarrow> bool \<Rightarrow> u64 \<Rightarrow> display_store \<Rightarrow> (u64, u32) omap" where
  "created_reservations c retain d s =
     (if retain then omap_insert d c
        (connector_reservations_by_display_id (remove_connector_reservation c d s))
      else connector_reservations_by_display_id s)"

lemma new_record_fields [simp]:
  "tdr_lease_id (new_temporary_display_record q name t c e retain i g) = ctd_lease_id q"
  "tdr_display_id (new_temporary_display_record q name t c e retain i g) = ctd_display_id q"
  "tdr_timeout_ms (new_temporary_display_record q name t c e retain i g) = t"
  "tdr_expires_at (new_temporary_display_record q name t c e retain i g) = e"
  "tdr_connector_index (new_temporary_display_record q name t c e retain i g) = c"
  "tdr_generation (new_temporary_display_record q name t c e retain i g) = g"
  "tdr_retain_identity (new_temporary_display_record q name t c e retain i g) = retain"
  "tdr_identity_display_id (new_temporary_display_record q name t c e retain i g) = i"
  "tdr_pending_departure (new_temporary_display_record q name t c e retain i g) = False"
  by (simp_all add: new_temporary_display_record_def)

lemma omap_insert_same: "omap_wf m \<Longrightarrow> omap_find m k = Some v \<Longrightarrow> omap_insert k v m = m"
  by (induction m) (auto simp: omap_wf_def dest!: map_of_SomeD split: if_splits)

lemma install_eq:
  assumes "maps_ok s" and "display_at s (ctd_display_id (vct_request v)) = None"
  shows "install_temporary_display v cap now c retain i s =
    (let r = created_record v now c retain i s;
         l = ctd_lease_id (vct_request v); d = ctd_display_id (vct_request v) in
     (s\<lparr>displays_by_id := omap_insert d r (displays_by_id s),
        connector_reservations_by_display_id := created_reservations c retain d s,
        leases_by_id := omap_insert l (created_lease v cap now (lease_at s l)) (leases_by_id s),
        next_temporary_display_generation := next_temporary_display_generation s + 1\<rparr>,
      ok_result,
      empty_create_result
        \<lparr>ctr_lease_id := l, ctr_display_id := d, ctr_connector_index := c,
         ctr_effective_timeout_ms := tdr_timeout_ms r\<rparr>))"
proof (cases "lease_at s (ctd_lease_id (vct_request v))")
  case None
  then show ?thesis using assms(2)
    by (simp add: install_temporary_display_def created_record_def created_lease_def
        effective_lease_def created_reservations_def Let_def omap_emplace_def
        remove_connector_reservation_def)
next
  case (Some l)
  then have same: "omap_insert (ctd_lease_id (vct_request v)) l (leases_by_id s) = leases_by_id s"
    using assms(1) by (simp add: maps_ok_def omap_insert_same)
  show ?thesis using assms(2)
    by (simp add: Some same install_temporary_display_def created_record_def created_lease_def
        effective_lease_def created_reservations_def Let_def omap_emplace_def
        remove_connector_reservation_def)
qed

lemma install_inv:
  fixes v :: validated_create_temporary_display and s :: display_store
  defines "d \<equiv> ctd_display_id (vct_request v)" and "l \<equiv> ctd_lease_id (vct_request v)"
  assumes inv: "store_inv s" and v: "installable v"
    and fresh: "display_at s d = None"
    and room: "length (displays_by_id s) < unat (max_temporary_displays s)"
    and conn: "is_temporary_connector_index s c" "c \<notin> quarantined_connectors s"
      "\<And>e r. display_at s e = Some r \<Longrightarrow> tdr_connector_index r \<noteq> c"
    and res: "\<And>e. \<not> retain \<Longrightarrow> reservation_at s e = Some c \<Longrightarrow> e = d"
    and ident: "\<not> edid_identity_is_active (displays_by_id s) i" "i \<noteq> 0" "retain \<Longrightarrow> i = d"
    and gen: "next_temporary_display_generation s < next_temporary_display_generation s + 1"
  shows "store_inv (fst (install_temporary_display v cap now c retain i s))"
proof -
  note ok = store_invD[OF inv]
  let ?r = "created_record v now c retain i s"
  let ?L = "created_lease v cap now (lease_at s l)"
  let ?t = "s\<lparr>displays_by_id := omap_insert d ?r (displays_by_id s),
    connector_reservations_by_display_id := created_reservations c retain d s,
    leases_by_id := omap_insert l ?L (leases_by_id s),
    next_temporary_display_generation := next_temporary_display_generation s + 1\<rparr>"
  have eq: "fst (install_temporary_display v cap now c retain i s) = ?t"
    using install_eq[OF ok(1) fresh[unfolded d_def]] by (simp add: Let_def d_def l_def)
  have r: "tdr_connector_index ?r = c" "tdr_generation ?r = next_temporary_display_generation s"
    "tdr_retain_identity ?r = retain" "tdr_identity_display_id ?r = i" "tdr_display_id ?r = d"
    "tdr_lease_id ?r = l" "\<not> tdr_pending_departure ?r"
    by (simp_all add: created_record_def Let_def d_def l_def)
  have resv: "reservation_at ?t e = (if retain then (if e = d then Some c
      else if reservation_at s e = Some c then None else reservation_at s e) else reservation_at s e)" for e
    by (simp add: created_reservations_def reservation_at_remove[OF ok(1)])
  have "store_inv ?t"
  proof
    show "maps_ok ?t"
      using ok(1) by (simp add: maps_ok_def created_reservations_def remove_connector_reservation_def)
    show "permanent_ok ?t" by (rule permanent_ok_cong[OF ok(4)]) simp_all
    show "leases_ok ?t"
    proof (rule leases_insert[OF ok(3) fresh _ _ r(6,7)])
      show "display_at ?t = (display_at s)(d \<mapsto> ?r)" "lease_at ?t = (lease_at s)(l \<mapsto> ?L)"
        by simp_all
      show "tdr_expires_at ?r = lease_expires_at ?L \<and> tdr_timeout_ms ?r = lease_timeout_ms ?L"
        by (simp add: created_record_def created_lease_def effective_lease_def Let_def l_def
            split: option.split)
      show "kMinOpaqueLeaseId \<le> l \<and> kMinLeaseTimeoutMs \<le> lease_timeout_ms ?L \<and>
        lease_timeout_ms ?L \<le> kMaxLeaseTimeoutMs"
        using v leases_okD(4)[OF ok(3), of l] l_def
        by (auto simp: created_lease_def effective_lease_def installable_def split: option.split)
      show "lease_expires_at ?L = lease_expires_at rec \<and> lease_timeout_ms ?L = lease_timeout_ms rec"
        if "lease_at s l = Some rec" for rec
        using that by (simp add: created_lease_def)
    qed
    show "table_ok ?t"
    proof (rule table_insert[OF ok(2) fresh])
      have len: "length (displays_by_id ?t) = Suc (length (displays_by_id s))"
        using fresh by (simp add: length_omap_insert_new)
      show "length (displays_by_id ?t) \<le> unat (max_temporary_displays s)"
        unfolding len using room by simp
      have lim: "is_temporary_connector_index ?t c"
        using conn(1)
        by (auto simp: is_temporary_connector_index_def temporary_connector_limit_def split: if_splits)
      have "next_temporary_display_generation s < next_temporary_display_generation ?t"
        using gen by simp
      then show "record_ok ?t d ?r"
        using v ident lim resv[of d] unfolding record_ok_def r
        by (auto simp: created_record_def Let_def new_temporary_display_record_def installable_def d_def)
      show "edid_identity (identity_display_id q) \<noteq> edid_identity (identity_display_id ?r)"
        if "display_at s e = Some q" for e q
        using ident ok(1) that r(4)
        by (auto simp: edid_active_iff maps_ok_def identity_display_id_def[of ?r])
      show "reservation_at s e = Some k \<or> e = d \<and> k = tdr_connector_index ?r"
        if "reservation_at ?t e = Some k" for e k
        using that unfolding resv r by (auto split: if_splits)
      show "e = d" if "reservation_at ?t e = Some (tdr_connector_index ?r)" for e
        using that res[of e] unfolding resv r by (auto split: if_splits)
      show "reservation_at ?t e = reservation_at s e"
        if e: "display_at s e = Some q" "e \<noteq> d" "tdr_retain_identity q" for e q
        using conn(3)[OF e(1)] table_okD(1)[OF ok(2) e(1)] e unfolding resv
        by (auto simp: record_ok_def)
    qed (use r conn gen in simp_all)
  qed
  then show ?thesis unfolding eq .
qed

lemma store_inv_next_ephemeral [simp]:
  "store_inv (s\<lparr>next_ephemeral_identity := n\<rparr>) = store_inv s"
  by (simp add: store_inv_def maps_ok_def table_ok_def leases_ok_def permanent_ok_def record_ok_def
      is_temporary_connector_index_def temporary_connector_limit_def)

definition retains_identity :: "create_temporary_display_request \<Rightarrow> bool" where
  "retains_identity request \<longleftrightarrow> ctd_flags request AND kCreateTemporaryDisplayFlagEphemeralIdentity = 0"

text \<open>
  Either the create fails and changes at most connector reservations, or it installs the display
  on a free connector with an EDID identity no other display has.
\<close>

definition create_failed :: "display_store \<Rightarrow> display_store \<times> create_store_result \<Rightarrow> bool" where
  "create_failed s res \<longleftrightarrow>
     sr_error (fst (snd res)) \<noteq> StoreNone \<and> snd (snd res) = empty_create_result \<and>
     (\<exists>d c. fst res = s \<or> fst res = remove_connector_reservation c d s \<and>
        (\<forall>e r. display_at s e = Some r \<longrightarrow> tdr_connector_index r \<noteq> c))"

definition create_installs ::
  "create_temporary_display_request \<Rightarrow> owner_capability option \<Rightarrow> time_point \<Rightarrow> display_store \<Rightarrow>
   validated_create_temporary_display \<Rightarrow> u32 \<Rightarrow> u64 \<Rightarrow> display_store \<Rightarrow> bool" where
  "create_installs request cap now s v c i t \<longleftrightarrow>
     validate_create_temporary_display request = (VNone, Some v) \<and>
     create_precheck request cap now s = StoreNone \<and>
     is_temporary_connector_index s c \<and>
     (\<exists>u n. connector_choice s (ctd_display_id request) (retains_identity request) c u \<and>
        t = u\<lparr>next_ephemeral_identity := n\<rparr>) \<and>
     \<not> edid_identity_is_active (displays_by_id s) i \<and> i \<noteq> 0 \<and>
     (retains_identity request \<longrightarrow>
        i = ctd_display_id request \<and> next_ephemeral_identity t = next_ephemeral_identity s) \<and>
     (\<not> retains_identity request \<longrightarrow> (\<exists>k. i = kEphemeralDisplayIdBase OR k))"

lemma connector_choice_displays:
  "connector_choice s d retain c t \<Longrightarrow> displays_by_id t = displays_by_id s \<and>
     leases_by_id t = leases_by_id s \<and> quarantined_connectors t = quarantined_connectors s \<and>
     max_temporary_displays t = max_temporary_displays s \<and>
     max_permanent_displays t = max_permanent_displays s \<and>
     next_temporary_display_generation t = next_temporary_display_generation s \<and>
     next_ephemeral_identity t = next_ephemeral_identity s"
  unfolding connector_choice_def by auto

lemma create_failedI:
  assumes "connector_choice s d retain c t" and "e \<noteq> StoreNone"
  shows "create_failed s (t, create_failure e)"
  using assms unfolding create_failed_def connector_choice_def create_failure_def store_failure_def
  by auto

lemma connector_choice_limit:
  "connector_choice s d retain c t \<Longrightarrow>
     is_temporary_connector_index t k = is_temporary_connector_index s k"
  unfolding connector_choice_def
  by (auto simp: is_temporary_connector_index_def temporary_connector_limit_def)

lemma create_on_connector_cases:
  assumes choice: "connector_choice s (ctd_display_id request) (retains_identity request) c u"
    and temp: "is_temporary_connector_index s c"
    and val: "validate_create_temporary_display request = (VNone, Some v)"
    and pre: "create_precheck request cap now s = StoreNone"
  obtains (failed) "create_failed s (create_on_connector v cap now (retains_identity request) c u)"
  | (created) i t where "create_installs request cap now s v c i t"
      and "create_on_connector v cap now (retains_identity request) c u =
        install_temporary_display v cap now c (retains_identity request) i t"
proof -
  let ?d = "ctd_display_id request"
  note vd = validated_installable[OF val]
  note same = connector_choice_displays[OF choice]
  have run: "create_on_connector v cap now (retains_identity request) c u =
    (if retains_identity request then
       (if edid_identity_is_active (displays_by_id s) ?d
        then (u, create_failure DuplicateDisplayIdentity)
        else install_temporary_display v cap now c True ?d u)
     else
       (case pick_ephemeral_identity (displays_by_id s) (next_ephemeral_identity s) of
          None \<Rightarrow> (u, create_failure StoreDiverged)
        | Some (identity, next) \<Rightarrow>
            install_temporary_display v cap now c False identity
              (u\<lparr>next_ephemeral_identity := next\<rparr>)))"
    using temp same by (simp add: create_on_connector_def connector_choice_limit[OF choice] vd(4))
  have nz: "?d \<noteq> 0" using vd(6) by (simp add: create_request_ok_def)
  consider (duplicate) "retains_identity request" "edid_identity_is_active (displays_by_id s) ?d"
    | (retained) "retains_identity request" "\<not> edid_identity_is_active (displays_by_id s) ?d"
    | (diverged) "\<not> retains_identity request"
        "pick_ephemeral_identity (displays_by_id s) (next_ephemeral_identity s) = None"
    | (ephemeral) i n where "\<not> retains_identity request"
        "pick_ephemeral_identity (displays_by_id s) (next_ephemeral_identity s) = Some (i, n)"
    by (cases "pick_ephemeral_identity (displays_by_id s) (next_ephemeral_identity s)") auto
  then show thesis
  proof cases
    case duplicate
    show thesis by (intro failed, unfold run) (simp add: duplicate create_failedI[OF choice])
  next
    case diverged
    show thesis by (intro failed, unfold run) (simp add: diverged create_failedI[OF choice])
  next
    case retained
    have "u = u\<lparr>next_ephemeral_identity := next_ephemeral_identity u\<rparr>" by simp
    then have "create_installs request cap now s v c ?d u"
      unfolding create_installs_def using val pre temp choice retained nz same by blast
    then show thesis by (rule created, unfold run) (simp add: retained)
  next
    case (ephemeral i n)
    obtain k where k: "i = kEphemeralDisplayIdBase OR k"
      using pick_ephemeral_identity_Some[OF ephemeral(2)] by blast
    have "i \<noteq> 0" unfolding k by (rule ephemeral_identity_nonzero)
    then have "create_installs request cap now s v c i (u\<lparr>next_ephemeral_identity := n\<rparr>)"
      unfolding create_installs_def
      using val pre temp choice ephemeral(1) pick_ephemeral_identity_Some[OF ephemeral(2)] by blast
    then show thesis by (rule created, unfold run) (simp add: ephemeral)
  qed
qed

lemma create_impl_cases:
  assumes inv: "store_inv s"
  obtains (failed) "create_failed s (create_temporary_display_impl request cap now s)"
  | (created) v c i t where "create_installs request cap now s v c i t"
      and "create_temporary_display_impl request cap now s =
        install_temporary_display v cap now c (retains_identity request) i t"
proof (cases "snd (validate_create_temporary_display request)")
  case None
  then obtain e where e: "validate_create_temporary_display request = (e, None)"
    by (cases "validate_create_temporary_display request") simp
  have "create_failed s (create_temporary_display_impl request cap now s)"
    by (simp add: create_temporary_display_impl_def e create_failed_def validation_failure_def)
  then show thesis by (rule failed)
next
  case (Some v)
  then have val: "validate_create_temporary_display request = (VNone, Some v)"
    using validated_installable(1)[of request "fst (validate_create_temporary_display request)" v]
    by (simp add: prod_eq_iff)
  obtain u c where uc:
    "connector_index_for_display (ctd_display_id request) (retains_identity request) s = (u, c)"
    by fastforce
  have run: "create_temporary_display_impl request cap now s =
    (if create_precheck request cap now s \<noteq> StoreNone
     then (s, create_failure (create_precheck request cap now s))
     else create_on_connector v cap now (retains_identity request) c u)"
    using uc validated_installable(5)[OF val]
    by (simp add: create_temporary_display_impl_def val Let_def retains_identity_def)
  show thesis
  proof (cases "create_precheck request cap now s = StoreNone \<and> is_temporary_connector_index s c")
    case True
    then have "connector_choice s (ctd_display_id request) (retains_identity request) c u"
      using connector_index_for_display_cases[OF inv uc] by blast
    then show thesis
      using True by (cases rule: create_on_connector_cases[OF _ _ val]) (auto simp: run failed created)
  next
    case False
    then have "create_failed s (create_temporary_display_impl request cap now s)"
      using connector_index_for_display_cases[OF inv uc]
      by (auto simp: run create_on_connector_def create_failed_def create_failure_def store_failure_def)
    then show thesis by (rule failed)
  qed
qed

lemma create_failed_inv:
  "store_inv s \<Longrightarrow> create_failed s res \<Longrightarrow> store_inv (fst res)"
  unfolding create_failed_def using remove_connector_reservation_inv by metis

lemma create_precheck_StoreNone:
  assumes "create_precheck request cap now s = StoreNone"
  shows "display_at s (ctd_display_id request) = None"
    and "length (displays_by_id s) < unat (max_temporary_displays s)"
    and "lease_at s (ctd_lease_id request) = Some l \<Longrightarrow>
      now < lease_expires_at l \<and> \<not> lease_has_pending_departure s (ctd_lease_id request) \<and>
      (\<forall>given stored. cap = Some given \<longrightarrow> lease_owner_capability l = Some stored \<longrightarrow>
         owner_capabilities_equal stored given)"
  using assms by (auto simp: create_precheck_def Let_def split: if_split_asm option.split_asm)

lemma create_impl_inv:
  assumes inv: "store_inv s"
    and gen: "next_temporary_display_generation s < next_temporary_display_generation s + 1"
  shows "store_inv (fst (create_temporary_display_impl request cap now s))"
  using inv
proof (cases rule: create_impl_cases[of s request cap now])
  case failed
  then show ?thesis by (rule create_failed_inv[OF inv])
next
  case (created v c i t)
  then obtain u n where val: "validate_create_temporary_display request = (VNone, Some v)"
    and pre: "create_precheck request cap now s = StoreNone"
    and temp: "is_temporary_connector_index s c"
    and choice: "connector_choice s (ctd_display_id request) (retains_identity request) c u"
    and t: "t = u\<lparr>next_ephemeral_identity := n\<rparr>"
    and ident: "\<not> edid_identity_is_active (displays_by_id s) i" "i \<noteq> 0"
      "retains_identity request \<longrightarrow> i = ctd_display_id request"
    unfolding create_installs_def by blast
  note same = connector_choice_displays[OF choice] and vd = validated_installable[OF val]
  have lim: "is_temporary_connector_index t c"
    using temp same
    by (auto simp: t is_temporary_connector_index_def temporary_connector_limit_def split: if_splits)
  have res: "e = ctd_display_id request"
    if "\<not> retains_identity request" "reservation_at t e = Some c" for e
    using that choice reservation_at_remove[OF store_invD(1)[OF inv], of c "ctd_display_id request" e]
    by (auto simp: t connector_choice_def split: if_splits)
  show ?thesis unfolding created(2)
  proof (rule install_inv)
    show "store_inv t" using connector_choice_inv[OF inv choice] by (simp add: t)
  qed (use same vd(2,4) lim res ident gen choice create_precheck_StoreNone(1,2)[OF pre] in
      \<open>auto simp: t connector_choice_def\<close>)
qed

lemma create_owned_inv:
  "store_inv s \<Longrightarrow> next_temporary_display_generation s < next_temporary_display_generation s + 1 \<Longrightarrow>
   store_inv (fst (create_temporary_display_owned request now s))"
  by (simp add: create_temporary_display_owned_def create_impl_inv Let_def)

section \<open>The identity loop ends\<close>

text \<open>
  Consecutive candidates have different product codes until 4096 of them have been tried, so
  with fewer displays one of them is free.
\<close>

lemma product_code_take_bit:
  assumes "product_code_from_display_id a = product_code_from_display_id b"
  shows "take_bit 12 a = take_bit 12 b"
proof (rule bit_eqI)
  fix n
  show "bit (take_bit 12 a) n \<longleftrightarrow> bit (take_bit 12 b) n"
  proof (cases "n < 12")
    case True
    have m: "(0x0fff :: u64) = mask 12" by (simp add: mask_eq_exp_minus_1)
    have "bit (product_code_from_display_id a) n \<longleftrightarrow> bit (product_code_from_display_id b) n"
      by (simp add: assms)
    moreover have eq: "(0x5000 :: u16) = push_bit 12 5" by (simp add: push_bit_eq_mult)
    have "\<not> bit (0x5000 :: u16) n" unfolding eq bit_push_bit_iff using True by simp
    ultimately show ?thesis using True unfolding product_code_from_display_id_def m
      by (simp add: bit_simps)
  qed (simp add: bit_simps)
qed

lemma mod_window_inj:
  fixes a j k m :: nat
  assumes "(a + j) mod m = (a + k) mod m" and "j \<le> k" and "k < m"
  shows "j = k"
proof -
  have "m dvd (a + k) - (a + j)"
    using assms mod_eq_dvd_iff_nat[of "a + j" "a + k" m] by simp
  then have "m dvd k - j" by simp
  then have "k - j = 0" using assms(3) by (meson dvd_imp_le less_imp_diff_less not_gr_zero not_less)
  then show ?thesis using assms(2) by simp
qed

lemma ephemeral_candidates_differ:
  assumes "product_code_from_display_id (kEphemeralDisplayIdBase OR (n + of_nat j)) =
      product_code_from_display_id (kEphemeralDisplayIdBase OR (n + of_nat k))"
    and "j < 4096" and "k < 4096"
  shows "j = k"
proof -
  have base: "take_bit 12 (kEphemeralDisplayIdBase OR w) = take_bit 12 w" for w :: u64
  proof -
    have "take_bit 12 (kEphemeralDisplayIdBase) = 0" by simp
    then show ?thesis by (simp only: take_bit_or or.left_neutral)
  qed
  have un: "unat (take_bit 12 (n + of_nat i)) = (unat n + i) mod 4096" if "i < 4096" for i
  proof -
    have "unat (take_bit 12 (n + of_nat i)) = unat (n + of_nat i) mod 4096"
      by (simp add: take_bit_eq_mod unat_mod)
    also have "\<dots> = (unat n + i) mod 2 ^ 64 mod 2 ^ 12"
      using that by (simp add: unat_word_ariths unat_of_nat)
    also have "\<dots> = (unat n + i) mod 2 ^ 12" by (rule mod_mod_cancel) simp
    finally show ?thesis by simp
  qed
  have "(unat n + j) mod 4096 = (unat n + k) mod 4096"
    using product_code_take_bit[OF assms(1)] un[OF assms(2)] un[OF assms(3)]
    unfolding base by simp
  then show ?thesis using assms(2,3) mod_window_inj nat_le_linear by metis
qed

lemma pick_ephemeral_identity_steps:
  "\<not> edid_identity_is_active m (kEphemeralDisplayIdBase OR (n + of_nat k)) \<Longrightarrow>
   \<exists>y. pick_ephemeral_identity m n = Some y"
proof (induction k arbitrary: n)
  case 0
  then show ?case by (subst pick_ephemeral_identity.simps) simp
next
  case (Suc k)
  then have "\<exists>y. pick_ephemeral_identity m (n + 1) = Some y"
    by (intro Suc.IH) (simp add: add.assoc)
  then show ?case by (subst pick_ephemeral_identity.simps) (simp add: Let_def)
qed

lemma pick_ephemeral_identity_total:
  assumes "length m < 4096"
  shows "\<exists>y. pick_ephemeral_identity m n = Some y"
proof (rule ccontr)
  assume none: "\<nexists>y. pick_ephemeral_identity m n = Some y"
  let ?code = "\<lambda>k. product_code_from_display_id (kEphemeralDisplayIdBase OR (n + of_nat k))"
  let ?codes = "(\<lambda>e. product_code_from_display_id (identity_display_id (snd e))) ` set m"
  have "?code k \<in> ?codes" for k
    using none pick_ephemeral_identity_steps[of m n k]
    by (auto simp: edid_identity_is_active_def list_ex_iff image_iff) (metis snd_conv)+
  then have "?code ` {..<4096} \<subseteq> ?codes" by blast
  then have "card (?code ` {..<4096}) \<le> card ?codes" by (rule card_mono[rotated]) simp
  also have "\<dots> \<le> length m" by (rule le_trans[OF card_image_le card_length]) simp
  also have "inj_on ?code {..<4096}"
    by (rule inj_onI) (use ephemeral_candidates_differ in auto)
  then have "card (?code ` {..<4096}) = 4096" by (simp add: card_image)
  finally show False using assms by simp
qed

lemma install_result_ok [simp]:
  "fst (snd (install_temporary_display v cap now c retain i s)) = ok_result"
  by (simp add: install_temporary_display_def Let_def split: prod.split)

lemma create_impl_not_diverged:
  assumes "length (displays_by_id s) < 4096"
  shows "sr_error (fst (snd (create_temporary_display_impl request cap now s))) \<noteq> StoreDiverged"
proof -
  have pick: "\<exists>y. pick_ephemeral_identity (displays_by_id s) n = Some y" for n
    by (rule pick_ephemeral_identity_total[OF assms])
  have disp: "displays_by_id u = displays_by_id s"
    if "connector_index_for_display d r s = (u, c)" for d r u c
    using that by (auto simp: connector_index_for_display_def Let_def split: if_split_asm option.split_asm)
  have on: "sr_error (fst (snd (create_on_connector v cap now r c u))) \<noteq> StoreDiverged"
    if "displays_by_id u = displays_by_id s" for v r c u
    using pick[of "next_ephemeral_identity u"] that
    by (auto simp: create_on_connector_def Let_def create_failure_def store_failure_def
        ok_result_def)
  have pre: "create_precheck request cap now s \<noteq> StoreDiverged"
    by (auto simp: create_precheck_def Let_def split: option.split)
  show ?thesis
    using pre on[OF disp]
    by (auto simp: create_temporary_display_impl_def Let_def validation_failure_def
        create_failure_def store_failure_def split: prod.split option.split)
qed

end
