(* ===== verification/Lease_Store_Steps.thy ===== *)
theory Lease_Store_Steps
  imports Lease_Store_Create
begin

text \<open>
  The store as a state machine: one constructor per mutating operation of \<open>DisplayStore\<close>, the
  step function, and the reachable stores. The invariant of every component operation makes
  \<open>step_invariant\<close> hold, so it holds after every sequence of operations.
\<close>

section \<open>Operations\<close>

datatype store_op =
    OpCreate create_temporary_display_request time_point
  | OpCreateOwned create_temporary_display_owned_request time_point
  | OpReclaim reclaim_temporary_display_request time_point
  | OpRemove lease_display_request remove_temporary_display_mode
  | OpMarkPending lease_display_request
  | OpAbandon lease_display_request u64 owner_capability
  | OpFeed lease_request time_point
  | OpRelease lease_request
  | OpReap time_point
  | OpSetPermanentCount permanent_display_count_request
  | OpApplyManifest display_manifest

fun run_store_op :: "store_op \<Rightarrow> display_store \<Rightarrow> display_store" where
  "run_store_op (OpCreate request now) s = fst (create_temporary_display request now s)"
| "run_store_op (OpCreateOwned request now) s = fst (create_temporary_display_owned request now s)"
| "run_store_op (OpReclaim request now) s = fst (reclaim_temporary_display request now s)"
| "run_store_op (OpRemove request mode) s = fst (remove_temporary_display request mode s)"
| "run_store_op (OpMarkPending request) s = fst (mark_temporary_display_pending_departure request s)"
| "run_store_op (OpAbandon request generation capability) s =
     fst (abandon_pending_temporary_display request generation capability s)"
| "run_store_op (OpFeed request now) s = fst (feed_lease request now s)"
| "run_store_op (OpRelease request) s = fst (release_lease request s)"
| "run_store_op (OpReap now) s = fst (reap_expired now s)"
| "run_store_op (OpSetPermanentCount request) s = fst (set_permanent_display_count request s)"
| "run_store_op (OpApplyManifest manifest) s = fst (apply_display_manifest manifest s)"

text \<open>
  The promise holds while the 64-bit generation counter, which only creates advance, has not
  wrapped around.
\<close>

fun is_create :: "store_op \<Rightarrow> bool" where
  "is_create (OpCreate request now) \<longleftrightarrow> True"
| "is_create (OpCreateOwned request now) \<longleftrightarrow> True"
| "is_create _ \<longleftrightarrow> False"

definition creates :: "store_op list \<Rightarrow> nat" where
  "creates ops = length (filter is_create ops)"

definition generation_left :: "store_op \<Rightarrow> display_store \<Rightarrow> bool" where
  "generation_left op s \<longleftrightarrow> (is_create op \<longrightarrow>
     next_temporary_display_generation s < next_temporary_display_generation s + 1)"

lemma creates_simps [simp]:
  "creates [] = 0" "creates (op # ops) = (if is_create op then Suc (creates ops) else creates ops)"
  "creates (xs @ ys) = creates xs + creates ys"
  by (simp_all add: creates_def)

lemma run_store_op_inv:
  "store_inv s \<Longrightarrow> generation_left op s \<Longrightarrow> store_inv (run_store_op op s)"
  by (cases op)
     (simp_all add: generation_left_def create_temporary_display_def create_impl_inv create_owned_inv
       reclaim_inv remove_temporary_display_inv mark_pending_inv abandon_inv feed_lease_inv
       release_lease_inv reap_expired_result(1) set_permanent_display_count_inv
       apply_display_manifest_inv)

interpretation store: step_invariant run_store_op store_inv generation_left
  by unfold_locales (rule run_store_op_inv)

lemma store_guarded_append:
  "store.guarded (xs @ ys) s \<longleftrightarrow> store.guarded xs s \<and> store.guarded ys (fold run_store_op xs s)"
  by (induction xs arbitrary: s) simp_all

section \<open>What every operation keeps\<close>

lemma install_frame:
  "max_permanent_displays (fst (install_temporary_display v cap now c r i s)) = max_permanent_displays s"
  "max_temporary_displays (fst (install_temporary_display v cap now c r i s)) = max_temporary_displays s"
  "quarantined_connectors (fst (install_temporary_display v cap now c r i s)) = quarantined_connectors s"
  "next_temporary_display_generation (fst (install_temporary_display v cap now c r i s)) =
     next_temporary_display_generation s + 1"
  by (simp_all add: install_temporary_display_def Let_def remove_connector_reservation_def
      split: prod.split option.split)

text \<open>The limits never change and quarantine only grows; the counter advances by at most one.\<close>

definition store_extends :: "display_store \<Rightarrow> display_store \<Rightarrow> bool" where
  "store_extends s t \<longleftrightarrow>
     max_permanent_displays t = max_permanent_displays s \<and>
     max_temporary_displays t = max_temporary_displays s \<and>
     quarantined_connectors s \<subseteq> quarantined_connectors t"

lemma store_extends_refl: "store_extends s s"
  by (simp add: store_extends_def)

lemma store_extends_trans: "store_extends s t \<Longrightarrow> store_extends t u \<Longrightarrow> store_extends s u"
  unfolding store_extends_def by auto

lemma create_impl_extends:
  assumes "store_inv s"
  shows "store_extends s (fst (create_temporary_display_impl request cap now s)) \<and>
    next_temporary_display_generation (fst (create_temporary_display_impl request cap now s)) \<in>
      {next_temporary_display_generation s, next_temporary_display_generation s + 1}"
  using assms
proof (cases rule: create_impl_cases[of s request cap now])
  case failed
  then show ?thesis unfolding create_failed_def by (auto simp: store_extends_def)
next
  case (created v c i t)
  then obtain u n where "connector_choice s (ctd_display_id request) (retains_identity request) c u"
    "t = u\<lparr>next_ephemeral_identity := n\<rparr>" unfolding create_installs_def by blast
  then show ?thesis using connector_choice_displays
    by (simp add: created(2) install_frame store_extends_def)
qed

lemma run_store_op_extends:
  assumes "store_inv s"
  shows "store_extends s (run_store_op op s) \<and>
    next_temporary_display_generation (run_store_op op s) \<in>
      (if is_create op then {next_temporary_display_generation s, next_temporary_display_generation s + 1}
       else {next_temporary_display_generation s})"
proof (cases op)
  case (OpReap now)
  then show ?thesis using reap_expired_result(2)[OF assms, of now]
    by (simp add: reap_result_def store_extends_def)
next
  case (OpReclaim request now)
  then show ?thesis
    by (cases rule: reclaim_outcome[of request now s])
       (auto simp: store_extends_def reclaimed_def Let_def)
next
  case (OpRemove request mode)
  then show ?thesis
    by (auto simp: remove_temporary_display_cases store_extends_def split: option.split)
next
  case (OpAbandon request generation cap)
  then show ?thesis by (auto simp: abandon_cases store_extends_def split: option.split)
next
  case (OpMarkPending request)
  then show ?thesis
    by (auto simp: mark_temporary_display_pending_departure_def store_extends_def Let_def
        split: option.split)
next
  case (OpFeed request now)
  then show ?thesis by (auto simp: feed_lease_def store_extends_def Let_def split: option.split)
next
  case (OpRelease request)
  then show ?thesis by (auto simp: release_lease_def store_extends_def Let_def)
qed (use assms create_impl_extends in \<open>auto simp: validation_failure_def create_temporary_display_def Let_def
    create_temporary_display_owned_def set_permanent_display_count_def store_frame store_extends_refl
    store_extends_def\<close>)

lemma store_run_extends:
  assumes "store_inv s" and "store.guarded ops s"
  shows "store_extends s (fold run_store_op ops s)"
proof (rule store.run_relation[OF _ _ _ assms])
  show "reflp store_extends" by (rule reflpI) (rule store_extends_refl)
  show "transp store_extends" by (rule transpI) (rule store_extends_trans)
  show "store_extends t (run_store_op op t)" if "store_inv t" for op t
    using run_store_op_extends[OF that, of op] by blast
qed

section \<open>Reachable stores\<close>

lemma manifest_from_zero_ok:
  "pdc_display_count r = 0 \<Longrightarrow> manifest_ok m (display_manifest_from_permanent_settings r m)"
proof -
  assume "pdc_display_count r = 0"
  then have "pdc_display_count (set_default_permanent_display_settings r) = 0"
    by (simp add: set_default_permanent_display_settings_def Let_def split: option.split)
  then show ?thesis
    by (auto simp: manifest_ok_def display_manifest_from_permanent_settings_def active_profiles_def
        default_manifest_def Let_def min_def)
qed

lemma initial_settings_fixed:
  "set_default_permanent_display_settings default_permanent_request = default_permanent_request"
  using canonical_nameD[OF default_name_canonical]
  by (simp add: set_default_permanent_display_settings_def default_permanent_request_def Let_def
      split: option.split)

lemma empty_store_inv:
  assumes "omap_wf reservations"
  shows "store_inv (initial_store max_permanent max_temporary reservations None)"
proof
  let ?s = "initial_store max_permanent max_temporary reservations None"
  show "maps_ok ?s" using assms by (simp add: initial_store_def maps_ok_def Let_def)
  show "table_ok ?s" by (simp add: initial_store_def table_ok_def Let_def)
  show "leases_ok ?s" by (simp add: initial_store_def leases_ok_def Let_def)
  have zero: "pdc_display_count default_permanent_request = 0"
    "default_permanent_request\<lparr>pdc_display_count := 0\<rparr> = default_permanent_request"
    by (simp_all add: default_permanent_request_def)
  let ?man = "display_manifest_from_permanent_settings default_permanent_request max_permanent"
  have count: "man_profile_count ?man = 0"
    by (simp add: display_manifest_from_permanent_settings_def initial_settings_fixed zero Let_def)
  then have "permanent_settings_from_display_manifest ?man = default_permanent_request"
    by (simp add: permanent_settings_from_display_manifest_def zero initial_settings_fixed)
  then show "permanent_ok ?s"
    using manifest_from_zero_ok[OF zero(1), of max_permanent] count
    by (simp add: initial_store_def permanent_ok_def Let_def initial_settings_fixed)
qed

lemma initial_store_inv:
  "omap_wf reservations \<Longrightarrow> store_inv (initial_store max_permanent max_temporary reservations manifest)"
  using empty_store_inv[of reservations max_permanent max_temporary]
  by (auto simp: initial_store_def Let_def apply_display_manifest_inv split: option.split)

lemma initial_generation:
  "next_temporary_display_generation (initial_store max_permanent max_temporary reservations manifest) = 1"
  by (simp add: initial_store_def Let_def store_frame split: option.split)

definition store_reachable :: "display_store \<Rightarrow> bool" where
  "store_reachable s \<longleftrightarrow>
     (\<exists>max_permanent max_temporary reservations manifest ops.
        omap_wf reservations \<and> creates ops < 2 ^ 64 - 1 \<and>
        s = fold run_store_op ops (initial_store max_permanent max_temporary reservations manifest))"

lemma guarded_of_creates:
  "store_inv s \<Longrightarrow> unat (next_temporary_display_generation s) + creates ops < 2 ^ 64 \<Longrightarrow>
   store.guarded ops s"
proof (induction ops arbitrary: s)
  case (Cons op ops)
  let ?g = "next_temporary_display_generation"
  have suc: "unat (?g s + 1) = Suc (unat (?g s))" if "is_create op"
    using Cons.prems(2) that by (simp add: unat_word_ariths)
  then have left: "generation_left op s" by (simp add: generation_left_def word_less_nat_alt)
  have "unat (?g (run_store_op op s)) + creates ops \<le> unat (?g s) + creates (op # ops)"
    using run_store_op_extends[OF Cons.prems(1), of op] suc by (auto split: if_splits)
  then show ?case
    using Cons.IH[OF run_store_op_inv[OF Cons.prems(1) left]] Cons.prems(2) left by simp
qed simp

lemma store_reachable_inv:
  assumes "store_reachable s"
  shows "store_inv s"
proof -
  obtain p t res man ops where s: "omap_wf res" "creates ops < 2 ^ 64 - 1"
    "s = fold run_store_op ops (initial_store p t res man)"
    using assms unfolding store_reachable_def by blast
  note inv = initial_store_inv[OF s(1), of p t man]
  have "store.guarded ops (initial_store p t res man)"
    by (rule guarded_of_creates[OF inv]) (use s(2) in \<open>simp add: initial_generation\<close>)
  then show ?thesis unfolding s(3) by (rule store.run_inv[OF inv])
qed

lemma initial_reachable:
  "omap_wf res \<Longrightarrow> store_reachable (initial_store p t res man)"
  unfolding store_reachable_def by (rule exI[of _ p], rule exI[of _ t], rule exI[of _ res],
    rule exI[of _ man], rule exI[of _ "[]"]) simp

lemma run_reachable:
  assumes "omap_wf res" and "creates ops < 2 ^ 64 - 1"
  shows "store_reachable (fold run_store_op ops (initial_store p t res man))"
  using assms unfolding store_reachable_def by blast

end
