(* ===== verification/Edid.thy ===== *)
theory Edid
  imports Display_Identity
begin

text \<open>
  EDID generation and decoding (\<open>edid.h\<close>, \<open>edid.cpp\<close>). Blocks are lists of bytes; a write at an
  offset is \<open>write_at\<close>. Two floating point computations are modelled by the exact rational value
  they round: the BT.2020 chromaticities, and the CTA luminance code, the least \<open>k\<close> with
  \<open>nits <= 50 * 2^(k/32)\<close>. On the range the encoder feeds them (400 to 2000 nits) no code lies
  within 5e-5 of a rounding boundary except the exact powers of two, which doubles represent.
\<close>

section \<open>Options and decoded values\<close>

record edid_options =
  eo_manufacturer_id :: string
  eo_product_code :: u16
  eo_serial_number :: u32
  eo_width :: u32
  eo_height :: u32
  eo_physical_width_mm :: u32
  eo_physical_height_mm :: u32
  eo_refresh_rate_millihz :: u32
  eo_hdr_max_luminance_nits :: u32
  eo_monitor_name :: string
  eo_hdr_supported :: bool

record preferred_timing =
  pt_pixel_clock_10khz :: u32
  pt_horizontal_active :: u16
  pt_horizontal_blanking :: u16
  pt_vertical_active :: u16
  pt_vertical_blanking :: u16

record hdr_static_metadata =
  hsm_supported_eotfs :: u8
  hsm_supported_static_metadata_types :: u8
  hsm_max_luminance_code :: u8
  hsm_max_frame_average_luminance_code :: u8
  hsm_min_luminance_code :: u8

record supported_colorimetry =
  sc_bt2020_rgb :: bool
  sc_bt2020_ycc :: bool
  sc_bt2020_cycc :: bool

abbreviation (input) kEdidBlockSize :: nat where "kEdidBlockSize \<equiv> 128"
abbreviation (input) kEdidSize :: nat where "kEdidSize \<equiv> 256"
abbreviation (input) kHdrEotfSmpte2084 :: u8 where "kHdrEotfSmpte2084 \<equiv> 0x04"
abbreviation (input) kHdrStaticMetadataType1 :: u8 where "kHdrStaticMetadataType1 \<equiv> 0x01"

definition edid_options_for_temporary_display :: "temporary_display_record \<Rightarrow> edid_options" where
  "edid_options_for_temporary_display r =
     \<lparr>eo_manufacturer_id = kSunshineDriverManufacturerId,
      eo_product_code = product_code_from_display_id (identity_display_id r),
      eo_serial_number = serial_number_from_display_id (identity_display_id r),
      eo_width = tdr_width r, eo_height = tdr_height r,
      eo_physical_width_mm = tdr_physical_width_mm r,
      eo_physical_height_mm = tdr_physical_height_mm r,
      eo_refresh_rate_millihz = tdr_refresh_rate_millihz r,
      eo_hdr_max_luminance_nits = tdr_hdr_max_luminance_nits r,
      eo_monitor_name = tdr_display_name r,
      eo_hdr_supported = True\<rparr>"

section \<open>Byte helpers\<close>

definition byte :: "u32 \<Rightarrow> u8" where
  "byte v = ucast (v AND 0xff)"

definition write_at :: "nat \<Rightarrow> u8 list \<Rightarrow> u8 list \<Rightarrow> u8 list" where
  "write_at off bs block = take off block @ bs @ drop (off + length bs) block"

definition put_le16 :: "u16 \<Rightarrow> u8 list" where
  "put_le16 v = [byte (ucast v), byte (drop_bit 8 (ucast v))]"

definition put_le32 :: "u32 \<Rightarrow> u8 list" where
  "put_le32 v = [byte v, byte (drop_bit 8 v), byte (drop_bit 16 v), byte (drop_bit 24 v)]"

definition clamp :: "'a::linorder \<Rightarrow> 'a \<Rightarrow> 'a \<Rightarrow> 'a" where
  "clamp v lo hi = (if v < lo then lo else if hi < v then hi else v)"

definition hdr_max_luminance_cta_value :: "u32 \<Rightarrow> u8" where
  "hdr_max_luminance_cta_value nits =
     (let safe_nits = unat (max nits 1);
          code = length (takeWhile (\<lambda>k. 50 ^ 32 * 2 ^ k < safe_nits ^ 32) [0..<255])
      in byte (of_nat code))"

definition encode_char :: "char \<Rightarrow> u16" where
  "encode_char c =
     (if char_code c < char_code (CHR ''A'') \<or> char_code c > char_code (CHR ''Z'') then 1
      else of_nat (char_code c - char_code (CHR ''A'') + 1))"

definition encode_manufacturer_id :: "string \<Rightarrow> u16" where
  "encode_manufacturer_id m =
     push_bit 10 (encode_char (m ! 0)) OR push_bit 5 (encode_char (m ! 1)) OR encode_char (m ! 2)"

definition align8 :: "u32 \<Rightarrow> u16" where
  "align8 v = ucast ((v + 7) AND NOT 7)"

definition physical_size_cm :: "u32 \<Rightarrow> u8" where
  "physical_size_cm millimeters = ucast (clamp ((millimeters + 5) div 10) 1 255)"

definition physical_size_mm :: "u32 \<Rightarrow> u16" where
  "physical_size_mm millimeters = ucast (clamp millimeters 1 4095)"

section \<open>Timing\<close>

definition horizontal_blanking :: "edid_options \<Rightarrow> u16" where
  "horizontal_blanking options = align8 (clamp (eo_width options div 5) 160 2047)"

definition vertical_blanking :: "edid_options \<Rightarrow> u16" where
  "vertical_blanking options = ucast (clamp (eo_height options div 20) 45 1023)"

definition preferred_total_pixels :: "edid_options \<Rightarrow> u64" where
  "preferred_total_pixels options =
     ucast (eo_width options + ucast (horizontal_blanking options)) *
     ucast (eo_height options + ucast (vertical_blanking options))"

definition preferred_pixel_clock_hz :: "edid_options \<Rightarrow> u64" where
  "preferred_pixel_clock_hz options =
     preferred_total_pixels options * ucast (max (eo_refresh_rate_millihz options) 1) div 1000"

abbreviation (input) kMaxBaseDetailedTimingPixelClockHz :: u64 where
  "kMaxBaseDetailedTimingPixelClockHz \<equiv> 655350000"
abbreviation (input) kMaxRangeDescriptorVerticalHz :: u32 where
  "kMaxRangeDescriptorVerticalHz \<equiv> 255"

definition make_preferred_timing :: "edid_options \<Rightarrow> preferred_timing" where
  "make_preferred_timing options =
     \<lparr>pt_pixel_clock_10khz = ucast (clamp (preferred_pixel_clock_hz options div 10000) 1 0xffff),
      pt_horizontal_active = ucast (eo_width options),
      pt_horizontal_blanking = horizontal_blanking options,
      pt_vertical_active = ucast (eo_height options),
      pt_vertical_blanking = vertical_blanking options\<rparr>"

definition detailed_timing_options :: "edid_options \<Rightarrow> edid_options" where
  "detailed_timing_options options =
     (if preferred_pixel_clock_hz options \<le> kMaxBaseDetailedTimingPixelClockHz \<and>
         eo_refresh_rate_millihz options \<le> kMaxRangeDescriptorVerticalHz * 1000
      then options
      else
        let safe_options =
          options\<lparr>eo_refresh_rate_millihz := min (eo_refresh_rate_millihz options) 60000\<rparr> in
        if preferred_pixel_clock_hz safe_options \<le> kMaxBaseDetailedTimingPixelClockHz
        then safe_options
        else
          let total_pixels = preferred_total_pixels safe_options in
          safe_options\<lparr>eo_refresh_rate_millihz :=
            ucast (max 1 (kMaxBaseDetailedTimingPixelClockHz * 1000 div total_pixels))\<rparr>)"

definition sanitized_options :: "edid_options \<Rightarrow> edid_options" where
  "sanitized_options options = options
     \<lparr>eo_width := clamp (eo_width options) 1 4095,
      eo_height := clamp (eo_height options) 1 4095,
      eo_refresh_rate_millihz := clamp (eo_refresh_rate_millihz options) 1 0xffffffff,
      eo_physical_width_mm := clamp (eo_physical_width_mm options) 1 4095,
      eo_physical_height_mm := clamp (eo_physical_height_mm options) 1 4095,
      eo_hdr_max_luminance_nits := clamp (eo_hdr_max_luminance_nits options) 400 2000\<rparr>"

section \<open>Descriptors\<close>

definition detailed_timing_bytes :: "edid_options \<Rightarrow> u8 list" where
  "detailed_timing_bytes options =
     (let timing = make_preferred_timing (detailed_timing_options options);
          clock = pt_pixel_clock_10khz timing;
          ha = (ucast (pt_horizontal_active timing) :: u32);
          hb = (ucast (pt_horizontal_blanking timing) :: u32);
          va = (ucast (pt_vertical_active timing) :: u32);
          vb = (ucast (pt_vertical_blanking timing) :: u32);
          h_sync_offset = clamp (hb div 3) 8 255;
          h_sync_width = clamp (hb div 5) 8 255;
          v_sync_offset = (3 :: u32);
          v_sync_width = (5 :: u32);
          physical_width = (ucast (physical_size_mm (eo_physical_width_mm options)) :: u32);
          physical_height = (ucast (physical_size_mm (eo_physical_height_mm options)) :: u32)
      in put_le16 (ucast clock) @
         [byte ha,
          byte hb,
          byte (push_bit 4 (drop_bit 8 ha) OR drop_bit 8 hb),
          byte va,
          byte vb,
          byte (push_bit 4 (drop_bit 8 va) OR drop_bit 8 vb),
          byte h_sync_offset,
          byte h_sync_width,
          byte (push_bit 4 v_sync_offset OR v_sync_width),
          byte (push_bit 6 (drop_bit 8 h_sync_offset) OR push_bit 4 (drop_bit 8 h_sync_width)),
          byte physical_width,
          byte physical_height,
          byte (push_bit 4 (drop_bit 8 physical_width) OR drop_bit 8 physical_height),
          0,
          0,
          0x1a])"

definition sanitized_edid_text :: "string \<Rightarrow> nat \<Rightarrow> string" where
  "sanitized_edid_text txt max_size =
     strip_back (map (\<lambda>ch. if printable ch then ch else CHR 0x20) (take max_size txt))"

definition text_bytes :: "string \<Rightarrow> u8 list" where
  "text_bytes cs = map (\<lambda>c. of_nat (char_code c)) cs"

definition text_descriptor_bytes :: "u8 \<Rightarrow> string \<Rightarrow> u8 list" where
  "text_descriptor_bytes descriptor_type txt =
     (let safe_text = sanitized_edid_text txt 12;
          field = write_at 0 (text_bytes safe_text) (replicate 13 0x20)
      in [0, 0, 0, descriptor_type, 0] @ field[length safe_text := 0x0a])"

definition range_descriptor_bytes :: "edid_options \<Rightarrow> u8 list" where
  "range_descriptor_bytes options =
     (let timing = make_preferred_timing (detailed_timing_options options);
          horizontal_total =
            (ucast (pt_horizontal_active timing) + ucast (pt_horizontal_blanking timing) :: u32);
          vertical_total =
            (ucast (pt_vertical_active timing) + ucast (pt_vertical_blanking timing) :: u32);
          pixel_hz = (ucast (pt_pixel_clock_10khz timing) * 10000 :: u64);
          horizontal_khz = (ucast ((pixel_hz + ucast horizontal_total * 1000 - 1) div
                                   (ucast horizontal_total * 1000)) :: u32);
          vertical_hz = (ucast ((pixel_hz + ucast horizontal_total * ucast vertical_total - 1) div
                                (ucast horizontal_total * ucast vertical_total)) :: u32);
          max_pixel_clock_10mhz =
            (ucast (clamp ((pixel_hz + 9999999) div 10000000) 30 255) :: u32)
      in [0, 0, 0, 0xfd, 0,
          byte (clamp (min 30 vertical_hz) 1 255),
          byte (clamp (max 60 vertical_hz) 1 255),
          30,
          byte (clamp (max 30 horizontal_khz) 1 255),
          byte max_pixel_clock_10mhz,
          0x20])"

definition write_checksum :: "u8 list \<Rightarrow> u8 list" where
  "write_checksum block =
     (let sum = sum_list (map (\<lambda>b. (ucast b :: u32)) (take (kEdidBlockSize - 1) block))
      in block[kEdidBlockSize - 1 := byte ((256 - (sum AND 0xff)) AND 0xff)])"

section \<open>Encoding\<close>

text \<open>The BT.2020 primaries in units of 1/10000: Rx, Ry, Gx, Gy, Bx, By, Wx, Wy.\<close>

definition chromaticities :: "nat list" where
  "chromaticities = [7080, 2920, 1700, 7970, 1310, 460, 3127, 3290]"

fun write_chromaticities :: "nat \<Rightarrow> nat list \<Rightarrow> u8 list \<Rightarrow> u8 list" where
  "write_chromaticities index [] base = base"
| "write_chromaticities index (c # cs) base =
     (let coordinate = (of_nat ((c * 1024 + 5000) div 10000) :: u32);
          base1 = base[27 + index := byte (drop_bit 2 coordinate)];
          base2 = base1[25 + index div 4 :=
            base1 ! (25 + index div 4) OR
              byte (push_bit (6 - 2 * (index mod 4)) (coordinate AND 3))]
      in write_chromaticities (Suc index) cs base2)"

definition base_header :: "u8 list" where
  "base_header = [0x00, 0xff, 0xff, 0xff, 0xff, 0xff, 0xff, 0x00]"

definition base_fixed :: "edid_options \<Rightarrow> u8 list" where
  "base_fixed options =
     [1, 36, 1, 4, 0xa5,
      byte (ucast (physical_size_cm (eo_physical_width_mm options))),
      byte (ucast (physical_size_cm (eo_physical_height_mm options))),
      0x78, 0x0a, 0xee, 0x91, 0xa3, 0x54, 0x4c, 0x99, 0x26, 0x0f, 0x50, 0x54]"

definition hdr_cta_blocks :: "u8 \<Rightarrow> u8 list" where
  "hdr_cta_blocks hdr_max_luminance =
     [0x51, 0x5d, 0x5e, 0x5f, 0x60, 0x61, 0x10, 0x1f,
      0x22, 0x21, 0x20, 0x05, 0x14, 0x04, 0x13, 0x12,
      0x03, 0x01, 0x23, 0x0f, 0x56, 0x05, 0x83, 0x0f,
      0x08, 0x00, 0x6d, 0x03, 0x0c, 0x00, 0x10, 0x00,
      0x38, 0x78, 0x20, 0x00, 0x60, 0x01, 0x02, 0x03,
      0x67, 0xd8, 0x5d, 0xc4, 0x01, 0x78, 0x80, 0x03,
      0xe3, 0x05, 0xe0, 0x01, 0xe4, 0x0f, 0x18, 0x00,
      0x00, 0xe6, 0x06, 0x0f, 0x01,
      hdr_max_luminance, hdr_max_luminance, 0x00]"

definition base_block :: "edid_options \<Rightarrow> u8 list" where
  "base_block safe_options =
     (let manufacturer = (ucast (encode_manufacturer_id (eo_manufacturer_id safe_options)) :: u32);
          b0 = replicate kEdidBlockSize 0;
          b1 = write_at 0 base_header b0;
          b2 = write_at 8 [byte (drop_bit 8 manufacturer), byte manufacturer] b1;
          b3 = write_at 10 (put_le16 (eo_product_code safe_options)) b2;
          b4 = write_at 12 (put_le32 (eo_serial_number safe_options)) b3;
          b5 = write_at 16 (base_fixed safe_options) b4;
          b6 = (if eo_hdr_supported safe_options
                then write_chromaticities 0 chromaticities (write_at 25 [0, 0] b5) else b5);
          b7 = write_at 38 (replicate 16 0x01) b6;
          b8 = write_at 54 (detailed_timing_bytes safe_options) b7;
          b9 = write_at 72
                 (text_descriptor_bytes 0xff (decimal (unat (eo_serial_number safe_options)))) b8;
          b10 = write_at 90 (text_descriptor_bytes 0xfc (eo_monitor_name safe_options)) b9;
          b11 = write_at 108 (range_descriptor_bytes safe_options) b10;
          b12 = b11[126 := 1]
      in write_checksum b12)"

definition extension_block :: "edid_options \<Rightarrow> u8 list" where
  "extension_block safe_options =
     (let e0 = write_at 0 [0x02, 0x03] (replicate kEdidBlockSize 0);
          hdr = hdr_cta_blocks (hdr_max_luminance_cta_value (eo_hdr_max_luminance_nits safe_options));
          e1 = (if eo_hdr_supported safe_options then (write_at 4 hdr e0)[3 := 0xf0] else e0);
          data_offset = (if eo_hdr_supported safe_options then 4 + length hdr else 4);
          e2 = e1[2 := byte (of_nat data_offset)]
      in write_checksum e2)"

definition create_edid :: "edid_options \<Rightarrow> u8 list" where
  "create_edid options =
     (let safe_options = sanitized_options options
      in base_block safe_options @ extension_block safe_options)"

section \<open>Decoding\<close>

definition block_sum :: "u8 list \<Rightarrow> u32" where
  "block_sum block = sum_list (map (\<lambda>b. ucast b) block)"

definition has_valid_edid_checksums :: "u8 list \<Rightarrow> bool" where
  "has_valid_edid_checksums edid \<longleftrightarrow>
     block_sum (take kEdidBlockSize edid) AND 0xff = 0 \<and>
     block_sum (take kEdidBlockSize (drop kEdidBlockSize edid)) AND 0xff = 0"

text \<open>
  The bounds-checked walk over the CTA data blocks; \<open>None\<close> is \<open>kCtaBlockNotFound\<close>. A header
  byte holds the tag in its top three bits and the length in the other five.
\<close>

function cta_walk :: "u8 list \<Rightarrow> u8 \<Rightarrow> nat \<Rightarrow> nat \<Rightarrow> nat \<Rightarrow> nat option" where
  "cta_walk extension extended_tag min_length data_end offset =
     (if offset < data_end then
        (let header = extension ! offset;
             tag = drop_bit 5 header;
             len = unat (header AND 0x1f)
         in if len = 0 \<or> offset \<ge> data_end \<or> len > data_end - offset - 1 then None
            else if tag = 0x07 \<and> len \<ge> min_length \<and> extension ! (offset + 1) = extended_tag
            then Some offset
            else cta_walk extension extended_tag min_length data_end (offset + (len + 1)))
      else None)"
  by pat_completeness auto
termination
  by (relation "measure (\<lambda>(ext, tag, len, data_end, offset). data_end - offset)") auto

declare cta_walk.simps [simp del]

definition find_cta_data_block :: "u8 list \<Rightarrow> u8 \<Rightarrow> nat \<Rightarrow> nat option" where
  "find_cta_data_block extension extended_tag min_length =
     (if extension = [] \<or> extension ! 0 \<noteq> 0x02 then None
      else cta_walk extension extended_tag min_length
             (clamp (unat (extension ! 2)) 4 (kEdidBlockSize - 1)) 4)"

definition read_hdr_static_metadata :: "u8 list \<Rightarrow> hdr_static_metadata option" where
  "read_hdr_static_metadata edid =
     (let extension = take kEdidBlockSize (drop kEdidBlockSize edid) in
      case find_cta_data_block extension 0x06 3 of
        None \<Rightarrow> None
      | Some offset \<Rightarrow>
          (let len = unat (extension ! offset AND 0x1f) in
           Some \<lparr>hsm_supported_eotfs = extension ! (offset + 2),
                 hsm_supported_static_metadata_types = extension ! (offset + 3),
                 hsm_max_luminance_code = (if len \<ge> 4 then extension ! (offset + 4) else 0),
                 hsm_max_frame_average_luminance_code =
                   (if len \<ge> 5 then extension ! (offset + 5) else 0),
                 hsm_min_luminance_code = (if len \<ge> 6 then extension ! (offset + 6) else 0)\<rparr>))"

definition read_supported_colorimetry :: "u8 list \<Rightarrow> supported_colorimetry option" where
  "read_supported_colorimetry edid =
     (let extension = take kEdidBlockSize (drop kEdidBlockSize edid) in
      case find_cta_data_block extension 0x05 2 of
        None \<Rightarrow> None
      | Some offset \<Rightarrow>
          (let colorimetry = extension ! (offset + 2) in
           Some \<lparr>sc_bt2020_rgb = (colorimetry AND 0x80 \<noteq> 0),
                 sc_bt2020_ycc = (colorimetry AND 0x40 \<noteq> 0),
                 sc_bt2020_cycc = (colorimetry AND 0x20 \<noteq> 0)\<rparr>))"

definition has_hdr_static_metadata :: "u8 list \<Rightarrow> bool" where
  "has_hdr_static_metadata edid =
     (case read_hdr_static_metadata edid of
        None \<Rightarrow> False
      | Some m \<Rightarrow> hsm_supported_eotfs m AND kHdrEotfSmpte2084 \<noteq> 0 \<and>
          hsm_supported_static_metadata_types m AND kHdrStaticMetadataType1 \<noteq> 0)"

definition has_bt2020_colorimetry :: "u8 list \<Rightarrow> bool" where
  "has_bt2020_colorimetry edid =
     (case read_supported_colorimetry edid of
        None \<Rightarrow> False
      | Some c \<Rightarrow> sc_bt2020_rgb c \<and> sc_bt2020_ycc c)"

definition decode_letter :: "u16 \<Rightarrow> char option" where
  "decode_letter part =
     (if part = 0 \<or> part > 26 then None
      else Some (char_of (char_code (CHR ''A'') + unat part - 1)))"

definition read_manufacturer_id :: "u8 list \<Rightarrow> string option" where
  "read_manufacturer_id edid =
     (let encoded = (push_bit 8 (ucast (edid ! 8)) OR ucast (edid ! 9) :: u16);
          parts = [drop_bit 10 encoded AND 0x1f, drop_bit 5 encoded AND 0x1f, encoded AND 0x1f]
      in those (map decode_letter parts))"

definition read_product_code :: "u8 list \<Rightarrow> u16" where
  "read_product_code edid = ucast (edid ! 10) OR push_bit 8 (ucast (edid ! 11))"

definition read_serial_number :: "u8 list \<Rightarrow> u32" where
  "read_serial_number edid =
     ucast (edid ! 12) OR push_bit 8 (ucast (edid ! 13)) OR
     push_bit 16 (ucast (edid ! 14)) OR push_bit 24 (ucast (edid ! 15))"

text \<open>
  The inner loop of \<open>read_monitor_name\<close>: \<open>None\<close> is the early \<open>return std::nullopt\<close> on a
  character that is not printable.
\<close>

fun name_chars :: "u8 list \<Rightarrow> string option" where
  "name_chars [] = Some []"
| "name_chars (ch # bs) =
     (if ch = 0 \<or> ch = 0x0a \<or> ch = 0x0d then Some []
      else if ch < 0x20 \<or> ch > 0x7e then None
      else map_option (\<lambda>cs. char_of (unat ch) # cs) (name_chars bs))"

fun find_monitor_name :: "u8 list \<Rightarrow> nat list \<Rightarrow> string option" where
  "find_monitor_name edid [] = None"
| "find_monitor_name edid (offset # offsets) =
     (if edid ! offset \<noteq> 0 \<or> edid ! (offset + 1) \<noteq> 0 \<or> edid ! (offset + 2) \<noteq> 0 \<or>
         edid ! (offset + 3) \<noteq> 0xfc \<or> edid ! (offset + 4) \<noteq> 0
      then find_monitor_name edid offsets
      else
        (case name_chars (take 13 (drop (offset + 5) edid)) of
           None \<Rightarrow> None
         | Some cs \<Rightarrow>
             (let name = strip_back cs in
              if name \<noteq> [] then Some name else find_monitor_name edid offsets)))"

definition read_monitor_name :: "u8 list \<Rightarrow> string option" where
  "read_monitor_name edid = find_monitor_name edid [54, 72, 90, 108]"

definition read_preferred_timing :: "u8 list \<Rightarrow> preferred_timing" where
  "read_preferred_timing edid =
     \<lparr>pt_pixel_clock_10khz = ucast (edid ! 54) OR push_bit 8 (ucast (edid ! 55)),
      pt_horizontal_active =
        ucast (edid ! 56) OR push_bit 4 (ucast (edid ! 58) AND 0xf0),
      pt_horizontal_blanking =
        ucast (edid ! 57) OR push_bit 8 (ucast (edid ! 58) AND 0x0f),
      pt_vertical_active =
        ucast (edid ! 59) OR push_bit 4 (ucast (edid ! 61) AND 0xf0),
      pt_vertical_blanking =
        ucast (edid ! 60) OR push_bit 8 (ucast (edid ! 61) AND 0x0f)\<rparr>"

end
