(* ===== verification/Driver_Controller.thy ===== *)
theory Driver_Controller
  imports Lease_Store_Steps Edid
begin

text \<open>
  The driver controller (\<open>driver_controller.h\<close>, \<open>driver_controller.cpp\<close>): the handlers that keep
  the store and the display backend in step. Around a backend call the controller lock is
  released, so other threads may change the store. The model makes that interference an input:
  the world carries a script of lock windows, and every window says which store operations other
  threads ran before the backend slot was acquired, how the call ended, and which operations
  ran before the controller lock was taken back. A caller without a lock to release is the case
  of empty interference. The backend (Windows IddCx code) is not modelled: its answers are the
  outcomes of the script, and the calls made to it are logged.
\<close>

section \<open>Backend interface and world\<close>

datatype backend_error = BackendNone | BackendFailed | BackendBusy

record backend_display_result =
  bdr_error :: backend_error
  bdr_os_adapter_luid :: adapter_luid
  bdr_target_id :: u32

record display_descriptor =
  dd_lease_id :: u64
  dd_display_id :: u64
  dd_container_id :: guid
  dd_connector_index :: u32
  dd_width :: u32
  dd_height :: u32
  dd_physical_width_mm :: u32
  dd_physical_height_mm :: u32
  dd_refresh_rate_millihz :: u32
  dd_edid :: "u8 list"
  dd_retain_identity :: bool
  dd_generation :: u64
  dd_requested_resolution_only :: bool

text \<open>One call of \<open>DisplayDriverBackend\<close>.\<close>

datatype backend_call =
    ReserveTemporaryDisplayIdentity display_descriptor
  | UnreserveTemporaryDisplayIdentity u64
  | ArriveTemporaryDisplay display_descriptor
  | DepartTemporaryDisplay u64 u64
  | ApplyDisplayManifest display_manifest
  | SetRenderAdapter set_render_adapter_request

text \<open>\<open>LockTimeout\<close>: the backend slot was not acquired and the backend never called.\<close>

datatype call_outcome = LockTimeout | Returned backend_display_result

record window =
  win_before :: "store_op list"
  win_outcome :: call_outcome
  win_during :: "store_op list"

record world =
  w_store :: display_store
  w_script :: "window list"
  w_log :: "backend_call list"

record controller_status =
  cs_store_error :: store_error
  cs_validation_error :: validation_error
  cs_backend_error :: backend_error

definition ok_status :: controller_status where
  "ok_status = \<lparr>cs_store_error = StoreNone, cs_validation_error = VNone, cs_backend_error = BackendNone\<rparr>"

definition status_ok :: "controller_status \<Rightarrow> bool" where
  "status_ok status \<longleftrightarrow>
     cs_store_error status = StoreNone \<and> cs_validation_error status = VNone \<and>
     cs_backend_error status = BackendNone"

definition backend_status :: "backend_error \<Rightarrow> controller_status" where
  "backend_status e = ok_status\<lparr>cs_backend_error := e\<rparr>"

definition store_status :: "store_error \<Rightarrow> controller_status" where
  "store_status e = ok_status\<lparr>cs_store_error := e\<rparr>"

definition invalid_status :: "validation_error \<Rightarrow> controller_status" where
  "invalid_status e = ok_status\<lparr>cs_store_error := ValidationFailed, cs_validation_error := e\<rparr>"

definition from_store_result :: "store_result \<Rightarrow> controller_status" where
  "from_store_result result =
     \<lparr>cs_store_error = sr_error result, cs_validation_error = sr_validation_error result,
      cs_backend_error = BackendNone\<rparr>"

definition busy_result :: backend_display_result where
  "busy_result =
     \<lparr>bdr_error = BackendBusy, bdr_os_adapter_luid = \<lparr>low_part = 0, high_part = 0\<rparr>,
      bdr_target_id = 0\<rparr>"

text \<open>
  \<open>call_backend_without_controller_lock\<close>. An exhausted script is a slot that never becomes free.
\<close>

definition lock_window :: "world \<Rightarrow> world \<times> call_outcome" where
  "lock_window w =
     (case w_script w of
        [] \<Rightarrow> (w, LockTimeout)
      | win # windows \<Rightarrow>
          (let w1 = w\<lparr>w_script := windows,
                      w_store := fold run_store_op (win_before win) (w_store w)\<rparr> in
           case win_outcome win of
             LockTimeout \<Rightarrow> (w1, LockTimeout)
           | Returned result \<Rightarrow>
               (w1\<lparr>w_store := fold run_store_op (win_during win) (w_store w1)\<rparr>, Returned result)))"

definition call_backend :: "backend_call \<Rightarrow> world \<Rightarrow> world \<times> backend_display_result" where
  "call_backend backend_op w =
     (case lock_window w of
        (w1, LockTimeout) \<Rightarrow> (w1, busy_result)
      | (w1, Returned result) \<Rightarrow> (w1\<lparr>w_log := w_log w1 @ [backend_op]\<rparr>, result))"

definition backend_error_of :: "world \<times> backend_display_result \<Rightarrow> world \<times> backend_error" where
  "backend_error_of p = (fst p, bdr_error (snd p))"

text \<open>A store operation under the controller lock.\<close>

definition on_store :: "(display_store \<Rightarrow> display_store \<times> 'a) \<Rightarrow> world \<Rightarrow> world \<times> 'a" where
  "on_store f w = (let (s, x) = f (w_store w) in (w\<lparr>w_store := s\<rparr>, x))"

section \<open>Descriptors\<close>

definition temporary_display_generation_is_current :: "temporary_display_record \<Rightarrow> world \<Rightarrow> bool" where
  "temporary_display_generation_is_current record w =
     (case find_temporary_display (tdr_display_id record) (w_store w) of
        None \<Rightarrow> False
      | Some current \<Rightarrow>
          tdr_lease_id current = tdr_lease_id record \<and> tdr_generation current = tdr_generation record)"

definition descriptor_from_record :: "temporary_display_record \<Rightarrow> display_descriptor" where
  "descriptor_from_record record =
     \<lparr>dd_lease_id = tdr_lease_id record,
      dd_display_id = tdr_display_id record,
      dd_container_id = container_guid_from_display_id (identity_display_id record),
      dd_connector_index = tdr_connector_index record,
      dd_width = tdr_width record,
      dd_height = tdr_height record,
      dd_physical_width_mm = tdr_physical_width_mm record,
      dd_physical_height_mm = tdr_physical_height_mm record,
      dd_refresh_rate_millihz = tdr_refresh_rate_millihz record,
      dd_edid = create_edid (edid_options_for_temporary_display record),
      dd_retain_identity = tdr_retain_identity record,
      dd_generation = tdr_generation record,
      dd_requested_resolution_only = tdr_requested_resolution_only record\<rparr>"

text \<open>A \<open>LeaseDisplayRequest {}\<close> with lease and display filled in.\<close>

definition lease_display :: "u64 \<Rightarrow> u64 \<Rightarrow> lease_display_request" where
  "lease_display lease_id display_id =
     \<lparr>ldr_api_namespace = kApiNamespaceGuid, ldr_lease_id = lease_id, ldr_display_id = display_id\<rparr>"

section \<open>Creating\<close>

type_synonym controller_create_result = "controller_status \<times> create_temporary_display_result"

definition create_fails :: "world \<Rightarrow> controller_status \<Rightarrow> world \<times> controller_create_result" where
  "create_fails w status = (w, status, empty_create_result)"

text \<open>
  The eviction of a condemned record of the same display id. \<open>None\<close> lets the create go on;
  \<open>Some e\<close> is the early return with that backend error.
\<close>

definition evict_pending ::
  "temporary_display_record \<Rightarrow> owner_capability option \<Rightarrow> world \<Rightarrow> world \<times> backend_error option" where
  "evict_pending pending_record owner_capability w =
     (let (w1, backend_error) =
            backend_error_of (call_backend (DepartTemporaryDisplay (tdr_display_id pending_record) 0) w);
          request = lease_display (tdr_lease_id pending_record) (tdr_display_id pending_record) in
      if backend_error \<noteq> BackendNone then
        (if backend_error = BackendFailed \<and>
            temporary_display_generation_is_current pending_record w1
         then
           (let (w2, abandoned) =
                  (case owner_capability of
                     None \<Rightarrow> (w1, False)
                   | Some capability \<Rightarrow>
                       (let (w', result) = on_store (abandon_pending_temporary_display request
                              (tdr_generation pending_record) capability) w1
                        in (w', sr_error result = StoreNone))) in
            if abandoned then (w2, None)
            else (fst (on_store (mark_temporary_display_pending_departure request) w2),
                  Some backend_error))
         else (w1, Some backend_error))
      else if temporary_display_generation_is_current pending_record w1
      then (fst (on_store (remove_temporary_display request RetainConnectorReservation) w1), None)
      else (w1, None))"

text \<open>The identity reservation of a retained display; \<open>Some status\<close> is an early return.\<close>

definition reserve_identity ::
  "create_temporary_display_request \<Rightarrow> temporary_display_record \<Rightarrow> world \<Rightarrow> world \<times> controller_status option" where
  "reserve_identity request made w =
     (let (w1, backend_error) = backend_error_of
            (call_backend (ReserveTemporaryDisplayIdentity (descriptor_from_record made)) w);
          rollback = lease_display (ctd_lease_id request) (ctd_display_id request) in
      if backend_error \<noteq> BackendNone then
        (if temporary_display_generation_is_current made w1
         then (fst (on_store (remove_temporary_display rollback ReleaseConnectorReservation) w1),
               Some (backend_status backend_error))
         else (w1, Some (backend_status backend_error)))
      else if \<not> temporary_display_generation_is_current made w1
      then (fst (call_backend (UnreserveTemporaryDisplayIdentity (ctd_display_id request)) w1),
            Some (store_status DisplayNotFound))
      else (w1, None))"

text \<open>The rollback after a failed arrival.\<close>

definition arrival_failed ::
  "create_temporary_display_request \<Rightarrow> temporary_display_record \<Rightarrow> backend_error \<Rightarrow> world \<Rightarrow>
   world \<times> controller_create_result" where
  "arrival_failed request made error w =
     (let rollback = lease_display (ctd_lease_id request) (ctd_display_id request);
          (w1, rollback_mode) =
            (if tdr_retain_identity made
             then
               (let (w', unreserve_error) = backend_error_of
                      (call_backend (UnreserveTemporaryDisplayIdentity (ctd_display_id request)) w)
                in (w', if unreserve_error \<noteq> BackendNone then RetainConnectorReservation
                        else ReleaseConnectorReservation))
             else (w, ReleaseConnectorReservation));
          w2 = (if temporary_display_generation_is_current made w1
                then fst (on_store (remove_temporary_display rollback rollback_mode) w1) else w1)
      in create_fails w2 (backend_status error))"

text \<open>After a successful arrival: the record may have been replaced or condemned meanwhile.\<close>

definition arrival_succeeded ::
  "create_temporary_display_request \<Rightarrow> temporary_display_record \<Rightarrow> create_temporary_display_result \<Rightarrow>
   backend_display_result \<Rightarrow> world \<Rightarrow> world \<times> controller_create_result" where
  "arrival_succeeded request made result backend_result w =
     (let depart = DepartTemporaryDisplay (ctd_display_id request) (tdr_generation made) in
      case find_temporary_display (ctd_display_id request) (w_store w) of
        None \<Rightarrow> create_fails (fst (call_backend depart w)) (store_status DisplayNotFound)
      | Some arrived_record \<Rightarrow>
          if tdr_lease_id arrived_record \<noteq> ctd_lease_id request \<or>
             tdr_generation arrived_record \<noteq> tdr_generation made
          then create_fails (fst (call_backend depart w)) (store_status DisplayNotFound)
          else if tdr_pending_departure arrived_record then
            (let (w1, cleanup_error) = backend_error_of (call_backend depart w);
                 w2 = (if cleanup_error = BackendNone \<and>
                          temporary_display_generation_is_current arrived_record w1
                       then fst (on_store (remove_temporary_display
                              (lease_display (tdr_lease_id arrived_record) (tdr_display_id arrived_record))
                              RetainConnectorReservation) w1)
                       else w1)
             in create_fails w2
                  (if cleanup_error = BackendNone then store_status DisplayNotFound
                   else backend_status cleanup_error))
          else
            (w, ok_status,
             result\<lparr>ctr_os_adapter_luid := bdr_os_adapter_luid backend_result,
                    ctr_target_id := bdr_target_id backend_result\<rparr>))"

definition store_create ::
  "create_temporary_display_request \<Rightarrow> owner_capability option \<Rightarrow> time_point \<Rightarrow>
   display_store \<Rightarrow> display_store \<times> create_store_result" where
  "store_create request owner_capability now s =
     (case owner_capability of
        None \<Rightarrow> create_temporary_display request now s
      | Some capability \<Rightarrow>
          create_temporary_display_owned
            \<lparr>cto_display = request, cto_owner_capability = capability\<rparr> now s)"

text \<open>From the store record to the arrived monitor.\<close>

definition bring_up ::
  "create_temporary_display_request \<Rightarrow> temporary_display_record \<Rightarrow> create_temporary_display_result \<Rightarrow>
   world \<Rightarrow> world \<times> controller_create_result" where
  "bring_up request made result w =
     (let (w1, early) = (if tdr_retain_identity made
                         then reserve_identity request made w else (w, None)) in
      case early of
        Some status \<Rightarrow> create_fails w1 status
      | None \<Rightarrow>
          (let (w2, backend_result) =
                 call_backend (ArriveTemporaryDisplay (descriptor_from_record made)) w1 in
           if bdr_error backend_result \<noteq> BackendNone
           then arrival_failed request made (bdr_error backend_result) w2
           else arrival_succeeded request made result backend_result w2))"

definition controller_create_impl ::
  "create_temporary_display_request \<Rightarrow> owner_capability option \<Rightarrow> time_point \<Rightarrow> world \<Rightarrow>
   world \<times> controller_create_result" where
  "controller_create_impl request owner_capability now w =
     (let validation = fst (validate_create_temporary_display request) in
      if validation \<noteq> VNone then create_fails w (invalid_status validation)
      else
        let (w1, early) =
              (case find_temporary_display (ctd_display_id request) (w_store w) of
                 None \<Rightarrow> (w, None)
               | Some existing \<Rightarrow>
                   if tdr_pending_departure existing
                   then evict_pending existing owner_capability w else (w, None)) in
        case early of
          Some e \<Rightarrow> create_fails w1 (backend_status e)
        | None \<Rightarrow>
            (let (w2, created) = on_store (store_create request owner_capability now) w1 in
             if sr_error (fst created) \<noteq> StoreNone
             then create_fails w2 (from_store_result (fst created))
             else
               (case find_temporary_display (ctd_display_id request) (w_store w2) of
                  None \<Rightarrow> create_fails w2 (store_status DisplayNotFound)
                | Some record \<Rightarrow> bring_up request record (snd created) w2)))"

definition controller_create ::
  "create_temporary_display_request \<Rightarrow> time_point \<Rightarrow> world \<Rightarrow> world \<times> controller_create_result" where
  "controller_create request now w = controller_create_impl request None now w"

definition controller_create_owned ::
  "create_temporary_display_owned_request \<Rightarrow> time_point \<Rightarrow> world \<Rightarrow> world \<times> controller_create_result" where
  "controller_create_owned request now w =
     (let validation = validate_create_temporary_display_owned request in
      if validation \<noteq> VNone then create_fails w (invalid_status validation)
      else
        controller_create_impl (cto_display request) (Some (cto_owner_capability request)) now w)"

section \<open>Reclaim, feed, remove, release\<close>

text \<open>Reclaim holds the backend slot while it rotates the lease; it calls no backend function.\<close>

definition controller_reclaim ::
  "reclaim_temporary_display_request \<Rightarrow> time_point \<Rightarrow> world \<Rightarrow>
   world \<times> controller_status \<times> reclaim_temporary_display_result" where
  "controller_reclaim request now w =
     (let validation = validate_reclaim_temporary_display request in
      if validation \<noteq> VNone then (w, invalid_status validation, empty_reclaim_result)
      else
        (case lock_window w of
           (w1, LockTimeout) \<Rightarrow> (w1, backend_status BackendBusy, empty_reclaim_result)
         | (w1, Returned _) \<Rightarrow>
             (let (w2, result) = on_store (reclaim_temporary_display request now) w1
              in (w2, from_store_result (fst result), snd result))))"

definition controller_remove :: "lease_display_request \<Rightarrow> world \<Rightarrow> world \<times> controller_status" where
  "controller_remove request w =
     (let validation = validate_lease_display_request request in
      if validation \<noteq> VNone then (w, invalid_status validation)
      else
        (case find_temporary_display (ldr_display_id request) (w_store w) of
           None \<Rightarrow> (w, store_status DisplayNotFound)
         | Some record \<Rightarrow>
             if tdr_lease_id record \<noteq> ldr_lease_id request then (w, store_status DisplayNotFound)
             else
               let (w1, backend_error) = backend_error_of
                     (call_backend (DepartTemporaryDisplay (ldr_display_id request)
                                      (tdr_generation record)) w) in
               if backend_error \<noteq> BackendNone then
                 (if backend_error = BackendFailed \<and> temporary_display_generation_is_current record w1
                  then (fst (on_store (mark_temporary_display_pending_departure request) w1),
                        backend_status backend_error)
                  else (w1, backend_status backend_error))
               else if \<not> temporary_display_generation_is_current record w1
               then (w1, store_status DisplayNotFound)
               else
                 (let (w2, result) =
                        on_store (remove_temporary_display request RetainConnectorReservation) w1
                  in (w2, from_store_result result))))"

definition controller_feed_lease :: "lease_request \<Rightarrow> time_point \<Rightarrow> world \<Rightarrow> world \<times> controller_status" where
  "controller_feed_lease request now w =
     (let (w1, result) = on_store (feed_lease request now) w in (w1, from_store_result result))"

text \<open>Departing one display of the snapshot: the body of the loops of release and reap.\<close>

definition depart_display :: "temporary_display_record \<Rightarrow> world \<Rightarrow> world \<times> backend_error \<times> bool" where
  "depart_display display w =
     (let (w1, depart_error) = backend_error_of
            (call_backend (DepartTemporaryDisplay (tdr_display_id display) (tdr_generation display)) w);
          request = lease_display (tdr_lease_id display) (tdr_display_id display) in
      if depart_error = BackendNone then
        (if temporary_display_generation_is_current display w1
         then (let (w2, result) =
                     on_store (remove_temporary_display request RetainConnectorReservation) w1
               in (w2, depart_error, sr_error result = StoreNone))
         else (w1, depart_error, False))
      else if depart_error = BackendFailed \<and> temporary_display_generation_is_current display w1
      then (fst (on_store (mark_temporary_display_pending_departure request) w1), depart_error, False)
      else (w1, depart_error, False))"

fun release_displays ::
  "temporary_display_record list \<Rightarrow> backend_error \<Rightarrow> world \<Rightarrow> world \<times> backend_error" where
  "release_displays [] backend_error w = (w, backend_error)"
| "release_displays (display # displays) backend_error w =
     (let (w1, depart_error, _) = depart_display display w in
      release_displays displays
        (if depart_error \<noteq> BackendNone \<and> backend_error \<noteq> BackendFailed then depart_error
         else backend_error) w1)"

definition controller_release_lease :: "lease_request \<Rightarrow> world \<Rightarrow> world \<times> controller_status" where
  "controller_release_lease request w =
     (let validation = validate_lease_request request in
      if validation \<noteq> VNone then (w, invalid_status validation)
      else
        let displays = temporary_displays_for_lease (lr_lease_id request) (w_store w) in
        if displays = [] then
          (let (w1, result) = on_store (release_lease request) w in (w1, from_store_result result))
        else
          (let (w1, backend_error) = release_displays displays BackendNone w
           in (w1, backend_status backend_error)))"

section \<open>Permanent displays and render adapter\<close>

definition controller_apply_display_manifest ::
  "display_manifest \<Rightarrow> world \<Rightarrow> world \<times> controller_status" where
  "controller_apply_display_manifest manifest w =
     (let validation = validate_display_manifest manifest (max_permanent_displays (w_store w)) in
      if validation \<noteq> VNone then (w, invalid_status validation)
      else
        (case canonicalize_profile_names (unat (man_profile_count manifest)) (man_profiles manifest) of
           None \<Rightarrow> (w, invalid_status InvalidDisplayName)
         | Some profiles \<Rightarrow>
             (let canonical = manifest\<lparr>man_profiles := profiles\<rparr>;
                  (w1, backend_error) = backend_error_of (call_backend (ApplyDisplayManifest canonical) w) in
              if backend_error \<noteq> BackendNone then (w1, backend_status backend_error)
              else
                (let (w2, result) = on_store (apply_display_manifest canonical) w1
                 in (w2, from_store_result result)))))"

definition controller_set_permanent_display_count ::
  "permanent_display_count_request \<Rightarrow> world \<Rightarrow> world \<times> controller_status" where
  "controller_set_permanent_display_count request w =
     (let normalized = set_default_permanent_display_settings request;
          max_permanent = max_permanent_displays (w_store w);
          validation = validate_permanent_display_count normalized max_permanent in
      if validation \<noteq> VNone then (w, invalid_status validation)
      else
        controller_apply_display_manifest
          (display_manifest_from_permanent_settings normalized max_permanent) w)"

definition controller_set_render_adapter ::
  "set_render_adapter_request \<Rightarrow> world \<Rightarrow> world \<times> controller_status" where
  "controller_set_render_adapter request w =
     (if \<not> is_valid_api_namespace (sra_api_namespace request) then (w, invalid_status WrongApiNamespace)
      else if sra_flags request \<noteq> 0 then (w, invalid_status InvalidFlags)
      else
        (let (w1, backend_error) = backend_error_of (call_backend (SetRenderAdapter request) w)
         in (w1, backend_status backend_error)))"

section \<open>Reaping\<close>

text \<open>All pending displays, then every expired one whose id is not yet among the candidates.\<close>

definition reap_candidates :: "time_point \<Rightarrow> display_store \<Rightarrow> temporary_display_record list" where
  "reap_candidates now s =
     fold (\<lambda>display candidates.
       if list_ex (\<lambda>candidate. tdr_display_id candidate = tdr_display_id display) candidates
       then candidates else candidates @ [display])
     (expired_temporary_displays now s) (pending_departure_temporary_displays s)"

fun reap_displays :: "temporary_display_record list \<Rightarrow> u32 \<Rightarrow> world \<Rightarrow> world \<times> u32" where
  "reap_displays [] removed w = (w, removed)"
| "reap_displays (display # displays) removed w =
     (let (w1, _, gone) = depart_display display w in
      reap_displays displays (if gone then removed + 1 else removed) w1)"

definition controller_reap_expired :: "time_point \<Rightarrow> world \<Rightarrow> world \<times> u32" where
  "controller_reap_expired now w = reap_displays (reap_candidates now (w_store w)) 0 w"

section \<open>Queries\<close>

definition empty_state_entry :: display_state_entry where
  "empty_state_entry =
     \<lparr>dse_kind = 0, dse_flags = 0, dse_lease_id = 0, dse_display_id = 0, dse_container_id = zero_guid,
      dse_connector_index = 0, dse_product_code = 0, dse_serial_number = 0, dse_width = 0,
      dse_height = 0, dse_physical_width_mm = 0, dse_physical_height_mm = 0,
      dse_refresh_rate_millihz = 0, dse_display_name = replicate kDisplayNameChars nul\<rparr>"

definition state_entry_from_profile :: "display_manifest_profile \<Rightarrow> display_state_entry" where
  "state_entry_from_profile profile =
     (let mode = dmp_allowed_modes profile ! unat (dmp_native_mode_index profile) in
      empty_state_entry
        \<lparr>dse_kind := kDisplayStateKindPermanent,
         dse_flags :=
           (if dmp_flags profile AND kDisplayManifestProfileFlagHdrSupported \<noteq> 0
            then kDisplayStateFlagHdrSupported else 0) OR
           (if dmp_flags profile AND kDisplayManifestProfileFlagRetainIdentity \<noteq> 0
            then kDisplayStateFlagRetainIdentity else 0),
         dse_display_id := dmp_display_id profile,
         dse_container_id := dmp_container_id profile,
         dse_connector_index := dmp_connector_index profile,
         dse_product_code := dmp_product_code profile,
         dse_serial_number := dmp_serial_number profile,
         dse_width := dm_width mode,
         dse_height := dm_height mode,
         dse_physical_width_mm := dmp_physical_width_mm profile,
         dse_physical_height_mm := dmp_physical_height_mm profile,
         dse_refresh_rate_millihz := dm_refresh_rate_millihz mode,
         dse_display_name := dmp_display_name profile\<rparr>)"

definition state_entry_from_record :: "temporary_display_record \<Rightarrow> display_state_entry" where
  "state_entry_from_record record =
     empty_state_entry
       \<lparr>dse_kind := kDisplayStateKindTemporary,
        dse_flags := kDisplayStateFlagHdrSupported OR
          (if tdr_retain_identity record then kDisplayStateFlagRetainIdentity else 0) OR
          (if tdr_requested_resolution_only record then kDisplayStateFlagRequestedResolutionOnly else 0),
        dse_display_id := tdr_display_id record,
        dse_container_id := container_guid_from_display_id (identity_display_id record),
        dse_connector_index := tdr_connector_index record,
        dse_product_code := ucast (product_code_from_display_id (identity_display_id record)),
        dse_serial_number := serial_number_from_display_id (identity_display_id record),
        dse_width := tdr_width record,
        dse_height := tdr_height record,
        dse_physical_width_mm := tdr_physical_width_mm record,
        dse_physical_height_mm := tdr_physical_height_mm record,
        dse_refresh_rate_millihz := tdr_refresh_rate_millihz record,
        dse_display_name :=
          pad_to kDisplayNameChars (take (kDisplayNameChars - 1) (tdr_display_name record))\<rparr>"

text \<open>Both loops of \<open>query_display_state\<close> stop when the 16 entries are full.\<close>

definition query_display_state :: "display_store \<Rightarrow> query_display_state_result" where
  "query_display_state s =
     (let manifest = display_manifest_of s;
          limit = unat kMaxDisplayStateEntries;
          permanent = take limit (map state_entry_from_profile
            (take (unat (man_profile_count manifest)) (man_profiles manifest)));
          temporary = take (limit - length permanent)
            (map state_entry_from_record (temporary_displays s));
          used = permanent @ temporary
      in \<lparr>qds_permanent_display_count = permanent_display_count s,
          qds_temporary_display_count = temporary_display_count s,
          qds_entry_count = of_nat (length used),
          qds_entries = used @ replicate (limit - length used) empty_state_entry\<rparr>)"

end
