(* ===== verification/Driver_Controller_Props.thy ===== *)
theory Driver_Controller_Props
  imports Driver_Controller
begin

text \<open>
  Facts about single controller steps under interference: every handler acts on the store only
  through store operations (its own and those of other threads), and each branch of the rollback,
  departure and reaping code changes at most the record it was issued for.
\<close>

section \<open>Controller steps are sequences of store operations\<close>

text \<open>The creates the other threads of a script perform.\<close>

definition script_creates :: "window list \<Rightarrow> nat" where
  "script_creates windows =
     sum_list (map (\<lambda>win. creates (win_before win) + creates (win_during win)) windows)"

definition store_moves :: "nat \<Rightarrow> world \<Rightarrow> world \<Rightarrow> bool" where
  "store_moves n w w' \<longleftrightarrow>
     (\<exists>ops. w_store w' = fold run_store_op ops (w_store w) \<and>
        creates ops + script_creates (w_script w') \<le> script_creates (w_script w) + n)"

lemma moves_refl [intro, simp]: "store_moves n w w"
  unfolding store_moves_def by (rule exI[of _ "[]"]) simp

lemma moves_trans: "store_moves n w w1 \<Longrightarrow> store_moves m w1 w2 \<Longrightarrow> store_moves (n + m) w w2"
  unfolding store_moves_def
proof (elim exE conjE)
  fix xs ys
  assume "w_store w1 = fold run_store_op xs (w_store w)" "w_store w2 = fold run_store_op ys (w_store w1)"
    "creates xs + script_creates (w_script w1) \<le> script_creates (w_script w) + n"
    "creates ys + script_creates (w_script w2) \<le> script_creates (w_script w1) + m"
  then show "\<exists>ops. w_store w2 = fold run_store_op ops (w_store w) \<and>
      creates ops + script_creates (w_script w2) \<le> script_creates (w_script w) + (n + m)"
    by (intro exI[of _ "xs @ ys"]) simp
qed

lemma moves_mono: "store_moves n w w' \<Longrightarrow> n \<le> m \<Longrightarrow> store_moves m w w'"
  unfolding store_moves_def by (meson add_left_mono order_trans)

lemma moves_op: "store_moves (creates [op]) w (w\<lparr>w_store := run_store_op op (w_store w)\<rparr>)"
  unfolding store_moves_def by (rule exI[of _ "[op]"]) simp

lemma moves_lock_window: "store_moves 0 w (fst (lock_window w))"
proof (cases "w_script w")
  case Nil
  then show ?thesis by (simp add: lock_window_def)
next
  case (Cons win windows)
  show ?thesis
  proof (cases "win_outcome win")
    case LockTimeout
    then show ?thesis unfolding store_moves_def lock_window_def Cons
      by (intro exI[of _ "win_before win"]) (simp add: Let_def script_creates_def)
  next
    case (Returned result)
    then show ?thesis unfolding store_moves_def lock_window_def Cons
      by (intro exI[of _ "win_before win @ win_during win"]) (simp add: Let_def script_creates_def)
  qed
qed

lemma call_backend_world:
  "\<exists>l. fst (call_backend op w) = fst (lock_window w)\<lparr>w_log := l\<rparr>"
proof (cases "lock_window w")
  case (Pair w1 outcome)
  then show ?thesis
    by (cases outcome) (auto simp: call_backend_def intro: exI[of _ "w_log w1"])
qed

lemma moves_log [simp]: "store_moves n w (w'\<lparr>w_log := l\<rparr>) = store_moves n w w'"
  by (simp add: store_moves_def)

lemma moves_call_backend: "store_moves 0 w (fst (call_backend op w))"
  using moves_lock_window[of w] call_backend_world[of op w] by auto

lemma on_store_eq: "on_store f w = (w\<lparr>w_store := fst (f (w_store w))\<rparr>, snd (f (w_store w)))"
  by (simp add: on_store_def case_prod_beta)

lemma moves_on_store:
  "(\<And>s. fst (f s) = run_store_op op s) \<Longrightarrow> store_moves (creates [op]) w (fst (on_store f w))"
  using moves_op[of op w] by (simp add: on_store_eq)

lemma moves_then_store:
  assumes "store_moves n w w1" and "\<And>s. fst (f s) = run_store_op op s"
  shows "store_moves (n + creates [op]) w (fst (on_store f w1))"
  by (rule moves_trans[OF assms(1) moves_on_store[OF assms(2)]])

lemma fst_backend_error_of [simp]: "fst (backend_error_of p) = fst p"
  by (simp add: backend_error_of_def)

text \<open>The store operations the handlers use.\<close>

lemma moves_remove [intro]: "store_moves n w w1 \<Longrightarrow>
    store_moves n w (fst (on_store (remove_temporary_display request mode) w1))"
  using moves_then_store[of n w w1 "remove_temporary_display request mode" "OpRemove request mode"] by simp

lemma moves_mark [intro]: "store_moves n w w1 \<Longrightarrow>
    store_moves n w (fst (on_store (mark_temporary_display_pending_departure request) w1))"
  using moves_then_store[of n w w1 "mark_temporary_display_pending_departure request" "OpMarkPending request"] by simp

lemma moves_abandon [intro]: "store_moves n w w1 \<Longrightarrow>
    store_moves n w (fst (on_store (abandon_pending_temporary_display request g cap) w1))"
  using moves_then_store[of n w w1 "abandon_pending_temporary_display request g cap" "OpAbandon request g cap"] by simp

lemma moves_feed [intro]: "store_moves n w w1 \<Longrightarrow> store_moves n w (fst (on_store (feed_lease request now) w1))"
  using moves_then_store[of n w w1 "feed_lease request now" "OpFeed request now"] by simp

lemma moves_release [intro]: "store_moves n w w1 \<Longrightarrow> store_moves n w (fst (on_store (release_lease request) w1))"
  using moves_then_store[of n w w1 "release_lease request" "OpRelease request"] by simp

lemma moves_reclaim [intro]: "store_moves n w w1 \<Longrightarrow>
    store_moves n w (fst (on_store (reclaim_temporary_display request now) w1))"
  using moves_then_store[of n w w1 "reclaim_temporary_display request now" "OpReclaim request now"] by simp

lemma moves_apply [intro]: "store_moves n w w1 \<Longrightarrow>
    store_moves n w (fst (on_store (apply_display_manifest manifest) w1))"
  using moves_then_store[of n w w1 "apply_display_manifest manifest" "OpApplyManifest manifest"] by simp

lemma moves_create: "store_moves n w w1 \<Longrightarrow>
    store_moves (Suc n) w (fst (on_store (store_create request cap now) w1))"
  using moves_then_store[of n w w1 "store_create request None now" "OpCreate request now"]
    moves_then_store[of n w w1 "store_create request cap now"
      "OpCreateOwned \<lparr>cto_display = request, cto_owner_capability = the cap\<rparr> now"]
  by (cases cap) (simp_all add: store_create_def)

lemma moves_call [intro]: "store_moves n w w1 \<Longrightarrow> store_moves n w (fst (call_backend op w1))"
  using moves_trans[OF _ moves_call_backend] by fastforce

lemma evict_pending_moves: "store_moves n w w1 \<Longrightarrow> store_moves n w (fst (evict_pending r cap w1))"
  unfolding evict_pending_def Let_def case_prod_beta by (auto split: option.split)

lemma reserve_identity_moves: "store_moves n w w1 \<Longrightarrow> store_moves n w (fst (reserve_identity request r w1))"
  unfolding reserve_identity_def Let_def case_prod_beta by auto

lemma arrival_failed_moves: "store_moves n w w1 \<Longrightarrow> store_moves n w (fst (arrival_failed request r e w1))"
  unfolding arrival_failed_def Let_def case_prod_beta create_fails_def by auto

lemma arrival_succeeded_moves:
  "store_moves n w w1 \<Longrightarrow> store_moves n w (fst (arrival_succeeded request r result b w1))"
  unfolding arrival_succeeded_def Let_def case_prod_beta create_fails_def by (auto split: option.split)

lemma bring_up_moves: "store_moves n w w1 \<Longrightarrow> store_moves n w (fst (bring_up request r result w1))"
  unfolding bring_up_def Let_def case_prod_beta create_fails_def
  by (auto split: option.split intro!: arrival_failed_moves arrival_succeeded_moves reserve_identity_moves)

lemma create_impl_moves: "store_moves (Suc 0) w (fst (controller_create_impl request cap now w))"
proof (cases "fst (validate_create_temporary_display request) = VNone")
  case False
  then show ?thesis by (simp add: controller_create_impl_def create_fails_def Let_def)
next
  case True
  obtain w1 early where pre: "(case find_temporary_display (ctd_display_id request) (w_store w) of
      None \<Rightarrow> (w, None)
    | Some existing \<Rightarrow> if tdr_pending_departure existing then evict_pending existing cap w else (w, None))
    = (w1, early)" by fastforce
  then have m: "store_moves 0 w w1"
    using evict_pending_moves[OF moves_refl[of 0 w]]
    by (auto split: option.splits if_splits) (metis fst_conv)
  have m1: "store_moves (Suc 0) w w1" by (rule moves_mono[OF m]) simp
  have "store_moves (Suc 0) w (fst (on_store (store_create request cap now) w1))"
    by (rule moves_create[OF m])
  then show ?thesis using True m1
    by (auto simp: controller_create_impl_def pre create_fails_def Let_def case_prod_beta
        split: option.split intro!: bring_up_moves)
qed

lemma depart_display_moves: "store_moves n w w1 \<Longrightarrow> store_moves n w (fst (depart_display display w1))"
  unfolding depart_display_def Let_def case_prod_beta by auto

lemma release_displays_moves: "store_moves n w w1 \<Longrightarrow> store_moves n w (fst (release_displays displays e w1))"
  by (induction displays arbitrary: e w1) (auto simp: case_prod_beta Let_def intro: depart_display_moves)

lemma reap_displays_moves: "store_moves n w w1 \<Longrightarrow> store_moves n w (fst (reap_displays displays k w1))"
  by (induction displays arbitrary: k w1) (auto simp: case_prod_beta Let_def intro: depart_display_moves)

text \<open>Every handler.\<close>

lemma handler_moves:
  "store_moves (Suc 0) w (fst (controller_create request now w))"
  "store_moves (Suc 0) w (fst (controller_create_owned owned now w))"
  "store_moves 0 w (fst (controller_reclaim reclaim now w))"
  "store_moves 0 w (fst (controller_remove remove w))"
  "store_moves 0 w (fst (controller_feed_lease feed now w))"
  "store_moves 0 w (fst (controller_release_lease feed w))"
  "store_moves 0 w (fst (controller_apply_display_manifest manifest w))"
  "store_moves 0 w (fst (controller_set_permanent_display_count count w))"
  "store_moves 0 w (fst (controller_set_render_adapter adapter w))"
  "store_moves 0 w (fst (controller_reap_expired now w))"
proof -
  show apply_manifest: "store_moves 0 w (fst (controller_apply_display_manifest manifest w))" for manifest
    unfolding controller_apply_display_manifest_def Let_def case_prod_beta
    by (auto split: option.split)
  show "store_moves 0 w (fst (controller_set_permanent_display_count count w))"
    using apply_manifest by (simp add: controller_set_permanent_display_count_def Let_def)
  show "store_moves 0 w (fst (controller_reclaim reclaim now w))"
    using moves_lock_window[of w]
    by (auto simp: controller_reclaim_def Let_def case_prod_beta split: prod.split call_outcome.split)
  show "store_moves 0 w (fst (controller_remove remove w))"
    unfolding controller_remove_def Let_def case_prod_beta by (auto split: option.split)
  show "store_moves 0 w (fst (controller_release_lease feed w))"
    unfolding controller_release_lease_def Let_def case_prod_beta
    by (auto intro: release_displays_moves)
qed (auto simp: controller_create_def controller_create_owned_def controller_feed_lease_def
    controller_set_render_adapter_def controller_reap_expired_def create_fails_def
    Let_def case_prod_beta intro: create_impl_moves reap_displays_moves)

end
