(* ===== verification/Permanent_Displays.thy ===== *)
theory Permanent_Displays
  imports Lease_Store_Steps
begin

text \<open>
  The permanent displays: a manifest generated from permanent display settings always
  validates, so \<open>set_permanent_display_count\<close> accepts exactly the requests its own validator
  accepts, and the settings read back from the applied manifest are the ones requested.
\<close>

section \<open>Generated identities are distinct\<close>

lemma upt_8: "[0..<8] = [0, 1, 2, 3, 4, 5, 6, 7 :: nat]"
  by (simp add: upt_rec)

lemma permanent_ids_distinct:
  "distinct (map (\<lambda>i. of_nat i :: u32) [0..<8])"
  "distinct (map (\<lambda>i. permanent_display_id (of_nat i)) [0..<8])"
  "distinct (map (\<lambda>i. ucast (permanent_product_code (of_nat i)) :: u32) [0..<8])"
  "distinct (map (\<lambda>i. serial_number_from_display_id (permanent_display_id (of_nat i))) [0..<8])"
  by (simp_all add: upt_8 permanent_display_id_def permanent_product_code_def
      serial_number_from_display_id_def drop_bit_eq_div)

lemma distinct_map_prefix:
  "distinct (map f [0..<n]) \<Longrightarrow> k \<le> n \<Longrightarrow> distinct (map f [0..<k])"
  by (auto simp: distinct_map inj_on_def)

lemma permanent_id_nonzero:
  "permanent_display_id i \<noteq> 0"
  by (simp add: permanent_display_id_def or_eq_0_iff)

lemma permanent_product_code_range:
  "ucast (permanent_product_code i) \<noteq> (0 :: u32)" "(ucast (permanent_product_code i) :: u32) \<le> 0xffff"
proof -
  let ?c = "permanent_product_code i"
  have "unat ?c < 65536" using unsigned_less[of ?c, where 'a = nat] by simp
  then have u: "unat (ucast ?c :: u32) = unat ?c"
    by (simp add: unsigned_ucast_eq take_bit_nat_eq_self)
  then show "(ucast ?c :: u32) \<le> 0xffff" using \<open>unat ?c < 65536\<close> by (simp add: word_le_nat_alt)
  have "?c \<noteq> 0" by (simp add: permanent_product_code_def or_eq_0_iff)
  then show "ucast ?c \<noteq> (0 :: u32)" using u by (metis unat_0 unat_eq_zero)
qed

section \<open>Generated manifests validate\<close>

text \<open>What the settings must satisfy, once defaults are filled in.\<close>

definition settings_ok :: "u32 \<Rightarrow> permanent_display_count_request \<Rightarrow> bool" where
  "settings_ok m r \<longleftrightarrow>
     pdc_display_count r \<le> m \<and>
     mode_in_range (pdc_width r) (pdc_height r) (pdc_refresh_rate_millihz r) \<and>
     \<not> physical_size_out_of_range (pdc_physical_width_mm r) (pdc_physical_height_mm r) \<and>
     canonicalize_display_name (pdc_display_name r) \<noteq> None"

lemma validate_permanent_display_count_iff:
  "validate_permanent_display_count r m = VNone \<longleftrightarrow>
     pdc_api_namespace r = kApiNamespaceGuid \<and> pdc_flags r = 0 \<and> settings_ok m r"
  unfolding validate_permanent_display_count_def settings_ok_def is_valid_api_namespace_def Let_def
  by (simp only: check_simps validation_error.distinct not_False_eq_True simp_thms
        validate_display_mode_iff not_less) auto

lemma permanent_profile_ok:
  assumes ok: "settings_ok m n" and i: "i < unat (pdc_display_count n)" "i < 8"
  shows "profile_ok m (permanent_profile n i)"
proof -
  have le: "unat (pdc_display_count n) \<le> unat m"
    using ok by (simp add: settings_ok_def word_le_nat_alt)
  have "unat (of_nat i :: u32) = i" using i(2) by (simp add: unat_of_nat)
  then have "(of_nat i :: u32) < m" "(of_nat i :: u32) < 8"
    using le i by (simp_all add: word_less_nat_alt)
  moreover have four: "replicate 4 default_mode = [default_mode, default_mode, default_mode, default_mode]"
    by (simp add: numeral_eq_Suc)
  ultimately show ?thesis using ok permanent_id_nonzero permanent_product_code_range serial_number_nonzero
      container_guid_nonzero
    by (auto simp: profile_ok_def permanent_profile_def settings_ok_def valid_manufacturer_id_def
        kSunshineDriverManufacturerId_def default_profile_def is_upper_def char_code_def four)
qed

lemma generated_active_profiles:
  assumes "n = set_default_permanent_display_settings r" and "pdc_display_count n \<le> 8"
  shows "active_profiles (display_manifest_from_permanent_settings r m) =
    map (permanent_profile n) [0..<unat (pdc_display_count n)]"
proof -
  let ?k = "unat (pdc_display_count n)"
  have "?k \<le> 8" using assms(2) by (simp add: word_le_nat_alt)
  then have "take ?k (map (\<lambda>i. if i < ?k then permanent_profile n i else default_profile) [0..<8]) =
      map (permanent_profile n) [0..<?k]"
    by (intro nth_equalityI) simp_all
  then show ?thesis
    by (simp add: active_profiles_def display_manifest_from_permanent_settings_def assms(1)[symmetric]
        Let_def)
qed

lemma generated_manifest_ok:
  assumes n: "n = set_default_permanent_display_settings r"
    and ok: "settings_ok m n" and few: "pdc_display_count n \<le> 8"
  shows "manifest_ok m (display_manifest_from_permanent_settings r m)"
proof -
  let ?man = "display_manifest_from_permanent_settings r m"
  let ?k = "unat (pdc_display_count n)"
  have k: "?k \<le> 8" using few by (simp add: word_le_nat_alt)
  have act: "active_profiles ?man = map (permanent_profile n) [0..<?k]"
    by (rule generated_active_profiles[OF n few])
  have fields: "dmp_connector_index \<circ> permanent_profile n = of_nat"
    "dmp_display_id \<circ> permanent_profile n = (\<lambda>i. permanent_display_id (of_nat i))"
    "dmp_container_id \<circ> permanent_profile n =
       (\<lambda>i. container_guid_from_display_id (permanent_display_id (of_nat i)))"
    "dmp_product_code \<circ> permanent_profile n = (\<lambda>i. ucast (permanent_product_code (of_nat i)))"
    "dmp_serial_number \<circ> permanent_profile n =
       (\<lambda>i. serial_number_from_display_id (permanent_display_id (of_nat i)))"
    by (auto simp: permanent_profile_def)
  note d = permanent_ids_distinct[THEN distinct_map_prefix, OF k]
  have cont: "distinct (map (\<lambda>i. container_guid_from_display_id (permanent_display_id (of_nat i))) [0..<?k])"
    using d(2) container_guid_inj by (auto simp: distinct_map inj_on_def)
  have "\<forall>p \<in> set (active_profiles ?man). profile_ok m p"
    unfolding act using permanent_profile_ok[OF ok] k by auto
  moreover have "man_api_namespace ?man = kApiNamespaceGuid \<and> man_reserved ?man = 0 \<and>
      man_version ?man = kDisplayManifestVersion \<and> man_profile_count ?man = pdc_display_count n \<and>
      man_max_profile_count ?man = min m 8"
    by (simp add: display_manifest_from_permanent_settings_def n default_manifest_def Let_def)
  ultimately show ?thesis
    using d(1,2,3,4) cont ok few unfolding manifest_ok_def
    by (auto simp: act fields settings_ok_def min_def)
qed

section \<open>Defaults are idempotent\<close>

lemma set_default_cases:
  obtains w h pw ph r name where "set_default_permanent_display_settings s = s
      \<lparr>pdc_width := w, pdc_height := h, pdc_physical_width_mm := pw, pdc_physical_height_mm := ph,
       pdc_refresh_rate_millihz := r, pdc_display_name := name\<rparr>"
    and "w = or_default 1920 (pdc_width s)" and "h = or_default 1080 (pdc_height s)"
    and "pw = or_default 600 (pdc_physical_width_mm s)" and "ph = or_default 340 (pdc_physical_height_mm s)"
    and "r = or_default 60000 (pdc_refresh_rate_millihz s)"
    and "name = (if trim_display_name (pdc_display_name s) = []
      then pad_to kDisplayNameChars ''Sunshine Display''
      else case canonicalize_display_name (pdc_display_name s) of None \<Rightarrow> pdc_display_name s
        | Some c \<Rightarrow> c)"
proof (rule that)
  show "set_default_permanent_display_settings s = s
      \<lparr>pdc_width := or_default 1920 (pdc_width s), pdc_height := or_default 1080 (pdc_height s),
       pdc_physical_width_mm := or_default 600 (pdc_physical_width_mm s),
       pdc_physical_height_mm := or_default 340 (pdc_physical_height_mm s),
       pdc_refresh_rate_millihz := or_default 60000 (pdc_refresh_rate_millihz s),
       pdc_display_name := (if trim_display_name (pdc_display_name s) = []
         then pad_to kDisplayNameChars ''Sunshine Display''
         else case canonicalize_display_name (pdc_display_name s) of None \<Rightarrow> pdc_display_name s
           | Some c \<Rightarrow> c)\<rparr>"
    by (simp add: set_default_permanent_display_settings_def or_default_def Let_def split: option.split)
qed (rule refl)+

lemma set_default_fixed:
  assumes "pdc_width s \<noteq> 0" "pdc_height s \<noteq> 0" "pdc_physical_width_mm s \<noteq> 0"
    "pdc_physical_height_mm s \<noteq> 0" "pdc_refresh_rate_millihz s \<noteq> 0" "canonical_name (pdc_display_name s)"
  shows "set_default_permanent_display_settings s = s"
  using assms canonical_nameD[OF assms(6)] canonicalize_Some[of "pdc_display_name s" "pdc_display_name s"]
  by (simp add: set_default_permanent_display_settings_def Let_def split: option.split)

lemma settings_ok_fixed:
  assumes "settings_ok m (set_default_permanent_display_settings s)"
  shows "set_default_permanent_display_settings (set_default_permanent_display_settings s) =
    set_default_permanent_display_settings s"
    and "canonical_name (pdc_display_name (set_default_permanent_display_settings s))"
proof -
  let ?n = "set_default_permanent_display_settings s"
  obtain w h pw ph r name where eq: "?n = s
      \<lparr>pdc_width := w, pdc_height := h, pdc_physical_width_mm := pw, pdc_physical_height_mm := ph,
       pdc_refresh_rate_millihz := r, pdc_display_name := name\<rparr>"
    and name: "name = (if trim_display_name (pdc_display_name s) = []
      then pad_to kDisplayNameChars ''Sunshine Display''
      else case canonicalize_display_name (pdc_display_name s) of None \<Rightarrow> pdc_display_name s
        | Some c \<Rightarrow> c)"
    using set_default_cases by metis
  have "canonicalize_display_name name \<noteq> None" using assms eq by (simp add: settings_ok_def)
  then show c: "canonical_name (pdc_display_name ?n)"
    using canonicalize_canonical(1) default_name_canonical unfolding eq name
    by (auto split: if_splits option.splits)
  show "set_default_permanent_display_settings ?n = ?n"
    by (rule set_default_fixed)
       (use assms c in \<open>auto simp: settings_ok_def mode_in_range_def physical_size_out_of_range_def\<close>)
qed

section \<open>Setting the permanent display count\<close>

lemma canonical_profile_permanent:
  "canonical_name (pdc_display_name n) \<Longrightarrow> canonical_profile (permanent_profile n i) = permanent_profile n i"
  using canonical_nameD by (simp add: canonical_profile_def permanent_profile_def)

lemma generated_manifest_canonical:
  assumes n: "n = set_default_permanent_display_settings r"
    and few: "pdc_display_count n \<le> 8" and name: "canonical_name (pdc_display_name n)"
  shows "canonical_manifest (display_manifest_from_permanent_settings r m) =
    display_manifest_from_permanent_settings r m"
proof -
  let ?man = "display_manifest_from_permanent_settings r m"
  have "map canonical_profile (active_profiles ?man) = active_profiles ?man"
    unfolding generated_active_profiles[OF n few] by (simp add: canonical_profile_permanent[OF name])
  then show ?thesis by (simp add: canonical_manifest_def active_profiles_def)
qed

lemma settings_of_generated_manifest:
  assumes n: "n = set_default_permanent_display_settings r" and ok: "settings_ok m n"
    and few: "pdc_display_count n \<le> 8" and pos: "pdc_display_count n \<noteq> 0"
    and rest: "pdc_api_namespace n = kApiNamespaceGuid" "pdc_flags n = 0"
  shows "permanent_settings_from_display_manifest (display_manifest_from_permanent_settings r m) = n"
proof -
  let ?man = "display_manifest_from_permanent_settings r m"
  have "0 < unat (pdc_display_count n)" using pos by (simp add: unat_gt_0)
  then have "man_profiles ?man ! 0 = permanent_profile n 0"
    by (simp add: display_manifest_from_permanent_settings_def n Let_def)
  moreover have "man_profile_count ?man = pdc_display_count n"
    by (simp add: display_manifest_from_permanent_settings_def n Let_def)
  moreover have "default_permanent_request
      \<lparr>pdc_display_count := pdc_display_count n, pdc_width := pdc_width n, pdc_height := pdc_height n,
       pdc_physical_width_mm := pdc_physical_width_mm n,
       pdc_physical_height_mm := pdc_physical_height_mm n,
       pdc_refresh_rate_millihz := pdc_refresh_rate_millihz n,
       pdc_display_name := pdc_display_name n\<rparr> = n"
    using rest by (simp add: default_permanent_request_def)
  ultimately show ?thesis
    using pos settings_ok_fixed(1)[of m r] ok
    by (simp add: permanent_settings_from_display_manifest_def permanent_profile_def default_profile_def
        n[symmetric] Let_def)
qed

lemma set_permanent_display_count_outcome:
  defines "n r \<equiv> set_default_permanent_display_settings r"
  assumes "max_permanent_displays s \<le> 8"
  shows "set_permanent_display_count r s =
    (if validate_permanent_display_count (n r) (max_permanent_displays s) = VNone
     then (s\<lparr>permanent_display_count := pdc_display_count (n r),
             display_manifest_of :=
               display_manifest_from_permanent_settings (n r) (max_permanent_displays s),
             permanent_display_settings := permanent_settings_from_display_manifest
               (display_manifest_from_permanent_settings (n r) (max_permanent_displays s))\<rparr>, ok_result)
     else (s, validation_failure (validate_permanent_display_count (n r) (max_permanent_displays s))))"
proof (cases "validate_permanent_display_count (n r) (max_permanent_displays s) = VNone")
  case True
  let ?m = "max_permanent_displays s"
  have ok: "settings_ok ?m (n r)" using True by (simp add: validate_permanent_display_count_iff)
  then have few: "pdc_display_count (n r) \<le> 8"
    using assms(2) by (auto simp: settings_ok_def intro: order_trans)
  have fixed: "set_default_permanent_display_settings (n r) = n r"
    and name: "canonical_name (pdc_display_name (n r))"
    using settings_ok_fixed[of ?m r] ok unfolding n_def by auto
  note man = generated_manifest_ok[OF fixed[symmetric] ok few]
    generated_manifest_canonical[OF fixed[symmetric] few name, of ?m]
  have "man_profile_count (display_manifest_from_permanent_settings (n r) ?m) = pdc_display_count (n r)"
    by (simp add: display_manifest_from_permanent_settings_def fixed Let_def)
  then show ?thesis using True man
    by (simp add: set_permanent_display_count_def apply_display_manifest_eq n_def[symmetric] Let_def)
next
  case False
  then show ?thesis by (simp add: set_permanent_display_count_def n_def[symmetric] Let_def)
qed

end
