(* ===== verification/Lease_Store_Theorems.thy ===== *)
theory Lease_Store_Theorems
  imports Permanent_Displays
begin

text \<open>
  What the display store promises to its callers, stated for reachable stores, each with a
  concrete witness run.
\<close>

section \<open>Sample data for the witnesses\<close>

definition sample_capability :: owner_capability where
  "sample_capability = replicate 32 7"

definition sample_create :: "u64 \<Rightarrow> u64 \<Rightarrow> u32 \<Rightarrow> create_temporary_display_request" where
  "sample_create lease display flags =
     \<lparr>ctd_api_namespace = kApiNamespaceGuid, ctd_lease_id = lease, ctd_display_id = display,
      ctd_width = 1920, ctd_height = 1080, ctd_physical_width_mm = 0, ctd_physical_height_mm = 0,
      ctd_refresh_rate_millihz = 60000, ctd_requested_timeout_ms = 5000,
      ctd_display_name = ''A'' @ replicate 31 nul, ctd_flags = flags,
      ctd_hdr_max_luminance_nits = 0\<rparr>"

definition sample_owned :: "u64 \<Rightarrow> u64 \<Rightarrow> u32 \<Rightarrow> create_temporary_display_owned_request" where
  "sample_owned lease display flags =
     \<lparr>cto_display = sample_create lease display flags, cto_owner_capability = sample_capability\<rparr>"

definition sample_lease :: u64 where "sample_lease = 0x6000000000000010"

definition sample_ops :: "store_op list" where
  "sample_ops =
     [OpCreateOwned (sample_owned sample_lease 1 0) 0,
      OpCreateOwned (sample_owned sample_lease 2 1) 0]"

definition sample_store :: display_store where
  "sample_store = fold run_store_op sample_ops (initial_store 4 8 [] None)"

lemma sample_reachable: "store_reachable sample_store"
  unfolding sample_store_def by (rule run_reachable) (simp_all add: sample_ops_def)

section \<open>Exclusivity\<close>

text \<open>
  C1: After any sequence of store operations from any initial store, the store invariant holds:
  connectors, EDID identities and generations of live displays are pairwise distinct, leases
  exist exactly for the displays that name them, reservations and quarantine are consistent, and
  the permanent manifest validates. The bound on the number of creates is the 64-bit
  generation counter.
\<close>

theorem store_invariant_of_runs:
  assumes "omap_wf reservations" and "creates ops < 2 ^ 64 - 1"
  shows "store_inv (fold run_store_op ops (initial_store max_permanent max_temporary reservations manifest))"
  by (rule store_reachable_inv[OF run_reachable[OF assms]])

theorem store_invariant_of_runs_witness:
  "store_inv (fold run_store_op sample_ops (initial_store 4 8 [(9, 5)] None))"
  by (rule store_invariant_of_runs) (simp_all add: omap_wf_def sample_ops_def)

text \<open>
  C2: In every reachable store two different temporary displays use different connectors,
  different EDID identities (product code and serial number) and different generations, and
  every connector lies in the range reserved for temporary displays, above the permanent ones.
\<close>

theorem displays_never_collide:
  assumes "store_reachable s" and "find_temporary_display d s = Some r"
    and "find_temporary_display e s = Some q" and "d \<noteq> e"
  shows "tdr_connector_index r \<noteq> tdr_connector_index q \<and>
    (product_code_from_display_id (identity_display_id r),
     serial_number_from_display_id (identity_display_id r)) \<noteq>
    (product_code_from_display_id (identity_display_id q),
     serial_number_from_display_id (identity_display_id q)) \<and>
    tdr_generation r \<noteq> tdr_generation q \<and>
    max_permanent_displays s \<le> tdr_connector_index r \<and>
    tdr_connector_index r < temporary_connector_limit s"
proof -
  have ok: "table_ok s" using store_invD(2)[OF store_reachable_inv[OF assms(1)]] .
  have r: "display_at s d = Some r" and q: "display_at s e = Some q"
    using assms(2,3) by (simp_all add: find_temporary_display_def)
  have "max_permanent_displays s \<le> tdr_connector_index r \<and>
      tdr_connector_index r < temporary_connector_limit s"
    using table_okD(1)[OF ok r] unfolding record_ok_def is_temporary_connector_index_def by blast
  then show ?thesis
    using table_okD(2-4)[OF ok r q assms(4)] unfolding edid_identity_def by blast
qed

theorem displays_never_collide_witness:
  "\<exists>r q. find_temporary_display 1 sample_store = Some r \<and> find_temporary_display 2 sample_store = Some q \<and>
     tdr_connector_index r \<noteq> tdr_connector_index q"
proof -
  have "find_temporary_display 1 sample_store \<noteq> None" "find_temporary_display 2 sample_store \<noteq> None"
    by code_simp+
  then obtain r q where rq: "find_temporary_display 1 sample_store = Some r"
    "find_temporary_display 2 sample_store = Some q" by auto
  show ?thesis using rq displays_never_collide[OF sample_reachable rq] by auto
qed

text \<open>
  C3: A quarantined connector is never used again: once a reachable store has quarantined it, no
  later operation sequence places a display on it or reserves it.
\<close>

theorem quarantine_is_final:
  assumes "omap_wf reservations" and "creates ops + creates later < 2 ^ 64 - 1"
    and "s = fold run_store_op ops (initial_store max_permanent max_temporary reservations manifest)"
    and "c \<in> quarantined_connectors s" and "t = fold run_store_op later s"
  shows "c \<in> quarantined_connectors t \<and> \<not> connector_index_is_active t c \<and>
    \<not> connector_index_is_reserved t c"
proof -
  have t: "t = fold run_store_op (ops @ later)
      (initial_store max_permanent max_temporary reservations manifest)"
    using assms(3,5) by simp
  have inv: "store_inv t" unfolding t
    by (rule store_reachable_inv[OF run_reachable[OF assms(1)]]) (use assms(2) in simp)
  have "store_inv s" unfolding assms(3)
    by (rule store_reachable_inv[OF run_reachable[OF assms(1)]]) (use assms(2) in simp)
  moreover have "store.guarded later s"
    using guarded_of_creates[OF initial_store_inv[OF assms(1)], of max_permanent max_temporary manifest
        "ops @ later"] assms(2,3) by (simp add: initial_generation store_guarded_append)
  ultimately have "store_extends s t" unfolding assms(5) by (rule store_run_extends)
  then have "c \<in> quarantined_connectors t" using assms(4) by (auto simp: store_extends_def)
  then show ?thesis
    using store_invD(2)[OF inv] scan_simps(1,2)[OF store_invD(1)[OF inv], of c]
    unfolding table_ok_def by blast
qed

definition sample_remove :: "u64 \<Rightarrow> lease_display_request" where
  "sample_remove d = \<lparr>ldr_api_namespace = kApiNamespaceGuid, ldr_lease_id = sample_lease, ldr_display_id = d\<rparr>"

definition sample_quarantine_ops :: "store_op list" where
  "sample_quarantine_ops = sample_ops @
     [OpMarkPending (sample_remove 1), OpAbandon (sample_remove 1) 1 sample_capability]"

definition sample_later_ops :: "store_op list" where
  "sample_later_ops = [OpCreateOwned (sample_owned sample_lease 1 0) 0]"

theorem quarantine_is_final_witness:
  "let s = fold run_store_op sample_quarantine_ops (initial_store 4 8 [] None);
       t = fold run_store_op sample_later_ops s in
   4 \<in> quarantined_connectors s \<and> \<not> connector_index_is_active t 4"
proof -
  let ?s = "fold run_store_op sample_quarantine_ops (initial_store 4 8 [] None)"
  have len: "creates sample_quarantine_ops + creates sample_later_ops < 2 ^ 64 - 1"
    by (simp add: sample_quarantine_ops_def sample_ops_def sample_later_ops_def)
  have q: "4 \<in> quarantined_connectors ?s" by code_simp
  show ?thesis unfolding Let_def
    using quarantine_is_final[OF omap_wf_Nil len refl q refl] q by blast
qed

section \<open>Creating\<close>

text \<open>A successful create, on the store it produces.\<close>

definition created_display ::
  "create_temporary_display_request \<Rightarrow> owner_capability option \<Rightarrow> time_point \<Rightarrow> display_store \<Rightarrow>
   display_store \<Rightarrow> temporary_display_record \<Rightarrow> lease_record \<Rightarrow> bool" where
  "created_display request cap now s t r L \<longleftrightarrow>
     displays_by_id t = omap_insert (ctd_display_id request) r (displays_by_id s) \<and>
     leases_by_id t = omap_insert (ctd_lease_id request) L (leases_by_id s) \<and>
     tdr_lease_id r = ctd_lease_id request \<and> tdr_display_id r = ctd_display_id request \<and>
     tdr_width r = ctd_width request \<and> tdr_height r = ctd_height request \<and>
     tdr_refresh_rate_millihz r = ctd_refresh_rate_millihz request \<and>
     tdr_display_name r = trim_display_name (ctd_display_name request) \<and>
     tdr_retain_identity r = retains_identity request \<and>
     (retains_identity request \<longrightarrow> tdr_identity_display_id r = ctd_display_id request) \<and>
     tdr_generation r = next_temporary_display_generation s \<and> \<not> tdr_pending_departure r \<and>
     tdr_timeout_ms r = lease_timeout_ms L \<and> tdr_expires_at r = lease_expires_at L \<and>
     (case lease_at s (ctd_lease_id request) of
        None \<Rightarrow> lease_timeout_ms L = normalize_timeout_ms (ctd_requested_timeout_ms request) \<and>
                lease_expires_at L = now + milliseconds (lease_timeout_ms L) \<and>
                lease_owner_capability L = cap
      | Some L0 \<Rightarrow> L = (if lease_owner_capability L0 = None
                        then L0\<lparr>lease_owner_capability := cap\<rparr> else L0))"

lemma create_impl_success:
  assumes inv: "store_inv s"
    and run: "create_temporary_display_impl request cap now s = (t, status, result)"
    and ok: "sr_error status = StoreNone"
  obtains r L where "display_at s (ctd_display_id request) = None"
    and "create_precheck request cap now s = StoreNone"
    and "created_display request cap now s t r L"
    and "quarantined_connectors t = quarantined_connectors s"
    and "result = empty_create_result
      \<lparr>ctr_lease_id := ctd_lease_id request, ctr_display_id := ctd_display_id request,
       ctr_connector_index := tdr_connector_index r, ctr_effective_timeout_ms := tdr_timeout_ms r\<rparr>"
    and "\<not> connector_index_is_active s (tdr_connector_index r)"
    and "tdr_connector_index r \<notin> quarantined_connectors s"
  using inv
proof (cases rule: create_impl_cases[of s request cap now])
  case failed
  then show thesis using run ok by (simp add: create_failed_def)
next
  case (created v c i u)
  then obtain w n where val: "validate_create_temporary_display request = (VNone, Some v)"
    and pre: "create_precheck request cap now s = StoreNone"
    and choice: "connector_choice s (ctd_display_id request) (retains_identity request) c w"
    and u: "u = w\<lparr>next_ephemeral_identity := n\<rparr>"
    and ident: "retains_identity request \<longrightarrow> i = ctd_display_id request"
    unfolding create_installs_def by blast
  note same = connector_choice_displays[OF choice] and vd = validated_installable[OF val]
  obtain vr where "vr = v" and vreq: "vct_request vr = request
      \<lparr>ctd_physical_width_mm := or_default kDefaultPhysicalWidthMillimeters (ctd_physical_width_mm request),
       ctd_physical_height_mm := or_default kDefaultPhysicalHeightMillimeters (ctd_physical_height_mm request),
       ctd_hdr_max_luminance_nits := or_default kDefaultHdrMaxLuminanceNits (ctd_hdr_max_luminance_nits request),
       ctd_display_name := ctd_display_name (vct_request vr)\<rparr>"
    and name: "vct_display_name vr = trim_display_name (ctd_display_name request)"
    and timeout: "vct_effective_timeout_ms vr = normalize_timeout_ms (ctd_requested_timeout_ms request)"
    using validate_create_result[OF val] by (metis option.inject)
  have fields: "ctd_width (vct_request v) = ctd_width request" "ctd_height (vct_request v) = ctd_height request"
    "ctd_refresh_rate_millihz (vct_request v) = ctd_refresh_rate_millihz request"
    using arg_cong[OF vreq, of ctd_width] arg_cong[OF vreq, of ctd_height]
      arg_cong[OF vreq, of ctd_refresh_rate_millihz] \<open>vr = v\<close> by simp_all
  have fresh: "display_at s (ctd_display_id request) = None" using create_precheck_StoreNone(1)[OF pre] .
  have maps: "maps_ok u" using store_invD(1)[OF connector_choice_inv[OF inv choice]]
    by (simp add: u maps_ok_def)
  have eq: "(t, status, result) =
      install_temporary_display v cap now c (retains_identity request) i u"
    using run created(2) by simp
  note inst = eq[unfolded install_eq[OF maps, of v cap now c "retains_identity request" i] Let_def]
  let ?r = "created_record v now c (retains_identity request) i u"
  let ?L = "created_lease v cap now (lease_at s (ctd_lease_id request))"
  show thesis
  proof (rule that[OF fresh pre, of ?r ?L])
    show "created_display request cap now s t ?r ?L"
      using eq install_eq[OF maps, of v cap now c "retains_identity request" i] fresh same vd
      by (auto simp: created_display_def created_record_def created_lease_def effective_lease_def
          new_temporary_display_record_def Let_def u fields name[unfolded \<open>vr = v\<close>]
          timeout[unfolded \<open>vr = v\<close>] ident split: option.split)
  qed (use eq install_eq[OF maps, of v cap now c "retains_identity request" i] fresh same vd choice
      scan_simps(1)[OF store_invD(1)[OF inv]]
      in \<open>auto simp: u created_record_def Let_def connector_choice_def\<close>)
qed

text \<open>
  A create with an owner capability that reports success added exactly one display: it was
  not there before, it carries the requested mode and name, its connector was free and not
  quarantined, all other displays, leases and the quarantine are unchanged, and its lease is
  either new, with the normalised timeout and the caller's capability, or the existing one.
\<close>

theorem create_owned_adds_one_display:
  assumes "store_reachable s"
    and "create_temporary_display_owned request now s = (t, status, result)"
    and "sr_error status = StoreNone"
  shows "\<exists>r L. created_display (cto_display request) (Some (cto_owner_capability request)) now s t r L \<and>
    find_temporary_display (ctd_display_id (cto_display request)) s = None \<and>
    \<not> connector_index_is_active s (tdr_connector_index r) \<and>
    tdr_connector_index r \<notin> quarantined_connectors s \<and>
    quarantined_connectors t = quarantined_connectors s \<and>
    ctr_connector_index result = tdr_connector_index r \<and>
    ctr_effective_timeout_ms result = tdr_timeout_ms r"
proof -
  have "validate_create_temporary_display_owned request = VNone"
    using assms(2,3) by (auto simp: create_temporary_display_owned_def validation_failure_def Let_def
        split: if_splits)
  then have run: "create_temporary_display_impl (cto_display request)
      (Some (cto_owner_capability request)) now s = (t, status, result)"
    using assms(2) by (simp add: create_temporary_display_owned_def)
  show ?thesis
    by (rule create_impl_success[OF store_reachable_inv[OF assms(1)] run assms(3)])
       (auto simp: find_temporary_display_def)
qed

theorem create_owned_adds_one_display_witness:
  "\<exists>t r L. created_display (sample_create sample_lease 3 0) (Some sample_capability) 5 sample_store t r L"
proof -
  let ?res = "create_temporary_display_owned (sample_owned sample_lease 3 0) 5 sample_store"
  obtain t status result where res: "?res = (t, status, result)" by (metis prod_cases3)
  have "sr_error (fst (snd ?res)) = StoreNone" by code_simp
  then have "sr_error status = StoreNone" by (simp add: res)
  then show ?thesis
    using create_owned_adds_one_display[OF sample_reachable res] by (auto simp: sample_owned_def)
qed

text \<open>There are more connector numbers than displays, so some connector is idle.\<close>

lemma idle_connector:
  assumes "store_inv s"
  shows "\<exists>c. \<not> connector_index_is_active s c"
proof (rule exI[of _ "- 1"], rule notI)
  assume "connector_index_is_active s (- 1)"
  then obtain e r where r: "display_at s e = Some r" "tdr_connector_index r = - 1"
    using scan_simps(1)[OF store_invD(1)[OF assms]] by blast
  then have "- 1 < temporary_connector_limit s"
    using table_okD(1)[OF store_invD(2)[OF assms] r(1)] by (simp add: record_ok_def is_temporary_connector_index_def)
  then show False using word_order.extremum[of "temporary_connector_limit s"] by (simp add: not_less[symmetric])
qed

text \<open>
  C6: A create that fails, with or without an owner capability, changes nothing but connector
  reservations: every other part of the store (displays, leases, quarantine, permanent displays,
  limits, and the counters of generations and of ephemeral identities) stays exactly as it was, and
  the caller gets the empty result. No reservation is added or moved; the ones that are lost were
  all for one connector that no display is using.
\<close>

theorem failed_create_changes_only_reservations:
  assumes "store_reachable s"
    and "(t, status, result) \<in> {create_temporary_display plain now s,
      create_temporary_display_owned owned now s}"
    and "sr_error status \<noteq> StoreNone"
  shows "t = s\<lparr>connector_reservations_by_display_id := connector_reservations_by_display_id t\<rparr> \<and>
    result = empty_create_result \<and>
    (\<exists>c. \<not> connector_index_is_active s c \<and>
       (\<forall>d. omap_find (connector_reservations_by_display_id t) d =
              omap_find (connector_reservations_by_display_id s) d \<or>
            omap_find (connector_reservations_by_display_id t) d = None \<and>
              omap_find (connector_reservations_by_display_id s) d = Some c))"
proof -
  note inv = store_reachable_inv[OF assms(1)]
  obtain free where free: "\<not> connector_index_is_active s free" using idle_connector[OF inv] by blast
  have impl: "?thesis" if run: "create_temporary_display_impl request cap now s = (t, status, result)" for request cap
  proof -
    have "create_failed s (t, status, result)"
      using inv
    proof (cases rule: create_impl_cases[of s request cap now])
      case created
      then have "status = ok_result" using run install_result_ok by (metis fst_conv snd_conv)
      then show ?thesis using assms(3) by (simp add: ok_result_def)
    qed (simp add: run)
    then obtain c d where result: "result = empty_create_result"
      and t: "t = s \<or> t = remove_connector_reservation c d s \<and>
        (\<forall>e r. display_at s e = Some r \<longrightarrow> tdr_connector_index r \<noteq> c)"
      unfolding create_failed_def by auto
    show ?thesis using t
    proof
      assume "t = s"
      then show ?thesis using result free by auto
    next
      assume r: "t = remove_connector_reservation c d s \<and>
        (\<forall>e r. display_at s e = Some r \<longrightarrow> tdr_connector_index r \<noteq> c)"
      then have "\<not> connector_index_is_active s c"
        using scan_simps(1)[OF store_invD(1)[OF inv]] by auto
      moreover have "t = s\<lparr>connector_reservations_by_display_id := connector_reservations_by_display_id t\<rparr>"
        using r by (simp add: remove_connector_reservation_def)
      ultimately show ?thesis
        using r result reservation_at_remove[OF store_invD(1)[OF inv]] by auto
    qed
  qed
  show ?thesis
  proof (cases "create_temporary_display plain now s = (t, status, result)")
    case True
    then show ?thesis using impl by (simp add: create_temporary_display_def)
  next
    case False
    then have owned: "create_temporary_display_owned owned now s = (t, status, result)" using assms(2) by auto
    show ?thesis
    proof (cases "validate_create_temporary_display_owned owned = VNone")
      case True
      then show ?thesis using impl owned by (simp add: create_temporary_display_owned_def)
    next
      case False
      then show ?thesis using owned free by (auto simp: create_temporary_display_owned_def Let_def)
    qed
  qed
qed

theorem failed_create_changes_only_reservations_witness:
  "next_temporary_display_generation (fst (create_temporary_display_owned (sample_owned sample_lease 1 0) 5 sample_store)) =
     next_temporary_display_generation sample_store"
proof -
  let ?res = "create_temporary_display_owned (sample_owned sample_lease 1 0) 5 sample_store"
  obtain t status result where res: "?res = (t, status, result)" by (metis prod_cases3)
  have "sr_error (fst (snd ?res)) \<noteq> StoreNone" by code_simp
  then have failed: "sr_error status \<noteq> StoreNone" by (simp add: res)
  have "(t, status, result) \<in> {create_temporary_display (sample_create sample_lease 1 0) 5 sample_store, ?res}"
    by (simp add: res)
  from failed_create_changes_only_reservations[OF sample_reachable this failed]
  have "t = sample_store\<lparr>connector_reservations_by_display_id := connector_reservations_by_display_id t\<rparr>" by blast
  then have "next_temporary_display_generation t = next_temporary_display_generation
      (sample_store\<lparr>connector_reservations_by_display_id := connector_reservations_by_display_id t\<rparr>)"
    by (rule arg_cong)
  then show ?thesis by (simp add: res)
qed

text \<open>
  C8: The loop that picks an ephemeral identity always ends when fewer than 4096 temporary
  displays are allowed, so a create never hangs.
\<close>

theorem create_never_diverges:
  assumes "store_reachable s" and "max_temporary_displays s < 4096"
  shows "sr_error (fst (snd (create_temporary_display request now s))) \<noteq> StoreDiverged \<and>
    (\<exists>i n. pick_ephemeral_identity (displays_by_id s) (next_ephemeral_identity s) = Some (i, n))"
proof -
  have "length (displays_by_id s) \<le> unat (max_temporary_displays s)"
    using store_invD(2)[OF store_reachable_inv[OF assms(1)]] by (simp add: table_ok_def)
  then have len: "length (displays_by_id s) < 4096"
    using assms(2) by (simp add: word_less_nat_alt)
  show ?thesis
    using create_impl_not_diverged[OF len] pick_ephemeral_identity_total[OF len, of "next_ephemeral_identity s"]
    by (auto simp: create_temporary_display_def)
qed

theorem create_never_diverges_witness:
  "sr_error (fst (snd (create_temporary_display (sample_create sample_lease 3 1) 0 sample_store))) \<noteq> StoreDiverged"
proof -
  have "max_temporary_displays sample_store < 4096" by code_simp
  then show ?thesis using create_never_diverges[OF sample_reachable] by blast
qed

section \<open>Reclaiming\<close>

text \<open>
  C4: Reclaim is a fence: when it succeeds, the old lease is gone, so feeding it, releasing it,
  removing the display through it and authorising a capture with it all fail from then on, while
  every display keeps its monitor and the reclaimed one now belongs to the new lease.
\<close>

theorem reclaim_fences_old_lease:
  assumes "store_reachable s"
    and "reclaim_temporary_display request now s = (t, status, result)"
    and "sr_error status = StoreNone"
    and "find_temporary_display (rtd_display_id request) s = Some r"
  shows "omap_find (leases_by_id t) (tdr_lease_id r) = None \<and>
    (\<forall>feed later. lr_lease_id feed = tdr_lease_id r \<longrightarrow>
       sr_error (snd (feed_lease feed later t)) \<noteq> StoreNone \<and> fst (feed_lease feed later t) = t \<and>
       sr_error (snd (release_lease feed t)) \<noteq> StoreNone) \<and>
    (\<forall>req mode. ldr_lease_id req = tdr_lease_id r \<longrightarrow>
       sr_error (snd (remove_temporary_display req mode t)) \<noteq> StoreNone) \<and>
    (\<forall>req cap later. ldr_lease_id req = tdr_lease_id r \<longrightarrow>
       authorize_temporary_display_owner req cap later t = None) \<and>
    map fst (displays_by_id t) = map fst (displays_by_id s) \<and>
    (\<forall>d q q'. find_temporary_display d s = Some q \<longrightarrow> find_temporary_display d t = Some q' \<longrightarrow>
       monitor_of q' = monitor_of q) \<and>
    (\<exists>r'. find_temporary_display (rtd_display_id request) t = Some r' \<and>
       tdr_lease_id r' = rtd_new_lease_id request \<and>
       tdr_expires_at r' = now + milliseconds (rtr_effective_timeout_ms result))"
proof (cases rule: reclaim_outcome[of request now s])
  case rejected
  then show ?thesis using assms(2,3) by simp
next
  case (accepted q lease)
  have q: "q = r" using accepted(2) assms(4) by (simp add: find_temporary_display_def)
  let ?old = "tdr_lease_id r"
  have t: "t = reclaimed request now ?old (lease_owner_capability lease) s"
    and res: "result = snd (snd (reclaim_temporary_display request now s))"
    using accepted(10) assms(2) q by simp_all
  have none: "lease_at t ?old = None"
    using accepted(8) by (simp add: t q reclaimed_def Let_def omap_simps)
  have disp: "display_at t d = map_option (\<lambda>x. if tdr_lease_id x \<noteq> ?old then x
      else x\<lparr>tdr_lease_id := rtd_new_lease_id request,
             tdr_timeout_ms := normalize_timeout_ms (rtd_requested_timeout_ms request),
             tdr_expires_at := now + milliseconds (normalize_timeout_ms (rtd_requested_timeout_ms request))\<rparr>)
      (display_at s d)" for d
    by (simp add: t reclaimed_def Let_def)
  have moved: "tdr_lease_id x \<noteq> ?old" if x: "display_at t d = Some x" for d x
  proof -
    obtain y where "x = (if tdr_lease_id y \<noteq> ?old then y
      else y\<lparr>tdr_lease_id := rtd_new_lease_id request,
             tdr_timeout_ms := normalize_timeout_ms (rtd_requested_timeout_ms request),
             tdr_expires_at := now + milliseconds (normalize_timeout_ms (rtd_requested_timeout_ms request))\<rparr>)"
      using x unfolding disp by auto
    then show ?thesis using accepted(8) q by simp
  qed
  have feed: "sr_error (snd (feed_lease f later t)) \<noteq> StoreNone \<and> fst (feed_lease f later t) = t \<and>
      sr_error (snd (release_lease f t)) \<noteq> StoreNone" if "lr_lease_id f = ?old" for f later
    using that none by (simp add: feed_lease_def release_lease_def Let_def store_failure_def
        validation_failure_def)
  have remove: "sr_error (snd (remove_temporary_display req mode t)) \<noteq> StoreNone"
    if "ldr_lease_id req = ?old" for req mode
    using that moved by (auto simp: remove_temporary_display_def Let_def store_failure_def
        validation_failure_def split: option.split)
  have authorize: "authorize_temporary_display_owner req cap later t = None"
    if "ldr_lease_id req = ?old" for req cap later
    using that none by (simp add: authorize_temporary_display_owner_def split: option.split)
  have keys: "map fst (displays_by_id t) = map fst (displays_by_id s)"
    by (simp add: t reclaimed_def Let_def)
  have monitors: "monitor_of q' = monitor_of x"
    if "display_at s d = Some x" "display_at t d = Some q'" for d x q'
    using that unfolding disp by (auto simp: monitor_of_def)
  have new: "\<exists>r'. display_at t (rtd_display_id request) = Some r' \<and>
      tdr_lease_id r' = rtd_new_lease_id request \<and>
      tdr_expires_at r' = now + milliseconds (rtr_effective_timeout_ms result)"
    using accepted(2,11) unfolding disp by (simp add: q res)
  show ?thesis
    unfolding find_temporary_display_def
    using none feed remove authorize keys monitors new by blast
qed

definition sample_reclaim :: reclaim_temporary_display_request where
  "sample_reclaim =
     \<lparr>rtd_api_namespace = kApiNamespaceGuid, rtd_display_id = 1, rtd_new_lease_id = sample_lease + 1,
      rtd_requested_timeout_ms = 0, rtd_reserved = 0, rtd_owner_capability = sample_capability\<rparr>"

theorem reclaim_fences_old_lease_witness:
  "omap_find (leases_by_id (fst (reclaim_temporary_display sample_reclaim 7 sample_store))) sample_lease = None"
proof -
  let ?res = "reclaim_temporary_display sample_reclaim 7 sample_store"
  obtain t status result where res: "?res = (t, status, result)" by (metis prod_cases3)
  have "sr_error (fst (snd ?res)) = StoreNone" by code_simp
  then have ok: "sr_error status = StoreNone" by (simp add: res)
  have "map_option tdr_lease_id (find_temporary_display (rtd_display_id sample_reclaim) sample_store) =
    Some sample_lease" by code_simp
  then obtain r where r: "find_temporary_display (rtd_display_id sample_reclaim) sample_store = Some r"
    "tdr_lease_id r = sample_lease" by auto
  show ?thesis using reclaim_fences_old_lease[OF sample_reachable res ok r(1)] r(2) by (simp add: res)
qed

section \<open>Authorisation\<close>

text \<open>
  C5: Capturing a display is authorised exactly for a well-formed request naming the display and
  its current lease, before the lease expires, with no departure pending, presenting byte for
  byte the capability stored in the lease (capabilities have 32 bytes).
\<close>

theorem authorize_exactly_the_owner:
  assumes "store_reachable s"
    and "\<forall>l L c. omap_find (leases_by_id s) l = Some L \<longrightarrow> lease_owner_capability L = Some c \<longrightarrow>
      length c = kOwnerCapabilityBytes"
    and "length cap = kOwnerCapabilityBytes"
  shows "authorize_temporary_display_owner request cap now s = Some r \<longleftrightarrow>
    ldr_api_namespace request = kApiNamespaceGuid \<and>
    find_temporary_display (ldr_display_id request) s = Some r \<and>
    tdr_lease_id r = ldr_lease_id request \<and> \<not> tdr_pending_departure r \<and> now < tdr_expires_at r \<and>
    (\<exists>L. omap_find (leases_by_id s) (ldr_lease_id request) = Some L \<and>
       lease_owner_capability L = Some cap)"
proof -
  note inv = store_reachable_inv[OF assms(1)]
  note leases = store_invD(3)[OF inv] and table = store_invD(2)[OF inv]
  have valid: "validate_lease_display_request request = VNone \<longleftrightarrow>
      ldr_api_namespace request = kApiNamespaceGuid \<and> kMinOpaqueLeaseId \<le> ldr_lease_id request \<and>
      ldr_display_id request \<noteq> 0"
    by (auto simp: validate_lease_display_request_def is_valid_api_namespace_def not_less)
  have cap: "capability_matches (lease_owner_capability L) cap \<longleftrightarrow> lease_owner_capability L = Some cap"
    if "lease_at s l = Some L" for l L
    using assms(2,3) that by (auto simp: capability_matches_def owner_capabilities_equal_iff
        split: option.split)
  have ids: "kMinOpaqueLeaseId \<le> tdr_lease_id q \<and> d \<noteq> 0" if d: "display_at s d = Some q" for d q
    using table_okD(1)[OF table d] leases_okD(2)[OF leases d] leases_okD(4)[OF leases]
    by (auto simp: record_ok_def)
  have same: "tdr_expires_at q = lease_expires_at L"
    if "display_at s d = Some q" "lease_at s (tdr_lease_id q) = Some L" "\<not> tdr_pending_departure q"
    for d q L
    using leases_okD(3)[OF leases that] by blast
  show ?thesis (is "?lhs \<longleftrightarrow> ?rhs")
  proof
    assume ?lhs
    then obtain L where req: "validate_lease_display_request request = VNone"
      and d: "display_at s (ldr_display_id request) = Some r"
      and L: "lease_at s (ldr_lease_id request) = Some L"
      and rest: "tdr_lease_id r = ldr_lease_id request" "\<not> tdr_pending_departure r" "now < tdr_expires_at r"
        "capability_matches (lease_owner_capability L) cap"
      unfolding authorize_temporary_display_owner_def
      by (simp add: not_le split: option.split_asm if_split_asm)
    then show ?rhs using cap[OF L] by (simp add: valid find_temporary_display_def)
  next
    assume rhs: ?rhs
    then have d: "display_at s (ldr_display_id request) = Some r"
      and l: "tdr_lease_id r = ldr_lease_id request" "\<not> tdr_pending_departure r"
      by (simp_all add: find_temporary_display_def)
    obtain L where L: "lease_at s (ldr_lease_id request) = Some L" "lease_owner_capability L = Some cap"
      using rhs by blast
    have "validate_lease_display_request request = VNone" using rhs ids[OF d] l by (simp add: valid)
    then show ?lhs
      using d L l rhs cap[OF L(1)] same[OF d] unfolding authorize_temporary_display_owner_def
      by (simp add: not_le)
  qed
qed

theorem authorize_exactly_the_owner_witness:
  "\<exists>r. authorize_temporary_display_owner (sample_remove 1) sample_capability 10 sample_store = Some r"
proof -
  have caps: "\<forall>l L c. omap_find (leases_by_id sample_store) l = Some L \<longrightarrow>
      lease_owner_capability L = Some c \<longrightarrow> length c = kOwnerCapabilityBytes"
  proof -
    have "list_all (\<lambda>e. case lease_owner_capability (snd e) of None \<Rightarrow> True | Some c \<Rightarrow> length c = 32)
      (leases_by_id sample_store)" by code_simp
    then show ?thesis by (auto simp: list_all_iff dest!: map_of_SomeD)
  qed
  have len: "length sample_capability = kOwnerCapabilityBytes" by (simp add: sample_capability_def)
  have "ldr_api_namespace (sample_remove 1) = kApiNamespaceGuid" by (simp add: sample_remove_def)
  moreover have "(case find_temporary_display (ldr_display_id (sample_remove 1)) sample_store of
      None \<Rightarrow> False | Some r \<Rightarrow> tdr_lease_id r = ldr_lease_id (sample_remove 1) \<and>
        \<not> tdr_pending_departure r \<and> 10 < tdr_expires_at r)" by code_simp
  moreover have "map_option lease_owner_capability
      (omap_find (leases_by_id sample_store) (ldr_lease_id (sample_remove 1))) = Some (Some sample_capability)"
    by code_simp
  ultimately show ?thesis
    using authorize_exactly_the_owner[OF sample_reachable caps len, of "sample_remove 1" 10]
    by (auto split: option.splits)
qed

end
