(* ===== verification/Lease_Lifecycle_Theorems.thy ===== *)
theory Lease_Lifecycle_Theorems
  imports Lease_Store_Theorems
begin

text \<open>
  The life of a lease: feeding, expiry and reaping, release, condemned displays, and the
  permanent display manifest, stated for reachable stores.
\<close>

section \<open>Feeding\<close>

definition feed_allowed :: "lease_request \<Rightarrow> time_point \<Rightarrow> display_store \<Rightarrow> bool" where
  "feed_allowed request now s \<longleftrightarrow>
     lr_api_namespace request = kApiNamespaceGuid \<and> lr_reserved request = 0 \<and>
     (\<exists>L. omap_find (leases_by_id s) (lr_lease_id request) = Some L \<and> now < lease_expires_at L) \<and>
     (\<forall>d r. find_temporary_display d s = Some r \<longrightarrow> tdr_lease_id r = lr_lease_id request \<longrightarrow>
        tdr_pending_departure r \<longrightarrow> now < tdr_expires_at r)"

lemma feed_lease_outcome:
  assumes inv: "store_inv s"
  shows "feed_lease request now s =
    (if feed_allowed request now s
     then (s\<lparr>leases_by_id := omap_insert (lr_lease_id request)
              ((the (lease_at s (lr_lease_id request)))
                 \<lparr>lease_timeout_ms := normalize_timeout_ms (lr_requested_timeout_ms request),
                  lease_expires_at := now + milliseconds
                    (normalize_timeout_ms (lr_requested_timeout_ms request))\<rparr>) (leases_by_id s),
            displays_by_id := omap_map (\<lambda>r.
              if tdr_lease_id r = lr_lease_id request \<and> \<not> tdr_pending_departure r
              then r\<lparr>tdr_timeout_ms := normalize_timeout_ms (lr_requested_timeout_ms request),
                     tdr_expires_at := now + milliseconds
                       (normalize_timeout_ms (lr_requested_timeout_ms request))\<rparr>
              else r) (displays_by_id s)\<rparr>, ok_result)
     else (s, if validate_lease_request request \<noteq> VNone
              then validation_failure (validate_lease_request request) else store_failure LeaseNotFound))"
proof -
  note leases = store_invD(3)[OF inv]
  have valid: "validate_lease_request request = VNone \<longleftrightarrow> lr_api_namespace request = kApiNamespaceGuid \<and>
      lr_reserved request = 0 \<and> kMinOpaqueLeaseId \<le> lr_lease_id request"
    by (auto simp: validate_lease_request_def is_valid_api_namespace_def not_less)
  have expired: "lease_has_expired_pending_departure s (lr_lease_id request) now \<longleftrightarrow>
      \<not> (\<forall>d r. find_temporary_display d s = Some r \<longrightarrow> tdr_lease_id r = lr_lease_id request \<longrightarrow>
        tdr_pending_departure r \<longrightarrow> now < tdr_expires_at r)"
    using scan_simps(6)[OF store_invD(1)[OF inv], of "lr_lease_id request" now]
    unfolding find_temporary_display_def by (meson not_le)
  show ?thesis
  proof (cases "lease_at s (lr_lease_id request)")
    case None
    then show ?thesis by (simp add: feed_lease_def feed_allowed_def Let_def)
  next
    case (Some L)
    then have min: "kMinOpaqueLeaseId \<le> lr_lease_id request" using leases_okD(4)[OF leases] by blast
    have allowed: "feed_allowed request now s \<longleftrightarrow> validate_lease_request request = VNone \<and>
        now < lease_expires_at L \<and>
        \<not> lease_has_expired_pending_departure s (lr_lease_id request) now"
      unfolding feed_allowed_def expired valid using Some min by auto
    show ?thesis unfolding allowed
      by (simp add: feed_lease_def Some Let_def not_le)
  qed
qed

text \<open>
  Feeding a lease succeeds exactly while the lease exists and has not expired and no
  condemned display of it has expired; then the lease and its live displays expire one
  normalised timeout from now, condemned displays and other leases keep their deadlines, and a
  query at the same instant reports the full timeout. Otherwise nothing changes, so an expired
  lease is never revived.
\<close>

theorem feed_lease_exact:
  assumes "store_reachable s" and "feed_lease request now s = (t, status)"
  shows "(sr_error status = StoreNone \<longleftrightarrow> feed_allowed request now s) \<and>
    (\<not> feed_allowed request now s \<longrightarrow> t = s) \<and>
    (feed_allowed request now s \<longrightarrow>
       (\<forall>d r. find_temporary_display d s = Some r \<longrightarrow> tdr_lease_id r = lr_lease_id request \<longrightarrow>
          map_option tdr_expires_at (find_temporary_display d t) =
            Some (if tdr_pending_departure r then tdr_expires_at r
                  else now + milliseconds (normalize_timeout_ms (lr_requested_timeout_ms request)))) \<and>
       (\<forall>d r. find_temporary_display d s = Some r \<longrightarrow> tdr_lease_id r \<noteq> lr_lease_id request \<longrightarrow>
          find_temporary_display d t = Some r) \<and>
       qlr_lease_exists (query_lease (lr_lease_id request) now t) = 1 \<and>
       qlr_remaining_ms (query_lease (lr_lease_id request) now t) =
         normalize_timeout_ms (lr_requested_timeout_ms request))"
proof (cases "feed_allowed request now s")
  case False
  then show ?thesis
    using assms(2) unfolding feed_lease_outcome[OF store_reachable_inv[OF assms(1)]]
    by (auto simp: store_failure_def validation_failure_def split: if_splits)
next
  case True
  let ?ms = "normalize_timeout_ms (lr_requested_timeout_ms request)"
  have "duration_cast_milliseconds (milliseconds ?ms) = uint ?ms"
    by (simp add: duration_cast_milliseconds_def milliseconds_def)
  then have "of_int (max 0 (duration_cast_milliseconds (now + milliseconds ?ms - now))) = ?ms" by simp
  then show ?thesis
    using assms(2) True unfolding feed_lease_outcome[OF store_reachable_inv[OF assms(1)]]
    by (auto simp: ok_result_def find_temporary_display_def query_lease_def)
qed

definition sample_feed :: lease_request where
  "sample_feed = \<lparr>lr_api_namespace = kApiNamespaceGuid, lr_lease_id = sample_lease,
     lr_requested_timeout_ms = 20000, lr_reserved = 0\<rparr>"

theorem feed_lease_exact_witness:
  "qlr_remaining_ms (query_lease sample_lease 9 (fst (feed_lease sample_feed 9 sample_store))) = 20000"
proof -
  obtain t status where res: "feed_lease sample_feed 9 sample_store = (t, status)" by fastforce
  have "sr_error (snd (feed_lease sample_feed 9 sample_store)) = StoreNone" by code_simp
  then have "feed_allowed sample_feed 9 sample_store"
    using feed_lease_exact[OF sample_reachable res] by (simp add: res)
  then have "qlr_remaining_ms (query_lease (lr_lease_id sample_feed) 9 t) =
      normalize_timeout_ms (lr_requested_timeout_ms sample_feed)"
    using feed_lease_exact[OF sample_reachable res] by blast
  moreover have "lr_lease_id sample_feed = sample_lease"
    "normalize_timeout_ms (lr_requested_timeout_ms sample_feed) = 20000" by code_simp+
  ultimately show ?thesis by (simp add: res)
qed

section \<open>Reaping and releasing\<close>

text \<open>
  C7: Reaping removes exactly the displays whose deadline has passed and reports how many; the
  leases that remain are exactly those that still have a display, unchanged, and reservations,
  quarantine and the permanent manifest are untouched.
\<close>

theorem reap_removes_exactly_expired:
  assumes "store_reachable s" and "reap_expired now s = (t, removed)"
  shows "(\<forall>d r. find_temporary_display d t = Some r \<longleftrightarrow>
       find_temporary_display d s = Some r \<and> now < tdr_expires_at r) \<and>
    removed = of_nat (length (expired_temporary_displays now s)) \<and>
    (\<forall>l L. omap_find (leases_by_id t) l = Some L \<longleftrightarrow> omap_find (leases_by_id s) l = Some L \<and>
       (\<exists>d r. find_temporary_display d t = Some r \<and> tdr_lease_id r = l)) \<and>
    connector_reservations_by_display_id t = connector_reservations_by_display_id s \<and>
    quarantined_connectors t = quarantined_connectors s \<and>
    display_manifest_of t = display_manifest_of s"
proof -
  note inv = store_reachable_inv[OF assms(1)]
  note r = reap_expired_result[OF inv, of now]
  have t: "t = fst (reap_expired now s)" "removed = snd (reap_expired now s)" using assms(2) by simp_all
  have disp: "display_at t d = Some q \<longleftrightarrow> display_at s d = Some q \<and> now < tdr_expires_at q" for d q
    unfolding t reap_result_lookup[OF r(2) store_invD(1)[OF inv]] by (simp add: not_le)
  have lease: "lease_at t l = Some L \<longleftrightarrow> lease_at s l = Some L \<and>
      (\<exists>d q. display_at t d = Some q \<and> tdr_lease_id q = l)" for l L
    unfolding t(1) reap_result_leases[OF r(2), of l] by (simp only: split: if_split) blast
  show ?thesis
    using disp lease r(2,3) unfolding t[symmetric] find_temporary_display_def reap_result_def by blast
qed

theorem reap_removes_exactly_expired_witness:
  "find_temporary_display 1 (fst (reap_expired 5000000000 sample_store)) = None"
proof -
  obtain t removed where res: "reap_expired 5000000000 sample_store = (t, removed)" by fastforce
  have "map_option tdr_expires_at (find_temporary_display 1 sample_store) = Some 5000000000" by code_simp
  then have "\<not> (find_temporary_display 1 sample_store = Some r \<and> 5000000000 < tdr_expires_at r)" for r
    by auto
  then have "find_temporary_display 1 t \<noteq> Some r" for r
    using reap_removes_exactly_expired[OF sample_reachable res] by blast
  then show ?thesis by (simp add: res not_Some_eq[symmetric])
qed

text \<open>
  Releasing an existing lease removes the lease and exactly its displays, nothing else;
  releasing an unknown lease is refused and changes nothing.
\<close>

theorem release_removes_exactly_the_lease:
  assumes "store_reachable s" and "release_lease request s = (t, status)"
    and "validate_lease_request request = VNone"
  shows "(sr_error status = StoreNone \<longleftrightarrow> omap_find (leases_by_id s) (lr_lease_id request) \<noteq> None) \<and>
    (sr_error status \<noteq> StoreNone \<longrightarrow> t = s) \<and>
    (sr_error status = StoreNone \<longrightarrow>
       (\<forall>d r. find_temporary_display d t = Some r \<longleftrightarrow>
          find_temporary_display d s = Some r \<and> tdr_lease_id r \<noteq> lr_lease_id request) \<and>
       (\<forall>l. omap_find (leases_by_id t) l =
          (if l = lr_lease_id request then None else omap_find (leases_by_id s) l)) \<and>
       connector_reservations_by_display_id t = connector_reservations_by_display_id s)"
proof -
  have wf: "omap_wf (displays_by_id s)"
    using store_invD(1)[OF store_reachable_inv[OF assms(1)]] by (simp add: maps_ok_def)
  show ?thesis
    using assms(2,3)
    by (auto simp: release_lease_def Let_def find_temporary_display_def ok_result_def store_failure_def
        omap_find_filter_entry[OF wf] split: if_splits option.splits)
qed

theorem release_removes_exactly_the_lease_witness:
  "find_temporary_display 1 (fst (release_lease sample_feed sample_store)) = None"
proof -
  obtain t status where res: "release_lease sample_feed sample_store = (t, status)" by fastforce
  have valid: "validate_lease_request sample_feed = VNone" by code_simp
  have "sr_error (snd (release_lease sample_feed sample_store)) = StoreNone" by code_simp
  then have ok: "sr_error status = StoreNone" by (simp add: res)
  have "map_option tdr_lease_id (find_temporary_display 1 sample_store) = Some (lr_lease_id sample_feed)"
    by code_simp
  then show ?thesis
    using release_removes_exactly_the_lease[OF sample_reachable res valid] ok
    by (cases "find_temporary_display 1 t") (auto simp: res)
qed

section \<open>Condemned displays\<close>

text \<open>
  Once one display of a lease is marked for departure the lease is frozen: no display can
  be created under it and none of its displays can be reclaimed, and the marked display can only
  be evicted by the holder of the lease's capability naming its exact generation, which
  quarantines its connector.
\<close>

theorem condemned_lease_is_frozen:
  assumes "store_reachable s" and "find_temporary_display d s = Some r" and "tdr_pending_departure r"
  shows "(\<forall>request now. ctd_lease_id (cto_display request) = tdr_lease_id r \<longrightarrow>
       sr_error (fst (snd (create_temporary_display_owned request now s))) \<noteq> StoreNone) \<and>
    (\<forall>request now q. find_temporary_display (rtd_display_id request) s = Some q \<longrightarrow>
       tdr_lease_id q = tdr_lease_id r \<longrightarrow>
       sr_error (fst (snd (reclaim_temporary_display request now s))) \<noteq> StoreNone) \<and>
    (\<forall>request generation cap t status.
       abandon_pending_temporary_display request generation cap s = (t, status) \<longrightarrow>
       sr_error status = StoreNone \<longrightarrow> ldr_display_id request = d \<longrightarrow>
       generation = tdr_generation r \<and> ldr_lease_id request = tdr_lease_id r \<and>
       (\<exists>L. omap_find (leases_by_id s) (tdr_lease_id r) = Some L \<and>
          capability_matches (lease_owner_capability L) cap) \<and>
       find_temporary_display d t = None \<and> tdr_connector_index r \<in> quarantined_connectors t)"
proof -
  note inv = store_reachable_inv[OF assms(1)]
  have d: "display_at s d = Some r" using assms(2) by (simp add: find_temporary_display_def)
  have frozen: "lease_has_pending_departure s (tdr_lease_id r)"
    using d assms(3) scan_simps(5)[OF store_invD(1)[OF inv]] by blast
  obtain L where L: "lease_at s (tdr_lease_id r) = Some L"
    using leases_okD(2)[OF store_invD(3)[OF inv] d] by blast
  have create: "sr_error (fst (snd (create_temporary_display_owned request now s))) \<noteq> StoreNone"
    if "ctd_lease_id (cto_display request) = tdr_lease_id r" for request now
  proof -
    let ?run = "create_temporary_display_impl (cto_display request)
      (Some (cto_owner_capability request)) now s"
    have "create_precheck (cto_display request) (Some (cto_owner_capability request)) now s \<noteq> StoreNone"
      using create_precheck_StoreNone(3)[of "cto_display request" _ now s L] that L frozen by fastforce
    then have "sr_error (fst (snd ?run)) \<noteq> StoreNone"
      using create_impl_success[OF inv, of "cto_display request" "Some (cto_owner_capability request)" now]
      by (metis prod.collapse)
    then show ?thesis
      by (simp add: create_temporary_display_owned_def validation_failure_def Let_def)
  qed
  have reclaim: "sr_error (fst (snd (reclaim_temporary_display request now s))) \<noteq> StoreNone"
    if "display_at s (rtd_display_id request) = Some q" "tdr_lease_id q = tdr_lease_id r" for request now q
    by (cases rule: reclaim_outcome[of request now s]) (use that frozen in auto)
  have abandon: "generation = tdr_generation r \<and> ldr_lease_id request = tdr_lease_id r \<and>
      (\<exists>L. lease_at s (tdr_lease_id r) = Some L \<and> capability_matches (lease_owner_capability L) cap) \<and>
      display_at t d = None \<and> tdr_connector_index r \<in> quarantined_connectors t"
    if "abandon_pending_temporary_display request generation cap s = (t, status)"
      "sr_error status = StoreNone" "ldr_display_id request = d" for request generation cap t status
    using that d L unfolding abandon_cases
    by (auto simp: store_failure_def validation_failure_def split: if_splits)
  show ?thesis unfolding find_temporary_display_def using create reclaim abandon by blast
qed

definition condemned_store :: display_store where
  "condemned_store = fold run_store_op (sample_ops @ [OpMarkPending (sample_remove 1)])
     (initial_store 4 8 [] None)"

theorem condemned_lease_is_frozen_witness:
  "sr_error (fst (snd (create_temporary_display_owned (sample_owned sample_lease 3 0) 0 condemned_store)))
     \<noteq> StoreNone"
proof -
  have reach: "store_reachable condemned_store"
    unfolding condemned_store_def by (rule run_reachable) (simp_all add: sample_ops_def)
  have "map_option (\<lambda>r. (tdr_lease_id r, tdr_pending_departure r)) (find_temporary_display 1 condemned_store)
      = Some (sample_lease, True)" by code_simp
  then obtain r where "find_temporary_display 1 condemned_store = Some r" "tdr_pending_departure r"
    "tdr_lease_id r = sample_lease" by auto
  then show ?thesis
    using condemned_lease_is_frozen[OF reach] by (auto simp: sample_owned_def sample_create_def)
qed

section \<open>Permanent displays\<close>

text \<open>
  With at most eight permanent displays, a request to set the permanent display count is
  accepted exactly when it validates once its defaults are filled in; the generated manifest then
  validates itself, and for a non-zero count the stored settings are the requested ones.
\<close>

theorem set_permanent_count_roundtrip:
  assumes "max_permanent_displays s \<le> 8" and "set_permanent_display_count request s = (t, status)"
    and "n = set_default_permanent_display_settings request"
  shows "(sr_error status = StoreNone \<longleftrightarrow>
       validate_permanent_display_count n (max_permanent_displays s) = VNone) \<and>
    (sr_error status \<noteq> StoreNone \<longrightarrow> t = s) \<and>
    (sr_error status = StoreNone \<longrightarrow>
       validate_display_manifest (display_manifest_of t) (max_permanent_displays t) = VNone \<and>
       pdr_current_display_count (query_permanent_display_count t) = pdc_display_count n \<and>
       (pdc_display_count n \<noteq> 0 \<longrightarrow> permanent_display_settings t = n))"
proof (cases "validate_permanent_display_count n (max_permanent_displays s) = VNone")
  case False
  then show ?thesis
    using assms(2) unfolding set_permanent_display_count_outcome[OF assms(1)] assms(3)
    by (auto simp: validation_failure_def)
next
  case True
  let ?m = "max_permanent_displays s"
  let ?man = "display_manifest_from_permanent_settings n ?m"
  have t: "t = s\<lparr>permanent_display_count := pdc_display_count n, display_manifest_of := ?man,
      permanent_display_settings := permanent_settings_from_display_manifest ?man\<rparr>"
    and status: "status = ok_result"
    using assms(2) True unfolding set_permanent_display_count_outcome[OF assms(1)] assms(3) by simp_all
  have ok: "settings_ok ?m n" and ns: "pdc_api_namespace n = kApiNamespaceGuid" "pdc_flags n = 0"
    using True by (simp_all add: validate_permanent_display_count_iff)
  have few: "pdc_display_count n \<le> 8" using ok assms(1) by (auto simp: settings_ok_def)
  have n: "n = set_default_permanent_display_settings n"
    using settings_ok_fixed(1)[of ?m request] ok assms(3) by simp
  have "manifest_ok ?m ?man" using generated_manifest_ok[OF n ok few] .
  moreover have "pdc_display_count n \<noteq> 0 \<Longrightarrow> permanent_settings_from_display_manifest ?man = n"
    using settings_of_generated_manifest[OF n ok few _ ns] .
  ultimately show ?thesis using True
    by (simp add: t status ok_result_def validate_display_manifest_iff query_permanent_display_count_def)
qed

theorem set_permanent_count_roundtrip_witness:
  "validate_display_manifest
     (display_manifest_of (fst (set_permanent_display_count
        (default_permanent_request\<lparr>pdc_display_count := 3\<rparr>) sample_store))) 4 = VNone"
proof -
  let ?req = "default_permanent_request\<lparr>pdc_display_count := 3\<rparr>"
  obtain t status where res: "set_permanent_display_count ?req sample_store = (t, status)" by fastforce
  have max: "max_permanent_displays sample_store = 4" by code_simp
  have max_t: "max_permanent_displays (fst (set_permanent_display_count ?req sample_store)) = 4" by code_simp
  have "validate_permanent_display_count (set_default_permanent_display_settings ?req) 4 = VNone"
    by code_simp
  then show ?thesis
    using set_permanent_count_roundtrip[OF _ res refl] max max_t by (simp add: res)
qed

end
