(* ===== verification/Driver_Controller_Theorems.thy ===== *)
theory Driver_Controller_Theorems
  imports Driver_Controller_Props Lease_Lifecycle_Theorems
begin

text \<open>
  What the controller promises about the store and the backend calls it makes, for every
  interference another thread can cause while the controller lock is released.
\<close>

section \<open>Lock windows\<close>

text \<open>The store when the controller lock is taken back.\<close>

definition relocked :: "world \<Rightarrow> display_store" where
  "relocked w = w_store (fst (lock_window w))"

lemma call_backend_store [simp]: "w_store (fst (call_backend op w)) = relocked w"
  using call_backend_world[of op w] by (auto simp: relocked_def)

lemma call_backend_outcome:
  "bdr_error (snd (call_backend op w)) \<noteq> BackendBusy \<Longrightarrow>
     w_log (fst (call_backend op w)) = w_log w @ [op]"
  by (auto simp: call_backend_def lock_window_def busy_result_def Let_def
      split: list.split call_outcome.split)

text \<open>A display record is identified by display id, lease and generation.\<close>

definition record_key :: "temporary_display_record \<Rightarrow> u64 \<times> u64 \<times> u64" where
  "record_key r = (tdr_display_id r, tdr_lease_id r, tdr_generation r)"

definition touches_only :: "u64 \<times> u64 \<times> u64 \<Rightarrow> display_store \<Rightarrow> display_store \<Rightarrow> bool" where
  "touches_only k s t \<longleftrightarrow>
     (\<forall>e q. find_temporary_display e s = Some q \<longrightarrow> (e, tdr_lease_id q, tdr_generation q) \<noteq> k \<longrightarrow>
        find_temporary_display e t = Some q) \<and>
     (\<forall>e q. find_temporary_display e t = Some q \<longrightarrow>
        (\<exists>q0. find_temporary_display e s = Some q0 \<and> tdr_generation q = tdr_generation q0))"

lemma touches_only_refl [simp]: "touches_only k s s"
  by (auto simp: touches_only_def)

lemma touches_only_remove:
  assumes "find_temporary_display d s = Some q" and "tdr_lease_id q = l" and "tdr_generation q = g"
  shows "touches_only (d, l, g) s (fst (remove_temporary_display (lease_display l d) mode s))"
  using assms
  by (auto simp: touches_only_def find_temporary_display_def remove_temporary_display_cases
      lease_display_def split: if_splits)

lemma touches_only_mark:
  assumes "find_temporary_display d s = Some q" and "tdr_lease_id q = l" and "tdr_generation q = g"
  shows "touches_only (d, l, g) s (fst (mark_temporary_display_pending_departure (lease_display l d) s))"
  using assms
  by (auto simp: touches_only_def find_temporary_display_def lease_display_def Let_def
      mark_temporary_display_pending_departure_def split: if_splits)

lemma generation_current_iff:
  "temporary_display_generation_is_current r w \<longleftrightarrow>
     (\<exists>q. find_temporary_display (tdr_display_id r) (w_store w) = Some q \<and>
        tdr_lease_id q = tdr_lease_id r \<and> tdr_generation q = tdr_generation r)"
  by (auto simp: temporary_display_generation_is_current_def split: option.split)

text \<open>What one departure of the release and reap loops does to the store.\<close>

lemma depart_display_touches:
  "touches_only (record_key r) (relocked w) (w_store (fst (depart_display r w)))"
  unfolding depart_display_def Let_def case_prod_beta record_key_def
  by (auto simp: on_store_eq generation_current_iff intro!: touches_only_remove touches_only_mark)

lemma depart_display_busy:
  "fst (snd (depart_display r w)) = BackendBusy \<Longrightarrow>
     w_store (fst (depart_display r w)) = relocked w \<and> \<not> snd (snd (depart_display r w))"
  unfolding depart_display_def Let_def case_prod_beta by (auto split: if_splits)

section \<open>Properties\<close>

text \<open>
  Whatever the backend answers and whatever other threads do while the lock is released,
  each controller handler changes the store only by store operations (its own and theirs), so
  it preserves the store invariant; the generation counter must have room for the creates.
\<close>

theorem controller_preserves_store_invariant:
  assumes "store_inv (w_store w)"
    and "unat (next_temporary_display_generation (w_store w)) + script_creates (w_script w) + 1 < 2 ^ 64"
    and "w' \<in> {fst (controller_create_owned owned now w), fst (controller_create plain now w),
      fst (controller_reclaim reclaim now w), fst (controller_remove remove w),
      fst (controller_feed_lease feed now w), fst (controller_release_lease feed w),
      fst (controller_set_permanent_display_count count w),
      fst (controller_apply_display_manifest manifest w),
      fst (controller_set_render_adapter adapter w), fst (controller_reap_expired now w)}"
  shows "store_inv (w_store w') \<and> (\<exists>ops. w_store w' = fold run_store_op ops (w_store w))"
proof -
  have "store_moves (Suc 0) w w'"
    using assms(3) handler_moves moves_mono[of 0 w w' "Suc 0"] by auto
  then obtain ops where ops: "w_store w' = fold run_store_op ops (w_store w)"
    "creates ops \<le> script_creates (w_script w) + 1"
    unfolding store_moves_def by auto
  have "store.guarded ops (w_store w)"
    by (rule guarded_of_creates[OF assms(1)]) (use assms(2) ops(2) in linarith)
  then have "store_inv (w_store w')" unfolding ops(1) by (rule store.run_inv[OF assms(1)])
  then show ?thesis using ops(1) by blast
qed

definition quiet_window :: "call_outcome \<Rightarrow> window" where
  "quiet_window outcome = \<lparr>win_before = [], win_outcome = outcome, win_during = []\<rparr>"

definition success :: call_outcome where
  "success = Returned \<lparr>bdr_error = BackendNone, bdr_os_adapter_luid = \<lparr>low_part = 1, high_part = 2\<rparr>,
     bdr_target_id = 3\<rparr>"

definition failure :: call_outcome where
  "failure = Returned \<lparr>bdr_error = BackendFailed, bdr_os_adapter_luid = \<lparr>low_part = 0, high_part = 0\<rparr>,
     bdr_target_id = 0\<rparr>"

definition sample_world :: "window list \<Rightarrow> world" where
  "sample_world windows = \<lparr>w_store = sample_store, w_script = windows, w_log = []\<rparr>"

theorem controller_preserves_store_invariant_witness:
  "store_inv (w_store (fst (controller_remove (sample_remove 1) (sample_world [quiet_window failure]))))"
proof -
  let ?w = "sample_world [quiet_window failure]"
  have inv: "store_inv (w_store ?w)"
    using store_reachable_inv[OF sample_reachable] by (simp add: sample_world_def)
  have gen: "next_temporary_display_generation sample_store = 3" by code_simp
  have room: "unat (next_temporary_display_generation (w_store ?w)) + script_creates (w_script ?w) + 1 < 2 ^ 64"
    by (simp add: sample_world_def gen script_creates_def quiet_window_def)
  show ?thesis using controller_preserves_store_invariant[OF inv room] by blast
qed

text \<open>
  C12: Removing a display never touches a replacement: if, while the lock was released, the
  display was removed and recreated (another lease or generation), the replacement record and
  all other displays come out exactly as the other threads left them.
\<close>

theorem remove_spares_replacements:
  assumes "find_temporary_display (ldr_display_id request) (w_store w) = Some r"
    and "tdr_lease_id r = ldr_lease_id request" and "validate_lease_display_request request = VNone"
    and "tdr_display_id r = ldr_display_id request"
    and "controller_remove request w = (w', status)"
    and "find_temporary_display e (relocked w) = Some q"
    and "(e, tdr_lease_id q, tdr_generation q) \<noteq>
      (ldr_display_id request, ldr_lease_id request, tdr_generation r)"
  shows "find_temporary_display e (w_store w') = Some q"
proof -
  have req: "request = lease_display (ldr_lease_id request) (ldr_display_id request)"
    using assms(3) by (cases request) (auto simp: validate_lease_display_request_def lease_display_def
        is_valid_api_namespace_def split: if_splits)
  have "touches_only (record_key r) (relocked w) (w_store (fst (controller_remove request w)))"
    using assms(1-4) touches_only_remove[of "ldr_display_id request" "relocked w" _ "ldr_lease_id request"
        "tdr_generation r", folded req] touches_only_mark[of "ldr_display_id request" "relocked w" _
        "ldr_lease_id request" "tdr_generation r", folded req]
    unfolding controller_remove_def Let_def case_prod_beta record_key_def
    by (auto simp: on_store_eq generation_current_iff)
  then show ?thesis using assms(2,4-7) by (simp add: touches_only_def record_key_def)
qed

text \<open>Another thread removes display 1 and creates it again while the backend call runs.\<close>

definition replacing_window :: "call_outcome \<Rightarrow> window" where
  "replacing_window outcome =
     \<lparr>win_before = [OpRemove (sample_remove 1) RetainConnectorReservation,
                    OpCreateOwned (sample_owned (sample_lease + 2) 1 0) 1],
      win_outcome = outcome, win_during = []\<rparr>"

theorem remove_spares_replacements_witness:
  "map_option tdr_lease_id (find_temporary_display 1
     (w_store (fst (controller_remove (sample_remove 1) (sample_world [replacing_window failure])))))
   = Some (sample_lease + 2)"
proof -
  let ?w = "sample_world [replacing_window failure]"
  obtain w' status where res: "controller_remove (sample_remove 1) ?w = (w', status)" by fastforce
  have old: "map_option (\<lambda>r. (tdr_lease_id r, tdr_display_id r, tdr_generation r))
      (find_temporary_display (ldr_display_id (sample_remove 1)) (w_store ?w)) =
      Some (sample_lease, 1, 1)" by code_simp
  then obtain r where r: "find_temporary_display (ldr_display_id (sample_remove 1)) (w_store ?w) = Some r"
    "tdr_lease_id r = sample_lease" "tdr_display_id r = 1" "tdr_generation r = 1" by auto
  have new: "map_option (\<lambda>r. (tdr_lease_id r, tdr_generation r))
      (find_temporary_display 1 (relocked ?w)) = Some (sample_lease + 2, 3)" by code_simp
  then obtain q where q: "find_temporary_display 1 (relocked ?w) = Some q"
    "tdr_lease_id q = sample_lease + 2" "tdr_generation q = 3" by auto
  have valid: "validate_lease_display_request (sample_remove 1) = VNone" by code_simp
  have "find_temporary_display 1 (w_store w') = Some q"
    by (rule remove_spares_replacements[OF r(1) _ valid _ res q(1)])
       (simp_all add: r q sample_remove_def)
  then show ?thesis using q(2) by (simp add: res)
qed

definition all_timeouts :: "window list \<Rightarrow> bool" where
  "all_timeouts windows \<longleftrightarrow> list_all (\<lambda>win. win_outcome win = LockTimeout) windows"

definition before_ops :: "window list \<Rightarrow> store_op list" where
  "before_ops windows = concat (map win_before windows)"

lemma depart_display_timeout:
  assumes "all_timeouts (w_script w)"
  shows "\<exists>k. depart_display r w =
    (w\<lparr>w_script := drop k (w_script w),
       w_store := fold run_store_op (before_ops (take k (w_script w))) (w_store w)\<rparr>, BackendBusy, False)"
proof (cases "w_script w")
  case Nil
  then have "depart_display r w = (w, BackendBusy, False)"
    by (simp add: depart_display_def call_backend_def lock_window_def backend_error_of_def busy_result_def)
  then show ?thesis using Nil by (intro exI[of _ 0]) (simp add: before_ops_def)
next
  case (Cons win windows)
  then have "win_outcome win = LockTimeout" using assms by (simp add: all_timeouts_def)
  then show ?thesis using Cons
    by (intro exI[of _ 1]) (simp add: depart_display_def call_backend_def lock_window_def
        backend_error_of_def busy_result_def before_ops_def Let_def)
qed

lemma displays_timeout:
  assumes "all_timeouts (w_script w)"
  shows "\<exists>k. reap_displays rs n w =
    (w\<lparr>w_script := drop k (w_script w),
       w_store := fold run_store_op (before_ops (take k (w_script w))) (w_store w)\<rparr>, n)"
  using assms
proof (induction rs arbitrary: w)
  case Nil
  then show ?case by (intro exI[of _ 0]) (simp add: before_ops_def)
next
  case (Cons r rs)
  obtain k where k: "depart_display r w =
    (w\<lparr>w_script := drop k (w_script w),
       w_store := fold run_store_op (before_ops (take k (w_script w))) (w_store w)\<rparr>, BackendBusy, False)"
    (is "_ = (?w1, _)") using depart_display_timeout[OF Cons.prems] by blast
  have "all_timeouts (w_script ?w1)" using Cons.prems
    by (auto simp: all_timeouts_def list_all_iff dest: in_set_dropD)
  from Cons.IH[OF this] obtain j where "reap_displays rs n ?w1 =
    (?w1\<lparr>w_script := drop j (w_script ?w1),
       w_store := fold run_store_op (before_ops (take j (w_script ?w1))) (w_store ?w1)\<rparr>, n)" by blast
  then have "reap_displays (r # rs) n w =
    (w\<lparr>w_script := drop (j + k) (w_script w),
       w_store := fold run_store_op (before_ops (take (k + j) (w_script w))) (w_store w)\<rparr>, n)"
    by (simp add: k before_ops_def take_add)
  then show ?case by (auto simp: add.commute)
qed

text \<open>
  A backend slot that cannot be acquired never poisons a display: when every lock window
  times out, removing and reaping leave the store exactly as the other threads made it, remove
  nothing, call no backend function, and the remove does not report success.
\<close>

theorem busy_backend_never_poisons:
  assumes "all_timeouts (w_script w)"
  shows "\<exists>k. w_store (fst (controller_reap_expired now w)) =
      fold run_store_op (before_ops (take k (w_script w))) (w_store w) \<and>
    snd (controller_reap_expired now w) = 0 \<and>
    w_log (fst (controller_reap_expired now w)) = w_log w \<and>
    (\<forall>request. w_store (fst (controller_remove request w)) \<in> {w_store w, relocked w} \<and>
       \<not> status_ok (snd (controller_remove request w)) \<and>
       w_log (fst (controller_remove request w)) = w_log w)"
proof -
  obtain k where k: "controller_reap_expired now w =
    (w\<lparr>w_script := drop k (w_script w),
       w_store := fold run_store_op (before_ops (take k (w_script w))) (w_store w)\<rparr>, 0)"
    using displays_timeout[OF assms] unfolding controller_reap_expired_def by blast
  have busy: "bdr_error (snd (call_backend op w)) = BackendBusy \<and> w_log (fst (call_backend op w)) = w_log w"
    for op using assms
    by (auto simp: call_backend_def lock_window_def busy_result_def all_timeouts_def Let_def
        split: list.split call_outcome.split)
  have "w_store (fst (controller_remove request w)) \<in> {w_store w, relocked w} \<and>
      \<not> status_ok (snd (controller_remove request w)) \<and>
      w_log (fst (controller_remove request w)) = w_log w" for request
    using busy unfolding controller_remove_def Let_def case_prod_beta
    by (auto simp: backend_error_of_def status_ok_def backend_status_def store_status_def invalid_status_def
        ok_status_def split: option.split)
  then show ?thesis using k by auto
qed

theorem busy_backend_never_poisons_witness:
  "snd (controller_reap_expired 5000000000 (sample_world [quiet_window LockTimeout])) = 0"
proof -
  have "all_timeouts (w_script (sample_world [quiet_window LockTimeout]))" by code_simp
  from busy_backend_never_poisons[OF this, of 5000000000] show ?thesis by blast
qed

section \<open>Creating\<close>

lemma status_ok_simps [simp]:
  "status_ok ok_status" "status_ok (backend_status e) \<longleftrightarrow> e = BackendNone"
  "status_ok (store_status x) \<longleftrightarrow> x = StoreNone" "\<not> status_ok (invalid_status v)"
  by (simp_all add: status_ok_def ok_status_def backend_status_def store_status_def invalid_status_def)

lemma snd_backend_error_of [simp]: "snd (backend_error_of p) = bdr_error (snd p)"
  by (simp add: backend_error_of_def)

lemma reserve_identity_early:
  "snd (reserve_identity request r w) = Some status \<Longrightarrow> \<not> status_ok status"
  unfolding reserve_identity_def Let_def case_prod_beta by (auto split: if_splits)

lemma arrival_succeeded_ok:
  assumes "arrival_succeeded request r res b w = (w', status, result)" and "status_ok status"
  shows "w' = w \<and> ctr_connector_index result = ctr_connector_index res \<and>
    ctr_effective_timeout_ms result = ctr_effective_timeout_ms res \<and>
    ctr_target_id result = bdr_target_id b \<and>
    (\<exists>q. find_temporary_display (ctd_display_id request) (w_store w) = Some q \<and>
       tdr_lease_id q = ctd_lease_id request \<and> tdr_generation q = tdr_generation r \<and>
       \<not> tdr_pending_departure q)"
  using assms unfolding arrival_succeeded_def Let_def case_prod_beta create_fails_def
  by (auto split: option.splits if_splits)

lemma bring_up_ok:
  assumes "bring_up request r res w = (w', status, result)" and "status_ok status"
  shows "ctr_connector_index result = ctr_connector_index res \<and>
    ctr_effective_timeout_ms result = ctr_effective_timeout_ms res \<and>
    w_log w' \<noteq> [] \<and> last (w_log w') = ArriveTemporaryDisplay (descriptor_from_record r) \<and>
    (\<exists>q. find_temporary_display (ctd_display_id request) (w_store w') = Some q \<and>
       tdr_lease_id q = ctd_lease_id request \<and> tdr_generation q = tdr_generation r \<and>
       \<not> tdr_pending_departure q)"
proof -
  obtain w1 early where early: "(if tdr_retain_identity r then reserve_identity request r w
      else (w, None)) = (w1, early)" by fastforce
  have "early = None"
  proof (cases early)
    case (Some st)
    then have "\<not> status_ok st" using early reserve_identity_early[of request r w st]
      by (auto split: if_splits)
    then show ?thesis using assms Some early by (simp add: bring_up_def create_fails_def Let_def)
  qed
  let ?call = "call_backend (ArriveTemporaryDisplay (descriptor_from_record r)) w1"
  have none: "bdr_error (snd ?call) = BackendNone"
    using assms early \<open>early = None\<close>
    by (auto simp: bring_up_def arrival_failed_def create_fails_def Let_def case_prod_beta split: if_splits)
  then have log: "w_log (fst ?call) = w_log w1 @ [ArriveTemporaryDisplay (descriptor_from_record r)]"
    by (intro call_backend_outcome) simp
  have "arrival_succeeded request r res (snd ?call) (fst ?call) = (w', status, result)"
    using assms(1) early \<open>early = None\<close> none by (simp add: bring_up_def Let_def case_prod_beta)
  from arrival_succeeded_ok[OF this assms(2)] show ?thesis using log by auto
qed

lemma create_impl_ok:
  assumes "controller_create_impl request cap now w = (w', status, result)" and "status_ok status"
  obtains w1 w2 r made where
    "on_store (store_create request cap now) w1 = (w2, made)" and "sr_error (fst made) = StoreNone"
    and "find_temporary_display (ctd_display_id request) (w_store w2) = Some r"
    and "bring_up request r (snd made) w2 = (w', status, result)"
    and "store_moves 0 w w1"
proof -
  have valid: "fst (validate_create_temporary_display request) = VNone"
  proof (rule ccontr)
    assume "fst (validate_create_temporary_display request) \<noteq> VNone"
    then show False using assms by (auto simp: controller_create_impl_def create_fails_def)
  qed
  obtain w1 early where pre: "(case find_temporary_display (ctd_display_id request) (w_store w) of
      None \<Rightarrow> (w, None)
    | Some existing \<Rightarrow> if tdr_pending_departure existing then evict_pending existing cap w else (w, None))
    = (w1, early)" by fastforce
  have moves: "store_moves 0 w w1"
    using pre evict_pending_moves[OF moves_refl[of 0 w]]
    by (auto split: option.splits if_splits) (metis fst_conv)
  have nonerr: "snd (evict_pending existing cap w) \<noteq> Some BackendNone" for existing
    unfolding evict_pending_def Let_def case_prod_beta by (auto split: option.split)
  have none: "early = None"
    using assms pre valid nonerr
    by (cases early) (auto simp: controller_create_impl_def create_fails_def split: option.splits if_splits,
      (metis snd_conv)+)
  obtain w2 made where made: "on_store (store_create request cap now) w1 = (w2, made)" by (cases "on_store (store_create request cap now) w1") auto
  have ok: "sr_error (fst made) = StoreNone"
    using assms pre valid none made
    by (auto simp: controller_create_impl_def create_fails_def from_store_result_def status_ok_def
        split: if_splits)
  obtain r where r: "find_temporary_display (ctd_display_id request) (w_store w2) = Some r"
    using assms pre valid none made ok
    by (cases "find_temporary_display (ctd_display_id request) (w_store w2)")
       (auto simp: controller_create_impl_def create_fails_def)
  have "bring_up request r (snd made) w2 = (w', status, result)"
    using assms(1) pre valid none made ok r by (simp add: controller_create_impl_def)
  then show thesis using that made ok r moves by blast
qed

lemma store_create_owned:
  "validate_create_temporary_display_owned request = VNone \<Longrightarrow>
   store_create (cto_display request) (Some (cto_owner_capability request)) now s =
   create_temporary_display_impl (cto_display request) (Some (cto_owner_capability request)) now s"
proof -
  have "\<lparr>cto_display = cto_display request, cto_owner_capability = cto_owner_capability request\<rparr> = request"
    by simp
  then show "validate_create_temporary_display_owned request = VNone \<Longrightarrow> ?thesis"
    by (simp only: store_create_def option.case create_temporary_display_owned_def) (simp add: Let_def)
qed

lemma new_record_name:
  "new_temporary_display_record (request\<lparr>ctd_display_name := n\<rparr>) = new_temporary_display_record request"
  by (intro ext) (simp add: new_temporary_display_record_def)

text \<open>
  The request as a record keeps it: absent physical sizes and luminance replaced by the defaults.
\<close>

definition with_defaults :: "create_temporary_display_request \<Rightarrow> create_temporary_display_request" where
  "with_defaults request = request
     \<lparr>ctd_physical_width_mm := or_default kDefaultPhysicalWidthMillimeters (ctd_physical_width_mm request),
      ctd_physical_height_mm := or_default kDefaultPhysicalHeightMillimeters (ctd_physical_height_mm request),
      ctd_hdr_max_luminance_nits := or_default kDefaultHdrMaxLuminanceNits (ctd_hdr_max_luminance_nits request)\<rparr>"

lemma create_impl_record:
  assumes inv: "store_inv s"
    and run: "create_temporary_display_impl request cap now s = (t, status, result)"
    and ok: "sr_error status = StoreNone"
  obtains identity expires where
    "find_temporary_display (ctd_display_id request) t = Some (new_temporary_display_record (with_defaults request)
       (trim_display_name (ctd_display_name request)) (ctr_effective_timeout_ms result)
       (ctr_connector_index result) expires (retains_identity request) identity
       (next_temporary_display_generation s))"
    and "retains_identity request \<Longrightarrow> identity = ctd_display_id request"
  using inv
proof (cases rule: create_impl_cases[of s request cap now])
  case failed
  then show thesis using run ok by (simp add: create_failed_def)
next
  case (created v c i u)
  then obtain w n where val: "validate_create_temporary_display request = (VNone, Some v)"
    and pre: "create_precheck request cap now s = StoreNone"
    and choice: "connector_choice s (ctd_display_id request) (retains_identity request) c w"
    and u: "u = w\<lparr>next_ephemeral_identity := n\<rparr>"
    and ident: "retains_identity request \<Longrightarrow> i = ctd_display_id request"
    unfolding create_installs_def by blast
  note same = connector_choice_displays[OF choice] and vd = validated_installable[OF val]
  obtain vr where "vr = v" and vreq: "vct_request vr = request
      \<lparr>ctd_physical_width_mm := or_default kDefaultPhysicalWidthMillimeters (ctd_physical_width_mm request),
       ctd_physical_height_mm := or_default kDefaultPhysicalHeightMillimeters (ctd_physical_height_mm request),
       ctd_hdr_max_luminance_nits := or_default kDefaultHdrMaxLuminanceNits (ctd_hdr_max_luminance_nits request),
       ctd_display_name := ctd_display_name (vct_request vr)\<rparr>"
    and name: "vct_display_name vr = trim_display_name (ctd_display_name request)"
    using validate_create_result[OF val] by (metis option.inject)
  have "vct_request v = (with_defaults request)\<lparr>ctd_display_name := ctd_display_name (vct_request v)\<rparr>"
    by (subst vreq[unfolded \<open>vr = v\<close>]) (simp add: with_defaults_def)
  then have rec: "new_temporary_display_record (vct_request v) = new_temporary_display_record (with_defaults request)"
    by (metis new_record_name)
  have fresh: "display_at u (ctd_display_id (vct_request v)) = None"
    using create_precheck_StoreNone(1)[OF pre] same vd by (simp add: u)
  have maps: "maps_ok u" using store_invD(1)[OF connector_choice_inv[OF inv choice]]
    by (simp add: u maps_ok_def)
  note inst = run[unfolded created(2) install_eq[OF maps fresh] Let_def]
  have gen: "next_temporary_display_generation u = next_temporary_display_generation s" using same by (simp add: u)
  show thesis
    by (rule that[OF _ ident]) (use inst vd gen name rec \<open>vr = v\<close> in
      \<open>auto simp: find_temporary_display_def created_record_def new_temporary_display_record_def Let_def\<close>)
qed

text \<open>
  C10: When an owned create reports success, the last backend call was the arrival of the monitor of
  the record \<open>r\<close> that the create put into the store: the lease, display, size, refresh rate,
  physical size, luminance, name and flags of the request (with the defaults for what it leaves
  out), the connector and the timeout the caller is told, its own generation, and for a retained
  display the identity that belongs to its id. In the store as it is when the caller is answered
  the display is live: same lease, same generation, no departure pending, whatever other threads did
  during the backend calls.
\<close>

theorem created_display_has_arrived:
  assumes "controller_create_owned request now w = (w', status, result)" and "status_ok status"
    and "store_inv (w_store w)"
    and "unat (next_temporary_display_generation (w_store w)) + script_creates (w_script w) < 2 ^ 64"
  defines "display \<equiv> cto_display request"
  shows "\<exists>r q before after made expires identity generation.
    create_temporary_display_owned request now before = (after, made) \<and> sr_error (fst made) = StoreNone \<and>
    (\<exists>ops. before = fold run_store_op ops (w_store w)) \<and>
    find_temporary_display (ctd_display_id display) after = Some r \<and>
    r = new_temporary_display_record (with_defaults display) (trim_display_name (ctd_display_name display))
      (ctr_effective_timeout_ms result) (ctr_connector_index result) expires (retains_identity display)
      identity generation \<and>
    (retains_identity display \<longrightarrow> identity = ctd_display_id display) \<and>
    w_log w' \<noteq> [] \<and> last (w_log w') = ArriveTemporaryDisplay (descriptor_from_record r) \<and>
    find_temporary_display (ctd_display_id display) (w_store w') = Some q \<and>
    tdr_lease_id q = ctd_lease_id display \<and> tdr_generation q = generation \<and> \<not> tdr_pending_departure q"
proof -
  let ?req = "cto_display request" and ?cap = "Some (cto_owner_capability request)"
  have valid: "validate_create_temporary_display_owned request = VNone"
  proof (rule ccontr)
    assume "validate_create_temporary_display_owned request \<noteq> VNone"
    then show False using assms(1,2) by (auto simp: controller_create_owned_def create_fails_def)
  qed
  have impl: "controller_create_impl ?req ?cap now w = (w', status, result)"
    using assms(1) valid by (simp add: controller_create_owned_def)
  obtain w1 w2 r made where made: "on_store (store_create ?req ?cap now) w1 = (w2, made)"
      "sr_error (fst made) = StoreNone"
    and r: "find_temporary_display (ctd_display_id ?req) (w_store w2) = Some r"
    and up: "bring_up ?req r (snd made) w2 = (w', status, result)" and moves: "store_moves 0 w w1"
    by (rule create_impl_ok[OF impl assms(2)])
  obtain ops where ops: "w_store w1 = fold run_store_op ops (w_store w)"
    "creates ops \<le> script_creates (w_script w)"
    using moves unfolding store_moves_def by auto
  have inv1: "store_inv (w_store w1)" unfolding ops(1)
    by (rule store.run_inv[OF assms(3) guarded_of_creates[OF assms(3)]]) (use ops(2) assms(4) in linarith)
  have run: "create_temporary_display_impl ?req ?cap now (w_store w1) = (w_store w2, fst made, snd made)"
    using made(1) store_create_owned[OF valid] by (auto simp: on_store_eq)
  then have owned: "create_temporary_display_owned request now (w_store w1) = (w_store w2, made)"
    using valid by (simp add: create_temporary_display_owned_def)
  note ok = bring_up_ok[OF up assms(2)]
  show ?thesis
  proof (rule create_impl_record[OF inv1 run made(2)])
    fix identity expires
    assume found: "find_temporary_display (ctd_display_id ?req) (w_store w2) = Some (new_temporary_display_record
        (with_defaults ?req) (trim_display_name (ctd_display_name ?req)) (ctr_effective_timeout_ms (snd made))
        (ctr_connector_index (snd made)) expires (retains_identity ?req) identity
        (next_temporary_display_generation (w_store w1)))" (is "_ = Some ?r")
      and ident: "retains_identity ?req \<Longrightarrow> identity = ctd_display_id ?req"
    have r: "r = ?r" using found r by simp
    then have gen: "tdr_generation r = next_temporary_display_generation (w_store w1)"
      by (simp add: new_temporary_display_record_def)
    show ?thesis
      unfolding display_def
      using owned made(2) ops(1) found ident ok gen r by (metis (no_types))
  qed
qed

text \<open>The same create, when no other thread interferes and every backend call succeeds.\<close>

lemma quiet_call_success:
  "w_script w = quiet_window success # ws \<Longrightarrow>
   call_backend op w = (w\<lparr>w_script := ws, w_log := w_log w @ [op]\<rparr>,
     \<lparr>bdr_error = BackendNone, bdr_os_adapter_luid = \<lparr>low_part = 1, high_part = 2\<rparr>, bdr_target_id = 3\<rparr>)"
  by (simp add: call_backend_def lock_window_def quiet_window_def success_def)

lemma quiet_create_ok:
  assumes inv: "store_inv (w_store w)"
    and script: "w_script w = quiet_window success # quiet_window success # ws"
    and ok: "sr_error (fst (snd (create_temporary_display_owned request now (w_store w)))) = StoreNone"
  shows "status_ok (fst (snd (controller_create_owned request now w)))"
proof -
  let ?req = "cto_display request" and ?cap = "Some (cto_owner_capability request)"
  have valid: "validate_create_temporary_display_owned request = VNone"
    using ok by (auto simp: create_temporary_display_owned_def Let_def
        validation_failure_def split: if_splits)
  obtain t status result where run: "create_temporary_display_impl ?req ?cap now (w_store w) = (t, status, result)"
    by (metis prod_cases3)
  have "sr_error status = StoreNone" using ok valid run
    by (simp add: create_temporary_display_owned_def Let_def)
  from create_impl_success[OF inv run this] obtain r L where
    none: "display_at (w_store w) (ctd_display_id ?req) = None"
    and made: "created_display ?req ?cap now (w_store w) t r L" by metis
  have found: "find_temporary_display (ctd_display_id ?req) t = Some r"
    using made by (simp add: created_display_def find_temporary_display_def)
  have rec: "tdr_lease_id r = ctd_lease_id ?req" "tdr_display_id r = ctd_display_id ?req"
      "\<not> tdr_pending_departure r"
    using made by (auto simp: created_display_def)
  have val: "fst (validate_create_temporary_display ?req) = VNone"
    using valid by (auto simp: validate_create_temporary_display_owned_def Let_def split: if_splits)
  have call: "on_store (store_create ?req ?cap now) w = (w\<lparr>w_store := t\<rparr>, status, result)"
    by (simp add: on_store_eq store_create_owned[OF valid] run)
  have current: "temporary_display_generation_is_current r w' " if "w_store w' = t" for w'
    using that found rec by (simp add: temporary_display_generation_is_current_def)
  note calls = quiet_call_success[of "w\<lparr>w_store := t\<rparr>"] script
  have "status_ok (fst (snd (bring_up ?req r result (w\<lparr>w_store := t\<rparr>))))"
    by (simp add: bring_up_def reserve_identity_def quiet_call_success script backend_error_of_def
        current arrival_succeeded_def found rec)
  then show ?thesis
    using none found \<open>sr_error status = StoreNone\<close> val valid
    by (simp add: controller_create_owned_def controller_create_impl_def call find_temporary_display_def)
qed

theorem created_display_has_arrived_witness:
  "\<exists>q. find_temporary_display 3 (w_store (fst (controller_create_owned (sample_owned sample_lease 3 0) 0
       (sample_world [quiet_window success, quiet_window success])))) = Some q \<and> \<not> tdr_pending_departure q"
proof -
  let ?w = "sample_world [quiet_window success, quiet_window success]"
  let ?req = "sample_owned sample_lease 3 0"
  obtain w' status result where res: "controller_create_owned ?req 0 ?w = (w', status, result)"
    by (metis prod_cases3)
  have inv: "store_inv (w_store ?w)"
    using store_reachable_inv[OF sample_reachable] by (simp add: sample_world_def)
  have made: "sr_error (fst (snd (create_temporary_display_owned ?req 0 (w_store ?w)))) = StoreNone"
    unfolding sample_world_def by code_simp
  have "w_script ?w = quiet_window success # quiet_window success # []" by (simp add: sample_world_def)
  from quiet_create_ok[OF inv this made] have ok: "status_ok status" by (simp add: res)
  have gen: "next_temporary_display_generation sample_store = 3" by code_simp
  have room: "unat (next_temporary_display_generation (w_store ?w)) + script_creates (w_script ?w) < 2 ^ 64"
    by (simp add: sample_world_def gen script_creates_def quiet_window_def)
  have "ctd_display_id (cto_display ?req) = 3" by (simp add: sample_owned_def sample_create_def)
  then show ?thesis using created_display_has_arrived[OF res ok inv room] by (auto simp: res)
qed

end
