(* ===== verification/Driver_Controller_Quiet.thy ===== *)
theory Driver_Controller_Quiet
  imports Driver_Controller_Theorems
begin

text \<open>
  The controller when nobody interferes: every lock window is empty, the backend's answers are
  arbitrary. Then handlers have an exact effect: a failed create is rolled back, a reap removes
  exactly what is due, and the state query is read off the store.
\<close>

section \<open>Quiet scripts\<close>

definition quiet_script :: "window list \<Rightarrow> bool" where
  "quiet_script windows = list_all (\<lambda>win. win_before win = [] \<and> win_during win = []) windows"

lemma quiet_call [simp]:
  assumes "quiet_script (w_script w)"
  shows "relocked w = w_store w"
    and "quiet_script (w_script (fst (call_backend op w)))"
proof -
  have "relocked w = w_store w \<and> quiet_script (w_script (fst (lock_window w)))"
    using assms
    by (auto simp: relocked_def lock_window_def quiet_script_def Let_def split: list.split call_outcome.split)
  then show "relocked w = w_store w" and "quiet_script (w_script (fst (call_backend op w)))"
    using call_backend_world[of op w] by auto
qed

lemma generation_current_same:
  "w_store w' = w_store w \<Longrightarrow>
   temporary_display_generation_is_current r w' = temporary_display_generation_is_current r w"
  by (simp add: generation_current_iff)

section \<open>Rolling a create back\<close>

lemma bring_up_quiet:
  assumes quiet: "quiet_script (w_script w)" and lease: "tdr_lease_id r = ctd_lease_id request"
    and id: "tdr_display_id r = ctd_display_id request"
    and found: "find_temporary_display (ctd_display_id request) (w_store w) = Some r"
    and live: "\<not> tdr_pending_departure r"
    and run: "bring_up request r res w = (w', status, result)"
  shows "status_ok status \<and> w_store w' = w_store w \<or>
    (\<exists>mode. w_store w' = fst (remove_temporary_display
       (lease_display (ctd_lease_id request) (ctd_display_id request)) mode (w_store w)))"
proof -
  have current: "temporary_display_generation_is_current r w1" if "w_store w1 = w_store w" for w1
    using that found lease id by (simp add: generation_current_iff)
  let ?rollback = "lease_display (ctd_lease_id request) (ctd_display_id request)"
  let ?undone = "\<lambda>w1. \<exists>mode. w_store w1 = fst (remove_temporary_display ?rollback mode (w_store w))"
  obtain w1 early where early: "(if tdr_retain_identity r then reserve_identity request r w
      else (w, None)) = (w1, early)" by fastforce
  show ?thesis
  proof (cases early)
    case (Some st)
    then have "?undone w1"
      using early quiet unfolding reserve_identity_def Let_def case_prod_beta
      by (auto simp: on_store_eq current split: if_splits)
    moreover have "w' = w1" using run early Some by (simp add: bring_up_def create_fails_def Let_def)
    ultimately show ?thesis by blast
  next
    case None
    then have same: "w_store w1 = w_store w" and quiet1: "quiet_script (w_script w1)"
      using early quiet unfolding reserve_identity_def Let_def case_prod_beta
      by (auto simp: on_store_eq current split: if_splits)
    let ?call = "call_backend (ArriveTemporaryDisplay (descriptor_from_record r)) w1"
    have same2: "w_store (fst ?call) = w_store w" and quiet2: "quiet_script (w_script (fst ?call))"
      using same quiet1 by simp_all
    show ?thesis
    proof (cases "bdr_error (snd ?call) = BackendNone")
      case True
      then have "arrival_succeeded request r res (snd ?call) (fst ?call) = (w', status, result)"
        using run early None by (simp add: bring_up_def Let_def case_prod_beta)
      then show ?thesis using found lease live same2
        by (auto simp: arrival_succeeded_def)
    next
      case False
      then have failed: "arrival_failed request r (bdr_error (snd ?call)) (fst ?call) = (w', status, result)"
        using run early None by (simp add: bring_up_def Let_def case_prod_beta)
      then have "?undone w'"
        using quiet2 same2 unfolding arrival_failed_def Let_def case_prod_beta create_fails_def
        by (auto simp: on_store_eq current split: if_splits)
      then show ?thesis by blast
    qed
  qed
qed

lemma omap_erase_insert:
  "omap_wf m \<Longrightarrow> omap_find m k = None \<Longrightarrow> omap_erase k (omap_insert k v m) = m"
proof (induction m)
  case (Cons e m)
  then show ?case
    by (cases e) (auto simp: omap_erase_def omap_wf_def filter_id_conv split: if_splits)
qed (simp add: omap_erase_def)

text \<open>Removing the record a create has just added gives back the displays and the leases.\<close>

lemma undo_create:
  assumes inv: "store_inv s" and inv': "store_inv t"
    and fresh: "display_at s (ctd_display_id request) = None"
    and made: "created_display request cap now s t r L"
    and quar: "quarantined_connectors t = quarantined_connectors s"
    and valid: "kMinOpaqueLeaseId \<le> ctd_lease_id request" "ctd_display_id request \<noteq> 0"
    and u: "u = fst (remove_temporary_display
      (lease_display (ctd_lease_id request) (ctd_display_id request)) mode t)"
  shows "displays_by_id u = displays_by_id s"
    and "lease_at u l = None \<longleftrightarrow> lease_at s l = None"
    and "l \<noteq> ctd_lease_id request \<Longrightarrow> lease_at u l = lease_at s l"
    and "lease_at s (ctd_lease_id request) = Some L0 \<Longrightarrow> lease_at u (ctd_lease_id request) =
      Some (if lease_owner_capability L0 = None then L0\<lparr>lease_owner_capability := cap\<rparr> else L0)"
    and "quarantined_connectors u = quarantined_connectors s"
proof -
  let ?d = "ctd_display_id request" and ?l = "ctd_lease_id request"
  have here: "display_at t ?d = Some r" and lease: "tdr_lease_id r = ?l"
    and ds: "displays_by_id t = omap_insert ?d r (displays_by_id s)"
    and ls: "leases_by_id t = omap_insert ?l L (leases_by_id s)"
    using made by (auto simp: created_display_def)
  let ?dropped = "drop_display ?d ?l t"
  have "validate_lease_display_request (lease_display ?l ?d) = VNone"
    using valid by (simp add: validate_lease_display_request_def lease_display_def is_valid_api_namespace_def)
  then have u': "u = ?dropped\<lparr>connector_reservations_by_display_id := connector_reservations_by_display_id u,
      quarantined_connectors := quarantined_connectors t\<rparr>"
    unfolding u remove_temporary_display_cases using here lease
    by (simp add: lease_display_def)
  have disp: "displays_by_id ?dropped = displays_by_id s"
    using omap_erase_insert[of "displays_by_id s" ?d r] fresh store_invD(1)[OF inv]
    by (simp add: ds maps_ok_def)
  then show disp': "displays_by_id u = displays_by_id s" by (subst u') simp
  have leases: "lease_at u l =
      (if \<exists>e q. display_at s e = Some q \<and> tdr_lease_id q = l then lease_at t l else None)" for l
    by (subst u') (simp add: drop_display_leases[OF store_invD(1)[OF inv'] store_invD(3)[OF inv'] here lease,
        unfolded disp])
  have live: "lease_at s l \<noteq> None \<longleftrightarrow> (\<exists>e q. display_at s e = Some q \<and> tdr_lease_id q = l)" for l
    using store_invD(3)[OF inv] unfolding leases_ok_def by blast
  show "lease_at u l = None \<longleftrightarrow> lease_at s l = None"
    using leases[of l] live[of l] by (auto simp: ls)
  show "lease_at u l = lease_at s l" if "l \<noteq> ?l"
    using leases[of l] live[of l] that by (auto simp: ls)
  show "lease_at u ?l = Some (if lease_owner_capability L0 = None then L0\<lparr>lease_owner_capability := cap\<rparr> else L0)"
    if "lease_at s ?l = Some L0"
    using leases[of ?l] live[of ?l] that made by (auto simp: ls created_display_def)
  show "quarantined_connectors u = quarantined_connectors s" by (subst u') (simp add: quar)
qed

text \<open>The part of the store that no temporary display touches.\<close>

definition permanent_part :: "display_store \<Rightarrow>
    u32 \<times> u32 \<times> u32 \<times> permanent_display_count_request \<times> display_manifest \<times> u32 set" where
  "permanent_part s = (max_permanent_displays s, max_temporary_displays s, permanent_display_count s,
     permanent_display_settings s, display_manifest_of s, quarantined_connectors s)"

lemma permanent_part_connector:
  "permanent_part (fst (connector_index_for_display d retain s)) = permanent_part s"
  by (auto simp: connector_index_for_display_def permanent_part_def remove_connector_reservation_def Let_def
      split: option.split)

lemma permanent_part_install:
  "permanent_part (fst (install_temporary_display v cap now c retain i s)) = permanent_part s"
  by (auto simp: install_temporary_display_def permanent_part_def remove_connector_reservation_def Let_def
      split: option.split prod.split)

lemma permanent_part_ephemeral [simp]:
  "permanent_part (s\<lparr>next_ephemeral_identity := n\<rparr>) = permanent_part s"
  by (simp add: permanent_part_def)

lemma permanent_part_create:
  "permanent_part (fst (create_temporary_display_impl request cap now s)) = permanent_part s"
  by (auto simp: create_temporary_display_impl_def create_on_connector_def permanent_part_install
      permanent_part_connector Let_def case_prod_beta split: option.split)

lemma permanent_part_remove:
  "permanent_part (fst (remove_temporary_display request mode s)) = permanent_part s"
  by (auto simp: remove_temporary_display_def remove_lease_if_empty_def permanent_part_def Let_def split: option.split)

text \<open>
  C11: A create that fails is rolled back. If no other thread interferes, then whatever the
  backend answers to the calls (identity reservation, arrival, and the calls that undo them), an
  owned create of a display that does not exist yet and that does not report success leaves
  exactly the displays that were there, with all their fields, the permanent displays, limits and
  quarantine, and the leases, with one exception that the code does not undo: if the request names a lease that had no
  owner capability, that lease may keep the capability of the request, its timeout and expiry
  unchanged. (Connector reservations and the counters of generations and identities may move.)
\<close>

theorem failed_create_is_rolled_back:
  assumes run: "controller_create_owned request now w = (w', status, result)"
    and failed: "\<not> status_ok status"
    and quiet: "quiet_script (w_script w)" and inv: "store_inv (w_store w)"
    and room: "unat (next_temporary_display_generation (w_store w)) + 1 < 2 ^ 64"
    and fresh: "find_temporary_display (ctd_display_id (cto_display request)) (w_store w) = None"
  shows "displays_by_id (w_store w') = displays_by_id (w_store w) \<and>
    permanent_part (w_store w') = permanent_part (w_store w) \<and>
    (\<forall>l. omap_find (leases_by_id (w_store w')) l = omap_find (leases_by_id (w_store w)) l \<or>
       l = ctd_lease_id (cto_display request) \<and>
       (\<exists>L. omap_find (leases_by_id (w_store w)) l = Some L \<and> lease_owner_capability L = None \<and>
          omap_find (leases_by_id (w_store w')) l =
            Some (L\<lparr>lease_owner_capability := Some (cto_owner_capability request)\<rparr>)))"
proof -
  let ?req = "cto_display request" and ?cap = "Some (cto_owner_capability request)"
  let ?s = "w_store w"
  show ?thesis
  proof (cases "validate_create_temporary_display_owned request = VNone")
    case False
    then show ?thesis using run by (auto simp: controller_create_owned_def create_fails_def)
  next
    case True
    have valid: "fst (validate_create_temporary_display ?req) = VNone"
      using True by (auto simp: validate_create_temporary_display_owned_def Let_def split: if_splits)
    obtain t made res where impl: "create_temporary_display_impl ?req ?cap now ?s = (t, made, res)"
      by (metis prod_cases3)
    have call: "on_store (store_create ?req ?cap now) w = (w\<lparr>w_store := t\<rparr>, made, res)"
      by (simp add: on_store_eq store_create_owned[OF True] impl)
    show ?thesis
    proof (cases "sr_error made = StoreNone")
      case False
      have "w_store w' = t"
        using run True valid fresh call False
        by (auto simp: controller_create_owned_def controller_create_impl_def create_fails_def)
      moreover have "create_failed ?s (t, made, res)"
        using inv
      proof (cases rule: create_impl_cases[of ?s ?req ?cap now])
        case created
        then have "made = ok_result" using impl install_result_ok by (metis fst_conv snd_conv)
        then show ?thesis using False by (simp add: ok_result_def)
      qed (simp add: impl)
      moreover have "permanent_part t = permanent_part ?s"
        using permanent_part_create[of ?req ?cap now ?s] impl by simp
      ultimately show ?thesis by (auto simp: create_failed_def)
    next
      case ok: True
      from create_impl_success[OF inv impl ok] obtain r L where
        none: "display_at ?s (ctd_display_id ?req) = None"
        and made: "created_display ?req ?cap now ?s t r L"
        and quar: "quarantined_connectors t = quarantined_connectors ?s" by metis
      have found: "find_temporary_display (ctd_display_id ?req) t = Some r"
        and rec: "tdr_lease_id r = ctd_lease_id ?req" "tdr_display_id r = ctd_display_id ?req"
          "\<not> tdr_pending_departure r"
        using made by (auto simp: created_display_def find_temporary_display_def)
      have up: "bring_up ?req r res (w\<lparr>w_store := t\<rparr>) = (w', status, result)"
        using run True valid fresh call ok found
        by (simp add: controller_create_owned_def controller_create_impl_def)
      obtain mode where undone: "w_store w' = fst (remove_temporary_display
          (lease_display (ctd_lease_id ?req) (ctd_display_id ?req)) mode t)"
        using bring_up_quiet[OF _ rec(1,2) _ rec(3) up] quiet found failed by auto
      have "next_temporary_display_generation ?s < next_temporary_display_generation ?s + 1"
        using room by (simp add: word_less_nat_alt unat_word_ariths)
      then have inv': "store_inv t"
        using create_impl_inv[OF inv, of ?req ?cap now] impl by simp
      have ids: "kMinOpaqueLeaseId \<le> ctd_lease_id ?req" "ctd_display_id ?req \<noteq> 0"
        using valid by (auto simp: validate_create_temporary_display_def Let_def split: if_splits)
      note undo = undo_create[OF inv inv' none made quar ids undone]
      have "permanent_part (w_store w') = permanent_part ?s"
        using permanent_part_create[of ?req ?cap now ?s] impl undone by (simp add: permanent_part_remove)
      moreover have "lease_at (w_store w') l = lease_at ?s l \<or> l = ctd_lease_id ?req \<and>
          (\<exists>L. lease_at ?s l = Some L \<and> lease_owner_capability L = None \<and>
             lease_at (w_store w') l = Some (L\<lparr>lease_owner_capability := ?cap\<rparr>))" for l
      proof (cases "l = ctd_lease_id ?req")
        case True
        then show ?thesis using undo(2)[of l] undo(4) by (cases "lease_at ?s l") (auto split: if_splits)
      qed (use undo(3) in blast)
      ultimately show ?thesis using undo(1) by blast
    qed
  qed
qed

lemma no_window_call: "w_script w = [] \<Longrightarrow> call_backend op w = (w, busy_result)"
  by (simp add: call_backend_def lock_window_def)

lemma no_window_bring_up:
  "w_script w = [] \<Longrightarrow> \<not> status_ok (fst (snd (bring_up request r res w)))"
  by (simp add: bring_up_def reserve_identity_def no_window_call backend_error_of_def busy_result_def
      arrival_failed_def create_fails_def Let_def case_prod_beta)

lemma no_window_create:
  assumes "w_script w = []" and "find_temporary_display (ctd_display_id (cto_display request)) (w_store w) = None"
  shows "\<not> status_ok (fst (snd (controller_create_owned request now w)))"
proof -
  have "\<not> status_ok (fst (snd (controller_create_impl (cto_display request) cap now w)))" for cap
    using assms no_window_bring_up[of "w\<lparr>w_store := t\<rparr>" for t]
    by (auto simp: controller_create_impl_def create_fails_def on_store_eq case_prod_beta Let_def
        from_store_result_def status_ok_def[of "\<lparr>cs_store_error = _, cs_validation_error = _, cs_backend_error = _\<rparr>"]
        split: option.split)
  then show ?thesis by (auto simp: controller_create_owned_def create_fails_def Let_def)
qed

theorem failed_create_is_rolled_back_witness:
  "displays_by_id (w_store (fst (controller_create_owned (sample_owned sample_lease 3 0) 0 (sample_world [])))) =
     displays_by_id sample_store"
proof -
  let ?req = "sample_owned sample_lease 3 0" and ?w = "sample_world []"
  obtain w' status result where res: "controller_create_owned ?req 0 ?w = (w', status, result)"
    by (metis prod_cases3)
  have inv: "store_inv (w_store ?w)"
    using store_reachable_inv[OF sample_reachable] by (simp add: sample_world_def)
  have gen: "next_temporary_display_generation sample_store = 3" by code_simp
  have "omap_find (displays_by_id sample_store) 3 = None" by code_simp
  then have fresh: "find_temporary_display (ctd_display_id (cto_display ?req)) (w_store ?w) = None"
    by (simp add: sample_world_def sample_owned_def sample_create_def find_temporary_display_def)
  have quiet: "w_script ?w = []" "quiet_script (w_script ?w)" by (simp_all add: sample_world_def quiet_script_def)
  have failed: "\<not> status_ok status" using no_window_create[OF quiet(1) fresh, of 0] by (simp add: res)
  have room: "unat (next_temporary_display_generation (w_store ?w)) + 1 < 2 ^ 64"
    by (simp add: sample_world_def gen)
  show ?thesis using failed_create_is_rolled_back[OF res failed quiet(2) inv room fresh]
    by (simp add: res) (simp add: sample_world_def)
qed

section \<open>Reaping\<close>

text \<open>How a window answers a departure, and what becomes of the record.\<close>

definition answer_of :: "window \<Rightarrow> backend_error" where
  "answer_of win = (case win_outcome win of LockTimeout \<Rightarrow> BackendBusy | Returned result \<Rightarrow> bdr_error result)"

definition departure_call :: "temporary_display_record \<Rightarrow> window \<Rightarrow> backend_call list" where
  "departure_call r win =
     (case win_outcome win of
        LockTimeout \<Rightarrow> []
      | Returned _ \<Rightarrow> [DepartTemporaryDisplay (tdr_display_id r) (tdr_generation r)])"

fun after_departure :: "backend_error \<Rightarrow> temporary_display_record \<Rightarrow> temporary_display_record option" where
  "after_departure BackendNone r = None"
| "after_departure BackendFailed r = Some (r\<lparr>tdr_pending_departure := True\<rparr>)"
| "after_departure BackendBusy r = Some r"

lemma quiet_window_call:
  assumes "w_script w = win # ws" and "quiet_script (w_script w)"
  shows "bdr_error (snd (call_backend op w)) = answer_of win"
    and "w_store (fst (call_backend op w)) = w_store w"
    and "w_script (fst (call_backend op w)) = ws"
    and "w_log (fst (call_backend op w)) =
      w_log w @ (case win_outcome win of LockTimeout \<Rightarrow> [] | Returned _ \<Rightarrow> [op])"
  using assms
  by (auto simp: call_backend_def lock_window_def quiet_script_def answer_of_def busy_result_def Let_def
      split: call_outcome.split)

lemma quiet_depart:
  assumes script: "w_script w = win # ws" "quiet_script (w_script w)" and inv: "store_inv (w_store w)"
    and here: "find_temporary_display (tdr_display_id r) (w_store w) = Some r"
    and w': "depart_display r w = (w', e, gone)"
  shows "(gone \<longleftrightarrow> answer_of win = BackendNone) \<and> w_script w' = ws \<and> store_inv (w_store w') \<and>
    w_log w' = w_log w @ departure_call r win \<and>
    (\<forall>d. find_temporary_display d (w_store w') =
       (if d = tdr_display_id r then after_departure (answer_of win) r
        else find_temporary_display d (w_store w)))"
proof -
  note call = quiet_window_call[OF script] and same = quiet_call(1)[OF script(2)]
  let ?d = "tdr_display_id r" and ?s = "w_store w"
  have at: "display_at ?s ?d = Some r" using here by (simp add: find_temporary_display_def)
  have d: "?d \<noteq> 0" using table_okD(1)[OF store_invD(2)[OF inv] at] by (simp add: record_ok_def)
  obtain L where "omap_find (leases_by_id ?s) (tdr_lease_id r) = Some L"
    using leases_okD(2)[OF store_invD(3)[OF inv] at] by blast
  then have valid: "validate_lease_display_request (lease_display (tdr_lease_id r) ?d) = VNone"
    using leases_okD(4)[OF store_invD(3)[OF inv]] d
    by (auto simp: validate_lease_display_request_def lease_display_def is_valid_api_namespace_def not_less)
  have current: "temporary_display_generation_is_current r (fst (call_backend op w))" for op
    using here call(2) by (simp add: generation_current_iff)
  let ?rm = "remove_temporary_display (lease_display (tdr_lease_id r) ?d) RetainConnectorReservation ?s"
  let ?mk = "mark_temporary_display_pending_departure (lease_display (tdr_lease_id r) ?d) ?s"
  have rm: "find_temporary_display d (fst ?rm) = (if d = ?d then None else find_temporary_display d ?s)"
    "snd ?rm = ok_result" for d
    using here valid by (simp_all add: remove_temporary_display_cases find_temporary_display_def lease_display_def)
  have mk: "find_temporary_display d (fst ?mk) =
      (if d = ?d then Some (r\<lparr>tdr_pending_departure := True\<rparr>) else find_temporary_display d ?s)" for d
    using here valid
    by (simp add: mark_temporary_display_pending_departure_def find_temporary_display_def lease_display_def)
  note invs = remove_temporary_display_inv[OF inv, of "lease_display (tdr_lease_id r) ?d" RetainConnectorReservation]
    mark_pending_inv[OF inv, of "lease_display (tdr_lease_id r) ?d"]
  have log: "w_log (fst (call_backend (DepartTemporaryDisplay ?d (tdr_generation r)) w)) =
      w_log w @ departure_call r win" by (simp add: call departure_call_def)
  let ?called = "fst (call_backend (DepartTemporaryDisplay ?d (tdr_generation r)) w)"
  have run: "(w', e, gone) = (case answer_of win of
      BackendNone \<Rightarrow> (?called\<lparr>w_store := fst ?rm\<rparr>, BackendNone, True)
    | BackendFailed \<Rightarrow> (?called\<lparr>w_store := fst ?mk\<rparr>, BackendFailed, False)
    | BackendBusy \<Rightarrow> (?called, BackendBusy, False))"
    unfolding w'[symmetric] depart_display_def Let_def case_prod_beta backend_error_of_def
    by (simp add: call(1,2) same current on_store_eq rm(2) ok_result_def split: backend_error.split)
  show ?thesis
  proof (cases "answer_of win")
    case BackendNone
    then show ?thesis using run rm(1) invs(1) by (simp add: call(3) log)
  next
    case BackendFailed
    then show ?thesis using run mk invs(2) by (simp add: call(3) log)
  next
    case BackendBusy
    then show ?thesis using run inv here by (simp add: call(3) same log)
  qed
qed

lemma zip_take_same: "zip xs (take (length xs) ys) = zip xs ys"
  by (induction xs arbitrary: ys) (auto split: list.split simp: zip_Cons1 take_Cons')

lemma map_of_zip_at:
  "distinct xs \<Longrightarrow> i < length xs \<Longrightarrow> length xs \<le> length ys \<Longrightarrow> map_of (zip xs ys) (xs ! i) = Some (ys ! i)"
  by (induction xs arbitrary: ys i) (auto simp: zip_Cons1 nth_Cons split: list.split nat.split)

definition reaped ::
  "temporary_display_record list \<Rightarrow> backend_error list \<Rightarrow> temporary_display_record \<Rightarrow> temporary_display_record option" where
  "reaped rs answers q =
     (if q \<in> set rs then after_departure (the (map_of (zip rs answers) q)) q else Some q)"

lemma reap_displays_quiet:
  assumes "quiet_script (w_script w)" and "length rs \<le> length (w_script w)"
    and "store_inv (w_store w)" and "distinct (map tdr_display_id rs)"
    and "\<forall>r \<in> set rs. find_temporary_display (tdr_display_id r) (w_store w) = Some r"
    and "reap_displays rs k w = (w', n)"
  shows "(\<forall>d. find_temporary_display d (w_store w') =
      Option.bind (find_temporary_display d (w_store w)) (reaped rs (map answer_of (w_script w)))) \<and>
    n = k + of_nat (length (filter (\<lambda>e. e = BackendNone) (map answer_of (take (length rs) (w_script w))))) \<and>
    w_log w' = w_log w @ concat (map2 departure_call rs (w_script w))"
  using assms
proof (induction rs arbitrary: w k)
  case Nil
  then show ?case by (simp add: reaped_def)
next
  case (Cons r rs)
  obtain win ws where script: "w_script w = win # ws" using Cons.prems(2) by (cases "w_script w") auto
  obtain w1 e gone where one: "depart_display r w = (w1, e, gone)" by (metis prod_cases3)
  have here: "find_temporary_display (tdr_display_id r) (w_store w) = Some r" using Cons.prems(5) by simp
  note step = quiet_depart[OF script Cons.prems(1,3) here one]
  let ?k = "if gone then k + 1 else k"
  have rest: "reap_displays rs ?k w1 = (w', n)" using Cons.prems(6) one by simp
  have apart: "tdr_display_id q \<noteq> tdr_display_id r" if "q \<in> set rs" for q
    using Cons.prems(4) imageI[OF that, of tdr_display_id] by auto
  have "quiet_script (w_script w1)" using step Cons.prems(1) script by (simp add: quiet_script_def)
  moreover have "\<forall>q \<in> set rs. find_temporary_display (tdr_display_id q) (w_store w1) = Some q"
    using step Cons.prems(5) apart by simp
  ultimately have IH: "(\<forall>d. find_temporary_display d (w_store w') =
      Option.bind (find_temporary_display d (w_store w1)) (reaped rs (map answer_of (w_script w1)))) \<and>
    n = ?k + of_nat (length (filter (\<lambda>e. e = BackendNone) (map answer_of (take (length rs) (w_script w1))))) \<and>
    w_log w' = w_log w1 @ concat (map2 departure_call rs (w_script w1))"
    by (intro Cons.IH[OF _ _ _ _ _ rest]) (use step script Cons.prems in simp_all)
  have id: "tdr_display_id q = d" if "find_temporary_display d (w_store w) = Some q" for d q
    using table_okD(1)[OF store_invD(2)[OF Cons.prems(3)]] that by (auto simp: find_temporary_display_def record_ok_def)
  have view: "find_temporary_display d (w_store w') =
      Option.bind (find_temporary_display d (w_store w)) (reaped (r # rs) (map answer_of (w_script w)))" for d
  proof (cases "d = tdr_display_id r")
    case True
    have kept: "reaped rs as q = Some q" if "tdr_display_id q = tdr_display_id r" for as q
      using apart[of q] that by (auto simp: reaped_def)
    have "find_temporary_display d (w_store w1) = after_departure (answer_of win) r" using step True by simp
    then have "find_temporary_display d (w_store w') = after_departure (answer_of win) r"
      using IH kept by (cases "answer_of win") auto
    then show ?thesis using True here script by (simp add: reaped_def)
  next
    case False
    then have "find_temporary_display d (w_store w1) = find_temporary_display d (w_store w)" using step by simp
    moreover have "reaped rs (map answer_of ws) q = reaped (r # rs) (map answer_of (w_script w)) q"
      if "find_temporary_display d (w_store w) = Some q" for q
      using id[OF that] False script by (auto simp: reaped_def)
    ultimately show ?thesis using IH step by (cases "find_temporary_display d (w_store w)") auto
  qed
  show ?case using view IH step script by auto
qed

lemma add_missing:
  fixes f :: "'a \<Rightarrow> 'b" and cs ds :: "'a list"
  defines "add \<equiv> \<lambda>d cs. if list_ex (\<lambda>c. f c = f d) cs then cs else cs @ [d]"
  shows "distinct (map f cs) \<Longrightarrow> distinct (map f (fold add ds cs))"
    and "f ` set (fold add ds cs) = f ` set cs \<union> f ` set ds"
    and "set (fold add ds cs) \<subseteq> set cs \<union> set ds"
proof (induction ds arbitrary: cs)
  case (Cons d ds)
  have one: "distinct (map f cs) \<Longrightarrow> distinct (map f (add d cs))"
    "set (add d cs) \<subseteq> insert d (set cs)" for cs
    by (auto simp: add_def list_ex_iff)
  have two: "f ` set (add d cs) = insert (f d) (f ` set cs)" for cs
    by (auto simp: add_def list_ex_iff) (metis imageI)
  {
    case 1
    then have "distinct (map f (fold add ds (add d cs)))" by (intro Cons(1) one(1))
    then show ?case by simp
  next
    case 2
    then show ?case using Cons(2)[of "add d cs"] two by simp
  next
    case 3
    then show ?case using Cons(3)[of "add d cs"] one(2) by auto
  }
qed simp_all

definition due :: "time_point \<Rightarrow> temporary_display_record \<Rightarrow> bool" where
  "due now r \<longleftrightarrow> tdr_pending_departure r \<or> tdr_expires_at r \<le> now"

lemma reap_candidates_exact:
  assumes inv: "store_inv s"
  shows "distinct (map tdr_display_id (reap_candidates now s))"
    and "r \<in> set (reap_candidates now s) \<Longrightarrow>
      find_temporary_display (tdr_display_id r) s = Some r \<and> due now r"
    and "find_temporary_display d s = Some r \<Longrightarrow>
      d \<in> tdr_display_id ` set (reap_candidates now s) \<longleftrightarrow> due now r"
proof -
  have wf: "omap_wf (displays_by_id s)" using store_invD(1)[OF inv] by (simp add: maps_ok_def)
  have id: "find_temporary_display d s = Some r \<Longrightarrow> tdr_display_id r = d" for d r
    using table_okD(1)[OF store_invD(2)[OF inv]] by (auto simp: find_temporary_display_def record_ok_def)
  have mem: "(d, r) \<in> set (displays_by_id s) \<longleftrightarrow> find_temporary_display d s = Some r" for d r
    using omap_find_Some_iff[OF wf] by (simp add: find_temporary_display_def)
  have keys: "map tdr_display_id (map snd (displays_by_id s)) = map fst (displays_by_id s)"
    using id mem by (auto intro!: map_cong)
  have "distinct (map tdr_display_id (map snd (displays_by_id s)))"
    unfolding keys by (rule omap_wf_distinct[OF wf])
  then have "distinct (map tdr_display_id (pending_departure_temporary_displays s))"
    unfolding pending_departure_temporary_displays_def by (rule distinct_map_filter)
  then show "distinct (map tdr_display_id (reap_candidates now s))"
    unfolding reap_candidates_def by (rule add_missing(1))
  have pend: "r \<in> set (pending_departure_temporary_displays s) \<longleftrightarrow>
      tdr_pending_departure r \<and> find_temporary_display (tdr_display_id r) s = Some r" for r
    unfolding pending_departure_temporary_displays_def using mem id by force
  have exp: "r \<in> set (expired_temporary_displays now s) \<longleftrightarrow>
      tdr_expires_at r \<le> now \<and> find_temporary_display (tdr_display_id r) s = Some r" for r
    unfolding expired_temporary_displays_def using mem id by force
  show "find_temporary_display (tdr_display_id r) s = Some r \<and> due now r"
    if "r \<in> set (reap_candidates now s)" for r
    using that add_missing(3)[of tdr_display_id "expired_temporary_displays now s"
        "pending_departure_temporary_displays s"] pend exp
    unfolding reap_candidates_def due_def by blast
  show "d \<in> tdr_display_id ` set (reap_candidates now s) \<longleftrightarrow> due now r"
    if "find_temporary_display d s = Some r"
  proof -
    have "d \<in> tdr_display_id ` set (reap_candidates now s) \<longleftrightarrow>
        (\<exists>q. tdr_display_id q = d \<and> find_temporary_display d s = Some q \<and> due now q)"
      unfolding reap_candidates_def add_missing(2) using pend exp by (auto simp: due_def image_iff)
    then show ?thesis using that id[OF that] by auto
  qed
qed

text \<open>
  C9: One turn of the reaper, exactly. When no other thread interferes (and the backend's slot is
  offered at least once per display), the displays that are due (expired, or condemned before) are
  each departed once, with the generation of their record, in some order, and nothing else is asked
  of the backend. A display leaves the store when its own departure succeeded; it is marked as
  pending departure when the backend failed; it stays exactly as it was when the backend was busy
  or its slot could not be had; and displays that are not due are untouched. The count returned is
  the number of departures that succeeded.
\<close>

theorem controller_reap_exact:
  assumes "store_inv (w_store w)" and "quiet_script (w_script w)"
    and "length (displays_by_id (w_store w)) \<le> length (w_script w)"
    and "controller_reap_expired now w = (w', n)"
  shows "\<exists>gone. distinct gone \<and>
    set gone = snd ` {e \<in> set (displays_by_id (w_store w)). due now (snd e)} \<and>
    (let windows = take (length gone) (w_script w); answers = map answer_of windows in
     w_log w' = w_log w @ concat (map2 departure_call gone windows) \<and>
     n = of_nat (length (filter (\<lambda>e. e = BackendNone) answers)) \<and>
     (\<forall>d. find_temporary_display d (w_store w) = None \<longrightarrow> find_temporary_display d (w_store w') = None) \<and>
     (\<forall>d r. find_temporary_display d (w_store w) = Some r \<longrightarrow> \<not> due now r \<longrightarrow>
        find_temporary_display d (w_store w') = Some r) \<and>
     (\<forall>i < length gone. find_temporary_display (tdr_display_id (gone ! i)) (w_store w') =
        after_departure (answers ! i) (gone ! i)))"
proof -
  let ?s = "w_store w"
  let ?c = "reap_candidates now ?s"
  note cand = reap_candidates_exact[OF assms(1), where now = now]
  have wf: "omap_wf (displays_by_id ?s)" using store_invD(1)[OF assms(1)] by (simp add: maps_ok_def)
  have mem: "(d, r) \<in> set (displays_by_id ?s) \<longleftrightarrow> find_temporary_display d ?s = Some r" for d r
    using omap_find_Some_iff[OF wf] by (simp add: find_temporary_display_def)
  have "set (map tdr_display_id ?c) \<subseteq> fst ` set (displays_by_id ?s)"
    using cand(2) mem by force
  from card_mono[OF _ this] have "length ?c \<le> length (displays_by_id ?s)"
    using distinct_card[OF cand(1)] distinct_card[OF omap_wf_distinct[OF wf]] by simp
  then have len: "length ?c \<le> length (w_script w)" using assms(3) by simp
  let ?windows = "take (length ?c) (w_script w)"
  have run: "(\<forall>d. find_temporary_display d (w_store w') =
      Option.bind (find_temporary_display d ?s) (reaped ?c (map answer_of (w_script w)))) \<and>
    n = of_nat (length (filter (\<lambda>e. e = BackendNone) (map answer_of ?windows))) \<and>
    w_log w' = w_log w @ concat (map2 departure_call ?c (w_script w))"
    using reap_displays_quiet[OF assms(2) len assms(1) cand(1), of 0 w' n] cand(2) assms(4)
    by (simp add: controller_reap_expired_def)
  have distinct: "distinct ?c" using cand(1) by (simp add: distinct_map)
  have set: "set ?c = snd ` {e \<in> set (displays_by_id ?s). due now (snd e)}"
  proof (intro set_eqI iffI)
    fix r assume "r \<in> set ?c"
    then show "r \<in> snd ` {e \<in> set (displays_by_id ?s). due now (snd e)}"
      using cand(2)[of r] mem by force
  next
    fix r assume "r \<in> snd ` {e \<in> set (displays_by_id ?s). due now (snd e)}"
    then obtain d where "find_temporary_display d ?s = Some r" "due now r" using mem by auto
    then obtain q where "q \<in> set ?c" "tdr_display_id q = d" using cand(3) by auto
    then show "r \<in> set ?c" using cand(2)[of q] \<open>find_temporary_display d ?s = Some r\<close> by simp
  qed
  have calls: "map2 departure_call ?c (w_script w) = map2 departure_call ?c ?windows"
    by (simp add: zip_take_same)
  have others: "find_temporary_display d (w_store w') = Some r"
    if "find_temporary_display d ?s = Some r" "\<not> due now r" for d r
  proof -
    have "r \<notin> set ?c" using cand(2) that(2) by blast
    then show ?thesis using run that(1) by (simp add: reaped_def)
  qed
  have each: "find_temporary_display (tdr_display_id (?c ! i)) (w_store w') =
      after_departure (map answer_of ?windows ! i) (?c ! i)" if "i < length ?c" for i
  proof -
    have "?c ! i \<in> set ?c" using that by simp
    moreover have "map_of (zip ?c (map answer_of (w_script w))) (?c ! i) = Some (map answer_of (w_script w) ! i)"
      by (rule map_of_zip_at[OF distinct that]) (simp add: len)
    ultimately show ?thesis using run cand(2) that len by (simp add: reaped_def)
  qed
  show ?thesis
    by (rule exI[of _ ?c]) (use distinct set run calls others each in \<open>simp add: Let_def\<close>)
qed

text \<open>Both displays of the sample store have expired; the backend departs one and fails on the other.\<close>

theorem controller_reap_exact_witness:
  "\<exists>w' n. controller_reap_expired 1000000000000 (sample_world [quiet_window success, quiet_window failure]) = (w', n) \<and>
    n = 1 \<and> length (w_log w') = 2"
proof -
  let ?w = "sample_world [quiet_window success, quiet_window failure]"
  obtain w' n where res: "controller_reap_expired 1000000000000 ?w = (w', n)" by fastforce
  have inv: "store_inv (w_store ?w)"
    using store_reachable_inv[OF sample_reachable] by (simp add: sample_world_def)
  have quiet: "quiet_script (w_script ?w)" by code_simp
  have len: "length (displays_by_id (w_store ?w)) \<le> length (w_script ?w)" by code_simp
  obtain gone where gone: "distinct gone"
      "set gone = snd ` {e \<in> set (displays_by_id (w_store ?w)). due 1000000000000 (snd e)}"
    and log: "w_log w' = w_log ?w @ concat (map2 departure_call gone (take (length gone) (w_script ?w)))"
    and n: "n = of_nat (length (filter (\<lambda>e. e = BackendNone) (map answer_of (take (length gone) (w_script ?w)))))"
    using controller_reap_exact[OF inv quiet len res] by (auto simp: Let_def)
  have "card (snd ` set (filter (\<lambda>e. due 1000000000000 (snd e)) (displays_by_id (w_store ?w)))) = 2" by code_simp
  then have "length gone = 2" using distinct_card[OF gone(1)] gone(2) by (simp add: set_filter)
  then obtain r q where "gone = [r, q]" by (metis length_0_conv length_Suc_conv numeral_2_eq_2)
  then show ?thesis using res log n
    by (simp add: sample_world_def quiet_window_def success_def failure_def departure_call_def answer_of_def)
qed

section \<open>The state query\<close>

lemma entry_lease_hidden [simp]:
  "dse_lease_id empty_state_entry = 0" "dse_lease_id (state_entry_from_profile p) = 0"
  "dse_lease_id (state_entry_from_record r) = 0"
  by (simp_all add: empty_state_entry_def state_entry_from_profile_def state_entry_from_record_def Let_def)

text \<open>
  The display-state query fills at most the 16 entries of its buffer and says how many it
  filled; permanent displays come first; every temporary display of the store has an entry with
  its connector and mode whenever everything fits; and no entry ever discloses a lease id, which
  is a bearer token.
\<close>

theorem query_display_state_exact:
  assumes "store_inv s"
  defines "result \<equiv> query_display_state s"
    and "shown \<equiv> length (active_profiles (display_manifest_of s)) + length (displays_by_id s)"
  shows "length (qds_entries result) = 16 \<and> unat (qds_entry_count result) = min 16 shown \<and>
    (\<forall>e \<in> set (qds_entries result). dse_lease_id e = 0) \<and>
    (shown \<le> 16 \<longrightarrow> (\<forall>d r. find_temporary_display d s = Some r \<longrightarrow>
       (\<exists>i < unat (qds_entry_count result). let e = qds_entries result ! i in
          dse_display_id e = d \<and> dse_kind e = kDisplayStateKindTemporary \<and>
          dse_connector_index e = tdr_connector_index r \<and> dse_width e = tdr_width r \<and>
          dse_height e = tdr_height r)))"
proof -
  let ?m = "display_manifest_of s"
  define permanent where "permanent = take 16 (map state_entry_from_profile (active_profiles ?m))"
  define temporary where "temporary = take (16 - length permanent) (map state_entry_from_record (temporary_displays s))"
  have result: "qds_entries result = (permanent @ temporary) @
      replicate (16 - length (permanent @ temporary)) empty_state_entry"
    "qds_entry_count result = of_nat (length (permanent @ temporary))"
    by (simp_all add: result_def query_display_state_def Let_def permanent_def temporary_def active_profiles_def)
  have lp: "length permanent = min 16 (length (active_profiles ?m))" by (simp add: permanent_def)
  have lt: "length temporary = min (16 - length permanent) (length (displays_by_id s))"
    by (simp add: temporary_def temporary_displays_def)
  have len: "length (permanent @ temporary) = min 16 shown" using lp lt by (simp add: shown_def)
  then have count: "unat (qds_entry_count result) = min 16 shown"
    unfolding result(2) by (simp add: unat_of_nat take_bit_nat_eq_self)
  have all: "length (qds_entries result) = 16" unfolding result(1) using len by simp
  have hidden: "\<forall>e \<in> set (qds_entries result). dse_lease_id e = 0"
    unfolding result(1) by (auto simp: permanent_def temporary_def dest!: in_set_takeD)
  have listed: "\<exists>i < unat (qds_entry_count result). qds_entries result ! i = state_entry_from_record r"
    if "shown \<le> 16" and "find_temporary_display d s = Some r" for d r
  proof -
    have "r \<in> set (temporary_displays s)"
      using that(2) by (force simp: temporary_displays_def find_temporary_display_def dest: map_of_SomeD)
    moreover have "temporary = map state_entry_from_record (temporary_displays s)"
      using that(1) lp by (simp add: temporary_def temporary_displays_def shown_def)
    ultimately have "state_entry_from_record r \<in> set (permanent @ temporary)" by simp
    then obtain i where "i < length (permanent @ temporary)" "(permanent @ temporary) ! i = state_entry_from_record r"
      by (meson in_set_conv_nth)
    then show ?thesis
      unfolding count len[symmetric] unfolding result(1) by (metis nth_append)
  qed
  have fields: "dse_display_id (state_entry_from_record r) = tdr_display_id r \<and>
      dse_kind (state_entry_from_record r) = kDisplayStateKindTemporary \<and>
      dse_connector_index (state_entry_from_record r) = tdr_connector_index r \<and>
      dse_width (state_entry_from_record r) = tdr_width r \<and>
      dse_height (state_entry_from_record r) = tdr_height r" for r
    by (simp add: state_entry_from_record_def)
  have id: "find_temporary_display d s = Some r \<Longrightarrow> tdr_display_id r = d" for d r
    using table_okD(1)[OF store_invD(2)[OF assms(1)]] by (auto simp: find_temporary_display_def record_ok_def)
  have entries: "\<exists>i < unat (qds_entry_count result). let e = qds_entries result ! i in
      dse_display_id e = d \<and> dse_kind e = kDisplayStateKindTemporary \<and>
      dse_connector_index e = tdr_connector_index r \<and> dse_width e = tdr_width r \<and>
      dse_height e = tdr_height r"
    if fits: "shown \<le> 16" and r: "find_temporary_display d s = Some r" for d r
  proof -
    obtain i where "i < unat (qds_entry_count result)" "qds_entries result ! i = state_entry_from_record r"
      using listed[OF fits r] by blast
    then show ?thesis using fields[of r] id[OF r] by (intro exI[of _ i]) (simp add: Let_def)
  qed
  show ?thesis by (intro conjI impI allI all count hidden entries)
qed

theorem query_display_state_exact_witness:
  "list_all (\<lambda>e. dse_lease_id e = 0) (qds_entries (query_display_state sample_store))"
  using query_display_state_exact[OF store_reachable_inv[OF sample_reachable]]
  unfolding list_all_iff by blast

end
