(* ===== verification/Driver_Controller_Race.thy ===== *)
theory Driver_Controller_Race
  imports Driver_Controller_Quiet
begin

text \<open>
  A schedule the backend slot does not exclude. Reclaim waits for the slot so that "a completed
  departure cannot leave a live store record behind", but the handler that departs takes its
  snapshot of the record before it waits for the slot. If the reclaim gets the slot first, the
  waiting departure still runs with the generation of its snapshot, which the reclaim does not
  change; the monitor departs, and the re-check of the snapshot then fails on the lease.
\<close>

text \<open>
  C13: A remove that waits for the backend slot behind an accepted reclaim of the same display
  departs the monitor of that display (same display id, same generation) and then leaves its
  record in the store, live, under the new lease: the remove reports "display not found" and the
  display stays listed although its monitor is gone.
\<close>

theorem departure_behind_reclaim_orphans_display:
  assumes inv: "store_inv (w_store w)"
    and here: "find_temporary_display d (w_store w) = Some r"
    and reclaim: "sr_error (fst (snd (reclaim_temporary_display request now (w_store w)))) = StoreNone"
    and same: "rtd_display_id request = d"
    and script: "w_script w = [\<lparr>win_before = [OpReclaim request now],
      win_outcome = Returned answer, win_during = []\<rparr>]"
    and departed: "bdr_error answer = BackendNone"
    and run: "controller_remove (lease_display (tdr_lease_id r) d) w = (w', status)"
  shows "status = store_status DisplayNotFound \<and>
    w_log w' = w_log w @ [DepartTemporaryDisplay d (tdr_generation r)] \<and>
    (\<exists>q. find_temporary_display d (w_store w') = Some q \<and> tdr_generation q = tdr_generation r \<and>
       tdr_lease_id q = rtd_new_lease_id request \<and> \<not> tdr_pending_departure q)"
proof -
  let ?s = "w_store w"
  let ?t = "fst (reclaim_temporary_display request now ?s)"
  from reclaim_outcome[of request now ?s]
  obtain r0 L where r0: "display_at ?s d = Some r0" "\<not> tdr_pending_departure r0"
      "lease_at ?s (tdr_lease_id r0) = Some L" "rtd_new_lease_id request \<noteq> tdr_lease_id r0"
    and t: "?t = reclaimed request now (tdr_lease_id r0) (lease_owner_capability L) ?s"
    using reclaim same by metis
  have r: "r0 = r" using here r0(1) by (simp add: find_temporary_display_def)
  let ?q = "r\<lparr>tdr_lease_id := rtd_new_lease_id request,
      tdr_timeout_ms := normalize_timeout_ms (rtd_requested_timeout_ms request),
      tdr_expires_at := now + milliseconds (normalize_timeout_ms (rtd_requested_timeout_ms request))\<rparr>"
  have found: "find_temporary_display d ?t = Some ?q"
    unfolding t using r0(1) r by (simp add: reclaimed_def Let_def find_temporary_display_def)
  have d: "tdr_display_id r = d" "d \<noteq> 0"
    using table_okD(1)[OF store_invD(2)[OF inv]] here
    by (auto simp: find_temporary_display_def record_ok_def)
  have valid: "validate_lease_display_request (lease_display (tdr_lease_id r) d) = VNone"
    using leases_okD(4)[OF store_invD(3)[OF inv] r0(3)] d(2) r
    by (auto simp: validate_lease_display_request_def lease_display_def is_valid_api_namespace_def not_less)
  let ?call = "call_backend (DepartTemporaryDisplay d (tdr_generation r)) w"
  have call: "?call = (w\<lparr>w_script := [], w_store := ?t,
      w_log := w_log w @ [DepartTemporaryDisplay d (tdr_generation r)]\<rparr>, answer)"
    by (simp add: call_backend_def lock_window_def script)
  have stale: "\<not> temporary_display_generation_is_current r (fst ?call)"
    using found d r0(4) r unfolding call by (simp add: generation_current_iff)
  have "controller_remove (lease_display (tdr_lease_id r) d) w = (fst ?call, store_status DisplayNotFound)"
    using valid here departed stale
    by (simp add: controller_remove_def lease_display_def call backend_error_of_def)
  then have "w' = fst ?call" and "status = store_status DisplayNotFound" using run by simp_all
  then show ?thesis using found r0(2) r by (simp add: call)
qed

definition racing_world :: world where
  "racing_world = sample_world [\<lparr>win_before = [OpReclaim sample_reclaim 7], win_outcome = success,
     win_during = []\<rparr>]"

theorem departure_behind_reclaim_orphans_display_witness:
  "\<exists>q. find_temporary_display 1
      (w_store (fst (controller_remove (lease_display sample_lease 1) racing_world))) = Some q \<and>
    tdr_lease_id q = sample_lease + 1 \<and> \<not> tdr_pending_departure q"
proof -
  obtain w' status where run: "controller_remove (lease_display sample_lease 1) racing_world = (w', status)"
    by fastforce
  have store: "w_store racing_world = sample_store" by (simp add: racing_world_def sample_world_def)
  have inv: "store_inv (w_store racing_world)" using store_reachable_inv[OF sample_reachable] store by simp
  have "map_option tdr_lease_id (find_temporary_display 1 sample_store) = Some sample_lease" by code_simp
  then obtain r where here: "find_temporary_display 1 (w_store racing_world) = Some r"
    and lease: "tdr_lease_id r = sample_lease" using store by auto
  have accepted: "sr_error (fst (snd (reclaim_temporary_display sample_reclaim 7 (w_store racing_world)))) = StoreNone"
    unfolding store by code_simp
  have script: "w_script racing_world = [\<lparr>win_before = [OpReclaim sample_reclaim 7],
      win_outcome = Returned \<lparr>bdr_error = BackendNone, bdr_os_adapter_luid = \<lparr>low_part = 1, high_part = 2\<rparr>,
        bdr_target_id = 3\<rparr>, win_during = []\<rparr>]"
    by (simp add: racing_world_def sample_world_def success_def)
  have "rtd_display_id sample_reclaim = 1" "rtd_new_lease_id sample_reclaim = sample_lease + 1"
    by (simp_all add: sample_reclaim_def)
  then show ?thesis
    using departure_behind_reclaim_orphans_display[OF inv here accepted _ script, of w' status] run lease
    by auto
qed

end
