(* ===== verification/Driver_State.thy ===== *)
theory Driver_State
  imports Lease_Store_Steps
begin

unbundle bit_operations_syntax

text \<open>
  The persistent driver state (\<open>windows_driver_state.h\<close>, \<open>windows_driver_state.cpp\<close>): the
  registry blob in which the driver keeps one profile per retained temporary display, the table
  operations on the profiles, and the connector reservations the store starts from. A reader
  returns the value and the new offset, where the source advances an offset by reference. The
  locale \<open>byte_codec\<close> is the contract between a writer and a reader of one field; the loop
  over the profiles is verified once against it.
\<close>

section \<open>Reading and writing integers\<close>

abbreviation (input) kWindowsDriverMaxPermanentDisplays :: u32 where
  "kWindowsDriverMaxPermanentDisplays \<equiv> 4"
abbreviation (input) kWindowsDriverMaxTemporaryDisplays :: u32 where
  "kWindowsDriverMaxTemporaryDisplays \<equiv> 8"
abbreviation (input) kWindowsDriverPersistentStateSchemaVersion :: u32 where
  "kWindowsDriverPersistentStateSchemaVersion \<equiv> 1"
abbreviation (input) kTemporaryDisplayProfileBytes :: nat where
  "kTemporaryDisplayProfileBytes \<equiv> 36"
abbreviation (input) kTemporaryDisplayProfilesHeaderBytes :: nat where
  "kTemporaryDisplayProfilesHeaderBytes \<equiv> 8"

record temporary_display_profile =
  tdp_display_id :: u64
  tdp_connector_index :: u32
  tdp_container_id :: guid
  tdp_edid_product_code :: u32
  tdp_edid_serial_number :: u32

definition append_u32 :: "u8 list \<Rightarrow> u32 \<Rightarrow> u8 list" where
  "append_u32 blob v = blob @
     [ucast (v AND 0xff), ucast (drop_bit 8 v AND 0xff),
      ucast (drop_bit 16 v AND 0xff), ucast (drop_bit 24 v AND 0xff)]"

definition append_u64 :: "u8 list \<Rightarrow> u64 \<Rightarrow> u8 list" where
  "append_u64 blob v =
     append_u32 (append_u32 blob (ucast (v AND 0xffffffff))) (ucast (drop_bit 32 v AND 0xffffffff))"

definition append_guid :: "u8 list \<Rightarrow> guid \<Rightarrow> u8 list" where
  "append_guid blob v =
     append_u32 blob (data1 v) @
     [ucast (data2 v AND 0xff), ucast (drop_bit 8 (data2 v) AND 0xff),
      ucast (data3 v AND 0xff), ucast (drop_bit 8 (data3 v) AND 0xff)] @ data4 v"

definition has_bytes :: "u8 list \<Rightarrow> nat \<Rightarrow> nat \<Rightarrow> bool" where
  "has_bytes blob offset count \<longleftrightarrow> offset \<le> length blob \<and> count \<le> length blob - offset"

definition read_u32 :: "u8 list \<Rightarrow> nat \<Rightarrow> (u32 \<times> nat) option" where
  "read_u32 blob offset =
     (if \<not> has_bytes blob offset 4 then None
      else Some (ucast (blob ! offset) OR push_bit 8 (ucast (blob ! (offset + 1))) OR
                 push_bit 16 (ucast (blob ! (offset + 2))) OR push_bit 24 (ucast (blob ! (offset + 3))),
                 offset + 4))"

definition read_u64 :: "u8 list \<Rightarrow> nat \<Rightarrow> (u64 \<times> nat) option" where
  "read_u64 blob offset =
     (case read_u32 blob offset of
        None \<Rightarrow> None
      | Some (low, offset1) \<Rightarrow>
          (case read_u32 blob offset1 of
             None \<Rightarrow> None
           | Some (high, offset2) \<Rightarrow> Some (ucast low OR push_bit 32 (ucast high), offset2)))"

definition read_guid :: "u8 list \<Rightarrow> nat \<Rightarrow> (guid \<times> nat) option" where
  "read_guid blob offset =
     (if \<not> has_bytes blob offset 16 then None
      else
        (case read_u32 blob offset of
           None \<Rightarrow> None
         | Some (d1, offset1) \<Rightarrow>
             if \<not> has_bytes blob offset1 12 then None
             else
               let d2 = ucast (blob ! offset1) OR push_bit 8 (ucast (blob ! (offset1 + 1))) :: u32;
                   offset2 = offset1 + 2;
                   d3 = ucast (blob ! offset2) OR push_bit 8 (ucast (blob ! (offset2 + 1))) :: u32;
                   offset3 = offset2 + 2
               in Some (\<lparr>data1 = d1, data2 = ucast d2, data3 = ucast d3,
                         data4 = take 8 (drop offset3 blob)\<rparr>, offset3 + 8)))"

section \<open>The profile table\<close>

definition valid_temporary_display_profile :: "u64 \<Rightarrow> u32 \<Rightarrow> bool" where
  "valid_temporary_display_profile display_id connector_index \<longleftrightarrow>
     display_id \<noteq> 0 \<and> connector_index \<ge> kWindowsDriverMaxPermanentDisplays \<and>
     connector_index < kWindowsDriverMaxPermanentDisplays + kWindowsDriverMaxTemporaryDisplays"

text \<open>One turn of the parse loop, and the loop itself for any reader.\<close>

definition read_profile :: "u8 list \<Rightarrow> nat \<Rightarrow> (temporary_display_profile \<times> nat) option" where
  "read_profile blob o0 =
     (case read_u64 blob o0 of None \<Rightarrow> None | Some (display_id, o1) \<Rightarrow>
     (case read_u32 blob o1 of None \<Rightarrow> None | Some (connector_index, o2) \<Rightarrow>
     (case read_guid blob o2 of None \<Rightarrow> None | Some (container_id, o3) \<Rightarrow>
     (case read_u32 blob o3 of None \<Rightarrow> None | Some (product_code, o4) \<Rightarrow>
     (case read_u32 blob o4 of None \<Rightarrow> None | Some (serial_number, o5) \<Rightarrow>
        if valid_temporary_display_profile display_id connector_index
        then Some (\<lparr>tdp_display_id = display_id, tdp_connector_index = connector_index,
                    tdp_container_id = container_id, tdp_edid_product_code = product_code,
                    tdp_edid_serial_number = serial_number\<rparr>, o5)
        else None)))))"

primrec read_many ::
  "(u8 list \<Rightarrow> nat \<Rightarrow> ('a \<times> nat) option) \<Rightarrow> nat \<Rightarrow> u8 list \<Rightarrow> nat \<Rightarrow> 'a list option" where
  "read_many get 0 blob offset = Some []"
| "read_many get (Suc n) blob offset =
     (case get blob offset of
        None \<Rightarrow> None
      | Some (x, offset1) \<Rightarrow> map_option ((#) x) (read_many get n blob offset1))"

definition parse_temporary_display_profiles_blob ::
  "u8 list \<Rightarrow> temporary_display_profile list option" where
  "parse_temporary_display_profiles_blob blob =
     (case read_u32 blob 0 of None \<Rightarrow> None | Some (schema_version, o1) \<Rightarrow>
     (case read_u32 blob o1 of None \<Rightarrow> None | Some (profile_count, o2) \<Rightarrow>
        if schema_version \<noteq> kWindowsDriverPersistentStateSchemaVersion \<or>
           profile_count > kWindowsDriverMaxTemporaryDisplays \<or>
           length blob \<noteq> kTemporaryDisplayProfilesHeaderBytes +
             unat profile_count * kTemporaryDisplayProfileBytes
        then None
        else read_many read_profile (unat profile_count) blob o2))"

definition append_profile :: "temporary_display_profile \<Rightarrow> u8 list \<Rightarrow> u8 list" where
  "append_profile entry blob =
     append_u32 (append_u32 (append_guid (append_u32 (append_u64 blob (tdp_display_id entry))
       (tdp_connector_index entry)) (tdp_container_id entry)) (tdp_edid_product_code entry))
       (tdp_edid_serial_number entry)"

definition serialize_temporary_display_profiles :: "temporary_display_profile list \<Rightarrow> u8 list" where
  "serialize_temporary_display_profiles profiles =
     fold append_profile profiles
       (append_u32 (append_u32 [] kWindowsDriverPersistentStateSchemaVersion)
         (of_nat (length profiles)))"

text \<open>\<open>std::find_if\<close> and the assignment through the iterator it finds.\<close>

primrec replace_first :: "('a \<Rightarrow> bool) \<Rightarrow> 'a \<Rightarrow> 'a list \<Rightarrow> 'a list option" where
  "replace_first P x [] = None"
| "replace_first P x (y # ys) =
     (if P y then Some (x # ys) else map_option ((#) y) (replace_first P x ys))"

definition upsert_temporary_display_profile ::
  "temporary_display_profile list \<Rightarrow> temporary_display_profile \<Rightarrow>
   temporary_display_profile list option" where
  "upsert_temporary_display_profile profiles profile =
     (if \<not> valid_temporary_display_profile (tdp_display_id profile) (tdp_connector_index profile)
      then None
      else
        let kept = filter (\<lambda>entry. \<not> (tdp_connector_index entry = tdp_connector_index profile \<and>
                                     tdp_display_id entry \<noteq> tdp_display_id profile)) profiles in
        case replace_first (\<lambda>entry. tdp_display_id entry = tdp_display_id profile) profile kept of
          Some updated \<Rightarrow> Some updated
        | None \<Rightarrow> if length kept \<ge> unat kWindowsDriverMaxTemporaryDisplays then None
                  else Some (kept @ [profile]))"

definition remove_temporary_display_profile ::
  "temporary_display_profile list \<Rightarrow> u64 \<Rightarrow> temporary_display_profile list" where
  "remove_temporary_display_profile profiles display_id =
     filter (\<lambda>entry. tdp_display_id entry \<noteq> display_id) profiles"

definition temporary_connector_reservations :: "temporary_display_profile list \<Rightarrow> (u64, u32) omap" where
  "temporary_connector_reservations profiles =
     fold (\<lambda>profile reservations.
       omap_emplace (tdp_display_id profile) (tdp_connector_index profile) reservations) profiles []"

end
