(* ===== verification/Driver_State_Theorems.thy ===== *)
theory Driver_State_Theorems
  imports Driver_State
begin

unbundle bit_operations_syntax

text \<open>
  The codec of the persistent state: a reader accepts exactly the bytes its writer produces, for
  every field and for the whole profile table, and the table operations keep display ids and
  connectors unique.
\<close>

section \<open>The contract between a writer and a reader\<close>

locale byte_codec =
  fixes put :: "'a \<Rightarrow> u8 list"
    and get :: "u8 list \<Rightarrow> nat \<Rightarrow> ('a \<times> nat) option"
    and width :: nat
    and ok :: "'a \<Rightarrow> bool"
  assumes get_put: "ok v \<Longrightarrow> drop offset blob = put v @ rest \<Longrightarrow> get blob offset = Some (v, offset + width)"
    and get_sound: "get blob offset = Some (v, offset') \<Longrightarrow>
      ok v \<and> offset' = offset + width \<and> (\<exists>rest. drop offset blob = put v @ rest)"
    and put_width: "ok v \<Longrightarrow> length (put v) = width"
begin

lemma rest_after: "ok v \<Longrightarrow> drop offset blob = put v @ rest \<Longrightarrow> drop (offset + width) blob = rest"
  by (metis add.commute append_eq_conv_conj drop_drop put_width)

lemma get_rest:
  assumes "get blob offset = Some (v, offset')"
  shows "ok v" and "offset' = offset + width" and "drop offset blob = put v @ drop offset' blob"
  using get_sound[OF assms] rest_after[of v offset blob] by auto

text \<open>The reading loop inverts writing the elements one after the other.\<close>

lemma many_put:
  "list_all ok vs \<Longrightarrow> drop offset blob = concat (map put vs) @ rest \<Longrightarrow>
     read_many get (length vs) blob offset = Some vs"
proof (induction vs arbitrary: offset)
  case (Cons v vs)
  have first: "drop offset blob = put v @ (concat (map put vs) @ rest)" using Cons.prems(2) by simp
  have ok: "ok v" using Cons.prems(1) by simp
  show ?case
    using get_put[OF ok first] Cons.IH[OF _ rest_after[OF ok first]] Cons.prems(1) by simp
qed simp

lemma many_sound:
  "read_many get n blob offset = Some vs \<Longrightarrow>
     list_all ok vs \<and> length vs = n \<and> (\<exists>rest. drop offset blob = concat (map put vs) @ rest)"
proof (induction n arbitrary: offset vs)
  case (Suc n)
  from Suc.prems obtain v offset' us where v: "get blob offset = Some (v, offset')"
    and us: "read_many get n blob offset' = Some us" and vs: "vs = v # us"
    by (auto split: option.splits)
  show ?case using Suc.IH[OF us] get_rest[OF v] vs by auto
qed simp

lemma many_width: "list_all ok vs \<Longrightarrow> length (concat (map put vs)) = length vs * width"
  by (induction vs) (simp_all add: put_width)

end

section \<open>The fields are codecs\<close>

lemma four_elements: "4 \<le> length xs \<Longrightarrow> \<exists>a b c d rest. xs = [a, b, c, d] @ rest"
  by (auto simp: numeral_eq_Suc Suc_le_length_iff)

lemma has_bytes_drop: "drop offset blob = xs @ rest \<Longrightarrow> length xs = n \<Longrightarrow> 0 < n \<Longrightarrow> has_bytes blob offset n"
proof -
  assume *: "drop offset blob = xs @ rest" "length xs = n" "0 < n"
  then have "length blob - offset = n + length rest" by (metis length_append length_drop)
  then show ?thesis using *(3) by (simp add: has_bytes_def)
qed

lemma nth_of_drop:
  fixes blob :: "u8 list"
  assumes "drop offset blob = xs @ rest" and "i < length xs"
  shows "blob ! (offset + i) = xs ! i"
proof -
  have "offset \<le> length blob"
    using has_bytes_drop[OF assms(1), of "length xs"] assms(2) by (cases xs) (auto simp: has_bytes_def)
  then have "blob ! (offset + i) = drop offset blob ! i" by simp
  then show ?thesis using assms by (simp add: nth_append)
qed

lemma and_ff: "(v :: 'a::len word) AND 0xff = take_bit 8 v"
  by (simp add: take_bit_eq_mask mask_numeral)

lemma bytes_of_u32:
  fixes v :: u32
  shows "ucast (ucast (v AND 0xff) :: u8) OR push_bit 8 (ucast (ucast (drop_bit 8 v AND 0xff) :: u8)) OR
    push_bit 16 (ucast (ucast (drop_bit 16 v AND 0xff) :: u8)) OR
    push_bit 24 (ucast (ucast (drop_bit 24 v AND 0xff) :: u8)) = v"
  unfolding and_ff
proof (rule bit_word_eqI, goal_cases)
  case (1 n)
  then consider "n < 8" | "8 \<le> n" "n < 16" | "16 \<le> n" "n < 24" | "24 \<le> n" "n < 32"
    by fastforce
  then show ?case by cases (auto simp: bit_simps)
qed

lemma u32_of_bytes:
  fixes a b c d :: u8
  defines "v \<equiv> (ucast a OR push_bit 8 (ucast b) OR push_bit 16 (ucast c) OR push_bit 24 (ucast d) :: u32)"
  shows "ucast (v AND 0xff) = a" "ucast (drop_bit 8 v AND 0xff) = b"
    "ucast (drop_bit 16 v AND 0xff) = c" "ucast (drop_bit 24 v AND 0xff) = d"
  unfolding and_ff v_def by (rule bit_word_eqI, auto simp: bit_simps dest: bit_imp_le_length)+

lemma and_ffffffff: "(x :: u64) AND 0xffffffff = take_bit 32 x"
  by (simp add: take_bit_eq_mask mask_numeral)

lemma halves_of_u64:
  "ucast (ucast (v AND 0xffffffff) :: u32) OR push_bit 32 (ucast (ucast (drop_bit 32 v AND 0xffffffff) :: u32)) = (v :: u64)"
  unfolding and_ffffffff by (rule bit_word_eqI) (auto simp: bit_simps)

lemma u64_of_halves:
  fixes l h :: u32
  defines "v \<equiv> (ucast l OR push_bit 32 (ucast h) :: u64)"
  shows "ucast (v AND 0xffffffff) = l" "ucast (drop_bit 32 v AND 0xffffffff) = h"
  unfolding and_ffffffff v_def
  by (rule bit_word_eqI, auto simp: bit_simps dest: bit_imp_le_length)+

interpretation codec_u32: byte_codec "append_u32 []" read_u32 4 "\<lambda>v. True"
proof
  fix v :: u32 and offset blob rest
  assume at: "drop offset blob = append_u32 [] v @ rest"
  have bytes: "blob ! (offset + i) = append_u32 [] v ! i" if "i < 4" for i
    using nth_of_drop[OF at] that by (simp add: append_u32_def)
  show "read_u32 blob offset = Some (v, offset + 4)"
    using bytes[of 0] bytes[of 1] bytes[of 2] bytes[of 3] has_bytes_drop[OF at, of 4] bytes_of_u32[of v]
    by (simp add: read_u32_def append_u32_def)
next
  fix v :: u32 and offset offset' blob
  assume "read_u32 blob offset = Some (v, offset')"
  then have has: "offset + 4 \<le> length blob" and off: "offset' = offset + 4"
    and v: "v = ucast (blob ! offset) OR push_bit 8 (ucast (blob ! (offset + 1))) OR
      push_bit 16 (ucast (blob ! (offset + 2))) OR push_bit 24 (ucast (blob ! (offset + 3)))"
    by (auto simp: read_u32_def has_bytes_def split: if_splits)
  show "True \<and> offset' = offset + 4 \<and> (\<exists>rest. drop offset blob = append_u32 [] v @ rest)"
  proof -
    have "4 \<le> length (drop offset blob)" using has by simp
    from four_elements[OF this] obtain a b c d rest where at: "drop offset blob = [a, b, c, d] @ rest"
      by blast
    have "blob ! offset = a" "blob ! (offset + 1) = b" "blob ! (offset + 2) = c" "blob ! (offset + 3) = d"
      using nth_of_drop[OF at, of 0] nth_of_drop[OF at, of 1] nth_of_drop[OF at, of 2] nth_of_drop[OF at, of 3]
      by simp_all
    then have "append_u32 [] v = [a, b, c, d]" unfolding append_u32_def v u32_of_bytes by (simp add: u32_of_bytes)
    then show ?thesis using at off by auto
  qed
qed (simp add: append_u32_def)


text \<open>Writers append, so the bytes of a field do not depend on what was written before.\<close>

lemma append_u32_eq: "append_u32 blob v = blob @ append_u32 [] v"
  by (simp add: append_u32_def)

lemma append_u64_eq: "append_u64 blob v = blob @ append_u64 [] v"
  unfolding append_u64_def using append_u32_eq by (metis append.assoc)

lemma append_guid_eq: "append_guid blob v = blob @ append_guid [] v"
  unfolding append_guid_def using append_u32_eq by (metis append.assoc)

lemma append_u64_parts: "append_u64 [] v =
    append_u32 [] (ucast (v AND 0xffffffff)) @ append_u32 [] (ucast (drop_bit 32 v AND 0xffffffff))"
  unfolding append_u64_def by (rule append_u32_eq)

lemma u32_width [simp]: "length (append_u32 [] v) = 4"
  by (simp add: append_u32_def)

interpretation codec_u64: byte_codec "append_u64 []" read_u64 8 "\<lambda>v. True"
proof
  fix v :: u64 and offset blob rest
  let ?l = "ucast (v AND 0xffffffff) :: u32" and ?h = "ucast (drop_bit 32 v AND 0xffffffff) :: u32"
  assume "drop offset blob = append_u64 [] v @ rest"
  then have at: "drop offset blob = append_u32 [] ?l @ (append_u32 [] ?h @ rest)"
    by (simp only: append_u64_parts append.assoc)
  have "read_u32 blob offset = Some (?l, offset + 4)" by (rule codec_u32.get_put[OF _ at]) simp
  moreover have "read_u32 blob (offset + 4) = Some (?h, offset + 4 + 4)"
    by (rule codec_u32.get_put[OF _ codec_u32.rest_after[OF _ at]]) simp_all
  ultimately show "read_u64 blob offset = Some (v, offset + 8)"
    using halves_of_u64[of v] by (simp add: read_u64_def)
next
  fix v :: u64 and offset offset' blob
  assume "read_u64 blob offset = Some (v, offset')"
  then obtain l h o1 where l: "read_u32 blob offset = Some (l, o1)" and h: "read_u32 blob o1 = Some (h, offset')"
    and v: "v = ucast l OR push_bit 32 (ucast h)"
    by (auto simp: read_u64_def split: option.splits)
  have "append_u64 [] v = append_u32 [] l @ append_u32 [] h"
    unfolding append_u64_parts v u64_of_halves ..
  then show "True \<and> offset' = offset + 8 \<and> (\<exists>rest. drop offset blob = append_u64 [] v @ rest)"
    using codec_u32.get_rest[OF l] codec_u32.get_rest[OF h] by auto
qed (simp add: append_u64_parts)

lemma bytes_of_u16:
  fixes v :: u16
  shows "ucast (ucast (ucast (v AND 0xff) :: u8) OR push_bit 8 (ucast (ucast (drop_bit 8 v AND 0xff) :: u8)) :: u32) = v"
  unfolding and_ff by (rule bit_word_eqI) (auto simp: bit_simps)

lemma u16_of_bytes:
  fixes a b :: u8
  defines "v \<equiv> (ucast (ucast a OR push_bit 8 (ucast b) :: u32) :: u16)"
  shows "ucast (v AND 0xff) = a" "ucast (drop_bit 8 v AND 0xff) = b"
  unfolding and_ff v_def by (rule bit_word_eqI, auto simp: bit_simps dest: bit_imp_le_length)+

lemma append_guid_parts: "append_guid [] v = append_u32 [] (data1 v) @
    [ucast (data2 v AND 0xff), ucast (drop_bit 8 (data2 v) AND 0xff),
     ucast (data3 v AND 0xff), ucast (drop_bit 8 (data3 v) AND 0xff)] @ data4 v"
  by (simp add: append_guid_def)

interpretation codec_guid: byte_codec "append_guid []" read_guid 16 guid_wf
proof
  fix v :: guid and offset blob rest
  let ?tail = "[ucast (data2 v AND 0xff), ucast (drop_bit 8 (data2 v) AND 0xff),
     ucast (data3 v AND 0xff), ucast (drop_bit 8 (data3 v) AND 0xff)] @ data4 v :: u8 list"
  assume wf: "guid_wf v" and all: "drop offset blob = append_guid [] v @ rest"
  have at: "drop offset blob = append_u32 [] (data1 v) @ (?tail @ rest)"
    using all by (simp only: append_guid_parts append.assoc)
  have at4: "drop (offset + 4) blob = ?tail @ rest"
    by (rule codec_u32.rest_after[OF _ at]) simp
  have first: "read_u32 blob offset = Some (data1 v, offset + 4)"
    by (rule codec_u32.get_put[OF _ at]) simp
  have len: "length ?tail = 12" "length (append_guid [] v) = 16"
    using wf by (simp_all add: guid_wf_def append_guid_parts)
  have bytes: "blob ! (offset + 4 + i) = ?tail ! i" if "i < 4" for i
    by (rule nth_of_drop[OF at4]) (use that len in simp)
  have d4: "take 8 (drop (offset + 8) blob) = data4 v"
  proof -
    have "drop (offset + 8) blob = drop 4 (drop (offset + 4) blob)" by (simp add: add.commute)
    then show ?thesis unfolding at4 using wf by (simp add: guid_wf_def)
  qed
  have at5: "blob ! (offset + 5) = ?tail ! 1" "blob ! (offset + 4) = ?tail ! 0"
    "blob ! (offset + 6) = ?tail ! 2" "blob ! (offset + 7) = ?tail ! 3"
    using bytes[of 0] bytes[of 1] bytes[of 2] bytes[of 3] by (simp_all add: add.commute)
  have "has_bytes blob offset 16" "has_bytes blob (offset + 4) 12"
    using has_bytes_drop[OF all len(2)] has_bytes_drop[OF at4 len(1)] by simp_all
  then show "read_guid blob offset = Some (v, offset + 16)"
    using first d4 at5 bytes_of_u16[of "data2 v"] bytes_of_u16[of "data3 v"]
    by (simp add: read_guid_def Let_def add.assoc add.commute[of offset])
next
  fix v :: guid and offset offset' blob
  assume run: "read_guid blob offset = Some (v, offset')"
  then obtain o1 where d1: "read_u32 blob offset = Some (data1 v, o1)" and has: "has_bytes blob o1 12"
    and v: "data2 v = ucast (ucast (blob ! o1) OR push_bit 8 (ucast (blob ! (o1 + 1))) :: u32)"
      "data3 v = ucast (ucast (blob ! (o1 + 2)) OR push_bit 8 (ucast (blob ! (o1 + 3))) :: u32)"
      "data4 v = take 8 (drop (o1 + 4) blob)" and off: "offset' = o1 + 12"
    by (auto simp: read_guid_def Let_def add.assoc eval_nat_numeral split: option.splits if_splits)
  have "4 \<le> length (drop o1 blob)" using has by (simp add: has_bytes_def)
  from four_elements[OF this] obtain a b c d rest where at: "drop o1 blob = [a, b, c, d] @ rest" by blast
  have els: "blob ! o1 = a" "blob ! (o1 + 1) = b" "blob ! (o1 + 2) = c" "blob ! (o1 + 3) = d"
    using nth_of_drop[OF at, of 0] nth_of_drop[OF at, of 1] nth_of_drop[OF at, of 2] nth_of_drop[OF at, of 3]
    by simp_all
  have "drop (o1 + 4) blob = drop 4 (drop o1 blob)" by (simp add: add.commute)
  then have rest: "drop (o1 + 4) blob = rest" by (simp add: at)
  have wf: "guid_wf v"
    unfolding guid_wf_def v using has by (simp add: has_bytes_def) linarith
  have "drop o1 blob = ([a, b, c, d] @ data4 v) @ drop 8 rest" by (simp add: at v(3) rest)
  then have "drop offset blob = append_u32 [] (data1 v) @ ([a, b, c, d] @ data4 v) @ drop 8 rest"
    using codec_u32.get_rest(3)[OF d1] by simp
  moreover have "append_guid [] v = append_u32 [] (data1 v) @ [a, b, c, d] @ data4 v"
    unfolding append_guid_parts v(1,2) els u16_of_bytes ..
  ultimately show "guid_wf v \<and> offset' = offset + 16 \<and> (\<exists>rest. drop offset blob = append_guid [] v @ rest)"
    using wf off codec_u32.get_rest(2)[OF d1] by auto
qed (simp add: append_guid_parts guid_wf_def)

section \<open>The profile table\<close>

definition profile_valid :: "temporary_display_profile \<Rightarrow> bool" where
  "profile_valid p \<longleftrightarrow> guid_wf (tdp_container_id p) \<and>
     valid_temporary_display_profile (tdp_display_id p) (tdp_connector_index p)"

lemma append_profile_parts: "append_profile p [] = append_u64 [] (tdp_display_id p) @
    append_u32 [] (tdp_connector_index p) @ append_guid [] (tdp_container_id p) @
    append_u32 [] (tdp_edid_product_code p) @ append_u32 [] (tdp_edid_serial_number p)"
  unfolding append_profile_def using append_u32_eq append_guid_eq by (metis append.assoc)

lemma append_profile_eq: "append_profile p blob = blob @ append_profile p []"
  unfolding append_profile_def using append_u32_eq append_u64_eq append_guid_eq
  by (metis append.assoc append_Nil)

interpretation codec_profile: byte_codec "\<lambda>p. append_profile p []" read_profile 36 profile_valid
proof
  fix p offset blob rest
  assume ok: "profile_valid p" and all: "drop offset blob = append_profile p [] @ rest"
  note at0 = all[unfolded append_profile_parts append.assoc]
  note at1 = codec_u64.rest_after[OF TrueI at0]
  note at2 = codec_u32.rest_after[OF TrueI at1]
  have wf: "guid_wf (tdp_container_id p)" using ok by (simp add: profile_valid_def)
  note at3 = codec_guid.rest_after[OF wf at2]
  note at4 = codec_u32.rest_after[OF TrueI at3]
  show "read_profile blob offset = Some (p, offset + 36)"
    using codec_u64.get_put[OF TrueI at0] codec_u32.get_put[OF TrueI at1] codec_guid.get_put[OF wf at2]
      codec_u32.get_put[OF TrueI at3] codec_u32.get_put[OF TrueI at4] ok
    by (simp add: read_profile_def profile_valid_def)
next
  fix p offset offset' blob
  assume "read_profile blob offset = Some (p, offset')"
  then obtain o1 o2 o3 o4 where
    d: "read_u64 blob offset = Some (tdp_display_id p, o1)" and
    c: "read_u32 blob o1 = Some (tdp_connector_index p, o2)" and
    g: "read_guid blob o2 = Some (tdp_container_id p, o3)" and
    e: "read_u32 blob o3 = Some (tdp_edid_product_code p, o4)" and
    n: "read_u32 blob o4 = Some (tdp_edid_serial_number p, offset')" and
    ok: "valid_temporary_display_profile (tdp_display_id p) (tdp_connector_index p)"
    by (auto simp: read_profile_def split: option.splits if_splits)
  show "profile_valid p \<and> offset' = offset + 36 \<and>
      (\<exists>rest. drop offset blob = append_profile p [] @ rest)"
    using codec_u64.get_rest[OF d] codec_u32.get_rest[OF c] codec_guid.get_rest[OF g]
      codec_u32.get_rest[OF e] codec_u32.get_rest[OF n] ok
    by (auto simp: append_profile_parts profile_valid_def)
next
  fix p assume "profile_valid p"
  then show "length (append_profile p []) = 36"
    using codec_u64.put_width codec_guid.put_width by (simp add: append_profile_parts profile_valid_def)
qed

lemma fold_append_profile: "fold append_profile ps blob = blob @ concat (map (\<lambda>p. append_profile p []) ps)"
proof (induction ps arbitrary: blob)
  case (Cons p ps)
  then show ?case using append_profile_eq[of p blob] by simp
qed simp

lemma serialize_parts: "serialize_temporary_display_profiles ps =
    append_u32 [] 1 @ append_u32 [] (of_nat (length ps)) @ concat (map (\<lambda>p. append_profile p []) ps)"
  unfolding serialize_temporary_display_profiles_def fold_append_profile append_u32_eq[of "append_u32 [] 1"]
  by simp

text \<open>
  C30: The codec of the persisted profile table is exact: parsing a blob yields a list of profiles
  exactly when the list has at most eight profiles, each with a non-zero display id and a
  temporary connector index, and the blob is byte for byte their serialisation. So what the
  driver writes it reads back, a blob of another schema version, count or length is rejected,
  and no two blobs stand for the same table.
\<close>

theorem profiles_blob_exact:
  "parse_temporary_display_profiles_blob blob = Some ps \<longleftrightarrow>
     length ps \<le> 8 \<and> list_all profile_valid ps \<and> blob = serialize_temporary_display_profiles ps"
proof
  assume "parse_temporary_display_profiles_blob blob = Some ps"
  then obtain o1 n o2 where v: "read_u32 blob 0 = Some (1, o1)" and n: "read_u32 blob o1 = Some (n, o2)"
    and le: "n \<le> 8" and len: "length blob = 8 + unat n * 36"
    and many: "read_many read_profile (unat n) blob o2 = Some ps"
    by (auto simp: parse_temporary_display_profiles_blob_def not_less split: option.splits if_splits)
  from codec_profile.many_sound[OF many] obtain rest where ps: "list_all profile_valid ps" "length ps = unat n"
    and rest: "drop o2 blob = concat (map (\<lambda>p. append_profile p []) ps) @ rest" by blast
  have blob: "blob = append_u32 [] 1 @ append_u32 [] n @ concat (map (\<lambda>p. append_profile p []) ps) @ rest"
    using codec_u32.get_rest(3)[OF v] codec_u32.get_rest(3)[OF n] rest by simp
  have "length rest = 0"
    using arg_cong[OF blob, of length] codec_profile.many_width[OF ps(1)] ps(2) len by simp
  then have "blob = serialize_temporary_display_profiles ps"
    using blob unfolding serialize_parts ps(2) by simp
  then show "length ps \<le> 8 \<and> list_all profile_valid ps \<and> blob = serialize_temporary_display_profiles ps"
    using ps le by (simp add: word_le_nat_alt)
next
  assume ps: "length ps \<le> 8 \<and> list_all profile_valid ps \<and> blob = serialize_temporary_display_profiles ps"
  let ?n = "of_nat (length ps) :: u32"
  have n: "unat ?n = length ps" using ps by (simp add: unat_of_nat take_bit_nat_eq_self)
  have at0: "drop 0 blob = append_u32 [] 1 @ (append_u32 [] ?n @ concat (map (\<lambda>p. append_profile p []) ps))"
    using ps by (simp add: serialize_parts)
  note at1 = codec_u32.rest_after[OF TrueI at0]
  have "drop (0 + 4 + 4) blob = concat (map (\<lambda>p. append_profile p []) ps) @ []"
    using codec_u32.rest_after[OF TrueI at1] by simp
  then have "read_many read_profile (length ps) blob (0 + 4 + 4) = Some ps"
    by (rule codec_profile.many_put[rotated]) (use ps in simp)
  moreover have "length blob = 8 + unat ?n * 36"
    using ps codec_profile.many_width[of ps] n by (simp add: serialize_parts)
  moreover have "\<not> 8 < ?n" using ps n by (simp add: word_less_nat_alt)
  ultimately show "parse_temporary_display_profiles_blob blob = Some ps"
    using codec_u32.get_put[OF TrueI at0] codec_u32.get_put[OF TrueI at1] n
    by (simp add: parse_temporary_display_profiles_blob_def)
qed

section \<open>Updating the table\<close>

lemma replace_first_cases:
  "replace_first P x xs = (if list_ex P xs
     then Some (takeWhile (\<lambda>y. \<not> P y) xs @ x # tl (dropWhile (\<lambda>y. \<not> P y) xs)) else None)"
  by (induction xs) auto

definition profiles_unique :: "temporary_display_profile list \<Rightarrow> bool" where
  "profiles_unique ps \<longleftrightarrow> list_all profile_valid ps \<and> distinct (map tdp_display_id ps) \<and>
     distinct (map tdp_connector_index ps)"

lemma reservations_fold:
  "omap_wf m \<Longrightarrow> omap_wf (fold (\<lambda>p m. omap_emplace (tdp_display_id p) (tdp_connector_index p) m) ps m) \<and>
   omap_find (fold (\<lambda>p m. omap_emplace (tdp_display_id p) (tdp_connector_index p) m) ps m) d =
     (case omap_find m d of Some c \<Rightarrow> Some c
      | None \<Rightarrow> map_option tdp_connector_index (find (\<lambda>p. tdp_display_id p = d) ps))"
  by (induction ps arbitrary: m) (auto simp: omap_emplace_def split: option.split)

lemma reservations_find: "omap_find (temporary_connector_reservations ps) d =
    map_option tdp_connector_index (find (\<lambda>p. tdp_display_id p = d) ps)"
  using reservations_fold[of "[]" ps d] by (simp add: temporary_connector_reservations_def)

lemma find_unique:
  "distinct (map tdp_display_id ps) \<Longrightarrow> find (\<lambda>p. tdp_display_id p = d) ps = Some p \<longleftrightarrow>
     p \<in> set ps \<and> tdp_display_id p = d"
  by (induction ps) auto

text \<open>The entries an upsert keeps, and what it makes of them.\<close>

lemma upsert_result:
  assumes "profiles_unique ps" and "profile_valid p"
    and "upsert_temporary_display_profile ps p = Some qs"
  shows "profiles_unique qs \<and> set qs = insert p {q \<in> set ps. tdp_display_id q \<noteq> tdp_display_id p \<and>
      tdp_connector_index q \<noteq> tdp_connector_index p}"
proof -
  let ?same = "\<lambda>e. tdp_display_id e = tdp_display_id p"
  define kept where "kept = filter (\<lambda>e. \<not> (tdp_connector_index e = tdp_connector_index p \<and> \<not> ?same e)) ps"
  have uniq: "distinct (map tdp_display_id kept)" "distinct (map tdp_connector_index kept)" "list_all profile_valid kept"
    using assms(1) by (auto simp: kept_def profiles_unique_def distinct_map_filter list_all_iff)
  have keep: "\<forall>e \<in> set kept. tdp_connector_index e = tdp_connector_index p \<longrightarrow> ?same e" by (simp add: kept_def)
  show ?thesis
  proof (cases "list_ex ?same kept")
    case True
    then obtain xs y ys where split: "kept = xs @ y # ys" and y: "?same y" and none: "\<forall>e \<in> set xs. \<not> ?same e"
      using split_list_first_prop[of kept ?same] by (auto simp: list_ex_iff)
    have qs: "qs = xs @ p # ys"
      using assms(2,3) True y none unfolding upsert_temporary_display_profile_def kept_def[symmetric]
      by (simp add: profile_valid_def replace_first_cases split Let_def)
    have others: "\<forall>e \<in> set xs \<union> set ys. \<not> ?same e" using uniq(1) y none unfolding split by auto (metis imageI)
    then have conn: "\<forall>e \<in> set xs \<union> set ys. tdp_connector_index e \<noteq> tdp_connector_index p"
      using keep by (simp add: split)
    have "set xs \<union> set ys = {e \<in> set kept. \<not> ?same e}" using others y by (auto simp: split)
    then have "set xs \<union> set ys = {q \<in> set ps. \<not> ?same q \<and> tdp_connector_index q \<noteq> tdp_connector_index p}"
      by (auto simp: kept_def)
    moreover have "tdp_connector_index p \<notin> tdp_connector_index ` set xs"
      "tdp_connector_index p \<notin> tdp_connector_index ` set ys"
      using conn by (metis UnCI imageE)+
    then have "profiles_unique qs"
      using uniq[unfolded split] y assms(2) by (simp add: qs profiles_unique_def)
    ultimately show ?thesis by (simp add: qs)
  next
    case False
    then have none: "\<forall>e \<in> set kept. \<not> ?same e" by (auto simp: list_ex_iff)
    have qs: "qs = kept @ [p]"
      using assms(2,3) False unfolding upsert_temporary_display_profile_def kept_def[symmetric]
      by (auto simp: profile_valid_def replace_first_cases Let_def split: if_splits)
    have conn: "\<forall>e \<in> set kept. tdp_connector_index e \<noteq> tdp_connector_index p"
      using none by (auto simp: kept_def)
    have "set kept = {q \<in> set ps. \<not> ?same q \<and> tdp_connector_index q \<noteq> tdp_connector_index p}"
      using none by (auto simp: kept_def)
    moreover have "tdp_connector_index p \<notin> tdp_connector_index ` set kept"
      "tdp_display_id p \<notin> tdp_display_id ` set kept"
      using conn none by (metis imageE)+
    then have "profiles_unique qs" using uniq assms(2) by (simp add: qs profiles_unique_def)
    ultimately show ?thesis by (simp add: qs)
  qed
qed

text \<open>
  Recording a retained display keeps the table a partial injection from displays to
  connectors. On a table of valid profiles with distinct displays and connectors, an upsert that
  succeeds gives such a table again: the new profile, and every old one of another display on
  another connector. The reservations read off the table map the display to its connector, no
  other display to that connector, and leave those other displays alone.
\<close>

theorem upsert_keeps_reservations_injective:
  assumes "profiles_unique ps" and "profile_valid p"
    and "upsert_temporary_display_profile ps p = Some qs"
  defines "before \<equiv> omap_find (temporary_connector_reservations ps)"
    and "after \<equiv> omap_find (temporary_connector_reservations qs)"
  shows "profiles_unique qs \<and> after (tdp_display_id p) = Some (tdp_connector_index p) \<and>
    (\<forall>d. d \<noteq> tdp_display_id p \<longrightarrow>
       after d = (if before d = Some (tdp_connector_index p) then None else before d))"
proof -
  note res = upsert_result[OF assms(1-3)]
  have before: "before d = Some c \<longleftrightarrow> (\<exists>q \<in> set ps. tdp_display_id q = d \<and> tdp_connector_index q = c)" for d c
    using find_unique[of ps d] assms(1)
    by (auto simp: before_def reservations_find profiles_unique_def)
  have after: "after d = Some c \<longleftrightarrow> (\<exists>q \<in> set qs. tdp_display_id q = d \<and> tdp_connector_index q = c)" for d c
    using find_unique[of qs d] res
    by (auto simp: after_def reservations_find profiles_unique_def)
  have new: "after (tdp_display_id p) = Some (tdp_connector_index p)" using after res by auto
  have "after d = (if before d = Some (tdp_connector_index p) then None else before d)"
    if d: "d \<noteq> tdp_display_id p" for d
  proof -
    have some: "after d = Some c \<longleftrightarrow> before d = Some c \<and> c \<noteq> tdp_connector_index p" for c
      unfolding after before using res d by auto
    show ?thesis
    proof (cases "after d")
      case None
      then have "before d = None \<or> before d = Some (tdp_connector_index p)"
        using some by (cases "before d") auto
      then show ?thesis using None by auto
    next
      case (Some c)
      then have "before d = Some c" "c \<noteq> tdp_connector_index p" using some[of c] by blast+
      then show ?thesis using Some by simp
    qed
  qed
  then show ?thesis using res new by blast
qed

definition sample_profile :: "u64 \<Rightarrow> u32 \<Rightarrow> temporary_display_profile" where
  "sample_profile display_id connector_index =
     \<lparr>tdp_display_id = display_id, tdp_connector_index = connector_index, tdp_container_id = zero_guid,
      tdp_edid_product_code = 7, tdp_edid_serial_number = 9\<rparr>"

theorem upsert_keeps_reservations_injective_witness:
  "map_option temporary_connector_reservations
     (upsert_temporary_display_profile [sample_profile 1 5, sample_profile 2 6] (sample_profile 3 5)) =
   Some [(2, 6), (3, 5)] \<and>
   omap_find (temporary_connector_reservations [sample_profile 2 6, sample_profile 3 5]) 1 = None"
proof -
  let ?ps = "[sample_profile 1 5, sample_profile 2 6]" and ?qs = "[sample_profile 2 6, sample_profile 3 5]"
  have 1: "profiles_unique ?ps" "profile_valid (sample_profile 3 5)" by code_simp+
  have 2: "upsert_temporary_display_profile ?ps (sample_profile 3 5) = Some ?qs" by code_simp
  have 3: "temporary_connector_reservations ?qs = [(2, 6), (3, 5)]" by code_simp
  have "omap_find (temporary_connector_reservations ?ps) 1 = Some 5" by code_simp
  then have "omap_find (temporary_connector_reservations ?qs) 1 = None"
    using upsert_keeps_reservations_injective[OF 1 2] by (simp add: sample_profile_def)
  then show ?thesis using 2 3 by simp
qed

end
