(* ===== verification/Frame_Transport.thy ===== *)
theory Frame_Transport
  imports Lease_Store_Steps
begin

text \<open>
  The wire contract of the frame transport (\<open>frame_transport_protocol.h\<close>,
  \<open>frame_transport_protocol.cpp\<close>): target queries, ring registrations, replies and clears, and
  their validation. The \<open>size\<close> fields hold the structure sizes the header asserts.
\<close>

section \<open>Messages\<close>

abbreviation (input) kFrameRingWireVersion :: u32 where "kFrameRingWireVersion \<equiv> 1"
abbreviation (input) kFrameRingMetadataBytes :: u32 where "kFrameRingMetadataBytes \<equiv> 4096"
abbreviation (input) kFrameRingSlotCount :: u32 where "kFrameRingSlotCount \<equiv> 4"
abbreviation (input) kTargetRequestBytes :: u32 where "kTargetRequestBytes \<equiv> 72"
abbreviation (input) kTargetBytes :: u32 where "kTargetBytes \<equiv> 72"
abbreviation (input) kRegisterRequestBytes :: u32 where "kRegisterRequestBytes \<equiv> 176"
abbreviation (input) kReplyBytes :: u32 where "kReplyBytes \<equiv> 48"

record frame_transport_target_request =
  ftr_api_namespace :: guid
  ftr_version :: u32
  ftr_size :: u32
  ftr_lease_id :: u64
  ftr_display_id :: u64
  ftr_owner_capability :: owner_capability

record frame_transport_target =
  ftt_api_namespace :: guid
  ftt_version :: u32
  ftt_size :: u32
  ftt_lease_id :: u64
  ftt_display_id :: u64
  ftt_display_generation :: u64
  ftt_width :: u32
  ftt_height :: u32
  ftt_adapter_luid :: adapter_luid
  ftt_format :: u32
  ftt_color_space :: u32

record frame_ring_register_request =
  frr_api_namespace :: guid
  frr_version :: u32
  frr_size :: u32
  frr_lease_id :: u64
  frr_display_id :: u64
  frr_display_generation :: u64
  frr_client_cookie :: u64
  frr_owner_capability :: owner_capability
  frr_adapter_luid :: adapter_luid
  frr_width :: u32
  frr_height :: u32
  frr_format :: u32
  frr_color_space :: u32
  frr_slot_count :: u32
  frr_metadata_bytes :: u32
  frr_texture_handles :: "u64 list"
  frr_metadata_handle :: u64
  frr_event_handle :: u64
  frr_reserved :: u64

record frame_ring_reply =
  rep_api_namespace :: guid
  rep_version :: u32
  rep_size :: u32
  rep_client_cookie :: u64
  rep_display_generation :: u64
  rep_ring_generation :: u64

record frame_ring_clear_request =
  frc_identity :: frame_ring_reply
  frc_lease_id :: u64
  frc_display_id :: u64
  frc_owner_capability :: owner_capability
  frc_flags :: u32
  frc_reserved :: u32

text \<open>Default-initialised messages.\<close>

definition empty_reply :: frame_ring_reply where
  "empty_reply =
     \<lparr>rep_api_namespace = kApiNamespaceGuid, rep_version = kFrameRingWireVersion, rep_size = kReplyBytes,
      rep_client_cookie = 0, rep_display_generation = 0, rep_ring_generation = 0\<rparr>"

definition empty_register_request :: frame_ring_register_request where
  "empty_register_request =
     \<lparr>frr_api_namespace = kApiNamespaceGuid, frr_version = kFrameRingWireVersion,
      frr_size = kRegisterRequestBytes, frr_lease_id = 0, frr_display_id = 0,
      frr_display_generation = 0, frr_client_cookie = 0,
      frr_owner_capability = replicate kOwnerCapabilityBytes 0,
      frr_adapter_luid = \<lparr>low_part = 0, high_part = 0\<rparr>, frr_width = 0, frr_height = 0,
      frr_format = 0, frr_color_space = 0, frr_slot_count = kFrameRingSlotCount,
      frr_metadata_bytes = kFrameRingMetadataBytes, frr_texture_handles = replicate 4 0,
      frr_metadata_handle = 0, frr_event_handle = 0, frr_reserved = 0\<rparr>"

definition empty_target :: frame_transport_target where
  "empty_target =
     \<lparr>ftt_api_namespace = kApiNamespaceGuid, ftt_version = kFrameRingWireVersion, ftt_size = kTargetBytes,
      ftt_lease_id = 0, ftt_display_id = 0, ftt_display_generation = 0, ftt_width = 0, ftt_height = 0,
      ftt_adapter_luid = \<lparr>low_part = 0, high_part = 0\<rparr>, ftt_format = 0, ftt_color_space = 0\<rparr>"

section \<open>Validation\<close>

text \<open>The two surface formats: 8-bit BGRA in gamma 2.2, half-float RGBA in linear scRGB.\<close>

definition supported_format :: "u32 \<Rightarrow> u32 \<Rightarrow> bool" where
  "supported_format format color_space \<longleftrightarrow>
     (format = 87 \<and> color_space = 0) \<or> (format = 10 \<and> color_space = 1)"

definition valid_frame_transport_target_request :: "frame_transport_target_request \<Rightarrow> bool" where
  "valid_frame_transport_target_request r \<longleftrightarrow>
     is_valid_api_namespace (ftr_api_namespace r) \<and> ftr_version r = kFrameRingWireVersion \<and>
     ftr_size r = kTargetRequestBytes \<and> ftr_lease_id r \<noteq> 0 \<and> ftr_display_id r \<noteq> 0 \<and>
     list_ex (\<lambda>byte. byte \<noteq> 0) (ftr_owner_capability r)"

definition valid_frame_transport_target ::
  "frame_transport_target \<Rightarrow> frame_transport_target_request \<Rightarrow> bool" where
  "valid_frame_transport_target target request \<longleftrightarrow>
     is_valid_api_namespace (ftt_api_namespace target) \<and> ftt_version target = kFrameRingWireVersion \<and>
     ftt_size target = kTargetBytes \<and> ftt_lease_id target = ftr_lease_id request \<and>
     ftt_display_id target = ftr_display_id request \<and> ftt_display_generation target \<noteq> 0 \<and>
     ftt_width target \<ge> kMinWidth \<and> ftt_width target \<le> kMaxWidth \<and>
     ftt_height target \<ge> kMinHeight \<and> ftt_height target \<le> kMaxHeight \<and>
     (low_part (ftt_adapter_luid target) \<noteq> 0 \<or> high_part (ftt_adapter_luid target) \<noteq> 0) \<and>
     supported_format (ftt_format target) (ftt_color_space target)"

text \<open>\<open>std::adjacent_find\<close> on the sorted handles.\<close>

fun adjacent_equal :: "'a list \<Rightarrow> bool" where
  "adjacent_equal (x # y # zs) \<longleftrightarrow> x = y \<or> adjacent_equal (y # zs)"
| "adjacent_equal _ \<longleftrightarrow> False"

definition ring_handles :: "frame_ring_register_request \<Rightarrow> u64 list" where
  "ring_handles r = frr_texture_handles r @ [frr_metadata_handle r, frr_event_handle r]"

definition valid_frame_ring_request :: "frame_ring_register_request \<Rightarrow> bool" where
  "valid_frame_ring_request r \<longleftrightarrow>
     (if \<not> is_valid_api_namespace (frr_api_namespace r) \<or> frr_version r \<noteq> kFrameRingWireVersion \<or>
         frr_size r \<noteq> kRegisterRequestBytes \<or> frr_lease_id r = 0 \<or> frr_display_id r = 0 \<or>
         frr_display_generation r = 0 \<or> frr_client_cookie r = 0 \<or>
         frr_width r < kMinWidth \<or> frr_width r > kMaxWidth \<or>
         frr_height r < kMinHeight \<or> frr_height r > kMaxHeight \<or>
         frr_slot_count r \<noteq> kFrameRingSlotCount \<or> frr_metadata_bytes r \<noteq> kFrameRingMetadataBytes \<or>
         frr_metadata_handle r = 0 \<or> frr_event_handle r = 0 \<or> frr_reserved r \<noteq> 0 \<or>
         \<not> supported_format (frr_format r) (frr_color_space r)
      then False
      else
        let handles = sort (ring_handles r)
        in hd handles \<noteq> 0 \<and> last handles \<noteq> 0xffffffffffffffff \<and> \<not> adjacent_equal handles)"

definition same_frame_ring_request ::
  "frame_ring_register_request \<Rightarrow> frame_ring_register_request \<Rightarrow> bool" where
  "same_frame_ring_request a b \<longleftrightarrow>
     frr_api_namespace a = frr_api_namespace b \<and> frr_version a = frr_version b \<and>
     frr_size a = frr_size b \<and> frr_lease_id a = frr_lease_id b \<and>
     frr_display_id a = frr_display_id b \<and>
     frr_display_generation a = frr_display_generation b \<and>
     frr_client_cookie a = frr_client_cookie b \<and>
     frr_owner_capability a = frr_owner_capability b \<and>
     low_part (frr_adapter_luid a) = low_part (frr_adapter_luid b) \<and>
     high_part (frr_adapter_luid a) = high_part (frr_adapter_luid b) \<and>
     frr_width a = frr_width b \<and> frr_height a = frr_height b \<and> frr_format a = frr_format b \<and>
     frr_color_space a = frr_color_space b \<and> frr_slot_count a = frr_slot_count b \<and>
     frr_metadata_bytes a = frr_metadata_bytes b \<and>
     frr_texture_handles a = frr_texture_handles b \<and>
     frr_metadata_handle a = frr_metadata_handle b \<and> frr_event_handle a = frr_event_handle b \<and>
     frr_reserved a = frr_reserved b"

definition valid_frame_ring_reply :: "frame_ring_reply \<Rightarrow> frame_ring_register_request \<Rightarrow> bool" where
  "valid_frame_ring_reply reply request \<longleftrightarrow>
     is_valid_api_namespace (rep_api_namespace reply) \<and> rep_version reply = kFrameRingWireVersion \<and>
     rep_size reply = kReplyBytes \<and> rep_client_cookie reply = frr_client_cookie request \<and>
     rep_display_generation reply = frr_display_generation request \<and> rep_ring_generation reply \<noteq> 0"

end
