(* ===== verification/Frame_Ring.thy ===== *)
theory Frame_Ring
  imports Frame_Transport
begin

text \<open>
  The frame rings (\<open>frame_ring_lifetime.h\<close>, \<open>frame_ring_lifetime.cpp\<close>, \<open>frame_ring_server.h\<close>,
  \<open>frame_ring_server.cpp\<close>). A registered ring shares its publication gate with every snapshot a
  producer holds, so gates live in a store of their own and rings and snapshots refer to them by
  index: disabling a gate is seen through every snapshot. The display store is reached only
  through \<open>authorize_temporary_display_owner\<close>, which is an argument of the operations; the
  native importer of the GPU resources is an argument too, an import that throws is \<open>None\<close>.
\<close>

section \<open>Gates, snapshots and the ring table\<close>

record frame_ring_owner =
  fro_display :: lease_display_request
  fro_display_generation :: u64
  fro_capability :: owner_capability

record frame_ring_publication =
  gate_enabled :: bool
  gate_sequence :: u64

record 'r frame_ring_snapshot =
  rs_display_generation :: u64
  rs_ring_generation :: u64
  rs_resources :: "'r option"
  rs_publication :: "nat option"

record 'r ring_entry =
  re_owner :: frame_ring_owner
  re_snapshot :: "'r frame_ring_snapshot"

record 'r frame_ring_lifetime =
  lt_rings :: "(u64, 'r ring_entry) omap"
  lt_next_ring_generation :: u64
  lt_gates :: "frame_ring_publication list"

datatype frame_ring_registration_status =
    RegisterSuccess | OwnerUnavailable | InvalidResources | GenerationExhausted

type_synonym authority =
  "lease_display_request \<Rightarrow> owner_capability \<Rightarrow> time_point \<Rightarrow> temporary_display_record option"

text \<open>The authority the store gives.\<close>

definition store_authority :: "display_store \<Rightarrow> authority" where
  "store_authority s request capability now = authorize_temporary_display_owner request capability now s"

definition initial_lifetime :: "'r frame_ring_lifetime" where
  "initial_lifetime = \<lparr>lt_rings = [], lt_next_ring_generation = 1, lt_gates = []\<rparr>"

definition empty_snapshot :: "'r frame_ring_snapshot" where
  "empty_snapshot =
     \<lparr>rs_display_generation = 0, rs_ring_generation = 0, rs_resources = None, rs_publication = None\<rparr>"

definition new_gate :: frame_ring_publication where
  "new_gate = \<lparr>gate_enabled = True, gate_sequence = 0\<rparr>"

text \<open>\<open>retire_publication\<close>: disables the gate of the snapshot, if it has one.\<close>

definition retire_publication ::
  "'r frame_ring_snapshot \<Rightarrow> frame_ring_publication list \<Rightarrow> frame_ring_publication list" where
  "retire_publication snap gates =
     (case rs_publication snap of
        None \<Rightarrow> gates
      | Some p \<Rightarrow> gates[p := (gates ! p)\<lparr>gate_enabled := False\<rparr>])"

definition can_publish :: "frame_ring_publication list \<Rightarrow> 'r frame_ring_snapshot \<Rightarrow> bool" where
  "can_publish gates snap =
     (case rs_publication snap of None \<Rightarrow> False | Some p \<Rightarrow> gate_enabled (gates ! p))"

text \<open>The compare-and-swap loop of \<open>next_sequence\<close>, as the one atomic step it performs.\<close>

definition gate_next_sequence :: "frame_ring_publication \<Rightarrow> (u64 \<times> frame_ring_publication) option" where
  "gate_next_sequence gate =
     (if gate_sequence gate < 0xffffffffffffffff - 1
      then Some (gate_sequence gate + 1, gate\<lparr>gate_sequence := gate_sequence gate + 1\<rparr>)
      else None)"

definition snapshot_next_sequence ::
  "'r frame_ring_snapshot \<Rightarrow> frame_ring_publication list \<Rightarrow>
   (u64 \<times> frame_ring_publication list) option" where
  "snapshot_next_sequence snap gates =
     (if \<not> can_publish gates snap then None
      else
        (case rs_publication snap of
           None \<Rightarrow> None
         | Some p \<Rightarrow> map_option (\<lambda>(n, gate). (n, gates[p := gate])) (gate_next_sequence (gates ! p))))"

text \<open>The key with which an acquired slot is released when nothing was published.\<close>

definition release_unpublished_slot ::
  "'r frame_ring_snapshot \<Rightarrow> u64 \<Rightarrow> frame_ring_publication list \<Rightarrow> u64 option" where
  "release_unpublished_slot snap acquired_key gates =
     (case rs_publication snap of
        None \<Rightarrow> None
      | Some _ \<Rightarrow> Some (if can_publish gates snap then acquired_key else 0))"

section \<open>FrameRingLifetime\<close>

definition ring_authorized :: "authority \<Rightarrow> frame_ring_owner \<Rightarrow> time_point \<Rightarrow> bool" where
  "ring_authorized authorize owner now =
     (case authorize (fro_display owner) (fro_capability owner) now of
        None \<Rightarrow> False
      | Some display \<Rightarrow>
          fro_display_generation owner \<noteq> 0 \<and> tdr_generation display = fro_display_generation owner)"

definition retire_entry :: "u64 \<Rightarrow> 'r ring_entry \<Rightarrow> 'r frame_ring_lifetime \<Rightarrow> 'r frame_ring_lifetime" where
  "retire_entry display_id entry lt =
     lt\<lparr>lt_gates := retire_publication (re_snapshot entry) (lt_gates lt),
        lt_rings := omap_erase display_id (lt_rings lt)\<rparr>"

fun retire_unavailable_from ::
  "authority \<Rightarrow> time_point \<Rightarrow> (u64 \<times> 'r ring_entry) list \<Rightarrow> nat \<Rightarrow> 'r frame_ring_lifetime \<Rightarrow>
   'r frame_ring_lifetime \<times> nat" where
  "retire_unavailable_from authorize now [] retired lt = (lt, retired)"
| "retire_unavailable_from authorize now ((display_id, entry) # entries) retired lt =
     (if \<not> ring_authorized authorize (re_owner entry) now
      then retire_unavailable_from authorize now entries (retired + 1) (retire_entry display_id entry lt)
      else retire_unavailable_from authorize now entries retired lt)"

definition retire_unavailable ::
  "authority \<Rightarrow> time_point \<Rightarrow> 'r frame_ring_lifetime \<Rightarrow> 'r frame_ring_lifetime \<times> nat" where
  "retire_unavailable authorize now lt = retire_unavailable_from authorize now (lt_rings lt) 0 lt"

definition register_ring ::
  "authority \<Rightarrow> frame_ring_owner \<Rightarrow> 'r option \<Rightarrow> time_point \<Rightarrow> 'r frame_ring_lifetime \<Rightarrow>
   'r frame_ring_lifetime \<times> frame_ring_registration_status \<times> u64" where
  "register_ring authorize owner resources now lt =
     (if \<not> ring_authorized authorize owner now then (lt, OwnerUnavailable, 0)
      else if resources = None then (lt, InvalidResources, 0)
      else if lt_next_ring_generation lt = 0 then (lt, GenerationExhausted, 0)
      else
        let lt1 = fst (retire_unavailable authorize now lt);
            generation = lt_next_ring_generation lt1;
            display_id = ldr_display_id (fro_display owner);
            gates1 = (case omap_find (lt_rings lt1) display_id of
                        None \<Rightarrow> lt_gates lt1
                      | Some previous \<Rightarrow> retire_publication (re_snapshot previous) (lt_gates lt1));
            publication = length gates1
        in (lt1\<lparr>lt_rings := omap_insert display_id
                  \<lparr>re_owner = owner,
                   re_snapshot =
                     \<lparr>rs_display_generation = fro_display_generation owner,
                      rs_ring_generation = generation, rs_resources = resources,
                      rs_publication = Some publication\<rparr>\<rparr> (lt_rings lt1),
                lt_next_ring_generation := generation + 1,
                lt_gates := gates1 @ [new_gate]\<rparr>,
            RegisterSuccess, generation))"

definition retire_ring ::
  "u64 \<Rightarrow> u64 \<Rightarrow> u64 \<Rightarrow> 'r frame_ring_lifetime \<Rightarrow> 'r frame_ring_lifetime \<times> bool" where
  "retire_ring display_id display_generation ring_generation lt =
     (case omap_find (lt_rings lt) display_id of
        None \<Rightarrow> (lt, False)
      | Some entry \<Rightarrow>
          if rs_display_generation (re_snapshot entry) \<noteq> display_generation \<or>
             rs_ring_generation (re_snapshot entry) \<noteq> ring_generation
          then (lt, False) else (retire_entry display_id entry lt, True))"

definition clear_ring ::
  "authority \<Rightarrow> frame_ring_owner \<Rightarrow> u64 \<Rightarrow> time_point \<Rightarrow> 'r frame_ring_lifetime \<Rightarrow>
   'r frame_ring_lifetime \<times> bool" where
  "clear_ring authorize owner ring_generation now lt =
     (if ring_authorized authorize owner now
      then retire_ring (ldr_display_id (fro_display owner)) (fro_display_generation owner)
             ring_generation lt
      else (lt, False))"

definition ring_snapshot ::
  "authority \<Rightarrow> u64 \<Rightarrow> u64 \<Rightarrow> time_point \<Rightarrow> 'r frame_ring_lifetime \<Rightarrow>
   'r frame_ring_lifetime \<times> 'r frame_ring_snapshot" where
  "ring_snapshot authorize display_id display_generation now lt =
     (case omap_find (lt_rings lt) display_id of
        None \<Rightarrow> (lt, empty_snapshot)
      | Some entry \<Rightarrow>
          if fro_display_generation (re_owner entry) \<noteq> display_generation then (lt, empty_snapshot)
          else if \<not> ring_authorized authorize (re_owner entry) now
          then (retire_entry display_id entry lt, empty_snapshot)
          else (lt, re_snapshot entry))"

definition retire_display :: "u64 \<Rightarrow> u64 \<Rightarrow> 'r frame_ring_lifetime \<Rightarrow> 'r frame_ring_lifetime \<times> bool" where
  "retire_display display_id display_generation lt =
     (case omap_find (lt_rings lt) display_id of
        None \<Rightarrow> (lt, False)
      | Some entry \<Rightarrow>
          if rs_display_generation (re_snapshot entry) \<noteq> display_generation then (lt, False)
          else (retire_entry display_id entry lt, True))"

definition reset_rings :: "'r frame_ring_lifetime \<Rightarrow> 'r frame_ring_lifetime" where
  "reset_rings lt =
     lt\<lparr>lt_gates := fold (\<lambda>(_, entry). retire_publication (re_snapshot entry)) (lt_rings lt) (lt_gates lt),
        lt_rings := []\<rparr>"

section \<open>FrameRingServer\<close>

record frame_request_peer =
  peer_process_id :: u64
  peer_process_start :: u64

definition peer_valid :: "frame_request_peer \<Rightarrow> bool" where
  "peer_valid peer \<longleftrightarrow> peer_process_id peer \<noteq> 0 \<and> peer_process_start peer \<noteq> 0"

datatype frame_wire_status = WireSuccess | InvalidInput | Unauthorized | ImportFailed | StaleGeneration

record server_entry =
  se_peer :: frame_request_peer
  se_request :: frame_ring_register_request
  se_reply :: frame_ring_reply

record 'r frame_ring_server =
  sv_entries :: "(u64, server_entry) omap"
  sv_rings :: "'r frame_ring_lifetime"

type_synonym 'r importer = "frame_request_peer \<Rightarrow> frame_ring_register_request \<Rightarrow> 'r option"

definition initial_server :: "'r frame_ring_server" where
  "initial_server = \<lparr>sv_entries = [], sv_rings = initial_lifetime\<rparr>"

definition owner_for :: "frame_ring_register_request \<Rightarrow> frame_ring_owner" where
  "owner_for r =
     \<lparr>fro_display = \<lparr>ldr_api_namespace = kApiNamespaceGuid, ldr_lease_id = frr_lease_id r,
                     ldr_display_id = frr_display_id r\<rparr>,
      fro_display_generation = frr_display_generation r,
      fro_capability = frr_owner_capability r\<rparr>"

text \<open>The check shared by registration, clear and reap: the store still knows this owner.\<close>

definition request_authorized :: "authority \<Rightarrow> frame_ring_register_request \<Rightarrow> time_point \<Rightarrow> bool" where
  "request_authorized authorize r now =
     (case authorize (fro_display (owner_for r)) (fro_capability (owner_for r)) now of
        None \<Rightarrow> False
      | Some display \<Rightarrow> tdr_generation display = frr_display_generation r)"

text \<open>One turn of the reap loop; the boolean says that the entry is kept.\<close>

definition reap_entry ::
  "authority \<Rightarrow> time_point \<Rightarrow> u64 \<Rightarrow> server_entry \<Rightarrow> 'r frame_ring_lifetime \<Rightarrow>
   'r frame_ring_lifetime \<times> server_entry option" where
  "reap_entry authorize now display_id entry rings =
     (let request = se_request entry; reply = se_reply entry in
      if \<not> request_authorized authorize request now
      then (fst (retire_ring display_id (frr_display_generation request) (rep_ring_generation reply) rings),
            None)
      else if rep_ring_generation reply \<noteq> 0 then
        (let (rings1, snap) =
               ring_snapshot authorize display_id (frr_display_generation request) now rings in
         if \<not> can_publish (lt_gates rings1) snap \<or> rs_ring_generation snap \<noteq> rep_ring_generation reply
         then (rings1, Some (entry\<lparr>se_reply := empty_reply\<rparr>))
         else (rings1, Some entry))
      else (rings, Some entry))"

fun server_reap_from ::
  "authority \<Rightarrow> time_point \<Rightarrow> (u64, server_entry) omap \<Rightarrow> 'r frame_ring_lifetime \<Rightarrow>
   (u64, server_entry) omap \<times> 'r frame_ring_lifetime \<times> nat" where
  "server_reap_from authorize now [] rings = ([], rings, 0)"
| "server_reap_from authorize now ((display_id, entry) # entries) rings =
     (let (rings1, kept) = reap_entry authorize now display_id entry rings;
          (entries2, rings2, count) = server_reap_from authorize now entries rings1
      in case kept of
           None \<Rightarrow> (entries2, rings2, count + 1)
         | Some entry1 \<Rightarrow> ((display_id, entry1) # entries2, rings2, count))"

definition server_reap ::
  "authority \<Rightarrow> time_point \<Rightarrow> 'r frame_ring_server \<Rightarrow> 'r frame_ring_server \<times> nat" where
  "server_reap authorize now sv =
     (let (entries, rings, count) = server_reap_from authorize now (sv_entries sv) (sv_rings sv)
      in (\<lparr>sv_entries = entries, sv_rings = rings\<rparr>, count))"

type_synonym frame_wire_result = "frame_wire_status \<times> frame_ring_reply"

text \<open>
  The decision on an existing entry: \<open>Some\<close> is the early return. A request of another process,
  of an older cookie, or of the same cookie that is not a retransmission of the active
  registration is refused; a retransmission gets the reply again.
\<close>

definition existing_entry_result ::
  "frame_request_peer \<Rightarrow> frame_ring_register_request \<Rightarrow> server_entry \<Rightarrow> frame_wire_result option" where
  "existing_entry_result peer r old =
     (if se_peer old \<noteq> peer then Some (Unauthorized, empty_reply)
      else if frr_client_cookie r \<le> frr_client_cookie (se_request old) then
        (if frr_client_cookie r = frr_client_cookie (se_request old) \<and>
            rep_ring_generation (se_reply old) \<noteq> 0 \<and> same_frame_ring_request (se_request old) r
         then Some (WireSuccess, se_reply old)
         else Some (StaleGeneration, empty_reply))
      else None)"

definition server_register ::
  "authority \<Rightarrow> 'r importer \<Rightarrow> frame_request_peer \<Rightarrow> frame_ring_register_request \<Rightarrow> time_point \<Rightarrow>
   'r frame_ring_server \<Rightarrow> 'r frame_ring_server \<times> frame_wire_result" where
  "server_register authorize import_resources peer r now sv =
     (if \<not> peer_valid peer \<or> \<not> valid_frame_ring_request r then (sv, InvalidInput, empty_reply)
      else if \<not> request_authorized authorize r now then (sv, Unauthorized, empty_reply)
      else
        let sv1 = fst (server_reap authorize now sv);
            old = omap_find (sv_entries sv1) (frr_display_id r) in
        case (case old of None \<Rightarrow> None | Some entry \<Rightarrow> existing_entry_result peer r entry) of
          Some result \<Rightarrow> (sv1, result)
        | None \<Rightarrow>
            let fresh = \<lparr>se_peer = peer, se_request = r, se_reply = empty_reply\<rparr>;
                previous = (case old of None \<Rightarrow> fresh | Some entry \<Rightarrow> entry);
                entries1 = omap_insert (frr_display_id r) fresh (sv_entries sv1);
                retire_previous = (\<lambda>rings. fst (retire_ring (frr_display_id r)
                  (frr_display_generation (se_request previous))
                  (rep_ring_generation (se_reply previous)) rings)) in
            case import_resources peer r of
              None \<Rightarrow>
                (\<lparr>sv_entries = entries1, sv_rings = retire_previous (sv_rings sv1)\<rparr>,
                 ImportFailed, empty_reply)
            | Some resources \<Rightarrow>
                (let (rings2, status, generation) =
                       register_ring authorize (owner_for r) (Some resources) now (sv_rings sv1) in
                 if status \<noteq> RegisterSuccess
                 then (\<lparr>sv_entries = entries1, sv_rings = retire_previous rings2\<rparr>,
                       Unauthorized, empty_reply)
                 else
                   let reply = empty_reply
                         \<lparr>rep_client_cookie := frr_client_cookie r,
                          rep_display_generation := frr_display_generation r,
                          rep_ring_generation := generation\<rparr>
                   in (\<lparr>sv_entries = omap_insert (frr_display_id r) (fresh\<lparr>se_reply := reply\<rparr>) entries1,
                        sv_rings = rings2\<rparr>, WireSuccess, reply)))"

definition server_query_target ::
  "authority \<Rightarrow> frame_request_peer \<Rightarrow> frame_transport_target_request \<Rightarrow> time_point \<Rightarrow>
   frame_transport_target option" where
  "server_query_target authorize peer request now =
     (if \<not> peer_valid peer \<or> \<not> valid_frame_transport_target_request request then None
      else
        (case authorize \<lparr>ldr_api_namespace = kApiNamespaceGuid, ldr_lease_id = ftr_lease_id request,
                         ldr_display_id = ftr_display_id request\<rparr> (ftr_owner_capability request) now of
           None \<Rightarrow> None
         | Some display \<Rightarrow>
             if tdr_pending_departure display \<or> tdr_generation display = 0 then None
             else Some (empty_target
               \<lparr>ftt_lease_id := tdr_lease_id display, ftt_display_id := tdr_display_id display,
                ftt_display_generation := tdr_generation display,
                ftt_width := tdr_width display, ftt_height := tdr_height display\<rparr>)))"

definition clear_request_invalid :: "frame_request_peer \<Rightarrow> frame_ring_clear_request \<Rightarrow> bool" where
  "clear_request_invalid peer r \<longleftrightarrow>
     (let identity = frc_identity r in
      \<not> peer_valid peer \<or> frc_reserved r \<noteq> 0 \<or> frc_flags r > 1 \<or>
      \<not> is_valid_api_namespace (rep_api_namespace identity) \<or>
      rep_version identity \<noteq> kFrameRingWireVersion \<or> rep_size identity \<noteq> kReplyBytes \<or>
      rep_client_cookie identity = 0 \<or> rep_display_generation identity = 0 \<or>
      (if frc_flags r = 1 then rep_ring_generation identity \<noteq> 0 else rep_ring_generation identity = 0))"

definition cancel_request :: "frame_ring_clear_request \<Rightarrow> frame_ring_register_request" where
  "cancel_request r = empty_register_request
     \<lparr>frr_lease_id := frc_lease_id r, frr_display_id := frc_display_id r,
      frr_display_generation := rep_display_generation (frc_identity r),
      frr_client_cookie := rep_client_cookie (frc_identity r),
      frr_owner_capability := frc_owner_capability r\<rparr>"

definition server_clear ::
  "authority \<Rightarrow> frame_request_peer \<Rightarrow> frame_ring_clear_request \<Rightarrow> time_point \<Rightarrow>
   'r frame_ring_server \<Rightarrow> 'r frame_ring_server \<times> frame_wire_status" where
  "server_clear authorize peer r now sv =
     (if clear_request_invalid peer r then (sv, InvalidInput)
      else if \<not> request_authorized authorize (cancel_request r) now then (sv, Unauthorized)
      else
        let sv1 = fst (server_reap authorize now sv); identity = frc_identity r in
        case omap_find (sv_entries sv1) (frc_display_id r) of
          None \<Rightarrow>
            if frc_flags r \<noteq> 1 then (sv1, StaleGeneration)
            else (sv1\<lparr>sv_entries := omap_insert (frc_display_id r)
                    \<lparr>se_peer = peer, se_request = cancel_request r, se_reply = empty_reply\<rparr>
                    (sv_entries sv1)\<rparr>, WireSuccess)
        | Some entry \<Rightarrow>
            if se_peer entry \<noteq> peer \<or>
               frr_owner_capability (se_request entry) \<noteq> frc_owner_capability r \<or>
               frr_lease_id (se_request entry) \<noteq> frc_lease_id r then (sv1, Unauthorized)
            else if rep_client_cookie identity < frr_client_cookie (se_request entry) \<or>
                    rep_display_generation identity \<noteq> frr_display_generation (se_request entry)
            then (sv1, StaleGeneration)
            else if frc_flags r = 0 \<and>
                    (rep_client_cookie identity \<noteq> frr_client_cookie (se_request entry) \<or>
                     rep_ring_generation identity \<noteq> rep_ring_generation (se_reply entry))
            then (sv1, StaleGeneration)
            else
              let rings2 = (if rep_ring_generation (se_reply entry) \<noteq> 0
                            then fst (retire_ring (frc_display_id r)
                                   (frr_display_generation (se_request entry))
                                   (rep_ring_generation (se_reply entry)) (sv_rings sv1))
                            else sv_rings sv1);
                  cleared = entry
                    \<lparr>se_request := (se_request entry)\<lparr>frr_client_cookie := rep_client_cookie identity\<rparr>,
                     se_reply := empty_reply\<rparr>
              in (\<lparr>sv_entries = omap_insert (frc_display_id r) cleared (sv_entries sv1),
                   sv_rings = rings2\<rparr>, WireSuccess))"

definition server_reset :: "'r frame_ring_server \<Rightarrow> 'r frame_ring_server" where
  "server_reset sv =
     \<lparr>sv_entries = omap_map (\<lambda>entry. entry\<lparr>se_reply := empty_reply\<rparr>) (sv_entries sv),
      sv_rings = fold (\<lambda>(display_id, entry) rings. fst (retire_ring display_id
          (frr_display_generation (se_request entry)) (rep_ring_generation (se_reply entry)) rings))
        (sv_entries sv) (sv_rings sv)\<rparr>"

end
