(* ===== verification/Frame_Ring_Props.thy ===== *)
theory Frame_Ring_Props
  imports Frame_Ring
begin

text \<open>
  The invariant of the ring table: every registered ring has an open gate of its own, every open
  gate belongs to a registered ring, and ring generations are issued once. It holds after every
  sequence of ring operations, including the sequence numbers producers take through snapshots.
\<close>

abbreviation (input) ring_at :: "'r frame_ring_lifetime \<Rightarrow> u64 \<Rightarrow> 'r ring_entry option" where
  "ring_at lt \<equiv> omap_find (lt_rings lt)"

abbreviation (input) gate_of :: "'r ring_entry \<Rightarrow> nat option" where
  "gate_of e \<equiv> rs_publication (re_snapshot e)"

text \<open>How many ring generations may have been issued; the counter wraps to zero and stays there.\<close>

definition issued :: "'r frame_ring_lifetime \<Rightarrow> nat" where
  "issued lt = (if lt_next_ring_generation lt = 0 then 2 ^ 64 else unat (lt_next_ring_generation lt))"

definition ring_ok :: "'r frame_ring_lifetime \<Rightarrow> u64 \<Rightarrow> 'r ring_entry \<Rightarrow> bool" where
  "ring_ok lt d e \<longleftrightarrow>
     (\<exists>p < length (lt_gates lt). gate_of e = Some p \<and> gate_enabled (lt_gates lt ! p)) \<and>
     ldr_display_id (fro_display (re_owner e)) = d \<and>
     rs_display_generation (re_snapshot e) = fro_display_generation (re_owner e) \<and>
     fro_display_generation (re_owner e) \<noteq> 0 \<and> rs_resources (re_snapshot e) \<noteq> None \<and>
     rs_ring_generation (re_snapshot e) \<noteq> 0 \<and> unat (rs_ring_generation (re_snapshot e)) < issued lt"

definition ring_inv :: "'r frame_ring_lifetime \<Rightarrow> bool" where
  "ring_inv lt \<longleftrightarrow> omap_wf (lt_rings lt) \<and>
     (\<forall>d e. ring_at lt d = Some e \<longrightarrow> ring_ok lt d e) \<and>
     (\<forall>d e d' e'. ring_at lt d = Some e \<longrightarrow> ring_at lt d' = Some e' \<longrightarrow> d \<noteq> d' \<longrightarrow>
        gate_of e \<noteq> gate_of e' \<and>
        rs_ring_generation (re_snapshot e) \<noteq> rs_ring_generation (re_snapshot e')) \<and>
     (\<forall>p < length (lt_gates lt). gate_enabled (lt_gates lt ! p) \<longrightarrow>
        (\<exists>d e. ring_at lt d = Some e \<and> gate_of e = Some p))"

lemma ring_invD:
  assumes "ring_inv lt"
  shows "omap_wf (lt_rings lt)" and "ring_at lt d = Some e \<Longrightarrow> ring_ok lt d e"
    and "ring_at lt d = Some e \<Longrightarrow> ring_at lt d' = Some e' \<Longrightarrow> d \<noteq> d' \<Longrightarrow> gate_of e \<noteq> gate_of e'"
    and "ring_at lt d = Some e \<Longrightarrow> ring_at lt d' = Some e' \<Longrightarrow> d \<noteq> d' \<Longrightarrow>
      rs_ring_generation (re_snapshot e) \<noteq> rs_ring_generation (re_snapshot e')"
    and "p < length (lt_gates lt) \<Longrightarrow> gate_enabled (lt_gates lt ! p) \<Longrightarrow>
      \<exists>d e. ring_at lt d = Some e \<and> gate_of e = Some p"
  using assms unfolding ring_inv_def by blast+

text \<open>Gates are only added and closed, never reopened, and their sequence numbers only grow.\<close>

definition gates_evolve :: "'r frame_ring_lifetime \<Rightarrow> 'r frame_ring_lifetime \<Rightarrow> bool" where
  "gates_evolve lt lt' \<longleftrightarrow> length (lt_gates lt) \<le> length (lt_gates lt') \<and> issued lt \<le> issued lt' \<and>
     (\<forall>p < length (lt_gates lt).
        (gate_enabled (lt_gates lt' ! p) \<longrightarrow> gate_enabled (lt_gates lt ! p)) \<and>
        gate_sequence (lt_gates lt ! p) \<le> gate_sequence (lt_gates lt' ! p))"

lemma gates_evolve_refl [simp, intro]: "gates_evolve lt lt"
  by (simp add: gates_evolve_def)

lemma gates_evolve_trans: "gates_evolve a b \<Longrightarrow> gates_evolve b c \<Longrightarrow> gates_evolve a c"
  unfolding gates_evolve_def
proof (intro conjI allI impI; elim conjE)
  fix p
  assume "p < length (lt_gates a)" "length (lt_gates a) \<le> length (lt_gates b)"
    and ab: "\<forall>p < length (lt_gates a). (gate_enabled (lt_gates b ! p) \<longrightarrow> gate_enabled (lt_gates a ! p)) \<and>
      gate_sequence (lt_gates a ! p) \<le> gate_sequence (lt_gates b ! p)"
    and bc: "\<forall>p < length (lt_gates b). (gate_enabled (lt_gates c ! p) \<longrightarrow> gate_enabled (lt_gates b ! p)) \<and>
      gate_sequence (lt_gates b ! p) \<le> gate_sequence (lt_gates c ! p)"
  then have p: "p < length (lt_gates a)" "p < length (lt_gates b)" by simp_all
  show "gate_enabled (lt_gates a ! p)" if "gate_enabled (lt_gates c ! p)"
    using ab bc p that by blast
  show "gate_sequence (lt_gates a ! p) \<le> gate_sequence (lt_gates c ! p)"
    using ab bc p order_trans by blast
qed linarith+

section \<open>Retiring a ring\<close>

lemma issued_frame [simp]:
  "issued (lt\<lparr>lt_gates := g\<rparr>) = issued lt" "issued (lt\<lparr>lt_rings := r\<rparr>) = issued lt"
  "issued (retire_entry d e lt) = issued lt"
  by (simp_all add: issued_def retire_entry_def)

lemma retire_entry_frame [simp]:
  "lt_rings (retire_entry d e lt) = omap_erase d (lt_rings lt)"
  "lt_next_ring_generation (retire_entry d e lt) = lt_next_ring_generation lt"
  "length (lt_gates (retire_entry d e lt)) = length (lt_gates lt)"
  by (simp_all add: retire_entry_def retire_publication_def split: option.split)

lemma retire_entry_gate:
  "gate_of e = Some p \<Longrightarrow> p < length (lt_gates lt) \<Longrightarrow> q < length (lt_gates lt) \<Longrightarrow>
   lt_gates (retire_entry d e lt) ! q =
     (if q = p then (lt_gates lt ! p)\<lparr>gate_enabled := False\<rparr> else lt_gates lt ! q)"
  by (simp add: retire_entry_def retire_publication_def nth_list_update)

lemma retire_entry_result:
  assumes inv: "ring_inv lt" and d: "ring_at lt d = Some e"
  shows "ring_inv (retire_entry d e lt)" and "gates_evolve lt (retire_entry d e lt)"
    and "gate_of e = Some p \<Longrightarrow> \<not> gate_enabled (lt_gates (retire_entry d e lt) ! p)"
proof -
  obtain p where p: "gate_of e = Some p" "p < length (lt_gates lt)"
    using ring_invD(2)[OF inv d] by (auto simp: ring_ok_def)
  note gate = retire_entry_gate[OF p]
  show "ring_inv (retire_entry d e lt)"
    unfolding ring_inv_def
  proof (intro conjI allI impI)
    show "omap_wf (lt_rings (retire_entry d e lt))" using ring_invD(1)[OF inv] by simp
  next
    fix d' e' assume "ring_at (retire_entry d e lt) d' = Some e'"
    then have d': "ring_at lt d' = Some e'" "d' \<noteq> d" by (auto split: if_splits)
    obtain q where q: "gate_of e' = Some q" "q < length (lt_gates lt)" "gate_enabled (lt_gates lt ! q)"
      using ring_invD(2)[OF inv d'(1)] by (auto simp: ring_ok_def)
    have "q \<noteq> p" using ring_invD(3)[OF inv d'(1) d d'(2)] p q by auto
    then show "ring_ok (retire_entry d e lt) d' e'"
      using ring_invD(2)[OF inv d'(1)] gate[OF q(2)] q by (auto simp: ring_ok_def)
  next
    fix d' e' d'' e''
    assume "ring_at (retire_entry d e lt) d' = Some e'" "ring_at (retire_entry d e lt) d'' = Some e''" "d' \<noteq> d''"
    then show "gate_of e' \<noteq> gate_of e''"
      and "rs_ring_generation (re_snapshot e') \<noteq> rs_ring_generation (re_snapshot e'')"
      using ring_invD(3,4)[OF inv, of d' e' d'' e''] by (auto split: if_splits)
  next
    fix q assume q: "q < length (lt_gates (retire_entry d e lt))"
      "gate_enabled (lt_gates (retire_entry d e lt) ! q)"
    then have "q \<noteq> p" "gate_enabled (lt_gates lt ! q)" using gate[of q] by (auto split: if_splits)
    then obtain d' e' where "ring_at lt d' = Some e'" "gate_of e' = Some q"
      using ring_invD(5)[OF inv, of q] q(1) by auto
    moreover have "d' \<noteq> d" using calculation d p \<open>q \<noteq> p\<close> by auto
    ultimately show "\<exists>d' e'. ring_at (retire_entry d e lt) d' = Some e' \<and> gate_of e' = Some q"
      by auto
  qed
  show "gates_evolve lt (retire_entry d e lt)"
    unfolding gates_evolve_def using gate by auto
  show "\<not> gate_enabled (lt_gates (retire_entry d e lt) ! p)" if "gate_of e = Some p" for p
    using that p gate[of p] by simp
qed

text \<open>Operations that only retire rings.\<close>

definition only_retires :: "'r frame_ring_lifetime \<Rightarrow> 'r frame_ring_lifetime \<Rightarrow> bool" where
  "only_retires lt lt' \<longleftrightarrow> ring_inv lt' \<and> gates_evolve lt lt' \<and>
     lt_next_ring_generation lt' = lt_next_ring_generation lt \<and>
     length (lt_gates lt') = length (lt_gates lt) \<and>
     (\<forall>d e. ring_at lt' d = Some e \<longrightarrow> ring_at lt d = Some e)"

lemma only_retires_refl: "ring_inv lt \<Longrightarrow> only_retires lt lt"
  by (simp add: only_retires_def)

lemma only_retires_trans: "only_retires a b \<Longrightarrow> only_retires b c \<Longrightarrow> only_retires a c"
  unfolding only_retires_def by (intro conjI; (elim conjE)?; (blast intro: gates_evolve_trans)?) auto

lemma only_retires_entry: "ring_inv lt \<Longrightarrow> ring_at lt d = Some e \<Longrightarrow> only_retires lt (retire_entry d e lt)"
  using retire_entry_result[of lt d e] unfolding only_retires_def by auto

lemma retire_unavailable_from_result:
  assumes "ring_inv lt" and "distinct (map fst es)" and "\<forall>(d, e) \<in> set es. ring_at lt d = Some e"
  shows "only_retires lt (fst (retire_unavailable_from authorize now es n lt)) \<and>
    (\<forall>d. ring_at (fst (retire_unavailable_from authorize now es n lt)) d = (case ring_at lt d of None \<Rightarrow> None | Some e \<Rightarrow>
       if (d, e) \<in> set es \<and> \<not> ring_authorized authorize (re_owner e) now then None else Some e))"
  using assms
proof (induction es arbitrary: lt n)
  case Nil
  then show ?case by (auto simp: only_retires_refl split: option.split)
next
  case (Cons x es)
  obtain d e where x: "x = (d, e)" by fastforce
  have d: "ring_at lt d = Some e" using Cons.prems(3) by (simp add: x)
  have rest: "distinct (map fst es)" "d \<notin> fst ` set es" using Cons.prems(2) by (auto simp: x)
  show ?case
  proof (cases "ring_authorized authorize (re_owner e) now")
    case True
    have "\<forall>(d, e) \<in> set es. ring_at lt d = Some e" using Cons.prems(3) by auto
    from Cons.IH[OF Cons.prems(1) rest(1) this, of n] True d rest(2) show ?thesis
      by (auto simp: x split: option.splits if_splits)
  next
    case False
    let ?lt = "retire_entry d e lt"
    note res = retire_entry_result[OF Cons.prems(1) d]
    have "\<forall>(d, e) \<in> set es. ring_at ?lt d = Some e"
      using Cons.prems(3) rest(2) by (force simp: x)
    from Cons.IH[OF res(1) rest(1) this, of "n + 1"]
    have IH: "only_retires ?lt (fst (retire_unavailable_from authorize now es (n + 1) ?lt))"
      "\<forall>d'. ring_at (fst (retire_unavailable_from authorize now es (n + 1) ?lt)) d' =
        (case ring_at ?lt d' of None \<Rightarrow> None | Some e' \<Rightarrow>
         if (d', e') \<in> set es \<and> \<not> ring_authorized authorize (re_owner e') now then None else Some e')"
      by blast+
    have step: "fst (retire_unavailable_from authorize now (x # es) n lt) =
        fst (retire_unavailable_from authorize now es (n + 1) ?lt)" using False by (simp add: x)
    have "ring_at (fst (retire_unavailable_from authorize now (x # es) n lt)) d' =
      (case ring_at lt d' of None \<Rightarrow> None | Some e' \<Rightarrow>
       if (d', e') \<in> set (x # es) \<and> \<not> ring_authorized authorize (re_owner e') now then None else Some e')" for d'
      unfolding step IH(2)[rule_format] using d False rest(2) by (auto simp: x split: option.split)
    then show ?thesis
      unfolding step using only_retires_trans[OF only_retires_entry[OF Cons.prems(1) d] IH(1)] by blast
  qed
qed

lemma retire_unavailable_result:
  assumes "ring_inv lt"
  shows "only_retires lt (fst (retire_unavailable authorize now lt))"
    and "ring_at (fst (retire_unavailable authorize now lt)) d = (case ring_at lt d of None \<Rightarrow> None
      | Some e \<Rightarrow> if ring_authorized authorize (re_owner e) now then Some e else None)"
proof -
  have wf: "omap_wf (lt_rings lt)" by (rule ring_invD(1)[OF assms])
  have es: "distinct (map fst (lt_rings lt))" "\<forall>(d, e) \<in> set (lt_rings lt). ring_at lt d = Some e"
    using omap_wf_distinct[OF wf] omap_find_Some_iff[OF wf] by auto
  note res = retire_unavailable_from_result[OF assms es, of authorize now 0]
  then show "only_retires lt (fst (retire_unavailable authorize now lt))"
    by (simp add: retire_unavailable_def)
  show "ring_at (fst (retire_unavailable authorize now lt)) d = (case ring_at lt d of None \<Rightarrow> None
      | Some e \<Rightarrow> if ring_authorized authorize (re_owner e) now then Some e else None)"
    unfolding retire_unavailable_def res[THEN conjunct2, rule_format]
  proof (cases "ring_at lt d")
    case (Some e)
    then have "(d, e) \<in> set (lt_rings lt)" by (rule map_of_SomeD)
    then show "(case ring_at lt d of None \<Rightarrow> None
      | Some e \<Rightarrow> if (d, e) \<in> set (lt_rings lt) \<and> \<not> ring_authorized authorize (re_owner e) now then None
        else Some e) = (case ring_at lt d of None \<Rightarrow> None
      | Some e \<Rightarrow> if ring_authorized authorize (re_owner e) now then Some e else None)"
      by (simp add: Some)
  qed simp
qed

section \<open>The operations\<close>

lemma retire_ring_retires: "ring_inv lt \<Longrightarrow> only_retires lt (fst (retire_ring d g rg lt))"
  unfolding retire_ring_def by (auto split: option.split intro: only_retires_refl only_retires_entry)

lemma retire_display_retires: "ring_inv lt \<Longrightarrow> only_retires lt (fst (retire_display d g lt))"
  unfolding retire_display_def by (auto split: option.split intro: only_retires_refl only_retires_entry)

lemma clear_ring_retires: "ring_inv lt \<Longrightarrow> only_retires lt (fst (clear_ring authorize owner rg now lt))"
  unfolding clear_ring_def using retire_ring_retires only_retires_refl by auto

lemma ring_snapshot_retires: "ring_inv lt \<Longrightarrow> only_retires lt (fst (ring_snapshot authorize d g now lt))"
  unfolding ring_snapshot_def by (auto split: option.split intro: only_retires_refl only_retires_entry)

text \<open>A reset retires the entries one after the other.\<close>

lemma retire_all:
  assumes "ring_inv lt" and "distinct (map fst es)" and "\<forall>(d, e) \<in> set es. ring_at lt d = Some e"
  shows "only_retires lt (fold (\<lambda>(d, e). retire_entry d e) es lt) \<and>
    lt_gates (fold (\<lambda>(d, e). retire_entry d e) es lt) =
      fold (\<lambda>(_, e). retire_publication (re_snapshot e)) es (lt_gates lt) \<and>
    lt_rings (fold (\<lambda>(d, e). retire_entry d e) es lt) =
      filter (\<lambda>x. fst x \<notin> fst ` set es) (lt_rings lt)"
  using assms
proof (induction es arbitrary: lt)
  case Nil
  then show ?case by (simp add: only_retires_refl)
next
  case (Cons x es)
  obtain d e where x: "x = (d, e)" by fastforce
  have d: "ring_at lt d = Some e" using Cons.prems(3) by (simp add: x)
  let ?lt = "retire_entry d e lt"
  have rest: "distinct (map fst es)" "d \<notin> fst ` set es" using Cons.prems(2) by (auto simp: x)
  have found: "\<forall>(d, e) \<in> set es. ring_at ?lt d = Some e" using Cons.prems(3) rest(2) by (force simp: x)
  note IH = Cons.IH[OF retire_entry_result(1)[OF Cons.prems(1) d] rest(1) found]
  have "lt_gates ?lt = retire_publication (re_snapshot e) (lt_gates lt)" by (simp add: retire_entry_def)
  moreover have "filter (\<lambda>x. fst x \<notin> fst ` set es) (omap_erase d m) =
      filter (\<lambda>y. fst y \<notin> fst ` set (x # es)) m" for m :: "(u64, 'a ring_entry) omap"
    by (induction m) (auto simp: omap_erase_def x)
  ultimately show ?case
    using IH only_retires_trans[OF only_retires_entry[OF Cons.prems(1) d]] by (simp add: x)
qed

lemma reset_rings_retires:
  assumes "ring_inv lt"
  shows "only_retires lt (reset_rings lt)" and "lt_rings (reset_rings lt) = []"
proof -
  have wf: "omap_wf (lt_rings lt)" by (rule ring_invD(1)[OF assms])
  have es: "distinct (map fst (lt_rings lt))" "\<forall>(d, e) \<in> set (lt_rings lt). ring_at lt d = Some e"
    using omap_wf_distinct[OF wf] omap_find_Some_iff[OF wf] by auto
  note all = retire_all[OF assms es]
  let ?lt = "fold (\<lambda>(d, e). retire_entry d e) (lt_rings lt) lt"
  have "lt_rings ?lt = []" using all by (auto simp: filter_empty_conv)
  moreover have "lt_next_ring_generation ?lt = lt_next_ring_generation lt"
    using all by (simp add: only_retires_def)
  ultimately have "?lt = reset_rings lt" using all by (simp add: reset_rings_def)
  then show "only_retires lt (reset_rings lt)" using all by simp
  show "lt_rings (reset_rings lt) = []" by (simp add: reset_rings_def)
qed

lemma register_ring_rejected:
  "fst (snd (register_ring authorize owner resources now lt)) \<noteq> RegisterSuccess \<Longrightarrow>
     fst (register_ring authorize owner resources now lt) = lt"
  by (auto simp: register_ring_def Let_def)

text \<open>Putting a new ring, with a new gate and the next generation, in a free place.\<close>

lemma install_ring:
  assumes inv: "ring_inv lt" and free: "ring_at lt d = None" and g: "lt_next_ring_generation lt = g" "g \<noteq> 0"
    and e: "ldr_display_id (fro_display (re_owner e)) = d"
      "rs_display_generation (re_snapshot e) = fro_display_generation (re_owner e)"
      "fro_display_generation (re_owner e) \<noteq> 0" "rs_resources (re_snapshot e) \<noteq> None"
      "rs_ring_generation (re_snapshot e) = g" "gate_of e = Some (length (lt_gates lt))"
    and rings: "omap_wf (lt_rings lt')" "ring_at lt' = (ring_at lt)(d \<mapsto> e)"
    and next': "lt_next_ring_generation lt' = g + 1" and gates: "lt_gates lt' = lt_gates lt @ [new_gate]"
  shows "ring_inv lt'" and "gates_evolve lt lt'"
proof -
  have issued: "issued lt = unat g" "unat g < issued lt'"
  proof -
    show "issued lt = unat g" using g by (simp add: issued_def)
    show "unat g < issued lt'"
    proof (cases "g + 1 = 0")
      case True
      then show ?thesis using unsigned_less[of g, where 'a = nat] by (simp add: issued_def next')
    next
      case False
      then show ?thesis by (simp add: issued_def next' unatSuc add.commute)
    qed
  qed
  have old: "ring_ok lt' d' e'" "gate_of e' \<noteq> gate_of e"
      "rs_ring_generation (re_snapshot e') \<noteq> rs_ring_generation (re_snapshot e)"
    if "ring_at lt d' = Some e'" for d' e'
    using ring_invD(2)[OF inv that] issued e(5,6)
    by (auto simp: ring_ok_def gates nth_append)
  have new: "ring_ok lt' d e" using e issued g(2) by (simp add: ring_ok_def gates new_gate_def)
  show "ring_inv lt'"
    unfolding ring_inv_def
  proof (intro conjI allI impI)
    show "omap_wf (lt_rings lt')" by (rule rings(1))
  next
    fix d' e' assume "ring_at lt' d' = Some e'"
    then show "ring_ok lt' d' e'" using new old(1) unfolding rings(2) by (auto split: if_splits)
  next
    fix d1 e1 d2 e2 assume "ring_at lt' d1 = Some e1" "ring_at lt' d2 = Some e2" "d1 \<noteq> d2"
    then show "gate_of e1 \<noteq> gate_of e2"
      and "rs_ring_generation (re_snapshot e1) \<noteq> rs_ring_generation (re_snapshot e2)"
      using ring_invD(3,4)[OF inv] old(2,3) unfolding rings(2) by (auto split: if_splits) metis+
  next
    fix p assume p: "p < length (lt_gates lt')" "gate_enabled (lt_gates lt' ! p)"
    show "\<exists>d' e'. ring_at lt' d' = Some e' \<and> gate_of e' = Some p"
    proof (cases "p = length (lt_gates lt)")
      case True
      then show ?thesis using e(6) unfolding rings(2) by (intro exI[of _ d] exI[of _ e]) simp
    next
      case False
      then have "p < length (lt_gates lt)" "gate_enabled (lt_gates lt ! p)"
        using p by (auto simp: gates nth_append)
      from ring_invD(5)[OF inv this] obtain d' e' where "ring_at lt d' = Some e'" "gate_of e' = Some p" by blast
      then show ?thesis using free unfolding rings(2) by (intro exI[of _ d'] exI[of _ e']) auto
    qed
  qed
  show "gates_evolve lt lt'"
    unfolding gates_evolve_def using issued by (auto simp: gates nth_append)
qed

text \<open>A registration that succeeds: the previous ring of the display is closed, all others stay.\<close>

lemma register_ring_success:
  assumes inv: "ring_inv lt" and res: "register_ring authorize owner resources now lt = (lt', RegisterSuccess, g)"
    and d: "d = ldr_display_id (fro_display owner)"
    and lt1: "lt1 = fst (retire_unavailable authorize now lt)"
  shows "ring_authorized authorize owner now" and "resources \<noteq> None"
    and "ring_at lt' = (ring_at lt1)(d \<mapsto> \<lparr>re_owner = owner, re_snapshot =
        \<lparr>rs_display_generation = fro_display_generation owner, rs_ring_generation = g,
         rs_resources = resources, rs_publication = Some (length (lt_gates lt))\<rparr>\<rparr>)"
    and "g = lt_next_ring_generation lt" and "g \<noteq> 0" and "lt_next_ring_generation lt' = g + 1"
    and "ring_inv lt'" and "gates_evolve lt lt'"
proof -
  have auth: "ring_authorized authorize owner now" and some: "resources \<noteq> None"
    and g0: "lt_next_ring_generation lt \<noteq> 0"
    using res by (auto simp: register_ring_def split: if_splits)
  then have gen: "fro_display_generation owner \<noteq> 0"
    by (auto simp: ring_authorized_def split: option.splits)
  have one: "only_retires lt lt1" unfolding lt1 by (rule retire_unavailable_result(1)[OF inv])
  define lt2 where "lt2 = (case ring_at lt1 d of None \<Rightarrow> lt1 | Some e \<Rightarrow> retire_entry d e lt1)"
  have two: "only_retires lt1 lt2"
    using one unfolding lt2_def
    by (auto simp: only_retires_def[of lt lt1] split: option.split intro: only_retires_refl only_retires_entry)
  have gates: "(case ring_at lt1 d of None \<Rightarrow> lt_gates lt1
      | Some previous \<Rightarrow> retire_publication (re_snapshot previous) (lt_gates lt1)) = lt_gates lt2"
    unfolding lt2_def by (auto simp: retire_entry_def split: option.split)
  note both = only_retires_trans[OF one two, unfolded only_retires_def]
  let ?e = "\<lparr>re_owner = owner, re_snapshot =
      \<lparr>rs_display_generation = fro_display_generation owner, rs_ring_generation = g,
       rs_resources = resources, rs_publication = Some (length (lt_gates lt))\<rparr>\<rparr>"
  have next1: "lt_next_ring_generation lt1 = lt_next_ring_generation lt" using one by (simp add: only_retires_def)
  have lt': "lt' = lt1\<lparr>lt_rings := omap_insert d ?e (lt_rings lt1), lt_next_ring_generation := g + 1,
      lt_gates := lt_gates lt2 @ [new_gate]\<rparr>" and g: "g = lt_next_ring_generation lt"
    using res auth some g0 both by (auto simp: register_ring_def lt1[symmetric] d[symmetric] Let_def gates next1)
  have wf1: "omap_wf (lt_rings lt1)" using one ring_invD(1) by (auto simp: only_retires_def)
  have free: "ring_at lt2 d = None" unfolding lt2_def by (auto split: option.split)
  have "ring_at lt2 d' = ring_at lt1 d'" if "d' \<noteq> d" for d'
    using that unfolding lt2_def by (auto split: option.split)
  then have rings: "ring_at lt' = (ring_at lt2)(d \<mapsto> ?e)" by (auto simp: lt' fun_eq_iff)
  note ready = both free g g0 gen some d rings wf1
  have inst1: "ring_inv lt'"
    by (rule install_ring(1)[where d = d and g = g and e = ?e and lt = lt2 and lt' = lt'])
       (use ready in \<open>simp_all add: lt'\<close>)
  have inst2: "gates_evolve lt2 lt'"
    by (rule install_ring(2)[where d = d and g = g and e = ?e and lt = lt2 and lt' = lt'])
       (use ready in \<open>simp_all add: lt'\<close>)
  show "ring_authorized authorize owner now" "resources \<noteq> None" by (fact auth some)+
  show "ring_at lt' = (ring_at lt1)(d \<mapsto> ?e)" by (simp add: lt')
  show "g = lt_next_ring_generation lt" by (fact g)
  then show "g \<noteq> 0" using g0 by simp
  show "lt_next_ring_generation lt' = g + 1" by (simp add: lt')
  show "ring_inv lt'" by (fact inst1)
  show "gates_evolve lt lt'" using both inst2 gates_evolve_trans by blast
qed

section \<open>Runs of ring operations\<close>

text \<open>Each operation brings the answers of the display store at its moment.\<close>

datatype 'r ring_op =
    RingRegister authority frame_ring_owner "'r option" time_point
  | RingClear authority frame_ring_owner u64 time_point
  | RingSnapshot authority u64 u64 time_point
  | RingRetire u64 u64 u64
  | RingRetireDisplay u64 u64
  | RingRetireUnavailable authority time_point
  | RingReset
  | RingNextSequence "'r frame_ring_snapshot"

fun run_ring_op :: "'r ring_op \<Rightarrow> 'r frame_ring_lifetime \<Rightarrow> 'r frame_ring_lifetime" where
  "run_ring_op (RingRegister authorize owner resources now) lt = fst (register_ring authorize owner resources now lt)"
| "run_ring_op (RingClear authorize owner rg now) lt = fst (clear_ring authorize owner rg now lt)"
| "run_ring_op (RingSnapshot authorize d g now) lt = fst (ring_snapshot authorize d g now lt)"
| "run_ring_op (RingRetire d g rg) lt = fst (retire_ring d g rg lt)"
| "run_ring_op (RingRetireDisplay d g) lt = fst (retire_display d g lt)"
| "run_ring_op (RingRetireUnavailable authorize now) lt = fst (retire_unavailable authorize now lt)"
| "run_ring_op RingReset lt = reset_rings lt"
| "run_ring_op (RingNextSequence snap) lt =
     (case snapshot_next_sequence snap (lt_gates lt) of
        None \<Rightarrow> lt | Some (n, gates) \<Rightarrow> lt\<lparr>lt_gates := gates\<rparr>)"

lemma sequence_step:
  assumes inv: "ring_inv lt" and lt'_def: "lt' = run_ring_op (RingNextSequence snap) lt"
  shows "ring_inv lt' \<and> gates_evolve lt lt' \<and> lt_rings lt' = lt_rings lt"
proof (cases "snapshot_next_sequence snap (lt_gates lt)")
  case None
  then show ?thesis using inv by (simp add: lt'_def)
next
  case (Some r)
  then obtain p where p: "rs_publication snap = Some p" and n: "gate_sequence (lt_gates lt ! p) < 0xffffffffffffffff - 1"
    and lt': "lt' = lt\<lparr>lt_gates := (lt_gates lt)[p := (lt_gates lt ! p)
        \<lparr>gate_sequence := gate_sequence (lt_gates lt ! p) + 1\<rparr>]\<rparr>"
    by (auto simp: lt'_def snapshot_next_sequence_def gate_next_sequence_def split: option.splits if_splits)
  have same: "gate_enabled (lt_gates lt' ! q) = gate_enabled (lt_gates lt ! q)" if "q < length (lt_gates lt)" for q
    using that by (cases "q = p") (simp_all add: lt')
  have up: "gate_sequence (lt_gates lt ! q) \<le> gate_sequence (lt_gates lt' ! q)" if "q < length (lt_gates lt)" for q
  proof (cases "q = p")
    case True
    have "x \<le> x + 1" if "x < 0xffffffffffffffff - 1" for x :: u64
      using unat_Suc_word[OF that] by (simp add: word_le_nat_alt)
    then show ?thesis using True that n by (simp add: lt')
  qed (simp add: lt')
  have len: "length (lt_gates lt') = length (lt_gates lt)" "lt_rings lt' = lt_rings lt" "issued lt' = issued lt"
    by (simp_all add: lt')
  have "ring_ok lt' d e \<longleftrightarrow> ring_ok lt d e" for d e
    using same unfolding ring_ok_def len by auto
  then have "ring_inv lt'" using inv same unfolding ring_inv_def len by auto
  then show ?thesis using same up len by (simp add: gates_evolve_def)
qed

lemma ring_op_result:
  assumes "ring_inv lt"
  shows "ring_inv (run_ring_op op lt) \<and> gates_evolve lt (run_ring_op op lt)"
proof (cases op)
  case (RingRegister authorize owner resources now)
  obtain lt' status g where res: "register_ring authorize owner resources now lt = (lt', status, g)"
    by (metis prod_cases3)
  show ?thesis
  proof (cases "status = RegisterSuccess")
    case True
    then show ?thesis using register_ring_success(7,8)[OF assms res[unfolded True] refl refl] res
      by (simp add: RingRegister)
  next
    case False
    then show ?thesis using register_ring_rejected[of authorize owner resources now lt] res assms
      by (simp add: RingRegister)
  qed
next
  case (RingNextSequence snap)
  show ?thesis using sequence_step[OF assms refl, of snap] unfolding RingNextSequence by blast
qed (use clear_ring_retires[OF assms] ring_snapshot_retires[OF assms] retire_ring_retires[OF assms]
      retire_display_retires[OF assms] retire_unavailable_result(1)[OF assms] reset_rings_retires(1)[OF assms]
    in \<open>simp_all add: only_retires_def\<close>)

interpretation ring: step_invariant run_ring_op ring_inv "\<lambda>op lt. True"
  by unfold_locales (use ring_op_result in blast)

lemma initial_ring_inv: "ring_inv initial_lifetime"
  by (simp add: ring_inv_def initial_lifetime_def)

definition ring_reachable :: "'r frame_ring_lifetime \<Rightarrow> bool" where
  "ring_reachable lt \<longleftrightarrow> (\<exists>ops. lt = fold run_ring_op ops initial_lifetime)"

lemma ring_reachable_inv: "ring_reachable lt \<Longrightarrow> ring_inv lt"
  unfolding ring_reachable_def by (auto intro: ring.run_inv_unguarded initial_ring_inv)

lemma ring_run_evolves: "ring_inv lt \<Longrightarrow> gates_evolve lt (fold run_ring_op ops lt)"
proof (induction ops arbitrary: lt)
  case (Cons op ops)
  then show ?case using ring_op_result[OF Cons.prems] gates_evolve_trans by fastforce
qed simp

end
