(* ===== verification/Frame_Server_Props.thy ===== *)
theory Frame_Server_Props
  imports Frame_Ring_Props
begin

text \<open>
  The invariant of the ring server: no registered ring is orphaned. Every ring of the lifetime
  table is the one last acknowledged to the entry of its display, for the owner of that entry.
\<close>

abbreviation (input) entry_at :: "'r frame_ring_server \<Rightarrow> u64 \<Rightarrow> server_entry option" where
  "entry_at sv \<equiv> omap_find (sv_entries sv)"

text \<open>A ring and the entry it was acknowledged to.\<close>

definition acknowledged :: "server_entry \<Rightarrow> 'r ring_entry \<Rightarrow> bool" where
  "acknowledged entry e \<longleftrightarrow>
     rep_ring_generation (se_reply entry) = rs_ring_generation (re_snapshot e) \<and>
     re_owner e = owner_for (se_request entry)"

definition entry_ok :: "u64 \<Rightarrow> server_entry \<Rightarrow> bool" where
  "entry_ok d entry \<longleftrightarrow> frr_display_id (se_request entry) = d \<and>
     (se_reply entry = empty_reply \<or> valid_frame_ring_reply (se_reply entry) (se_request entry))"

definition server_inv :: "'r frame_ring_server \<Rightarrow> bool" where
  "server_inv sv \<longleftrightarrow> omap_wf (sv_entries sv) \<and> ring_inv (sv_rings sv) \<and>
     (\<forall>d entry. entry_at sv d = Some entry \<longrightarrow> entry_ok d entry) \<and>
     (\<forall>d e. ring_at (sv_rings sv) d = Some e \<longrightarrow>
        (\<exists>entry. entry_at sv d = Some entry \<and> acknowledged entry e))"

lemma server_invD:
  assumes "server_inv sv"
  shows "omap_wf (sv_entries sv)" and "ring_inv (sv_rings sv)"
    and "entry_at sv d = Some entry \<Longrightarrow> entry_ok d entry"
    and "ring_at (sv_rings sv) d = Some e \<Longrightarrow> \<exists>entry. entry_at sv d = Some entry \<and> acknowledged entry e"
  using assms unfolding server_inv_def by blast+

lemma server_invI:
  assumes "omap_wf (sv_entries sv)" and "ring_inv (sv_rings sv)"
    and "\<And>d entry. entry_at sv d = Some entry \<Longrightarrow> entry_ok d entry"
    and "\<And>d e. ring_at (sv_rings sv) d = Some e \<Longrightarrow> \<exists>entry. entry_at sv d = Some entry \<and> acknowledged entry e"
  shows "server_inv sv"
  using assms unfolding server_inv_def by blast

lemma owner_for_fields [simp]:
  "fro_display_generation (owner_for r) = frr_display_generation r"
  "ldr_display_id (fro_display (owner_for r)) = frr_display_id r"
  "owner_for (r\<lparr>frr_client_cookie := c\<rparr>) = owner_for r"
  by (simp_all add: owner_for_def)

text \<open>Retiring the ring an entry was told about removes the ring of its display.\<close>

lemma retire_acknowledged:
  assumes "ring_inv rings" and "\<And>e. ring_at rings d = Some e \<Longrightarrow> acknowledged entry e"
    and rings'_def: "rings' = fst (retire_ring d (frr_display_generation (se_request entry))
      (rep_ring_generation (se_reply entry)) rings)"
  shows "only_retires rings rings'" and "ring_at rings' = (ring_at rings)(d := None)"
proof -
  show "only_retires rings rings'" unfolding rings'_def by (rule retire_ring_retires[OF assms(1)])
  show "ring_at rings' = (ring_at rings)(d := None)"
  proof (cases "ring_at rings d")
    case None
    then show ?thesis by (auto simp: rings'_def retire_ring_def fun_eq_iff)
  next
    case (Some e)
    have "rs_display_generation (re_snapshot e) = frr_display_generation (se_request entry)"
      "rs_ring_generation (re_snapshot e) = rep_ring_generation (se_reply entry)"
      using ring_invD(2)[OF assms(1) Some] assms(2)[OF Some] by (auto simp: ring_ok_def acknowledged_def)
    then show ?thesis by (simp add: rings'_def retire_ring_def Some)
  qed
qed

section \<open>Reaping\<close>

lemma reap_entry_result:
  assumes inv: "ring_inv rings" and ack: "\<And>e. ring_at rings d = Some e \<Longrightarrow> acknowledged entry e"
    and run: "reap_entry authorize now d entry rings = (rings', kept)"
  shows "only_retires rings rings'" and "d' \<noteq> d \<Longrightarrow> ring_at rings' d' = ring_at rings d'"
    and "kept = None \<longleftrightarrow> \<not> request_authorized authorize (se_request entry) now"
    and "kept = Some entry' \<Longrightarrow> entry' = entry \<or> entry' = entry\<lparr>se_reply := empty_reply\<rparr>"
    and "ring_at rings' d = Some e \<Longrightarrow> kept = Some entry \<and> acknowledged entry e"
    and "kept = Some entry' \<Longrightarrow> rep_ring_generation (se_reply entry') \<noteq> 0 \<Longrightarrow>
      entry' = entry \<and> (\<exists>e. ring_at rings' d = Some e)"
proof -
  let ?req = "se_request entry" and ?reply = "se_reply entry"
  note retire = retire_acknowledged[where d = d and entry = entry, OF inv ack refl]
  consider (gone) "\<not> request_authorized authorize ?req now"
    | (idle) "request_authorized authorize ?req now" "rep_ring_generation ?reply = 0"
    | (active) "request_authorized authorize ?req now" "rep_ring_generation ?reply \<noteq> 0" by blast
  then have "only_retires rings rings' \<and> (\<forall>d'. d' \<noteq> d \<longrightarrow> ring_at rings' d' = ring_at rings d') \<and>
    (kept = None \<longleftrightarrow> \<not> request_authorized authorize ?req now) \<and>
    (\<forall>entry'. kept = Some entry' \<longrightarrow> entry' = entry \<or> entry' = entry\<lparr>se_reply := empty_reply\<rparr>) \<and>
    (\<forall>e. ring_at rings' d = Some e \<longrightarrow> kept = Some entry \<and> acknowledged entry e) \<and>
    (\<forall>entry'. kept = Some entry' \<longrightarrow> rep_ring_generation (se_reply entry') \<noteq> 0 \<longrightarrow>
       entry' = entry \<and> (\<exists>e. ring_at rings' d = Some e))"
  proof cases
    case gone
    then show ?thesis using run retire by (auto simp: reap_entry_def Let_def)
  next
    case idle
    have "ring_at rings d = None"
    proof (rule ccontr)
      assume "ring_at rings d \<noteq> None"
      then obtain e where "ring_at rings d = Some e" by auto
      then show False using ack ring_invD(2)[OF inv] idle(2) by (fastforce simp: acknowledged_def ring_ok_def)
    qed
    then show ?thesis using run idle only_retires_refl[OF inv] by (auto simp: reap_entry_def Let_def)
  next
    case active
    show ?thesis
    proof (cases "ring_at rings d")
      case None
      then show ?thesis using run active only_retires_refl[OF inv]
        by (auto simp: reap_entry_def Let_def ring_snapshot_def can_publish_def empty_snapshot_def empty_reply_def)
    next
      case (Some e)
      note ok = ring_invD(2)[OF inv Some] and acked = ack[OF Some]
      have "ring_authorized authorize (re_owner e) now"
        using active(1) ok acked
        by (auto simp: ring_authorized_def request_authorized_def ring_ok_def acknowledged_def split: option.splits)
      then have "ring_snapshot authorize d (frr_display_generation ?req) now rings = (rings, re_snapshot e)"
        using Some ok acked by (simp add: ring_snapshot_def ring_ok_def acknowledged_def)
      moreover have "can_publish (lt_gates rings) (re_snapshot e)"
        using ok by (auto simp: ring_ok_def can_publish_def)
      ultimately show ?thesis using run active acked Some only_retires_refl[OF inv]
        by (auto simp: reap_entry_def Let_def acknowledged_def)
    qed
  qed
  then show "only_retires rings rings'" and "d' \<noteq> d \<Longrightarrow> ring_at rings' d' = ring_at rings d'"
    and "kept = None \<longleftrightarrow> \<not> request_authorized authorize (se_request entry) now"
    and "kept = Some entry' \<Longrightarrow> entry' = entry \<or> entry' = entry\<lparr>se_reply := empty_reply\<rparr>"
    and "ring_at rings' d = Some e \<Longrightarrow> kept = Some entry \<and> acknowledged entry e"
    and "kept = Some entry' \<Longrightarrow> rep_ring_generation (se_reply entry') \<noteq> 0 \<Longrightarrow>
      entry' = entry \<and> (\<exists>e. ring_at rings' d = Some e)" by blast+
qed

text \<open>What the reap loop makes of an entry, and of the rings of the displays it has visited.\<close>

definition reaped_to :: "authority \<Rightarrow> time_point \<Rightarrow> server_entry option \<Rightarrow> server_entry option \<Rightarrow> bool" where
  "reaped_to authorize now before after \<longleftrightarrow>
     (case before of
        None \<Rightarrow> after = None
      | Some entry \<Rightarrow>
          if request_authorized authorize (se_request entry) now
          then after \<in> {Some entry, Some (entry\<lparr>se_reply := empty_reply\<rparr>)} else after = None)"

lemma server_reap_from_result:
  assumes "ring_inv rings" and "sorted_wrt (<) (map fst es)"
    and "\<forall>d entry e. (d, entry) \<in> set es \<longrightarrow> ring_at rings d = Some e \<longrightarrow> acknowledged entry e"
    and "server_reap_from authorize now es rings = (es', rings', n)"
  shows "only_retires rings rings' \<and> sorted_wrt (<) (map fst es') \<and> fst ` set es' \<subseteq> fst ` set es \<and>
    (\<forall>d. reaped_to authorize now (map_of es d) (map_of es' d)) \<and>
    (\<forall>d. d \<notin> fst ` set es \<longrightarrow> ring_at rings' d = ring_at rings d) \<and>
    (\<forall>d e. d \<in> fst ` set es \<longrightarrow> ring_at rings' d = Some e \<longrightarrow>
       (\<exists>entry. map_of es' d = Some entry \<and> acknowledged entry e)) \<and>
    (\<forall>d entry. map_of es' d = Some entry \<longrightarrow> rep_ring_generation (se_reply entry) \<noteq> 0 \<longrightarrow>
       (\<exists>e. ring_at rings' d = Some e))"
  using assms
proof (induction es arbitrary: rings es' n)
  case Nil
  then show ?case by (simp add: only_retires_refl reaped_to_def)
next
  case (Cons x es)
  obtain d entry where x: "x = (d, entry)" by fastforce
  obtain rings1 kept where one: "reap_entry authorize now d entry rings = (rings1, kept)" by fastforce
  obtain es2 m where rest: "server_reap_from authorize now es rings1 = (es2, rings', m)"
    and es': "es' = (case kept of None \<Rightarrow> es2 | Some entry1 \<Rightarrow> (d, entry1) # es2)"
    using Cons.prems(4) one by (auto simp: x split: prod.splits option.splits)
  have ack: "\<And>e. ring_at rings d = Some e \<Longrightarrow> acknowledged entry e" using Cons.prems(3) by (simp add: x)
  note step = reap_entry_result[OF Cons.prems(1) ack one]
  have inv1: "ring_inv rings1" using step(1) by (simp add: only_retires_def)
  have d: "d \<notin> fst ` set es" and sorted: "sorted_wrt (<) (map fst es)" "\<forall>k \<in> fst ` set es. d < k"
    using Cons.prems(2) by (auto simp: x)
  have ack1: "acknowledged entry' e" if "(d', entry') \<in> set es" "ring_at rings1 d' = Some e" for d' entry' e
  proof -
    have "d' \<noteq> d" using that(1) d by force
    then show ?thesis using that step(2) Cons.prems(3) by (simp add: x)
  qed
  have "\<forall>d entry e. (d, entry) \<in> set es \<longrightarrow> ring_at rings1 d = Some e \<longrightarrow> acknowledged entry e"
    using ack1 by blast
  note IH = Cons.IH[OF inv1 sorted(1) this rest]
  have IH1: "only_retires rings1 rings'" "sorted_wrt (<) (map fst es2)" "fst ` set es2 \<subseteq> fst ` set es"
    "\<And>d. reaped_to authorize now (map_of es d) (map_of es2 d)"
    "\<And>d. d \<notin> fst ` set es \<Longrightarrow> ring_at rings' d = ring_at rings1 d"
    "\<And>d e. d \<in> fst ` set es \<Longrightarrow> ring_at rings' d = Some e \<Longrightarrow>
       \<exists>entry. map_of es2 d = Some entry \<and> acknowledged entry e"
    "\<And>d entry. map_of es2 d = Some entry \<Longrightarrow> rep_ring_generation (se_reply entry) \<noteq> 0 \<Longrightarrow>
       \<exists>e. ring_at rings' d = Some e"
    using IH by blast+
  have none: "map_of es2 d = None" using d IH1(3) by (auto simp: map_of_eq_None_iff)
  have same: "ring_at rings' d = ring_at rings1 d" by (rule IH1(5)[OF d])
  have here: "map_of es' d' = (if d' = d then kept else map_of es2 d')" for d'
    using none by (auto simp: es' split: option.split)
  have "only_retires rings rings'" by (rule only_retires_trans[OF step(1) IH1(1)])
  moreover have "sorted_wrt (<) (map fst es')" "fst ` set es' \<subseteq> fst ` set (x # es)"
  proof -
    have "\<forall>k \<in> fst ` set es2. d < k" using IH1(3) sorted(2) by blast
    then show "sorted_wrt (<) (map fst es')" "fst ` set es' \<subseteq> fst ` set (x # es)"
      using IH1(2,3) by (auto simp: es' x split: option.splits)
  qed
  moreover have "reaped_to authorize now (map_of (x # es) d') (map_of es' d')" for d'
  proof (cases "d' = d")
    case True
    then show ?thesis using step(3,4) here[of d]
      by (cases kept) (auto simp: x reaped_to_def)
  next
    case False
    then show ?thesis using IH1(4)[of d'] here[of d'] by (simp add: x)
  qed
  moreover have "ring_at rings' d' = ring_at rings d'" if "d' \<notin> fst ` set (x # es)" for d'
    using that IH1(5)[of d'] step(2)[of d'] by (simp add: x)
  moreover have "\<exists>entry. map_of es' d' = Some entry \<and> acknowledged entry e"
    if "d' \<in> fst ` set (x # es)" "ring_at rings' d' = Some e" for d' e
  proof (cases "d' = d")
    case True
    then show ?thesis using step(5)[of e] that(2) same here[of d] by simp
  next
    case False
    then show ?thesis using that IH1(6)[of d' e] here[of d'] by (simp add: x)
  qed
  moreover have "\<exists>e. ring_at rings' d' = Some e"
    if "map_of es' d' = Some entry'" "rep_ring_generation (se_reply entry') \<noteq> 0" for d' entry'
  proof (cases "d' = d")
    case True
    then show ?thesis using step(6)[of entry'] that same here[of d] by auto
  next
    case False
    then show ?thesis using that IH1(7)[of d' entry'] here[of d'] by simp
  qed
  ultimately show ?case by blast
qed

lemma server_reap_result:
  assumes inv: "server_inv sv" and sv1_def: "sv1 = fst (server_reap authorize now sv)"
  shows "server_inv sv1" and "only_retires (sv_rings sv) (sv_rings sv1)"
    and "reaped_to authorize now (entry_at sv d) (entry_at sv1 d)"
    and "entry_at sv1 d = Some entry \<Longrightarrow> rep_ring_generation (se_reply entry) \<noteq> 0 \<Longrightarrow>
      \<exists>e. ring_at (sv_rings sv1) d = Some e \<and> acknowledged entry e"
proof -
  obtain es' rings' n where run: "server_reap_from authorize now (sv_entries sv) (sv_rings sv) = (es', rings', n)"
    by (metis prod_cases3)
  have sv1: "sv1 = \<lparr>sv_entries = es', sv_rings = rings'\<rparr>" by (simp add: sv1_def server_reap_def run)
  have wf: "omap_wf (sv_entries sv)" by (rule server_invD(1)[OF inv])
  have one: "acknowledged entry e" if "(d, entry) \<in> set (sv_entries sv)" "ring_at (sv_rings sv) d = Some e"
    for d entry e
    using server_invD(4)[OF inv that(2)] omap_find_Some_iff[OF wf, of d] that(1) by (metis option.inject)
  have "\<forall>d entry e. (d, entry) \<in> set (sv_entries sv) \<longrightarrow> ring_at (sv_rings sv) d = Some e \<longrightarrow> acknowledged entry e"
    using one by blast
  note res = server_reap_from_result[OF server_invD(2)[OF inv] wf[unfolded omap_wf_def] this run]
  have reaped: "reaped_to authorize now (entry_at sv d) (map_of es' d)" for d using res by blast
  have active: "\<forall>d entry. map_of es' d = Some entry \<longrightarrow> rep_ring_generation (se_reply entry) \<noteq> 0 \<longrightarrow>
      (\<exists>e. ring_at rings' d = Some e)" using res by (elim conjE)
  have acked: "\<exists>entry. map_of es' d = Some entry \<and> acknowledged entry e" if "ring_at rings' d = Some e" for d e
  proof (cases "d \<in> fst ` set (sv_entries sv)")
    case True
    then show ?thesis using res that by blast
  next
    case False
    then have "ring_at (sv_rings sv) d = Some e" using res that by auto
    then show ?thesis using server_invD(4)[OF inv] False by (force simp: map_of_eq_None_iff dest: map_of_SomeD)
  qed
  show "only_retires (sv_rings sv) (sv_rings sv1)" using res by (simp add: sv1)
  show "reaped_to authorize now (entry_at sv d) (entry_at sv1 d)" using reaped by (simp add: sv1)
  show "server_inv sv1"
  proof (rule server_invI)
    show "omap_wf (sv_entries sv1)" using res by (simp add: sv1 omap_wf_def)
    show "ring_inv (sv_rings sv1)" using res by (simp add: sv1 only_retires_def)
  next
    fix d entry assume "entry_at sv1 d = Some entry"
    then obtain old where "entry_at sv d = Some old" "entry = old \<or> entry = old\<lparr>se_reply := empty_reply\<rparr>"
      using reaped[of d] by (auto simp: sv1 reaped_to_def split: option.splits if_splits)
    then show "entry_ok d entry" using server_invD(3)[OF inv] by (auto simp: entry_ok_def)
  next
    fix d e assume "ring_at (sv_rings sv1) d = Some e"
    then show "\<exists>entry. entry_at sv1 d = Some entry \<and> acknowledged entry e" using acked by (simp add: sv1)
  qed
  show "\<exists>e. ring_at (sv_rings sv1) d = Some e \<and> acknowledged entry e"
    if at: "entry_at sv1 d = Some entry" and rg: "rep_ring_generation (se_reply entry) \<noteq> 0"
  proof -
    have "map_of es' d = Some entry" using at by (simp add: sv1)
    then obtain e where e: "ring_at rings' d = Some e" using active rg by blast
    then obtain x where "map_of es' d = Some x" "acknowledged x e" using acked[OF e] by blast
    then show ?thesis using e at by (intro exI[of _ e]) (simp add: sv1)
  qed
qed

section \<open>Registering and clearing\<close>

text \<open>
  A server whose entries and rings differ from those of a good server at one display only:
  there the ring is gone, or is acknowledged by the new entry.
\<close>

lemma server_inv_update:
  assumes inv: "server_inv sv" and sub: "ring_inv rings'"
    and others: "\<And>d' e. d' \<noteq> d \<Longrightarrow> ring_at rings' d' = Some e \<Longrightarrow> ring_at (sv_rings sv) d' = Some e"
    and entry: "entry_ok d entry"
    and here: "\<And>e. ring_at rings' d = Some e \<Longrightarrow> acknowledged entry e"
  shows "server_inv \<lparr>sv_entries = omap_insert d entry (sv_entries sv), sv_rings = rings'\<rparr>"
proof (rule server_invI)
  fix d' e assume e: "ring_at (sv_rings \<lparr>sv_entries = omap_insert d entry (sv_entries sv), sv_rings = rings'\<rparr>) d' = Some e"
  show "\<exists>x. entry_at \<lparr>sv_entries = omap_insert d entry (sv_entries sv), sv_rings = rings'\<rparr> d' = Some x \<and> acknowledged x e"
  proof (cases "d' = d")
    case True
    then show ?thesis using here e by simp
  next
    case False
    then show ?thesis using others[OF False] server_invD(4)[OF inv, of d' e] e by simp
  qed
qed (use inv sub entry server_invD(1,3)[OF inv] in \<open>auto split: if_splits\<close>)

lemma existing_entry_None:
  "existing_entry_result peer r old = None \<longleftrightarrow>
     se_peer old = peer \<and> frr_client_cookie (se_request old) < frr_client_cookie r"
  by (auto simp: existing_entry_result_def not_less)

text \<open>The outcomes of a registration: refused, answered from the entry, or carried out.\<close>

lemma server_register_cases:
  assumes inv: "server_inv sv" and sv1: "sv1 = fst (server_reap authorize now sv)"
    and run: "server_register authorize import_resources peer r now sv = (sv', status, reply)"
  obtains (refused) "sv' = sv" and "status \<noteq> WireSuccess" and "reply = empty_reply"
  | (answered) old where "request_authorized authorize r now" and "valid_frame_ring_request r"
      and "entry_at sv1 (frr_display_id r) = Some old"
      and "existing_entry_result peer r old = Some (status, reply)" and "sv' = sv1"
  | (failed) entry where "request_authorized authorize r now" and "valid_frame_ring_request r"
      and "\<And>old. entry_at sv1 (frr_display_id r) = Some old \<Longrightarrow>
        se_peer old = peer \<and> frr_client_cookie (se_request old) < frr_client_cookie r"
      and "entry = \<lparr>se_peer = peer, se_request = r, se_reply = empty_reply\<rparr>"
      and "status \<noteq> WireSuccess"
      and "sv_entries sv' = omap_insert (frr_display_id r) entry (sv_entries sv1)"
      and "only_retires (sv_rings sv1) (sv_rings sv')"
      and "ring_at (sv_rings sv') = (ring_at (sv_rings sv1))(frr_display_id r := None)"
  | (registered) resources g where "request_authorized authorize r now" and "valid_frame_ring_request r"
      and "\<And>old. entry_at sv1 (frr_display_id r) = Some old \<Longrightarrow>
        se_peer old = peer \<and> frr_client_cookie (se_request old) < frr_client_cookie r"
      and "import_resources peer r = Some resources" and "status = WireSuccess"
      and "reply = empty_reply\<lparr>rep_client_cookie := frr_client_cookie r,
        rep_display_generation := frr_display_generation r, rep_ring_generation := g\<rparr>"
      and "register_ring authorize (owner_for r) (Some resources) now (sv_rings sv1) =
        (sv_rings sv', RegisterSuccess, g)"
      and "sv_entries sv' = omap_insert (frr_display_id r)
        \<lparr>se_peer = peer, se_request = r, se_reply = reply\<rparr> (sv_entries sv1)"
proof (cases "\<not> peer_valid peer \<or> \<not> valid_frame_ring_request r \<or> \<not> request_authorized authorize r now")
  case True
  then show thesis using run refused by (auto simp: server_register_def split: if_splits)
next
  case False
  then have ok: "peer_valid peer" "valid_frame_ring_request r" "request_authorized authorize r now" by auto
  let ?d = "frr_display_id r"
  let ?fresh = "\<lparr>se_peer = peer, se_request = r, se_reply = empty_reply\<rparr>"
  note reap = server_reap_result[OF inv sv1]
  define outcome where "outcome = (case entry_at sv1 ?d of None \<Rightarrow> None | Some entry \<Rightarrow> existing_entry_result peer r entry)"
  define previous where "previous = (case entry_at sv1 ?d of None \<Rightarrow> ?fresh | Some entry \<Rightarrow> entry)"
  define retire where "retire = (\<lambda>rings :: 'a frame_ring_lifetime. fst (retire_ring ?d
    (frr_display_generation (se_request previous)) (rep_ring_generation (se_reply previous)) rings))"
  show thesis
  proof (cases outcome)
    case (Some result)
    then obtain old where old: "entry_at sv1 ?d = Some old" "existing_entry_result peer r old = Some result"
      by (auto simp: outcome_def split: option.splits)
    have "(sv', status, reply) = (sv1, result)"
      using run ok old by (simp add: server_register_def sv1[symmetric])
    then show thesis using answered[OF ok(3,2) old(1)] old(2) by auto
  next
    case None
    then have newer: "se_peer old = peer \<and> frr_client_cookie (se_request old) < frr_client_cookie r"
      if "entry_at sv1 ?d = Some old" for old
      using that by (simp add: outcome_def existing_entry_None)
    have ack: "acknowledged previous e" if "ring_at (sv_rings sv1) ?d = Some e" for e
      using server_invD(4)[OF reap(1) that] by (auto simp: previous_def)
    have gone: "only_retires (sv_rings sv1) (retire (sv_rings sv1))"
      "ring_at (retire (sv_rings sv1)) = (ring_at (sv_rings sv1))(?d := None)"
      unfolding retire_def
      using retire_acknowledged[where d = ?d, OF server_invD(2)[OF reap(1)] ack refl] by blast+
    show thesis
    proof (cases "import_resources peer r")
      case no: None
      have "sv' = \<lparr>sv_entries = omap_insert ?d ?fresh (sv_entries sv1), sv_rings = retire (sv_rings sv1)\<rparr>"
        "status = ImportFailed"
        using run ok None no
        by (auto simp: server_register_def sv1[symmetric] Let_def outcome_def[symmetric]
            retire_def previous_def)
      then show thesis using failed[OF ok(3,2) newer refl] gone by simp
    next
      case (Some resources)
      obtain rings2 st g where reg: "register_ring authorize (owner_for r) (Some resources) now (sv_rings sv1) = (rings2, st, g)"
        by (metis prod_cases3)
      show thesis
      proof (cases "st = RegisterSuccess")
        case True
        let ?reply = "empty_reply\<lparr>rep_client_cookie := frr_client_cookie r,
            rep_display_generation := frr_display_generation r, rep_ring_generation := g\<rparr>"
        have insert2: "omap_insert ?d x (omap_insert ?d y m) = omap_insert ?d x m" for x y and m :: "(u64, server_entry) omap"
          by (induction m) auto
        have "sv' = \<lparr>sv_entries = omap_insert ?d (?fresh\<lparr>se_reply := ?reply\<rparr>) (sv_entries sv1), sv_rings = rings2\<rparr>"
          "status = WireSuccess" "reply = ?reply"
          using run ok None Some reg True
          by (auto simp: server_register_def sv1[symmetric] Let_def outcome_def[symmetric] insert2)
        then show thesis using registered[OF ok(3,2) newer Some, of g] reg True by simp
      next
        case False
        have "rings2 = sv_rings sv1"
          using register_ring_rejected[of authorize "owner_for r" "Some resources" now "sv_rings sv1"] reg False by simp
        then have "sv' = \<lparr>sv_entries = omap_insert ?d ?fresh (sv_entries sv1), sv_rings = retire (sv_rings sv1)\<rparr>"
          "status = Unauthorized"
          using run ok None Some reg False
          by (auto simp: server_register_def sv1[symmetric] Let_def outcome_def[symmetric]
              retire_def previous_def)
        then show thesis using failed[OF ok(3,2) newer refl] gone by simp
      qed
    qed
  qed
qed

lemma server_register_inv:
  assumes inv: "server_inv sv"
  shows "server_inv (fst (server_register authorize import_resources peer r now sv))"
proof -
  obtain sv' status reply where run: "server_register authorize import_resources peer r now sv = (sv', status, reply)"
    by (metis prod_cases3)
  let ?d = "frr_display_id r"
  define sv1 where "sv1 = fst (server_reap authorize now sv)"
  note reap = server_reap_result[OF inv sv1_def]
  note inv1 = server_invD(2)[OF reap(1)]
  have split: "sv' = \<lparr>sv_entries = sv_entries sv', sv_rings = sv_rings sv'\<rparr>" by simp
  from inv sv1_def run show ?thesis
  proof (cases rule: server_register_cases)
    case refused
    then show ?thesis using inv run by simp
  next
    case (answered old)
    then show ?thesis using reap(1) run by simp
  next
    case (failed entry)
    have "server_inv sv'"
      by (subst split, subst failed(6), rule server_inv_update[OF reap(1)])
         (use failed(4,7,8) in \<open>auto simp: only_retires_def entry_ok_def split: if_splits\<close>)
    then show ?thesis using run by simp
  next
    case (registered resources g)
    note new = register_ring_success[OF inv1 registered(7) refl refl]
    have old: "ring_at (sv_rings sv1) d' = Some e"
      if "ring_at (fst (retire_unavailable authorize now (sv_rings sv1))) d' = Some e" for d' e
      using retire_unavailable_result(1)[OF inv1, of authorize now] that by (auto simp: only_retires_def)
    have "server_inv sv'"
    proof (subst split, subst registered(8), rule server_inv_update[OF reap(1)])
      show "ring_inv (sv_rings sv')" by (rule new(7))
    next
      fix d' e assume "d' \<noteq> ?d" "ring_at (sv_rings sv') d' = Some e"
      then show "ring_at (sv_rings sv1) d' = Some e" using old new(3) by simp
    next
      have "rep_ring_generation reply \<noteq> 0" using new(5) registered(6) by (simp add: empty_reply_def)
      then show "entry_ok ?d \<lparr>se_peer = peer, se_request = r, se_reply = reply\<rparr>"
        using registered(6) by (simp add: entry_ok_def valid_frame_ring_reply_def empty_reply_def is_valid_api_namespace_def)
    next
      fix e assume "ring_at (sv_rings sv') ?d = Some e"
      then show "acknowledged \<lparr>se_peer = peer, se_request = r, se_reply = reply\<rparr> e"
        using new(3) registered(6) by (auto simp: acknowledged_def)
    qed
    then show ?thesis using run by simp
  qed
qed

text \<open>A clear that succeeds leaves a tombstone and no ring.\<close>

lemma server_clear_cases:
  assumes inv: "server_inv sv" and sv1: "sv1 = fst (server_reap authorize now sv)"
    and run: "server_clear authorize peer r now sv = (sv', status)"
  obtains (refused) "sv' = sv \<or> sv' = sv1" and "status \<noteq> WireSuccess"
  | (cleared) entry where "status = WireSuccess" and "request_authorized authorize (cancel_request r) now"
      and "sv_entries sv' = omap_insert (frc_display_id r) entry (sv_entries sv1)"
      and "only_retires (sv_rings sv1) (sv_rings sv')"
      and "ring_at (sv_rings sv') = (ring_at (sv_rings sv1))(frc_display_id r := None)"
      and "se_peer entry = peer" and "se_reply entry = empty_reply"
      and "frr_client_cookie (se_request entry) = rep_client_cookie (frc_identity r)"
      and "owner_for (se_request entry) = owner_for (cancel_request r)"
      and "\<And>old. entry_at sv1 (frc_display_id r) = Some old \<Longrightarrow>
        se_peer old = peer \<and> frr_client_cookie (se_request old) \<le> rep_client_cookie (frc_identity r)"
proof -
  let ?d = "frc_display_id r" and ?cookie = "rep_client_cookie (frc_identity r)"
  note reap = server_reap_result[OF inv sv1]
  note inv1 = server_invD(2)[OF reap(1)]
  show thesis
  proof (cases "status = WireSuccess")
    case False
    then show thesis using run refused
      by (auto simp: server_clear_def sv1[symmetric] Let_def split: if_splits option.splits)
  next
    case True
    then have auth: "request_authorized authorize (cancel_request r) now"
      using run by (auto simp: server_clear_def split: if_splits)
    show thesis
    proof (cases "entry_at sv1 ?d")
      case None
      have free: "ring_at (sv_rings sv1) ?d = None"
        using server_invD(4)[OF reap(1), of ?d] None by (cases "ring_at (sv_rings sv1) ?d") auto
      have "sv' = sv1\<lparr>sv_entries := omap_insert ?d
          \<lparr>se_peer = peer, se_request = cancel_request r, se_reply = empty_reply\<rparr> (sv_entries sv1)\<rparr>"
        using run True None by (auto simp: server_clear_def sv1[symmetric] Let_def split: if_splits)
      then show thesis
        using free None only_retires_refl[OF inv1]
        by (intro cleared[OF True auth]) (auto simp: cancel_request_def fun_eq_iff)
    next
      case (Some old)
      let ?rings = "fst (retire_ring ?d (frr_display_generation (se_request old))
          (rep_ring_generation (se_reply old)) (sv_rings sv1))"
      have ack: "acknowledged old e" if "ring_at (sv_rings sv1) ?d = Some e" for e
        using server_invD(4)[OF reap(1) that] Some by auto
      note gone = retire_acknowledged[where d = ?d, OF inv1 ack refl]
      have idle: "?rings = sv_rings sv1" if "rep_ring_generation (se_reply old) = 0"
      proof -
        have "ring_at (sv_rings sv1) ?d = None"
        proof (rule ccontr)
          assume "ring_at (sv_rings sv1) ?d \<noteq> None"
          then obtain e where "ring_at (sv_rings sv1) ?d = Some e" by auto
          then show False using ack ring_invD(2)[OF inv1] that by (fastforce simp: acknowledged_def ring_ok_def)
        qed
        then show ?thesis by (simp add: retire_ring_def)
      qed
      let ?entry = "old\<lparr>se_request := (se_request old)\<lparr>frr_client_cookie := ?cookie\<rparr>, se_reply := empty_reply\<rparr>"
      have sv': "sv' = \<lparr>sv_entries = omap_insert ?d ?entry (sv_entries sv1), sv_rings = ?rings\<rparr>"
        and same: "frr_owner_capability (se_request old) = frc_owner_capability r"
          "frr_lease_id (se_request old) = frc_lease_id r"
          "frr_display_generation (se_request old) = rep_display_generation (frc_identity r)"
        and old: "se_peer old = peer" "frr_client_cookie (se_request old) \<le> ?cookie"
        using run True Some idle
        by (auto simp: server_clear_def sv1[symmetric] Let_def not_less split: if_splits)
      have "frr_display_id (se_request old) = ?d"
        using server_invD(3)[OF reap(1) Some] by (simp add: entry_ok_def)
      then have "owner_for (se_request ?entry) = owner_for (cancel_request r)"
        using same by (simp add: owner_for_def cancel_request_def)
      then show thesis using sv' old gone Some by (intro cleared[OF True auth, of ?entry]) auto
    qed
  qed
qed

lemma server_clear_inv:
  assumes inv: "server_inv sv"
  shows "server_inv (fst (server_clear authorize peer r now sv))"
proof -
  obtain sv' status where run: "server_clear authorize peer r now sv = (sv', status)" by fastforce
  define sv1 where "sv1 = fst (server_reap authorize now sv)"
  note reap = server_reap_result[OF inv sv1_def]
  have split: "sv' = \<lparr>sv_entries = sv_entries sv', sv_rings = sv_rings sv'\<rparr>" by simp
  from inv sv1_def run show ?thesis
  proof (cases rule: server_clear_cases)
    case refused
    then show ?thesis using inv reap(1) run by auto
  next
    case (cleared entry)
    have "server_inv sv'"
      by (subst split, subst cleared(3), rule server_inv_update[OF reap(1)])
         (use cleared(4-8) arg_cong[OF cleared(9), of "ldr_display_id \<circ> fro_display"]
          in \<open>auto simp: only_retires_def entry_ok_def cancel_request_def split: if_splits\<close>)
    then show ?thesis using run by simp
  qed
qed

lemma server_reset_result:
  assumes inv: "server_inv sv"
  shows "server_inv (server_reset sv)" and "only_retires (sv_rings sv) (sv_rings (server_reset sv))"
    and "ring_at (sv_rings (server_reset sv)) d = None"
proof -
  let ?step = "\<lambda>(d, entry) rings :: 'a frame_ring_lifetime. fst (retire_ring d
      (frr_display_generation (se_request entry)) (rep_ring_generation (se_reply entry)) rings)"
  have loop: "only_retires rings (fold ?step es rings) \<and>
      (\<forall>d. ring_at (fold ?step es rings) d = (if d \<in> fst ` set es then None else ring_at rings d))"
    if "ring_inv rings" "distinct (map fst es)"
      "\<forall>d entry e. (d, entry) \<in> set es \<longrightarrow> ring_at rings d = Some e \<longrightarrow> acknowledged entry e" for es rings
    using that
  proof (induction es arbitrary: rings)
    case Nil
    then show ?case by (simp add: only_retires_refl)
  next
    case (Cons x es)
    obtain d entry where x: "x = (d, entry)" by fastforce
    have "acknowledged entry e" if "ring_at rings d = Some e" for e using Cons.prems(3) that by (simp add: x)
    note one = retire_acknowledged[where d = d and entry = entry, OF Cons.prems(1) this refl]
    have inv1: "ring_inv (?step x rings)" using one(1) by (simp add: x only_retires_def)
    have "\<forall>d' entry' e. (d', entry') \<in> set es \<longrightarrow> ring_at (?step x rings) d' = Some e \<longrightarrow> acknowledged entry' e"
      using Cons.prems(3) one(2) by (simp add: x)
    note rest = Cons.IH[OF inv1 _ this]
    show ?case using rest Cons.prems(2) one only_retires_trans[OF one(1)] by (auto simp: x)
  qed
  have wf: "omap_wf (sv_entries sv)" by (rule server_invD(1)[OF inv])
  have one: "acknowledged entry e" if "(d, entry) \<in> set (sv_entries sv)" "ring_at (sv_rings sv) d = Some e"
    for d entry e
    using server_invD(4)[OF inv that(2)] omap_find_Some_iff[OF wf, of d] that(1) by (metis option.inject)
  then have "\<forall>d entry e. (d, entry) \<in> set (sv_entries sv) \<longrightarrow> ring_at (sv_rings sv) d = Some e \<longrightarrow> acknowledged entry e"
    by blast
  note res = loop[OF server_invD(2)[OF inv] omap_wf_distinct[OF wf] this]
  show retires: "only_retires (sv_rings sv) (sv_rings (server_reset sv))"
    using res by (simp add: server_reset_def)
  have none: "ring_at (sv_rings (server_reset sv)) d = None" for d
    using res server_invD(4)[OF inv, of d]
    by (cases "ring_at (sv_rings sv) d") (force simp: server_reset_def dest: map_of_SomeD)+
  then show "ring_at (sv_rings (server_reset sv)) d = None" .
  show "server_inv (server_reset sv)"
  proof (rule server_invI)
    show "omap_wf (sv_entries (server_reset sv))" using wf by (simp add: server_reset_def)
    show "ring_inv (sv_rings (server_reset sv))" using retires by (simp add: only_retires_def)
  next
    fix d entry assume "entry_at (server_reset sv) d = Some entry"
    then show "entry_ok d entry" using server_invD(3)[OF inv] by (auto simp: server_reset_def entry_ok_def)
  next
    fix d e assume "ring_at (sv_rings (server_reset sv)) d = Some e"
    then show "\<exists>entry. entry_at (server_reset sv) d = Some entry \<and> acknowledged entry e" using none by simp
  qed
qed

section \<open>Runs of the server\<close>

text \<open>
  Besides its own operations, the driver uses the lifetime table directly: snapshots, sequence
  numbers and retirements, but registrations only through the server.
\<close>

datatype 'r server_op =
    ServerRegister authority "'r importer" frame_request_peer frame_ring_register_request time_point
  | ServerClear authority frame_request_peer frame_ring_clear_request time_point
  | ServerReap authority time_point
  | ServerReset
  | ServerRings "'r ring_op"

fun run_server_op :: "'r server_op \<Rightarrow> 'r frame_ring_server \<Rightarrow> 'r frame_ring_server" where
  "run_server_op (ServerRegister authorize import_resources peer r now) sv =
     fst (server_register authorize import_resources peer r now sv)"
| "run_server_op (ServerClear authorize peer r now) sv = fst (server_clear authorize peer r now sv)"
| "run_server_op (ServerReap authorize now) sv = fst (server_reap authorize now sv)"
| "run_server_op ServerReset sv = server_reset sv"
| "run_server_op (ServerRings op) sv = sv\<lparr>sv_rings := run_ring_op op (sv_rings sv)\<rparr>"

fun allowed_server_op :: "'r server_op \<Rightarrow> bool" where
  "allowed_server_op (ServerRings (RingRegister authorize owner resources now)) \<longleftrightarrow> False"
| "allowed_server_op op \<longleftrightarrow> True"

lemma ring_op_subset:
  assumes "ring_inv lt" and "allowed_server_op (ServerRings op)" and "ring_at (run_ring_op op lt) d = Some e"
  shows "ring_at lt d = Some e"
proof (cases op)
  case (RingNextSequence snap)
  show ?thesis using sequence_step[OF assms(1) refl, of snap] assms(3) unfolding RingNextSequence by simp
next
  case RingReset
  then show ?thesis using assms reset_rings_retires(2)[OF assms(1)] by simp
qed (use assms(2,3) clear_ring_retires[OF assms(1)] ring_snapshot_retires[OF assms(1)]
      retire_ring_retires[OF assms(1)] retire_display_retires[OF assms(1)]
      retire_unavailable_result(1)[OF assms(1)] in \<open>simp_all add: only_retires_def\<close>)

lemma server_op_inv:
  assumes inv: "server_inv sv" and "allowed_server_op op"
  shows "server_inv (run_server_op op sv)"
proof (cases op)
  case (ServerRings ring_op)
  show ?thesis
  proof (rule server_invI)
    show "ring_inv (sv_rings (run_server_op op sv))"
      using ring_op_result[OF server_invD(2)[OF inv], of ring_op] by (simp add: ServerRings)
  next
    fix d e assume "ring_at (sv_rings (run_server_op op sv)) d = Some e"
    then have "ring_at (sv_rings sv) d = Some e"
      using ring_op_subset[OF server_invD(2)[OF inv], of ring_op d e] assms(2) by (simp add: ServerRings)
    then show "\<exists>entry. entry_at (run_server_op op sv) d = Some entry \<and> acknowledged entry e"
      using server_invD(4)[OF inv] by (simp add: ServerRings)
  qed (use server_invD(1,3)[OF inv] in \<open>simp_all add: ServerRings\<close>)
qed (use server_register_inv[OF inv] server_clear_inv[OF inv] server_reap_result(1)[OF inv refl]
      server_reset_result(1)[OF inv] in simp_all)

interpretation server: step_invariant run_server_op server_inv "\<lambda>op sv. allowed_server_op op"
  by unfold_locales (rule server_op_inv)

lemma initial_server_inv: "server_inv initial_server"
  using initial_ring_inv by (simp add: server_inv_def initial_server_def) (simp add: initial_lifetime_def)

definition server_reachable :: "'r frame_ring_server \<Rightarrow> bool" where
  "server_reachable sv \<longleftrightarrow>
     (\<exists>ops. list_all allowed_server_op ops \<and> sv = fold run_server_op ops initial_server)"

lemma server_guarded: "list_all allowed_server_op ops \<Longrightarrow> server.guarded ops sv"
  by (induction ops arbitrary: sv) auto

lemma server_reachable_inv: "server_reachable sv \<Longrightarrow> server_inv sv"
  unfolding server_reachable_def by (auto intro: server.run_inv initial_server_inv server_guarded)

end
