(* ===== verification/Frame_Ring_Theorems.thy ===== *)
theory Frame_Ring_Theorems
  imports Frame_Ring_Props Lease_Store_Theorems
begin

text \<open>
  What the ring table promises to producers and consumers: a gate is open exactly while its ring
  is registered, a ring that was retired or replaced never publishes again through any snapshot
  that outlives it, and ring generations and frame sequence numbers are never reused.
\<close>

section \<open>Where rings come from\<close>

text \<open>A ring in the table was there before, or has a new gate and a new generation.\<close>

lemma ring_op_entries:
  assumes "ring_inv lt" and "ring_at (run_ring_op op lt) d = Some e"
  shows "ring_at lt d = Some e \<or>
    (\<exists>p \<ge> length (lt_gates lt). gate_of e = Some p) \<and> issued lt \<le> unat (rs_ring_generation (re_snapshot e))"
proof (cases op)
  case (RingRegister authorize owner resources now)
  obtain lt' status g where res: "register_ring authorize owner resources now lt = (lt', status, g)"
    by (metis prod_cases3)
  show ?thesis
  proof (cases "status = RegisterSuccess")
    case True
    let ?lt1 = "fst (retire_unavailable authorize now lt)"
    note ok = register_ring_success[OF assms(1) res[unfolded True] refl refl]
    have g: "issued lt = unat g" using ok(4,5) by (simp add: issued_def)
    have "ring_at ?lt1 d' = Some e' \<Longrightarrow> ring_at lt d' = Some e'" for d' e'
      using retire_unavailable_result(1)[OF assms(1), of authorize now] by (simp add: only_retires_def)
    then show ?thesis using assms(2) g unfolding RingRegister run_ring_op.simps res ok(3) fst_conv
      by (auto split: if_splits)
  next
    case False
    then show ?thesis using register_ring_rejected[of authorize owner resources now lt] res assms
      by (simp add: RingRegister)
  qed
next
  case (RingNextSequence snap)
  show ?thesis using sequence_step[OF assms(1) refl, of snap] assms(2) unfolding RingNextSequence by simp
next
  case RingReset
  then show ?thesis using assms reset_rings_retires(2)[OF assms(1)] by simp
qed (use assms(2) clear_ring_retires[OF assms(1)] ring_snapshot_retires[OF assms(1)]
      retire_ring_retires[OF assms(1)] retire_display_retires[OF assms(1)]
      retire_unavailable_result(1)[OF assms(1)] in \<open>simp_all add: only_retires_def\<close>)

lemma ring_run_entries:
  assumes "ring_inv lt" and "ring_at (fold run_ring_op ops lt) d = Some e"
  shows "ring_at lt d = Some e \<or> issued lt \<le> unat (rs_ring_generation (re_snapshot e))"
  using assms
proof (induction ops arbitrary: lt)
  case (Cons op ops)
  note step = ring_op_result[OF Cons.prems(1), of op]
  from Cons.IH[of "run_ring_op op lt"] Cons.prems(2) step
  have "ring_at (run_ring_op op lt) d = Some e \<or>
      issued (run_ring_op op lt) \<le> unat (rs_ring_generation (re_snapshot e))" by simp
  then show ?case
    using ring_op_entries[OF Cons.prems(1), of op d e] step by (auto simp: gates_evolve_def)
qed simp

lemma closed_stays_closed:
  assumes "ring_inv lt" and "p < length (lt_gates lt)" and "\<not> gate_enabled (lt_gates lt ! p)"
  shows "\<not> gate_enabled (lt_gates (fold run_ring_op ops lt) ! p)"
  using ring_run_evolves[OF assms(1), of ops] assms(2,3) by (auto simp: gates_evolve_def)

section \<open>Publication\<close>

text \<open>
  C20: After any sequence of ring operations, a publication gate is open if and only if it is the
  gate of exactly one registered ring. So every registered ring can publish, and a gate that
  belongs to no registered ring is closed, whoever still holds a snapshot of it.
\<close>

theorem gate_open_iff_ring_registered:
  assumes "ring_reachable lt"
  shows "(p < length (lt_gates lt) \<and> gate_enabled (lt_gates lt ! p)) \<longleftrightarrow>
      (\<exists>!d. \<exists>e. omap_find (lt_rings lt) d = Some e \<and> rs_publication (re_snapshot e) = Some p)"
proof -
  note inv = ring_reachable_inv[OF assms]
  show ?thesis
  proof
    assume "p < length (lt_gates lt) \<and> gate_enabled (lt_gates lt ! p)"
    then obtain d e where "ring_at lt d = Some e" "gate_of e = Some p" using ring_invD(5)[OF inv] by blast
    then show "\<exists>!d. \<exists>e. ring_at lt d = Some e \<and> gate_of e = Some p"
      using ring_invD(3)[OF inv] by (intro ex1I[of _ d]) metis+
  next
    assume "\<exists>!d. \<exists>e. ring_at lt d = Some e \<and> gate_of e = Some p"
    then obtain d e where "ring_at lt d = Some e" "gate_of e = Some p" by blast
    then show "p < length (lt_gates lt) \<and> gate_enabled (lt_gates lt ! p)"
      using ring_invD(2)[OF inv] by (fastforce simp: ring_ok_def)
  qed
qed

text \<open>
  A ring that has left the table never publishes again. Once an operation has removed or
  replaced the ring of a display, then after any further operations a snapshot of that ring
  cannot publish and draws no sequence number, a slot it still holds goes back under the producer
  key 0, and no ring of the table carries its generation.
\<close>

theorem retired_ring_never_publishes:
  assumes "ring_reachable lt" and "omap_find (lt_rings lt) d = Some e"
    and "omap_find (lt_rings (run_ring_op op lt)) d \<noteq> Some e"
  shows "let lt' = fold run_ring_op ops (run_ring_op op lt); snap = re_snapshot e in
    \<not> can_publish (lt_gates lt') snap \<and> snapshot_next_sequence snap (lt_gates lt') = None \<and>
    release_unpublished_slot snap key (lt_gates lt') = Some 0 \<and>
    rs_ring_generation snap \<notin> (\<lambda>(_, e'). rs_ring_generation (re_snapshot e')) ` set (lt_rings lt')"
proof -
  note inv = ring_reachable_inv[OF assms(1)]
  let ?lt1 = "run_ring_op op lt"
  let ?lt2 = "fold run_ring_op ops ?lt1"
  have step: "ring_inv ?lt1" "gates_evolve lt ?lt1" using ring_op_result[OF inv] by blast+
  note ok = ring_invD(2)[OF inv assms(2)]
  obtain p where p: "p < length (lt_gates lt)" "gate_of e = Some p" using ok by (auto simp: ring_ok_def)
  have closed1: "\<not> gate_enabled (lt_gates ?lt1 ! p)" and p1: "p < length (lt_gates ?lt1)"
  proof -
    show p1: "p < length (lt_gates ?lt1)" using step(2) p(1) by (auto simp: gates_evolve_def)
    show "\<not> gate_enabled (lt_gates ?lt1 ! p)"
    proof
      assume "gate_enabled (lt_gates ?lt1 ! p)"
      from ring_invD(5)[OF step(1) p1 this] obtain d' e' where e': "ring_at ?lt1 d' = Some e'" "gate_of e' = Some p"
        by blast
      then have old: "ring_at lt d' = Some e'" using ring_op_entries[OF inv e'(1)] p by auto
      have "d' = d" using ring_invD(3)[OF inv old assms(2)] e'(2) p(2) by auto
      then show False using old e' assms(2,3) by simp
    qed
  qed
  have closed2: "\<not> gate_enabled (lt_gates ?lt2 ! p)" by (rule closed_stays_closed[OF step(1) p1 closed1])
  have fresh: "rs_ring_generation (re_snapshot e') \<noteq> rs_ring_generation (re_snapshot e)"
    if "ring_at ?lt2 d' = Some e'" for d' e'
  proof
    assume same: "rs_ring_generation (re_snapshot e') = rs_ring_generation (re_snapshot e)"
    have small: "unat (rs_ring_generation (re_snapshot e')) < issued lt" using ok same by (simp add: ring_ok_def)
    moreover have "issued lt \<le> issued ?lt1" using step(2) by (simp add: gates_evolve_def)
    ultimately have e1: "ring_at ?lt1 d' = Some e'" using ring_run_entries[OF step(1) that] by linarith
    then have old: "ring_at lt d' = Some e'" using ring_op_entries[OF inv e1] small by linarith
    have "d' = d" using ring_invD(4)[OF inv old assms(2)] same by auto
    then show False using old e1 assms(2,3) by simp
  qed
  have "omap_wf (lt_rings ?lt2)"
    using ring_invD(1) ring.run_inv_unguarded[OF step(1), of ops] by simp
  then have "rs_ring_generation (re_snapshot e) \<notin>
      (\<lambda>(_, e'). rs_ring_generation (re_snapshot e')) ` set (lt_rings ?lt2)"
    using fresh omap_find_Some_iff by fastforce
  then show ?thesis using closed2 p
    by (simp add: Let_def can_publish_def snapshot_next_sequence_def release_unpublished_slot_def)
qed

text \<open>
  Ring generations are never reused: of two registrations that succeed one after the other,
  with any operations in between, the later one gets the larger generation; the 64-bit counter
  does not wrap, a lifetime that has used it up refuses to register.
\<close>

theorem ring_generations_increase:
  assumes "ring_reachable lt"
    and "register_ring authorize owner resources now lt = (lt1, RegisterSuccess, g1)"
    and "register_ring authorize2 owner2 resources2 now2 (fold run_ring_op ops lt1) = (lt3, RegisterSuccess, g2)"
  shows "0 < g1 \<and> g1 < g2"
proof -
  note first = register_ring_success[OF ring_reachable_inv[OF assms(1)] assms(2) refl refl]
  let ?lt2 = "fold run_ring_op ops lt1"
  have inv2: "ring_inv ?lt2" by (rule ring.run_inv_unguarded[OF first(7)]) simp
  note second = register_ring_success[OF inv2 assms(3) refl refl]
  have "unat g1 < issued lt1"
    using ring_invD(2)[OF first(7), of "ldr_display_id (fro_display owner)"] first(3) by (simp add: ring_ok_def)
  also have "\<dots> \<le> issued ?lt2" using ring_run_evolves[OF first(7), of ops] by (simp add: gates_evolve_def)
  also have "\<dots> = unat g2" using second(4,5) by (simp add: issued_def)
  finally show ?thesis using first(5) by (simp add: word_less_nat_alt word_neq_0_conv)
qed

text \<open>
  Sequence numbers drawn through the gate of one ring strictly increase, whoever draws them
  and whatever happens in between; they start above 0 and stay below the reserved maximum.
\<close>

theorem frame_sequence_increases:
  fixes lt :: "'r frame_ring_lifetime" and snap snap2 :: "'r frame_ring_snapshot"
  assumes "ring_reachable lt" and "rs_publication snap = Some p" and "p < length (lt_gates lt)"
    and "snapshot_next_sequence snap (lt_gates lt) = Some (n, gates)"
    and "rs_publication snap2 = Some p"
    and "snapshot_next_sequence snap2 (lt_gates (fold run_ring_op ops (lt\<lparr>lt_gates := gates\<rparr>))) = Some (m, gates2)"
  shows "0 < n \<and> n < m \<and> m < 0xffffffffffffffff"
proof -
  have inv: "ring_inv lt" by (rule ring_reachable_inv[OF assms(1)])
  let ?lt1 = "lt\<lparr>lt_gates := gates\<rparr>"
  have lt1: "?lt1 = run_ring_op (RingNextSequence snap) lt" using assms(4) by simp
  have inv1: "ring_inv ?lt1" unfolding lt1 using ring_op_result[OF inv] by blast
  have n: "n = gate_sequence (lt_gates lt ! p) + 1" "gate_sequence (lt_gates lt ! p) < 0xffffffffffffffff - 1"
    "gate_sequence (gates ! p) = n" "length gates = length (lt_gates lt)"
    using assms(2,3,4) by (auto simp: snapshot_next_sequence_def gate_next_sequence_def split: if_splits)
  let ?g = "gate_sequence (lt_gates (fold run_ring_op ops ?lt1) ! p)"
  have m: "m = ?g + 1" "?g < 0xffffffffffffffff - 1"
    using assms(5,6) by (auto simp: snapshot_next_sequence_def gate_next_sequence_def split: if_splits)
  have "n \<le> ?g" using ring_run_evolves[OF inv1, of ops] n assms(3) by (auto simp: gates_evolve_def)
  moreover have "unat n = Suc (unat (gate_sequence (lt_gates lt ! p)))" unfolding n(1) by (rule unat_Suc_word[OF n(2)])
  moreover have "unat m = Suc (unat ?g)" unfolding m(1) by (rule unat_Suc_word[OF m(2)])
  moreover have "unat ?g < 2 ^ 64 - 2" using m(2) by (simp add: word_less_nat_alt)
  ultimately show ?thesis by (simp add: word_less_nat_alt word_le_nat_alt)
qed

section \<open>Concrete runs\<close>

text \<open>The sample store has an owned display 1 of generation 1.\<close>

definition ring_sample_owner :: frame_ring_owner where
  "ring_sample_owner =
     \<lparr>fro_display = \<lparr>ldr_api_namespace = kApiNamespaceGuid, ldr_lease_id = sample_lease,
                     ldr_display_id = 1\<rparr>,
      fro_display_generation = 1, fro_capability = sample_capability\<rparr>"

definition register_sample :: "nat ring_op" where
  "register_sample = RingRegister (store_authority sample_store) ring_sample_owner (Some 5) 0"

definition ring_sample :: "nat frame_ring_lifetime" where
  "ring_sample = run_ring_op register_sample initial_lifetime"

lemma ring_sample_reachable: "ring_reachable ring_sample"
  unfolding ring_reachable_def ring_sample_def by (rule exI[of _ "[register_sample]"]) simp

theorem gate_open_iff_ring_registered_witness:
  "0 < length (lt_gates ring_sample) \<and> gate_enabled (lt_gates ring_sample ! 0)"
proof -
  have ring: "map (\<lambda>(d, e). (d, rs_publication (re_snapshot e))) (lt_rings ring_sample) = [(1, Some 0)]"
    by code_simp
  then obtain e where "lt_rings ring_sample = [(1, e)]" "rs_publication (re_snapshot e) = Some 0"
    by auto
  then show ?thesis using gate_open_iff_ring_registered[OF ring_sample_reachable, of 0] by auto
qed

theorem retired_ring_never_publishes_witness:
  "let lt = run_ring_op register_sample (run_ring_op (RingRetireDisplay 1 1) ring_sample) in
   can_publish (lt_gates lt) (re_snapshot (snd (hd (lt_rings ring_sample)))) = False \<and>
   map fst (lt_rings lt) = [1]"
proof -
  have "map fst (lt_rings ring_sample) = [1]" by code_simp
  then obtain e where e: "lt_rings ring_sample = [(1, e)]" by auto
  have "map fst (lt_rings (run_ring_op (RingRetireDisplay 1 1) ring_sample)) = []" by code_simp
  then have gone: "omap_find (lt_rings (run_ring_op (RingRetireDisplay 1 1) ring_sample)) 1 \<noteq> Some e" by simp
  have "map fst (lt_rings (run_ring_op register_sample (run_ring_op (RingRetireDisplay 1 1) ring_sample))) = [1]"
    by code_simp
  then show ?thesis
    using retired_ring_never_publishes[OF ring_sample_reachable _ gone, of "[register_sample]"] e
    by (simp add: Let_def)
qed

theorem ring_generations_increase_witness:
  "\<exists>lt3 g. register_ring (store_authority sample_store) ring_sample_owner (Some (5 :: nat)) 0 ring_sample =
     (lt3, RegisterSuccess, g) \<and> 1 < g"
proof -
  let ?reg = "\<lambda>lt. register_ring (store_authority sample_store) ring_sample_owner (Some (5 :: nat)) 0 lt"
  have first: "snd (?reg initial_lifetime) = (RegisterSuccess, 1)" by code_simp
  have start: "?reg initial_lifetime = (ring_sample, RegisterSuccess, 1)"
    using first by (simp add: ring_sample_def register_sample_def prod_eq_iff)
  have "fst (snd (?reg ring_sample)) = RegisterSuccess" by code_simp
  then obtain lt3 g where lt3: "?reg ring_sample = (lt3, RegisterSuccess, g)" by (metis prod.collapse)
  then have again: "?reg (fold run_ring_op [] ring_sample) = (lt3, RegisterSuccess, g)" by simp
  have "ring_reachable (initial_lifetime :: nat frame_ring_lifetime)"
    unfolding ring_reachable_def by (rule exI[of _ "[]"]) simp
  from ring_generations_increase[OF this start again] show ?thesis using lt3 by blast
qed

theorem frame_sequence_increases_witness:
  "\<exists>n m gates gates2. snapshot_next_sequence (re_snapshot (snd (hd (lt_rings ring_sample)))) (lt_gates ring_sample) =
       Some (n, gates) \<and>
     snapshot_next_sequence (re_snapshot (snd (hd (lt_rings ring_sample)))) gates = Some (m, gates2) \<and> n < m"
proof -
  let ?snap = "re_snapshot (snd (hd (lt_rings ring_sample)))"
  have p: "rs_publication ?snap = Some 0" by code_simp
  have len: "0 < length (lt_gates ring_sample)" by code_simp
  have one: "snapshot_next_sequence ?snap (lt_gates ring_sample) = Some (1, [\<lparr>gate_enabled = True, gate_sequence = 1\<rparr>])"
    by code_simp
  have two: "snapshot_next_sequence ?snap [\<lparr>gate_enabled = True, gate_sequence = 1\<rparr>] =
      Some (2, [\<lparr>gate_enabled = True, gate_sequence = 2\<rparr>])" by code_simp
  have "snapshot_next_sequence ?snap (lt_gates (fold run_ring_op []
      (ring_sample\<lparr>lt_gates := [\<lparr>gate_enabled = True, gate_sequence = 1\<rparr>]\<rparr>))) =
      Some (2, [\<lparr>gate_enabled = True, gate_sequence = 2\<rparr>])" using two by simp
  from frame_sequence_increases[OF ring_sample_reachable p len one p this] show ?thesis
    using one two by blast
qed

end
