(* ===== verification/Frame_Server_Theorems.thy ===== *)
theory Frame_Server_Theorems
  imports Frame_Server_Props Frame_Ring_Theorems
begin

text \<open>
  What the ring server promises: acknowledged rings are exactly the registered ones, a client
  cookie is consumed once, and a cancelled cookie stays cancelled.
\<close>

lemma request_authorized_owner:
  "owner_for a = owner_for b \<Longrightarrow> request_authorized authorize a now = request_authorized authorize b now"
  unfolding request_authorized_def by (metis owner_for_fields(1))

lemma only_retires_same_counter:
  "only_retires lt lt' \<Longrightarrow> lt_next_ring_generation lt' = lt_next_ring_generation lt \<and>
     length (lt_gates lt') = length (lt_gates lt)"
  by (simp add: only_retires_def)

text \<open>
  No ring is orphaned and none is shared. In every reachable server a registered ring can
  publish, and the entry of its display holds a valid reply to that entry's request naming
  exactly the ring's generation; the ring's owner (lease, display, display generation and
  capability) is the one of that request.
\<close>

theorem registered_rings_are_acknowledged:
  assumes "server_reachable sv" and "omap_find (lt_rings (sv_rings sv)) d = Some e"
  shows "can_publish (lt_gates (sv_rings sv)) (re_snapshot e) \<and>
    (\<exists>entry. omap_find (sv_entries sv) d = Some entry \<and> frr_display_id (se_request entry) = d \<and>
       valid_frame_ring_reply (se_reply entry) (se_request entry) \<and>
       rep_ring_generation (se_reply entry) = rs_ring_generation (re_snapshot e) \<and>
       re_owner e = owner_for (se_request entry))"
proof -
  note inv = server_reachable_inv[OF assms(1)]
  note ok = ring_invD(2)[OF server_invD(2)[OF inv] assms(2)]
  obtain entry where entry: "entry_at sv d = Some entry" "acknowledged entry e"
    using server_invD(4)[OF inv assms(2)] by blast
  have "rep_ring_generation (se_reply entry) \<noteq> 0"
    using entry(2) ok by (simp add: acknowledged_def ring_ok_def)
  then have "valid_frame_ring_reply (se_reply entry) (se_request entry)" "frr_display_id (se_request entry) = d"
    using server_invD(3)[OF inv entry(1)] by (auto simp: entry_ok_def empty_reply_def)
  then show ?thesis using entry ok by (auto simp: acknowledged_def can_publish_def ring_ok_def)
qed

text \<open>
  A registration that reports success leaves the caller with a live ring: the reply is valid
  for the request, the ring table holds a ring of that generation for the display, owned by the
  caller and able to publish, and the store knew the owner and the display generation.
\<close>

theorem registration_success_is_live:
  assumes "server_reachable sv"
    and "server_register authorize import_resources peer r now sv = (sv', WireSuccess, reply)"
  shows "valid_frame_ring_request r \<and> request_authorized authorize r now \<and>
    valid_frame_ring_reply reply r \<and>
    (\<exists>e. omap_find (lt_rings (sv_rings sv')) (frr_display_id r) = Some e \<and>
       rs_ring_generation (re_snapshot e) = rep_ring_generation reply \<and> re_owner e = owner_for r \<and>
       can_publish (lt_gates (sv_rings sv')) (re_snapshot e))"
proof -
  note inv = server_reachable_inv[OF assms(1)]
  define sv1 where "sv1 = fst (server_reap authorize now sv)"
  note reap = server_reap_result[OF inv sv1_def]
  have live: "can_publish (lt_gates lt) (re_snapshot e)" if "ring_inv lt" "ring_at lt d = Some e"
    for lt :: "'a frame_ring_lifetime" and d e
    using ring_invD(2)[OF that] by (auto simp: can_publish_def ring_ok_def)
  from inv sv1_def assms(2) show ?thesis
  proof (cases rule: server_register_cases)
    case (answered old)
    then have old: "rep_ring_generation (se_reply old) \<noteq> 0" "same_frame_ring_request (se_request old) r"
      "reply = se_reply old"
      by (auto simp: existing_entry_result_def split: if_splits)
    obtain e where e: "ring_at (sv_rings sv1) (frr_display_id r) = Some e" "acknowledged old e"
      using reap(4)[OF answered(3) old(1)] by blast
    have "valid_frame_ring_reply (se_reply old) (se_request old)"
      using server_invD(3)[OF reap(1) answered(3)] old(1) by (auto simp: entry_ok_def empty_reply_def)
    moreover have "owner_for (se_request old) = owner_for r" "frr_client_cookie (se_request old) = frr_client_cookie r"
      "frr_display_generation (se_request old) = frr_display_generation r"
      using old(2) by (simp_all add: same_frame_ring_request_def owner_for_def)
    ultimately show ?thesis
      using answered(1,2,5) old(3) e live[OF server_invD(2)[OF reap(1)] e(1)]
      by (auto simp: acknowledged_def valid_frame_ring_reply_def)
  next
    case (registered resources g)
    note new = register_ring_success[OF server_invD(2)[OF reap(1)] registered(7) refl refl]
    obtain e where e: "ring_at (sv_rings sv') (frr_display_id r) = Some e" "re_owner e = owner_for r"
      "rs_ring_generation (re_snapshot e) = g" using new(3) by auto
    have "valid_frame_ring_reply reply r"
      using new(5) registered(6) by (simp add: valid_frame_ring_reply_def empty_reply_def is_valid_api_namespace_def)
    then show ?thesis using registered(1,2,6) e live[OF new(7) e(1)] by auto
  qed simp_all
qed

text \<open>
  A client cookie is consumed once. While the owner of an entry is still authorised, a
  registration with a cookie that is not newer succeeds only as the retransmission of the very
  request that is active, from the same process, with the reply already given; it issues no ring
  generation, opens no gate and leaves the recorded cookie and process alone.
\<close>

theorem stale_cookie_registers_nothing:
  assumes "server_reachable sv" and "omap_find (sv_entries sv) (frr_display_id r) = Some old"
    and "request_authorized authorize (se_request old) now"
    and "frr_client_cookie r \<le> frr_client_cookie (se_request old)"
    and "server_register authorize import_resources peer r now sv = (sv', status, reply)"
  shows "(status = WireSuccess \<longrightarrow> se_peer old = peer \<and> same_frame_ring_request (se_request old) r \<and>
      reply = se_reply old \<and> rep_ring_generation reply \<noteq> 0) \<and>
    lt_next_ring_generation (sv_rings sv') = lt_next_ring_generation (sv_rings sv) \<and>
    length (lt_gates (sv_rings sv')) = length (lt_gates (sv_rings sv)) \<and>
    (\<exists>entry. omap_find (sv_entries sv') (frr_display_id r) = Some entry \<and> se_peer entry = se_peer old \<and>
       se_request entry = se_request old)"
proof -
  note inv = server_reachable_inv[OF assms(1)]
  define sv1 where "sv1 = fst (server_reap authorize now sv)"
  note reap = server_reap_result[OF inv sv1_def]
  have kept: "entry_at sv1 (frr_display_id r) \<in> {Some old, Some (old\<lparr>se_reply := empty_reply\<rparr>)}"
    using reap(3)[of "frr_display_id r"] assms(2,3) by (simp add: reaped_to_def)
  from inv sv1_def assms(5) show ?thesis
  proof (cases rule: server_register_cases)
    case refused
    then show ?thesis using assms(2) by auto
  next
    case (answered entry)
    have "entry = old \<or> entry = old\<lparr>se_reply := empty_reply\<rparr>" using kept answered(3) by auto
    then show ?thesis using answered(3-5) only_retires_same_counter[OF reap(2)]
      by (auto simp: existing_entry_result_def empty_reply_def split: if_splits)
  qed (use kept assms(4) in \<open>auto simp: not_le dest: leD\<close>)
qed

text \<open>
  Cancelling wins over a late registration. After a clear that reports success the display
  has no ring, and as long as the owner that cleared is still authorised, no registration with
  the cancelled cookie or an older one, from any process, succeeds on the server the clear left.
\<close>

theorem cancelled_cookie_stays_cancelled:
  assumes "server_reachable sv"
    and "server_clear authorize peer c now sv = (sv1, WireSuccess)"
    and "request_authorized authorize2 (cancel_request c) now2"
    and "frr_display_id r = frc_display_id c"
    and "frr_client_cookie r \<le> rep_client_cookie (frc_identity c)"
  shows "omap_find (lt_rings (sv_rings sv1)) (frc_display_id c) = None \<and>
    fst (snd (server_register authorize2 import_resources peer2 r now2 sv1)) \<noteq> WireSuccess"
proof -
  note inv = server_reachable_inv[OF assms(1)]
  obtain entry where gone: "ring_at (sv_rings sv1) (frc_display_id c) = None"
    and entry: "entry_at sv1 (frc_display_id c) = Some entry" "se_reply entry = empty_reply"
      "frr_client_cookie (se_request entry) = rep_client_cookie (frc_identity c)"
      "owner_for (se_request entry) = owner_for (cancel_request c)"
    using inv refl assms(2) by (cases rule: server_clear_cases) auto
  have inv1: "server_inv sv1" using server_clear_inv[OF inv, of authorize peer c now] assms(2) by simp
  define sv2 where "sv2 = fst (server_reap authorize2 now2 sv1)"
  note reap = server_reap_result[OF inv1 sv2_def]
  have "request_authorized authorize2 (se_request entry) now2"
    using request_authorized_owner[OF entry(4)] assms(3) by simp
  then have kept: "entry_at sv2 (frr_display_id r) \<in> {Some entry, Some (entry\<lparr>se_reply := empty_reply\<rparr>)}"
    using reap(3)[of "frr_display_id r"] entry(1) assms(4) by (simp add: reaped_to_def)
  obtain sv3 status reply where run: "server_register authorize2 import_resources peer2 r now2 sv1 = (sv3, status, reply)"
    by (metis prod_cases3)
  from inv1 sv2_def run have "status \<noteq> WireSuccess"
  proof (cases rule: server_register_cases)
    case (answered old)
    then show ?thesis using kept entry(2)
      by (auto simp: existing_entry_result_def empty_reply_def split: if_splits)
  qed (use kept assms(5) entry(3) in \<open>auto dest: leD\<close>)
  then show ?thesis using gone run by simp
qed

section \<open>Concrete runs\<close>

definition sample_peer :: frame_request_peer where
  "sample_peer = \<lparr>peer_process_id = 42, peer_process_start = 7\<rparr>"

definition sample_registration :: "u64 \<Rightarrow> frame_ring_register_request" where
  "sample_registration cookie = empty_register_request
     \<lparr>frr_lease_id := sample_lease, frr_display_id := 1, frr_display_generation := 1,
      frr_client_cookie := cookie, frr_owner_capability := sample_capability,
      frr_width := 1920, frr_height := 1080, frr_format := 87, frr_color_space := 0,
      frr_texture_handles := [11, 12, 13, 14], frr_metadata_handle := 15, frr_event_handle := 16\<rparr>"

definition sample_clear :: "u64 \<Rightarrow> frame_ring_clear_request" where
  "sample_clear cookie =
     \<lparr>frc_identity = empty_reply\<lparr>rep_client_cookie := cookie, rep_display_generation := 1\<rparr>,
      frc_lease_id = sample_lease, frc_display_id = 1, frc_owner_capability = sample_capability,
      frc_flags = 1, frc_reserved = 0\<rparr>"

definition register_op :: "u64 \<Rightarrow> nat server_op" where
  "register_op cookie = ServerRegister (store_authority sample_store) (\<lambda>peer r. Some 5) sample_peer
     (sample_registration cookie) 0"

definition sample_server :: "nat frame_ring_server" where
  "sample_server = run_server_op (register_op 3) initial_server"

lemma sample_server_reachable: "server_reachable sample_server"
  unfolding server_reachable_def sample_server_def
  by (rule exI[of _ "[register_op 3]"]) (simp add: register_op_def)

theorem registered_rings_are_acknowledged_witness:
  "\<exists>e. lt_rings (sv_rings sample_server) = [(1, e)] \<and> can_publish (lt_gates (sv_rings sample_server)) (re_snapshot e)"
proof -
  have "map fst (lt_rings (sv_rings sample_server)) = [1]" by code_simp
  then obtain e where e: "lt_rings (sv_rings sample_server) = [(1, e)]" by auto
  then have "omap_find (lt_rings (sv_rings sample_server)) 1 = Some e" by simp
  from registered_rings_are_acknowledged[OF sample_server_reachable this] show ?thesis using e by auto
qed

theorem registration_success_is_live_witness:
  "\<exists>sv' reply. server_register (store_authority sample_store) (\<lambda>peer r. Some 6) sample_peer
      (sample_registration 4) 0 sample_server = (sv', WireSuccess, reply) \<and>
    rep_ring_generation reply = 2 \<and> valid_frame_ring_reply reply (sample_registration 4)"
proof -
  let ?res = "server_register (store_authority sample_store) (\<lambda>peer r. Some 6) sample_peer
      (sample_registration 4) 0 sample_server"
  have res: "fst (snd ?res) = WireSuccess \<and> rep_ring_generation (snd (snd ?res)) = 2" by code_simp
  obtain sv' status reply where run: "?res = (sv', status, reply)" by (metis prod_cases3)
  then have "?res = (sv', WireSuccess, reply)" "rep_ring_generation reply = 2" using res by auto
  then show ?thesis using registration_success_is_live[OF sample_server_reachable] by blast
qed

theorem stale_cookie_registers_nothing_witness:
  "lt_next_ring_generation (sv_rings (fst (server_register (store_authority sample_store) (\<lambda>peer r. Some 6)
      sample_peer (sample_registration 2) 0 sample_server))) = 2"
proof -
  let ?r = "sample_registration 2"
  let ?res = "server_register (store_authority sample_store) (\<lambda>peer r. Some (6 :: nat)) sample_peer ?r 0 sample_server"
  obtain sv' status reply where run: "?res = (sv', status, reply)" by (metis prod_cases3)
  have "map_option (\<lambda>e. request_authorized (store_authority sample_store) (se_request e) 0 \<and>
      frr_client_cookie (se_request e) = 3) (omap_find (sv_entries sample_server) (frr_display_id ?r)) = Some True"
    by code_simp
  then obtain old where old: "omap_find (sv_entries sample_server) (frr_display_id ?r) = Some old"
    "request_authorized (store_authority sample_store) (se_request old) 0" "frr_client_cookie (se_request old) = 3"
    by auto
  have "frr_client_cookie ?r \<le> frr_client_cookie (se_request old)"
    using old(3) by (simp add: sample_registration_def)
  moreover have "lt_next_ring_generation (sv_rings sample_server) = 2" by code_simp
  ultimately show ?thesis
    using stale_cookie_registers_nothing[OF sample_server_reachable old(1,2) _ run] run by simp
qed

theorem cancelled_cookie_stays_cancelled_witness:
  "fst (snd (server_register (store_authority sample_store) (\<lambda>peer r. Some 6) sample_peer
      (sample_registration 8) 0
      (fst (server_clear (store_authority sample_store) sample_peer (sample_clear 8) 0 sample_server)))) \<noteq> WireSuccess"
proof -
  let ?clear = "server_clear (store_authority sample_store) sample_peer (sample_clear 8) 0 sample_server"
  obtain sv1 status where run: "?clear = (sv1, status)" by fastforce
  have "snd ?clear = WireSuccess" by code_simp
  then have run: "?clear = (sv1, WireSuccess)" using run by simp
  have auth: "request_authorized (store_authority sample_store) (cancel_request (sample_clear 8)) 0" by code_simp
  have ids: "frr_display_id (sample_registration 8) = frc_display_id (sample_clear 8)"
    "frr_client_cookie (sample_registration 8) \<le> rep_client_cookie (frc_identity (sample_clear 8))"
    by (simp_all add: sample_registration_def sample_clear_def)
  show ?thesis
    using cancelled_cookie_stays_cancelled[OF sample_server_reachable run auth ids] run by simp
qed

end
