(* ===== verification/Ioctl_Dispatcher.thy ===== *)
theory Ioctl_Dispatcher
  imports Driver_Controller_Props
begin

unbundle bit_operations_syntax

text \<open>
  The control entry point of the driver (\<open>ioctl_dispatcher.h\<close>, \<open>ioctl_dispatcher.cpp\<close>, and the
  control codes of \<open>control_protocol.h\<close>): buffer checks, dispatch on the control code, and the
  translation of controller errors. The input buffer is given by its address being non-null, its
  size, and the value its first bytes have when they are copied into each request structure
  (the layout is fixed by the static assertions on the structure sizes). The output buffer is
  given by its address and size; the structure written into it is part of the result.
\<close>

section \<open>Control codes\<close>

datatype ioctl_function =
    FnGetProtocolVersion | FnCreateTemporaryDisplay | FnRemoveTemporaryDisplay | FnFeedLease
  | FnReleaseLease | FnQueryLease | FnSetPermanentDisplayCount | FnQueryPermanentDisplayCount
  | FnQueryDisplayState | FnSetDisplayManifest | FnQueryDisplayManifest | FnSetRenderAdapter
  | FnCreateTemporaryDisplayOwned | FnReclaimTemporaryDisplay | FnQueryFrameTransportCapabilities
  | FnQueryFrameTransportTarget

fun ioctl_function_value :: "ioctl_function \<Rightarrow> u32" where
  "ioctl_function_value FnGetProtocolVersion = 0x900"
| "ioctl_function_value FnCreateTemporaryDisplay = 0x901"
| "ioctl_function_value FnRemoveTemporaryDisplay = 0x902"
| "ioctl_function_value FnFeedLease = 0x903"
| "ioctl_function_value FnReleaseLease = 0x904"
| "ioctl_function_value FnQueryLease = 0x905"
| "ioctl_function_value FnSetPermanentDisplayCount = 0x906"
| "ioctl_function_value FnQueryPermanentDisplayCount = 0x907"
| "ioctl_function_value FnQueryDisplayState = 0x908"
| "ioctl_function_value FnSetDisplayManifest = 0x909"
| "ioctl_function_value FnQueryDisplayManifest = 0x90a"
| "ioctl_function_value FnSetRenderAdapter = 0x90b"
| "ioctl_function_value FnCreateTemporaryDisplayOwned = 0x90c"
| "ioctl_function_value FnReclaimTemporaryDisplay = 0x90d"
| "ioctl_function_value FnQueryFrameTransportCapabilities = 0x90e"
| "ioctl_function_value FnQueryFrameTransportTarget = 0x911"

datatype ioctl_access = AccessAny | AccessRead | AccessWrite | AccessReadWrite

fun ioctl_access_value :: "ioctl_access \<Rightarrow> u32" where
  "ioctl_access_value AccessAny = 0"
| "ioctl_access_value AccessRead = 1"
| "ioctl_access_value AccessWrite = 2"
| "ioctl_access_value AccessReadWrite = 3"

definition ioctl_code :: "ioctl_function \<Rightarrow> ioctl_access \<Rightarrow> u32" where
  "ioctl_code f a =
     push_bit 16 0x22 OR push_bit 14 (ioctl_access_value a) OR push_bit 2 (ioctl_function_value f) OR 0"

text \<open>The access each function is declared with: its \<open>kIoctl...\<close> constant.\<close>

fun declared_access :: "ioctl_function \<Rightarrow> ioctl_access" where
  "declared_access FnGetProtocolVersion = AccessAny"
| "declared_access FnCreateTemporaryDisplay = AccessReadWrite"
| "declared_access FnRemoveTemporaryDisplay = AccessReadWrite"
| "declared_access FnFeedLease = AccessReadWrite"
| "declared_access FnReleaseLease = AccessReadWrite"
| "declared_access FnQueryLease = AccessRead"
| "declared_access FnSetPermanentDisplayCount = AccessReadWrite"
| "declared_access FnQueryPermanentDisplayCount = AccessRead"
| "declared_access FnQueryDisplayState = AccessRead"
| "declared_access FnSetDisplayManifest = AccessReadWrite"
| "declared_access FnQueryDisplayManifest = AccessRead"
| "declared_access FnSetRenderAdapter = AccessWrite"
| "declared_access FnCreateTemporaryDisplayOwned = AccessReadWrite"
| "declared_access FnReclaimTemporaryDisplay = AccessReadWrite"
| "declared_access FnQueryFrameTransportCapabilities = AccessRead"
| "declared_access FnQueryFrameTransportTarget = AccessRead"

definition kIoctl :: "ioctl_function \<Rightarrow> u32" where
  "kIoctl f = ioctl_code f (declared_access f)"

section \<open>Buffers and results\<close>

record ioctl_input =
  in_present :: bool
  in_size :: nat
  in_create :: create_temporary_display_request
  in_create_owned :: create_temporary_display_owned_request
  in_reclaim :: reclaim_temporary_display_request
  in_lease_display :: lease_display_request
  in_lease :: lease_request
  in_permanent :: permanent_display_count_request
  in_manifest :: display_manifest
  in_adapter :: set_render_adapter_request

record ioctl_buffer =
  out_present :: bool
  out_size :: nat

record frame_transport_capabilities =
  ftc_api_namespace :: guid
  ftc_version :: u32
  ftc_size :: u32
  ftc_capabilities :: u64
  ftc_max_ring_slots :: u32
  ftc_reserved :: u32

record protocol_version =
  pv_api_namespace :: guid
  pv_major :: u16
  pv_minor :: u16
  pv_patch :: u16
  pv_reserved :: u16

datatype ioctl_output =
    OutNothing
  | OutCapabilities frame_transport_capabilities
  | OutVersion protocol_version
  | OutCreated create_temporary_display_result
  | OutReclaimed reclaim_temporary_display_result
  | OutLease query_lease_result
  | OutPermanentCount permanent_display_count_result
  | OutDisplayState query_display_state_result
  | OutManifest display_manifest

text \<open>The structure sizes asserted at the end of \<open>control_protocol.h\<close>.\<close>

fun output_bytes :: "ioctl_output \<Rightarrow> nat" where
  "output_bytes OutNothing = 0"
| "output_bytes (OutCapabilities _) = 40"
| "output_bytes (OutVersion _) = 24"
| "output_bytes (OutCreated _) = 56"
| "output_bytes (OutReclaimed _) = 48"
| "output_bytes (OutLease _) = 48"
| "output_bytes (OutPermanentCount _) = 80"
| "output_bytes (OutDisplayState _) = 1696"
| "output_bytes (OutManifest _) = 1312"

datatype ioctl_status =
    IoctlSuccess | InvalidIoctl | InvalidInputBuffer | InvalidOutputBuffer | InvalidRequest
  | AlreadyExists | LimitReached | NotFound | BackendFailure

record ioctl_dispatch_result =
  io_status :: ioctl_status
  io_bytes_returned :: nat
  io_controller_status :: controller_status

type_synonym ioctl_step = "world \<times> ioctl_dispatch_result \<times> ioctl_output"

definition read_input :: "ioctl_input \<Rightarrow> nat \<Rightarrow> bool" where
  "read_input input bytes \<longleftrightarrow> \<not> (\<not> in_present input \<or> in_size input < bytes)"

definition can_write :: "ioctl_buffer \<Rightarrow> nat \<Rightarrow> bool" where
  "can_write output bytes \<longleftrightarrow> \<not> (\<not> out_present output \<or> out_size output < bytes)"

definition ioctl_fails :: "world \<Rightarrow> ioctl_status \<Rightarrow> ioctl_step" where
  "ioctl_fails w status =
     (w, \<lparr>io_status = status, io_bytes_returned = 0, io_controller_status = ok_status\<rparr>, OutNothing)"

text \<open>\<open>write_output\<close> and the result that follows it, in both outcomes.\<close>

definition write_output :: "ioctl_buffer \<Rightarrow> ioctl_output \<Rightarrow> world \<Rightarrow> ioctl_step" where
  "write_output output v w =
     (if \<not> can_write output (output_bytes v) then ioctl_fails w InvalidOutputBuffer
      else (w, \<lparr>io_status = IoctlSuccess, io_bytes_returned = output_bytes v,
               io_controller_status = ok_status\<rparr>, v))"

definition status_from_controller :: "controller_status \<Rightarrow> ioctl_status" where
  "status_from_controller status =
     (if cs_backend_error status \<noteq> BackendNone then BackendFailure
      else if cs_validation_error status = PermanentDisplayCountTooHigh then LimitReached
      else if cs_validation_error status \<noteq> VNone then InvalidRequest
      else
        (case cs_store_error status of
           StoreNone \<Rightarrow> IoctlSuccess
         | ValidationFailed \<Rightarrow> InvalidRequest
         | TemporaryDisplayLimitReached \<Rightarrow> LimitReached
         | PermanentDisplayCountTooHighError \<Rightarrow> LimitReached
         | DisplayAlreadyExists \<Rightarrow> AlreadyExists
         | DuplicateDisplayIdentity \<Rightarrow> AlreadyExists
         | LeaseNotFound \<Rightarrow> NotFound
         | DisplayNotFound \<Rightarrow> NotFound
         | _ \<Rightarrow> InvalidRequest))"

definition result_from_controller :: "world \<Rightarrow> controller_status \<Rightarrow> ioctl_step" where
  "result_from_controller w status =
     (w, \<lparr>io_status = status_from_controller status, io_bytes_returned = 0,
         io_controller_status = status\<rparr>, OutNothing)"

section \<open>Dispatch\<close>

text \<open>The end of the cases that return a structure only when the controller reports success.\<close>

definition finish_with :: "ioctl_buffer \<Rightarrow> world \<Rightarrow> controller_status \<Rightarrow> ioctl_output \<Rightarrow> ioctl_step" where
  "finish_with output w status v =
     (if \<not> status_ok status then result_from_controller w status else write_output output v w)"

definition frame_transport_capabilities_of :: "bool \<Rightarrow> frame_transport_capabilities" where
  "frame_transport_capabilities_of frame_transport =
     (let capabilities =
            \<lparr>ftc_api_namespace = kApiNamespaceGuid, ftc_version = 1, ftc_size = 40,
             ftc_capabilities = 0, ftc_max_ring_slots = 0, ftc_reserved = 0\<rparr>
      in if frame_transport
         then capabilities\<lparr>ftc_capabilities := 1, ftc_max_ring_slots := 4\<rparr> else capabilities)"

definition current_protocol_version :: protocol_version where
  "current_protocol_version =
     \<lparr>pv_api_namespace = kApiNamespaceGuid, pv_major = kProtocolVersionMajor,
      pv_minor = kProtocolVersionMinor, pv_patch = kProtocolVersionPatch, pv_reserved = 0\<rparr>"

definition dispatch_create ::
  "ioctl_input \<Rightarrow> ioctl_buffer \<Rightarrow> time_point \<Rightarrow> world \<Rightarrow> ioctl_step" where
  "dispatch_create input output now w =
     (if \<not> read_input input 96 then ioctl_fails w InvalidInputBuffer
      else if \<not> can_write output 56 then ioctl_fails w InvalidOutputBuffer
      else
        (let (w1, status, result) = controller_create (in_create input) now w
         in finish_with output w1 status (OutCreated result)))"

definition dispatch_create_owned ::
  "ioctl_input \<Rightarrow> ioctl_buffer \<Rightarrow> time_point \<Rightarrow> world \<Rightarrow> ioctl_step" where
  "dispatch_create_owned input output now w =
     (if \<not> read_input input 128 then ioctl_fails w InvalidInputBuffer
      else if \<not> can_write output 56 then ioctl_fails w InvalidOutputBuffer
      else
        (let (w1, status, result) = controller_create_owned (in_create_owned input) now w
         in finish_with output w1 status (OutCreated result)))"

definition dispatch_reclaim ::
  "ioctl_input \<Rightarrow> ioctl_buffer \<Rightarrow> time_point \<Rightarrow> world \<Rightarrow> ioctl_step" where
  "dispatch_reclaim input output now w =
     (if \<not> read_input input 72 then ioctl_fails w InvalidInputBuffer
      else if \<not> can_write output 48 then ioctl_fails w InvalidOutputBuffer
      else
        (let (w1, status, result) = controller_reclaim (in_reclaim input) now w
         in finish_with output w1 status (OutReclaimed result)))"

definition dispatch_query_lease ::
  "ioctl_input \<Rightarrow> ioctl_buffer \<Rightarrow> time_point \<Rightarrow> world \<Rightarrow> ioctl_step" where
  "dispatch_query_lease input output now w =
     (if \<not> read_input input 32 then ioctl_fails w InvalidInputBuffer
      else
        let validation = validate_lease_request (in_lease input) in
        if validation \<noteq> VNone then
          (w, \<lparr>io_status = InvalidRequest, io_bytes_returned = 0,
              io_controller_status = invalid_status validation\<rparr>, OutNothing)
        else
          write_output output (OutLease (query_lease (lr_lease_id (in_lease input)) now (w_store w))) w)"

definition dispatch_set_permanent_count :: "ioctl_input \<Rightarrow> ioctl_buffer \<Rightarrow> world \<Rightarrow> ioctl_step" where
  "dispatch_set_permanent_count input output w =
     (if \<not> read_input input 76 then ioctl_fails w InvalidInputBuffer
      else if \<not> can_write output 80 then ioctl_fails w InvalidOutputBuffer
      else
        (let (w1, status) = controller_set_permanent_display_count (in_permanent input) w
         in finish_with output w1 status
              (OutPermanentCount (query_permanent_display_count (w_store w1)))))"

definition dispatch_set_manifest :: "ioctl_input \<Rightarrow> ioctl_buffer \<Rightarrow> world \<Rightarrow> ioctl_step" where
  "dispatch_set_manifest input output w =
     (if \<not> read_input input 1312 then ioctl_fails w InvalidInputBuffer
      else if \<not> can_write output 1312 then ioctl_fails w InvalidOutputBuffer
      else
        (let (w1, status) = controller_apply_display_manifest (in_manifest input) w
         in finish_with output w1 status (OutManifest (display_manifest_of (w_store w1)))))"

text \<open>The cases without an output structure: remove, feed, release and render adapter.\<close>

definition dispatch_status ::
  "ioctl_input \<Rightarrow> nat \<Rightarrow> (world \<Rightarrow> world \<times> controller_status) \<Rightarrow> world \<Rightarrow> ioctl_step" where
  "dispatch_status input bytes call w =
     (if \<not> read_input input bytes then ioctl_fails w InvalidInputBuffer
      else (let (w1, status) = call w in result_from_controller w1 status))"

definition dispatch_capabilities :: "bool \<Rightarrow> ioctl_input \<Rightarrow> ioctl_buffer \<Rightarrow> world \<Rightarrow> ioctl_step" where
  "dispatch_capabilities frame_transport input output w =
     (if in_size input \<noteq> 0 then ioctl_fails w InvalidInputBuffer
      else write_output output (OutCapabilities (frame_transport_capabilities_of frame_transport)) w)"

definition ioctl_dispatch ::
  "bool \<Rightarrow> u32 \<Rightarrow> ioctl_input \<Rightarrow> ioctl_buffer \<Rightarrow> time_point \<Rightarrow> world \<Rightarrow> ioctl_step" where
  "ioctl_dispatch frame_transport code input output now w =
     (if code = kIoctl FnQueryFrameTransportCapabilities then
        dispatch_capabilities frame_transport input output w
      else if code = kIoctl FnGetProtocolVersion then
        write_output output (OutVersion current_protocol_version) w
      else if code = kIoctl FnCreateTemporaryDisplay then dispatch_create input output now w
      else if code = kIoctl FnRemoveTemporaryDisplay then
        dispatch_status input 32 (controller_remove (in_lease_display input)) w
      else if code = kIoctl FnFeedLease then
        dispatch_status input 32 (controller_feed_lease (in_lease input) now) w
      else if code = kIoctl FnReleaseLease then
        dispatch_status input 32 (controller_release_lease (in_lease input)) w
      else if code = kIoctl FnQueryLease then dispatch_query_lease input output now w
      else if code = kIoctl FnSetPermanentDisplayCount then
        dispatch_set_permanent_count input output w
      else if code = kIoctl FnQueryPermanentDisplayCount then
        write_output output (OutPermanentCount (query_permanent_display_count (w_store w))) w
      else if code = kIoctl FnQueryDisplayState then
        write_output output (OutDisplayState (query_display_state (w_store w))) w
      else if code = kIoctl FnSetDisplayManifest then dispatch_set_manifest input output w
      else if code = kIoctl FnQueryDisplayManifest then
        write_output output (OutManifest (display_manifest_of (w_store w))) w
      else if code = kIoctl FnCreateTemporaryDisplayOwned then
        dispatch_create_owned input output now w
      else if code = kIoctl FnReclaimTemporaryDisplay then dispatch_reclaim input output now w
      else if code = kIoctl FnSetRenderAdapter then
        dispatch_status input 32 (controller_set_render_adapter (in_adapter input)) w
      else ioctl_fails w InvalidIoctl)"

end
