(* ===== verification/Ioctl_Theorems.thy ===== *)
theory Ioctl_Theorems
  imports Ioctl_Dispatcher Driver_Controller_Theorems Lease_Lifecycle_Theorems
begin

unbundle bit_operations_syntax

text \<open>
  The control entry point: which requests reach the controller, what they may do to the output
  buffer, and how errors are reported; and the composition with the controller and the store.
\<close>

section \<open>Codes\<close>

lemmas kIoctl_value = kIoctl_def ioctl_code_def push_bit_eq_mult

lemma kIoctl_values [simp]:
  "kIoctl FnGetProtocolVersion = 0x222400" "kIoctl FnCreateTemporaryDisplay = 0x22e404"
  "kIoctl FnRemoveTemporaryDisplay = 0x22e408" "kIoctl FnFeedLease = 0x22e40c"
  "kIoctl FnReleaseLease = 0x22e410" "kIoctl FnQueryLease = 0x226414"
  "kIoctl FnSetPermanentDisplayCount = 0x22e418" "kIoctl FnQueryPermanentDisplayCount = 0x22641c"
  "kIoctl FnQueryDisplayState = 0x226420" "kIoctl FnSetDisplayManifest = 0x22e424"
  "kIoctl FnQueryDisplayManifest = 0x226428" "kIoctl FnSetRenderAdapter = 0x22a42c"
  "kIoctl FnCreateTemporaryDisplayOwned = 0x22e430" "kIoctl FnReclaimTemporaryDisplay = 0x22e434"
  "kIoctl FnQueryFrameTransportCapabilities = 0x226438" "kIoctl FnQueryFrameTransportTarget = 0x226444"
  by (simp_all add: kIoctl_def ioctl_code_def)

text \<open>The functions \<open>dispatch\<close> handles; the frame transport target query is handled by the device.\<close>

definition dispatched :: "ioctl_function \<Rightarrow> bool" where
  "dispatched f \<longleftrightarrow> f \<noteq> FnQueryFrameTransportTarget"

text \<open>What a request needs: the size of its input and output structures.\<close>

fun request_bytes :: "ioctl_function \<Rightarrow> nat" where
  "request_bytes FnCreateTemporaryDisplay = 96"
| "request_bytes FnCreateTemporaryDisplayOwned = 128"
| "request_bytes FnReclaimTemporaryDisplay = 72"
| "request_bytes FnRemoveTemporaryDisplay = 32"
| "request_bytes FnFeedLease = 32"
| "request_bytes FnReleaseLease = 32"
| "request_bytes FnQueryLease = 32"
| "request_bytes FnSetPermanentDisplayCount = 76"
| "request_bytes FnSetDisplayManifest = 1312"
| "request_bytes FnSetRenderAdapter = 32"
| "request_bytes _ = 0"

fun reply_bytes :: "ioctl_function \<Rightarrow> nat" where
  "reply_bytes FnCreateTemporaryDisplay = 56"
| "reply_bytes FnCreateTemporaryDisplayOwned = 56"
| "reply_bytes FnReclaimTemporaryDisplay = 48"
| "reply_bytes FnQueryLease = 48"
| "reply_bytes FnSetPermanentDisplayCount = 80"
| "reply_bytes FnQueryPermanentDisplayCount = 80"
| "reply_bytes FnQueryDisplayState = 1696"
| "reply_bytes FnSetDisplayManifest = 1312"
| "reply_bytes FnQueryDisplayManifest = 1312"
| "reply_bytes FnGetProtocolVersion = 24"
| "reply_bytes FnQueryFrameTransportCapabilities = 40"
| "reply_bytes _ = 0"

lemma code_cases:
  obtains (known) f where "dispatched f" and "code = kIoctl f" | (unknown) "\<And>f. dispatched f \<Longrightarrow> code \<noteq> kIoctl f"
  by blast

lemmas dispatch_defs = dispatch_create_def dispatch_create_owned_def dispatch_reclaim_def
  dispatch_query_lease_def dispatch_set_permanent_count_def dispatch_set_manifest_def
  dispatch_status_def dispatch_capabilities_def

lemma unknown_code:
  assumes "\<And>f. dispatched f \<Longrightarrow> code \<noteq> kIoctl f"
  shows "ioctl_dispatch ft code input output now w = ioctl_fails w InvalidIoctl"
proof -
  have "code \<noteq> kIoctl f" if "f \<noteq> FnQueryFrameTransportTarget" for f
    using assms that by (simp add: dispatched_def)
  then show ?thesis unfolding ioctl_dispatch_def by (simp del: kIoctl_values)
qed

text \<open>
  The dispatcher accepts exactly its fifteen control codes, which are pairwise different; any
  other code is reported as invalid and changes nothing.
\<close>

lemma ioctl_codes_exact:
  "inj kIoctl \<and>
   (io_status (fst (snd (ioctl_dispatch ft code input output now w))) = InvalidIoctl \<longleftrightarrow>
      code \<notin> kIoctl ` {f. f \<noteq> FnQueryFrameTransportTarget}) \<and>
   (code \<notin> kIoctl ` {f. f \<noteq> FnQueryFrameTransportTarget} \<longrightarrow>
      fst (ioctl_dispatch ft code input output now w) = w)"
proof -
  have inj: "inj kIoctl"
  proof (rule injI)
    fix f g assume "kIoctl f = kIoctl g"
    then show "f = g" by (cases f; cases g) simp_all
  qed
  have known: "io_status (fst (snd (ioctl_dispatch ft (kIoctl f) input output now w))) \<noteq> InvalidIoctl"
    if "f \<noteq> FnQueryFrameTransportTarget" for f
    using that
    by (cases f) (simp_all add: ioctl_dispatch_def dispatch_defs ioctl_fails_def write_output_def
        finish_with_def result_from_controller_def status_from_controller_def Let_def case_prod_beta
        split: store_error.split)
  show ?thesis
  proof (cases "code \<in> kIoctl ` {f. f \<noteq> FnQueryFrameTransportTarget}")
    case True
    then show ?thesis using inj known by auto
  next
    case False
    then have "ioctl_dispatch ft code input output now w = ioctl_fails w InvalidIoctl"
      by (intro unknown_code) (auto simp: dispatched_def)
    then show ?thesis using inj False by (simp add: ioctl_fails_def)
  qed
qed

section \<open>What the requests mean\<close>

text \<open>
  The contract of a control request, without buffers: the controller operation it stands for, the
  controller's verdict, and the structure a success returns.
\<close>

fun control_call ::
  "bool \<Rightarrow> ioctl_function \<Rightarrow> ioctl_input \<Rightarrow> time_point \<Rightarrow> world \<Rightarrow>
     world \<times> controller_status \<times> ioctl_output" where
  "control_call ft FnGetProtocolVersion input now w = (w, ok_status, OutVersion current_protocol_version)"
| "control_call ft FnCreateTemporaryDisplay input now w =
     apsnd (apsnd OutCreated) (controller_create (in_create input) now w)"
| "control_call ft FnCreateTemporaryDisplayOwned input now w =
     apsnd (apsnd OutCreated) (controller_create_owned (in_create_owned input) now w)"
| "control_call ft FnReclaimTemporaryDisplay input now w =
     apsnd (apsnd OutReclaimed) (controller_reclaim (in_reclaim input) now w)"
| "control_call ft FnRemoveTemporaryDisplay input now w =
     apsnd (\<lambda>st. (st, OutNothing)) (controller_remove (in_lease_display input) w)"
| "control_call ft FnFeedLease input now w =
     apsnd (\<lambda>st. (st, OutNothing)) (controller_feed_lease (in_lease input) now w)"
| "control_call ft FnReleaseLease input now w =
     apsnd (\<lambda>st. (st, OutNothing)) (controller_release_lease (in_lease input) w)"
| "control_call ft FnSetRenderAdapter input now w =
     apsnd (\<lambda>st. (st, OutNothing)) (controller_set_render_adapter (in_adapter input) w)"
| "control_call ft FnQueryLease input now w =
     (w, if validate_lease_request (in_lease input) = VNone then ok_status
         else invalid_status (validate_lease_request (in_lease input)),
      OutLease (query_lease (lr_lease_id (in_lease input)) now (w_store w)))"
| "control_call ft FnSetPermanentDisplayCount input now w =
     (let (w1, st) = controller_set_permanent_display_count (in_permanent input) w
      in (w1, st, OutPermanentCount (query_permanent_display_count (w_store w1))))"
| "control_call ft FnQueryPermanentDisplayCount input now w =
     (w, ok_status, OutPermanentCount (query_permanent_display_count (w_store w)))"
| "control_call ft FnQueryDisplayState input now w =
     (w, ok_status, OutDisplayState (query_display_state (w_store w)))"
| "control_call ft FnSetDisplayManifest input now w =
     (let (w1, st) = controller_apply_display_manifest (in_manifest input) w
      in (w1, st, OutManifest (display_manifest_of (w_store w1))))"
| "control_call ft FnQueryDisplayManifest input now w =
     (w, ok_status, OutManifest (display_manifest_of (w_store w)))"
| "control_call ft FnQueryFrameTransportCapabilities input now w =
     (w, ok_status, OutCapabilities (frame_transport_capabilities_of ft))"
| "control_call ft FnQueryFrameTransportTarget input now w = (w, ok_status, OutNothing)"

definition buffers_fit :: "ioctl_function \<Rightarrow> ioctl_input \<Rightarrow> ioctl_buffer \<Rightarrow> bool" where
  "buffers_fit f input output \<longleftrightarrow>
     (if request_bytes f = 0 then f = FnQueryFrameTransportCapabilities \<longrightarrow> in_size input = 0
      else read_input input (request_bytes f)) \<and>
     (if reply_bytes f = 0 then True else can_write output (reply_bytes f))"

text \<open>What the dispatcher reports for a verdict and a structure.\<close>

definition reply_of :: "world \<times> controller_status \<times> ioctl_output \<Rightarrow> ioctl_step" where
  "reply_of call =
     (let (w, st, v) = call; sent = if status_ok st then v else OutNothing
      in (w, \<lparr>io_status = status_from_controller st, io_bytes_returned = output_bytes sent,
            io_controller_status = st\<rparr>, sent))"

lemma dispatch_code [simp]:
  "ioctl_dispatch ft (kIoctl FnGetProtocolVersion) input output now w =
     write_output output (OutVersion current_protocol_version) w"
  "ioctl_dispatch ft (kIoctl FnCreateTemporaryDisplay) input output now w = dispatch_create input output now w"
  "ioctl_dispatch ft (kIoctl FnRemoveTemporaryDisplay) input output now w =
     dispatch_status input 32 (controller_remove (in_lease_display input)) w"
  "ioctl_dispatch ft (kIoctl FnFeedLease) input output now w =
     dispatch_status input 32 (controller_feed_lease (in_lease input) now) w"
  "ioctl_dispatch ft (kIoctl FnReleaseLease) input output now w =
     dispatch_status input 32 (controller_release_lease (in_lease input)) w"
  "ioctl_dispatch ft (kIoctl FnQueryLease) input output now w = dispatch_query_lease input output now w"
  "ioctl_dispatch ft (kIoctl FnSetPermanentDisplayCount) input output now w =
     dispatch_set_permanent_count input output w"
  "ioctl_dispatch ft (kIoctl FnQueryPermanentDisplayCount) input output now w =
     write_output output (OutPermanentCount (query_permanent_display_count (w_store w))) w"
  "ioctl_dispatch ft (kIoctl FnQueryDisplayState) input output now w =
     write_output output (OutDisplayState (query_display_state (w_store w))) w"
  "ioctl_dispatch ft (kIoctl FnSetDisplayManifest) input output now w = dispatch_set_manifest input output w"
  "ioctl_dispatch ft (kIoctl FnQueryDisplayManifest) input output now w =
     write_output output (OutManifest (display_manifest_of (w_store w))) w"
  "ioctl_dispatch ft (kIoctl FnSetRenderAdapter) input output now w =
     dispatch_status input 32 (controller_set_render_adapter (in_adapter input)) w"
  "ioctl_dispatch ft (kIoctl FnCreateTemporaryDisplayOwned) input output now w =
     dispatch_create_owned input output now w"
  "ioctl_dispatch ft (kIoctl FnReclaimTemporaryDisplay) input output now w = dispatch_reclaim input output now w"
  "ioctl_dispatch ft (kIoctl FnQueryFrameTransportCapabilities) input output now w =
     dispatch_capabilities ft input output w"
  by (simp_all add: ioctl_dispatch_def)

declare kIoctl_values [simp del]

lemma status_success [simp]: "status_from_controller st = IoctlSuccess \<longleftrightarrow> status_ok st"
  by (auto simp: status_from_controller_def status_ok_def split: store_error.splits)

lemma status_ok_eq: "status_ok st \<longleftrightarrow> st = ok_status"
  by (cases st) (simp add: status_ok_def ok_status_def)

lemma status_from_ok [simp]: "status_from_controller ok_status = IoctlSuccess"
  by simp

lemma write_output_reply:
  "can_write output (output_bytes v) \<Longrightarrow> write_output output v w = reply_of (w, ok_status, v)"
  by (simp add: write_output_def reply_of_def)

lemma finish_with_reply:
  "can_write output (output_bytes v) \<Longrightarrow> finish_with output w st v = reply_of (w, st, v)"
  by (cases "status_ok st")
    (simp_all add: finish_with_def write_output_reply result_from_controller_def reply_of_def status_ok_eq)

lemma result_reply: "result_from_controller w st = reply_of (w, st, OutNothing)"
  by (simp add: result_from_controller_def reply_of_def)

lemma lease_request_errors: "validate_lease_request r \<noteq> PermanentDisplayCountTooHigh"
  by (simp add: validate_lease_request_def)

lemma dispatch_fits:
  assumes "dispatched f" and "buffers_fit f input output"
  shows "ioctl_dispatch ft (kIoctl f) input output now w = reply_of (control_call ft f input now w)"
  using assms
  by (cases f) (simp_all add: dispatch_defs dispatched_def buffers_fit_def write_output_reply
      finish_with_reply result_reply Let_def case_prod_beta apsnd_def map_prod_def,
      auto simp: reply_of_def invalid_status_def status_from_controller_def Let_def ok_status_def status_ok_def
        lease_request_errors)

text \<open>A request that is turned away before it reaches the controller.\<close>

definition turned_away :: "world \<Rightarrow> ioctl_step \<Rightarrow> bool" where
  "turned_away w r \<longleftrightarrow> fst r = w \<and> snd (snd r) = OutNothing \<and> io_bytes_returned (fst (snd r)) = 0 \<and>
     io_status (fst (snd r)) \<in> {InvalidIoctl, InvalidInputBuffer, InvalidOutputBuffer, InvalidRequest}"

lemma turned_away_fails [simp]:
  "turned_away w (ioctl_fails w InvalidIoctl)" "turned_away w (ioctl_fails w InvalidInputBuffer)"
  "turned_away w (ioctl_fails w InvalidOutputBuffer)"
  "turned_away w (w, \<lparr>io_status = InvalidRequest, io_bytes_returned = 0, io_controller_status = st\<rparr>, OutNothing)"
  by (simp_all add: turned_away_def ioctl_fails_def)

lemma dispatch_rejects:
  assumes "dispatched f" and "\<not> buffers_fit f input output"
  shows "turned_away w (ioctl_dispatch ft (kIoctl f) input output now w)"
proof (cases f)
  case FnQueryLease
  then show ?thesis using assms
    by (simp add: dispatch_query_lease_def buffers_fit_def write_output_def Let_def)
next
  case FnQueryFrameTransportTarget
  then show ?thesis using assms by (simp add: dispatched_def)
qed (use assms in \<open>auto simp: buffers_fit_def write_output_def dispatch_create_def dispatch_create_owned_def
   dispatch_reclaim_def dispatch_set_permanent_count_def dispatch_set_manifest_def dispatch_status_def
   dispatch_capabilities_def\<close>)

lemma control_call_moves: "store_moves (Suc 0) w (fst (control_call ft f input now w))"
  using handler_moves moves_mono[of 0 w _ "Suc 0"]
  by (cases f) (simp_all add: case_prod_beta Let_def apsnd_def map_prod_def)

lemma reply_of_simps [simp]:
  "fst (reply_of c) = fst c" "snd (snd (reply_of c)) = (if status_ok (fst (snd c)) then snd (snd c) else OutNothing)"
  "io_status (fst (snd (reply_of c))) = status_from_controller (fst (snd c))"
  "io_bytes_returned (fst (snd (reply_of c))) =
     output_bytes (if status_ok (fst (snd c)) then snd (snd c) else OutNothing)"
  by (simp_all add: reply_of_def Let_def case_prod_beta)

lemma dispatch_cases:
  obtains (served) f where "dispatched f" "buffers_fit f input buf"
      "ioctl_dispatch ft code input buf now w = reply_of (control_call ft f input now w)" "code = kIoctl f"
    | (turned_away) "turned_away w (ioctl_dispatch ft code input buf now w)"
proof (cases "\<exists>f. dispatched f \<and> code = kIoctl f")
  case True
  then obtain f where f: "dispatched f" "code = kIoctl f" by blast
  show ?thesis
  proof (cases "buffers_fit f input buf")
    case True
    from that(1)[OF f(1) True _ f(2)] show ?thesis unfolding f(2) using dispatch_fits[OF f(1) True] by blast
  next
    case False
    then show ?thesis using that(2) dispatch_rejects[OF f(1) False] f(2) by blast
  qed
next
  case False
  then have "ioctl_dispatch ft code input buf now w = ioctl_fails w InvalidIoctl"
    by (intro unknown_code) blast
  then show ?thesis using that(2) by simp
qed

lemma control_call_bytes:
  "dispatched f \<Longrightarrow> output_bytes (snd (snd (control_call ft f input now w))) = reply_bytes f"
  by (cases f) (simp_all add: case_prod_beta Let_def apsnd_def map_prod_def dispatched_def)

section \<open>Properties\<close>

text \<open>
  C28: The dispatcher refines the controller: a request whose buffers fit its structures does to
  the world exactly what the controller operation it names does, reports that operation's verdict,
  and returns its structure exactly when the verdict is success; with buffers that do not fit, and
  for every code that is none of the fifteen (which are pairwise different), nothing changes.
\<close>

theorem dispatch_refines_controller:
  "inj kIoctl \<and>
   (\<forall>f. dispatched f \<longrightarrow>
      (if buffers_fit f input output
       then ioctl_dispatch ft (kIoctl f) input output now w = reply_of (control_call ft f input now w)
       else turned_away w (ioctl_dispatch ft (kIoctl f) input output now w))) \<and>
   (\<forall>code. code \<notin> kIoctl ` {f. dispatched f} \<longrightarrow>
      ioctl_dispatch ft code input output now w = ioctl_fails w InvalidIoctl)"
  using ioctl_codes_exact dispatch_fits dispatch_rejects unknown_code by (auto simp: image_iff)

text \<open>
  C29: The dispatcher never writes more than the output buffer holds, reports exactly the size of
  the structure it wrote, and writes a structure only when it reports success.
\<close>

theorem dispatch_respects_output_buffer:
  "let (w', result, sent) = ioctl_dispatch ft code input output now w
   in io_bytes_returned result = output_bytes sent \<and>
     io_bytes_returned result \<le> (if out_present output then out_size output else 0) \<and>
     (sent = OutNothing \<or> io_status result = IoctlSuccess)"
proof (cases rule: dispatch_cases[where input = input and buf = "output" and ft = ft and code = code and now = now and w = w])
  case (served f)
  have "output_bytes (snd (snd (control_call ft f input now w))) \<le> (if out_present output then out_size output else 0)"
    using served(2) unfolding control_call_bytes[OF served(1)]
    by (auto simp: buffers_fit_def can_write_def split: if_splits)
  then show ?thesis using served(3) by (simp add: case_prod_beta split: if_splits)
next
  case turned_away
  then show ?thesis by (simp add: turned_away_def case_prod_beta)
qed

text \<open>
  Requests whose control code asks for no access or for read access only, which the system
  lets through on a handle without write access, never change the store or call the backend.
\<close>

theorem read_requests_change_nothing:
  assumes "declared_access f = AccessAny \<or> declared_access f = AccessRead"
  shows "fst (ioctl_dispatch ft (kIoctl f) input output now w) = w"
proof (cases "dispatched f")
  case True
  have "fst (control_call ft f input now w) = w" using assms by (cases f) simp_all
  then show ?thesis
    using dispatch_fits[OF True] dispatch_rejects[OF True] by (cases "buffers_fit f input output") (auto simp: turned_away_def)
next
  case False
  then have "kIoctl f \<noteq> kIoctl g" if "dispatched g" for g
    using that ioctl_codes_exact by (metis injD)
  then show ?thesis using unknown_code by (simp add: ioctl_fails_def)
qed

text \<open>
  Whatever bytes a client sends, and whatever the backend and other threads do meanwhile, one
  control request keeps the store invariant.
\<close>

theorem dispatch_preserves_store_invariant:
  assumes "store_inv (w_store w)"
    and "unat (next_temporary_display_generation (w_store w)) + script_creates (w_script w) + 1 < 2 ^ 64"
  shows "store_inv (w_store (fst (ioctl_dispatch ft code input output now w)))"
proof (cases rule: dispatch_cases[where input = input and buf = "output" and ft = ft and code = code and now = now and w = w])
  case (served f)
  obtain ops where ops: "w_store (fst (control_call ft f input now w)) = fold run_store_op ops (w_store w)"
    "creates ops \<le> script_creates (w_script w) + 1"
    using control_call_moves[of w ft f input now] unfolding store_moves_def by auto
  have "store.guarded ops (w_store w)"
    by (rule guarded_of_creates[OF assms(1)]) (use assms(2) ops(2) in linarith)
  then show ?thesis using store.run_inv[OF assms(1)] served(3) ops(1) by simp
next
  case turned_away
  then show ?thesis using assms(1) by (simp add: turned_away_def)
qed

section \<open>The properties at work\<close>

definition sample_input :: "nat \<Rightarrow> ioctl_input" where
  "sample_input n =
     \<lparr>in_present = True, in_size = n, in_create = sample_create sample_lease 3 0,
      in_create_owned = sample_owned sample_lease 3 0, in_reclaim = sample_reclaim,
      in_lease_display = sample_remove 1, in_lease = sample_feed,
      in_permanent = default_permanent_request, in_manifest = default_manifest,
      in_adapter = \<lparr>sra_api_namespace = kApiNamespaceGuid, sra_adapter_luid = \<lparr>low_part = 0, high_part = 0\<rparr>,
        sra_flags = 0, sra_reserved = 0\<rparr>\<rparr>"

theorem dispatch_refines_controller_witness:
  "ioctl_dispatch False (kIoctl FnFeedLease) (sample_input 32) \<lparr>out_present = False, out_size = 0\<rparr> 9 (sample_world []) =
     reply_of (apsnd (\<lambda>st. (st, OutNothing)) (controller_feed_lease sample_feed 9 (sample_world [])))"
proof -
  have "dispatched FnFeedLease" "buffers_fit FnFeedLease (sample_input 32) \<lparr>out_present = False, out_size = 0\<rparr>"
    by code_simp+
  then show ?thesis
    using dispatch_refines_controller[of "sample_input 32" "\<lparr>out_present = False, out_size = 0\<rparr>" False 9 "sample_world []"]
    by (auto simp: sample_input_def)
qed

theorem read_requests_change_nothing_witness:
  "fst (ioctl_dispatch False (kIoctl FnQueryLease) (sample_input 32) \<lparr>out_present = True, out_size = 48\<rparr> 9
     (sample_world [])) = sample_world []"
  by (rule read_requests_change_nothing) simp

theorem dispatch_preserves_store_invariant_witness:
  "store_inv (w_store (fst (ioctl_dispatch False (kIoctl FnCreateTemporaryDisplayOwned) (sample_input 128)
     \<lparr>out_present = True, out_size = 56\<rparr> 9 (sample_world [quiet_window success, quiet_window success]))))"
proof (rule dispatch_preserves_store_invariant)
  let ?w = "sample_world [quiet_window success, quiet_window success]"
  show "store_inv (w_store ?w)"
    using store_reachable_inv[OF sample_reachable] by (simp add: sample_world_def)
  have gen: "next_temporary_display_generation sample_store = 3" by code_simp
  show "unat (next_temporary_display_generation (w_store ?w)) + script_creates (w_script ?w) + 1 < 2 ^ 64"
    by (simp add: sample_world_def gen script_creates_def quiet_window_def)
qed

end
