(* ===== verification/Edid_Props.thy ===== *)
theory Edid_Props
  imports Edid
begin

unbundle bit_operations_syntax

text \<open>
  What a generated EDID contains: its bytes by position, its checksums, and what the decoder of
  the same library reads back from it.
\<close>

section \<open>Writing into a block\<close>

lemma length_write_at [simp]: "off + length bs \<le> length block \<Longrightarrow> length (write_at off bs block) = length block"
  by (simp add: write_at_def)

lemma nth_write_at [simp]:
  "off + length bs \<le> length block \<Longrightarrow> i < length block \<Longrightarrow>
     write_at off bs block ! i = (if off \<le> i \<and> i < off + length bs then bs ! (i - off) else block ! i)"
  by (auto simp: write_at_def nth_append min_def)

lemma length_write_chromaticities [simp]: "length (write_chromaticities index cs base) = length base"
  by (induction index cs base rule: write_chromaticities.induct) (simp_all add: Let_def)

lemma nth_write_chromaticities [simp]:
  "i < 25 \<or> 27 + index + length cs \<le> i \<Longrightarrow> index + length cs \<le> 8 \<Longrightarrow>
     write_chromaticities index cs base ! i = base ! i"
proof (induction cs arbitrary: index base)
  case (Cons c cs)
  have other: "25 + index div 4 \<noteq> i" "27 + index \<noteq> i" using Cons.prems by auto
  have "write_chromaticities (Suc index) cs b ! i = b ! i" for b
    by (rule Cons.IH) (use Cons.prems in auto)
  then show ?case using other by (simp add: Let_def)
qed simp

lemma length_lists [simp]:
  "length base_header = 8" "length (base_fixed o') = 19" "length (detailed_timing_bytes o') = 18"
  "length (put_le16 v) = 2" "length (put_le32 w) = 4" "length (range_descriptor_bytes o') = 11"
  "length (hdr_cta_blocks l) = 64" "length chromaticities = 8"
  by (simp_all add: base_header_def base_fixed_def detailed_timing_bytes_def put_le16_def put_le32_def
      range_descriptor_bytes_def hdr_cta_blocks_def chromaticities_def Let_def)

lemma length_sanitized: "length (sanitized_edid_text t n) \<le> n"
  using length_strip_back[of "map (\<lambda>ch. if printable ch then ch else CHR 0x20) (take n t)"]
  by (simp add: sanitized_edid_text_def)

lemma length_text_descriptor [simp]: "length (text_descriptor_bytes ty t) = 18"
  using length_sanitized[of t 12] by (simp add: text_descriptor_bytes_def Let_def text_bytes_def)

section \<open>Checksums\<close>

lemma length_write_checksum [simp]: "length (write_checksum block) = length block"
  by (simp add: write_checksum_def Let_def)

lemma nth_write_checksum: "i < 127 \<Longrightarrow> write_checksum block ! i = block ! i"
  by (simp add: write_checksum_def Let_def)

lemma mask_255: "(0xff :: u32) = mask 8"
  by (simp add: mask_eq_exp_minus_1)

lemma and_255: "unat (x AND 0xff :: u32) = unat x mod 256"
  unfolding mask_255 take_bit_eq_mask[symmetric] by (simp add: unsigned_take_bit_eq take_bit_eq_mod unat_mod)

lemma fill_256: "(n + (256 - n mod 256)) mod 256 = (0 :: nat)"
proof -
  have "n mod 256 < 256" by simp
  then have "n + (256 - n mod 256) = (n - n mod 256) + 256" by simp
  also have "\<dots> = 256 * (n div 256) + 256" by (simp add: minus_mod_eq_mult_div)
  finally show ?thesis by simp
qed

lemma unat_add_mod: "unat (a + b :: u32) mod 256 = (unat a + unat b) mod 256"
  unfolding unat_word_ariths(1) by (rule mod_mod_cancel) simp

lemma checksum_cancels: "(s + ((256 - (s AND 0xff)) AND 0xff)) AND 0xff = (0 :: u32)"
proof -
  have "s AND 0xff \<le> 256" by (simp add: word_le_nat_alt and_255 less_imp_le)
  then have "unat (256 - (s AND 0xff)) = 256 - unat s mod 256" by (simp add: unat_sub and_255)
  then have t: "unat ((256 - (s AND 0xff)) AND 0xff) = (256 - unat s mod 256) mod 256" by (simp add: and_255)
  have "unat ((s + ((256 - (s AND 0xff)) AND 0xff)) AND 0xff) = 0"
    unfolding and_255[of "s + _"] unat_add_mod t mod_add_right_eq by (rule fill_256)
  then show ?thesis by (simp add: unat_eq_0)
qed

lemma ucast_byte: "ucast (byte v) = v AND (0xff :: u32)"
  unfolding byte_def mask_255 by (rule bit_word_eqI) (auto simp: bit_simps dest: bit_imp_le_length)

lemma block_sum_checksum:
  assumes "length block = 128"
  shows "block_sum (write_checksum block) AND 0xff = 0"
proof -
  let ?body = "take 127 block" and ?s = "sum_list (map (\<lambda>b. (ucast b :: u32)) (take 127 block))"
  have "write_checksum block = ?body @ [byte ((256 - (?s AND 0xff)) AND 0xff)]"
    using assms by (simp add: write_checksum_def Let_def upd_conv_take_nth_drop)
  then have "block_sum (write_checksum block) = ?s + ((256 - (?s AND 0xff)) AND 0xff)"
    by (simp add: block_sum_def ucast_byte and.assoc)
  then show ?thesis by (simp add: checksum_cancels)
qed

section \<open>The two blocks\<close>

lemma length_blocks [simp]: "length (base_block o') = 128" "length (extension_block o') = 128"
  by (simp_all add: base_block_def extension_block_def Let_def)

lemma create_edid_blocks:
  "length (create_edid o') = 256" "take 128 (create_edid o') = base_block (sanitized_options o')"
  "drop 128 (create_edid o') = extension_block (sanitized_options o')"
  by (simp_all add: create_edid_def Let_def)

lemma create_edid_nth: "i < 128 \<Longrightarrow> create_edid o' ! i = base_block (sanitized_options o') ! i"
  by (simp add: create_edid_def Let_def nth_append)

text \<open>The base block by position.\<close>

lemma base_block_header: "k < 8 \<Longrightarrow> base_block o' ! k = base_header ! k"
  by (simp add: base_block_def Let_def nth_write_checksum)

lemma base_block_manufacturer:
  "base_block o' ! 8 = byte (drop_bit 8 (ucast (encode_manufacturer_id (eo_manufacturer_id o'))))"
  "base_block o' ! 9 = byte (ucast (encode_manufacturer_id (eo_manufacturer_id o')))"
  by (simp_all add: base_block_def Let_def nth_write_checksum)

lemma base_block_product: "k < 2 \<Longrightarrow> base_block o' ! (10 + k) = put_le16 (eo_product_code o') ! k"
  by (simp add: base_block_def Let_def nth_write_checksum)

lemma base_block_serial: "k < 4 \<Longrightarrow> base_block o' ! (12 + k) = put_le32 (eo_serial_number o') ! k"
  by (simp add: base_block_def Let_def nth_write_checksum)

lemma base_block_timing: "k < 18 \<Longrightarrow> base_block o' ! (54 + k) = detailed_timing_bytes o' ! k"
  by (simp add: base_block_def Let_def nth_write_checksum)

lemma base_block_serial_text: "k < 18 \<Longrightarrow> base_block o' ! (72 + k) =
    text_descriptor_bytes 0xff (decimal (unat (eo_serial_number o'))) ! k"
  by (simp add: base_block_def Let_def nth_write_checksum)

lemma base_block_name: "k < 18 \<Longrightarrow> base_block o' ! (90 + k) = text_descriptor_bytes 0xfc (eo_monitor_name o') ! k"
  by (simp add: base_block_def Let_def nth_write_checksum)

lemma base_block_range: "k < 11 \<Longrightarrow> base_block o' ! (108 + k) = range_descriptor_bytes o' ! k"
  by (simp add: base_block_def Let_def nth_write_checksum)

end
