(* ===== verification/Edid_Theorems.thy ===== *)
theory Edid_Theorems
  imports Edid_Props
begin

unbundle bit_operations_syntax

text \<open>
  Round trips between the generator and the decoder: identity, name, preferred timing, HDR blocks.
\<close>

section \<open>Little endian fields\<close>

lemma byte_mask: "byte v = ucast (v AND mask 8)"
  by (simp add: byte_def mask_255)

lemma le16_bytes: "ucast (byte (ucast v)) OR push_bit 8 (ucast (byte (drop_bit 8 (ucast v)))) = (v :: u16)"
  unfolding byte_mask by (rule bit_word_eqI) (auto simp: bit_simps dest: bit_imp_le_length)

lemma le32_bytes:
  "ucast (byte v) OR push_bit 8 (ucast (byte (drop_bit 8 v))) OR push_bit 16 (ucast (byte (drop_bit 16 v))) OR
     push_bit 24 (ucast (byte (drop_bit 24 v))) = (v :: u32)"
  (is "?w = v")
proof (rule bit_word_eqI)
  fix n assume n: "n < LENGTH(32)"
  consider "n < 8" | "8 \<le> n" "n < 16" | "16 \<le> n" "n < 24" | "24 \<le> n" by linarith
  then show "bit ?w n = bit v n"
    unfolding byte_mask using n by cases (auto simp: bit_simps dest: bit_imp_le_length)
qed

lemma product_code_read: "read_product_code (create_edid o') = eo_product_code o'"
proof -
  have "read_product_code (create_edid o') =
      ucast (put_le16 (eo_product_code o') ! 0) OR push_bit 8 (ucast (put_le16 (eo_product_code o') ! 1))"
    using base_block_product[of 0 "sanitized_options o'"] base_block_product[of 1 "sanitized_options o'"]
    by (simp add: read_product_code_def create_edid_nth sanitized_options_def)
  then show ?thesis by (simp add: put_le16_def le16_bytes)
qed

lemma serial_number_read: "read_serial_number (create_edid o') = eo_serial_number o'"
proof -
  let ?b = "put_le32 (eo_serial_number o')"
  have "read_serial_number (create_edid o') = ucast (?b ! 0) OR push_bit 8 (ucast (?b ! 1)) OR
      push_bit 16 (ucast (?b ! 2)) OR push_bit 24 (ucast (?b ! 3))"
    using base_block_serial[of 0 "sanitized_options o'"] base_block_serial[of 1 "sanitized_options o'"]
      base_block_serial[of 2 "sanitized_options o'"] base_block_serial[of 3 "sanitized_options o'"]
    by (simp add: read_serial_number_def create_edid_nth sanitized_options_def)
  then show ?thesis by (simp add: put_le32_def le32_bytes)
qed

section \<open>The manufacturer\<close>

definition letter :: "char \<Rightarrow> char" where
  "letter c = (if is_upper c then c else CHR ''A'')"

lemma encode_char_code: "unat (encode_char c) = (if is_upper c then char_code c - 64 else 1)"
proof (cases "is_upper c")
  case True
  then have k: "65 \<le> char_code c" "char_code c \<le> 90" by (auto simp: is_upper_def char_code_def)
  have "unat (of_nat (char_code c - 65 + 1) :: u16) = char_code c - 65 + 1"
    using k by (subst unat_of_nat) simp
  then show ?thesis using True k
    by (simp add: encode_char_def is_upper_def char_code_def del: of_nat_add of_nat_Suc) linarith
next
  case False
  then have "encode_char c = 1" by (auto simp: encode_char_def is_upper_def)
  then show ?thesis using False by simp
qed

lemma encode_char_bounds: "1 \<le> unat (encode_char c)" "unat (encode_char c) \<le> 26"
  by (auto simp: encode_char_code is_upper_def char_code_def)

lemma decode_encode: "decode_letter (encode_char c) = Some (letter c)"
proof -
  have "char_of (65 + unat (encode_char c) - 1) = letter c"
    by (auto simp: encode_char_code letter_def is_upper_def char_code_def char_of_def[of "65 :: nat"] bit_0)
  moreover have "encode_char c \<noteq> 0" "\<not> 26 < encode_char c"
    using encode_char_bounds[of c] by (auto simp: word_less_nat_alt)
  ultimately show ?thesis by (simp add: decode_letter_def char_code_def)
qed

lemma low_bits: "unat x < 2 ^ k \<Longrightarrow> bit x n \<Longrightarrow> n < k" for x :: "'a::len word"
proof -
  assume "unat x < 2 ^ k" "bit x n"
  then have "take_bit k (unat x) = unat x" by (simp add: take_bit_nat_eq_self)
  moreover have "bit (unat x) n" using \<open>bit x n\<close> by (simp add: bit_unsigned_iff)
  ultimately show "n < k" by (metis bit_take_bit_iff)
qed

lemma packed_letters:
  fixes a b c :: u16
  assumes "a < 32" "b < 32" "c < 32"
  defines "x \<equiv> push_bit 10 a OR push_bit 5 b OR c"
  shows "drop_bit 10 x AND 0x1f = a" "drop_bit 5 x AND 0x1f = b" "x AND 0x1f = c"
proof -
  have m: "(0x1f :: u16) = mask 5" by (simp add: mask_eq_exp_minus_1)
  have bits: "bit a n \<Longrightarrow> n < 5" "bit b n \<Longrightarrow> n < 5" "bit c n \<Longrightarrow> n < 5" for n
    using low_bits[of a 5] low_bits[of b 5] low_bits[of c 5] assms(1-3) by (simp_all add: word_less_nat_alt)
  show "drop_bit 10 x AND 0x1f = a" "drop_bit 5 x AND 0x1f = b" "x AND 0x1f = c"
    unfolding x_def m by (rule bit_word_eqI; force simp: bit_simps dest: bits bit_imp_le_length)+
qed

lemma manufacturer_read:
  assumes "length (eo_manufacturer_id o') = 3"
  shows "read_manufacturer_id (create_edid o') = Some (map letter (eo_manufacturer_id o'))"
proof -
  obtain a b c where m: "eo_manufacturer_id o' = [a, b, c]"
    using assms by (auto simp: length_Suc_conv numeral_3_eq_3)
  let ?x = "encode_manufacturer_id [a, b, c]"
  have "push_bit 8 (ucast (create_edid o' ! 8)) OR ucast (create_edid o' ! 9) = ?x"
    using base_block_manufacturer[of "sanitized_options o'"]
    by (simp add: create_edid_nth sanitized_options_def m or.commute[of "push_bit 8 _"] le16_bytes)
  moreover have "encode_char d < 32" for d using encode_char_bounds(2)[of d] by (simp add: word_less_nat_alt)
  note packed_letters[OF this[of a] this[of b] this[of c]]
  ultimately show ?thesis
    by (simp add: read_manufacturer_id_def Let_def encode_manufacturer_id_def decode_encode m)
qed

section \<open>The monitor name\<close>

lemma sanitized_printable: "c \<in> set (sanitized_edid_text t n) \<Longrightarrow> printable c"
proof -
  assume "c \<in> set (sanitized_edid_text t n)"
  then have "c \<in> set (map (\<lambda>ch. if printable ch then ch else CHR 0x20) (take n t))"
    using set_strip_back unfolding sanitized_edid_text_def by blast
  then show "printable c" by (auto simp: printable_def)
qed

lemma name_chars_text:
  "(\<And>c. c \<in> set t \<Longrightarrow> printable c) \<Longrightarrow> name_chars (text_bytes t @ 0x0a # rest) = Some t"
proof (induction t)
  case (Cons c t)
  let ?b = "of_nat (char_code c) :: u8"
  have p: "0x20 \<le> char_code c" "char_code c \<le> 0x7e" using Cons.prems[of c] by (auto simp: printable_def)
  have u: "unat ?b = char_code c" using p by (subst unat_of_nat) simp
  have "?b \<noteq> 0" "?b \<noteq> 0x0a" "?b \<noteq> 0x0d" "\<not> ?b < 0x20" "\<not> 0x7e < ?b"
    using u p by (auto simp: word_less_nat_alt)
  moreover have "char_of (unat ?b) = c" unfolding u by (simp add: char_code_def)
  ultimately show ?case using Cons.IH Cons.prems by (simp add: text_bytes_def)
qed (simp add: text_bytes_def)

lemma text_descriptor_split:
  "\<exists>rest. text_descriptor_bytes ty t = [0, 0, 0, ty, 0] @ text_bytes (sanitized_edid_text t 12) @ 0x0a # rest"
proof -
  let ?s = "sanitized_edid_text t 12"
  have len: "length ?s \<le> 12" by (rule length_sanitized)
  have lt: "length (text_bytes ?s) = length ?s" by (simp add: text_bytes_def)
  have "write_at 0 (text_bytes ?s) (replicate 13 0x20) = text_bytes ?s @ replicate (13 - length ?s) 0x20"
    by (simp add: write_at_def lt)
  also have "\<dots> = text_bytes ?s @ 0x20 # replicate (12 - length ?s) 0x20"
    using len by (simp add: Suc_diff_le flip: replicate_Suc)
  finally show ?thesis
    by (simp add: text_descriptor_bytes_def Let_def lt[symmetric] list_update_append)
qed

lemma name_field: "take 13 (drop 95 (create_edid o')) = drop 5 (text_descriptor_bytes 0xfc (eo_monitor_name o'))"
proof (rule nth_equalityI)
  fix i assume "i < length (take 13 (drop 95 (create_edid o')))"
  then have i: "i < 13" by simp
  then show "take 13 (drop 95 (create_edid o')) ! i = drop 5 (text_descriptor_bytes 0xfc (eo_monitor_name o')) ! i"
    using base_block_name[of "5 + i" "sanitized_options o'"]
    by (simp add: create_edid_nth create_edid_blocks add.commute add.left_commute sanitized_options_def)
qed (simp add: create_edid_blocks)

lemma unat_ucast_small: "unat w < 2 ^ LENGTH('b) \<Longrightarrow> unat (ucast w :: 'b::len word) = unat w"
  by (simp add: unsigned_ucast_eq unsigned_take_bit_eq take_bit_nat_eq_self)

lemma clamp_bounds: "lo \<le> hi \<Longrightarrow> lo \<le> clamp v lo hi \<and> clamp v lo hi \<le> hi"
  by (auto simp: clamp_def)

lemma preferred_clock:
  "ucast (pt_pixel_clock_10khz (make_preferred_timing o')) \<noteq> (0 :: u16)"
  "unat (pt_pixel_clock_10khz (make_preferred_timing o')) < 2 ^ 16"
proof -
  let ?c = "clamp (preferred_pixel_clock_hz o' div 10000) 1 (0xffff :: u64)"
  have c: "1 \<le> unat ?c" "unat ?c \<le> 0xffff" using clamp_bounds[of 1 "0xffff :: u64"] by (auto simp: word_le_nat_alt)
  then have 1: "unat (ucast ?c :: u32) = unat ?c" by (intro unat_ucast_small) simp
  have 2: "unat (ucast (ucast ?c :: u32) :: u16) = unat ?c"
    using c 1 by (subst unat_ucast_small) simp_all
  have "ucast (ucast ?c :: u32) \<noteq> (0 :: u16)" using c(1) 2 by (metis not_one_le_zero unsigned_0)
  then show "ucast (pt_pixel_clock_10khz (make_preferred_timing o')) \<noteq> (0 :: u16)"
    by (simp add: make_preferred_timing_def)
  have "unat (ucast ?c :: u32) < 2 ^ 16" using c(2) 1 by simp
  then show "unat (pt_pixel_clock_10khz (make_preferred_timing o')) < 2 ^ 16"
    by (simp add: make_preferred_timing_def)
qed

lemma timing_not_name: "create_edid o' ! 54 \<noteq> 0 \<or> create_edid o' ! 55 \<noteq> 0"
proof -
  let ?o = "sanitized_options o'"
  let ?v = "ucast (pt_pixel_clock_10khz (make_preferred_timing (detailed_timing_options ?o))) :: u16"
  have "create_edid o' ! 54 = byte (ucast ?v)" "create_edid o' ! 55 = byte (drop_bit 8 (ucast ?v))"
    using base_block_timing[of 0 ?o] base_block_timing[of 1 ?o]
    by (simp_all add: create_edid_nth detailed_timing_bytes_def Let_def put_le16_def)
  then show ?thesis using le16_bytes[of ?v] preferred_clock(1) by auto
qed

lemma monitor_name_read:
  "read_monitor_name (create_edid o') =
     (let name = sanitized_edid_text (eo_monitor_name o') 12 in if name = [] then None else Some name)"
proof -
  let ?o = "sanitized_options o'" and ?n = "sanitized_edid_text (eo_monitor_name o') 12"
  have name: "eo_monitor_name ?o = eo_monitor_name o'" by (simp add: sanitized_options_def)
  obtain rest where d: "text_descriptor_bytes 0xfc (eo_monitor_name o') =
      [0, 0, 0, 0xfc, 0] @ text_bytes ?n @ 0x0a # rest" using text_descriptor_split by blast
  have head: "create_edid o' ! 90 = 0 \<and> create_edid o' ! 91 = 0 \<and> create_edid o' ! 92 = 0 \<and>
      create_edid o' ! 93 = 0xfc \<and> create_edid o' ! 94 = 0"
    using base_block_name[of 0 ?o] base_block_name[of 1 ?o] base_block_name[of 2 ?o] base_block_name[of 3 ?o]
      base_block_name[of 4 ?o] by (simp add: create_edid_nth name d)
  have field: "name_chars (take 13 (drop 95 (create_edid o'))) = Some ?n"
    unfolding name_field d by (simp add: name_chars_text sanitized_printable)
  obtain rest' where serial: "text_descriptor_bytes 0xff (decimal (unat (eo_serial_number ?o))) = [0, 0, 0, 0xff, 0] @ rest'"
    using text_descriptor_split by blast
  have "create_edid o' ! 75 = 0xff" using base_block_serial_text[of 3 ?o] by (simp add: create_edid_nth serial)
  moreover have "create_edid o' ! 111 = 0xfd"
    using base_block_range[of 3 ?o] by (simp add: create_edid_nth range_descriptor_bytes_def Let_def)
  moreover have "strip_back ?n = ?n" by (simp add: sanitized_edid_text_def)
  ultimately show ?thesis
    using timing_not_name[of o'] head field by (auto simp: read_monitor_name_def Let_def)
qed

section \<open>The preferred timing\<close>

lemma packed_low:
  fixes a b :: u16
  assumes "unat a < 2 ^ 12" and "unat b < 2 ^ 12"
  defines "x \<equiv> byte (push_bit 4 (drop_bit 8 (ucast a)) OR drop_bit 8 (ucast b))"
  shows "ucast (byte (ucast a)) OR push_bit 4 (ucast x AND 0xf0) = a"
    and "ucast (byte (ucast b)) OR push_bit 8 (ucast x AND 0x0f) = b"
proof -
  have m: "(0xf0 :: u16) = push_bit 4 (mask 4)" "(0x0f :: u16) = mask 4"
    by (simp_all add: mask_eq_exp_minus_1 push_bit_eq_mult)
  have bits: "bit a n \<Longrightarrow> n < 12" "bit b n \<Longrightarrow> n < 12" for n
    using low_bits[of a 12] low_bits[of b 12] assms(1,2) by simp_all
  have cases: "n < 4 \<or> (4 \<le> n \<and> n < 8) \<or> (8 \<le> n \<and> n < 12) \<or> 12 \<le> n" for n :: nat by linarith
  show "ucast (byte (ucast a)) OR push_bit 4 (ucast x AND 0xf0) = a"
  proof (rule bit_word_eqI)
    fix n assume "n < LENGTH(16)"
    with cases[of n] show "bit (ucast (byte (ucast a)) OR push_bit 4 (ucast x AND 0xf0) :: u16) n = bit a n"
      unfolding x_def m byte_mask by (auto simp: bit_simps dest: bits)
  qed
  show "ucast (byte (ucast b)) OR push_bit 8 (ucast x AND 0x0f) = b"
  proof (rule bit_word_eqI)
    fix n assume "n < LENGTH(16)"
    with cases[of n] show "bit (ucast (byte (ucast b)) OR push_bit 8 (ucast x AND 0x0f) :: u16) n = bit b n"
      unfolding x_def m byte_mask by (auto simp: bit_simps dest: bits)
  qed
qed

lemma active_bounds:
  "unat (pt_horizontal_active (make_preferred_timing (detailed_timing_options (sanitized_options o')))) < 2 ^ 12"
  "unat (pt_vertical_active (make_preferred_timing (detailed_timing_options (sanitized_options o')))) < 2 ^ 12"
proof -
  have c: "unat (ucast (clamp v 1 4095 :: u32) :: u16) < 2 ^ 12" for v
  proof -
    have "unat (clamp v 1 4095 :: u32) \<le> 4095" using clamp_bounds[of 1 "4095 :: u32" v] by (simp add: word_le_nat_alt)
    then show ?thesis by (subst unat_ucast_small) simp_all
  qed
  have "eo_width (detailed_timing_options p) = eo_width p \<and> eo_height (detailed_timing_options p) = eo_height p" for p
    by (simp add: detailed_timing_options_def Let_def)
  then show "unat (pt_horizontal_active (make_preferred_timing (detailed_timing_options (sanitized_options o')))) < 2 ^ 12"
    "unat (pt_vertical_active (make_preferred_timing (detailed_timing_options (sanitized_options o')))) < 2 ^ 12"
    using c[of "eo_width o'"] c[of "eo_height o'"] by (simp_all add: make_preferred_timing_def sanitized_options_def)
qed

lemma blanking_bounds:
  "unat (pt_horizontal_blanking (make_preferred_timing p)) < 2 ^ 12"
  "unat (pt_vertical_blanking (make_preferred_timing p)) < 2 ^ 12"
proof -
  let ?h = "clamp (eo_width p div 5) 160 (2047 :: u32)" and ?v = "clamp (eo_height p div 20) 45 (1023 :: u32)"
  have "unat ?h \<le> 2047" using clamp_bounds[of 160 "2047 :: u32"] by (simp add: word_le_nat_alt)
  then have "unat (?h + 7) \<le> 2054" by (simp add: unat_word_ariths)
  moreover have "(?h + 7) AND NOT 7 \<le> ?h + 7" by (simp add: word_le_def unsigned_and_eq)
  then have "unat ((?h + 7) AND NOT 7) \<le> unat (?h + 7)" by (simp add: word_le_nat_alt)
  ultimately have h: "unat ((?h + 7) AND NOT 7) < 2 ^ 12" by simp
  then have "unat (ucast ((?h + 7) AND NOT 7) :: u16) < 2 ^ 12" by (subst unat_ucast_small) simp_all
  then show "unat (pt_horizontal_blanking (make_preferred_timing p)) < 2 ^ 12"
    by (simp add: make_preferred_timing_def horizontal_blanking_def align8_def)
  have "unat ?v \<le> 1023" using clamp_bounds[of 45 "1023 :: u32"] by (simp add: word_le_nat_alt)
  then have "unat (ucast ?v :: u16) < 2 ^ 12" by (subst unat_ucast_small) simp_all
  then show "unat (pt_vertical_blanking (make_preferred_timing p)) < 2 ^ 12"
    by (simp add: make_preferred_timing_def vertical_blanking_def)
qed

lemma le16_wide: "unat (v :: u32) < 2 ^ 16 \<Longrightarrow>
    ucast (byte (ucast (ucast v :: u16))) OR push_bit 8 (ucast (byte (drop_bit 8 (ucast (ucast v :: u16))))) = v"
proof (rule bit_word_eqI)
  fix n assume v: "unat v < 2 ^ 16" and "n < LENGTH(32)"
  have bits: "bit v n \<Longrightarrow> n < 16" for n using low_bits[OF v] .
  have "n < 8 \<or> (8 \<le> n \<and> n < 16) \<or> 16 \<le> n" by linarith
  then show "bit (ucast (byte (ucast (ucast v :: u16))) OR
      push_bit 8 (ucast (byte (drop_bit 8 (ucast (ucast v :: u16))))) :: u32) n = bit v n"
    unfolding byte_mask by (auto simp: bit_simps dest: bits)
qed

lemma preferred_timing_read:
  "read_preferred_timing (create_edid o') =
     make_preferred_timing (detailed_timing_options (sanitized_options o'))"
proof -
  let ?o = "sanitized_options o'"
  let ?t = "make_preferred_timing (detailed_timing_options ?o)"
  let ?ha = "pt_horizontal_active ?t" and ?hb = "pt_horizontal_blanking ?t"
    and ?va = "pt_vertical_active ?t" and ?vb = "pt_vertical_blanking ?t" and ?c = "pt_pixel_clock_10khz ?t"
  have bytes: "create_edid o' ! 54 = byte (ucast (ucast ?c :: u16))"
    "create_edid o' ! 55 = byte (drop_bit 8 (ucast (ucast ?c :: u16)))"
    "create_edid o' ! 56 = byte (ucast ?ha)" "create_edid o' ! 57 = byte (ucast ?hb)"
    "create_edid o' ! 58 = byte (push_bit 4 (drop_bit 8 (ucast ?ha)) OR drop_bit 8 (ucast ?hb))"
    "create_edid o' ! 59 = byte (ucast ?va)" "create_edid o' ! 60 = byte (ucast ?vb)"
    "create_edid o' ! 61 = byte (push_bit 4 (drop_bit 8 (ucast ?va)) OR drop_bit 8 (ucast ?vb))"
    using base_block_timing[of 0 ?o] base_block_timing[of 1 ?o] base_block_timing[of 2 ?o] base_block_timing[of 3 ?o]
      base_block_timing[of 4 ?o] base_block_timing[of 5 ?o] base_block_timing[of 6 ?o] base_block_timing[of 7 ?o]
    by (simp_all add: create_edid_nth detailed_timing_bytes_def Let_def put_le16_def)
  have clock: "ucast (create_edid o' ! 54) OR push_bit 8 (ucast (create_edid o' ! 55)) = ?c"
    unfolding bytes by (rule le16_wide[OF preferred_clock(2)])
  note h = packed_low[OF active_bounds(1)[of o'] blanking_bounds(1)[of "detailed_timing_options ?o"]]
  note v = packed_low[OF active_bounds(2)[of o'] blanking_bounds(2)[of "detailed_timing_options ?o"]]
  show ?thesis unfolding read_preferred_timing_def clock
    unfolding bytes h v by simp
qed

section \<open>The CTA extension\<close>

lemma extension_nth:
  "extension_block o' ! 0 = 2"
  "extension_block o' ! 2 = (if eo_hdr_supported o' then 68 else 4)"
  "eo_hdr_supported o' \<Longrightarrow> k < 64 \<Longrightarrow> extension_block o' ! (4 + k) =
     hdr_cta_blocks (hdr_max_luminance_cta_value (eo_hdr_max_luminance_nits o')) ! k"
  by (simp_all add: extension_block_def Let_def nth_write_checksum byte_def)

lemma walk_skip:
  assumes "extension ! offset = header" and "unat (header AND 0x1f) = len" and "0 < len"
    and "offset + len < data_end" and "drop_bit 5 header = 7 \<longrightarrow> extension ! (offset + 1) \<noteq> tag"
  shows "cta_walk extension tag m data_end offset = cta_walk extension tag m data_end (offset + (len + 1))"
  by (subst cta_walk.simps) (use assms in \<open>auto simp: Let_def\<close>)

lemma walk_found:
  assumes "extension ! offset = header" and "unat (header AND 0x1f) = len" and "m \<le> len" and "0 < len"
    and "offset + len < data_end" and "drop_bit 5 header = 7" and "extension ! (offset + 1) = tag"
  shows "cta_walk extension tag m data_end offset = Some offset"
  by (subst cta_walk.simps) (use assms in \<open>auto simp: Let_def\<close>)

lemma hdr_walk:
  fixes o' :: edid_options
  defines "ext \<equiv> extension_block o'"
  assumes "eo_hdr_supported o'"
  shows "find_cta_data_block ext 0x05 2 = Some 52" and "find_cta_data_block ext 0x06 3 = Some 61"
    and "ext ! 52 = 0xe3" and "ext ! 54 = 0xe0" and "ext ! 61 = 0xe6" and "ext ! 63 = 0x0f" and "ext ! 64 = 1"
    and "ext ! 65 = hdr_max_luminance_cta_value (eo_hdr_max_luminance_nits o')"
    and "ext ! 66 = hdr_max_luminance_cta_value (eo_hdr_max_luminance_nits o')" and "ext ! 67 = 0"
proof -
  note b = extension_nth(3)[OF assms(2), folded ext_def]
  have h: "ext ! 4 = 0x51" "ext ! 22 = 0x23" "ext ! 26 = 0x83" "ext ! 30 = 0x6d" "ext ! 44 = 0x67"
    "ext ! 52 = 0xe3" "ext ! 53 = 0x05" "ext ! 54 = 0xe0" "ext ! 56 = 0xe4" "ext ! 57 = 0x0f" "ext ! 61 = 0xe6"
    "ext ! 62 = 0x06" "ext ! 63 = 0x0f" "ext ! 64 = 1"
    "ext ! 65 = hdr_max_luminance_cta_value (eo_hdr_max_luminance_nits o')"
    "ext ! 66 = hdr_max_luminance_cta_value (eo_hdr_max_luminance_nits o')" "ext ! 67 = 0"
    using b[of 0] b[of 18] b[of 22] b[of 26] b[of 40] b[of 48] b[of 49] b[of 50] b[of 52] b[of 53] b[of 57]
      b[of 58] b[of 59] b[of 60] b[of 61] b[of 62] b[of 63] by (simp_all add: hdr_cta_blocks_def)
  have start: "find_cta_data_block ext t m = cta_walk ext t m 68 4" for t m
  proof -
    have "ext \<noteq> []" unfolding ext_def by (metis length_blocks(2) list.size(3) zero_neq_numeral)
    then show ?thesis using extension_nth(1,2)[of o', folded ext_def] assms(2)
      by (simp add: find_cta_data_block_def clamp_def)
  qed
  have to: "cta_walk ext t m 68 4 = cta_walk ext t m 68 52" for t m
    using walk_skip[OF h(1), of 17 68 t m] walk_skip[OF h(2), of 3 68 t m] walk_skip[OF h(3), of 3 68 t m]
      walk_skip[OF h(4), of 13 68 t m] walk_skip[OF h(5), of 7 68 t m] by simp
  show "find_cta_data_block ext 0x05 2 = Some 52"
    unfolding start to by (rule walk_found[OF h(6), where len = 3]) (simp_all add: h(7))
  have "cta_walk ext 0x06 3 68 52 = cta_walk ext 0x06 3 68 61"
    using walk_skip[OF h(6), of 3 68 6 3] walk_skip[OF h(9), of 4 68 6 3] by (simp add: h(7,10))
  moreover have "cta_walk ext 0x06 3 68 61 = Some 61" by (rule walk_found[OF h(11), where len = 6]) (simp_all add: h(12))
  ultimately show "find_cta_data_block ext 0x06 3 = Some 61" unfolding start to by simp
  show "ext ! 52 = 0xe3" "ext ! 54 = 0xe0" "ext ! 61 = 0xe6" "ext ! 63 = 0x0f" "ext ! 64 = 1"
    "ext ! 65 = hdr_max_luminance_cta_value (eo_hdr_max_luminance_nits o')"
    "ext ! 66 = hdr_max_luminance_cta_value (eo_hdr_max_luminance_nits o')" "ext ! 67 = 0"
    by (rule h)+
qed

section \<open>Properties\<close>

text \<open>
  Every generated EDID, whatever its options, has 256 bytes, the fixed header, one extension
  block announced, and two blocks whose bytes sum to zero modulo 256.
\<close>

theorem generated_edid_is_wellformed:
  "length (create_edid options) = 256 \<and> take 8 (create_edid options) = base_header \<and>
   create_edid options ! 126 = 1 \<and> has_valid_edid_checksums (create_edid options)"
proof -
  have "create_edid options ! 126 = 1"
    by (simp add: create_edid_nth base_block_def Let_def nth_write_checksum)
  moreover have "take 8 (create_edid options) = base_header"
    by (rule nth_equalityI) (simp_all add: create_edid_nth create_edid_blocks base_block_header)
  moreover have "has_valid_edid_checksums (create_edid options)"
    by (simp add: has_valid_edid_checksums_def create_edid_blocks create_edid_def Let_def
        base_block_def extension_block_def block_sum_checksum)
  ultimately show ?thesis by (simp add: create_edid_blocks)
qed

text \<open>
  C31: The decoder reads back what the generator was given: manufacturer (characters that are not
  capital letters become A), product code and serial number, the monitor name as far as it is
  printable and fits 12 characters, and the preferred timing, with the resolution cut to the 4095
  pixels a detailed timing can hold.
\<close>

theorem edid_roundtrip:
  assumes "length (eo_manufacturer_id options) = 3"
  defines "edid \<equiv> create_edid options"
  shows "read_manufacturer_id edid = Some (map letter (eo_manufacturer_id options)) \<and>
    read_product_code edid = eo_product_code options \<and> read_serial_number edid = eo_serial_number options \<and>
    read_monitor_name edid = (let name = sanitized_edid_text (eo_monitor_name options) 12 in
      if name = [] then None else Some name) \<and>
    read_preferred_timing edid = make_preferred_timing (detailed_timing_options (sanitized_options options)) \<and>
    unat (pt_horizontal_active (read_preferred_timing edid)) = max 1 (min (unat (eo_width options)) 4095) \<and>
    unat (pt_vertical_active (read_preferred_timing edid)) = max 1 (min (unat (eo_height options)) 4095)"
proof -
  have c: "unat (ucast (clamp v 1 4095 :: u32) :: u16) = max 1 (min (unat v) 4095)" for v :: u32
  proof -
    have "unat (clamp v 1 4095 :: u32) = max 1 (min (unat v) 4095)"
      by (auto simp: clamp_def word_less_nat_alt)
    then show ?thesis by (subst unat_ucast_small) simp_all
  qed
  have "eo_width (detailed_timing_options p) = eo_width p \<and> eo_height (detailed_timing_options p) = eo_height p" for p
    by (simp add: detailed_timing_options_def Let_def)
  then have "unat (pt_horizontal_active (make_preferred_timing (detailed_timing_options (sanitized_options options)))) =
      max 1 (min (unat (eo_width options)) 4095)"
    "unat (pt_vertical_active (make_preferred_timing (detailed_timing_options (sanitized_options options)))) =
      max 1 (min (unat (eo_height options)) 4095)"
    using c by (simp_all add: make_preferred_timing_def sanitized_options_def)
  then show ?thesis unfolding edid_def preferred_timing_read
    using manufacturer_read[OF assms(1)] product_code_read serial_number_read monitor_name_read by blast
qed

text \<open>
  An EDID announces HDR10 (ST 2084 metadata of type 1, and BT.2020 RGB and YCC colorimetry)
  exactly when its options ask for it, and the maximum luminance read back is the code of the
  requested one, clamped to 400..2000 nits.
\<close>

theorem hdr_announced_iff_supported:
  "has_hdr_static_metadata (create_edid options) = eo_hdr_supported options \<and>
   has_bt2020_colorimetry (create_edid options) = eo_hdr_supported options \<and>
   map_option hsm_max_luminance_code (read_hdr_static_metadata (create_edid options)) =
     (if eo_hdr_supported options
      then Some (hdr_max_luminance_cta_value (clamp (eo_hdr_max_luminance_nits options) 400 2000)) else None)"
proof (cases "eo_hdr_supported options")
  case True
  let ?o = "sanitized_options options"
  have o: "eo_hdr_supported ?o" "eo_hdr_max_luminance_nits ?o = clamp (eo_hdr_max_luminance_nits options) 400 2000"
    using True by (simp_all add: sanitized_options_def)
  note w = hdr_walk[OF o(1)]
  have ext: "take 128 (drop 128 (create_edid options)) = extension_block ?o" by (simp add: create_edid_blocks)
  have meta: "read_hdr_static_metadata (create_edid options) =
      Some \<lparr>hsm_supported_eotfs = 0x0f, hsm_supported_static_metadata_types = 1,
        hsm_max_luminance_code = hdr_max_luminance_cta_value (eo_hdr_max_luminance_nits ?o),
        hsm_max_frame_average_luminance_code = hdr_max_luminance_cta_value (eo_hdr_max_luminance_nits ?o),
        hsm_min_luminance_code = 0\<rparr>"
    by (simp add: read_hdr_static_metadata_def ext w Let_def)
  have "read_supported_colorimetry (create_edid options) =
      Some \<lparr>sc_bt2020_rgb = True, sc_bt2020_ycc = True, sc_bt2020_cycc = True\<rparr>"
    by (simp add: read_supported_colorimetry_def ext w Let_def)
  then show ?thesis using True by (simp add: has_hdr_static_metadata_def has_bt2020_colorimetry_def meta o(2))
next
  case False
  let ?o = "sanitized_options options"
  have o: "\<not> eo_hdr_supported ?o" using False by (simp add: sanitized_options_def)
  have "find_cta_data_block (extension_block ?o) t m = None" for t m
    using extension_nth(2)[of ?o] o cta_walk.simps[of _ _ _ 4 4]
    by (simp add: find_cta_data_block_def clamp_def)
  then show ?thesis using False
    by (simp add: has_hdr_static_metadata_def has_bt2020_colorimetry_def read_hdr_static_metadata_def
        read_supported_colorimetry_def create_edid_blocks Let_def)
qed

definition sample_options :: edid_options where
  "sample_options =
     \<lparr>eo_manufacturer_id = ''SUN'', eo_product_code = 0x1234, eo_serial_number = 77,
      eo_width = 5120, eo_height = 1440, eo_physical_width_mm = 600, eo_physical_height_mm = 340,
      eo_refresh_rate_millihz = 60000, eo_hdr_max_luminance_nits = 1000,
      eo_monitor_name = ''Sunshine HDR '', eo_hdr_supported = True\<rparr>"

theorem edid_roundtrip_witness:
  "read_manufacturer_id (create_edid sample_options) = Some ''SUN'' \<and>
   read_monitor_name (create_edid sample_options) = Some ''Sunshine HDR'' \<and>
   unat (pt_horizontal_active (read_preferred_timing (create_edid sample_options))) = 4095"
proof -
  have "length (eo_manufacturer_id sample_options) = 3" by (simp add: sample_options_def)
  note r = edid_roundtrip[OF this]
  have "map letter (eo_manufacturer_id sample_options) = ''SUN''"
    "sanitized_edid_text (eo_monitor_name sample_options) 12 = ''Sunshine HDR''" by code_simp+
  moreover have "unat (pt_horizontal_active (read_preferred_timing (create_edid sample_options))) =
      max 1 (min (unat (eo_width sample_options)) 4095)"
    "read_manufacturer_id (create_edid sample_options) = Some (map letter (eo_manufacturer_id sample_options))"
    "read_monitor_name (create_edid sample_options) = (let name = sanitized_edid_text (eo_monitor_name sample_options) 12
      in if name = [] then None else Some name)"
    using r by blast+
  moreover have "max 1 (min (unat (eo_width sample_options)) 4095) = 4095" by (simp add: sample_options_def)
  ultimately show ?thesis by (simp only: Let_def) simp
qed

end
