(* ===== verification/Driver_Modes.thy ===== *)
theory Driver_Modes
  imports Edid
begin

text \<open>
  The mode catalogue of a display (\<open>windows_driver_modes.h\<close>, \<open>windows_driver_modes.cpp\<close>), the
  store of modes registered per EDID, the signal frequencies, and the HDR capabilities
  (\<open>hdr_capabilities.cpp\<close>). An EDID, 256 bytes in the code, is the list of its bytes.
\<close>

section \<open>Shapes\<close>

record mode_shape =
  ms_width :: u32
  ms_height :: u32
  ms_total_width :: u32
  ms_total_height :: u32
  ms_pixel_rate :: u64
  ms_refresh_rate_millihz :: u32

record frequency_rational =
  fr_numerator :: u32
  fr_denominator :: u32

record signal_frequencies =
  sf_vertical :: frequency_rational
  sf_horizontal :: frequency_rational

record monitor_mode =
  mm_preferred :: mode_shape
  mm_requested_resolution_only :: bool

definition clamp_windows_driver_u32 :: "u64 \<Rightarrow> u32" where
  "clamp_windows_driver_u32 v = ucast (min v 0xffffffff)"

definition active_windows_driver_mode_shape :: "u32 \<Rightarrow> u32 \<Rightarrow> u32 \<Rightarrow> mode_shape" where
  "active_windows_driver_mode_shape width height refresh_rate_millihz =
     \<lparr>ms_width = width, ms_height = height, ms_total_width = width, ms_total_height = height,
      ms_pixel_rate = ucast width * ucast height * ucast (max refresh_rate_millihz 1) div 1000,
      ms_refresh_rate_millihz = refresh_rate_millihz\<rparr>"

section \<open>The catalogue\<close>

definition kDefaultWindowsDriverModes :: "(u32 \<times> u32 \<times> u32) list" where
  "kDefaultWindowsDriverModes =
     [(800, 600, 30000), (800, 600, 60000), (800, 600, 72000), (800, 600, 90000),
      (800, 600, 120000), (800, 600, 144000), (800, 600, 240000),
      (1280, 720, 30000), (1280, 720, 60000), (1280, 720, 72000), (1280, 720, 90000),
      (1280, 720, 120000), (1280, 720, 144000),
      (1366, 768, 30000), (1366, 768, 60000), (1366, 768, 72000), (1366, 768, 90000),
      (1366, 768, 120000), (1366, 768, 144000), (1366, 768, 240000),
      (1920, 1080, 30000), (1920, 1080, 60000), (1920, 1080, 72000), (1920, 1080, 90000),
      (1920, 1080, 120000), (1920, 1080, 144000), (1920, 1080, 240000),
      (2560, 1440, 30000), (2560, 1440, 60000), (2560, 1440, 72000), (2560, 1440, 90000),
      (2560, 1440, 120000), (2560, 1440, 144000), (2560, 1440, 240000),
      (3840, 2160, 30000), (3840, 2160, 60000), (3840, 2160, 72000), (3840, 2160, 90000),
      (3840, 2160, 120000), (3840, 2160, 144000), (3840, 2160, 240000),
      (5120, 1440, 30000), (5120, 1440, 60000), (5120, 1440, 120000), (5120, 1440, 144000),
      (5120, 1440, 175000), (5120, 1440, 240000), (5120, 1440, 480000)]"

definition kPreferredModeScalePercent :: "u32 list" where
  "kPreferredModeScalePercent = [100, 50, 75, 125, 150]"

fun mode_shape_from_spec :: "u32 \<times> u32 \<times> u32 \<Rightarrow> mode_shape" where
  "mode_shape_from_spec (width, height, refresh_rate_millihz) =
     active_windows_driver_mode_shape width height refresh_rate_millihz"

definition scaled_mode_shape :: "mode_shape \<Rightarrow> u32 \<Rightarrow> u32 \<Rightarrow> mode_shape option" where
  "scaled_mode_shape base scale_percent refresh_rate_millihz =
     (let width = (ucast ((ucast (ms_width base) * ucast scale_percent :: u64) div 100) :: u32);
          height = (ucast ((ucast (ms_height base) * ucast scale_percent :: u64) div 100) :: u32) in
      if width < kMinWidth \<or> width > kMaxWidth \<or> height < kMinHeight \<or> height > kMaxHeight \<or>
         refresh_rate_millihz < kMinRefreshRateMilliHz
      then None
      else Some (active_windows_driver_mode_shape width height refresh_rate_millihz))"

definition same_mode :: "mode_shape \<Rightarrow> mode_shape \<Rightarrow> bool" where
  "same_mode mode candidate \<longleftrightarrow>
     ms_width mode = ms_width candidate \<and> ms_height mode = ms_height candidate \<and>
     ms_refresh_rate_millihz mode = ms_refresh_rate_millihz candidate"

text \<open>The search loop returns the first index at which the predicate holds.\<close>

fun index_where :: "('a \<Rightarrow> bool) \<Rightarrow> 'a list \<Rightarrow> nat \<Rightarrow> nat option" where
  "index_where P [] index = None"
| "index_where P (x # xs) index = (if P x then Some index else index_where P xs (Suc index))"

definition append_unique_windows_driver_mode ::
  "mode_shape list \<Rightarrow> mode_shape \<Rightarrow> mode_shape list \<times> u32" where
  "append_unique_windows_driver_mode modes candidate =
     (case index_where (\<lambda>mode. same_mode mode candidate) modes 0 of
        Some index \<Rightarrow> (modes, of_nat index)
      | None \<Rightarrow> (modes @ [candidate], of_nat (length modes)))"

text \<open>One refresh multiplier of \<open>append_preferred_mode_variants\<close>.\<close>

definition append_multiplied ::
  "mode_shape \<Rightarrow> u32 \<Rightarrow> u64 \<Rightarrow> mode_shape list \<Rightarrow> mode_shape list" where
  "append_multiplied preferred scale_percent multiplier modes =
     (let refresh =
            clamp_windows_driver_u32 (ucast (ms_refresh_rate_millihz preferred) * multiplier) in
      case scaled_mode_shape preferred scale_percent refresh of
        None \<Rightarrow> modes
      | Some multiplied \<Rightarrow> fst (append_unique_windows_driver_mode modes multiplied))"

text \<open>One scale of the outer loop; the second component is the preferred index once it is set.\<close>

definition append_scale ::
  "mode_shape \<Rightarrow> u32 \<Rightarrow> mode_shape list \<times> u32 option \<Rightarrow> mode_shape list \<times> u32 option" where
  "append_scale preferred scale_percent state =
     (let (modes, preferred_index) = state;
          (modes1, index1) =
            (case scaled_mode_shape preferred scale_percent (ms_refresh_rate_millihz preferred) of
               None \<Rightarrow> (modes, preferred_index)
             | Some scaled \<Rightarrow>
                 (let (modes', index) = append_unique_windows_driver_mode modes scaled
                  in (modes', if scale_percent = 100 then Some index else preferred_index)))
      in (append_multiplied preferred scale_percent 4
            (append_multiplied preferred scale_percent 2 modes1), index1))"

definition append_preferred_mode_variants ::
  "mode_shape list \<Rightarrow> mode_shape \<Rightarrow> mode_shape list \<times> u32" where
  "append_preferred_mode_variants modes preferred =
     (let (modes1, preferred_index) =
            fold (append_scale preferred) kPreferredModeScalePercent (modes, None) in
      case preferred_index of
        Some index \<Rightarrow> (modes1, index)
      | None \<Rightarrow> append_unique_windows_driver_mode modes1 preferred)"

definition default_windows_driver_preferred_mode_index :: "mode_shape list \<Rightarrow> u32" where
  "default_windows_driver_preferred_mode_index modes =
     (case index_where (\<lambda>mode. ms_width mode = 1920 \<and> ms_height mode = 1080 \<and>
             ms_refresh_rate_millihz mode = 60000) modes 0 of
        Some index \<Rightarrow> of_nat index
      | None \<Rightarrow> 0)"

definition restriction_unusable :: "mode_shape option \<Rightarrow> bool" where
  "restriction_unusable preferred \<longleftrightarrow>
     (case preferred of
        None \<Rightarrow> True
      | Some p \<Rightarrow> ms_width p < kMinWidth \<or> ms_width p > kMaxWidth \<or> ms_height p < kMinHeight \<or>
          ms_height p > kMaxHeight \<or> ms_refresh_rate_millihz p < kMinRefreshRateMilliHz)"

definition default_catalogue :: "mode_shape list \<times> u32" where
  "default_catalogue =
     (let modes = map mode_shape_from_spec kDefaultWindowsDriverModes
      in (modes, default_windows_driver_preferred_mode_index modes))"

definition build_windows_driver_mode_shapes ::
  "mode_shape option \<Rightarrow> bool \<Rightarrow> mode_shape list \<times> u32" where
  "build_windows_driver_mode_shapes preferred requested_resolution_only =
     (if requested_resolution_only \<and> restriction_unusable preferred then default_catalogue
      else
        (case preferred of
           None \<Rightarrow> default_catalogue
         | Some p \<Rightarrow>
             (let (modes, preferred_index) =
                    append_preferred_mode_variants (fst default_catalogue) p in
              if requested_resolution_only
              then append_unique_windows_driver_mode
                     (filter (\<lambda>mode. \<not> (ms_width mode \<noteq> ms_width p \<or> ms_height mode \<noteq> ms_height p)) modes) p
              else (modes, preferred_index))))"

definition build_windows_driver_target_mode_shapes ::
  "mode_shape option \<Rightarrow> mode_shape option \<Rightarrow> bool \<Rightarrow> mode_shape list \<times> u32" where
  "build_windows_driver_target_mode_shapes monitor_description requested_shape
     requested_resolution_only =
     build_windows_driver_mode_shapes
       (case requested_shape of Some shape \<Rightarrow> Some shape | None \<Rightarrow> monitor_description)
       requested_resolution_only"

section \<open>Frequencies\<close>

definition make_windows_driver_frequency_rational :: "u64 \<Rightarrow> u32 \<Rightarrow> frequency_rational" where
  "make_windows_driver_frequency_rational numerator denominator =
     (let denominator1 = max denominator 1 in
      if numerator = 0 then \<lparr>fr_numerator = 0, fr_denominator = 1\<rparr>
      else
        let divisor = (of_nat (gcd (unat numerator) (unat denominator1)) :: u64)
        in \<lparr>fr_numerator = clamp_windows_driver_u32 (numerator div divisor),
            fr_denominator = ucast (ucast denominator1 div divisor)\<rparr>)"

definition windows_driver_signal_frequencies :: "mode_shape \<Rightarrow> signal_frequencies" where
  "windows_driver_signal_frequencies shape =
     (let total_height = max (ms_total_height shape) (ms_height shape) in
      \<lparr>sf_vertical = make_windows_driver_frequency_rational
          (ucast (max (ms_refresh_rate_millihz shape) 1)) 1000,
       sf_horizontal = make_windows_driver_frequency_rational
          (ucast (max (ms_refresh_rate_millihz shape) 1) * ucast (max total_height 1)) 1000\<rparr>)"

section \<open>Registered modes\<close>

record mode_entry =
  me_mode :: monitor_mode
  me_references :: u32

text \<open>
  \<open>WindowsDriverRegisteredModeStore\<close>: the map is only looked up, never iterated. The
  subscript inserts an entry without references when the key is new.
\<close>

type_synonym mode_store = "u8 list \<rightharpoonup> mode_entry"

definition register_mode :: "u8 list \<Rightarrow> mode_shape \<Rightarrow> bool \<Rightarrow> mode_store \<Rightarrow> mode_store \<times> bool" where
  "register_mode edid mode requested_resolution_only entries =
     (if ms_width mode = 0 \<or> ms_height mode = 0 \<or> ms_refresh_rate_millihz mode = 0
      then (entries, False)
      else
        let wanted = \<lparr>mm_preferred = mode, mm_requested_resolution_only = requested_resolution_only\<rparr> in
        case entries edid of
          None \<Rightarrow> (entries(edid \<mapsto> \<lparr>me_mode = wanted, me_references = 1\<rparr>), True)
        | Some entry \<Rightarrow>
            if me_references entry \<noteq> 0 \<and>
               (mm_preferred (me_mode entry) \<noteq> mode \<or>
                mm_requested_resolution_only (me_mode entry) \<noteq> requested_resolution_only)
            then (entries, False)
            else (entries(edid \<mapsto> \<lparr>me_mode = wanted, me_references = me_references entry + 1\<rparr>), True))"

definition unregister_mode :: "u8 list \<Rightarrow> mode_store \<Rightarrow> mode_store" where
  "unregister_mode edid entries =
     (case entries edid of
        None \<Rightarrow> entries
      | Some entry \<Rightarrow>
          if me_references entry \<le> 1 then entries(edid := None)
          else entries(edid \<mapsto> entry\<lparr>me_references := me_references entry - 1\<rparr>))"

definition registered_monitor_mode :: "u8 list \<Rightarrow> mode_store \<Rightarrow> monitor_mode option" where
  "registered_monitor_mode edid entries = map_option me_mode (entries edid)"

definition registered_mode :: "u8 list \<Rightarrow> mode_store \<Rightarrow> mode_shape option" where
  "registered_mode edid entries = map_option mm_preferred (registered_monitor_mode edid entries)"

section \<open>HDR capabilities\<close>

record wire_color_support =
  wcs_rgb_8bpc :: bool
  wcs_rgb_10bpc :: bool
  wcs_ycbcr444 :: bool
  wcs_ycbcr422 :: bool
  wcs_ycbcr420 :: bool

record hdr_output_capabilities =
  hoc_fp16_swapchain :: bool
  hoc_wide_color_space :: bool
  hoc_high_color_space :: bool
  hoc_endpoint_gamma_transform :: bool
  hoc_output_bits :: wire_color_support
  hoc_dithering_bits :: wire_color_support

definition hdr_output_capabilities :: hdr_output_capabilities where
  "hdr_output_capabilities =
     \<lparr>hoc_fp16_swapchain = True, hoc_wide_color_space = True, hoc_high_color_space = True,
      hoc_endpoint_gamma_transform = False,
      hoc_output_bits = \<lparr>wcs_rgb_8bpc = True, wcs_rgb_10bpc = True, wcs_ycbcr444 = False,
        wcs_ycbcr422 = False, wcs_ycbcr420 = False\<rparr>,
      hoc_dithering_bits = \<lparr>wcs_rgb_8bpc = False, wcs_rgb_10bpc = True, wcs_ycbcr444 = False,
        wcs_ycbcr422 = False, wcs_ycbcr420 = False\<rparr>\<rparr>"

definition supports_windows_hdr_toggle :: "hdr_output_capabilities \<Rightarrow> bool" where
  "supports_windows_hdr_toggle capabilities \<longleftrightarrow>
     hoc_fp16_swapchain capabilities \<and> hoc_wide_color_space capabilities \<and>
     hoc_high_color_space capabilities \<and> wcs_rgb_10bpc (hoc_output_bits capabilities) \<and>
     wcs_rgb_10bpc (hoc_dithering_bits capabilities)"

end
