(* ===== verification/Driver_Modes_Theorems.thy ===== *)
theory Driver_Modes_Theorems
  imports Driver_Modes
begin

text \<open>
  The mode catalogue has no duplicates, is bounded, and designates the requested mode; the
  reference counts of registered modes; exactness of the signal frequencies.
\<close>

section \<open>Searching and appending\<close>

definition mode_key :: "mode_shape \<Rightarrow> u32 \<times> u32 \<times> u32" where
  "mode_key m = (ms_width m, ms_height m, ms_refresh_rate_millihz m)"

lemma same_mode_key: "same_mode m c \<longleftrightarrow> mode_key m = mode_key c"
  by (simp add: same_mode_def mode_key_def)

lemma index_where_Some:
  "index_where P xs n = Some i \<Longrightarrow> n \<le> i \<and> i < n + length xs \<and> P (xs ! (i - n))"
  by (induction xs arbitrary: n) (force split: if_splits simp: nth_Cons')+

lemma index_where_None: "index_where P xs n = None \<longleftrightarrow> (\<forall>x \<in> set xs. \<not> P x)"
  by (induction xs arbitrary: n) auto

lemma append_unique_result:
  assumes "append_unique_windows_driver_mode modes c = (modes', i)" and "length modes < 2 ^ 32"
  shows "unat i < length modes'" and "mode_key (modes' ! unat i) = mode_key c"
    and "modes' = modes \<or> modes' = modes @ [c]"
    and "distinct (map mode_key modes) \<Longrightarrow> distinct (map mode_key modes')"
proof -
  have small: "unat (of_nat n :: u32) = n" if "n \<le> length modes" for n
    using that assms(2) by (simp add: unat_of_nat)
  have "unat i < length modes' \<and> mode_key (modes' ! unat i) = mode_key c \<and> (modes' = modes \<or> modes' = modes @ [c])"
  proof (cases "index_where (\<lambda>mode. same_mode mode c) modes 0")
    case None
    then show ?thesis using assms(1) small[of "length modes"]
      by (auto simp: append_unique_windows_driver_mode_def)
  next
    case (Some j)
    then show ?thesis using assms(1) index_where_Some[OF Some] small[of j]
      by (auto simp: append_unique_windows_driver_mode_def same_mode_key)
  qed
  then show "unat i < length modes'" "mode_key (modes' ! unat i) = mode_key c"
    "modes' = modes \<or> modes' = modes @ [c]" by blast+
  show "distinct (map mode_key modes')" if "distinct (map mode_key modes)"
    using assms(1) that
    by (auto simp: append_unique_windows_driver_mode_def same_mode_key index_where_None split: option.splits; metis)
qed

text \<open>\<open>grows k ms ms'\<close>: at most \<open>k\<close> modes were appended, none of them a duplicate.\<close>

definition grows :: "nat \<Rightarrow> mode_shape list \<Rightarrow> mode_shape list \<Rightarrow> bool" where
  "grows k ms ms' \<longleftrightarrow> (\<exists>ys. ms' = ms @ ys \<and> length ys \<le> k) \<and>
     (distinct (map mode_key ms) \<longrightarrow> distinct (map mode_key ms'))"

lemma grows_refl [simp]: "grows k ms ms"
  by (simp add: grows_def)

lemma grows_trans: "grows k a b \<Longrightarrow> grows l b c \<Longrightarrow> grows (k + l) a c"
  unfolding grows_def by fastforce

lemma grows_append_unique:
  "length ms < 2 ^ 32 \<Longrightarrow> grows (Suc 0) ms (fst (append_unique_windows_driver_mode ms c))"
  using append_unique_result[of ms c] unfolding grows_def
  by (cases "append_unique_windows_driver_mode ms c") auto

lemma grows_length: "grows k ms ms' \<Longrightarrow> length ms' \<le> length ms + k \<and> length ms \<le> length ms'"
  by (auto simp: grows_def)

lemma grows_nth: "grows k ms ms' \<Longrightarrow> i < length ms \<Longrightarrow> ms' ! i = ms ! i"
  by (auto simp: grows_def nth_append)

lemma grows_multiplied: "length ms < 2 ^ 32 \<Longrightarrow> grows (Suc 0) ms (append_multiplied p scale m ms)"
  by (auto simp: append_multiplied_def Let_def intro: grows_append_unique split: option.split)

lemma unscaled: "scaled_mode_shape p 100 r = Some s \<Longrightarrow> mode_key s = (ms_width p, ms_height p, r)"
proof -
  have same: "ucast ((ucast w * 100 :: u64) div 100) = (w :: u32)" for w :: u32
  proof (rule word_unat_eq_iff[THEN iffD2])
    have "unat w < 2 ^ 32" using unsigned_less[of w, where 'a = nat] by simp 
    then show "unat (ucast ((ucast w * 100 :: u64) div 100) :: u32) = unat w"
      by (simp add: unsigned_ucast_eq unat_div unat_word_ariths take_bit_eq_mod)
  qed
  show "scaled_mode_shape p 100 r = Some s \<Longrightarrow> ?thesis"
    by (auto simp: scaled_mode_shape_def Let_def same mode_key_def active_windows_driver_mode_shape_def
        split: if_splits)
qed

section \<open>The variants of the preferred mode\<close>

text \<open>The state of the loop over the scales: nothing lost, and the preferred index points at the preferred mode.\<close>

definition preferred_found :: "mode_shape \<Rightarrow> mode_shape list \<times> u32 option \<Rightarrow> bool" where
  "preferred_found p st \<longleftrightarrow>
     (case snd st of None \<Rightarrow> True
      | Some i \<Rightarrow> unat i < length (fst st) \<and> mode_key (fst st ! unat i) = mode_key p)"

lemma preferred_found_grows:
  "preferred_found p (ms, i) \<Longrightarrow> grows k ms ms' \<Longrightarrow> preferred_found p (ms', i)"
  using grows_length[of k ms ms'] by (auto simp: preferred_found_def grows_nth split: option.splits)

lemma append_scale_result:
  assumes "length (fst st) + 3 < 2 ^ 32" and "preferred_found p st"
  shows "grows 3 (fst st) (fst (append_scale p scale st)) \<and> preferred_found p (append_scale p scale st)"
proof -
  obtain ms i where st: "st = (ms, i)" by (cases st)
  define first where "first = (case scaled_mode_shape p scale (ms_refresh_rate_millihz p) of
      None \<Rightarrow> (ms, i)
    | Some scaled \<Rightarrow> (let (modes', index) = append_unique_windows_driver_mode ms scaled
        in (modes', if scale = 100 then Some index else i)))"
  have len: "length ms < 2 ^ 32" using assms(1) by (simp add: st)
  have one: "grows (Suc 0) ms (fst first) \<and> preferred_found p first"
  proof (cases "scaled_mode_shape p scale (ms_refresh_rate_millihz p)")
    case None
    then show ?thesis using assms(2) by (simp add: first_def st)
  next
    case (Some s)
    obtain ms' j where app: "append_unique_windows_driver_mode ms s = (ms', j)" by fastforce
    have first: "first = (ms', if scale = 100 then Some j else i)" by (simp add: first_def Some app)
    have g: "grows (Suc 0) ms ms'" using grows_append_unique[OF len, of s] by (simp add: app)
    have "mode_key s = mode_key p" if "scale = 100"
      using unscaled[of p _ s] Some that by (simp add: mode_key_def)
    then show ?thesis
      using g append_unique_result(1,2)[OF app len] preferred_found_grows[OF assms(2)[unfolded st] g]
      by (auto simp: first preferred_found_def)
  qed
  define ms2 where "ms2 = append_multiplied p scale 2 (fst first)"
  have two: "grows (Suc 0) (fst first) ms2" unfolding ms2_def
    by (rule grows_multiplied) (use grows_length[OF conjunct1[OF one]] assms(1) in \<open>simp add: st\<close>)
  have three: "grows (Suc 0) ms2 (append_multiplied p scale 4 ms2)"
    by (rule grows_multiplied) (use grows_length[OF conjunct1[OF one]] grows_length[OF two] assms(1) in \<open>simp add: st\<close>)
  have res: "append_scale p scale st = (append_multiplied p scale 4 ms2, snd first)"
    unfolding ms2_def first_def by (simp add: append_scale_def st case_prod_beta Let_def cong: option.case_cong if_cong)
  have g: "grows 2 (fst first) (append_multiplied p scale 4 ms2)" using grows_trans[OF two three] by (simp add: numeral_2_eq_2)
  have "grows 3 ms (append_multiplied p scale 4 ms2)"
    using grows_trans[OF conjunct1[OF one] g] by (simp add: numeral_3_eq_3)
  moreover have "preferred_found p (append_multiplied p scale 4 ms2, snd first)"
    using preferred_found_grows[of p "fst first" "snd first", OF _ g] one by simp
  ultimately show ?thesis unfolding res by (simp add: st)
qed

text \<open>When the unscaled mode is unusable, so are its multiples: that scale appends nothing.\<close>

lemma append_scale_100:
  assumes "snd (append_scale p 100 (ms, None)) = None"
  shows "append_scale p 100 (ms, None) = (ms, None)"
proof -
  have none: "scaled_mode_shape p 100 (ms_refresh_rate_millihz p) = None"
    using assms by (auto simp: append_scale_def case_prod_beta Let_def split: option.splits)
  have "scaled_mode_shape p 100 (clamp_windows_driver_u32 (ucast (ms_refresh_rate_millihz p) * m)) = None" for m
  proof (cases "ms_refresh_rate_millihz p = 0")
    case True
    then show ?thesis by (simp add: scaled_mode_shape_def Let_def clamp_windows_driver_u32_def)
  next
    case False
    then have "\<not> ms_refresh_rate_millihz p < 1" by (simp add: word_less_1)
    then show ?thesis using none by (auto simp: scaled_mode_shape_def Let_def split: if_splits)
  qed
  then show ?thesis using none by (simp add: append_scale_def append_multiplied_def Let_def)
qed

lemma fold_scales:
  assumes "length (fst st) + 3 * length scales < 2 ^ 32" and "preferred_found p st"
  shows "grows (3 * length scales) (fst st) (fst (fold (append_scale p) scales st)) \<and>
    preferred_found p (fold (append_scale p) scales st)"
  using assms
proof (induction scales arbitrary: st)
  case (Cons a scales)
  have step: "grows 3 (fst st) (fst (append_scale p a st))" "preferred_found p (append_scale p a st)"
    using append_scale_result[of st p a] Cons.prems by simp_all
  have "length (fst (append_scale p a st)) + 3 * length scales < 2 ^ 32"
    using grows_length[OF step(1)] Cons.prems(1) by simp
  from Cons.IH[OF this step(2)] grows_trans[OF step(1)] show ?case by auto
qed simp

lemma preferred_variants:
  assumes "append_preferred_mode_variants ms p = (ms', i)" and "length ms \<le> 48" and "distinct (map mode_key ms)"
  shows "grows 15 ms ms'" and "unat i < length ms'" and "mode_key (ms' ! unat i) = mode_key p"
proof -
  let ?st1 = "append_scale p 100 (ms, None)"
  let ?st = "fold (append_scale p) [50, 75, 125, 150] ?st1"
  have start: "preferred_found p (ms, None)" by (simp add: preferred_found_def)
  have one: "grows 3 ms (fst ?st1)" "preferred_found p ?st1"
    using append_scale_result[of "(ms, None)" p 100] assms(2) start by simp_all
  have rest: "grows 12 (fst ?st1) (fst ?st)" "preferred_found p ?st"
    using fold_scales[of ?st1 "[50, 75, 125, 150]" p] grows_length[OF one(1)] assms(2) one(2) by simp_all
  have all: "append_preferred_mode_variants ms p =
      (case snd ?st of Some index \<Rightarrow> (fst ?st, index) | None \<Rightarrow> append_unique_windows_driver_mode (fst ?st) p)"
    by (simp add: append_preferred_mode_variants_def kPreferredModeScalePercent_def case_prod_beta cong: option.case_cong)
  have total: "grows 15 ms (fst ?st)" using grows_trans[OF one(1) rest(1)] by simp
  have keep: "snd (append_scale p a st) = snd st" if "a \<noteq> 100" for a st
    using that by (auto simp: append_scale_def case_prod_beta Let_def split: option.splits)
  have "grows 15 ms ms' \<and> unat i < length ms' \<and> mode_key (ms' ! unat i) = mode_key p"
  proof (cases "snd ?st")
    case (Some j)
    then show ?thesis using assms(1) all total rest(2) by (auto simp: preferred_found_def)
  next
    case None
    have "snd ?st1 = None" using None by (simp add: keep)
    then have same: "?st1 = (ms, None)" by (rule append_scale_100)
    have app: "append_unique_windows_driver_mode (fst ?st) p = (ms', i)" using assms(1) all None by simp
    have g: "grows 12 ms (fst ?st)" using rest(1) by (simp add: same)
    have len: "length (fst ?st) < 2 ^ 32" using grows_length[OF g] assms(2) by simp
    have "grows 13 ms ms'" using grows_trans[OF g grows_append_unique[OF len, of p]] app by simp
    then have "grows 15 ms ms'" by (auto simp: grows_def)
    then show ?thesis using append_unique_result(1,2)[OF app len] by simp
  qed
  then show "grows 15 ms ms'" "unat i < length ms'" "mode_key (ms' ! unat i) = mode_key p" by blast+
qed

lemma default_catalogue_ok:
  "length (fst default_catalogue) = 48" "distinct (map mode_key (fst default_catalogue))"
  "unat (snd default_catalogue) < 48"
  "mode_key (fst default_catalogue ! unat (snd default_catalogue)) = (1920, 1080, 60000)"
  by code_simp+

lemma restricted_catalogue:
  assumes "build_windows_driver_mode_shapes (Some p) True = (modes, i)" and "\<not> restriction_unusable (Some p)"
  shows "distinct (map mode_key modes) \<and> length modes \<le> 63 \<and> unat i < length modes \<and>
    mode_key (modes ! unat i) = mode_key p \<and> (\<forall>m \<in> set modes. ms_width m = ms_width p \<and> ms_height m = ms_height p)"
proof -
  obtain ms j where ms: "append_preferred_mode_variants (fst default_catalogue) p = (ms, j)" by fastforce
  have v: "grows 15 (fst default_catalogue) ms" "unat j < length ms" "mode_key (ms ! unat j) = mode_key p"
    using preferred_variants[OF ms] default_catalogue_ok by simp_all
  let ?fs = "filter (\<lambda>mode. \<not> (ms_width mode \<noteq> ms_width p \<or> ms_height mode \<noteq> ms_height p)) ms"
  have app: "append_unique_windows_driver_mode ?fs p = (modes, i)"
    using assms by (simp add: build_windows_driver_mode_shapes_def ms)
  have len: "length ms \<le> 63" using grows_length[OF v(1)] default_catalogue_ok by simp
  have dist: "distinct (map mode_key ?fs)"
    using v(1) default_catalogue_ok(2) by (simp add: grows_def distinct_map_filter)
  have small2: "length ?fs \<le> 63" by (rule le_trans[OF length_filter_le len])
  have small: "length ?fs < 2 ^ 32" by (rule le_less_trans[OF small2]) simp
  note res = append_unique_result[OF app small]
  have mem: "ms ! unat j \<in> set ?fs" using v(2,3) by (simp add: mode_key_def)
  have "modes = ?fs"
  proof -
    have "index_where (\<lambda>mode. same_mode mode p) ?fs 0 \<noteq> None"
      using mem v(3) unfolding index_where_None same_mode_key by blast
    then show ?thesis using app by (auto simp: append_unique_windows_driver_mode_def)
  qed
  then show ?thesis using res(1,2) dist small2 by auto
qed

section \<open>Frequencies\<close>

lemma reduced_ratio:
  fixes n :: u64 and d :: u32
  assumes "n \<noteq> 0" and "d \<noteq> 0"
  defines "g \<equiv> gcd (unat n) (unat d)"
  shows "unat (fr_numerator (make_windows_driver_frequency_rational n d)) = min (unat n div g) 0xffffffff"
    and "unat (fr_denominator (make_windows_driver_frequency_rational n d)) = unat d div g"
proof -
  have d: "unat d < 2 ^ 32" "unat d > 0" using unsigned_less[of d, where 'a = nat] assms(2) by (simp_all add: unat_gt_0)
  have m: "max d 1 = d" 
    using d(2) by (intro max_absorb1) (simp add: word_le_nat_alt)
  have le: "g \<le> unat d" unfolding g_def by (rule gcd_le2_nat) (use d(2) in simp)
  have g0: "0 < g" using d(2) by (simp add: g_def)
  have g64: "g < 2 ^ 64" using le d(1) by simp
  have ug: "unat (of_nat g :: u64) = g" using g64 by (simp add: unat_of_nat)
  have q: "unat (n div of_nat g) = unat n div g" by (simp add: unat_div ug)
  have num: "unat (clamp_windows_driver_u32 (n div of_nat g)) = min (unat n div g) 0xffffffff"
    by (simp add: clamp_windows_driver_u32_def unsigned_ucast_eq take_bit_eq_mod min_def word_le_nat_alt q)
  have den: "unat (ucast (ucast d div (of_nat g :: u64)) :: u32) = unat d div g"
  proof -
    have "unat d div g < 2 ^ 32" using d(1) div_le_dividend[of "unat d" g] by linarith
    then show ?thesis using d by (simp add: unsigned_ucast_eq take_bit_eq_mod unat_div ug)
  qed
  show "unat (fr_numerator (make_windows_driver_frequency_rational n d)) = min (unat n div g) 0xffffffff"
    "unat (fr_denominator (make_windows_driver_frequency_rational n d)) = unat d div g"
    using num den assms(1) by (simp_all add: make_windows_driver_frequency_rational_def Let_def m g_def)
qed

section \<open>Reference counts\<close>

datatype mode_op = RegisterMode "u8 list" mode_shape bool | UnregisterMode "u8 list"

primrec run_mode_op :: "mode_op \<Rightarrow> mode_store \<Rightarrow> mode_store" where
  "run_mode_op (RegisterMode edid mode only) s = fst (register_mode edid mode only s)"
| "run_mode_op (UnregisterMode edid) s = unregister_mode edid s"

text \<open>
  The contract of the store: each EDID has one mode and a count of the registrations that have
  not been undone; the mode cannot change while the count is positive.
\<close>

type_synonym mode_counts = "u8 list \<rightharpoonup> monitor_mode \<times> nat"

primrec count_mode_op :: "mode_op \<Rightarrow> mode_counts \<Rightarrow> mode_counts" where
  "count_mode_op (RegisterMode edid mode only) A =
     (if ms_width mode = 0 \<or> ms_height mode = 0 \<or> ms_refresh_rate_millihz mode = 0 then A
      else
        let wanted = \<lparr>mm_preferred = mode, mm_requested_resolution_only = only\<rparr> in
        case A edid of
          None \<Rightarrow> A(edid \<mapsto> (wanted, 1))
        | Some (current, n) \<Rightarrow> if current = wanted then A(edid \<mapsto> (current, n + 1)) else A)"
| "count_mode_op (UnregisterMode edid) A =
     (case A edid of
        None \<Rightarrow> A
      | Some (current, n) \<Rightarrow> if n = 1 then A(edid := None) else A(edid \<mapsto> (current, n - 1)))"

definition counts_of :: "mode_store \<Rightarrow> mode_counts" where
  "counts_of s edid = map_option (\<lambda>e. (me_mode e, unat (me_references e))) (s edid)"

definition counts_below :: "nat \<Rightarrow> mode_store \<Rightarrow> bool" where
  "counts_below n s \<longleftrightarrow> (\<forall>edid e. s edid = Some e \<longrightarrow> me_references e \<noteq> 0 \<and> unat (me_references e) \<le> n)"

lemma unat_succ: "unat (x :: u32) < 2 ^ 32 - 1 \<Longrightarrow> unat (x + 1) = unat x + 1"
  by (simp add: unat_word_ariths)

lemma unat_pred: "(x :: u32) \<noteq> 0 \<Longrightarrow> unat (x - 1) = unat x - 1"
  by (simp add: unat_minus_one)

lemma mode_op_step:
  assumes "counts_below n s" and "n < 2 ^ 32 - 1"
  shows "counts_of (run_mode_op op s) = count_mode_op op (counts_of s) \<and> counts_below (Suc n) (run_mode_op op s)"
proof (cases op)
  case (RegisterMode edid mode only)
  show ?thesis
  proof (cases "s edid")
    case None
    then show ?thesis using assms(1) RegisterMode
      by (auto simp: register_mode_def counts_of_def counts_below_def fun_eq_iff Let_def intro: le_SucI)
  next
    case (Some e)
    have e: "me_references e \<noteq> 0" "unat (me_references e) \<le> n"
      using assms(1) Some unfolding counts_below_def by auto
    then have up: "unat (me_references e + 1) = unat (me_references e) + 1"
      using assms(2) by (intro unat_succ) linarith
    then have "me_references e + 1 \<noteq> 0" by (metis Suc_eq_plus1 nat.distinct(1) unsigned_0)
    moreover have "me_mode e = \<lparr>mm_preferred = mode, mm_requested_resolution_only = only\<rparr> \<longleftrightarrow>
        mm_preferred (me_mode e) = mode \<and> mm_requested_resolution_only (me_mode e) = only"
      by (cases "me_mode e") simp
    ultimately show ?thesis using assms(1) RegisterMode Some e up
      by (auto simp: register_mode_def counts_of_def counts_below_def fun_eq_iff Let_def intro: le_SucI)
  qed
next
  case (UnregisterMode edid)
  show ?thesis
  proof (cases "s edid")
    case None
    then show ?thesis using assms(1) UnregisterMode
      by (auto simp: unregister_mode_def counts_of_def counts_below_def fun_eq_iff intro: le_SucI)
  next
    case (Some e)
    have e: "me_references e \<noteq> 0" "unat (me_references e) \<le> n"
      using assms(1) Some unfolding counts_below_def by auto
    have pos: "unat (me_references e) \<noteq> 0" using e(1) by (simp add: unat_eq_0)
    have one: "me_references e \<le> 1 \<longleftrightarrow> unat (me_references e) = 1"
      using pos by (simp add: word_le_nat_alt) linarith
    have "me_references e - 1 \<noteq> 0" if "\<not> me_references e \<le> 1"
      using that by (metis eq_iff_diff_eq_0 order_refl)
    moreover have "unat (me_references e) - Suc 0 \<le> Suc n" using e(2) by simp
    ultimately show ?thesis using assms(1) UnregisterMode Some e unat_pred[OF e(1)] one
      by (auto simp: unregister_mode_def counts_of_def counts_below_def fun_eq_iff intro: le_SucI)
  qed
qed

lemma mode_run:
  assumes "counts_below n s" and "n + length ops < 2 ^ 32"
  shows "counts_of (fold run_mode_op ops s) = fold count_mode_op ops (counts_of s) \<and>
    counts_below (n + length ops) (fold run_mode_op ops s)"
  using assms
proof (induction ops arbitrary: n s)
  case (Cons op ops)
  have step: "counts_of (run_mode_op op s) = count_mode_op op (counts_of s)" "counts_below (Suc n) (run_mode_op op s)"
    using mode_op_step[OF Cons.prems(1)] Cons.prems(2) by simp_all
  from Cons.IH[OF step(2)] Cons.prems(2) show ?case by (simp add: step(1))
qed simp

section \<open>Properties\<close>

text \<open>
  C33: The mode catalogue of a display lists every mode once, at most 63 of them (what the code
  reserves), and its preferred index points at the requested mode. An unrestricted catalogue
  starts with the 48 default modes; a restricted one contains only modes of the requested
  resolution; when the requested mode is out of range, the restriction falls back to the default
  catalogue with 1920x1080 at 60 Hz preferred.
\<close>

theorem mode_catalogue_exact:
  assumes "build_windows_driver_mode_shapes preferred only = (modes, i)"
  shows "distinct (map mode_key modes) \<and> length modes \<le> 63 \<and> unat i < length modes \<and>
    (if only \<and> restriction_unusable preferred then (modes, i) = default_catalogue
     else if only then
       map_option mode_key preferred = Some (mode_key (modes ! unat i)) \<and>
       (\<forall>m \<in> set modes. Some (ms_width m, ms_height m) = map_option (\<lambda>p. (ms_width p, ms_height p)) preferred)
     else take 48 modes = map mode_shape_from_spec kDefaultWindowsDriverModes \<and>
       mode_key (modes ! unat i) = (case preferred of None \<Rightarrow> (1920, 1080, 60000) | Some p \<Rightarrow> mode_key p))"
proof (cases "(only \<and> restriction_unusable preferred) \<or> preferred = None")
  case True
  then have "(modes, i) = default_catalogue"
    using assms by (auto simp: build_windows_driver_mode_shapes_def restriction_unusable_def split: if_splits)
  then show ?thesis using default_catalogue_ok True
    by (auto simp: restriction_unusable_def default_catalogue_def Let_def dest: sym)
next
  case False
  then obtain p where p: "preferred = Some p" by auto
  show ?thesis
  proof (cases "only")
    case True
    then show ?thesis using restricted_catalogue[of p modes i] assms False p by auto
  next
    case False
    then have app: "append_preferred_mode_variants (fst default_catalogue) p = (modes, i)"
      using assms p by (simp add: build_windows_driver_mode_shapes_def case_prod_beta)
    note v = preferred_variants[OF app eq_refl[OF default_catalogue_ok(1)] default_catalogue_ok(2)]
    have "take 48 modes = fst default_catalogue" "length modes \<le> 63" "distinct (map mode_key modes)"
      using v(1) default_catalogue_ok by (auto simp: grows_def)
    then show ?thesis using v(2,3) False p by (simp add: default_catalogue_def Let_def)
  qed
qed

text \<open>
  The registered mode store implements a reference count per EDID: over any sequence of fewer
  than 2^32 registrations and removals, an EDID has a mode exactly while registrations of it are
  outstanding, the mode is the one of the first of them, and a registration with another mode is
  refused until all have been undone.
\<close>

theorem registered_modes_are_counted:
  assumes "length ops < 2 ^ 32"
  shows "counts_of (fold run_mode_op ops Map.empty) = fold count_mode_op ops Map.empty \<and>
    registered_monitor_mode edid (fold run_mode_op ops Map.empty) =
      map_option fst (fold count_mode_op ops Map.empty edid)"
proof -
  have "counts_below 0 Map.empty" by (simp add: counts_below_def)
  then have "counts_of (fold run_mode_op ops Map.empty) = fold count_mode_op ops (counts_of Map.empty)"
    using mode_run[of 0 "Map.empty" ops] assms by simp
  moreover have "counts_of Map.empty = Map.empty" by (simp add: counts_of_def fun_eq_iff)
  ultimately have eq: "counts_of (fold run_mode_op ops Map.empty) = fold count_mode_op ops Map.empty" by simp
  have "registered_monitor_mode edid s = map_option fst (counts_of s edid)" for s
    by (simp add: registered_monitor_mode_def counts_of_def option.map_comp comp_def)
  then show ?thesis using eq by simp
qed

text \<open>
  The vertical frequency reported for a mode is the refresh rate, as an exact fraction in
  lowest terms; the horizontal one is the exact product with the total height, unless it exceeds
  32 bits, where it is cut off at the largest value.
\<close>

theorem signal_frequencies_exact:
  fixes shape :: mode_shape
  defines "R \<equiv> unat (max (ms_refresh_rate_millihz shape) 1)"
    and "H \<equiv> unat (max (max (ms_total_height shape) (ms_height shape)) 1)"
  shows "(let f = windows_driver_signal_frequencies shape;
       vn = unat (fr_numerator (sf_vertical f)); vd = unat (fr_denominator (sf_vertical f));
       hn = unat (fr_numerator (sf_horizontal f)); hd = unat (fr_denominator (sf_horizontal f))
     in vd > 0 \<and> vn * 1000 = R * vd \<and> coprime vn vd \<and>
       hd > 0 \<and> hn = min (R * H * hd div 1000) 0xffffffff)"
proof -
  have R: "0 < R" "R < 2 ^ 32" and H: "0 < H" "H < 2 ^ 32"
    using unsigned_less[of "max (ms_refresh_rate_millihz shape) 1", where 'a = nat]
      unsigned_less[of "max (max (ms_total_height shape) (ms_height shape)) 1", where 'a = nat]
    by (auto simp: R_def H_def unat_gt_0 max_def word_le_nat_alt split: if_splits)
  have uR: "unat (ucast (max (ms_refresh_rate_millihz shape) 1) :: u64) = R"
    using R by (simp add: R_def unsigned_ucast_eq take_bit_eq_mod)
  have uH: "unat (ucast (max (max (ms_total_height shape) (ms_height shape)) 1) :: u64) = H"
    using H by (simp add: H_def unsigned_ucast_eq take_bit_eq_mod)
  have prod: "R * H < 2 ^ 64" using mult_strict_mono[OF R(2) H(2)] R H by simp
  have uRH: "unat (ucast (max (ms_refresh_rate_millihz shape) 1) *
      ucast (max (max (ms_total_height shape) (ms_height shape)) 1) :: u64) = R * H"
    unfolding unat_word_ariths(2) uR uH using prod by simp
  let ?n = "ucast (max (ms_refresh_rate_millihz shape) 1) :: u64"
  let ?m = "?n * ucast (max (max (ms_total_height shape) (ms_height shape)) 1)"
  have nz: "?n \<noteq> 0" "?m \<noteq> 0" using R H uR uRH by (metis mult_is_0 not_gr_zero unsigned_0)+
  note v = reduced_ratio[of ?n 1000, OF nz(1), unfolded uR] and h = reduced_ratio[of ?m 1000, OF nz(2), unfolded uRH]
  let ?g = "gcd R 1000" and ?k = "gcd (R * H) 1000"
  have small: "R div ?g \<le> 0xffffffff" by (rule le_trans[OF div_le_dividend]) (use R(2) in simp)
  have vn: "unat (fr_numerator (make_windows_driver_frequency_rational ?n 1000)) = R div ?g"
    "unat (fr_denominator (make_windows_driver_frequency_rational ?n 1000)) = 1000 div ?g"
    using v small by simp_all
  have hn: "unat (fr_numerator (make_windows_driver_frequency_rational ?m 1000)) = min (R * H div ?k) 0xffffffff"
    "unat (fr_denominator (make_windows_driver_frequency_rational ?m 1000)) = 1000 div ?k"
    using h by simp_all
  have pos: "0 < 1000 div ?g" "0 < 1000 div ?k"
    using gcd_le2_nat[of 1000 R] gcd_le2_nat[of 1000 "R * H"] by (simp_all add: div_greater_zero_iff)
  have cross: "R div ?g * 1000 = R * (1000 div ?g)"
    by (metis div_mult_swap dvd_div_mult gcd_dvd1 gcd_dvd2)
  have cop: "coprime (R div ?g) (1000 div ?g)" by (rule div_gcd_coprime) simp
  have hor: "R * H * (1000 div ?k) div 1000 = R * H div ?k"
  proof -
    have "R * H * (1000 div ?k) = R * H div ?k * 1000"
      by (metis div_mult_swap dvd_div_mult gcd_dvd1 gcd_dvd2)
    then show ?thesis by simp
  qed
  show ?thesis
    unfolding windows_driver_signal_frequencies_def Let_def
    using vn hn pos cross cop hor by (simp del: min_less_iff_conj)
qed

section \<open>The properties at work\<close>

theorem mode_catalogue_exact_witness:
  "mode_key (fst (build_windows_driver_mode_shapes (Some (active_windows_driver_mode_shape 1600 900 59940)) True) !
     unat (snd (build_windows_driver_mode_shapes (Some (active_windows_driver_mode_shape 1600 900 59940)) True))) =
   (1600, 900, 59940)"
proof -
  let ?p = "active_windows_driver_mode_shape 1600 900 59940"
  obtain modes i where res: "build_windows_driver_mode_shapes (Some ?p) True = (modes, i)" by fastforce
  have "\<not> restriction_unusable (Some ?p)" by code_simp
  then have "map_option mode_key (Some ?p) = Some (mode_key (modes ! unat i))"
    using mode_catalogue_exact[OF res] by simp
  moreover have "mode_key ?p = (1600, 900, 59940)" by code_simp
  ultimately show ?thesis by (simp add: res)
qed

theorem registered_modes_are_counted_witness:
  "let m = active_windows_driver_mode_shape 1600 900 60000;
       s = fold run_mode_op [RegisterMode [1] m False, RegisterMode [1] m False, UnregisterMode [1]] Map.empty
   in map_option mm_preferred (registered_monitor_mode [1] s) = Some m"
proof -
  let ?m = "active_windows_driver_mode_shape 1600 900 60000"
  let ?ops = "[RegisterMode [1] ?m False, RegisterMode [1] ?m False, UnregisterMode [1]]"
  have "length ?ops < 2 ^ 32" by simp
  note run = conjunct2[OF registered_modes_are_counted[OF this, of "[1]"]]
  have "ms_width ?m = 1600 \<and> ms_height ?m = 900 \<and> ms_refresh_rate_millihz ?m = 60000" by code_simp
  then have "count_mode_op (RegisterMode [1] ?m False) A = (case A [1] of
      None \<Rightarrow> A([1] \<mapsto> (\<lparr>mm_preferred = ?m, mm_requested_resolution_only = False\<rparr>, 1))
    | Some (current, n) \<Rightarrow> if current = \<lparr>mm_preferred = ?m, mm_requested_resolution_only = False\<rparr>
        then A([1] \<mapsto> (current, n + 1)) else A)" for A
    by (simp add: Let_def)
  then have "map_option fst (fold count_mode_op ?ops Map.empty [1]) =
      Some \<lparr>mm_preferred = ?m, mm_requested_resolution_only = False\<rparr>"
    by (simp del: count_mode_op.simps(1))
  then show ?thesis unfolding Let_def run by (simp only: option.map monitor_mode.select_convs)
qed

end
