(* ===== verification/Number_Text.thy ===== *)
theory Number_Text
  imports VDD_Prelude "HOL-Library.Log_Nat"
begin

text \<open>
  Numbers as text, as the command parsers use them: \<open>std::from_chars\<close> on 32-bit integers,
  \<open>std::strtod\<close>, and \<open>operator<<\<close> of integers. A binary64 value that is not negative is given
  by the fraction of natural numbers it is equal to; \<open>nearest_double\<close> is round-to-nearest-even.
\<close>

section \<open>Integers\<close>

definition is_digit :: "char \<Rightarrow> bool" where
  "is_digit c \<longleftrightarrow> 48 \<le> char_code c \<and> char_code c \<le> 57"

definition digits_value :: "string \<Rightarrow> nat" where
  "digits_value cs = foldl (\<lambda>n c. 10 * n + (char_code c - 48)) 0 cs"

text \<open>
  The value and the rest of the text; \<open>None\<close> is an error code: no digits, or out of range.
\<close>

definition from_chars_u32 :: "string \<Rightarrow> (u32 \<times> string) option" where
  "from_chars_u32 cs =
     (let digits = takeWhile is_digit cs in
      if digits = [] \<or> digits_value digits > 0xffffffff then None
      else Some (of_nat (digits_value digits), dropWhile is_digit cs))"

text \<open>The signed version also accepts a minus sign; the result is its two's complement.\<close>

definition from_chars_i32 :: "string \<Rightarrow> (u32 \<times> string) option" where
  "from_chars_i32 cs =
     (let negative = cs \<noteq> [] \<and> hd cs = CHR ''-'';
          body = (if negative then tl cs else cs);
          digits = takeWhile is_digit body;
          n = digits_value digits in
      if digits = [] \<or> n > (if negative then 0x80000000 else 0x7fffffff) then None
      else Some (if negative then - of_nat n else of_nat n, dropWhile is_digit body))"

definition fully_parsed :: "('a \<times> string) option \<Rightarrow> 'a option" where
  "fully_parsed r = (case r of Some (v, []) \<Rightarrow> Some v | _ \<Rightarrow> None)"

text \<open>\<open>operator<<\<close> of a 32-bit signed integer given by its bits.\<close>

definition signed_decimal :: "u32 \<Rightarrow> string" where
  "signed_decimal v =
     (if sint v < 0 then CHR ''-'' # decimal (nat (- sint v)) else decimal (nat (sint v)))"

section \<open>Floating point\<close>

definition round_even :: "nat \<Rightarrow> nat \<Rightarrow> nat" where
  "round_even a b =
     (let q = a div b; r = a mod b in
      if 2 * r < b then q else if b < 2 * r then q + 1 else if even q then q else q + 1)"

text \<open>The binary exponent of \<open>n / d\<close>: the greatest \<open>e\<close> with \<open>2^e \<le> n / d\<close>.\<close>

definition binary_exponent :: "nat \<Rightarrow> nat \<Rightarrow> int" where
  "binary_exponent n d =
     (let l = int (floorlog 2 n) - int (floorlog 2 d) in
      if (if l \<ge> 0 then 2 ^ nat l * d \<le> n else d \<le> n * 2 ^ nat (- l)) then l else l - 1)"

definition nearest_double :: "nat \<Rightarrow> nat \<Rightarrow> nat \<times> nat" where
  "nearest_double n d =
     (if n = 0 then (0, 1)
      else
        let k = max (binary_exponent n d - 52) (- 1074) in
        if k \<ge> 0 then (round_even n (d * 2 ^ nat k) * 2 ^ nat k, 1)
        else (round_even (n * 2 ^ nat (- k)) d, 2 ^ nat (- k)))"

definition double_overflows :: "nat \<times> nat \<Rightarrow> bool" where
  "double_overflows v \<longleftrightarrow> fst v \<ge> 2 ^ 1024 * snd v"

text \<open>
  \<open>strtod\<close> on a text it has to consume entirely, for the use that rejects negative, infinite and
  undefined results: a sign \<open>+\<close>, then a decimal or hexadecimal number with an optional fraction
  and exponent. The result is the exact value of the text as a fraction; \<open>None\<close> is any other text
  (among them the accepted spellings of results that the caller rejects).
\<close>

definition hex_digit_value :: "char \<Rightarrow> nat option" where
  "hex_digit_value c =
     (let k = char_code c in
      if 48 \<le> k \<and> k \<le> 57 then Some (k - 48)
      else if 97 \<le> k \<and> k \<le> 102 then Some (k - 87)
      else if 65 \<le> k \<and> k \<le> 70 then Some (k - 55)
      else None)"

definition hex_value :: "string \<Rightarrow> nat" where
  "hex_value cs = foldl (\<lambda>n c. 16 * n + the (hex_digit_value c)) 0 cs"

text \<open>An exponent part introduced by one of \<open>markers\<close>: \<open>None\<close> when the rest is not one.\<close>

definition exponent_part :: "char list \<Rightarrow> string \<Rightarrow> int option" where
  "exponent_part markers cs =
     (case cs of
        [] \<Rightarrow> Some 0
      | m # rest \<Rightarrow>
          if m \<notin> set markers then None
          else
            let negative = rest \<noteq> [] \<and> hd rest = CHR ''-'';
                digits = (if rest \<noteq> [] \<and> (hd rest = CHR ''-'' \<or> hd rest = CHR ''+'') then tl rest else rest) in
            if digits = [] \<or> \<not> list_all is_digit digits then None
            else Some (if negative then - int (digits_value digits) else int (digits_value digits)))"

text \<open>Mantissa digits, fraction digits and the rest.\<close>

definition mantissa_part :: "(char \<Rightarrow> bool) \<Rightarrow> string \<Rightarrow> string \<times> string \<times> string" where
  "mantissa_part digit cs =
     (let whole = takeWhile digit cs; rest = dropWhile digit cs in
      if rest \<noteq> [] \<and> hd rest = CHR ''.''
      then (whole, takeWhile digit (tl rest), dropWhile digit (tl rest))
      else (whole, [], rest))"

definition scaled_fraction :: "nat \<Rightarrow> nat \<Rightarrow> int \<Rightarrow> nat \<Rightarrow> nat \<times> nat" where
  "scaled_fraction m base e d =
     (if e \<ge> 0 then (m * base ^ nat e, d) else (m, d * base ^ nat (- e)))"

definition strtod_value :: "string \<Rightarrow> (nat \<times> nat) option" where
  "strtod_value cs =
     (let body = (if cs \<noteq> [] \<and> hd cs = CHR ''+'' then tl cs else cs) in
      if length body \<ge> 2 \<and> body ! 0 = CHR ''0'' \<and> (body ! 1 = CHR ''x'' \<or> body ! 1 = CHR ''X'') then
        (let (whole, fraction, rest) = mantissa_part (\<lambda>c. hex_digit_value c \<noteq> None) (drop 2 body) in
         if whole = [] \<and> fraction = [] then None
         else map_option (\<lambda>e. scaled_fraction (hex_value (whole @ fraction)) 2 e (16 ^ length fraction))
                (exponent_part [CHR ''p'', CHR ''P''] rest))
      else
        (let (whole, fraction, rest) = mantissa_part is_digit body in
         if whole = [] \<and> fraction = [] then None
         else map_option (\<lambda>e. scaled_fraction (digits_value (whole @ fraction)) 10 e (10 ^ length fraction))
                (exponent_part [CHR ''e'', CHR ''E''] rest)))"

section \<open>Lemmas\<close>

lemma is_digit_char_of: "(n :: nat) < 10 \<Longrightarrow> is_digit (char_of (n + 48))"
  by (simp add: is_digit_def char_code_def)

lemma decimal_digits: "list_all is_digit (decimal n) \<and> decimal n \<noteq> []"
proof (induction n rule: decimal.induct)
  case (1 n)
  then show ?case by (subst (1 2) decimal.simps) (simp add: is_digit_char_of)
qed

lemma digits_value_snoc: "digits_value (cs @ [c]) = 10 * digits_value cs + (char_code c - 48)"
  by (simp add: digits_value_def)

lemma digits_value_decimal [simp]: "digits_value (decimal n) = n"
proof (induction n rule: decimal.induct)
  case (1 n)
  show ?case
  proof (cases "n < 10")
    case True
    then show ?thesis by (subst decimal.simps) (simp add: digits_value_def char_code_def)
  next
    case False
    then show ?thesis using 1 by (subst decimal.simps) (simp add: digits_value_snoc char_code_def)
  qed
qed

lemma takeWhile_decimal: "rest = [] \<or> \<not> is_digit (hd rest) \<Longrightarrow> takeWhile is_digit (decimal n @ rest) = decimal n"
  and dropWhile_decimal: "rest = [] \<or> \<not> is_digit (hd rest) \<Longrightarrow> dropWhile is_digit (decimal n @ rest) = rest"
  using decimal_digits[of n] by (cases rest; auto simp: list_all_iff takeWhile_append dropWhile_append)+

lemma takeWhile_all_digits [simp]: "takeWhile is_digit (decimal n) = decimal n"
  and dropWhile_all_digits [simp]: "dropWhile is_digit (decimal n) = []"
  and decimal_not_empty [simp]: "decimal n \<noteq> []"
  using takeWhile_decimal[of "[]" n] dropWhile_decimal[of "[]" n] decimal_digits[of n] by simp_all

lemma parse_decimal_u32: "fully_parsed (from_chars_u32 (decimal (unat v))) = Some v"
proof -
  have "unat v \<le> 0xffffffff" using unsigned_less[of v, where 'a = nat] by simp
  then show ?thesis by (simp add: from_chars_u32_def Let_def fully_parsed_def)
qed

lemma decimal_no_minus [simp]: "hd (decimal n) \<noteq> CHR ''-''"
  using decimal_digits[of n] by (cases "decimal n") (auto simp: is_digit_def char_code_def)

lemma parse_decimal_i32: "fully_parsed (from_chars_i32 (signed_decimal v)) = Some v"
proof -
  have range: "- (2 ^ 31) \<le> sint v" "sint v < 2 ^ 31"
    using sint_greater_eq[of v] sint_less[of v] by simp_all
  have restored: "word_of_int (sint v) = v" by simp
  show ?thesis
  proof (cases "sint v < 0")
    case True
    have "- (of_nat (nat (- sint v)) :: u32) = word_of_int (sint v)" using True by simp
    then show ?thesis using True range restored
      by (simp add: from_chars_i32_def signed_decimal_def Let_def fully_parsed_def)
  next
    case False
    have "(of_nat (nat (sint v)) :: u32) = word_of_int (sint v)" using False by simp
    then show ?thesis using False range restored
      by (simp add: from_chars_i32_def signed_decimal_def Let_def fully_parsed_def)
  qed
qed

lemma round_even_1 [simp]: "round_even a (Suc 0) = a"
  by (simp add: round_even_def Let_def)

text \<open>Integers of at most 53 bits are doubles.\<close>

lemma nearest_double_nat:
  assumes "0 < n" and "n < 2 ^ 53"
  shows "fst (nearest_double n 1) = n * snd (nearest_double n 1)" and "0 < snd (nearest_double n 1)"
proof -
  have "floorlog 2 n \<le> 53" using assms floorlog_leI by simp
  moreover have one: "floorlog 2 1 = 1" by (simp add: floorlog_def)
  ultimately have "binary_exponent n 1 \<le> 52" by (simp add: binary_exponent_def Let_def)
  then have k: "max (binary_exponent n 1 - 52) (- 1074) \<le> 0" by simp
  then show "fst (nearest_double n 1) = n * snd (nearest_double n 1)" "0 < snd (nearest_double n 1)"
    using assms(1) by (auto simp: nearest_double_def Let_def)
qed

end
