(* ===== verification/Cli_Commands.thy ===== *)
theory Cli_Commands
  imports Control_Protocol Number_Text
begin

text \<open>
  The command line of \<open>virtualdisplay\<close> as far as it is routed to the broker
  (\<open>cli_commands.h\<close>, \<open>cli_commands.cpp\<close>): option parsing, and the text commands sent to it.
  The messages written to \<open>std::cerr\<close> before a parser gives up are not modelled.
\<close>

section \<open>Values\<close>

definition parse_cli_u32 :: "string \<Rightarrow> u32 option" where
  "parse_cli_u32 value = fully_parsed (from_chars_u32 value)"

definition parse_cli_i32 :: "string \<Rightarrow> u32 option" where
  "parse_cli_i32 value = fully_parsed (from_chars_i32 value)"

definition is_space :: "char \<Rightarrow> bool" where
  "is_space c \<longleftrightarrow> char_code c = 32 \<or> (9 \<le> char_code c \<and> char_code c \<le> 13)"

text \<open>
  \<open>parse_refresh_millihz\<close>: up to 1000 the value is in Hz. All comparisons are of the doubles the
  code computes with; the conversion to an integer truncates.
\<close>

definition parse_refresh_millihz :: "string \<Rightarrow> u32 option" where
  "parse_refresh_millihz value =
     (if value = [] \<or> list_ex is_space value then None
      else
        (case strtod_value value of
           None \<Rightarrow> None
         | Some (n, d) \<Rightarrow>
             (let (a, b) = nearest_double n d in
              if double_overflows (a, b) \<or> a = 0 then None
              else
                let (c, e) = (if a \<le> 1000 * b then nearest_double (1000 * a) b else (a, b)) in
                if c < e \<or> c > 0xffffffff * e then None
                else Some (of_nat (c div e)))))"

definition is_safe_display_name :: "string \<Rightarrow> bool" where
  "is_safe_display_name value =
     (if value = [] \<or> length value \<ge> kDisplayNameChars then False
      else list_all (\<lambda>ch. \<not> (char_code ch < 0x20 \<or> char_code ch = 0x7f)) value)"

section \<open>Options\<close>

record permanent_options =
  po_count :: u32
  po_width :: u32
  po_height :: u32
  po_physical_width_mm :: u32
  po_physical_height_mm :: u32
  po_refresh_rate_millihz :: u32
  po_name :: string

record profile_options = permanent_options +
  pro_slot :: u32
  pro_hdr_supported :: u32
  pro_layout_policy :: u32
  pro_position_x :: u32
  pro_position_y :: u32

definition default_permanent_options :: permanent_options where
  "default_permanent_options =
     \<lparr>po_count = 1, po_width = 1920, po_height = 1080,
      po_physical_width_mm = kDefaultPhysicalWidthMillimeters,
      po_physical_height_mm = kDefaultPhysicalHeightMillimeters,
      po_refresh_rate_millihz = 60000, po_name = ''Sunshine Display''\<rparr>"

definition default_profile_options :: profile_options where
  "default_profile_options =
     permanent_options.extend default_permanent_options
       (profile_options.fields 0 1 kDisplayManifestLayoutPolicyNone 0 0)"

text \<open>
  One option with its value, in the branches that \<open>parse_permanent_options\<close> and
  \<open>parse_profile_options\<close> share.
\<close>

definition size_option :: "string \<Rightarrow> string \<Rightarrow> 'a permanent_options_scheme \<Rightarrow> 'a permanent_options_scheme option" where
  "size_option arg value options =
     (if arg = ''--width'' then map_option (\<lambda>v. options\<lparr>po_width := v\<rparr>) (parse_cli_u32 value)
      else if arg = ''--height'' then map_option (\<lambda>v. options\<lparr>po_height := v\<rparr>) (parse_cli_u32 value)
      else if arg = ''--physical-width-mm''
      then map_option (\<lambda>v. options\<lparr>po_physical_width_mm := v\<rparr>) (parse_cli_u32 value)
      else if arg = ''--physical-height-mm''
      then map_option (\<lambda>v. options\<lparr>po_physical_height_mm := v\<rparr>) (parse_cli_u32 value)
      else if arg = ''--refresh''
      then map_option (\<lambda>v. options\<lparr>po_refresh_rate_millihz := v\<rparr>) (parse_refresh_millihz value)
      else if arg = ''--name''
      then (if is_safe_display_name value then Some (options\<lparr>po_name := value\<rparr>) else None)
      else None)"

text \<open>The loop of \<open>parse_permanent_options\<close>; the last component is \<open>saw_count\<close>.\<close>

fun permanent_option_loop ::
  "string list \<Rightarrow> permanent_options \<Rightarrow> bool \<Rightarrow> (permanent_options \<times> bool) option" where
  "permanent_option_loop [] options saw_count = Some (options, saw_count)"
| "permanent_option_loop [arg] options saw_count = None"
| "permanent_option_loop (arg # value # args) options saw_count =
     (if arg = ''--count'' then
        (case parse_cli_u32 value of
           None \<Rightarrow> None
         | Some v \<Rightarrow> permanent_option_loop args (options\<lparr>po_count := v\<rparr>) True)
      else
        (case size_option arg value options of
           None \<Rightarrow> None
         | Some options1 \<Rightarrow> permanent_option_loop args options1 saw_count))"

definition parse_permanent_options :: "string list \<Rightarrow> nat \<Rightarrow> bool \<Rightarrow> permanent_options option" where
  "parse_permanent_options args first require_count =
     (case permanent_option_loop (drop first args) default_permanent_options False of
        None \<Rightarrow> None
      | Some (options, saw_count) \<Rightarrow> if require_count \<and> \<not> saw_count then None else Some options)"

definition layout_option :: "string \<Rightarrow> u32 option" where
  "layout_option value =
     (if value = ''none'' then Some kDisplayManifestLayoutPolicyNone
      else if value = ''apply'' then Some kDisplayManifestLayoutPolicyApply
      else if value = ''persist'' then Some kDisplayManifestLayoutPolicyApplyAndPersist
      else None)"

fun profile_option_loop ::
  "string list \<Rightarrow> profile_options \<Rightarrow> bool \<Rightarrow> (profile_options \<times> bool) option" where
  "profile_option_loop [] options saw_slot = Some (options, saw_slot)"
| "profile_option_loop [arg] options saw_slot = None"
| "profile_option_loop (arg # value # args) options saw_slot =
     (if arg = ''--slot'' then
        (case parse_cli_u32 value of
           None \<Rightarrow> None
         | Some v \<Rightarrow> profile_option_loop args (options\<lparr>pro_slot := v\<rparr>) True)
      else
        (case (if arg = ''--layout''
               then map_option (\<lambda>v. options\<lparr>pro_layout_policy := v\<rparr>) (layout_option value)
               else if arg = ''--x'' then map_option (\<lambda>v. options\<lparr>pro_position_x := v\<rparr>) (parse_cli_i32 value)
               else if arg = ''--y'' then map_option (\<lambda>v. options\<lparr>pro_position_y := v\<rparr>) (parse_cli_i32 value)
               else if arg = ''--hdr'' then
                 (case parse_cli_u32 value of
                    None \<Rightarrow> None
                  | Some v \<Rightarrow> if v > 1 then None else Some (options\<lparr>pro_hdr_supported := v\<rparr>))
               else size_option arg value options) of
           None \<Rightarrow> None
         | Some options1 \<Rightarrow> profile_option_loop args options1 saw_slot))"

definition parse_profile_options :: "string list \<Rightarrow> nat \<Rightarrow> profile_options option" where
  "parse_profile_options args first =
     (case profile_option_loop (drop first args) default_profile_options False of
        None \<Rightarrow> None
      | Some (options, saw_slot) \<Rightarrow> if \<not> saw_slot then None else Some options)"

definition make_permanent_count_request :: "permanent_options \<Rightarrow> permanent_display_count_request" where
  "make_permanent_count_request options = default_permanent_request
     \<lparr>pdc_display_count := po_count options, pdc_width := po_width options,
      pdc_height := po_height options, pdc_physical_width_mm := po_physical_width_mm options,
      pdc_physical_height_mm := po_physical_height_mm options,
      pdc_refresh_rate_millihz := po_refresh_rate_millihz options,
      pdc_display_name := pad_to kDisplayNameChars (take (kDisplayNameChars - 1) (po_name options))\<rparr>"

section \<open>Broker commands\<close>

definition join_words :: "string list \<Rightarrow> string" where
  "join_words words = concat (map (\<lambda>w. w @ '' '') words)"

definition permanent_set_broker_command :: "permanent_options \<Rightarrow> string" where
  "permanent_set_broker_command options =
     ''permanent-set '' @ join_words (map (\<lambda>v. decimal (unat v))
       [po_count options, po_width options, po_height options, po_physical_width_mm options,
        po_physical_height_mm options, po_refresh_rate_millihz options]) @ po_name options"

definition manifest_profile_set_broker_command :: "profile_options \<Rightarrow> string" where
  "manifest_profile_set_broker_command options =
     ''manifest-profile-set '' @ join_words (map (\<lambda>v. decimal (unat v))
       [pro_slot options, po_width options, po_height options, po_physical_width_mm options,
        po_physical_height_mm options, po_refresh_rate_millihz options, pro_hdr_supported options,
        pro_layout_policy options] @
       map signed_decimal [pro_position_x options, pro_position_y options]) @ po_name options"

text \<open>The flags after the fifth argument: \<open>None\<close> on an unknown one.\<close>

fun color_flags :: "string list \<Rightarrow> bool \<Rightarrow> bool \<Rightarrow> (bool \<times> bool) option" where
  "color_flags [] advanced_color set_default = Some (advanced_color, set_default)"
| "color_flags (arg # args) advanced_color set_default =
     (if arg = ''--advanced-color'' then color_flags args True set_default
      else if arg = ''--default'' then color_flags args advanced_color True
      else None)"

definition color_profile_association_broker_command :: "string list \<Rightarrow> string option" where
  "color_profile_association_broker_command args =
     (if length args < 5 then None
      else map_option (\<lambda>(advanced_color, set_default).
        ''helper-associate-color-profile '' @ join_words
          [args ! 2, args ! 3, if advanced_color then ''advanced'' else ''standard'',
           if set_default then ''default'' else ''nodefault''] @ args ! 4)
        (color_flags (drop 5 args) False False))"

definition stress_capture_remove_broker_command :: "string list \<Rightarrow> string option" where
  "stress_capture_remove_broker_command args =
     (if length args = 2 then Some ''helper-stress-capture-remove''
      else if length args \<noteq> 6 then None
      else if \<not> list_all (\<lambda>a. parse_cli_u32 a \<noteq> None) (drop 2 args) \<or> parse_cli_u32 (args ! 2) = Some 0
      then None
      else Some (''helper-stress-capture-remove '' @ join_words [args ! 2, args ! 3, args ! 4] @ args ! 5))"

section \<open>Routing\<close>

datatype cli_broker_route_action =
    RouteNone | InvalidArguments | RequireBrokerCommand | QueryBrokerCommand

record cli_broker_route =
  cbr_action :: cli_broker_route_action
  cbr_command :: string
  cbr_print_payload :: bool

definition no_route :: cli_broker_route where
  "no_route = \<lparr>cbr_action = RouteNone, cbr_command = [], cbr_print_payload = False\<rparr>"

definition invalid_route :: cli_broker_route where
  "invalid_route = no_route\<lparr>cbr_action := InvalidArguments\<rparr>"

definition require_route :: "string \<Rightarrow> cli_broker_route" where
  "require_route command =
     no_route\<lparr>cbr_action := RequireBrokerCommand, cbr_command := command, cbr_print_payload := True\<rparr>"

definition query_route :: "string \<Rightarrow> cli_broker_route" where
  "query_route command = no_route\<lparr>cbr_action := QueryBrokerCommand, cbr_command := command\<rparr>"

definition kSimpleBrokerQueries :: "string list" where
  "kSimpleBrokerQueries =
     [''protocol'', ''query-state'', ''query-manifest'', ''helper-diagnose'',
      ''helper-apply-extended-topology'', ''helper-apply-manifest-topology'',
      ''helper-query-color-profiles'']"

definition route_or_invalid :: "(string \<Rightarrow> cli_broker_route) \<Rightarrow> string option \<Rightarrow> cli_broker_route" where
  "route_or_invalid route command = (case command of None \<Rightarrow> invalid_route | Some c \<Rightarrow> route c)"

definition cli_broker_route_for_args :: "string list \<Rightarrow> cli_broker_route" where
  "cli_broker_route_for_args args =
     (if args = [] then no_route
      else if args ! 0 = ''broker'' then
        (if length args = 2 \<and> args ! 1 \<in> set kSimpleBrokerQueries then query_route (args ! 1)
         else if length args \<ge> 5 \<and> args ! 1 = ''helper-associate-color-profile''
         then route_or_invalid query_route (color_profile_association_broker_command args)
         else if (length args = 2 \<or> length args = 6) \<and> args ! 1 = ''helper-stress-capture-remove''
         then route_or_invalid query_route (stress_capture_remove_broker_command args)
         else no_route)
      else if args ! 0 = ''status'' \<and> length args = 1 then require_route ''permanent-query''
      else if args ! 0 = ''permanent'' \<and> length args = 2 \<and> args ! 1 = ''query''
      then require_route ''permanent-query''
      else if args ! 0 = ''display'' \<and> length args = 2 \<and> args ! 1 = ''query''
      then require_route ''display-query''
      else if args ! 0 = ''spawn''
      then route_or_invalid require_route
             (map_option permanent_set_broker_command (parse_permanent_options args 1 False))
      else if args ! 0 = ''permanent'' \<and> length args = 2 \<and> args ! 1 = ''off''
      then require_route (permanent_set_broker_command (default_permanent_options\<lparr>po_count := 0\<rparr>))
      else if args ! 0 = ''permanent'' \<and> length args \<ge> 2 \<and> args ! 1 = ''set''
      then route_or_invalid require_route
             (map_option permanent_set_broker_command (parse_permanent_options args 2 True))
      else if args ! 0 = ''permanent'' \<and> length args \<ge> 3 \<and> args ! 1 = ''profile'' \<and> args ! 2 = ''set''
      then route_or_invalid require_route
             (map_option manifest_profile_set_broker_command (parse_profile_options args 3))
      else no_route)"

end
