(* ===== verification/Broker_Commands.thy ===== *)
theory Broker_Commands
  imports Request_Validation Display_Identity Number_Text
begin

unbundle bit_operations_syntax

text \<open>
  The broker's text protocol (\<open>broker_commands.h\<close>, \<open>broker_commands.cpp\<close>): parsing of the
  commands the command line sends, the arguments handed to the probe helper, the key/value
  replies, and the policy of the named pipe. Wide strings only ever hold widened bytes here, so
  they are strings too.
\<close>

section \<open>Words\<close>

definition blank :: "char \<Rightarrow> bool" where
  "blank c \<longleftrightarrow> c = CHR '' ''"

definition trim_broker_command :: "string \<Rightarrow> string" where
  "trim_broker_command value =
     dropWhile blank
       (rev (dropWhile (\<lambda>c. c = CHR 0x0d \<or> c = CHR 0x0a \<or> blank c) (rev value)))"

definition parse_broker_u32 :: "string \<Rightarrow> u32 option" where
  "parse_broker_u32 value = fully_parsed (from_chars_u32 value)"

definition parse_broker_i32 :: "string \<Rightarrow> u32 option" where
  "parse_broker_i32 value = fully_parsed (from_chars_i32 value)"

definition broker_u32_text_is_valid :: "string \<Rightarrow> bool" where
  "broker_u32_text_is_valid value \<longleftrightarrow> parse_broker_u32 value \<noteq> None"

definition broker_luid_text_is_valid :: "string \<Rightarrow> bool" where
  "broker_luid_text_is_valid value =
     (let separator = length (takeWhile (\<lambda>c. c \<noteq> CHR '':'') value) in
      if separator = length value \<or> separator = 0 \<or> separator + 1 \<ge> length value then False
      else parse_broker_i32 (take separator value) \<noteq> None \<and>
           parse_broker_u32 (drop (separator + 1) value) \<noteq> None)"

text \<open>The words with the offsets at which they begin: a \<open>string_view\<close> knows its place in the text.\<close>

function split_words_from :: "string \<Rightarrow> nat \<Rightarrow> nat \<Rightarrow> (nat \<times> string) list \<Rightarrow> (nat \<times> string) list" where
  "split_words_from text' max_words cursor words =
     (if cursor < length text' \<and> length words < max_words then
        let start = cursor + length (takeWhile blank (drop cursor text')) in
        if start \<ge> length text' then words
        else
          let word = takeWhile (\<lambda>c. \<not> blank c) (drop start text')
          in split_words_from text' max_words (start + length word) (words @ [(start, word)])
      else words)"
  by pat_completeness auto
termination
  by (relation "measure (\<lambda>(text', max_words, cursor, words). max_words - length words)") auto

declare split_words_from.simps [simp del]

definition split_broker_words :: "string \<Rightarrow> nat \<Rightarrow> (nat \<times> string) list" where
  "split_broker_words text' max_words = split_words_from text' max_words 0 []"

text \<open>The part of the payload after the last field and the blanks behind it.\<close>

definition after_fields :: "string \<Rightarrow> (nat \<times> string) list \<Rightarrow> string" where
  "after_fields payload parts =
     (let (begin', word) = last parts in dropWhile blank (drop (begin' + length word) payload))"

definition starts_with :: "string \<Rightarrow> string \<Rightarrow> bool" where
  "starts_with prefix s \<longleftrightarrow> take (length prefix) s = prefix"

definition set_display_name :: "string \<Rightarrow> string" where
  "set_display_name name = pad_to kDisplayNameChars (take (kDisplayNameChars - 1) name)"

section \<open>Commands\<close>

definition parse_permanent_set_command :: "string \<Rightarrow> permanent_display_count_request option" where
  "parse_permanent_set_command command =
     (if \<not> starts_with ''permanent-set '' command then None
      else
        let payload = drop 14 command;
            parts = split_broker_words payload 6 in
        if length parts \<noteq> 6 then None
        else
          let name = after_fields payload parts in
          if name = [] then None
          else
            (case those (map (\<lambda>f. parse_broker_u32 (snd f)) parts) of
               Some [count, width, height, physical_width, physical_height, refresh] \<Rightarrow>
                 Some (default_permanent_request
                   \<lparr>pdc_display_count := count, pdc_width := width, pdc_height := height,
                    pdc_physical_width_mm := physical_width,
                    pdc_physical_height_mm := physical_height,
                    pdc_refresh_rate_millihz := refresh,
                    pdc_display_name := set_display_name name\<rparr>)
             | _ \<Rightarrow> None))"

text \<open>The profile the broker builds from the parts of \<open>manifest-profile-set\<close>.\<close>

definition profile_for_slot ::
  "u32 \<Rightarrow> display_mode \<Rightarrow> u32 \<Rightarrow> u32 \<Rightarrow> u32 \<Rightarrow> u32 \<Rightarrow> u32 \<Rightarrow> u32 \<Rightarrow> string \<Rightarrow> display_manifest_profile" where
  "profile_for_slot slot mode physical_width physical_height hdr_supported layout_policy position_x
     position_y name =
     (let flags = kDisplayManifestProfileFlagRetainIdentity OR kDisplayManifestProfileFlagPermanentIdentity;
          display_id = permanent_display_id slot in
      default_profile
        \<lparr>dmp_flags := (if hdr_supported \<noteq> 0 then flags OR kDisplayManifestProfileFlagHdrSupported else flags),
         dmp_connector_index := slot,
         dmp_display_id := display_id,
         dmp_container_id := container_guid_from_display_id display_id,
         dmp_manufacturer_id := kSunshineDriverManufacturerId @ drop 3 (dmp_manufacturer_id default_profile),
         dmp_product_code := ucast (permanent_product_code slot),
         dmp_serial_number := serial_number_from_display_id display_id,
         dmp_physical_width_mm := physical_width,
         dmp_physical_height_mm := physical_height,
         dmp_native_mode_index := 0,
         dmp_allowed_mode_count := 1,
         dmp_layout_policy := layout_policy,
         dmp_position_x := position_x,
         dmp_position_y := position_y,
         dmp_orientation := kDisplayManifestOrientationDefault,
         dmp_allowed_modes := (dmp_allowed_modes default_profile)[0 := mode],
         dmp_display_name := set_display_name name\<rparr>)"

definition parse_manifest_profile_set_command :: "string \<Rightarrow> display_manifest_profile option" where
  "parse_manifest_profile_set_command command =
     (if \<not> starts_with ''manifest-profile-set '' command then None
      else
        let payload = drop 21 command;
            parts = split_broker_words payload 10 in
        if length parts \<noteq> 10 then None
        else
          let name = after_fields payload parts in
          if name = [] then None
          else
            (case (those (map (\<lambda>f. parse_broker_u32 (snd f)) (take 8 parts)),
                   those (map (\<lambda>f. parse_broker_i32 (snd f)) (drop 8 parts))) of
               (Some [slot, width, height, physical_width, physical_height, refresh, hdr_supported, layout_policy],
                Some [position_x, position_y]) \<Rightarrow>
                 Some (profile_for_slot slot
                   \<lparr>dm_width = width, dm_height = height, dm_refresh_rate_millihz = refresh\<rparr>
                   physical_width physical_height hdr_supported layout_policy position_x position_y name)
             | _ \<Rightarrow> None))"

text \<open>
  \<open>quote_broker_argument\<close> (and \<open>quote_windows_command_argument\<close>, which is the same code); the
  loop carries the number of backslashes seen since the last other character.
\<close>

fun quote_from :: "string \<Rightarrow> nat \<Rightarrow> string" where
  "quote_from [] backslashes = replicate (backslashes * 2) (CHR 0x5c) @ [CHR 0x22]"
| "quote_from (ch # cs) backslashes =
     (if ch = CHR 0x22 then replicate (backslashes * 2 + 1) (CHR 0x5c) @ ch # quote_from cs 0
      else if ch = CHR 0x5c then quote_from cs (backslashes + 1)
      else replicate backslashes (CHR 0x5c) @ ch # quote_from cs 0)"

definition quote_broker_argument :: "string \<Rightarrow> string" where
  "quote_broker_argument value = CHR 0x22 # quote_from value 0"

definition helper_arguments_for_broker_command :: "string \<Rightarrow> string option" where
  "helper_arguments_for_broker_command command =
     (if command = ''helper-diagnose'' then Some ''--diagnose''
      else if command = ''helper-apply-extended-topology'' then Some ''--apply-extended-topology''
      else if command = ''helper-apply-manifest-topology'' then Some ''--apply-manifest-topology''
      else if command = ''helper-query-color-profiles'' then Some ''--query-color-profiles''
      else if command = ''helper-stress-capture-remove'' then Some ''--stress-capture-remove''
      else if starts_with ''helper-stress-capture-remove '' command then
        (let parts = split_broker_words (drop 29 command) 5 in
         if length parts \<noteq> 4 then None
         else if \<not> list_all (\<lambda>f. broker_u32_text_is_valid (snd f)) parts then None
         else Some (quote_broker_argument ''--stress-capture-remove'' @
                concat (map (\<lambda>f. '' '' @ quote_broker_argument (snd f)) parts)))
      else if starts_with ''helper-associate-color-profile '' command then
        (let payload = drop 31 command;
             parts = split_broker_words payload 4 in
         if length parts \<noteq> 4 then None
         else
           let profile = after_fields payload parts in
           if profile = [] then None
           else if \<not> broker_luid_text_is_valid (snd (parts ! 0)) \<or>
                   \<not> broker_u32_text_is_valid (snd (parts ! 1)) then None
           else
             let arguments = quote_broker_argument ''--associate-color-profile'' @ '' '' @
                   quote_broker_argument (snd (parts ! 0)) @ '' '' @
                   quote_broker_argument (snd (parts ! 1)) @ '' '' @ quote_broker_argument profile in
             (case (if snd (parts ! 2) = ''advanced'' then Some '' --advanced-color''
                    else if snd (parts ! 2) \<noteq> ''standard'' then None else Some []) of
                None \<Rightarrow> None
              | Some color \<Rightarrow>
                  (case (if snd (parts ! 3) = ''default'' then Some '' --default''
                         else if snd (parts ! 3) \<noteq> ''nodefault'' then None else Some []) of
                     None \<Rightarrow> None
                   | Some set_default \<Rightarrow> Some (arguments @ color @ set_default))))
      else None)"

section \<open>Replies\<close>

definition hex_digit :: "string \<Rightarrow> nat \<Rightarrow> char" where
  "hex_digit digits n = digits ! (n mod 16)"

definition escape_char :: "char \<Rightarrow> string" where
  "escape_char ch =
     (if ch = CHR 0x5c then [CHR 0x5c, CHR 0x5c]
      else if ch = CHR 0x0a then [CHR 0x5c, CHR ''n'']
      else if ch = CHR 0x0d then [CHR 0x5c, CHR ''r'']
      else if ch = CHR 0x09 then [CHR 0x5c, CHR ''t'']
      else if char_code ch < 0x20 \<or> char_code ch = 0x7f
      then [CHR 0x5c, CHR ''x'', hex_digit ''0123456789ABCDEF'' (char_code ch div 16),
            hex_digit ''0123456789ABCDEF'' (char_code ch)]
      else [ch])"

definition escape_key_value :: "string \<Rightarrow> string" where
  "escape_key_value value = concat (map escape_char value)"

text \<open>\<open>%0nx\<close> of an unsigned value below \<open>16^n\<close>.\<close>

fun lower_hex :: "nat \<Rightarrow> nat \<Rightarrow> string" where
  "lower_hex 0 v = []"
| "lower_hex (Suc n) v = lower_hex n (v div 16) @ [hex_digit ''0123456789abcdef'' v]"

definition broker_guid_string :: "guid \<Rightarrow> string" where
  "broker_guid_string g =
     lower_hex 8 (unat (data1 g)) @ ''-'' @ lower_hex 4 (unat (data2 g)) @ ''-'' @
     lower_hex 4 (unat (data3 g)) @ ''-'' @
     concat (map (\<lambda>b. lower_hex 2 (unat b)) (take 2 (data4 g))) @ ''-'' @
     concat (map (\<lambda>b. lower_hex 2 (unat b)) (drop 2 (data4 g)))"

text \<open>
  \<open>operator<<\<close> of the double \<open>millihz / 1000.0\<close> with the default precision of six digits, for a
  32-bit numerator: fixed notation below 10^6, otherwise scientific; trailing zeros are dropped.
\<close>

definition strip_zeros :: "string \<Rightarrow> string" where
  "strip_zeros cs = rev (dropWhile (\<lambda>c. c = CHR ''0'') (rev cs))"

definition fixed_text :: "nat \<Rightarrow> nat \<Rightarrow> string" where
  "fixed_text n decimals =
     (let fraction = strip_zeros (drop 1 (decimal (10 ^ decimals + n mod 10 ^ decimals)))
      in decimal (n div 10 ^ decimals) @ (if fraction = [] then [] else CHR ''.'' # fraction))"

definition hertz_text :: "u32 \<Rightarrow> string" where
  "hertz_text millihz =
     (if millihz = 0 then ''0''
      else
        let (a, b) = nearest_double (unat millihz) 1000;
            i = length (takeWhile (\<lambda>i. 10 ^ i * b \<le> 1000 * a) [0..<10]) - 1;
            sig = (if i \<le> 8 then round_even (a * 10 ^ (8 - i)) b else round_even a (b * 10 ^ (i - 8)));
            (i1, sig1) = (if sig = 10 ^ 6 then (i + 1, 10 ^ 5) else (i, sig))
        in if i1 \<le> 8 then fixed_text sig1 (8 - i1)
           else fixed_text sig1 5 @ ''e+0'' @ decimal (i1 - 3))"

definition output_display_name :: "string \<Rightarrow> string" where
  "output_display_name value = escape_key_value (trim_display_name value)"

definition key_value :: "string \<Rightarrow> string \<Rightarrow> string" where
  "key_value key value = key @ ''='' @ value @ [CHR 0x0a]"

definition mode_text :: "u32 \<Rightarrow> u32 \<Rightarrow> u32 \<Rightarrow> string" where
  "mode_text width height millihz =
     decimal (unat width) @ ''x'' @ decimal (unat height) @ ''@'' @ hertz_text millihz @ ''Hz''"

definition size_text :: "u32 \<Rightarrow> u32 \<Rightarrow> string" where
  "size_text width height = decimal (unat width) @ ''x'' @ decimal (unat height)"

definition flag_text :: "u32 \<Rightarrow> u32 \<Rightarrow> string" where
  "flag_text flags mask' = (if flags AND mask' \<noteq> 0 then ''1'' else ''0'')"

definition format_permanent_state :: "permanent_display_count_result \<Rightarrow> string" where
  "format_permanent_state state =
     key_value ''permanent_displays'' (decimal (unat (pdr_current_display_count state))) @
     key_value ''max_permanent_displays'' (decimal (unat (pdr_max_display_count state))) @
     key_value ''temporary_displays'' (decimal (unat (pdr_temporary_display_count state))) @
     key_value ''mode'' (mode_text (pdr_width state) (pdr_height state) (pdr_refresh_rate_millihz state)) @
     key_value ''physical_size_mm'' (size_text (pdr_physical_width_mm state) (pdr_physical_height_mm state)) @
     key_value ''name'' (output_display_name (pdr_display_name state))"

definition display_kind :: "u32 \<Rightarrow> string" where
  "display_kind kind =
     (if kind = kDisplayStateKindPermanent then ''permanent''
      else if kind = kDisplayStateKindTemporary then ''temporary'' else ''unknown'')"

definition state_entry_text :: "nat \<Rightarrow> display_state_entry \<Rightarrow> string" where
  "state_entry_text index entry =
     (let key = (\<lambda>k. ''display.'' @ decimal index @ ''.'' @ k) in
      key_value (key ''kind'') (display_kind (dse_kind entry)) @
      key_value (key ''display_id'') (decimal (unat (dse_display_id entry))) @
      key_value (key ''lease_id'') (decimal (unat (dse_lease_id entry))) @
      key_value (key ''connector_index'') (decimal (unat (dse_connector_index entry))) @
      key_value (key ''container_id'') (broker_guid_string (dse_container_id entry)) @
      key_value (key ''product_code'') (decimal (unat (dse_product_code entry))) @
      key_value (key ''serial_number'') (decimal (unat (dse_serial_number entry))) @
      key_value (key ''mode'') (mode_text (dse_width entry) (dse_height entry) (dse_refresh_rate_millihz entry)) @
      key_value (key ''physical_size_mm'')
        (size_text (dse_physical_width_mm entry) (dse_physical_height_mm entry)) @
      key_value (key ''hdr_supported'') (flag_text (dse_flags entry) kDisplayStateFlagHdrSupported) @
      key_value (key ''retain_identity'') (flag_text (dse_flags entry) kDisplayStateFlagRetainIdentity) @
      key_value (key ''name'') (output_display_name (dse_display_name entry)))"

definition format_display_state :: "query_display_state_result \<Rightarrow> string" where
  "format_display_state state =
     key_value ''permanent_displays'' (decimal (unat (qds_permanent_display_count state))) @
     key_value ''temporary_displays'' (decimal (unat (qds_temporary_display_count state))) @
     key_value ''display_entries'' (decimal (unat (qds_entry_count state))) @
     concat (map (\<lambda>index. state_entry_text index (qds_entries state ! index))
       [0..<min (unat (qds_entry_count state)) (unat kMaxDisplayStateEntries)])"

definition profile_text :: "nat \<Rightarrow> display_manifest_profile \<Rightarrow> string" where
  "profile_text index profile =
     (let key = (\<lambda>k. ''profile.'' @ decimal index @ ''.'' @ k);
          mode_valid = (dmp_allowed_mode_count profile > 0 \<and>
            dmp_allowed_mode_count profile \<le> kMaxAllowedModesPerProfile \<and>
            dmp_native_mode_index profile < dmp_allowed_mode_count profile);
          mode = (if mode_valid then dmp_allowed_modes profile ! unat (dmp_native_mode_index profile)
                  else default_mode) in
      key_value (key ''connector_index'') (decimal (unat (dmp_connector_index profile))) @
      key_value (key ''display_id'') (decimal (unat (dmp_display_id profile))) @
      key_value (key ''container_id'') (broker_guid_string (dmp_container_id profile)) @
      key_value (key ''product_code'') (decimal (unat (dmp_product_code profile))) @
      key_value (key ''serial_number'') (decimal (unat (dmp_serial_number profile))) @
      key_value (key ''mode'')
        (if mode_valid then mode_text (dm_width mode) (dm_height mode) (dm_refresh_rate_millihz mode)
         else ''invalid'') @
      key_value (key ''physical_size_mm'')
        (size_text (dmp_physical_width_mm profile) (dmp_physical_height_mm profile)) @
      key_value (key ''hdr_supported'') (flag_text (dmp_flags profile) kDisplayManifestProfileFlagHdrSupported) @
      key_value (key ''retain_identity'')
        (flag_text (dmp_flags profile) kDisplayManifestProfileFlagRetainIdentity) @
      key_value (key ''layout_policy'') (decimal (unat (dmp_layout_policy profile))) @
      key_value (key ''position'')
        (signed_decimal (dmp_position_x profile) @ '','' @ signed_decimal (dmp_position_y profile)) @
      key_value (key ''name'') (output_display_name (dmp_display_name profile)))"

definition format_display_manifest :: "display_manifest \<Rightarrow> string" where
  "format_display_manifest manifest =
     key_value ''manifest_version'' (decimal (unat (man_version manifest))) @
     key_value ''manifest_profiles'' (decimal (unat (man_profile_count manifest))) @
     key_value ''manifest_max_profiles'' (decimal (unat (man_max_profile_count manifest))) @
     concat (map (\<lambda>index. profile_text index (man_profiles manifest ! index))
       [0..<min (unat (man_profile_count manifest)) (unat kMaxPermanentDisplayProfiles)])"

section \<open>The pipe\<close>

record pipe_server_policy =
  bpp_reject_remote_clients :: bool
  bpp_require_client_authorization :: bool
  bpp_access_denied_response :: string

definition broker_pipe_server_policy :: pipe_server_policy where
  "broker_pipe_server_policy =
     \<lparr>bpp_reject_remote_clients = True, bpp_require_client_authorization = True,
      bpp_access_denied_response = ''error access_denied'' @ [CHR 0x0a]\<rparr>"

definition broker_pipe_mode :: "pipe_server_policy \<Rightarrow> u32" where
  "broker_pipe_mode policy =
     0x00000004 OR 0x00000002 OR 0x00000000 OR
     (if bpp_reject_remote_clients policy then 0x00000008 else 0)"

definition broker_pipe_should_serve_client :: "pipe_server_policy \<Rightarrow> bool \<Rightarrow> bool" where
  "broker_pipe_should_serve_client policy client_authorized \<longleftrightarrow>
     \<not> bpp_require_client_authorization policy \<or> client_authorized"

definition broker_pipe_rejection_response :: "pipe_server_policy \<Rightarrow> string" where
  "broker_pipe_rejection_response policy =
     (if broker_pipe_should_serve_client policy False then [] else bpp_access_denied_response policy)"

end
