(* ===== verification/Command_Theorems.thy ===== *)
theory Command_Theorems
  imports Cli_Commands Broker_Commands
begin

text \<open>
  The command line and the broker together: what the broker understands of the commands the
  command line sends, refresh rates, and the integrity of the broker's key/value replies.
\<close>

section \<open>Words separated by blanks\<close>

fun spaced :: "string list \<Rightarrow> string" where
  "spaced [] = []"
| "spaced [w] = w"
| "spaced (w # v # ws) = w @ CHR '' '' # spaced (v # ws)"

definition is_word :: "string \<Rightarrow> bool" where
  "is_word w \<longleftrightarrow> w \<noteq> [] \<and> (\<forall>c \<in> set w. \<not> blank c)"

lemma join_words_spaced: "ws \<noteq> [] \<Longrightarrow> join_words ws = spaced ws @ '' ''"
proof (induction ws rule: spaced.induct)
  case (3 w v ws)
  then show ?case by (simp add: join_words_def)
qed (simp_all add: join_words_def)

lemma takeWhile_word:
  assumes "is_word w" and "rest = [] \<or> blank (hd rest)"
  shows "takeWhile (\<lambda>c. \<not> blank c) (w @ rest) = w"
  using assms by (cases rest) (auto simp: is_word_def takeWhile_append)

lemma spaced_not_blank: "is_word w \<Longrightarrow> spaced (w # ws) \<noteq> [] \<and> \<not> blank (hd (spaced (w # ws)))"
  by (cases ws) (auto simp: is_word_def hd_append)

lemma split_spaced:
  assumes "\<forall>w \<in> set ws. is_word w" and "ws \<noteq> []" and "rest = [] \<or> blank (hd rest)"
    and "dropWhile blank (drop cursor text') = spaced ws @ rest"
    and "length acc + length ws = max_words"
  shows "\<exists>ps. split_words_from text' max_words cursor acc = acc @ ps \<and> map snd ps = ws \<and> ps \<noteq> [] \<and>
    drop (fst (last ps) + length (snd (last ps))) text' = rest"
  using assms
proof (induction ws arbitrary: cursor acc)
  case (Cons w ws)
  define start where "start = cursor + length (takeWhile blank (drop cursor text'))"
  define tail where "tail = (if ws = [] then rest else CHR '' '' # spaced ws @ rest)"
  have w: "is_word w" using Cons.prems(1) by simp
  have dropped: "drop start text' = w @ tail"
    using Cons.prems(4) by (cases ws) (simp_all add: start_def tail_def dropWhile_eq_drop add.commute)
  have tail_ok: "tail = [] \<or> blank (hd tail)"
    using Cons.prems(3) by (simp add: tail_def blank_def)
  have word: "takeWhile (\<lambda>c. \<not> blank c) (drop start text') = w"
    unfolding dropped by (rule takeWhile_word[OF w tail_ok])
  have start: "start < length text'"
    using dropped w by (cases "start < length text'") (auto simp: is_word_def)
  have next_cursor: "drop (start + length w) text' = tail"
    using dropped by (metis append_eq_conv_conj drop_drop add.commute)
  have "cursor < length text'" using start by (simp add: start_def)
  then have step: "split_words_from text' max_words cursor acc =
      split_words_from text' max_words (start + length w) (acc @ [(start, w)])"
    using start word Cons.prems(5)
    by (subst split_words_from.simps) (simp add: Let_def start_def[symmetric])
  show ?case
  proof (cases ws)
    case Nil
    then have "split_words_from text' max_words cursor acc = acc @ [(start, w)]"
      using step Cons.prems(5) by (simp add: split_words_from.simps)
    then show ?thesis using Nil next_cursor by (intro exI[of _ "[(start, w)]"]) (simp add: tail_def)
  next
    case (Cons v vs)
    have "dropWhile blank (drop (start + length w) text') = spaced ws @ rest"
      using spaced_not_blank[of v vs] Cons.prems(1) Cons
      by (cases "spaced ws") (auto simp: next_cursor tail_def blank_def)
    then obtain ps where ps: "split_words_from text' max_words (start + length w) (acc @ [(start, w)]) =
        (acc @ [(start, w)]) @ ps" "map snd ps = ws" "ps \<noteq> []"
        "drop (fst (last ps) + length (snd (last ps))) text' = rest"
      using Cons.IH[of "start + length w" "acc @ [(start, w)]"] Cons.prems Cons by auto
    then show ?thesis using step by (intro exI[of _ "(start, w) # ps"]) simp
  qed
qed simp

lemma split_broker_words_spaced:
  assumes "\<forall>w \<in> set ws. is_word w" and "ws \<noteq> []" and "rest = [] \<or> blank (hd rest)"
  shows "\<exists>ps. split_broker_words (spaced ws @ rest) (length ws) = ps \<and> map snd ps = ws \<and>
    after_fields (spaced ws @ rest) ps = dropWhile blank rest"
proof -
  obtain w vs where ws: "ws = w # vs" using assms(2) by (cases ws) auto
  have "dropWhile blank (spaced ws @ rest) = spaced ws @ rest"
    using spaced_not_blank[of w vs] assms(1) ws by (cases "spaced ws") auto
  then show ?thesis
    using split_spaced[OF assms, of 0 "spaced ws @ rest" "[]" "length ws"]
    by (auto simp: split_broker_words_def after_fields_def split_beta)
qed

section \<open>What the broker understands\<close>

definition line_end :: "char \<Rightarrow> bool" where
  "line_end c \<longleftrightarrow> c = CHR 0x0d \<or> c = CHR 0x0a \<or> blank c"

definition right_trim :: "string \<Rightarrow> string" where
  "right_trim cs = rev (dropWhile line_end (rev cs))"

lemma trim_broker_command_right_trim:
  "trim_broker_command value = dropWhile blank (right_trim value)"
  by (simp add: trim_broker_command_def right_trim_def line_end_def[abs_def])

lemma right_trim_append:
  "right_trim (xs @ ys) = (if right_trim ys = [] then right_trim xs else xs @ right_trim ys)"
  by (auto simp: right_trim_def dropWhile_append)

lemma right_trim_id: "xs \<noteq> [] \<Longrightarrow> \<not> line_end (last xs) \<Longrightarrow> right_trim xs = xs"
  by (cases xs rule: rev_cases) (auto simp: right_trim_def)

lemma spaced_last:
  "ws \<noteq> [] \<Longrightarrow> \<forall>w \<in> set ws. is_word w \<Longrightarrow> last (spaced ws) = last (last ws)"
  by (induction ws rule: spaced.induct) (auto simp: is_word_def last_append spaced_not_blank)

lemma decimal_not_line_end: "c \<in> set (decimal n) \<Longrightarrow> \<not> line_end c"
  using decimal_digits[of n] by (auto simp: list_all_iff is_digit_def line_end_def blank_def char_code_def)

lemma number_word: "is_word (decimal n)" "\<not> line_end (last (decimal n))"
  using decimal_not_line_end[of _ n] decimal_not_line_end[OF last_in_set[of "decimal n"]]
  by (auto simp: is_word_def line_end_def)

lemma signed_number_word: "is_word (signed_decimal v)" "\<not> line_end (last (signed_decimal v))"
  using number_word by (auto simp: signed_decimal_def is_word_def blank_def)

text \<open>A command whose last word is followed by a blank and a name, as the broker splits it.\<close>

lemma trimmed_command:
  assumes "ws \<noteq> []" and "\<forall>w \<in> set ws. is_word w" and "\<not> line_end (last (last ws))"
    and "prefix \<noteq> []" and "\<not> blank (hd prefix)"
  obtains payload ps where
    "trim_broker_command (prefix @ join_words ws @ name) = prefix @ payload"
    and "split_broker_words payload (length ws) = ps" and "map snd ps = ws"
    and "after_fields payload ps = trim_broker_command name"
proof -
  define rest where "rest = (if right_trim name = [] then [] else CHR '' '' # right_trim name)"
  have not_empty: "spaced ws \<noteq> []"
    using spaced_not_blank[of "hd ws" "tl ws"] assms(1,2) by (cases ws) auto
  have "right_trim (spaced ws) = spaced ws"
    using right_trim_id[OF not_empty] spaced_last[OF assms(1,2)] assms(3) by simp
  moreover have "right_trim ('' '' @ name) = (if right_trim name = [] then [] else '' '' @ right_trim name)"
    by (subst right_trim_append) (simp add: right_trim_def line_end_def blank_def)
  ultimately have "right_trim (prefix @ join_words ws @ name) = prefix @ spaced ws @ rest"
    using not_empty unfolding join_words_spaced[OF assms(1)] append_assoc rest_def
    by (simp only: right_trim_append[of prefix] right_trim_append[of "spaced ws"]) simp
  then have "trim_broker_command (prefix @ join_words ws @ name) = prefix @ spaced ws @ rest"
    using assms(4,5) by (cases prefix) (simp_all add: trim_broker_command_right_trim)
  moreover have "dropWhile blank rest = trim_broker_command name"
    by (simp add: rest_def trim_broker_command_right_trim blank_def)
  moreover have "rest = [] \<or> blank (hd rest)" by (simp add: rest_def blank_def)
  ultimately show ?thesis using that split_broker_words_spaced[OF assms(2,1)] by metis
qed

text \<open>
  C35: Whatever options the command line was given, the broker reads from the command it is sent
  exactly the request that the options stand for, with the display name stripped of the blanks
  around it; it rejects the command when nothing of the name is left.
\<close>

theorem permanent_set_reaches_broker:
  "parse_permanent_set_command (trim_broker_command (permanent_set_broker_command options)) =
     (let name = trim_broker_command (po_name options) in
      if name = [] then None
      else Some (make_permanent_count_request (options\<lparr>po_name := name\<rparr>)))"
proof -
  let ?numbers = "[po_count options, po_width options, po_height options, po_physical_width_mm options,
    po_physical_height_mm options, po_refresh_rate_millihz options]"
  let ?ws = "map (\<lambda>v. decimal (unat v)) ?numbers"
  obtain payload ps where
    "trim_broker_command (''permanent-set '' @ join_words ?ws @ po_name options) = ''permanent-set '' @ payload"
    and ps: "split_broker_words payload (length ?ws) = ps" "map snd ps = ?ws"
      "after_fields payload ps = trim_broker_command (po_name options)"
    by (rule trimmed_command[of ?ws "''permanent-set ''" "po_name options"])
       (simp_all add: number_word blank_def)
  moreover have "split_broker_words payload 6 = ps" "length ps = 6"
    using ps(1) arg_cong[OF ps(2), of length] by (simp_all add: eval_nat_numeral)
  moreover have "map (\<lambda>f. parse_broker_u32 (snd f)) ps = map Some ?numbers"
    using arg_cong[OF ps(2), of "map parse_broker_u32"]
    by (simp add: o_def parse_broker_u32_def parse_decimal_u32)
  ultimately show ?thesis
    by (simp add: parse_permanent_set_command_def permanent_set_broker_command_def starts_with_def Let_def
        make_permanent_count_request_def set_display_name_def del: spaced.simps)
qed

text \<open>
  The same holds for the profile of one slot: every number, the signs of the position
  included, arrives as it was given, and the name is stripped of the blanks around it.
\<close>

theorem profile_set_reaches_broker:
  "parse_manifest_profile_set_command (trim_broker_command (manifest_profile_set_broker_command options)) =
     (let name = trim_broker_command (po_name options) in
      if name = [] then None
      else Some (profile_for_slot (pro_slot options)
        \<lparr>dm_width = po_width options, dm_height = po_height options,
         dm_refresh_rate_millihz = po_refresh_rate_millihz options\<rparr>
        (po_physical_width_mm options) (po_physical_height_mm options) (pro_hdr_supported options)
        (pro_layout_policy options) (pro_position_x options) (pro_position_y options) name))"
proof -
  let ?numbers = "[pro_slot options, po_width options, po_height options, po_physical_width_mm options,
    po_physical_height_mm options, po_refresh_rate_millihz options, pro_hdr_supported options,
    pro_layout_policy options]"
  let ?position = "[pro_position_x options, pro_position_y options]"
  let ?ws = "map (\<lambda>v. decimal (unat v)) ?numbers @ map signed_decimal ?position"
  obtain payload ps where
    "trim_broker_command (''manifest-profile-set '' @ join_words ?ws @ po_name options) =
       ''manifest-profile-set '' @ payload"
    and ps: "split_broker_words payload (length ?ws) = ps" "map snd ps = ?ws"
      "after_fields payload ps = trim_broker_command (po_name options)"
    by (rule trimmed_command[of ?ws "''manifest-profile-set ''" "po_name options"])
       (simp_all add: number_word signed_number_word blank_def)
  moreover have "split_broker_words payload 10 = ps" "length ps = 10"
    using ps(1) arg_cong[OF ps(2), of length] by (simp_all add: eval_nat_numeral)
  moreover have "map (\<lambda>f. parse_broker_u32 (snd f)) (take 8 ps) = map Some ?numbers"
    using arg_cong[OF ps(2), of "\<lambda>l. map parse_broker_u32 (take 8 l)"]
    by (simp add: o_def parse_broker_u32_def parse_decimal_u32 take_map)
  moreover have "map (\<lambda>f. parse_broker_i32 (snd f)) (drop 8 ps) = map Some ?position"
    using arg_cong[OF ps(2), of "\<lambda>l. map parse_broker_i32 (drop 8 l)"]
    by (simp add: o_def parse_broker_i32_def parse_decimal_i32 drop_map)
  ultimately show ?thesis
    by (simp add: parse_manifest_profile_set_command_def manifest_profile_set_broker_command_def starts_with_def Let_def
        set_display_name_def del: spaced.simps)
qed

section \<open>Replies\<close>

definition newlines :: "string \<Rightarrow> nat" where
  "newlines cs = length (filter (\<lambda>c. c = CHR 0x0a) cs)"

definition one_line :: "string \<Rightarrow> bool" where
  "one_line cs \<longleftrightarrow> CHR 0x0a \<notin> set cs"

named_theorems one_line_facts

lemma newlines_append [simp]: "newlines (xs @ ys) = newlines xs + newlines ys"
  by (simp add: newlines_def)

lemma one_line_append [one_line_facts]: "one_line (xs @ ys) \<longleftrightarrow> one_line xs \<and> one_line ys"
  by (auto simp: one_line_def)

lemma one_line_Cons [one_line_facts]: "one_line (c # ys) \<longleftrightarrow> c \<noteq> CHR 0x0a \<and> one_line ys"
  by (auto simp: one_line_def)

lemma one_line_Nil [one_line_facts]: "one_line []"
  by (simp add: one_line_def)

lemma newlines_key_value:
  "one_line key \<Longrightarrow> one_line value \<Longrightarrow> newlines (key_value key value) = 1"
  by (auto simp: key_value_def newlines_def one_line_def filter_empty_conv)

lemma one_line_decimal [one_line_facts]: "one_line (decimal n)"
  using decimal_not_line_end[of "CHR 0x0a" n] by (auto simp: one_line_def line_end_def)

lemma one_line_signed_decimal [one_line_facts]: "one_line (signed_decimal v)"
  by (simp add: signed_decimal_def one_line_facts)

lemma one_line_part: "set cs \<subseteq> set ds \<Longrightarrow> one_line ds \<Longrightarrow> one_line cs"
  by (auto simp: one_line_def)

lemma set_strip_zeros: "set (strip_zeros cs) \<subseteq> set cs"
  by (auto simp: strip_zeros_def dest: set_dropWhileD)

lemma one_line_fixed_text [one_line_facts]: "one_line (fixed_text n d)"
proof -
  have "one_line (strip_zeros (drop 1 (decimal k)))" for k
    by (rule one_line_part[OF _ one_line_decimal[of k]]) (use set_strip_zeros set_drop_subset in fast)
  then show ?thesis by (simp add: fixed_text_def Let_def one_line_facts)
qed

lemma one_line_hertz_text [one_line_facts]: "one_line (hertz_text v)"
  by (simp add: hertz_text_def Let_def split_beta one_line_facts)

lemma hex_digit_in: "length digits = 16 \<Longrightarrow> hex_digit digits n \<in> set digits"
  by (simp add: hex_digit_def)

lemma one_line_lower_hex [one_line_facts]: "one_line (lower_hex k v)"
proof (induction k arbitrary: v)
  case (Suc k)
  have "hex_digit ''0123456789abcdef'' v \<in> set ''0123456789abcdef''" by (rule hex_digit_in) simp
  then have "hex_digit ''0123456789abcdef'' v \<noteq> CHR 0x0a" by auto
  then show ?case by (simp add: Suc one_line_facts)
qed (simp add: one_line_facts)

lemma one_line_guid [one_line_facts]: "one_line (broker_guid_string g)"
proof -
  have "one_line (concat (map (\<lambda>b. lower_hex 2 (f b)) bs))" for f :: "u8 \<Rightarrow> nat" and bs
    by (induction bs) (simp_all add: one_line_facts)
  then show ?thesis by (simp add: broker_guid_string_def one_line_facts)
qed

lemma escape_char_shape:
  "escape_char c = [c] \<and> c \<noteq> CHR 0x5c \<and> 0x20 \<le> char_code c \<and> char_code c \<noteq> 0x7f \<or>
   (\<exists>k cs. escape_char c = CHR 0x5c # k # cs)"
  by (auto simp: escape_char_def char_code_def)

lemma hex_digit_eq:
  assumes "length digits = 16" and "distinct digits"
  shows "hex_digit digits m = hex_digit digits n \<longleftrightarrow> m mod 16 = n mod 16"
  using assms by (simp add: hex_digit_def nth_eq_iff_index_eq)

lemma escape_char_visible:
  assumes "x \<in> set (escape_char c)"
  shows "0x20 \<le> char_code x \<and> char_code x \<noteq> 0x7f"
proof -
  have "\<forall>d \<in> set ''0123456789ABCDEF''. 0x20 \<le> char_code d \<and> char_code d \<noteq> 0x7f"
    by (simp add: char_code_def)
  then have "0x20 \<le> char_code (hex_digit ''0123456789ABCDEF'' n) \<and>
      char_code (hex_digit ''0123456789ABCDEF'' n) \<noteq> 0x7f" for n
    using hex_digit_in[of "''0123456789ABCDEF''" n] by (simp only: list.size) blast
  then show ?thesis using assms
    by (auto simp: escape_char_def char_code_def split: if_splits)
qed

lemma escape_char_prefix_free:
  assumes "escape_char a @ xs = escape_char b @ ys"
  shows "a = b \<and> xs = ys"
proof -
  have hex: "a = b" if "hex_digit ''0123456789ABCDEF'' (char_code a div 16) =
      hex_digit ''0123456789ABCDEF'' (char_code b div 16)"
    "hex_digit ''0123456789ABCDEF'' (char_code a) = hex_digit ''0123456789ABCDEF'' (char_code b)"
  proof -
    have "char_code a div 16 < 16" "char_code b div 16 < 16"
      using nat_of_char_less_256[of a] nat_of_char_less_256[of b] by (simp_all add: char_code_def less_mult_imp_div_less)
    with that have "char_code a div 16 = char_code b div 16" "char_code a mod 16 = char_code b mod 16"
      by (simp_all add: hex_digit_eq)
    then have "char_code a = char_code b" by (metis div_mult_mod_eq)
    then show ?thesis by (simp add: char_code_def)
  qed
  show ?thesis
    using assms hex by (simp add: escape_char_def split: if_splits)
qed

lemma escape_key_value_inj: "escape_key_value a = escape_key_value b \<Longrightarrow> a = b"
proof (induction a arbitrary: b)
  case Nil
  then show ?case using escape_char_shape[of "hd b"] by (cases b) (auto simp: escape_key_value_def)
next
  case (Cons x xs)
  then obtain y ys where b: "b = y # ys"
    using escape_char_shape[of x] by (cases b) (auto simp: escape_key_value_def)
  with Cons.prems have "escape_char x @ escape_key_value xs = escape_char y @ escape_key_value ys"
    by (simp add: escape_key_value_def)
  then show ?case using Cons.IH escape_char_prefix_free b by blast
qed

lemma one_line_display_name [one_line_facts]: "one_line (output_display_name name)"
proof -
  have "one_line (escape_key_value cs)" for cs
    using escape_char_visible by (fastforce simp: one_line_def escape_key_value_def char_code_def)
  then show ?thesis by (simp add: output_display_name_def)
qed

lemma one_line_values [one_line_facts]:
  "one_line (mode_text w h r)" "one_line (size_text w h)" "one_line (flag_text f m)"
  "one_line (display_kind k)"
  by (simp_all add: mode_text_def size_text_def flag_text_def display_kind_def one_line_facts)

lemma newlines_state_entry: "newlines (state_entry_text index entry) = 12"
  by (simp add: state_entry_text_def Let_def newlines_key_value one_line_facts)

lemma newlines_profile: "newlines (profile_text index profile) = 12"
  by (simp add: profile_text_def Let_def newlines_key_value one_line_facts)

lemma newlines_concat: "(\<And>x. newlines (f x) = k) \<Longrightarrow> newlines (concat (map f xs)) = k * length xs"
  by (induction xs) (simp_all add: newlines_def)

text \<open>
  No display name, whatever bytes it holds, can add a line to a reply: the number of lines of
  each reply depends on the number of entries alone, and the escaped form of a name shows no
  control character and determines the name.
\<close>

theorem replies_cannot_be_forged:
  "newlines (format_permanent_state state) = 6 \<and>
   newlines (format_display_state displays) = 3 + 12 * min (unat (qds_entry_count displays)) 16 \<and>
   newlines (format_display_manifest manifest) = 3 + 12 * min (unat (man_profile_count manifest)) 8 \<and>
   filter (\<lambda>c. char_code c < 0x20 \<or> char_code c = 0x7f) (escape_key_value name) = [] \<and>
   inj escape_key_value"
proof (intro conjI)
  show "filter (\<lambda>c. char_code c < 0x20 \<or> char_code c = 0x7f) (escape_key_value name) = []"
    using escape_char_visible by (fastforce simp: escape_key_value_def filter_empty_conv)
  show "inj escape_key_value" using escape_key_value_inj by (auto simp: inj_def)
qed (simp_all add: format_permanent_state_def format_display_state_def format_display_manifest_def
    newlines_key_value newlines_concat[OF newlines_state_entry] newlines_concat[OF newlines_profile]
    one_line_facts)

section \<open>Refresh rates\<close>

lemma strtod_decimal: "strtod_value (decimal n) = Some (n, 1)"
proof -
  have no_hex: "\<not> (length (decimal n) \<ge> 2 \<and> decimal n ! 0 = CHR ''0'' \<and>
      (decimal n ! 1 = CHR ''x'' \<or> decimal n ! 1 = CHR ''X''))"
  proof -
    have "is_digit (decimal n ! 1)" if "length (decimal n) \<ge> 2"
      using decimal_digits[of n] that by (simp add: list_all_length)
    then show ?thesis by (auto simp: is_digit_def char_code_def)
  qed
  have no_sign: "hd (decimal n) \<noteq> CHR ''+''"
    using decimal_digits[of n] by (cases "decimal n") (auto simp: is_digit_def char_code_def)
  show ?thesis
    by (simp only: strtod_value_def Let_def no_sign no_hex simp_thms if_False)
       (simp add: mantissa_part_def exponent_part_def scaled_fraction_def Let_def)
qed

text \<open>An integral rate: the products and quotients of the conversion are exact doubles.\<close>

lemma nearest_double_exact:
  assumes "0 < n" and "n < 2 ^ 53"
  obtains d where "nearest_double n 1 = (n * d, d)" and "0 < d"
  using nearest_double_nat[OF assms] by (cases "nearest_double n 1") auto

text \<open>A quotient \<open>n * d / d\<close> as the operand of the next operation.\<close>

lemma floorlog_mult_le: "0 < d \<Longrightarrow> floorlog 2 (n * d) \<le> floorlog 2 n + floorlog 2 d"
proof (cases "n = 0")
  case False
  assume d: "0 < d"
  have "n < 2 ^ floorlog 2 n" "d < 2 ^ floorlog 2 d"
    using False d floorlog_bounds[of n 2] floorlog_bounds[of d 2] by auto
  then have "n * d < 2 ^ (floorlog 2 n + floorlog 2 d)"
    using d by (simp add: power_add mult_strict_mono)
  then show ?thesis by (simp add: floorlog_leI)
qed (simp add: floorlog_def)

lemma round_even_exact: "0 < b \<Longrightarrow> round_even (a * b) b = a"
  by (simp add: round_even_def)

lemma nearest_double_scaled:
  assumes "0 < n" and "n < 2 ^ 52" and "0 < d"
  obtains e where "nearest_double (n * d) d = (n * e, e)" and "0 < e"
proof -
  have "floorlog 2 n \<le> 52" using assms(2) by (simp add: floorlog_leI)
  then have "int (floorlog 2 (n * d)) - int (floorlog 2 d) \<le> 52"
    using floorlog_mult_le[OF assms(3), of n] by simp
  then have "binary_exponent (n * d) d \<le> 52" by (simp add: binary_exponent_def Let_def)
  then obtain k where k: "max (binary_exponent (n * d) d - 52) (- 1074) = - int k"
    by (metis diff_le_0_iff_le max.bounded_iff neg_0_le_iff_le minus_minus nonneg_int_cases
        zero_le_numeral)
  have "round_even (n * d * 2 ^ k) d = n * 2 ^ k"
    using round_even_exact[OF assms(3), of "n * 2 ^ k"] by (simp only: ac_simps)
  then have "nearest_double (n * d) d = (n * 2 ^ k, 2 ^ k)"
    using assms(1,3) k by (cases "k = 0") (simp_all add: nearest_double_def)
  then show ?thesis using that by simp
qed

lemma digits_not_space: "\<not> list_ex is_space (decimal n)"
  using decimal_digits[of n]
  by (auto simp: list_ex_iff list_all_iff is_digit_def is_space_def)

lemma floorlog_eqI: "2 ^ k \<le> x \<Longrightarrow> x < 2 ^ Suc k \<Longrightarrow> floorlog 2 x = Suc k"
  by (rule antisym) (simp_all add: floorlog_leI floorlog_ge_SucI)

lemma decimal_32_01:
  "nearest_double 3201 100 = (4505007002254049, 140737488355328)"
  "nearest_double 4505007002254049000 140737488355328 = (8798841801277439, 274877906944)"
  using floorlog_eqI[of 11 3201] floorlog_eqI[of 6 100] floorlog_eqI[of 61 4505007002254049000]
    floorlog_eqI[of 47 140737488355328]
  by (simp_all add: nearest_double_def binary_exponent_def round_even_def Let_def)

lemma decimal_59_94:
  "nearest_double 5994 100 = (8435805052018360, 140737488355328)"
  "nearest_double 8435805052018360000 140737488355328 = (8238090871111680, 137438953472)"
  using floorlog_eqI[of 12 5994] floorlog_eqI[of 6 100] floorlog_eqI[of 62 8435805052018360000]
    floorlog_eqI[of 47 140737488355328]
  by (simp_all add: nearest_double_def binary_exponent_def round_even_def Let_def)

lemma strtod_examples:
  "strtod_value ''32.01'' = Some (3201, 100)" "strtod_value ''59.94'' = Some (5994, 100)"
  by (simp_all add: strtod_value_def mantissa_part_def exponent_part_def scaled_fraction_def is_digit_def
      char_code_def digits_value_def)

lemma refresh_integral:
  "parse_refresh_millihz (decimal (unat v)) =
     (if v = 0 then None else if v \<le> 1000 then Some (1000 * v) else Some v)"
proof (cases "v = 0")
  case True
  then show ?thesis
    by (simp add: parse_refresh_millihz_def digits_not_space strtod_decimal nearest_double_def)
next
  case False
  then have pos: "0 < unat v" by (simp add: unat_gt_0)
  have bound: "unat v < 2 ^ 32" using unsigned_less[of v, where 'a = nat] by simp
  have "unat v < 2 ^ 53" by (rule less_trans[OF bound]) simp
  then obtain d where d: "nearest_double (unat v) 1 = (unat v * d, d)" "0 < d"
    using nearest_double_exact[OF pos] by metis
  have "1000 * unat v < 2 ^ 52" using bound by simp
  then obtain e where e: "nearest_double (1000 * unat v * d) d = (1000 * unat v * e, e)" "0 < e"
    using nearest_double_scaled[of "1000 * unat v" d] pos d(2) by auto
  have "unat v < 2 ^ 1024" by (rule less_trans[OF bound]) (rule power_strict_increasing; simp)
  then have fits: "\<not> double_overflows (unat v * d, d)"
    using d(2) by (simp add: double_overflows_def)
  have small: "unat v \<le> 1000 \<longleftrightarrow> v \<le> 1000" by (simp add: word_le_nat_alt)
  have max: "unat v \<le> 0xffffffff" using bound by simp
  show ?thesis
  proof (cases "v \<le> 1000")
    case True
    have "nearest_double (1000 * (unat v * d)) d = (1000 * unat v * e, e)"
      using e(1) by (simp only: mult.assoc)
    moreover have "unat v * d \<le> 1000 * d" using True small by simp
    moreover have "\<not> 1000 * unat v * e < e" using pos e(2) by simp
    moreover have "\<not> 0xffffffff * e < 1000 * unat v * e" using True small e(2) by simp
    ultimately show ?thesis using True False d e(2) fits pos
      by (simp add: parse_refresh_millihz_def digits_not_space strtod_decimal)
  next
    case False
    have "\<not> unat v * d \<le> 1000 * d" using False small d(2) by simp
    moreover have "\<not> unat v * d < d" using pos d(2) by simp
    moreover have "\<not> 0xffffffff * d < unat v * d" using max d(2) by simp
    ultimately show ?thesis using \<open>v \<noteq> 0\<close> False d fits pos
      by (simp add: parse_refresh_millihz_def digits_not_space strtod_decimal)
  qed
qed

text \<open>
  An integral refresh rate is converted exactly: up to 1000 it is read as Hz, above that as
  mHz, and zero is refused. A rate with a fraction can come out one mHz too low, because the
  product with 1000 is computed in binary floating point and then truncated: 32.01 Hz becomes
  32009 mHz.
\<close>

theorem refresh_rate_conversion:
  "parse_refresh_millihz (decimal (unat v)) =
     (if v = 0 then None else if v \<le> 1000 then Some (1000 * v) else Some v) \<and>
   parse_refresh_millihz ''32.01'' = Some 32009 \<and> parse_refresh_millihz ''59.94'' = Some 59940"
proof (intro conjI refresh_integral)
  show "parse_refresh_millihz ''32.01'' = Some 32009"
    by (simp add: parse_refresh_millihz_def is_space_def char_code_def strtod_examples decimal_32_01
        double_overflows_def)
  show "parse_refresh_millihz ''59.94'' = Some 59940"
    by (simp add: parse_refresh_millihz_def is_space_def char_code_def strtod_examples decimal_59_94
        double_overflows_def)
qed

end
