(* ===== verification/Drm_Present.thy ===== *)
theory Drm_Present
  imports VDD_Prelude
begin

unbundle bit_operations_syntax

text \<open>
  Presentation in the Linux virtual display \<open>linux/vibeshine-drm\<close>: which commits change what a
  CRTC scans out (\<open>vibeshine_drm_change.h\<close>), when a commit counts as presented
  (\<open>vibeshine_drm_present.h\<close>, \<open>vkms_crtc.c\<close>), and the sequence number, timestamp, framebuffer
  and trace a capture client reads (\<open>vkms_drv.c\<close>). The kernel's own objects appear as the
  fields that this code reads; a pointer is a number, zero for \<open>NULL\<close>, and every optional kernel
  feature is compiled in. Each definition is what happens under one hold of a lock.
\<close>

section \<open>States of a commit\<close>

record plane_state =
  pst_visible :: bool
  pst_crtc :: u64
  pst_fb :: u64
  pst_color_pipeline :: u64
  pst_crtc_x :: u32
  pst_crtc_y :: u32
  pst_hotspot_x :: u32
  pst_hotspot_y :: u32
  pst_crtc_w :: u32
  pst_crtc_h :: u32
  pst_src_x :: u32
  pst_src_y :: u32
  pst_src_w :: u32
  pst_src_h :: u32
  pst_alpha :: u32
  pst_pixel_blend_mode :: u32
  pst_rotation :: u32
  pst_zpos :: u32
  pst_normalized_zpos :: u32
  pst_color_encoding :: u32
  pst_color_range :: u32
  pst_scaling_filter :: u32
  pst_fence :: bool
  pst_presentation_content_update :: bool
  pst_fb_damage_clips :: bool
  pst_color_mgmt_changed :: bool

record crtc_state =
  cst_identity :: nat
  cst_enable :: bool
  cst_active :: bool
  cst_color_mgmt_changed :: bool
  cst_plane_mask :: u32
  cst_connector_mask :: u32
  cst_encoder_mask :: u32
  cst_mode_blob :: u64
  cst_degamma_lut :: u64
  cst_ctm :: u64
  cst_gamma_lut :: u64
  cst_background_color :: u64
  cst_scaling_filter :: u32
  cst_sharpness_strength :: u32
  cst_vrr_enabled :: bool

record connector_state =
  cns_self_refresh_aware :: bool
  cns_crtc :: u64
  cns_best_encoder :: u64
  cns_hdr_output_metadata :: u64
  cns_link_status :: u32
  cns_picture_aspect_ratio :: u32
  cns_content_type :: u32
  cns_hdcp_content_type :: u32
  cns_scaling_mode :: u32
  cns_content_protection :: u32
  cns_colorspace :: u32
  cns_max_requested_bpc :: u32
  cns_max_bpc :: u32
  cns_privacy_screen_sw_state :: u32

text \<open>
  A \<open>drm_atomic_commit\<close>: the old and new states of the CRTCs, planes and connectors it touches.
\<close>

record atomic_commit =
  ac_crtcs :: "(u64 \<times> crtc_state option \<times> crtc_state option) list"
  ac_planes :: "(u64 \<times> plane_state option \<times> plane_state option) list"
  ac_connectors :: "(connector_state option \<times> connector_state option) list"

section \<open>Snapshots\<close>

record plane_snapshot =
  pls_present :: bool
  pls_visible :: bool
  pls_content_update :: bool
  pls_crtc :: u64
  pls_framebuffer :: u64
  pls_color_pipeline :: u64
  pls_crtc_x :: u32
  pls_crtc_y :: u32
  pls_hotspot_x :: u32
  pls_hotspot_y :: u32
  pls_crtc_w :: u32
  pls_crtc_h :: u32
  pls_src_x :: u32
  pls_src_y :: u32
  pls_src_w :: u32
  pls_src_h :: u32
  pls_alpha :: u32
  pls_pixel_blend_mode :: u32
  pls_rotation :: u32
  pls_zpos :: u32
  pls_normalized_zpos :: u32
  pls_color_encoding :: u32
  pls_color_range :: u32
  pls_scaling_filter :: u32

record crtc_snapshot =
  crs_present :: bool
  crs_enable :: bool
  crs_active :: bool
  crs_color_mgmt_changed :: bool
  crs_plane_mask :: u32
  crs_connector_mask :: u32
  crs_encoder_mask :: u32
  crs_mode_blob :: u64
  crs_degamma_lut :: u64
  crs_ctm :: u64
  crs_gamma_lut :: u64
  crs_background_color :: u64
  crs_scaling_filter :: u32
  crs_sharpness_strength :: u32
  crs_vrr_enabled :: bool

record connector_snapshot =
  cos_present :: bool
  cos_self_refresh_aware :: bool
  cos_crtc :: u64
  cos_best_encoder :: u64
  cos_hdr_output_metadata :: u64
  cos_link_status :: u32
  cos_picture_aspect_ratio :: u32
  cos_content_type :: u32
  cos_hdcp_content_type :: u32
  cos_scaling_mode :: u32
  cos_content_protection :: u32
  cos_colorspace :: u32
  cos_max_requested_bpc :: u32
  cos_max_bpc :: u32
  cos_privacy_screen_sw_state :: u32

definition vkms_snapshot_plane_state :: "plane_state option \<Rightarrow> plane_snapshot" where
  "vkms_snapshot_plane_state state =
     (case state of
        None \<Rightarrow>
          \<lparr>pls_present = False, pls_visible = False, pls_content_update = False, pls_crtc = 0,
           pls_framebuffer = 0, pls_color_pipeline = 0, pls_crtc_x = 0, pls_crtc_y = 0,
           pls_hotspot_x = 0, pls_hotspot_y = 0, pls_crtc_w = 0, pls_crtc_h = 0, pls_src_x = 0,
           pls_src_y = 0, pls_src_w = 0, pls_src_h = 0, pls_alpha = 0, pls_pixel_blend_mode = 0,
           pls_rotation = 0, pls_zpos = 0, pls_normalized_zpos = 0, pls_color_encoding = 0,
           pls_color_range = 0, pls_scaling_filter = 0\<rparr>
      | Some s \<Rightarrow>
          \<lparr>pls_present = True, pls_visible = pst_visible s,
           pls_content_update =
             pst_presentation_content_update s \<or> pst_fb_damage_clips s \<or> pst_color_mgmt_changed s,
           pls_crtc = pst_crtc s, pls_framebuffer = pst_fb s,
           pls_color_pipeline = pst_color_pipeline s, pls_crtc_x = pst_crtc_x s,
           pls_crtc_y = pst_crtc_y s, pls_hotspot_x = pst_hotspot_x s,
           pls_hotspot_y = pst_hotspot_y s, pls_crtc_w = pst_crtc_w s, pls_crtc_h = pst_crtc_h s,
           pls_src_x = pst_src_x s, pls_src_y = pst_src_y s, pls_src_w = pst_src_w s,
           pls_src_h = pst_src_h s, pls_alpha = pst_alpha s,
           pls_pixel_blend_mode = pst_pixel_blend_mode s, pls_rotation = pst_rotation s,
           pls_zpos = pst_zpos s, pls_normalized_zpos = pst_normalized_zpos s,
           pls_color_encoding = pst_color_encoding s, pls_color_range = pst_color_range s,
           pls_scaling_filter = pst_scaling_filter s\<rparr>)"

definition vkms_snapshot_crtc_state :: "crtc_state option \<Rightarrow> crtc_snapshot" where
  "vkms_snapshot_crtc_state state =
     (case state of
        None \<Rightarrow>
          \<lparr>crs_present = False, crs_enable = False, crs_active = False,
           crs_color_mgmt_changed = False, crs_plane_mask = 0, crs_connector_mask = 0,
           crs_encoder_mask = 0, crs_mode_blob = 0, crs_degamma_lut = 0, crs_ctm = 0,
           crs_gamma_lut = 0, crs_background_color = 0, crs_scaling_filter = 0,
           crs_sharpness_strength = 0, crs_vrr_enabled = False\<rparr>
      | Some s \<Rightarrow>
          \<lparr>crs_present = True, crs_enable = cst_enable s, crs_active = cst_active s,
           crs_color_mgmt_changed = cst_color_mgmt_changed s, crs_plane_mask = cst_plane_mask s,
           crs_connector_mask = cst_connector_mask s, crs_encoder_mask = cst_encoder_mask s,
           crs_mode_blob = cst_mode_blob s, crs_degamma_lut = cst_degamma_lut s,
           crs_ctm = cst_ctm s, crs_gamma_lut = cst_gamma_lut s,
           crs_background_color = cst_background_color s,
           crs_scaling_filter = cst_scaling_filter s,
           crs_sharpness_strength = cst_sharpness_strength s,
           crs_vrr_enabled = cst_vrr_enabled s\<rparr>)"

definition vkms_snapshot_connector_state :: "connector_state option \<Rightarrow> connector_snapshot" where
  "vkms_snapshot_connector_state state =
     (case state of
        None \<Rightarrow>
          \<lparr>cos_present = False, cos_self_refresh_aware = False, cos_crtc = 0, cos_best_encoder = 0,
           cos_hdr_output_metadata = 0, cos_link_status = 0, cos_picture_aspect_ratio = 0,
           cos_content_type = 0, cos_hdcp_content_type = 0, cos_scaling_mode = 0,
           cos_content_protection = 0, cos_colorspace = 0, cos_max_requested_bpc = 0,
           cos_max_bpc = 0, cos_privacy_screen_sw_state = 0\<rparr>
      | Some s \<Rightarrow>
          \<lparr>cos_present = True, cos_self_refresh_aware = cns_self_refresh_aware s,
           cos_crtc = cns_crtc s, cos_best_encoder = cns_best_encoder s,
           cos_hdr_output_metadata = cns_hdr_output_metadata s,
           cos_link_status = cns_link_status s,
           cos_picture_aspect_ratio = cns_picture_aspect_ratio s,
           cos_content_type = cns_content_type s,
           cos_hdcp_content_type = cns_hdcp_content_type s,
           cos_scaling_mode = cns_scaling_mode s,
           cos_content_protection = cns_content_protection s,
           cos_colorspace = cns_colorspace s, cos_max_requested_bpc = cns_max_requested_bpc s,
           cos_max_bpc = cns_max_bpc s,
           cos_privacy_screen_sw_state = cns_privacy_screen_sw_state s\<rparr>)"

section \<open>Which commits change the scanout\<close>

definition vibeshine_drm_plane_changes_scanout :: "plane_snapshot \<Rightarrow> plane_snapshot \<Rightarrow> bool" where
  "vibeshine_drm_plane_changes_scanout old_state new_state =
     (if pls_present old_state \<noteq> pls_present new_state \<or>
         pls_visible old_state \<noteq> pls_visible new_state \<or>
         pls_crtc old_state \<noteq> pls_crtc new_state \<or>
         pls_framebuffer old_state \<noteq> pls_framebuffer new_state \<or>
         pls_color_pipeline old_state \<noteq> pls_color_pipeline new_state \<or>
         pls_crtc_x old_state \<noteq> pls_crtc_x new_state \<or>
         pls_crtc_y old_state \<noteq> pls_crtc_y new_state \<or>
         pls_hotspot_x old_state \<noteq> pls_hotspot_x new_state \<or>
         pls_hotspot_y old_state \<noteq> pls_hotspot_y new_state \<or>
         pls_crtc_w old_state \<noteq> pls_crtc_w new_state \<or>
         pls_crtc_h old_state \<noteq> pls_crtc_h new_state \<or>
         pls_src_x old_state \<noteq> pls_src_x new_state \<or>
         pls_src_y old_state \<noteq> pls_src_y new_state \<or>
         pls_src_w old_state \<noteq> pls_src_w new_state \<or>
         pls_src_h old_state \<noteq> pls_src_h new_state \<or>
         pls_alpha old_state \<noteq> pls_alpha new_state \<or>
         pls_pixel_blend_mode old_state \<noteq> pls_pixel_blend_mode new_state \<or>
         pls_rotation old_state \<noteq> pls_rotation new_state \<or>
         pls_zpos old_state \<noteq> pls_zpos new_state \<or>
         pls_normalized_zpos old_state \<noteq> pls_normalized_zpos new_state \<or>
         pls_color_encoding old_state \<noteq> pls_color_encoding new_state \<or>
         pls_color_range old_state \<noteq> pls_color_range new_state \<or>
         pls_scaling_filter old_state \<noteq> pls_scaling_filter new_state
      then True
      else pls_content_update new_state)"

definition vibeshine_drm_crtc_changes_scanout :: "crtc_snapshot \<Rightarrow> crtc_snapshot \<Rightarrow> bool" where
  "vibeshine_drm_crtc_changes_scanout old_state new_state \<longleftrightarrow>
     crs_present old_state \<noteq> crs_present new_state \<or>
     crs_enable old_state \<noteq> crs_enable new_state \<or>
     crs_active old_state \<noteq> crs_active new_state \<or>
     crs_plane_mask old_state \<noteq> crs_plane_mask new_state \<or>
     crs_connector_mask old_state \<noteq> crs_connector_mask new_state \<or>
     crs_encoder_mask old_state \<noteq> crs_encoder_mask new_state \<or>
     crs_mode_blob old_state \<noteq> crs_mode_blob new_state \<or>
     crs_degamma_lut old_state \<noteq> crs_degamma_lut new_state \<or>
     crs_ctm old_state \<noteq> crs_ctm new_state \<or>
     crs_gamma_lut old_state \<noteq> crs_gamma_lut new_state \<or>
     crs_background_color old_state \<noteq> crs_background_color new_state \<or>
     crs_scaling_filter old_state \<noteq> crs_scaling_filter new_state \<or>
     crs_sharpness_strength old_state \<noteq> crs_sharpness_strength new_state \<or>
     crs_vrr_enabled old_state \<noteq> crs_vrr_enabled new_state \<or>
     crs_color_mgmt_changed new_state"

definition vibeshine_drm_connector_changes_scanout :: "connector_snapshot \<Rightarrow> connector_snapshot \<Rightarrow> bool" where
  "vibeshine_drm_connector_changes_scanout old_state new_state \<longleftrightarrow>
     cos_present old_state \<noteq> cos_present new_state \<or>
     cos_self_refresh_aware old_state \<noteq> cos_self_refresh_aware new_state \<or>
     cos_crtc old_state \<noteq> cos_crtc new_state \<or>
     cos_best_encoder old_state \<noteq> cos_best_encoder new_state \<or>
     cos_hdr_output_metadata old_state \<noteq> cos_hdr_output_metadata new_state \<or>
     cos_link_status old_state \<noteq> cos_link_status new_state \<or>
     cos_picture_aspect_ratio old_state \<noteq> cos_picture_aspect_ratio new_state \<or>
     cos_content_type old_state \<noteq> cos_content_type new_state \<or>
     cos_hdcp_content_type old_state \<noteq> cos_hdcp_content_type new_state \<or>
     cos_scaling_mode old_state \<noteq> cos_scaling_mode new_state \<or>
     cos_content_protection old_state \<noteq> cos_content_protection new_state \<or>
     cos_colorspace old_state \<noteq> cos_colorspace new_state \<or>
     cos_max_requested_bpc old_state \<noteq> cos_max_requested_bpc new_state \<or>
     cos_max_bpc old_state \<noteq> cos_max_bpc new_state \<or>
     cos_privacy_screen_sw_state old_state \<noteq> cos_privacy_screen_sw_state new_state"

text \<open>Whether one of the two states of a plane, or of a connector, is on the target CRTC.\<close>

definition plane_on :: "u64 \<Rightarrow> plane_state option \<Rightarrow> bool" where
  "plane_on target state = (case state of None \<Rightarrow> False | Some s \<Rightarrow> pst_crtc s = target)"

definition connector_on :: "u64 \<Rightarrow> connector_state option \<Rightarrow> bool" where
  "connector_on target state = (case state of None \<Rightarrow> False | Some s \<Rightarrow> cns_crtc s = target)"

definition vkms_commit_touches_crtc :: "atomic_commit \<Rightarrow> u64 \<Rightarrow> bool" where
  "vkms_commit_touches_crtc state target \<longleftrightarrow>
     list_ex (\<lambda>(crtc, old, new). crtc = target) (ac_crtcs state) \<or>
     list_ex (\<lambda>(plane, old, new). plane_on target old \<or> plane_on target new) (ac_planes state) \<or>
     list_ex (\<lambda>(old, new). connector_on target old \<or> connector_on target new) (ac_connectors state)"

definition vkms_commit_changes_crtc :: "atomic_commit \<Rightarrow> u64 \<Rightarrow> bool" where
  "vkms_commit_changes_crtc state target \<longleftrightarrow>
     list_ex (\<lambda>(crtc, old, new). crtc = target \<and>
       vibeshine_drm_crtc_changes_scanout (vkms_snapshot_crtc_state old) (vkms_snapshot_crtc_state new))
       (ac_crtcs state) \<or>
     list_ex (\<lambda>(plane, old, new). (plane_on target old \<or> plane_on target new) \<and>
       vibeshine_drm_plane_changes_scanout (vkms_snapshot_plane_state old) (vkms_snapshot_plane_state new))
       (ac_planes state) \<or>
     list_ex (\<lambda>(old, new). (connector_on target old \<or> connector_on target new) \<and>
       vibeshine_drm_connector_changes_scanout
         (vkms_snapshot_connector_state old) (vkms_snapshot_connector_state new))
       (ac_connectors state)"

definition vkms_mark_presentation_content_updates :: "atomic_commit \<Rightarrow> atomic_commit" where
  "vkms_mark_presentation_content_updates state = state\<lparr>ac_planes :=
     map (\<lambda>(plane, old, new). (plane, old,
       map_option (\<lambda>s. s\<lparr>pst_presentation_content_update := pst_fence s\<rparr>) new)) (ac_planes state)\<rparr>"

end
