(* ===== verification/Drm_Output.thy ===== *)
theory Drm_Output
  imports Drm_Present
begin

text \<open>
  The presentation state of one output (\<open>struct vkms_output\<close>) and the operations on it: the
  timing of a commit from its flush to its publication, the publication itself, and the requests
  of a capture client that wait for a new presentation, read the trace, or read the framebuffer.
\<close>

section \<open>Timing of a commit\<close>

record present_timing =
  ptm_timestamp_ns :: u64
  ptm_pending :: bool

definition vibeshine_drm_present_timing_arm :: "present_timing \<Rightarrow> present_timing" where
  "vibeshine_drm_present_timing_arm timing = timing\<lparr>ptm_timestamp_ns := 0, ptm_pending := True\<rparr>"

definition vibeshine_drm_present_timing_complete ::
  "present_timing \<Rightarrow> bool \<Rightarrow> u64 \<Rightarrow> present_timing \<times> bool" where
  "vibeshine_drm_present_timing_complete timing flip_complete event_timestamp_ns =
     (if \<not> ptm_pending timing \<or> \<not> flip_complete \<or> event_timestamp_ns = 0 then (timing, False)
      else (timing\<lparr>ptm_timestamp_ns := event_timestamp_ns, ptm_pending := False\<rparr>, True))"

definition vibeshine_drm_present_timing_finish :: "present_timing \<Rightarrow> u64 \<Rightarrow> present_timing \<times> u64" where
  "vibeshine_drm_present_timing_finish timing fallback_timestamp_ns =
     (let timing1 = timing\<lparr>ptm_pending := False\<rparr> in
      (timing1, if ptm_timestamp_ns timing1 \<noteq> 0 then ptm_timestamp_ns timing1
                else fallback_timestamp_ns))"

section \<open>The output\<close>

record trace_event =
  tev_sequence :: u64
  tev_timestamp_ns :: u64

text \<open>
  A thread inside \<open>wait_event_interruptible_timeout\<close>, with the sequence number it has seen: about to
  check its condition, asleep on the wait queue, or past the wait (the flag: because of a signal).
  As the kernel documents it, the thread is on the queue when it checks its condition, so that no
  wake-up falls between the check and the sleep: both are one step. A wake-up makes it check again.
\<close>

datatype waiter = Checking u64 | Asleep u64 | Ended u64 bool

text \<open>
  The timing of a commit is a field of its CRTC state; here it is found under the identity of
  that state. \<open>pending_commits\<close> is a signed counter, kept by its bits.
\<close>

record vkms_output =
  vo_crtc :: u64
  vo_primary :: u64
  vo_present_timings :: "nat \<Rightarrow> present_timing"
  vo_pending_present_state :: "nat option"
  vo_synthetic_vblank_counter :: u64
  vo_vrr_vblank_timestamp_ns :: u64
  vo_present_sequence :: u64
  vo_present_timestamp_ns :: u64
  vo_present_trace :: "trace_event list"
  vo_present_fb :: u64
  vo_present_waiters :: u32
  vo_present_waitq :: "nat \<rightharpoonup> waiter"
  vo_pending_commits :: u32

abbreviation (input) kTraceHistorySize :: nat where "kTraceHistorySize \<equiv> 4096"
abbreviation (input) kTraceMaxEvents :: nat where "kTraceMaxEvents \<equiv> 64"
abbreviation (input) kPresentMaxWaiters :: u32 where "kPresentMaxWaiters \<equiv> 64"
abbreviation (input) kPresentMaxTimeoutMs :: u32 where "kPresentMaxTimeoutMs \<equiv> 1000"
abbreviation (input) kPresentChanged :: u32 where "kPresentChanged \<equiv> 1"
abbreviation (input) kPresentTimeout :: u32 where "kPresentTimeout \<equiv> 2"
abbreviation (input) kPresentPending :: u32 where "kPresentPending \<equiv> 4"
abbreviation (input) kTraceOverflow :: u32 where "kTraceOverflow \<equiv> 1"

definition vkms_crtc_init :: "u64 \<Rightarrow> u64 \<Rightarrow> vkms_output" where
  "vkms_crtc_init crtc primary =
     \<lparr>vo_crtc = crtc, vo_primary = primary,
      vo_present_timings = (\<lambda>_. \<lparr>ptm_timestamp_ns = 0, ptm_pending = False\<rparr>),
      vo_pending_present_state = None, vo_synthetic_vblank_counter = 0,
      vo_vrr_vblank_timestamp_ns = 0, vo_present_sequence = 0, vo_present_timestamp_ns = 0,
      vo_present_trace = replicate kTraceHistorySize \<lparr>tev_sequence = 0, tev_timestamp_ns = 0\<rparr>,
      vo_present_fb = 0, vo_present_waiters = 0, vo_present_waitq = Map.empty, vo_pending_commits = 0\<rparr>"

section \<open>From flush to publication\<close>

text \<open>The new timing of one commit, under the lock of the output.\<close>

definition on_timing :: "nat \<Rightarrow> (present_timing \<Rightarrow> present_timing) \<Rightarrow> vkms_output \<Rightarrow> vkms_output" where
  "on_timing i f output = output\<lparr>vo_present_timings :=
     (vo_present_timings output)(i := f (vo_present_timings output i))\<rparr>"

text \<open>
  \<open>vkms_crtc_atomic_flush\<close>, the part that decides the timing: whether the commit has an event,
  whether a vblank reference was granted, whether the event completes this commit's flip.
\<close>

definition vkms_crtc_atomic_flush :: "nat \<Rightarrow> bool \<Rightarrow> bool \<Rightarrow> bool \<Rightarrow> u64 \<Rightarrow> vkms_output \<Rightarrow> vkms_output" where
  "vkms_crtc_atomic_flush i has_event vblank_granted event_is_flip now output =
     (let armed = on_timing i vibeshine_drm_present_timing_arm output;
          immediate = on_timing i (\<lambda>t. fst (vibeshine_drm_present_timing_complete t True now)) armed in
      if has_event then
        (if \<not> vblank_granted then immediate
         else if event_is_flip then armed\<lparr>vo_pending_present_state := Some i\<rparr>
         else immediate)
      else immediate)"

text \<open>
  \<open>vkms_crtc_handle_vblank\<close>: what \<open>drm_crtc_handle_vblank\<close> answered, whether the flip of the
  tracked commit is done, the time of the vblank, and the clock.
\<close>

record vblank =
  vb_handled :: bool
  vb_flip_done :: bool
  vb_time :: u64
  vb_now :: u64

definition vkms_crtc_handle_vblank :: "vblank \<Rightarrow> vkms_output \<Rightarrow> vkms_output" where
  "vkms_crtc_handle_vblank v output =
     (let output1 = output\<lparr>vo_vrr_vblank_timestamp_ns := vb_now v,
            vo_synthetic_vblank_counter := vo_synthetic_vblank_counter output + 1\<rparr> in
      if \<not> vb_handled v then output1
      else
        (case vo_pending_present_state output1 of
           None \<Rightarrow> output1
         | Some i \<Rightarrow>
             if vb_flip_done v then
               let timestamp_ns = (if vb_time v = 0 then vb_now v else vb_time v) in
               (on_timing i (\<lambda>t. fst (vibeshine_drm_present_timing_complete t True timestamp_ns)) output1)
                 \<lparr>vo_pending_present_state := None\<rparr>
             else output1))"

definition vkms_crtc_take_present_timestamp ::
  "crtc_state option \<Rightarrow> u64 \<Rightarrow> vkms_output \<Rightarrow> vkms_output \<times> u64" where
  "vkms_crtc_take_present_timestamp crtc_state' now output =
     (case crtc_state' of
        None \<Rightarrow> (output, now)
      | Some s \<Rightarrow>
          let i = cst_identity s;
              output1 = (if vo_pending_present_state output = Some i
                         then output\<lparr>vo_pending_present_state := None\<rparr> else output);
              (timing, timestamp_ns) =
                vibeshine_drm_present_timing_finish (vo_present_timings output1 i) now in
          (on_timing i (\<lambda>_. timing) output1, timestamp_ns))"

section \<open>Publication\<close>

text \<open>
  References to framebuffers, counted for the whole device. \<open>drm_framebuffer_get\<close> and
  \<open>drm_framebuffer_put\<close> are guarded by \<open>NULL\<close> checks where they are called.
\<close>

type_synonym fb_refs = "u64 \<Rightarrow> int"

definition fb_get :: "u64 \<Rightarrow> fb_refs \<Rightarrow> fb_refs" where
  "fb_get fb refs = refs(fb := refs fb + 1)"

definition fb_put :: "u64 \<Rightarrow> fb_refs \<Rightarrow> fb_refs" where
  "fb_put fb refs = (if fb \<noteq> 0 then refs(fb := refs fb - 1) else refs)"

text \<open>Adding and removing a pending commit.\<close>

definition pending_commit_done :: "vkms_output \<Rightarrow> vkms_output" where
  "pending_commit_done output = output\<lparr>vo_pending_commits :=
     (if sint (vo_pending_commits output) \<le> 0 then 0 else vo_pending_commits output - 1)\<rparr>"

definition pending_commit_added :: "vkms_output \<Rightarrow> vkms_output" where
  "pending_commit_added output = output\<lparr>vo_pending_commits := vo_pending_commits output + 1\<rparr>"

text \<open>The new sequence number with its timestamp, in the output and in the trace.\<close>

definition record_presentation :: "u64 \<Rightarrow> vkms_output \<Rightarrow> vkms_output" where
  "record_presentation timestamp_ns output =
     (let completed_sequence = vo_present_sequence output + 1;
          slot = unat (completed_sequence - 1) mod kTraceHistorySize in
      output\<lparr>vo_present_timestamp_ns := timestamp_ns,
             vo_present_sequence := completed_sequence,
             vo_present_trace := (vo_present_trace output)
               [slot := \<lparr>tev_sequence = completed_sequence, tev_timestamp_ns = timestamp_ns\<rparr>]\<rparr>)"

text \<open>
  The section under \<open>present_lock\<close>, with the references taken before and dropped after it (the
  counters are atomic, so it makes no difference when).
\<close>

definition publish_presentation ::
  "bool \<Rightarrow> plane_state option \<Rightarrow> crtc_state option \<Rightarrow> u64 \<Rightarrow> vkms_output \<times> fb_refs \<Rightarrow> vkms_output \<times> fb_refs" where
  "publish_presentation scanout_changed primary_state crtc_state' timestamp_ns st =
     (let (output, refs) = st;
          new_present_fb = (case primary_state of
              None \<Rightarrow> 0
            | Some p \<Rightarrow> if pst_fb p \<noteq> 0 \<and> pst_visible p then pst_fb p else 0);
          refs1 = (if new_present_fb \<noteq> 0 then fb_get new_present_fb refs else refs);
          replaces = scanout_changed \<and> (primary_state \<noteq> None \<or>
            (case crtc_state' of None \<Rightarrow> False | Some c \<Rightarrow> \<not> cst_active c));
          old_present_fb = (if replaces then vo_present_fb output else 0);
          left_over = (if replaces then 0 else new_present_fb);
          output1 = (if replaces then output\<lparr>vo_present_fb := new_present_fb\<rparr> else output);
          output2 = (if scanout_changed then record_presentation timestamp_ns output1 else output1) in
      (pending_commit_done output2, fb_put left_over (fb_put old_present_fb refs1)))"

definition wake_up_interruptible :: "vkms_output \<Rightarrow> vkms_output" where
  "wake_up_interruptible output = output\<lparr>vo_present_waitq := (\<lambda>thread.
     (case vo_present_waitq output thread of
        Some (Asleep requested) \<Rightarrow> Some (Checking requested)
      | waiting \<Rightarrow> waiting))\<rparr>"

text \<open>
  The body of the loop of \<open>vkms_signal_presented_crtcs\<close> for a CRTC the commit touches, without
  interference: the timestamp is taken under the lock of the output, the frame is published under
  \<open>present_lock\<close>, and the waiters are woken.
\<close>

definition signal_presented ::
  "bool \<Rightarrow> plane_state option \<Rightarrow> crtc_state option \<Rightarrow> u64 \<Rightarrow> vkms_output \<times> fb_refs \<Rightarrow> vkms_output \<times> fb_refs" where
  "signal_presented scanout_changed primary_state crtc_state' now st =
     (let (output, refs) = st;
          (output1, timestamp_ns) = vkms_crtc_take_present_timestamp crtc_state' now output;
          (output2, refs2) = publish_presentation scanout_changed primary_state crtc_state' timestamp_ns
            (output1, refs) in
      (wake_up_interruptible output2, refs2))"

definition new_plane_state :: "atomic_commit \<Rightarrow> u64 \<Rightarrow> plane_state option" where
  "new_plane_state commit plane =
     (case map_of (ac_planes commit) plane of None \<Rightarrow> None | Some (old, new) \<Rightarrow> new)"

definition new_crtc_state :: "atomic_commit \<Rightarrow> u64 \<Rightarrow> crtc_state option" where
  "new_crtc_state commit crtc =
     (case map_of (ac_crtcs commit) crtc of None \<Rightarrow> None | Some (old, new) \<Rightarrow> new)"

fun vkms_signal_presented_crtcs ::
  "atomic_commit \<Rightarrow> u64 \<Rightarrow> vkms_output list \<times> fb_refs \<Rightarrow> vkms_output list \<times> fb_refs" where
  "vkms_signal_presented_crtcs commit now ([], refs) = ([], refs)"
| "vkms_signal_presented_crtcs commit now (output # outputs, refs) =
     (let crtc = vo_crtc output;
          (output1, refs1) =
            (if \<not> vkms_commit_touches_crtc commit crtc then (output, refs)
             else signal_presented (vkms_commit_changes_crtc commit crtc)
                    (new_plane_state commit (vo_primary output)) (new_crtc_state commit crtc) now
                    (output, refs));
          (outputs2, refs2) = vkms_signal_presented_crtcs commit now (outputs, refs1)
      in (output1 # outputs2, refs2))"

definition vkms_update_pending_crtcs :: "atomic_commit \<Rightarrow> bool \<Rightarrow> vkms_output list \<Rightarrow> vkms_output list" where
  "vkms_update_pending_crtcs commit add outputs =
     map (\<lambda>output. if \<not> vkms_commit_touches_crtc commit (vo_crtc output) then output
       else if add then pending_commit_added output
       else wake_up_interruptible (pending_commit_done output)) outputs"

definition vkms_crtc_release_presented_frame :: "vkms_output \<times> fb_refs \<Rightarrow> vkms_output \<times> fb_refs" where
  "vkms_crtc_release_presented_frame st =
     (let (output, refs) = st in (output\<lparr>vo_present_fb := 0\<rparr>, fb_put (vo_present_fb output) refs))"

section \<open>Requests\<close>

datatype errno = EINVAL | EACCES | ENOENT | EBUSY | ENODEV | EPERM | Errno int

record wait_present =
  wpr_abi_version :: u32
  wpr_crtc_id :: u32
  wpr_sequence :: u64
  wpr_timestamp_ns :: u64
  wpr_timeout_ms :: u32
  wpr_flags :: u32
  wpr_reserved :: "u64 list"

datatype present_wait_decision = ReturnCurrent | RegisterWaiter | RejectBusy

definition vibeshine_drm_present_request_valid :: "wait_present \<Rightarrow> bool" where
  "vibeshine_drm_present_request_valid request \<longleftrightarrow>
     wpr_abi_version request = 1 \<and> wpr_timeout_ms request \<le> kPresentMaxTimeoutMs \<and>
     wpr_reserved request ! 0 = 0 \<and> wpr_reserved request ! 1 = 0"

definition vibeshine_drm_present_decide_wait :: "wait_present \<Rightarrow> u64 \<Rightarrow> u32 \<Rightarrow> present_wait_decision" where
  "vibeshine_drm_present_decide_wait request current_sequence waiter_count =
     (if wpr_timeout_ms request = 0 \<or> current_sequence \<noteq> wpr_sequence request then ReturnCurrent
      else if waiter_count \<ge> kPresentMaxWaiters then RejectBusy
      else RegisterWaiter)"

definition vibeshine_drm_present_complete_response ::
  "wait_present \<Rightarrow> u64 \<Rightarrow> u64 \<Rightarrow> u64 \<Rightarrow> bool \<Rightarrow> wait_present" where
  "vibeshine_drm_present_complete_response request requested_sequence current_sequence timestamp_ns
     presentation_pending =
     (let flags = (if current_sequence \<noteq> requested_sequence then kPresentChanged else kPresentTimeout) in
      request\<lparr>wpr_sequence := current_sequence, wpr_timestamp_ns := timestamp_ns,
        wpr_flags := (if presentation_pending then flags OR kPresentPending else flags)\<rparr>)"

text \<open>
  \<open>vkms_wait_present_ioctl\<close> in its three holds of the lock: the decision whether to wait, the end
  of the wait, and the answer. Between them other threads run; the wait itself ends when the thread
  checks that \<open>wait_present_wakes\<close> holds, or is cut short by a signal or the timeout while it sleeps
  (when the condition holds by then, that counts as its end).
\<close>

definition wait_present_begin ::
  "bool \<Rightarrow> bool \<Rightarrow> wait_present \<Rightarrow> vkms_output \<Rightarrow> (errno + wait_present \<times> bool) \<times> vkms_output" where
  "wait_present_begin capable crtc_found request output =
     (if \<not> vibeshine_drm_present_request_valid request then (Inl EINVAL, output)
      else if \<not> capable then (Inl EACCES, output)
      else if \<not> crtc_found then (Inl ENOENT, output)
      else
        let request1 = request\<lparr>wpr_flags := 0, wpr_timestamp_ns := 0\<rparr> in
        (case vibeshine_drm_present_decide_wait request1 (vo_present_sequence output)
                (vo_present_waiters output) of
           RejectBusy \<Rightarrow> (Inl EBUSY, output)
         | RegisterWaiter \<Rightarrow>
             (Inr (request1, True), output\<lparr>vo_present_waiters := vo_present_waiters output + 1\<rparr>)
         | ReturnCurrent \<Rightarrow> (Inr (request1, False), output)))"

definition wait_present_wakes :: "u64 \<Rightarrow> vkms_output \<Rightarrow> bool" where
  "wait_present_wakes requested_sequence output \<longleftrightarrow> vo_present_sequence output \<noteq> requested_sequence"

definition wait_present_enter :: "nat \<Rightarrow> u64 \<Rightarrow> vkms_output \<Rightarrow> vkms_output" where
  "wait_present_enter thread requested output =
     output\<lparr>vo_present_waitq := (vo_present_waitq output)(thread \<mapsto> Checking requested)\<rparr>"

definition wait_present_check :: "nat \<Rightarrow> vkms_output \<Rightarrow> vkms_output" where
  "wait_present_check thread output =
     (case vo_present_waitq output thread of
        Some (Checking requested) \<Rightarrow>
          output\<lparr>vo_present_waitq := (vo_present_waitq output)(thread \<mapsto>
            (if wait_present_wakes requested output then Ended requested False else Asleep requested))\<rparr>
      | _ \<Rightarrow> output)"

definition wait_present_cut_short :: "nat \<Rightarrow> bool \<Rightarrow> vkms_output \<Rightarrow> vkms_output" where
  "wait_present_cut_short thread signalled output =
     (case vo_present_waitq output thread of
        Some (Asleep requested) \<Rightarrow>
          output\<lparr>vo_present_waitq := (vo_present_waitq output)(thread \<mapsto>
            Ended requested (signalled \<and> \<not> wait_present_wakes requested output))\<rparr>
      | _ \<Rightarrow> output)"

definition wait_present_leave :: "nat \<Rightarrow> vkms_output \<Rightarrow> vkms_output" where
  "wait_present_leave thread output = output\<lparr>vo_present_waiters := vo_present_waiters output - 1,
     vo_present_waitq := (vo_present_waitq output)(thread := None)\<rparr>"

definition wait_present_answer :: "wait_present \<Rightarrow> u64 \<Rightarrow> vkms_output \<Rightarrow> wait_present" where
  "wait_present_answer request requested_sequence output =
     vibeshine_drm_present_complete_response request requested_sequence (vo_present_sequence output)
       (vo_present_timestamp_ns output) (vo_pending_commits output \<noteq> 0)"

text \<open>After a signal the request fails with \<open>ERESTARTSYS\<close>, without an answer.\<close>

definition wait_present_result :: "bool \<Rightarrow> wait_present \<Rightarrow> u64 \<Rightarrow> vkms_output \<Rightarrow> errno + wait_present" where
  "wait_present_result interrupted request requested_sequence output =
     (if interrupted then Inl (Errno 512) else Inr (wait_present_answer request requested_sequence output))"

record present_trace_request =
  ptr_abi_version :: u32
  ptr_crtc_id :: u32
  ptr_after_sequence :: u64
  ptr_newest_sequence :: u64
  ptr_count :: u32
  ptr_flags :: u32
  ptr_events :: "trace_event list"
  ptr_reserved :: "u64 list"

definition expected_trace_request :: "u32 \<Rightarrow> u64 \<Rightarrow> present_trace_request" where
  "expected_trace_request crtc_id after_sequence =
     \<lparr>ptr_abi_version = 1, ptr_crtc_id = crtc_id, ptr_after_sequence = after_sequence,
      ptr_newest_sequence = 0, ptr_count = 0, ptr_flags = 0,
      ptr_events = replicate kTraceMaxEvents \<lparr>tev_sequence = 0, tev_timestamp_ns = 0\<rparr>,
      ptr_reserved = replicate 4 0\<rparr>"

definition vkms_present_trace_request_valid :: "present_trace_request \<Rightarrow> bool" where
  "vkms_present_trace_request_valid request \<longleftrightarrow>
     request = expected_trace_request (ptr_crtc_id request) (ptr_after_sequence request)"

text \<open>
  The copying loop; the first argument counts the sequence numbers up to the current one, and the
  third is the next of them.
\<close>

primrec trace_loop :: "nat \<Rightarrow> trace_event list \<Rightarrow> u64 \<Rightarrow> present_trace_request \<Rightarrow> present_trace_request" where
  "trace_loop 0 trace sequence request = request"
| "trace_loop (Suc n) trace sequence request =
     (if ptr_count request < of_nat kTraceMaxEvents then
        let event = trace ! (unat (sequence - 1) mod kTraceHistorySize) in
        trace_loop n trace (sequence + 1)
          (if tev_sequence event \<noteq> sequence
           then request\<lparr>ptr_flags := ptr_flags request OR kTraceOverflow\<rparr>
           else request\<lparr>ptr_events := (ptr_events request)[unat (ptr_count request) := event],
                        ptr_count := ptr_count request + 1\<rparr>)
      else request)"

definition vkms_get_present_trace_ioctl ::
  "bool \<Rightarrow> bool \<Rightarrow> present_trace_request \<Rightarrow> vkms_output \<Rightarrow> errno + present_trace_request" where
  "vkms_get_present_trace_ioctl capable crtc_found request output =
     (if \<not> vkms_present_trace_request_valid request then Inl EINVAL
      else if ptr_after_sequence request = - 1 then Inl EINVAL
      else if \<not> capable then Inl EACCES
      else if \<not> crtc_found then Inl ENOENT
      else
        let current_sequence = vo_present_sequence output;
            first_sequence = ptr_after_sequence request + 1;
            oldest_sequence = current_sequence - of_nat kTraceHistorySize + 1;
            overflow = current_sequence \<ge> of_nat kTraceHistorySize \<and> first_sequence < oldest_sequence;
            first_sequence1 = (if overflow then oldest_sequence else first_sequence);
            request1 = (if overflow then request\<lparr>ptr_flags := ptr_flags request OR kTraceOverflow\<rparr>
                        else request);
            request2 = request1\<lparr>ptr_newest_sequence := current_sequence\<rparr>
        in Inr (trace_loop (unat current_sequence + 1 - unat first_sequence1)
                  (vo_present_trace output) first_sequence1 request2))"

end
