(* ===== verification/Drm_Output_Theorems.thy ===== *)
theory Drm_Output_Theorems
  imports Drm_Output
begin

text \<open>
  What a capture client can rely on: the presentation system of one output as a step relation
  over the locked sections of the code, its invariant, and the properties of changes, timestamps,
  waits, the trace and the framebuffer reference.
\<close>

section \<open>Which commits change the scanout\<close>

text \<open>What of a state is shown: everything but the flags that only describe the update itself.\<close>

definition plane_shown :: "plane_state option \<Rightarrow> plane_state option" where
  "plane_shown = map_option (\<lambda>s. s\<lparr>pst_fence := False, pst_presentation_content_update := False,
     pst_fb_damage_clips := False, pst_color_mgmt_changed := False\<rparr>)"

definition plane_updated :: "plane_state option \<Rightarrow> bool" where
  "plane_updated state = (case state of None \<Rightarrow> False | Some s \<Rightarrow>
     pst_presentation_content_update s \<or> pst_fb_damage_clips s \<or> pst_color_mgmt_changed s)"

definition crtc_shown :: "crtc_state option \<Rightarrow> crtc_state option" where
  "crtc_shown = map_option (\<lambda>s. s\<lparr>cst_identity := 0, cst_color_mgmt_changed := False\<rparr>)"

definition crtc_updated :: "crtc_state option \<Rightarrow> bool" where
  "crtc_updated state = (case state of None \<Rightarrow> False | Some s \<Rightarrow> cst_color_mgmt_changed s)"

lemma plane_changes_iff:
  "vibeshine_drm_plane_changes_scanout (vkms_snapshot_plane_state old) (vkms_snapshot_plane_state new)
   \<longleftrightarrow> plane_shown old \<noteq> plane_shown new \<or> plane_updated new"
proof (cases "\<exists>a b. old = Some a \<and> new = Some b")
  case True
  then obtain a b where "old = Some a" "new = Some b" by blast
  then show ?thesis
    by (cases a; cases b)
       (simp add: vibeshine_drm_plane_changes_scanout_def vkms_snapshot_plane_state_def plane_shown_def
          plane_updated_def; blast)
qed (cases old; cases new; simp add: vibeshine_drm_plane_changes_scanout_def
  vkms_snapshot_plane_state_def plane_shown_def plane_updated_def)

lemma crtc_changes_iff:
  "vibeshine_drm_crtc_changes_scanout (vkms_snapshot_crtc_state old) (vkms_snapshot_crtc_state new)
   \<longleftrightarrow> crtc_shown old \<noteq> crtc_shown new \<or> crtc_updated new"
proof (cases "\<exists>a b. old = Some a \<and> new = Some b")
  case True
  then obtain a b where "old = Some a" "new = Some b" by blast
  then show ?thesis
    by (cases a; cases b)
       (simp add: vibeshine_drm_crtc_changes_scanout_def vkms_snapshot_crtc_state_def crtc_shown_def
          crtc_updated_def; blast)
qed (cases old; cases new; simp add: vibeshine_drm_crtc_changes_scanout_def
  vkms_snapshot_crtc_state_def crtc_shown_def crtc_updated_def)

lemma connector_changes_iff:
  "vibeshine_drm_connector_changes_scanout
     (vkms_snapshot_connector_state old) (vkms_snapshot_connector_state new) \<longleftrightarrow> old \<noteq> new"
proof (cases "\<exists>a b. old = Some a \<and> new = Some b")
  case True
  then obtain a b where "old = Some a" "new = Some b" by blast
  then show ?thesis
    by (cases a; cases b)
       (simp add: vibeshine_drm_connector_changes_scanout_def vkms_snapshot_connector_state_def; blast)
qed (cases old; cases new; simp add: vibeshine_drm_connector_changes_scanout_def
  vkms_snapshot_connector_state_def)

text \<open>
  C40: A commit counts as a new frame of a CRTC exactly when something that is shown there differs
  between the old and the new states of the CRTC, of a plane on it or of a connector on it, or
  when the commit says that the pixels or colours behind equal states were updated. No field that
  is shown is overlooked, and nothing else makes a frame.
\<close>

theorem scanout_change_exact:
  "vkms_commit_changes_crtc commit target \<longleftrightarrow>
     (\<exists>old new. (target, old, new) \<in> set (ac_crtcs commit) \<and>
        (crtc_shown old \<noteq> crtc_shown new \<or> crtc_updated new)) \<or>
     (\<exists>plane old new. (plane, old, new) \<in> set (ac_planes commit) \<and>
        (plane_on target old \<or> plane_on target new) \<and>
        (plane_shown old \<noteq> plane_shown new \<or> plane_updated new)) \<or>
     (\<exists>old new. (old, new) \<in> set (ac_connectors commit) \<and>
        (connector_on target old \<or> connector_on target new) \<and> old \<noteq> new)"
  unfolding vkms_commit_changes_crtc_def plane_changes_iff crtc_changes_iff connector_changes_iff
  by (auto simp: list_ex_iff)

theorem scanout_change_exact_witness:
  "\<exists>(c :: connector_state) commit. ac_connectors commit = [(Some c, None)] \<and>
     vkms_commit_changes_crtc commit 7 \<and> \<not> vkms_commit_changes_crtc commit 8"
proof -
  obtain c :: connector_state where c: "cns_crtc c = 7"
    using that[of "undefined\<lparr>cns_crtc := 7\<rparr>"] by simp
  define commit where
    "commit = \<lparr>ac_crtcs = [], ac_planes = [], ac_connectors = [(Some c, None)]\<rparr>"
  have "vkms_commit_changes_crtc commit 7" "\<not> vkms_commit_changes_crtc commit 8"
    unfolding scanout_change_exact by (simp_all add: commit_def connector_on_def c)
  then show ?thesis by (auto simp: commit_def intro!: exI[of _ c] exI[of _ commit])
qed

section \<open>Timestamps\<close>

lemma on_timing_simps [simp]:
  "vo_present_timings (on_timing i f output) = (vo_present_timings output)(i := f (vo_present_timings output i))"
  "vo_pending_present_state (on_timing i f output) = vo_pending_present_state output"
  "vo_present_sequence (on_timing i f output) = vo_present_sequence output"
  "vo_present_timestamp_ns (on_timing i f output) = vo_present_timestamp_ns output"
  "vo_present_trace (on_timing i f output) = vo_present_trace output"
  "vo_present_fb (on_timing i f output) = vo_present_fb output"
  "vo_present_waiters (on_timing i f output) = vo_present_waiters output"
  "vo_pending_commits (on_timing i f output) = vo_pending_commits output"
  "vo_present_waitq (on_timing i f output) = vo_present_waitq output"
  by (simp_all add: on_timing_def)

text \<open>The time a vblank stands for, and the vblank that completes the tracked commit.\<close>

definition vblank_timestamp :: "vblank \<Rightarrow> u64" where
  "vblank_timestamp v = (if vb_time v = 0 then vb_now v else vb_time v)"

definition completes :: "vblank \<Rightarrow> bool" where
  "completes v \<longleftrightarrow> vb_handled v \<and> vb_flip_done v"

lemma vblank_idle:
  assumes "vo_pending_present_state output = None \<or> \<not> completes v"
  shows "vo_present_timings (vkms_crtc_handle_vblank v output) = vo_present_timings output"
    and "vo_pending_present_state (vkms_crtc_handle_vblank v output) = vo_pending_present_state output"
  using assms by (auto simp: vkms_crtc_handle_vblank_def completes_def Let_def split: option.splits)

lemma vblank_completing:
  assumes "vo_pending_present_state output = Some i" and "completes v"
    and "vo_present_timings output i = \<lparr>ptm_timestamp_ns = 0, ptm_pending = True\<rparr>"
    and "vblank_timestamp v \<noteq> 0"
  shows "ptm_timestamp_ns (vo_present_timings (vkms_crtc_handle_vblank v output) i) = vblank_timestamp v"
    and "vo_pending_present_state (vkms_crtc_handle_vblank v output) = None"
  using assms by (simp_all add: vkms_crtc_handle_vblank_def completes_def vblank_timestamp_def Let_def
      vibeshine_drm_present_timing_complete_def)

lemma vblanks_after_completion:
  "vo_pending_present_state output = None \<Longrightarrow>
   vo_present_timings (fold vkms_crtc_handle_vblank vs output) = vo_present_timings output \<and>
   vo_pending_present_state (fold vkms_crtc_handle_vblank vs output) = None"
  by (induction vs arbitrary: "output") (simp_all add: vblank_idle)

lemma vblanks_complete:
  assumes "vo_pending_present_state output = Some i"
    and "vo_present_timings output i = \<lparr>ptm_timestamp_ns = 0, ptm_pending = True\<rparr>"
    and "\<forall>v \<in> set vs. vblank_timestamp v \<noteq> 0"
  shows "ptm_timestamp_ns (vo_present_timings (fold vkms_crtc_handle_vblank vs output) i) =
    (case find completes vs of None \<Rightarrow> 0 | Some v \<Rightarrow> vblank_timestamp v)"
  using assms
proof (induction vs arbitrary: "output")
  case (Cons v vs)
  show ?case
  proof (cases "completes v")
    case True
    then show ?thesis
      using Cons.prems vblank_completing[of "output" i v]
        vblanks_after_completion[of "vkms_crtc_handle_vblank v output" vs] by simp
  next
    case False
    then show ?thesis using Cons.prems Cons.IH by (simp add: vblank_idle)
  qed
qed simp

text \<open>
  The timestamp published for a commit is that of its own flip. For a commit whose event is
  tied to its flip it is the time of the first vblank after the flush that completes the flip,
  whatever vblanks follow before the publication; without such a vblank (a flip timeout) it is
  the time of the publication; every other commit is stamped with the time of its flush. And
  after the publication no vblank changes it any more.
\<close>

theorem published_timestamp_exact:
  assumes "\<forall>v \<in> set vs. vblank_timestamp v \<noteq> 0" and "flush_time \<noteq> 0" and "cst_identity c = i"
    and "vo_pending_present_state output = None"
  shows "let flushed = vkms_crtc_atomic_flush i has_event granted is_flip flush_time output;
             presented = fold vkms_crtc_handle_vblank vs flushed;
             (published, timestamp) = vkms_crtc_take_present_timestamp (Some c) now presented
         in timestamp = (if has_event \<and> granted \<and> is_flip
                         then case find completes vs of None \<Rightarrow> now | Some v \<Rightarrow> vblank_timestamp v
                         else flush_time) \<and>
            vo_present_timings (fold vkms_crtc_handle_vblank later published) i =
              vo_present_timings published i"
proof -
  define flushed where "flushed = vkms_crtc_atomic_flush i has_event granted is_flip flush_time output"
  define presented where "presented = fold vkms_crtc_handle_vblank vs flushed"
  define published where "published = fst (vkms_crtc_take_present_timestamp (Some c) now presented)"
  let ?stamp = "ptm_timestamp_ns (vo_present_timings presented i)"
  have stamp: "?stamp = (if has_event \<and> granted \<and> is_flip
      then case find completes vs of None \<Rightarrow> 0 | Some v \<Rightarrow> vblank_timestamp v else flush_time)"
  proof (cases "has_event \<and> granted \<and> is_flip")
    case True
    then have "vo_pending_present_state flushed = Some i"
      "vo_present_timings flushed i = \<lparr>ptm_timestamp_ns = 0, ptm_pending = True\<rparr>"
      by (simp_all add: flushed_def vkms_crtc_atomic_flush_def Let_def
          vibeshine_drm_present_timing_arm_def)
    then show ?thesis using vblanks_complete[OF _ _ assms(1)] True by (simp add: presented_def)
  next
    case False
    then have "vo_pending_present_state flushed = None"
      "ptm_timestamp_ns (vo_present_timings flushed i) = flush_time"
      using assms(2,4) by (auto simp: flushed_def vkms_crtc_atomic_flush_def Let_def
          vibeshine_drm_present_timing_arm_def vibeshine_drm_present_timing_complete_def)
    then show ?thesis using vblanks_after_completion[of flushed vs] False
      by (auto simp: presented_def)
  qed
  have "vo_pending_present_state flushed \<in> {None, Some i}"
    using assms(4) by (simp add: flushed_def vkms_crtc_atomic_flush_def Let_def)
  then have "vo_pending_present_state presented \<in> {None, Some i}"
    unfolding presented_def
  proof (induction vs arbitrary: flushed)
    case (Cons v vs)
    have "vo_pending_present_state (vkms_crtc_handle_vblank v flushed) \<in> {None, Some i}"
      using Cons.prems by (auto simp: vkms_crtc_handle_vblank_def Let_def split: option.splits)
    then show ?case using Cons.IH by simp
  qed simp
  then have "vo_pending_present_state published = None"
    using assms(3) by (auto simp: published_def vkms_crtc_take_present_timestamp_def Let_def split_beta)
  then have "vo_present_timings (fold vkms_crtc_handle_vblank later published) = vo_present_timings published"
    using vblanks_after_completion by blast
  moreover have "snd (vkms_crtc_take_present_timestamp (Some c) now presented) =
      (if ?stamp \<noteq> 0 then ?stamp else now)"
    using assms(3) by (simp add: vkms_crtc_take_present_timestamp_def Let_def
        vibeshine_drm_present_timing_finish_def)
  moreover have "vblank_timestamp v \<noteq> 0" if "find completes vs = Some v" for v
    using that assms(1) by (auto simp: find_Some_iff)
  ultimately show ?thesis
    using stamp assms(2)
    by (auto simp: Let_def split_beta flushed_def[symmetric] presented_def[symmetric]
        published_def[symmetric] split: option.splits)
qed

definition example_crtc_state :: crtc_state where
  "example_crtc_state =
     \<lparr>cst_identity = 5, cst_enable = True, cst_active = True, cst_color_mgmt_changed = False,
      cst_plane_mask = 1, cst_connector_mask = 1, cst_encoder_mask = 1, cst_mode_blob = 0,
      cst_degamma_lut = 0, cst_ctm = 0, cst_gamma_lut = 0, cst_background_color = 0,
      cst_scaling_filter = 0, cst_sharpness_strength = 0, cst_vrr_enabled = False\<rparr>"

definition example_vblanks :: "vblank list" where
  "example_vblanks =
     [\<lparr>vb_handled = True, vb_flip_done = False, vb_time = 10, vb_now = 11\<rparr>,
      \<lparr>vb_handled = True, vb_flip_done = True, vb_time = 20, vb_now = 21\<rparr>,
      \<lparr>vb_handled = True, vb_flip_done = True, vb_time = 30, vb_now = 31\<rparr>]"

theorem published_timestamp_exact_witness:
  "snd (vkms_crtc_take_present_timestamp (Some example_crtc_state) 40
     (fold vkms_crtc_handle_vblank example_vblanks
       (vkms_crtc_atomic_flush 5 True True True 9 (vkms_crtc_init 1 2)))) = 20"
proof -
  have timestamps: "\<forall>v \<in> set example_vblanks. vblank_timestamp v \<noteq> 0"
    by (simp add: example_vblanks_def vblank_timestamp_def)
  have first: "find completes example_vblanks = Some (example_vblanks ! 1)"
    by (simp add: example_vblanks_def completes_def)
  show ?thesis
    using published_timestamp_exact[OF timestamps, of 9 example_crtc_state 5 "vkms_crtc_init 1 2"
        True True True 40 "[]"]
    by (simp add: first Let_def split_beta example_crtc_state_def vkms_crtc_init_def)
       (simp add: example_vblanks_def vblank_timestamp_def)
qed

section \<open>The presentation system\<close>

text \<open>
  The output (which holds the waiting threads) with the references its device holds, the commits
  that are about to be published or have been and must still wake the waiters, and, as a
  specification, the timestamps of all presentations.
\<close>

datatype commit_phase = Stamped bool "plane_state option" "crtc_state option" u64 | Waking

record present_system =
  sys_output :: vkms_output
  sys_refs :: fb_refs
  sys_commits :: "nat \<rightharpoonup> commit_phase"
  sys_history :: "u64 list"

definition initial_system :: "u64 \<Rightarrow> u64 \<Rightarrow> fb_refs \<Rightarrow> present_system" where
  "initial_system crtc primary refs =
     \<lparr>sys_output = vkms_crtc_init crtc primary, sys_refs = refs, sys_commits = Map.empty, sys_history = []\<rparr>"

inductive present_step :: "present_system \<Rightarrow> present_system \<Rightarrow> bool" where
  wait_registered:
    "wait_present_begin capable found request (sys_output s) = (Inr (request1, True), output1) \<Longrightarrow>
     vo_present_waitq (sys_output s) thread = None \<Longrightarrow>
     present_step s (s\<lparr>sys_output := wait_present_enter thread (wpr_sequence request) output1\<rparr>)"
| wait_checks: "present_step s (s\<lparr>sys_output := wait_present_check thread (sys_output s)\<rparr>)"
| wait_cut_short:
    "present_step s (s\<lparr>sys_output := wait_present_cut_short thread signalled (sys_output s)\<rparr>)"
| wait_left:
    "vo_present_waitq (sys_output s) thread = Some (Ended requested interrupted) \<Longrightarrow>
     present_step s (s\<lparr>sys_output := wait_present_leave thread (sys_output s)\<rparr>)"
| stamped:
    "sys_commits s c = None \<Longrightarrow>
     vkms_crtc_take_present_timestamp crtc now (sys_output s) = (output1, timestamp_ns) \<Longrightarrow>
     present_step s (s\<lparr>sys_output := output1,
       sys_commits := (sys_commits s)(c \<mapsto> Stamped changed primary crtc timestamp_ns)\<rparr>)"
| published:
    "sys_commits s c = Some (Stamped changed primary crtc timestamp_ns) \<Longrightarrow>
     publish_presentation changed primary crtc timestamp_ns (sys_output s, sys_refs s) = (output1, refs1) \<Longrightarrow>
     present_step s (s\<lparr>sys_output := output1, sys_refs := refs1, sys_commits := (sys_commits s)(c \<mapsto> Waking),
       sys_history := (if changed then sys_history s @ [timestamp_ns] else sys_history s)\<rparr>)"
| woken:
    "sys_commits s c = Some Waking \<Longrightarrow>
     present_step s (s\<lparr>sys_output := wake_up_interruptible (sys_output s),
       sys_commits := (sys_commits s)(c := None)\<rparr>)"
| commit_added: "present_step s (s\<lparr>sys_output := pending_commit_added (sys_output s)\<rparr>)"
| commit_failed:
    "present_step s (s\<lparr>sys_output := wake_up_interruptible (pending_commit_done (sys_output s))\<rparr>)"
| flushed:
    "present_step s (s\<lparr>sys_output :=
       vkms_crtc_atomic_flush i has_event granted is_flip now (sys_output s)\<rparr>)"
| vblank_came: "present_step s (s\<lparr>sys_output := vkms_crtc_handle_vblank v (sys_output s)\<rparr>)"
| released:
    "vkms_crtc_release_presented_frame (sys_output s, sys_refs s) = (output1, refs1) \<Longrightarrow>
     present_step s (s\<lparr>sys_output := output1, sys_refs := refs1\<rparr>)"

inductive_cases present_stepE: "present_step s t"

text \<open>
  The entry the trace keeps of the presentation with index \<open>i\<close> (its sequence number is
  \<open>i + 1\<close>), and the invariant.
\<close>

definition trace_entry :: "u64 list \<Rightarrow> nat \<Rightarrow> trace_event" where
  "trace_entry history i = \<lparr>tev_sequence = of_nat (i + 1), tev_timestamp_ns = history ! i\<rparr>"

definition trace_ok :: "trace_event list \<Rightarrow> u64 list \<Rightarrow> bool" where
  "trace_ok trace history \<longleftrightarrow> length trace = kTraceHistorySize \<and>
     (length history < 2 ^ 64 \<longrightarrow>
       (\<forall>i < length history. length history \<le> i + kTraceHistorySize \<longrightarrow>
          trace ! (i mod kTraceHistorySize) = trace_entry history i))"

definition present_inv :: "fb_refs \<Rightarrow> present_system \<Rightarrow> bool" where
  "present_inv base s \<longleftrightarrow>
     finite (dom (vo_present_waitq (sys_output s))) \<and>
     unat (vo_present_waiters (sys_output s)) = card (dom (vo_present_waitq (sys_output s))) \<and>
     vo_present_waiters (sys_output s) \<le> kPresentMaxWaiters \<and>
     vo_present_sequence (sys_output s) = of_nat (length (sys_history s)) \<and>
     trace_ok (vo_present_trace (sys_output s)) (sys_history s) \<and>
     (sys_history s \<noteq> [] \<longrightarrow> vo_present_timestamp_ns (sys_output s) = last (sys_history s)) \<and>
     (\<forall>fb. sys_refs s fb = base fb + (if fb \<noteq> 0 \<and> vo_present_fb (sys_output s) = fb then 1 else 0))"

lemma trace_ok_initial: "trace_ok (vo_present_trace (vkms_crtc_init crtc primary)) []"
  by (simp add: trace_ok_def vkms_crtc_init_def)

lemma mod_apart: "i < n \<Longrightarrow> n < i + k \<Longrightarrow> i mod k \<noteq> n mod (k :: nat)"
proof
  assume i: "i < n" "n < i + k" and "i mod k = n mod k"
  then have "k dvd n - i" by (metis mod_eq_dvd_iff_nat less_imp_le)
  then show False using i by (auto dest: dvd_imp_le)
qed

lemma trace_ok_record:
  assumes "trace_ok (vo_present_trace output) history"
    and "vo_present_sequence output = of_nat (length history)"
  shows "trace_ok (vo_present_trace (record_presentation ts output)) (history @ [ts])"
proof -
  let ?n = "length history"
  have "vo_present_trace (record_presentation ts output) ! (i mod kTraceHistorySize) =
      trace_entry (history @ [ts]) i"
    if small: "Suc ?n < 2 ^ 64" and i: "i < Suc ?n" "Suc ?n \<le> i + kTraceHistorySize" for i
  proof -
    have slot: "unat (of_nat ?n :: u64) = ?n" using small by (simp add: unat_of_nat)
    show ?thesis
    proof (cases "i = ?n")
      case True
      then show ?thesis using assms slot
        by (simp add: record_presentation_def Let_def trace_ok_def trace_entry_def add.commute)
    next
      case False
      then have "i mod kTraceHistorySize \<noteq> ?n mod kTraceHistorySize"
        using i by (intro mod_apart) simp_all
      then show ?thesis using assms slot False i small
        by (simp add: record_presentation_def Let_def trace_ok_def trace_entry_def nth_append)
    qed
  qed
  then show ?thesis using assms by (auto simp: trace_ok_def record_presentation_def Let_def)
qed

lemma take_timestamp_frame:
  "vkms_crtc_take_present_timestamp c now output = (output1, ts) \<Longrightarrow>
   vo_present_sequence output1 = vo_present_sequence output \<and>
   vo_present_trace output1 = vo_present_trace output \<and> vo_present_fb output1 = vo_present_fb output \<and>
   vo_present_waiters output1 = vo_present_waiters output \<and> vo_present_waitq output1 = vo_present_waitq output \<and>
   vo_present_timestamp_ns output1 = vo_present_timestamp_ns output \<and>
   vo_pending_commits output1 = vo_pending_commits output"
  by (auto simp: vkms_crtc_take_present_timestamp_def Let_def split_beta split: option.splits if_splits)

lemma pending_commit_done_frame [simp]:
  "vo_present_waiters (pending_commit_done output) = vo_present_waiters output"
  "vo_present_sequence (pending_commit_done output) = vo_present_sequence output"
  "vo_present_trace (pending_commit_done output) = vo_present_trace output"
  "vo_present_timestamp_ns (pending_commit_done output) = vo_present_timestamp_ns output"
  "vo_present_fb (pending_commit_done output) = vo_present_fb output"
  "vo_present_waitq (pending_commit_done output) = vo_present_waitq output"
  by (simp_all add: pending_commit_done_def)

lemma record_presentation_frame [simp]:
  "vo_present_waiters (record_presentation ts output) = vo_present_waiters output"
  "vo_present_sequence (record_presentation ts output) = vo_present_sequence output + 1"
  "vo_present_timestamp_ns (record_presentation ts output) = ts"
  "vo_present_fb (record_presentation ts output) = vo_present_fb output"
  "vo_present_waitq (record_presentation ts output) = vo_present_waitq output"
  by (simp_all add: record_presentation_def Let_def)

lemma record_presentation_trace:
  "vo_present_trace output1 = vo_present_trace output \<Longrightarrow>
   vo_present_sequence output1 = vo_present_sequence output \<Longrightarrow>
   vo_present_trace (record_presentation ts output1) = vo_present_trace (record_presentation ts output)"
  by (simp add: record_presentation_def Let_def)

lemma fb_put_apply: "fb_put fb refs x = refs x - (if x \<noteq> 0 \<and> fb = x then 1 else 0)"
  by (simp add: fb_put_def)

lemma wake_up_frame [simp]:
  "vo_present_waiters (wake_up_interruptible output) = vo_present_waiters output"
  "vo_present_sequence (wake_up_interruptible output) = vo_present_sequence output"
  "vo_present_trace (wake_up_interruptible output) = vo_present_trace output"
  "vo_present_timestamp_ns (wake_up_interruptible output) = vo_present_timestamp_ns output"
  "vo_present_fb (wake_up_interruptible output) = vo_present_fb output"
  "dom (vo_present_waitq (wake_up_interruptible output)) = dom (vo_present_waitq output)"
  by (auto simp: wake_up_interruptible_def split: option.splits waiter.splits)

lemma wait_moves_frame:
  "wait_present_check thread output = output\<lparr>vo_present_waitq := vo_present_waitq (wait_present_check thread output)\<rparr>"
  "wait_present_cut_short thread signalled output =
     output\<lparr>vo_present_waitq := vo_present_waitq (wait_present_cut_short thread signalled output)\<rparr>"
  "dom (vo_present_waitq (wait_present_check thread output)) = dom (vo_present_waitq output)"
  "dom (vo_present_waitq (wait_present_cut_short thread signalled output)) = dom (vo_present_waitq output)"
  by (auto simp: wait_present_check_def wait_present_cut_short_def split: option.splits waiter.splits)

text \<open>What a publication does to the output and to the references.\<close>

lemma publish_effect:
  assumes "publish_presentation changed primary crtc ts (output, refs) = (output1, refs1)"
  shows "vo_present_waiters output1 = vo_present_waiters output"
    and "vo_present_waitq output1 = vo_present_waitq output"
    and "vo_present_sequence output1 = vo_present_sequence output + (if changed then 1 else 0)"
    and "vo_present_trace output1 =
      (if changed then vo_present_trace (record_presentation ts output) else vo_present_trace output)"
    and "vo_present_timestamp_ns output1 = (if changed then ts else vo_present_timestamp_ns output)"
    and "refs1 fb = refs fb + (if fb \<noteq> 0 \<and> vo_present_fb output1 = fb then 1 else 0)
      - (if fb \<noteq> 0 \<and> vo_present_fb output = fb then 1 else 0)"
proof -
  define new_fb where "new_fb =
    (case primary of None \<Rightarrow> 0 | Some p \<Rightarrow> if pst_fb p \<noteq> 0 \<and> pst_visible p then pst_fb p else 0)"
  define replaces where "replaces \<longleftrightarrow> changed \<and> (primary \<noteq> None \<or>
    (case crtc of None \<Rightarrow> False | Some c \<Rightarrow> \<not> cst_active c))"
  define shown where "shown = (if replaces then output\<lparr>vo_present_fb := new_fb\<rparr> else output)"
  have result: "output1 = pending_commit_done (if changed then record_presentation ts shown else shown)"
    "refs1 = fb_put (if replaces then 0 else new_fb)
      (fb_put (if replaces then vo_present_fb output else 0) (if new_fb \<noteq> 0 then fb_get new_fb refs else refs))"
    using assms unfolding publish_presentation_def new_fb_def[symmetric] replaces_def[symmetric]
    by (simp_all add: Let_def shown_def new_fb_def[symmetric] replaces_def[symmetric] split: if_splits)
  have frame: "vo_present_sequence shown = vo_present_sequence output"
    "vo_present_trace shown = vo_present_trace output" "vo_present_waiters shown = vo_present_waiters output"
    "vo_present_waitq shown = vo_present_waitq output"
    "vo_present_timestamp_ns shown = vo_present_timestamp_ns output"
    "vo_present_fb shown = (if replaces then new_fb else vo_present_fb output)"
    by (simp_all add: shown_def)
  show "vo_present_waiters output1 = vo_present_waiters output"
    and "vo_present_waitq output1 = vo_present_waitq output"
    and "vo_present_sequence output1 = vo_present_sequence output + (if changed then 1 else 0)"
    and "vo_present_trace output1 =
      (if changed then vo_present_trace (record_presentation ts output) else vo_present_trace output)"
    and "vo_present_timestamp_ns output1 = (if changed then ts else vo_present_timestamp_ns output)"
    using frame record_presentation_trace[OF frame(2,1)] by (simp_all add: result(1))
  show "refs1 fb = refs fb + (if fb \<noteq> 0 \<and> vo_present_fb output1 = fb then 1 else 0)
      - (if fb \<noteq> 0 \<and> vo_present_fb output = fb then 1 else 0)"
    using frame(6) by (auto simp: result fb_put_apply fb_get_def)
qed

lemma signal_presented_effect:
  "vo_present_sequence (fst (signal_presented True primary crtc now (output, refs))) =
     vo_present_sequence output + 1"
  "vo_present_waitq (fst (signal_presented True primary crtc now (output, refs))) =
     vo_present_waitq (wake_up_interruptible output)"
proof -
  obtain output1 ts where stamp: "vkms_crtc_take_present_timestamp crtc now output = (output1, ts)" by fastforce
  obtain output2 refs2 where publish: "publish_presentation True primary crtc ts (output1, refs) = (output2, refs2)"
    by fastforce
  have result: "fst (signal_presented True primary crtc now (output, refs)) = wake_up_interruptible output2"
    by (simp add: signal_presented_def stamp publish)
  show "vo_present_sequence (fst (signal_presented True primary crtc now (output, refs))) =
      vo_present_sequence output + 1"
    unfolding result using publish_effect(3)[OF publish] take_timestamp_frame[OF stamp] by simp
  show "vo_present_waitq (fst (signal_presented True primary crtc now (output, refs))) =
      vo_present_waitq (wake_up_interruptible output)"
    unfolding result using publish_effect(2)[OF publish] take_timestamp_frame[OF stamp]
    by (simp add: wake_up_interruptible_def)
qed

lemma wait_registered_effect:
  assumes "wait_present_begin capable found request output = (Inr (request1, True), output1)"
  shows "output1 = output\<lparr>vo_present_waiters := vo_present_waiters output + 1\<rparr>"
    and "vo_present_waiters output < kPresentMaxWaiters"
    and "wpr_sequence request = vo_present_sequence output" and "wpr_sequence request1 = wpr_sequence request"
  using assms
  by (auto simp: wait_present_begin_def vibeshine_drm_present_decide_wait_def Let_def
      split: if_splits present_wait_decision.splits)

lemma wait_left_inv:
  assumes "present_inv base s" and "vo_present_waitq (sys_output s) thread = Some x"
  shows "present_inv base (s\<lparr>sys_output := wait_present_leave thread (sys_output s)\<rparr>)"
proof -
  let ?n = "vo_present_waiters (sys_output s)" and ?q = "vo_present_waitq (sys_output s)"
  have dom: "thread \<in> dom ?q" using assms(2) by auto
  have waiters: "finite (dom ?q)" "unat ?n = card (dom ?q)" "?n \<le> kPresentMaxWaiters"
    using assms(1) unfolding present_inv_def by blast+
  have pos: "?n \<noteq> 0" using waiters(1,2) dom by (auto simp: unat_eq_0[symmetric])
  then have less: "unat (?n - 1) = unat ?n - 1" by (rule unat_minus_one)
  have "unat (?n - 1) = card (dom (?q(thread := None)))"
    unfolding less waiters(2) using dom waiters(1) by (simp add: card_Diff_singleton)
  moreover have "?n - 1 \<le> kPresentMaxWaiters"
    using waiters(3) less unfolding word_le_nat_alt by linarith
  moreover have "finite (dom (?q(thread := None)))" using waiters(1) by simp
  ultimately show ?thesis
    using assms(1) unfolding present_inv_def wait_present_leave_def by simp
qed

lemma wait_registered_inv:
  assumes "present_inv base s"
    and "wait_present_begin capable found request (sys_output s) = (Inr (request1, True), output1)"
    and "vo_present_waitq (sys_output s) thread = None"
  shows "present_inv base (s\<lparr>sys_output := wait_present_enter thread q output1\<rparr>)"
proof -
  let ?n = "vo_present_waiters (sys_output s)" and ?q = "vo_present_waitq (sys_output s)"
  note effect = wait_registered_effect[OF assms(2)]
  have waiters: "finite (dom ?q)" "unat ?n = card (dom ?q)"
    using assms(1) unfolding present_inv_def by blast+
  have more: "unat (?n + 1) = Suc (unat ?n)" by (rule unat_Suc_word[OF effect(2)])
  have "unat (?n + 1) = card (dom (?q(thread \<mapsto> Checking q)))"
    unfolding more waiters(2) using waiters(1) assms(3) by (simp add: domIff)
  moreover have "?n + 1 \<le> kPresentMaxWaiters"
    using effect(2) more unfolding word_less_nat_alt word_le_nat_alt by linarith
  moreover have "finite (dom (?q(thread \<mapsto> Checking q)))" using waiters(1) by simp
  ultimately show ?thesis
    using assms(1) unfolding present_inv_def effect(1) by (simp add: wait_present_enter_def)
qed

lemma published_inv:
  assumes "present_inv base s"
    and "publish_presentation changed primary crtc ts (sys_output s, sys_refs s) = (output1, refs1)"
  shows "present_inv base (s\<lparr>sys_output := output1, sys_refs := refs1, sys_commits := commits,
    sys_history := (if changed then sys_history s @ [ts] else sys_history s)\<rparr>)"
proof -
  note effect = publish_effect[OF assms(2)]
  have inv: "vo_present_sequence (sys_output s) = of_nat (length (sys_history s))"
    "trace_ok (vo_present_trace (sys_output s)) (sys_history s)"
    using assms(1) unfolding present_inv_def by blast+
  have "trace_ok (vo_present_trace (record_presentation ts (sys_output s))) (sys_history s @ [ts])"
    by (rule trace_ok_record[OF inv(2,1)])
  then show ?thesis
    using assms(1) effect unfolding present_inv_def by (cases changed) (simp_all add: add.commute)
qed

text \<open>A step that keeps what the invariant speaks of.\<close>

lemma present_inv_same:
  assumes "present_inv base s"
    and "vo_present_waiters output = vo_present_waiters (sys_output s)"
    and "dom (vo_present_waitq output) = dom (vo_present_waitq (sys_output s))"
    and "vo_present_sequence output = vo_present_sequence (sys_output s)"
    and "vo_present_trace output = vo_present_trace (sys_output s)"
    and "vo_present_timestamp_ns output = vo_present_timestamp_ns (sys_output s)"
    and "vo_present_fb output = vo_present_fb (sys_output s)"
  shows "present_inv base (s\<lparr>sys_output := output, sys_commits := commits\<rparr>)"
  using assms unfolding present_inv_def by simp

lemma flush_frame:
  "vo_present_waiters (vkms_crtc_atomic_flush i e g f now output) = vo_present_waiters output"
  "vo_present_waitq (vkms_crtc_atomic_flush i e g f now output) = vo_present_waitq output"
  "vo_present_sequence (vkms_crtc_atomic_flush i e g f now output) = vo_present_sequence output"
  "vo_present_trace (vkms_crtc_atomic_flush i e g f now output) = vo_present_trace output"
  "vo_present_timestamp_ns (vkms_crtc_atomic_flush i e g f now output) = vo_present_timestamp_ns output"
  "vo_present_fb (vkms_crtc_atomic_flush i e g f now output) = vo_present_fb output"
  by (simp_all add: vkms_crtc_atomic_flush_def Let_def)

lemma vblank_frame:
  "vo_present_waiters (vkms_crtc_handle_vblank v output) = vo_present_waiters output"
  "vo_present_waitq (vkms_crtc_handle_vblank v output) = vo_present_waitq output"
  "vo_present_sequence (vkms_crtc_handle_vblank v output) = vo_present_sequence output"
  "vo_present_trace (vkms_crtc_handle_vblank v output) = vo_present_trace output"
  "vo_present_timestamp_ns (vkms_crtc_handle_vblank v output) = vo_present_timestamp_ns output"
  "vo_present_fb (vkms_crtc_handle_vblank v output) = vo_present_fb output"
  by (simp_all add: vkms_crtc_handle_vblank_def Let_def split: option.split)

lemma pending_commit_added_frame [simp]:
  "vo_present_waiters (pending_commit_added output) = vo_present_waiters output"
  "vo_present_waitq (pending_commit_added output) = vo_present_waitq output"
  "vo_present_sequence (pending_commit_added output) = vo_present_sequence output"
  "vo_present_trace (pending_commit_added output) = vo_present_trace output"
  "vo_present_timestamp_ns (pending_commit_added output) = vo_present_timestamp_ns output"
  "vo_present_fb (pending_commit_added output) = vo_present_fb output"
  by (simp_all add: pending_commit_added_def)

lemma released_inv:
  assumes "present_inv base s"
    and "vkms_crtc_release_presented_frame (sys_output s, sys_refs s) = (output1, refs1)"
  shows "present_inv base (s\<lparr>sys_output := output1, sys_refs := refs1\<rparr>)"
  using assms by (auto simp: present_inv_def vkms_crtc_release_presented_frame_def fb_put_def)

text \<open>The fields other than the wait queue after a thread has checked or been cut short.\<close>

lemma wait_moves_fields:
  assumes "output1 = output\<lparr>vo_present_waitq := q\<rparr>"
  shows "vo_present_waiters output1 = vo_present_waiters output"
    and "vo_present_sequence output1 = vo_present_sequence output"
    and "vo_present_trace output1 = vo_present_trace output"
    and "vo_present_timestamp_ns output1 = vo_present_timestamp_ns output"
    and "vo_present_fb output1 = vo_present_fb output"
  using assms by simp_all

lemmas check_fields = wait_moves_fields[OF wait_moves_frame(1)] wait_moves_frame(3)
lemmas cut_short_fields = wait_moves_fields[OF wait_moves_frame(2)] wait_moves_frame(4)

lemma present_step_inv:
  assumes "present_step s t" and "present_inv base s"
  shows "present_inv base t"
  using assms(1)
proof cases
  case (wait_registered capable found request request1 output1 thread)
  then show ?thesis using wait_registered_inv[OF assms(2)] by blast
next
  case (wait_left thread requested interrupted)
  then show ?thesis using wait_left_inv[OF assms(2)] by blast
next
  case (stamped c crtc now output1 ts changed primary)
  then show ?thesis using present_inv_same[OF assms(2)] take_timestamp_frame[OF stamped(3)] by simp
next
  case (published c changed primary crtc ts output1 refs1)
  then show ?thesis using published_inv[OF assms(2) published(3)] by blast
next
  case (released output1 refs1)
  then show ?thesis using released_inv[OF assms(2)] by blast
qed (use present_inv_same[OF assms(2), where commits = "sys_commits s"] present_inv_same[OF assms(2)]
  check_fields cut_short_fields flush_frame vblank_frame in simp_all)

lemma initial_inv: "present_inv refs (initial_system crtc primary refs)"
  using trace_ok_initial[of crtc primary]
  by (simp add: present_inv_def initial_system_def) (simp add: vkms_crtc_init_def)

lemma steps_inv: "present_step\<^sup>*\<^sup>* s t \<Longrightarrow> present_inv base s \<Longrightarrow> present_inv base t"
  by (induction rule: rtranclp_induct) (auto intro: present_step_inv)

lemma reachable_inv: "present_step\<^sup>*\<^sup>* (initial_system crtc primary refs) s \<Longrightarrow> present_inv refs s"
  by (rule steps_inv[OF _ initial_inv])

section \<open>Reading the trace\<close>

lemma take_update_next: "c < length xs \<Longrightarrow> take (Suc c) (xs[c := x]) = take c xs @ [x]"
  by (simp add: take_Suc_conv_app_nth)

lemma trace_loop_copies:
  assumes "\<forall>i. j \<le> i \<longrightarrow> i < j + n \<longrightarrow> trace ! (i mod kTraceHistorySize) = trace_entry history i"
    and "j + n < 2 ^ 64" and "ptr_count request = of_nat c" and "c \<le> kTraceMaxEvents"
    and "length (ptr_events request) = kTraceMaxEvents"
  shows "let m = min n (kTraceMaxEvents - c);
             result = trace_loop n trace (of_nat (j + 1)) request
         in ptr_count result = of_nat (c + m) \<and>
            take (c + m) (ptr_events result) =
              take c (ptr_events request) @ map (trace_entry history) [j..<j + m] \<and>
            ptr_flags result = ptr_flags request \<and>
            ptr_newest_sequence result = ptr_newest_sequence request"
  using assms
proof (induction n arbitrary: j c request)
  case (Suc n)
  show ?case
  proof (cases "c < kTraceMaxEvents")
    case True
    have "unat (of_nat c :: u32) = c" using Suc.prems(4) by (subst unat_of_nat) simp
    then have room: "ptr_count request < of_nat kTraceMaxEvents"
      and count: "unat (ptr_count request) = c"
      using True Suc.prems(3) by (simp_all add: word_less_nat_alt)
    have at: "unat (of_nat (j + 1) - 1 :: u64) = j"
      using Suc.prems(2) by (simp add: unat_of_nat)
    have event: "trace ! (unat (of_nat (j + 1) - 1 :: u64) mod kTraceHistorySize) = trace_entry history j"
      using Suc.prems(1) unfolding at by simp
    let ?request = "request\<lparr>ptr_events := (ptr_events request)[c := trace_entry history j],
      ptr_count := of_nat (c + 1)\<rparr>"
    have step: "trace_loop (Suc n) trace (of_nat (j + 1)) request = trace_loop n trace (of_nat (Suc j + 1)) ?request"
      using room event count Suc.prems(3)
      by (simp only: trace_loop.simps Let_def if_True) (simp add: trace_entry_def add.commute)
    have m: "min (Suc n) (kTraceMaxEvents - c) = Suc (min n (kTraceMaxEvents - Suc c))"
      using True by linarith
    have upt: "[j..<j + Suc k] = j # [Suc j..<Suc j + k]" for k
      by (simp add: upt_conv_Cons)
    show ?thesis
      using Suc.IH[of "Suc j" ?request "Suc c"] Suc.prems True
      unfolding step m Let_def upt
      by (simp add: take_update_next)
  next
    case False
    then have "c = kTraceMaxEvents" using Suc.prems(4) by simp
    then show ?thesis using Suc.prems by simp
  qed
qed simp

text \<open>Where the reply starts: the first index to copy, and whether some were overwritten.\<close>

lemma first_to_copy:
  assumes "h < 2 ^ 64" and "after \<noteq> (- 1 :: u64)"
  defines "overflow \<equiv> (4096 :: u64) \<le> of_nat h \<and> after + 1 < of_nat h - 4096 + 1"
    and "first \<equiv> max (unat after) (h - 4096)"
  shows "overflow \<longleftrightarrow> unat after < h - 4096"
    and "(if overflow then of_nat h - 4096 + 1 else after + 1) = (of_nat (first + 1) :: u64)"
    and "unat (of_nat (first + 1) :: u64) = first + 1"
    and "first + (h - first) < 2 ^ 64"
proof -
  have h: "unat (of_nat h :: u64) = h" using assms(1) by (simp add: unat_of_nat)
  have after: "unat (after + 1) = unat after + 1"
    using unat_Suc_word[of after "- 1"] assms(2) by (simp add: word_order.not_eq_extremum)
  then have small: "unat after + 1 < 2 ^ 64"
    using unsigned_less[of "after + 1", where 'a = nat] by simp
  have enough: "(4096 :: u64) \<le> of_nat h \<longleftrightarrow> 4096 \<le> h" using h by (simp add: word_le_nat_alt)
  have oldest: "(of_nat h - 4096 + 1 :: u64) = of_nat (h - 4096 + 1)" if "4096 \<le> h"
    using that by (simp add: of_nat_diff)
  have oldest_unat: "unat (of_nat (h - 4096 + 1) :: u64) = h - 4096 + 1"
    using assms(1) by (subst unat_of_nat) simp
  show overflow: "overflow \<longleftrightarrow> unat after < h - 4096"
  proof (cases "4096 \<le> h")
    case True
    then show ?thesis
      unfolding overflow_def enough oldest[OF True] word_less_nat_alt after oldest_unat by simp
  qed (simp add: overflow_def enough)
  have "after + 1 = of_nat (unat after + 1)" by simp
  then show "(if overflow then of_nat h - 4096 + 1 else after + 1) = (of_nat (first + 1) :: u64)"
    unfolding overflow using oldest by (auto simp: first_def)
  show "unat (of_nat (first + 1) :: u64) = first + 1"
    using small assms(1) by (subst unat_of_nat) (auto simp: first_def)
  show "first + (h - first) < 2 ^ 64" using small assms(1) by (auto simp: first_def)
qed

text \<open>
  C38: The trace is a window on the history of all presentations. In any reachable state a client
  that has read up to \<open>after\<close> gets, in order and without gaps, the presentations that follow, up
  to 64 of them, each with the timestamp it was published with; the overflow flag is set exactly
  when some of them are no longer among the last 4096, and then the reply starts with the oldest
  that is.
\<close>

theorem presentation_trace_exact:
  assumes "present_step\<^sup>*\<^sup>* (initial_system crtc primary refs) s"
    and "length (sys_history s) < 2 ^ 64" and "after \<noteq> - 1"
  defines "h \<equiv> length (sys_history s)"
  defines "first \<equiv> max (unat after) (h - 4096)"
  shows "\<exists>r. vkms_get_present_trace_ioctl True True (expected_trace_request crtc_id after) (sys_output s) = Inr r \<and>
    ptr_newest_sequence r = of_nat h \<and> unat (ptr_count r) = min (h - first) 64 \<and>
    take (unat (ptr_count r)) (ptr_events r) =
      map (\<lambda>i. \<lparr>tev_sequence = of_nat (i + 1), tev_timestamp_ns = sys_history s ! i\<rparr>)
        [first..<first + min (h - first) 64] \<and>
    ptr_flags r = (if unat after < h - 4096 then 1 else 0)"
proof -
  have inv: "present_inv refs s" by (rule reachable_inv[OF assms(1)])
  then have sequence: "vo_present_sequence (sys_output s) = of_nat h"
    and trace: "trace_ok (vo_present_trace (sys_output s)) (sys_history s)"
    unfolding present_inv_def h_def by blast+
  have h: "unat (of_nat h :: u64) = h" "h < 2 ^ 64" using assms(2) by (simp_all add: h_def unat_of_nat)
  note start = first_to_copy[OF h(2) assms(3), folded first_def]
  let ?request = "expected_trace_request crtc_id after"
  let ?overflow = "unat after < h - 4096"
  let ?n = "h - first"
  define request where "request =
    (if ?overflow then ?request\<lparr>ptr_flags := ptr_flags ?request OR 1\<rparr> else ?request)
      \<lparr>ptr_newest_sequence := of_nat h\<rparr>"
  have r0: "ptr_count request = of_nat 0" "ptr_newest_sequence request = of_nat h"
    "length (ptr_events request) = kTraceMaxEvents" "ptr_flags request = (if ?overflow then 1 else 0)"
    by (simp_all add: request_def expected_trace_request_def)
  have result: "vkms_get_present_trace_ioctl True True ?request (sys_output s) =
      Inr (trace_loop ?n (vo_present_trace (sys_output s)) (of_nat (first + 1)) request)"
  proof -
    let ?next = "if ?overflow then of_nat h - 4096 + 1 else after + 1 :: u64"
    have valid: "vkms_present_trace_request_valid ?request" "ptr_after_sequence ?request = after"
      by (simp_all add: vkms_present_trace_request_valid_def expected_trace_request_def)
    have "vkms_get_present_trace_ioctl True True ?request (sys_output s) =
        Inr (trace_loop (unat (of_nat h :: u64) + 1 - unat ?next) (vo_present_trace (sys_output s)) ?next request)"
      using assms(3)
      by (simp only: vkms_get_present_trace_ioctl_def Let_def sequence request_def valid start(1)
          of_nat_numeral if_False not_True_eq_False simp_thms)
    moreover have "?next = of_nat (first + 1)" using start(2) unfolding start(1) .
    moreover have "unat (of_nat h :: u64) + 1 - unat (of_nat (first + 1) :: u64) = ?n"
      unfolding h(1) start(3) by simp
    ultimately show ?thesis by (simp only:)
  qed
  have "\<forall>i. first \<le> i \<longrightarrow> i < first + ?n \<longrightarrow>
      vo_present_trace (sys_output s) ! (i mod kTraceHistorySize) = trace_entry (sys_history s) i"
    using trace assms(2) by (auto simp: trace_ok_def first_def h_def)
  moreover note start(4)
  ultimately have loop: "let result = trace_loop ?n (vo_present_trace (sys_output s)) (of_nat (first + 1)) request
     in ptr_count result = of_nat (min ?n 64) \<and>
        take (min ?n 64) (ptr_events result) = map (trace_entry (sys_history s)) [first..<first + min ?n 64] \<and>
        ptr_flags result = ptr_flags request \<and> ptr_newest_sequence result = ptr_newest_sequence request"
    using trace_loop_copies[where c = 0 and request = request and j = first and n = ?n
        and trace = "vo_present_trace (sys_output s)" and history = "sys_history s", OF _ _ r0(1) _ r0(3)]
    by (simp add: Let_def)
  have count: "unat (of_nat (min ?n 64) :: u32) = min ?n 64" by (subst unat_of_nat) (simp add: min_def)
  show ?thesis
    using loop unfolding result Let_def
    by (simp add: count r0 trace_entry_def[abs_def])
qed

lemma one_presentation:
  "\<exists>s. present_step\<^sup>*\<^sup>* (initial_system crtc primary refs) s \<and> sys_history s = [now]"
proof -
  let ?s = "initial_system crtc primary refs"
  let ?s1 = "?s\<lparr>sys_commits := [0 \<mapsto> Stamped True None None now]\<rparr>"
  have "present_step ?s ?s1"
    using present_step.stamped[of ?s 0 None now "sys_output ?s" now True None]
    by (simp add: initial_system_def vkms_crtc_take_present_timestamp_def)
  moreover obtain output1 refs1 where
    st: "publish_presentation True None None now (sys_output ?s1, sys_refs ?s1) = (output1, refs1)" by fastforce
  have "present_step ?s1 (?s1\<lparr>sys_output := output1, sys_refs := refs1, sys_commits := [0 \<mapsto> Waking],
      sys_history := [now]\<rparr>)"
    using present_step.published[OF _ st, of 0] by (simp add: initial_system_def)
  ultimately show ?thesis
    by (intro exI[of _ "?s1\<lparr>sys_output := output1, sys_refs := refs1, sys_commits := [0 \<mapsto> Waking],
      sys_history := [now]\<rparr>"]) (auto intro: converse_rtranclp_into_rtranclp)
qed

theorem presentation_trace_exact_witness:
  "\<exists>(s :: present_system) r. sys_history s = [7] \<and>
     vkms_get_present_trace_ioctl True True (expected_trace_request 3 0) (sys_output s) = Inr r \<and>
     unat (ptr_count r) = 1 \<and> take 1 (ptr_events r) = [\<lparr>tev_sequence = 1, tev_timestamp_ns = 7\<rparr>]"
proof -
  obtain s where s: "present_step\<^sup>*\<^sup>* (initial_system 1 2 (\<lambda>_. 0)) s" "sys_history s = [7]"
    using one_presentation by blast
  then obtain r where
    "vkms_get_present_trace_ioctl True True (expected_trace_request 3 0) (sys_output s) = Inr r"
    "unat (ptr_count r) = 1" "take 1 (ptr_events r) = [\<lparr>tev_sequence = 1, tev_timestamp_ns = 7\<rparr>]"
    using presentation_trace_exact[OF s(1), of 0 3] by auto
  then show ?thesis using s(2) by blast
qed

section \<open>Waiting\<close>

lemma history_grows: "present_step\<^sup>*\<^sup>* s t \<Longrightarrow> length (sys_history s) \<le> length (sys_history t)"
proof (induction rule: rtranclp_induct)
  case (step t u)
  have "length (sys_history t) \<le> length (sys_history u)"
    using step.hyps(2) by (cases rule: present_stepE) auto
  then show ?case using step.IH by simp
qed simp

lemma complete_response_flags:
  "wpr_flags (vibeshine_drm_present_complete_response request requested current ts pending) =
     (if current \<noteq> requested then kPresentChanged else kPresentTimeout) OR
     (if pending then kPresentPending else 0)"
  by (simp add: vibeshine_drm_present_complete_response_def Let_def)

text \<open>
  What waiters can rely on: the sequence number a waiter has seen was published, and a sleeper whose
  condition holds is about to be woken.
\<close>

fun requested :: "waiter \<Rightarrow> u64" where
  "requested (Checking q) = q"
| "requested (Asleep q) = q"
| "requested (Ended q interrupted) = q"

definition waiters_ok :: "present_system \<Rightarrow> bool" where
  "waiters_ok s \<longleftrightarrow>
     (\<forall>thread x. vo_present_waitq (sys_output s) thread = Some x \<longrightarrow>
        (\<exists>k \<le> length (sys_history s). requested x = of_nat k)) \<and>
     (\<forall>thread q. vo_present_waitq (sys_output s) thread = Some (Asleep q) \<longrightarrow>
        wait_present_wakes q (sys_output s) \<longrightarrow> (\<exists>c. sys_commits s c = Some Waking))"

lemma waiters_ok_kept:
  assumes "waiters_ok s" and "sys_history t = sys_history s"
    and "vo_present_sequence (sys_output t) = vo_present_sequence (sys_output s)"
    and "\<And>thread y. vo_present_waitq (sys_output t) thread = Some y \<Longrightarrow>
      \<exists>x. vo_present_waitq (sys_output s) thread = Some x \<and> requested y = requested x"
    and "\<And>thread q. vo_present_waitq (sys_output t) thread = Some (Asleep q) \<Longrightarrow>
      wait_present_wakes q (sys_output s) \<Longrightarrow>
      vo_present_waitq (sys_output s) thread = Some (Asleep q) \<and>
      ((\<exists>c. sys_commits s c = Some Waking) \<longrightarrow> (\<exists>c. sys_commits t c = Some Waking))"
  shows "waiters_ok t"
  unfolding waiters_ok_def
proof (intro conjI allI impI)
  fix thread y assume "vo_present_waitq (sys_output t) thread = Some y"
  then show "\<exists>k \<le> length (sys_history t). requested y = of_nat k"
    using assms(1,2,4) unfolding waiters_ok_def by metis
next
  fix thread q assume q: "vo_present_waitq (sys_output t) thread = Some (Asleep q)" "wait_present_wakes q (sys_output t)"
  then have "wait_present_wakes q (sys_output s)" using assms(3) by (simp add: wait_present_wakes_def)
  then show "\<exists>c. sys_commits t c = Some Waking" using assms(1,5) q unfolding waiters_ok_def by blast
qed

lemma none_asleep: "vo_present_waitq (wake_up_interruptible output) thread \<noteq> Some (Asleep q)"
  by (auto simp: wake_up_interruptible_def split: option.splits waiter.splits)

lemma woken_requests:
  "vo_present_waitq (wake_up_interruptible output) thread = Some y \<Longrightarrow>
   \<exists>x. vo_present_waitq output thread = Some x \<and> requested y = requested x"
  by (auto simp: wake_up_interruptible_def split: option.splits waiter.splits)

lemma checked_requests:
  "vo_present_waitq (wait_present_check thread output) u = Some y \<Longrightarrow>
   \<exists>x. vo_present_waitq output u = Some x \<and> requested y = requested x"
  "vo_present_waitq (wait_present_cut_short thread signalled output) u = Some y \<Longrightarrow>
   \<exists>x. vo_present_waitq output u = Some x \<and> requested y = requested x"
  by (auto simp: wait_present_check_def wait_present_cut_short_def split: option.splits waiter.splits if_splits)

lemma checked_sleepers:
  "vo_present_waitq (wait_present_check thread output) u = Some (Asleep q) \<Longrightarrow> wait_present_wakes q output \<Longrightarrow>
   vo_present_waitq output u = Some (Asleep q)"
  "vo_present_waitq (wait_present_cut_short thread signalled output) u = Some (Asleep q) \<Longrightarrow>
   vo_present_waitq output u = Some (Asleep q)"
  by (auto simp: wait_present_check_def wait_present_cut_short_def split: option.splits waiter.splits if_splits)

lemma waiters_ok_same:
  assumes "waiters_ok s" and "sys_history t = sys_history s"
    and "vo_present_sequence (sys_output t) = vo_present_sequence (sys_output s)"
    and "vo_present_waitq (sys_output t) = vo_present_waitq (sys_output s)"
    and "\<And>c. sys_commits s c = Some Waking \<Longrightarrow> sys_commits t c = Some Waking"
  shows "waiters_ok t"
proof (rule waiters_ok_kept[OF assms(1,2,3)])
  show "\<exists>x. vo_present_waitq (sys_output s) u = Some x \<and> requested y = requested x"
    if "vo_present_waitq (sys_output t) u = Some y" for u y
    using that unfolding assms(4) by blast
  show "vo_present_waitq (sys_output s) u = Some (Asleep q) \<and>
      ((\<exists>c. sys_commits s c = Some Waking) \<longrightarrow> (\<exists>c. sys_commits t c = Some Waking))"
    if "vo_present_waitq (sys_output t) u = Some (Asleep q)" for u q
    using that assms(5) unfolding assms(4) by blast
qed

lemma waiters_ok_registered:
  assumes "waiters_ok s" and "present_inv base s"
    and "wait_present_begin capable found request (sys_output s) = (Inr (request1, True), output1)"
  shows "waiters_ok (s\<lparr>sys_output := wait_present_enter thread (wpr_sequence request) output1\<rparr>)" (is "waiters_ok ?t")
proof -
  let ?q = "wpr_sequence request"
  note effect = wait_registered_effect[OF assms(3)]
  have "?q = of_nat (length (sys_history s))" using effect(3) assms(2) unfolding present_inv_def by simp
  then have fresh: "\<exists>k \<le> length (sys_history s). requested (Checking ?q) = of_nat k"
    using requested.simps(1)[of ?q] by (metis order_refl)
  have queue: "vo_present_waitq (sys_output ?t) = (vo_present_waitq (sys_output s))(thread \<mapsto> Checking ?q)"
    and same: "vo_present_sequence (sys_output ?t) = vo_present_sequence (sys_output s)"
      "sys_history ?t = sys_history s" "sys_commits ?t = sys_commits s"
    unfolding effect(1) by (simp_all add: wait_present_enter_def)
  show ?thesis
    unfolding waiters_ok_def
  proof (intro conjI allI impI)
    fix u x assume "vo_present_waitq (sys_output ?t) u = Some x"
    then have "u = thread \<and> x = Checking ?q \<or> vo_present_waitq (sys_output s) u = Some x"
      unfolding queue by (simp split: if_splits)
    then show "\<exists>k \<le> length (sys_history ?t). requested x = of_nat k"
      using assms(1) fresh unfolding same waiters_ok_def by blast
  next
    fix u q assume here: "vo_present_waitq (sys_output ?t) u = Some (Asleep q)" "wait_present_wakes q (sys_output ?t)"
    have "vo_present_waitq (sys_output s) u = Some (Asleep q)"
      using here(1) unfolding queue by (simp split: if_splits)
    moreover have "wait_present_wakes q (sys_output s)" using here(2) unfolding wait_present_wakes_def same .
    ultimately show "\<exists>c. sys_commits ?t c = Some Waking" using assms(1) unfolding same waiters_ok_def by blast
  qed
qed

lemma waiters_ok_published:
  assumes "waiters_ok s" and "vo_present_waitq output = vo_present_waitq (sys_output s)"
  shows "waiters_ok (s\<lparr>sys_output := output, sys_refs := refs, sys_commits := (sys_commits s)(c \<mapsto> Waking),
    sys_history := (if changed then sys_history s @ [ts] else sys_history s)\<rparr>)"
  unfolding waiters_ok_def
proof (intro conjI allI impI, goal_cases)
  case (1 thread x)
  then obtain k where "k \<le> length (sys_history s)" "requested x = of_nat k"
    using assms unfolding waiters_ok_def by fastforce
  then show ?case by (intro exI[of _ k]) simp
next
  case (2 thread q)
  show ?case by (rule exI[of _ c]) simp
qed

lemma waiters_step:
  assumes "present_step s t" and "waiters_ok s" and "present_inv base s"
  shows "waiters_ok t"
  using assms(1)
proof cases
  case (wait_registered capable found request request1 output1 thread)
  then show ?thesis using waiters_ok_registered[OF assms(2,3)] by blast
next
  case (wait_checks thread)
  show ?thesis
    unfolding wait_checks
  proof (rule waiters_ok_kept[OF assms(2)], goal_cases)
    case (3 u y)
    then show ?case using checked_requests(1)[of thread "sys_output s" u y] by simp
  next
    case (4 u q)
    then show ?case using checked_sleepers(1)[of thread "sys_output s" u q] by simp
  qed (simp_all add: check_fields)
next
  case (wait_cut_short thread signalled)
  show ?thesis
    unfolding wait_cut_short
  proof (rule waiters_ok_kept[OF assms(2)], goal_cases)
    case (3 u y)
    then show ?case using checked_requests(2)[of thread signalled "sys_output s" u y] by simp
  next
    case (4 u q)
    then show ?case using checked_sleepers(2)[of thread signalled "sys_output s" u q] by simp
  qed (simp_all add: cut_short_fields)
next
  case (wait_left thread q interrupted)
  show ?thesis
    unfolding wait_left(1)
    by (rule waiters_ok_kept[OF assms(2)]) (auto simp: wait_present_leave_def split: if_splits)
next
  case (stamped c crtc now output1 ts changed primary)
  show ?thesis
    unfolding stamped(1)
    by (rule waiters_ok_same[OF assms(2)])
       (use take_timestamp_frame[OF stamped(3)] stamped(2) in \<open>auto split: if_splits\<close>)
next
  case (published c changed primary crtc ts output1 refs1)
  show ?thesis unfolding published(1) by (rule waiters_ok_published[OF assms(2) publish_effect(2)[OF published(3)]])
next
  case (woken c)
  show ?thesis
    unfolding woken(1)
  proof (rule waiters_ok_kept[OF assms(2)], goal_cases)
    case (3 u y)
    then show ?case using woken_requests by simp
  next
    case (4 u q)
    then show ?case using none_asleep by simp
  qed simp_all
next
  case commit_failed
  show ?thesis
    unfolding commit_failed
  proof (rule waiters_ok_kept[OF assms(2)], goal_cases)
    case (3 u y)
    then show ?case using woken_requests[of "pending_commit_done (sys_output s)"] by simp
  next
    case (4 u q)
    then show ?case using none_asleep by simp
  qed simp_all
next
  case (released output1 refs1)
  then have output1: "output1 = (sys_output s)\<lparr>vo_present_fb := 0\<rparr>"
    by (simp add: vkms_crtc_release_presented_frame_def)
  show ?thesis unfolding released(1) by (rule waiters_ok_same[OF assms(2)]) (simp_all add: output1)
next
  case commit_added
  show ?thesis unfolding commit_added by (rule waiters_ok_same[OF assms(2)]) simp_all
next
  case (flushed i has_event granted is_flip now)
  show ?thesis unfolding flushed by (rule waiters_ok_same[OF assms(2)]) (simp_all add: flush_frame)
next
  case (vblank_came v)
  show ?thesis unfolding vblank_came by (rule waiters_ok_same[OF assms(2)]) (simp_all add: vblank_frame)
qed

lemma waiters_hold:
  assumes "present_step\<^sup>*\<^sup>* (initial_system crtc primary refs) s"
  shows "waiters_ok s"
proof -
  from assms have "waiters_ok s \<and> present_inv refs s"
  proof (induction rule: rtranclp_induct)
    case base
    show ?case using initial_inv by (simp add: waiters_ok_def initial_system_def vkms_crtc_init_def)
  next
    case (step t u)
    then show ?case using waiters_step present_step_inv by blast
  qed
  then show ?thesis by simp
qed

text \<open>
  C39: No client sleeps through a presentation. Take any reachable state of an output, its commits
  and its waiters, and a client asleep in its wait. The sequence number it has seen is one that was
  reached. If a presentation has been published since, some commit is between its publication and
  its wake-up of the queue, so that the wake-up is still to come; a wake-up makes the client check
  again, and that check ends the wait, uninterrupted, exactly if there was a presentation it had
  not seen (a signal or the timeout may end the wait before). So the next commit that changes what
  is shown ends it: after its \<open>signal_presented\<close> the client checks, and leaves. Whenever the client is answered after that, the answer carries
  the newest sequence number, with its timestamp and the flag for a change exactly if there is a
  newer presentation than the one it had seen, and with the flag for a timeout otherwise.
\<close>

theorem waiter_woken_by_next_presentation:
  assumes "present_step\<^sup>*\<^sup>* (initial_system crtc primary refs) s"
    and "vo_present_waitq (sys_output s) thread = Some (Asleep seen)"
    and "length (sys_history s) < 2 ^ 64"
  defines "missed \<equiv> unat seen < length (sys_history s)"
    and "awake \<equiv> wake_up_interruptible (sys_output s)"
  shows "unat seen \<le> length (sys_history s) \<and>
    (missed \<longrightarrow> (\<exists>c. sys_commits s c = Some Waking)) \<and>
    (\<forall>c. sys_commits s c = Some Waking \<longrightarrow>
       present_step s (s\<lparr>sys_output := awake, sys_commits := (sys_commits s)(c := None)\<rparr>)) \<and>
    (\<forall>primary crtc_state now. Suc (length (sys_history s)) < 2 ^ 64 \<longrightarrow>
       (let presented = fst (signal_presented True primary crtc_state now (sys_output s, sys_refs s)) in
        vo_present_waitq (wait_present_check thread presented) thread = Some (Ended seen False))) \<and>
    vo_present_waitq awake thread = Some (Checking seen) \<and>
    vo_present_waitq (wait_present_check thread awake) thread =
      Some (if missed then Ended seen False else Asleep seen) \<and>
    (\<forall>t request. present_step\<^sup>*\<^sup>* s t \<longrightarrow> length (sys_history t) < 2 ^ 64 \<longrightarrow>
       (let answer = wait_present_answer request seen (sys_output t);
            newer = unat seen < length (sys_history t) in
        unat (wpr_sequence answer) = length (sys_history t) \<and>
        (newer \<longrightarrow> wpr_timestamp_ns answer = last (sys_history t)) \<and>
        wpr_flags answer AND (kPresentChanged OR kPresentTimeout) =
          (if newer then kPresentChanged else kPresentTimeout)))"
proof -
  have ok: "waiters_ok s" by (rule waiters_hold[OF assms(1)])
  obtain k where k: "k \<le> length (sys_history s)" "seen = of_nat k"
    using ok assms(2) unfolding waiters_ok_def by fastforce
  then have seen: "unat seen = k" using assms(3) by (simp add: unat_of_nat)
  have newer: "vo_present_sequence (sys_output t) \<noteq> seen \<longleftrightarrow> k < length (sys_history t)"
    "unat (vo_present_sequence (sys_output t)) = length (sys_history t)"
    "sys_history t \<noteq> [] \<longrightarrow> vo_present_timestamp_ns (sys_output t) = last (sys_history t)"
    if "present_step\<^sup>*\<^sup>* s t" "length (sys_history t) < 2 ^ 64" for t
  proof -
    have inv: "present_inv refs t" by (rule reachable_inv[OF rtranclp_trans[OF assms(1) that(1)]])
    have seq: "vo_present_sequence (sys_output t) = of_nat (length (sys_history t))"
      and "sys_history t \<noteq> [] \<longrightarrow> vo_present_timestamp_ns (sys_output t) = last (sys_history t)"
      using inv unfolding present_inv_def by blast+
    then show "sys_history t \<noteq> [] \<longrightarrow> vo_present_timestamp_ns (sys_output t) = last (sys_history t)" by blast
    show n: "unat (vo_present_sequence (sys_output t)) = length (sys_history t)"
      unfolding seq using that(2) by (simp add: unat_of_nat)
    have "k \<le> length (sys_history t)" using k(1) history_grows[OF that(1)] by simp
    then show "vo_present_sequence (sys_output t) \<noteq> seen \<longleftrightarrow> k < length (sys_history t)"
      using n seen by (metis le_neq_implies_less less_irrefl word_unat_eq_iff)
  qed
  have wakes: "wait_present_wakes seen (sys_output s) \<longleftrightarrow> missed"
    using newer(1)[OF rtranclp.rtrancl_refl assms(3)] by (simp add: wait_present_wakes_def missed_def seen)
  have check: "vo_present_waitq awake thread = Some (Checking seen)"
    using assms(2) by (simp add: awake_def wake_up_interruptible_def)
  moreover have "wait_present_wakes seen awake \<longleftrightarrow> missed" using wakes by (simp add: wait_present_wakes_def awake_def)
  ultimately have ends: "vo_present_waitq (wait_present_check thread awake) thread =
      Some (if missed then Ended seen False else Asleep seen)"
    by (simp add: wait_present_check_def)
  have pending: "missed \<longrightarrow> (\<exists>c. sys_commits s c = Some Waking)"
    using ok assms(2) wakes unfolding waiters_ok_def by blast
  have wake: "present_step s (s\<lparr>sys_output := awake, sys_commits := (sys_commits s)(c := None)\<rparr>)"
    if "sys_commits s c = Some Waking" for c
    unfolding awake_def by (rule present_step.woken[OF that])
  have answers: "let answer = wait_present_answer request seen (sys_output t);
            newer = unat seen < length (sys_history t) in
        unat (wpr_sequence answer) = length (sys_history t) \<and>
        (newer \<longrightarrow> wpr_timestamp_ns answer = last (sys_history t)) \<and>
        wpr_flags answer AND (kPresentChanged OR kPresentTimeout) =
          (if newer then kPresentChanged else kPresentTimeout)"
    if "present_step\<^sup>*\<^sup>* s t" "length (sys_history t) < 2 ^ 64" for t request
    using newer[OF that]
    by (auto simp: Let_def seen wait_present_answer_def complete_response_flags)
       (auto simp: vibeshine_drm_present_complete_response_def Let_def)
  have presents: "let presented = fst (signal_presented True primary crtc_state now (sys_output s, sys_refs s)) in
        vo_present_waitq (wait_present_check thread presented) thread = Some (Ended seen False)"
    if "Suc (length (sys_history s)) < 2 ^ 64" for primary crtc_state now
  proof -
    let ?presented = "fst (signal_presented True primary crtc_state now (sys_output s, sys_refs s))"
    have after: "vo_present_sequence ?presented = vo_present_sequence (sys_output s) + 1"
      "vo_present_waitq ?presented thread = Some (Checking seen)"
      using signal_presented_effect[of primary crtc_state now "sys_output s" "sys_refs s"] assms(2)
      by (simp_all add: wake_up_interruptible_def)
    have "vo_present_sequence (sys_output s) + 1 = of_nat (Suc (length (sys_history s)))"
      using reachable_inv[OF assms(1)] unfolding present_inv_def by simp
    then have "unat (vo_present_sequence ?presented) = Suc (length (sys_history s))"
      unfolding after(1) using that by (simp only: unat_of_nat) simp
    then have "wait_present_wakes seen ?presented" using k(1) seen by (auto simp: wait_present_wakes_def)
    then show ?thesis using after(2) by (simp add: wait_present_check_def Let_def)
  qed
  show ?thesis using k(1) seen pending wake presents check ends answers by blast
qed

text \<open>
  At most 64 threads wait on an output, the counter of waiters is their exact number, so a
  further one is refused with \<open>EBUSY\<close> exactly when 64 wait; and the output holds exactly one
  reference on the framebuffer it presents and none on any other, which is gone once the frame
  is released.
\<close>

theorem waiters_and_references_exact:
  assumes "present_step\<^sup>*\<^sup>* (initial_system crtc primary refs) s"
  shows "unat (vo_present_waiters (sys_output s)) = card (dom (vo_present_waitq (sys_output s))) \<and>
    card (dom (vo_present_waitq (sys_output s))) \<le> 64 \<and>
    (vibeshine_drm_present_request_valid request \<and> wpr_timeout_ms request \<noteq> 0 \<and>
       wpr_sequence request = vo_present_sequence (sys_output s) \<longrightarrow>
     (fst (wait_present_begin True True request (sys_output s)) = Inl EBUSY \<longleftrightarrow>
       card (dom (vo_present_waitq (sys_output s))) = 64)) \<and>
    sys_refs s fb = refs fb + (if fb \<noteq> 0 \<and> vo_present_fb (sys_output s) = fb then 1 else 0) \<and>
    snd (vkms_crtc_release_presented_frame (sys_output s, sys_refs s)) fb = refs fb"
proof -
  let ?n = "vo_present_waiters (sys_output s)"
  have inv: "present_inv refs s" by (rule reachable_inv[OF assms])
  then have n: "unat ?n = card (dom (vo_present_waitq (sys_output s)))" "?n \<le> kPresentMaxWaiters"
    and r: "sys_refs s fb = refs fb + (if fb \<noteq> 0 \<and> vo_present_fb (sys_output s) = fb then 1 else 0)" for fb
    unfolding present_inv_def by blast+
  have le: "card (dom (vo_present_waitq (sys_output s))) \<le> 64" using n(2) unfolding word_le_nat_alt n(1) by simp
  have full: "?n \<ge> kPresentMaxWaiters \<longleftrightarrow> card (dom (vo_present_waitq (sys_output s))) = 64"
    using le unfolding word_le_nat_alt n(1) by auto
  have "fst (wait_present_begin True True request (sys_output s)) = Inl EBUSY \<longleftrightarrow>
      card (dom (vo_present_waitq (sys_output s))) = 64"
    if "vibeshine_drm_present_request_valid request" "wpr_timeout_ms request \<noteq> 0"
      "wpr_sequence request = vo_present_sequence (sys_output s)"
    using that full
    by (auto simp: wait_present_begin_def vibeshine_drm_present_decide_wait_def Let_def)
  moreover have "snd (vkms_crtc_release_presented_frame (sys_output s, sys_refs s)) fb = refs fb"
    using r[of fb] by (auto simp: vkms_crtc_release_presented_frame_def fb_put_apply)
  ultimately show ?thesis using n(1) le r[of fb] by simp
qed

text \<open>A client that has seen nothing yet registers in the initial state, and a frame comes.\<close>

definition example_wait :: wait_present where
  "example_wait = \<lparr>wpr_abi_version = 1, wpr_crtc_id = 3, wpr_sequence = 0, wpr_timestamp_ns = 0,
     wpr_timeout_ms = 5, wpr_flags = 0, wpr_reserved = [0, 0]\<rparr>"

lemma example_wait_registers:
  "wait_present_begin True True example_wait (vkms_crtc_init 1 2) =
     (Inr (example_wait, True), (vkms_crtc_init 1 2)\<lparr>vo_present_waiters := 1\<rparr>)"
  by (simp add: wait_present_begin_def example_wait_def vibeshine_drm_present_request_valid_def
      vibeshine_drm_present_decide_wait_def vkms_crtc_init_def Let_def)

theorem waiter_woken_by_next_presentation_witness:
  "\<exists>s :: present_system. sys_history s = [7] \<and> vo_present_waitq (sys_output s) 9 = Some (Asleep 0) \<and>
     vo_present_waitq (wait_present_check 9 (wake_up_interruptible (sys_output s))) 9 = Some (Ended 0 False)"
proof -
  let ?s = "initial_system 1 2 (\<lambda>_. 0)"
  let ?entered = "wait_present_enter 9 0 ((vkms_crtc_init 1 2)\<lparr>vo_present_waiters := 1\<rparr>)"
  let ?asleep = "wait_present_check 9 ?entered"
  have seq: "wpr_sequence example_wait = 0" by (simp add: example_wait_def)
  have begins: "wait_present_begin True True example_wait (sys_output ?s) =
      (Inr (example_wait, True), (vkms_crtc_init 1 2)\<lparr>vo_present_waiters := 1\<rparr>)"
    using example_wait_registers by (simp add: initial_system_def)
  have "present_step ?s (?s\<lparr>sys_output := ?entered\<rparr>)"
    using present_step.wait_registered[OF begins, of 9] seq by (simp add: initial_system_def vkms_crtc_init_def)
  moreover have "present_step (?s\<lparr>sys_output := ?entered\<rparr>) (?s\<lparr>sys_output := ?asleep\<rparr>)"
    using present_step.wait_checks[of "?s\<lparr>sys_output := ?entered\<rparr>" 9] by simp
  moreover have "present_step (?s\<lparr>sys_output := ?asleep\<rparr>)
      (?s\<lparr>sys_output := ?asleep, sys_commits := [0 \<mapsto> Stamped True None None 7]\<rparr>)" (is "present_step _ ?stamped")
    using present_step.stamped[of "?s\<lparr>sys_output := ?asleep\<rparr>" 0 None 7 ?asleep 7 True None]
    by (simp add: initial_system_def vkms_crtc_take_present_timestamp_def)
  moreover obtain output1 refs1 where
    st: "publish_presentation True None None 7 (sys_output ?stamped, sys_refs ?stamped) = (output1, refs1)" by fastforce
  let ?t = "?stamped\<lparr>sys_output := output1, sys_refs := refs1, sys_commits := [0 \<mapsto> Waking], sys_history := [7]\<rparr>"
  have "present_step ?stamped ?t"
    using present_step.published[OF _ st, of 0] by (simp add: initial_system_def)
  ultimately have reach: "present_step\<^sup>*\<^sup>* ?s ?t"
    by (meson converse_rtranclp_into_rtranclp r_into_rtranclp)
  have "vo_present_waitq ?asleep 9 = Some (Asleep 0)"
    by (simp add: wait_present_check_def wait_present_enter_def wait_present_wakes_def vkms_crtc_init_def)
  then have asleep: "vo_present_waitq (sys_output ?t) 9 = Some (Asleep 0)"
    using publish_effect(2)[OF st] by simp
  show ?thesis
    using waiter_woken_by_next_presentation[OF reach asleep] asleep by (intro exI[of _ ?t]) simp
qed

theorem waiters_and_references_exact_witness:
  "\<exists>s :: present_system. sys_history s = [7] \<and> card (dom (vo_present_waitq (sys_output s))) \<le> 64 \<and>
     sys_refs s 5 = (if vo_present_fb (sys_output s) = 5 then 1 else 0)"
proof -
  obtain s where s: "present_step\<^sup>*\<^sup>* (initial_system 1 2 (\<lambda>_. 0)) s" "sys_history s = [7]"
    using one_presentation by blast
  then show ?thesis
    using waiters_and_references_exact[OF s(1), where fb = 5] by (intro exI[of _ s]) simp
qed

end
