(* ===== verification/Drm_Modes.thy ===== *)
theory Drm_Modes
  imports VDD_Prelude
begin

unbundle bit_operations_syntax

text \<open>
  The arithmetic of the Linux virtual display: requested modes and their pixel clock
  (\<open>vibeshine_drm_mode.h\<close>), the presentation deadline under variable refresh
  (\<open>vibeshine_drm_vrr.h\<close>), and the padding of software framebuffers (\<open>vibeshine_drm_dumb.c\<close>).
\<close>

section \<open>Requested modes\<close>

abbreviation (input) kMinRefreshMillihz :: u32 where "kMinRefreshMillihz \<equiv> 1000"
abbreviation (input) kMaxRefreshMillihz :: u32 where "kMaxRefreshMillihz \<equiv> 1000000"

record requested_mode =
  rqm_width :: u32
  rqm_height :: u32
  rqm_refresh_millihz :: u32

definition vibeshine_drm_requested_mode_valid :: "requested_mode \<Rightarrow> bool" where
  "vibeshine_drm_requested_mode_valid mode \<longleftrightarrow>
     rqm_width mode \<ge> 64 \<and> rqm_width mode \<le> 8192 \<and>
     rqm_height mode \<ge> 64 \<and> rqm_height mode \<le> 8192 \<and>
     rqm_refresh_millihz mode \<ge> kMinRefreshMillihz \<and> rqm_refresh_millihz mode \<le> kMaxRefreshMillihz"

definition vibeshine_drm_doubled_mode :: "requested_mode \<Rightarrow> requested_mode option" where
  "vibeshine_drm_doubled_mode mode =
     (if \<not> vibeshine_drm_requested_mode_valid mode \<or>
         rqm_refresh_millihz mode > kMaxRefreshMillihz div 2 then None
      else Some (mode\<lparr>rqm_refresh_millihz := rqm_refresh_millihz mode * 2\<rparr>))"

definition vibeshine_drm_requested_mode_clock_khz :: "requested_mode \<Rightarrow> u32" where
  "vibeshine_drm_requested_mode_clock_khz mode =
     (let pixels = (ucast (rqm_width mode + 160) :: u64) * ucast (rqm_height mode + 45) in
      ucast ((pixels * ucast (rqm_refresh_millihz mode) + 500000) div 1000000))"

section \<open>Variable refresh\<close>

definition vibeshine_drm_vrr_presentation_deadline_ns :: "u64 \<Rightarrow> u64 \<Rightarrow> u64 \<Rightarrow> u64" where
  "vibeshine_drm_vrr_presentation_deadline_ns previous_ns now_ns period_ns =
     (if previous_ns = 0 \<or> period_ns = 0 then now_ns
      else if previous_ns > NOT 0 - period_ns then NOT 0
      else
        let deadline_ns = previous_ns + period_ns in
        if deadline_ns > now_ns then deadline_ns else now_ns)"

section \<open>Software framebuffers\<close>

record dumb_buffer =
  dmb_height :: u32
  dmb_width :: u32
  dmb_bpp :: u32
  dmb_flags :: u32
  dmb_handle :: u32
  dmb_pitch :: u32
  dmb_size :: u64

text \<open>
  \<open>check_add_overflow\<close> and \<open>check_mul_overflow\<close> on 32-bit values: whether the exact result does
  not fit, and the wrapped result. The allocation itself is the kernel's
  \<open>drm_gem_shmem_dumb_create\<close>, an argument; an error is its negative code.
\<close>

definition check_add_overflow :: "u32 \<Rightarrow> u32 \<Rightarrow> bool \<times> u32" where
  "check_add_overflow a b = (unat a + unat b \<ge> 2 ^ 32, a + b)"

definition check_mul_overflow :: "u32 \<Rightarrow> u32 \<Rightarrow> bool \<times> u32" where
  "check_mul_overflow a b = (unat a * unat b \<ge> 2 ^ 32, a * b)"

definition vkms_dumb_create ::
  "nat \<Rightarrow> (dumb_buffer \<Rightarrow> int + dumb_buffer) \<Rightarrow> dumb_buffer \<Rightarrow> int + dumb_buffer" where
  "vkms_dumb_create page_size shmem_dumb_create args =
     (if dmb_bpp args \<noteq> 32 then shmem_dumb_create args
      else
        let (add_overflow, padded) = check_add_overflow (dmb_width args) 63 in
        if dmb_width args = 0 \<or> dmb_height args = 0 \<or> add_overflow then Inl (- 22)
        else
          let width = padded AND NOT 63;
              (bits_overflow, pitch_bits) = check_mul_overflow width (dmb_bpp args);
              (size_overflow, size') = check_mul_overflow (pitch_bits div 8) (dmb_height args) in
          if bits_overflow \<or> size_overflow \<or> unat size' > 0xffffffff - (page_size - 1) then Inl (- 22)
          else
            (case shmem_dumb_create (args\<lparr>dmb_width := width, dmb_pitch := 0, dmb_size := 0, dmb_handle := 0\<rparr>) of
               Inl err \<Rightarrow> Inl err
             | Inr allocation \<Rightarrow>
                 Inr (args\<lparr>dmb_pitch := dmb_pitch allocation, dmb_size := dmb_size allocation,
                           dmb_handle := dmb_handle allocation\<rparr>)))"

section \<open>Properties\<close>

lemma valid_mode_bounds:
  assumes "vibeshine_drm_requested_mode_valid mode"
  shows "64 \<le> unat (rqm_width mode)" "unat (rqm_width mode) \<le> 8192"
    "64 \<le> unat (rqm_height mode)" "unat (rqm_height mode) \<le> 8192"
    "1000 \<le> unat (rqm_refresh_millihz mode)" "unat (rqm_refresh_millihz mode) \<le> 1000000"
  using assms by (simp_all add: vibeshine_drm_requested_mode_valid_def word_le_nat_alt)

lemma unat_add_small: "unat a + n < 2 ^ 32 \<Longrightarrow> unat (a + of_nat n :: u32) = unat a + n"
  by (simp add: unat_word_ariths unat_of_nat)

text \<open>The clock without the machine integers: no operation wraps around for a valid mode.\<close>

lemma clock_khz_exact:
  assumes "vibeshine_drm_requested_mode_valid mode"
  shows "unat (vibeshine_drm_requested_mode_clock_khz mode) =
    ((unat (rqm_width mode) + 160) * (unat (rqm_height mode) + 45) * unat (rqm_refresh_millihz mode) + 500000)
      div 1000000"
proof -
  note bounds = valid_mode_bounds[OF assms]
  let ?w = "unat (rqm_width mode) + 160" and ?h = "unat (rqm_height mode) + 45"
    and ?r = "unat (rqm_refresh_millihz mode)"
  have w: "unat (rqm_width mode + 160) = ?w" and h: "unat (rqm_height mode + 45) = ?h"
    using bounds unat_add_small[of "rqm_width mode" 160] unat_add_small[of "rqm_height mode" 45]
    by simp_all
  have pixels: "?w * ?h \<le> 8352 * 8237" using bounds by (intro mult_le_mono) simp_all
  have "?w * ?h * ?r \<le> 8352 * 8237 * 1000000" by (rule mult_le_mono[OF pixels bounds(6)])
  then have product: "?w * ?h * ?r + 500000 < 2 ^ 46" by simp
  have "unat ((ucast (rqm_width mode + 160) :: u64) * ucast (rqm_height mode + 45)) = ?w * ?h"
    using pixels by (subst unat_word_ariths) (simp add: w h del: unat_word_ariths)
  then have "unat ((ucast (rqm_width mode + 160) :: u64) * ucast (rqm_height mode + 45) *
      ucast (rqm_refresh_millihz mode) + 500000) = ?w * ?h * ?r + 500000"
    using product by (simp add: unat_word_ariths)
  then have "unat (((ucast (rqm_width mode + 160) :: u64) * ucast (rqm_height mode + 45) *
      ucast (rqm_refresh_millihz mode) + 500000) div 1000000) = (?w * ?h * ?r + 500000) div 1000000"
    by (simp add: unat_div)
  moreover have "(?w * ?h * ?r + 500000) div 1000000 < 2 ^ 32"
    using product by (simp add: div_less_iff_less_mult)
  ultimately show ?thesis
    unfolding vibeshine_drm_requested_mode_clock_khz_def Let_def
    by (simp add: unsigned_ucast_eq take_bit_nat_eq_self)
qed

text \<open>
  For every mode a client may request, the pixel clock is the product of the padded
  dimensions and the refresh rate rounded to the nearest kHz, without any wrap-around, and the
  refresh rate that the display gets from it differs from the requested one by less than
  0.021 Hz, as the source promises.
\<close>

theorem mode_clock_error_bound:
  assumes "vibeshine_drm_requested_mode_valid mode"
  defines "pixels \<equiv> (unat (rqm_width mode) + 160) * (unat (rqm_height mode) + 45)"
    and "clock \<equiv> unat (vibeshine_drm_requested_mode_clock_khz mode)"
  shows "\<bar>int (clock * 1000000) - int (pixels * unat (rqm_refresh_millihz mode))\<bar> \<le> 500000 \<and>
    \<bar>int (clock * 1000000) - int (pixels * unat (rqm_refresh_millihz mode))\<bar> < 21 * int pixels \<and>
    0 < clock"
proof -
  let ?n = "pixels * unat (rqm_refresh_millihz mode)"
  note bounds = valid_mode_bounds[OF assms(1)]
  have clock: "clock = (?n + 500000) div 1000000"
    using clock_khz_exact[OF assms(1)] by (simp add: clock_def pixels_def)
  have "224 * 109 \<le> pixels" unfolding pixels_def using bounds by (intro mult_le_mono) simp_all
  moreover have "pixels * 1000 \<le> ?n" using bounds by (intro mult_le_mono) simp_all
  moreover have "clock * 1000000 \<le> ?n + 500000" "?n + 500000 < clock * 1000000 + 1000000"
    unfolding clock using div_times_less_eq_dividend[of "?n + 500000" 1000000]
      dividend_less_div_times[of 1000000 "?n + 500000"] by simp_all
  ultimately show ?thesis by linarith
qed

text \<open>
  A presentation under variable refresh is never scheduled in the past and never earlier than
  one period after the previous one; the sum saturates at the greatest time instead of wrapping
  around, and without a previous presentation or a period there is no delay.
\<close>

theorem vrr_deadline_exact:
  "unat (vibeshine_drm_vrr_presentation_deadline_ns previous now period) =
     (if previous = 0 \<or> period = 0 then unat now
      else max (unat now) (min (unat previous + unat period) (2 ^ 64 - 1)))"
proof -
  have max64: "unat (NOT 0 :: u64) = 2 ^ 64 - 1"
    by (simp add: unsigned_minus_1_eq_mask mask_eq_exp_minus_1)
  have now: "unat now \<le> 2 ^ 64 - 1" using unsigned_less[of now, where 'a = nat] by simp
  have "period \<le> NOT 0" by simp
  then have room: "unat (NOT 0 - period) = 2 ^ 64 - 1 - unat period"
    by (simp only: unat_sub max64)
  have wraps: "previous > NOT 0 - period \<longleftrightarrow> 2 ^ 64 - 1 < unat previous + unat period"
    using unsigned_less[of period, where 'a = nat] unfolding word_less_nat_alt room by simp linarith
  have sum: "unat (previous + period) = unat previous + unat period"
    if "\<not> 2 ^ 64 - 1 < unat previous + unat period"
    using that by (simp add: unat_word_ariths)
  show ?thesis
  proof (cases "previous = 0 \<or> period = 0")
    case True
    then show ?thesis by (auto simp: vibeshine_drm_vrr_presentation_deadline_ns_def)
  next
    case False
    show ?thesis
    proof (cases "2 ^ 64 - 1 < unat previous + unat period")
      case True
      then have "vibeshine_drm_vrr_presentation_deadline_ns previous now period = NOT 0"
        using False wraps by (simp only: vibeshine_drm_vrr_presentation_deadline_ns_def if_True if_False)
      then show ?thesis using False True now max64 by (simp only: if_False)
    next
      case fits: False
      then have "vibeshine_drm_vrr_presentation_deadline_ns previous now period =
          (if previous + period > now then previous + period else now)"
        using False wraps by (simp only: vibeshine_drm_vrr_presentation_deadline_ns_def if_False Let_def)
      then show ?thesis using False fits sum[OF fits] by (simp add: word_less_nat_alt)
    qed
  qed
qed

lemma word_of_nat_unat: "of_nat (unat w) = (w :: u32)"
  by simp

lemma and_not_63: "unat (w AND NOT 63 :: u32) = 64 * (unat w div 64)"
proof -
  have "w AND NOT 63 = push_bit 6 (drop_bit 6 w)"
  proof (rule bit_word_eqI)
    fix n assume "n < LENGTH(32)"
    have "bit (63 :: u32) n \<longleftrightarrow> n < 6"
      using bit_mask_iff[of 6 n, where 'a = "32 word"] \<open>n < LENGTH(32)\<close>
      by (simp add: mask_eq_exp_minus_1)
    then show "bit (w AND NOT 63) n = bit (push_bit 6 (drop_bit 6 w)) n"
      using \<open>n < LENGTH(32)\<close> by (auto simp: bit_simps)
  qed
  moreover have "unat (drop_bit 6 w) = unat w div 64"
    by (simp add: drop_bit_eq_div unat_div)
  moreover have "unat w div 64 * 64 < 2 ^ 32"
    using unsigned_less[of w, where 'a = nat] div_times_less_eq_dividend[of "unat w" 64]
    by (auto intro: le_less_trans)
  ultimately show ?thesis
    by (simp add: push_bit_eq_mult unat_word_ariths mult.commute)
qed

text \<open>
  A 32-bit software framebuffer is allocated with its width rounded up to a multiple of 64
  pixels, so that every row is a multiple of 256 bytes, while the caller keeps its own width and
  height; the request is refused exactly when a dimension is zero or a row of bits, or the
  page-aligned size, does not fit into 32 bits.
\<close>

theorem dumb_create_exact:
  assumes "dmb_bpp args = 32" and "0 < page_size" and "page_size \<le> 0xffffffff"
  defines "width \<equiv> 64 * ((unat (dmb_width args) + 63) div 64)"
  shows "vkms_dumb_create page_size shmem_dumb_create args =
    (if dmb_width args = 0 \<or> dmb_height args = 0 \<or> 2 ^ 32 \<le> width * 32 \<or>
        2 ^ 32 - page_size < 4 * width * unat (dmb_height args) then Inl (- 22)
     else map_sum id (\<lambda>allocation. args\<lparr>dmb_pitch := dmb_pitch allocation,
            dmb_size := dmb_size allocation, dmb_handle := dmb_handle allocation\<rparr>)
          (shmem_dumb_create (args\<lparr>dmb_width := of_nat width, dmb_pitch := 0, dmb_size := 0, dmb_handle := 0\<rparr>)))"
proof (cases "2 ^ 32 \<le> unat (dmb_width args) + 63")
  case True
  then have "2 ^ 32 \<le> width * 32" unfolding width_def by simp
  then show ?thesis using assms(1) True by (simp add: vkms_dumb_create_def check_add_overflow_def)
next
  case False
  let ?padded = "(dmb_width args + 63) AND NOT 63" and ?h = "unat (dmb_height args)"
  have sum: "unat (dmb_width args + 63) = unat (dmb_width args) + 63"
    using False by (simp add: unat_word_ariths)
  have w: "unat ?padded = width" unfolding and_not_63 sum width_def ..
  have padded: "?padded = of_nat width" unfolding w[symmetric] by (rule word_of_nat_unat[symmetric])
  show ?thesis
  proof (cases "2 ^ 32 \<le> width * 32")
    case True
    then show ?thesis using assms(1) False w
      by (simp add: vkms_dumb_create_def check_add_overflow_def check_mul_overflow_def Let_def)
  next
    case bits: False
    then have pitch: "unat (?padded * 32 div 8) = 4 * width"
      using w by (simp add: unat_div unat_word_ariths)
    have fits: "unat (?padded * 32 div 8 * dmb_height args) = 4 * width * ?h"
      if "4 * width * ?h < 2 ^ 32"
      using that pitch by (simp add: unat_word_ariths)
    have "(4 * width * ?h \<ge> 2 ^ 32 \<or>
          unat (?padded * 32 div 8 * dmb_height args) > 0xffffffff - (page_size - 1)) \<longleftrightarrow>
        2 ^ 32 - page_size < 4 * width * ?h"
      using fits assms(2,3) by (cases "4 * width * ?h < 2 ^ 32") auto
    then show ?thesis using assms(1) False bits w pitch
      by (auto simp: vkms_dumb_create_def check_add_overflow_def check_mul_overflow_def Let_def padded
          split: sum.splits)
  qed
qed

theorem mode_clock_error_bound_witness:
  "\<bar>int (unat (vibeshine_drm_requested_mode_clock_khz
      \<lparr>rqm_width = 1920, rqm_height = 1080, rqm_refresh_millihz = 59940\<rparr>) * 1000000) - 140259600000\<bar> \<le> 500000"
  using mode_clock_error_bound[of "\<lparr>rqm_width = 1920, rqm_height = 1080, rqm_refresh_millihz = 59940\<rparr>"]
  by (simp add: vibeshine_drm_requested_mode_valid_def)

definition example_dumb :: dumb_buffer where
  "example_dumb = \<lparr>dmb_height = 768, dmb_width = 1366, dmb_bpp = 32, dmb_flags = 0, dmb_handle = 0,
     dmb_pitch = 0, dmb_size = 0\<rparr>"

text \<open>A helper that behaves like the kernel's: rows of whole pixels and their total size.\<close>

definition example_helper :: "dumb_buffer \<Rightarrow> int + dumb_buffer" where
  "example_helper args = Inr (args\<lparr>dmb_pitch := dmb_width args * 4,
     dmb_size := ucast (dmb_width args) * 4 * ucast (dmb_height args), dmb_handle := 1\<rparr>)"

theorem dumb_create_exact_witness:
  "vkms_dumb_create 4096 example_helper example_dumb =
     Inr (example_dumb\<lparr>dmb_pitch := 5632, dmb_size := 4325376, dmb_handle := 1\<rparr>)"
  using dumb_create_exact[of example_dumb 4096 example_helper]
  by (simp add: example_dumb_def example_helper_def)

end
