(* ===== verification/Monitor_Backend.thy ===== *)
theory Monitor_Backend
  imports Driver_Controller Driver_Modes
begin

text \<open>
  The monitor backend of the Windows driver (\<open>IddCxBackend\<close> in \<open>driver_main.cpp\<close>): the table
  of monitors, their arrival and their departure. Every section of the code that holds \<open>mutex_\<close>
  is one definition on the backend state; what a thread does next, with the locals it still
  needs, is the \<open>activity\<close> the section returns. The calls between the sections (IddCx, WDF,
  thread creation, bounded waits) only contribute their outcome, an argument of the section that
  uses it. \<open>Monitor_System\<close> puts the sections of all threads together.

  A monitor handle stands for the identity of the WDF object. The cursor processor of a record is
  left out: \<open>setup_hardware_cursor\<close> returns before it creates one, so the field stays null.
  Trace events and the retention of HDR profiles in the registry have no effect on this state.
\<close>

section \<open>State\<close>

type_synonym monitor = nat
type_synonym processor = nat
type_synonym adapter = nat
type_synonym thread = nat

record monitor_record =
  mr_descriptor :: display_descriptor
  mr_monitor :: monitor
  mr_swapchain_processor :: "processor option"
  mr_retired_swapchain_processors :: "processor list"
  mr_permanent :: bool
  mr_arriving :: bool
  mr_departing :: bool
  mr_orphaned_late_arrival :: bool
  mr_assign_callbacks_in_flight :: u32
  mr_unassign_callbacks_in_flight :: u32
  mr_default_hdr_metadata :: "u32 \<times> u32"
  mr_gamma_ramp :: "u32 \<times> u32"

text \<open>The WDF context of a monitor object; \<open>mc_attached\<close>: its \<open>backend\<close> pointer is not null.\<close>

record monitor_context =
  mc_attached :: bool
  mc_display_id :: u64
  mc_display_generation :: u64

text \<open>What an arriving thread and its caller share, under the lock of the backend.\<close>

record arrival_state =
  as_result :: backend_display_result
  as_worker_done :: bool
  as_caller_timed_out :: bool

datatype nt_status = NtSuccess | NtPending | NtDeviceNotReady | NtFailure u32

record backend =
  bk_runtime_hdr :: bool
  bk_adapter :: "adapter option"
  bk_preferred_render_adapter :: adapter_luid
  bk_adapter_ready :: bool
  bk_adapter_init_status :: nt_status
  bk_shutting_down :: bool
  bk_arrivals :: u32
  bk_departures :: u32
  bk_render_calls :: u32
  bk_lifecycle_unhealthy :: bool
  bk_monitors :: "u64 \<rightharpoonup> monitor_record"
  bk_contexts :: "monitor \<rightharpoonup> monitor_context"
  bk_arrival_states :: "thread \<rightharpoonup> arrival_state"
  bk_modes :: mode_store

definition initial_backend :: "bool \<Rightarrow> backend" where
  "initial_backend runtime_hdr =
     \<lparr>bk_runtime_hdr = runtime_hdr, bk_adapter = None,
      bk_preferred_render_adapter = \<lparr>low_part = 0, high_part = 0\<rparr>, bk_adapter_ready = False,
      bk_adapter_init_status = NtDeviceNotReady, bk_shutting_down = False, bk_arrivals = 0,
      bk_departures = 0, bk_render_calls = 0, bk_lifecycle_unhealthy = False,
      bk_monitors = Map.empty, bk_contexts = Map.empty, bk_arrival_states = Map.empty,
      bk_modes = Map.empty\<rparr>"

definition failed_display :: backend_display_result where
  "failed_display = \<lparr>bdr_error = BackendFailed, bdr_os_adapter_luid = \<lparr>low_part = 0, high_part = 0\<rparr>,
     bdr_target_id = 0\<rparr>"

text \<open>
  What a thread is about to do. A worker carries its own name, the key of the state it shares with
  its caller, and the descriptor it brings up. The identifier of a nested call or of a started thread is the
  name of its own activity; a thread that waits for it reads the result there.
\<close>

datatype depart_activity =
    DepartRequested u64 u64
  | DepartWaiting u64 u64 monitor
  | DepartStopping u64 u64 monitor "processor option" "processor list"
  | DepartCalling u64 u64 monitor
  | DepartSpawning u64 u64 monitor
  | DepartAwaiting thread
  | DepartReturned backend_error
  | DepartWorker u64 u64 monitor
  | DepartWorkerReturned u64 u64 monitor bool
  | DepartWorkerUnregister display_descriptor bool
  | DepartWorkerFinished bool

datatype arrive_activity =
    ArriveRequested display_descriptor bool
  | ArriveSpawning display_descriptor bool
  | ArriveAwaiting thread
  | ArriveJoining thread
  | ArriveReturned backend_display_result

text \<open>
  The worker of an arrival. In the last stages the option is the monitor that arrived and the
  boolean the local \<open>caller_abandoned\<close>.
\<close>

datatype arrive_stage =
    StageChecking bool
  | StageStale bool u64
  | StageRetiring bool thread
  | StageReserving bool
  | StageRegistering bool adapter
  | StageCreating bool adapter
  | StageRecording bool adapter monitor
  | StageAnnouncing monitor
  | StageConfirming monitor adapter_luid u32
  | StageDiscarding
  | StageReporting "monitor option" backend_display_result
  | StageTagging monitor
  | StageLate monitor
  | StageCleaning monitor thread
  | StageFinishing "monitor option" bool
  | StageFinished "monitor option" bool

datatype swapchain_activity =
    AssignRequested monitor
  | AssignStarting u64 monitor
  | AssignCommitting u64 monitor processor
  | AssignRetiring u64 monitor processor
  | AssignFinishing u64 monitor bool
  | AssignReturned bool
  | UnassignRequested monitor
  | UnassignStopping u64 monitor "processor option" "processor list"
  | UnassignFinishing u64 monitor
  | UnassignReturned

datatype render_activity =
    RenderRequested adapter_luid
  | AdapterInitFinished nt_status
  | RenderCounting
  | RenderSpawning
  | RenderAwaiting thread
  | RenderWorker
  | RenderWorkerFinished
  | RenderReturned backend_error

datatype device_activity =
    ShutdownRequested
  | ShutdownWaiting
  | ShutdownCollecting
  | ShutdownDeparting "u64 list" "u64 list"
  | ShutdownAwaiting thread u64 "u64 list" "u64 list"
  | ShutdownSettling
  | ShutdownReturned bool
  | CleanupRequested
  | CleanupRetrying "(u64 \<times> u64) list"
  | CleanupAwaiting thread "(u64 \<times> u64) list"
  | CleanupReturned

datatype manifest_activity =
    ApplyRequested display_manifest
  | ApplyDeparting "display_descriptor list" "display_descriptor list" display_manifest
  | ApplyDepartAwaiting thread "display_descriptor list" "display_descriptor list" display_manifest
  | ApplyArriving "display_descriptor list" "u64 list" "display_descriptor list"
  | ApplyArriveAwaiting thread u64 "display_descriptor list" "u64 list" "display_descriptor list"
  | ApplyUndoing "u64 list" "display_descriptor list"
  | ApplyUndoAwaiting thread "u64 list" "display_descriptor list"
  | ApplyRestoring "display_descriptor list"
  | ApplyRestoreAwaiting thread "display_descriptor list"
  | ApplyReturned backend_error

datatype activity =
    Depart depart_activity
  | Arrive arrive_activity
  | Worker thread display_descriptor arrive_stage
  | Swapchain swapchain_activity
  | Render render_activity
  | Device device_activity
  | Manifest manifest_activity

section \<open>Bookkeeping\<close>

definition with_monitor :: "u64 \<Rightarrow> (monitor_record \<Rightarrow> monitor_record) \<Rightarrow> backend \<Rightarrow> backend" where
  "with_monitor display_id f b =
     b\<lparr>bk_monitors := (bk_monitors b)(display_id := map_option f (bk_monitors b display_id))\<rparr>"

definition find_current_monitor :: "u64 \<Rightarrow> monitor \<Rightarrow> backend \<Rightarrow> monitor_record option" where
  "find_current_monitor display_id handle b =
     (case bk_monitors b display_id of
        None \<Rightarrow> None
      | Some record \<Rightarrow> if mr_monitor record \<noteq> handle then None else Some record)"

definition clear_unhealthy_if_settled :: "backend \<Rightarrow> backend" where
  "clear_unhealthy_if_settled b =
     (if bk_arrivals b = 0 \<and> bk_departures b = 0 \<and> bk_render_calls b = 0
      then b\<lparr>bk_lifecycle_unhealthy := False\<rparr> else b)"

definition finish_monitor_arrival :: "backend \<Rightarrow> backend" where
  "finish_monitor_arrival b =
     clear_unhealthy_if_settled
       (if bk_arrivals b > 0 then b\<lparr>bk_arrivals := bk_arrivals b - 1\<rparr> else b)"

definition finish_render_adapter_call :: "backend \<Rightarrow> backend" where
  "finish_render_adapter_call b =
     clear_unhealthy_if_settled
       (if bk_render_calls b > 0 then b\<lparr>bk_render_calls := bk_render_calls b - 1\<rparr> else b)"

text \<open>The locked section of \<open>finish_monitor_departure\<close>, and the descriptor it leaves to unregister.\<close>

definition finish_monitor_departure ::
  "u64 \<Rightarrow> monitor \<Rightarrow> bool \<Rightarrow> backend \<Rightarrow> backend \<times> display_descriptor option" where
  "finish_monitor_departure display_id handle success b =
     (let b1 = (if bk_departures b > 0 then b\<lparr>bk_departures := bk_departures b - 1\<rparr> else b) in
      case find_current_monitor display_id handle b1 of
        None \<Rightarrow> (clear_unhealthy_if_settled b1, None)
      | Some record \<Rightarrow>
          if success
          then (clear_unhealthy_if_settled (b1\<lparr>bk_monitors := (bk_monitors b1)(display_id := None)\<rparr>),
                Some (mr_descriptor record))
          else (clear_unhealthy_if_settled
                  (with_monitor display_id (\<lambda>r. r\<lparr>mr_departing := False\<rparr>) b1), None))"

definition mode_shape_from_descriptor :: "display_descriptor \<Rightarrow> mode_shape" where
  "mode_shape_from_descriptor d =
     (if dd_width d = 0 \<or> dd_height d = 0 \<or> dd_refresh_rate_millihz d = 0
      then \<lparr>ms_width = 0, ms_height = 0, ms_total_width = 0, ms_total_height = 0, ms_pixel_rate = 0,
            ms_refresh_rate_millihz = 0\<rparr>
      else active_windows_driver_mode_shape (dd_width d) (dd_height d) (dd_refresh_rate_millihz d))"

definition register_monitor_description_mode :: "display_descriptor \<Rightarrow> backend \<Rightarrow> backend \<times> bool" where
  "register_monitor_description_mode d b =
     (let mode = mode_shape_from_descriptor d in
      if ms_width mode = 0 \<or> ms_height mode = 0 \<or> ms_refresh_rate_millihz mode = 0 then (b, False)
      else
        (let (modes, ok) = register_mode (dd_edid d) mode (dd_requested_resolution_only d) (bk_modes b)
         in (b\<lparr>bk_modes := modes\<rparr>, ok)))"

definition unregister_monitor_description_mode :: "display_descriptor \<Rightarrow> backend \<Rightarrow> backend" where
  "unregister_monitor_description_mode d b = b\<lparr>bk_modes := unregister_mode (dd_edid d) (bk_modes b)\<rparr>"

section \<open>Departure\<close>

definition callbacks_in_flight :: "monitor_record \<Rightarrow> bool" where
  "callbacks_in_flight record \<longleftrightarrow>
     mr_assign_callbacks_in_flight record > 0 \<or> mr_unassign_callbacks_in_flight record > 0"

text \<open>The end of the first section of \<open>backend_depart_display\<close>: the processors move to the thread.\<close>

definition take_processors ::
  "u64 \<Rightarrow> u64 \<Rightarrow> monitor_record \<Rightarrow> backend \<Rightarrow> backend \<times> depart_activity" where
  "take_processors display_id expected record b =
     (with_monitor display_id
        (\<lambda>r. r\<lparr>mr_swapchain_processor := None, mr_retired_swapchain_processors := []\<rparr>) b,
      DepartStopping display_id expected (mr_monitor record) (mr_swapchain_processor record)
        (mr_retired_swapchain_processors record))"

definition backend_depart_display :: "u64 \<Rightarrow> u64 \<Rightarrow> backend \<Rightarrow> backend \<times> depart_activity" where
  "backend_depart_display display_id expected b =
     (case bk_monitors b display_id of
        None \<Rightarrow> (b, DepartReturned BackendNone)
      | Some record \<Rightarrow>
          if expected \<noteq> 0 \<and> dd_generation (mr_descriptor record) \<noteq> 0 \<and>
             dd_generation (mr_descriptor record) \<noteq> expected
          then (b, DepartReturned BackendNone)
          else if mr_arriving record then (b, DepartReturned BackendFailed)
          else if mr_departing record then (b, DepartReturned BackendFailed)
          else
            let b1 = with_monitor display_id (\<lambda>r. r\<lparr>mr_departing := True\<rparr>) b in
            if callbacks_in_flight record then (b1, DepartWaiting display_id expected (mr_monitor record))
            else take_processors display_id expected record b1)"

text \<open>The rest of that section, after \<open>wait_for\<close> returned or timed out.\<close>

definition depart_display_resume ::
  "u64 \<Rightarrow> u64 \<Rightarrow> monitor \<Rightarrow> backend \<Rightarrow> backend \<times> depart_activity" where
  "depart_display_resume display_id expected handle b =
     (case find_current_monitor display_id handle b of
        None \<Rightarrow> (b, DepartReturned BackendNone)
      | Some record \<Rightarrow>
          if callbacks_in_flight record
          then (with_monitor display_id (\<lambda>r. r\<lparr>mr_departing := False\<rparr>) b, DepartReturned BackendFailed)
          else take_processors display_id expected record b)"

text \<open>
  The bounded stop of all processors; \<open>stopped\<close> says which workers ended in time. Survivors go
  back to the record, or to the deferred cleanup when the record is gone.
\<close>

definition unstopped :: "(processor \<Rightarrow> bool) \<Rightarrow> processor option \<Rightarrow> processor option" where
  "unstopped stopped active = (case active of None \<Rightarrow> None | Some p \<Rightarrow> if stopped p then None else Some p)"

definition depart_display_stop ::
  "(processor \<Rightarrow> bool) \<Rightarrow> u64 \<Rightarrow> u64 \<Rightarrow> monitor \<Rightarrow> processor option \<Rightarrow> processor list \<Rightarrow> backend \<Rightarrow>
     backend \<times> depart_activity" where
  "depart_display_stop stopped display_id expected handle active retired b =
     (let active1 = unstopped stopped active; retired1 = filter (\<lambda>p. \<not> stopped p) retired in
      if active1 = None \<and> retired1 = [] then (b, DepartCalling display_id expected handle)
      else
        (case find_current_monitor display_id handle b of
           None \<Rightarrow> (b, DepartReturned BackendFailed)
         | Some _ \<Rightarrow>
             (with_monitor display_id
                (\<lambda>r. r\<lparr>mr_departing := False,
                   mr_swapchain_processor := (if active1 = None then mr_swapchain_processor r else active1),
                   mr_retired_swapchain_processors := mr_retired_swapchain_processors r @ retired1\<rparr>) b,
              DepartReturned BackendFailed)))"

definition depart_monitor_with_timeout ::
  "u64 \<Rightarrow> u64 \<Rightarrow> monitor \<Rightarrow> backend \<Rightarrow> backend \<times> depart_activity" where
  "depart_monitor_with_timeout display_id expected handle b =
     (b\<lparr>bk_departures := bk_departures b + 1\<rparr>, DepartSpawning display_id expected handle)"

text \<open>No thread for the departure: it is finished as a failed one.\<close>

definition depart_spawn_failed :: "u64 \<Rightarrow> monitor \<Rightarrow> backend \<Rightarrow> backend \<times> depart_activity" where
  "depart_spawn_failed display_id handle b =
     (fst (finish_monitor_departure display_id handle False b), DepartReturned BackendFailed)"

definition depart_timed_out :: "backend \<Rightarrow> backend \<times> depart_activity" where
  "depart_timed_out b =
     ((if bk_departures b > 0 then b\<lparr>bk_lifecycle_unhealthy := True\<rparr> else b),
      DepartReturned BackendFailed)"

definition depart_joined :: "bool \<Rightarrow> depart_activity" where
  "depart_joined success = DepartReturned (if success then BackendNone else BackendFailed)"

definition depart_worker_finish ::
  "u64 \<Rightarrow> monitor \<Rightarrow> bool \<Rightarrow> backend \<Rightarrow> backend \<times> depart_activity" where
  "depart_worker_finish display_id handle success b =
     (let (b1, unregister) = finish_monitor_departure display_id handle success b in
      case unregister of
        None \<Rightarrow> (b1, DepartWorkerFinished success)
      | Some d \<Rightarrow> (b1, DepartWorkerUnregister d success))"

section \<open>Arrival\<close>

text \<open>Without HDR at run time the EDID of the display is replaced by one that does not announce it.\<close>

definition descriptor_with_runtime_hdr_policy :: "bool \<Rightarrow> display_descriptor \<Rightarrow> display_descriptor" where
  "descriptor_with_runtime_hdr_policy runtime_hdr d =
     (if runtime_hdr \<or> \<not> has_hdr_static_metadata (dd_edid d) then d
      else d\<lparr>dd_edid := create_edid
        \<lparr>eo_manufacturer_id =
           (case read_manufacturer_id (dd_edid d) of None \<Rightarrow> kSunshineDriverManufacturerId | Some m \<Rightarrow> m),
         eo_product_code = read_product_code (dd_edid d),
         eo_serial_number = read_serial_number (dd_edid d),
         eo_width = dd_width d, eo_height = dd_height d,
         eo_physical_width_mm = dd_physical_width_mm d,
         eo_physical_height_mm = dd_physical_height_mm d,
         eo_refresh_rate_millihz = dd_refresh_rate_millihz d,
         eo_hdr_max_luminance_nits = 1000,
         eo_monitor_name =
           (case read_monitor_name (dd_edid d) of None \<Rightarrow> ''Sunshine Display'' | Some n \<Rightarrow> n),
         eo_hdr_supported = False\<rparr>\<rparr>)"

definition arrive_display :: "display_descriptor \<Rightarrow> bool \<Rightarrow> backend \<Rightarrow> backend \<times> arrive_activity" where
  "arrive_display d permanent b =
     (b\<lparr>bk_arrivals := bk_arrivals b + 1\<rparr>, ArriveSpawning d permanent)"

definition arrive_spawn_failed :: "backend \<Rightarrow> backend \<times> arrive_activity" where
  "arrive_spawn_failed b = (finish_monitor_arrival b, ArriveReturned failed_display)"

definition arrive_spawned :: "thread \<Rightarrow> backend \<Rightarrow> backend \<times> arrive_activity" where
  "arrive_spawned worker b =
     (b\<lparr>bk_arrival_states := (bk_arrival_states b)(worker \<mapsto>
        \<lparr>as_result = failed_display, as_worker_done = False, as_caller_timed_out = False\<rparr>)\<rparr>,
      ArriveAwaiting worker)"

text \<open>The decision of the caller after its bounded wait.\<close>

definition arrive_wait_over :: "thread \<Rightarrow> backend \<Rightarrow> backend \<times> arrive_activity" where
  "arrive_wait_over worker b =
     (case bk_arrival_states b worker of
        None \<Rightarrow> (b, ArriveReturned failed_display)
      | Some state \<Rightarrow>
          if as_worker_done state then (b, ArriveJoining worker)
          else (b\<lparr>bk_arrival_states :=
                    (bk_arrival_states b)(worker \<mapsto> state\<lparr>as_caller_timed_out := True\<rparr>),
                   bk_lifecycle_unhealthy := True\<rparr>,
                ArriveReturned failed_display))"

definition arrive_joined :: "thread \<Rightarrow> backend \<Rightarrow> arrive_activity" where
  "arrive_joined worker b =
     ArriveReturned (case bk_arrival_states b worker of None \<Rightarrow> failed_display | Some state \<Rightarrow> as_result state)"

text \<open>\<open>arrive_display_synchronously\<close>, section by section.\<close>

definition stale_generation :: "display_descriptor \<Rightarrow> backend \<Rightarrow> u64 option" where
  "stale_generation d b =
     (case bk_monitors b (dd_display_id d) of
        None \<Rightarrow> None
      | Some record \<Rightarrow>
          if \<not> mr_permanent record \<and> \<not> mr_arriving record \<and> \<not> mr_departing record \<and>
             dd_generation (mr_descriptor record) \<noteq> dd_generation d
          then Some (dd_generation (mr_descriptor record)) else None)"

definition stage_checking :: "display_descriptor \<Rightarrow> bool \<Rightarrow> backend \<Rightarrow> arrive_stage" where
  "stage_checking d permanent b =
     (if \<not> permanent \<and> dd_generation d \<noteq> 0
      then (case stale_generation d b of
              None \<Rightarrow> StageReserving permanent
            | Some generation \<Rightarrow> StageStale permanent generation)
      else StageReserving permanent)"

definition stage_retired :: "bool \<Rightarrow> backend_error \<Rightarrow> arrive_stage" where
  "stage_retired permanent result =
     (if result \<noteq> BackendNone then StageReporting None failed_display else StageReserving permanent)"

definition stage_reserving :: "display_descriptor \<Rightarrow> bool \<Rightarrow> backend \<Rightarrow> arrive_stage" where
  "stage_reserving d permanent b =
     (if bk_shutting_down b \<or> \<not> bk_adapter_ready b then StageReporting None failed_display
      else
        (case bk_adapter b of
           None \<Rightarrow> StageReporting None failed_display
         | Some adapter \<Rightarrow>
             if bk_monitors b (dd_display_id d) \<noteq> None then StageReporting None failed_display
             else StageRegistering permanent adapter))"

text \<open>\<open>allocated\<close>: the registration did not throw.\<close>

definition stage_registering ::
  "bool \<Rightarrow> display_descriptor \<Rightarrow> bool \<Rightarrow> adapter \<Rightarrow> backend \<Rightarrow> backend \<times> arrive_stage" where
  "stage_registering allocated d permanent adapter b =
     (if \<not> allocated then (b, StageReporting None failed_display)
      else
        (let (b1, registered) = register_monitor_description_mode d b in
         (b1, if registered then StageCreating permanent adapter else StageReporting None failed_display)))"

text \<open>The outcome of \<open>IddCxMonitorCreate\<close>: a fresh monitor object, or a failure.\<close>

definition stage_creating ::
  "monitor option \<Rightarrow> display_descriptor \<Rightarrow> bool \<Rightarrow> adapter \<Rightarrow> backend \<Rightarrow> backend \<times> arrive_stage" where
  "stage_creating created d permanent adapter b =
     (case created of
        None \<Rightarrow> (unregister_monitor_description_mode d b, StageReporting None failed_display)
      | Some handle \<Rightarrow>
          (b\<lparr>bk_contexts := (bk_contexts b)(handle \<mapsto>
             \<lparr>mc_attached = True, mc_display_id = dd_display_id d,
              mc_display_generation = dd_generation d\<rparr>)\<rparr>,
           StageRecording permanent adapter handle))"

definition new_record :: "display_descriptor \<Rightarrow> bool \<Rightarrow> monitor \<Rightarrow> monitor_record" where
  "new_record d permanent handle =
     \<lparr>mr_descriptor = d, mr_monitor = handle, mr_swapchain_processor = None,
      mr_retired_swapchain_processors = [], mr_permanent = permanent, mr_arriving = True,
      mr_departing = False, mr_orphaned_late_arrival = False, mr_assign_callbacks_in_flight = 0,
      mr_unassign_callbacks_in_flight = 0, mr_default_hdr_metadata = (0, 0), mr_gamma_ramp = (0, 0)\<rparr>"

definition stage_recording ::
  "bool \<Rightarrow> display_descriptor \<Rightarrow> bool \<Rightarrow> adapter \<Rightarrow> monitor \<Rightarrow> backend \<Rightarrow> backend \<times> arrive_stage" where
  "stage_recording allocated d permanent adapter handle b =
     (if \<not> allocated then (b, StageDiscarding)
      else if \<not> bk_adapter_ready b \<or> bk_adapter b \<noteq> Some adapter \<or> bk_monitors b (dd_display_id d) \<noteq> None
      then (b, StageDiscarding)
      else (b\<lparr>bk_monitors := (bk_monitors b)(dd_display_id d \<mapsto> new_record d permanent handle)\<rparr>,
            StageAnnouncing handle))"

text \<open>The outcome of \<open>IddCxMonitorArrival\<close>: adapter and target, or a failure.\<close>

definition stage_announcing ::
  "(adapter_luid \<times> u32) option \<Rightarrow> display_descriptor \<Rightarrow> monitor \<Rightarrow> backend \<Rightarrow> backend \<times> arrive_stage" where
  "stage_announcing arrived d handle b =
     (case arrived of
        None \<Rightarrow> (b\<lparr>bk_monitors := (bk_monitors b)(dd_display_id d := None)\<rparr>, StageDiscarding)
      | Some (luid, target) \<Rightarrow> (b, StageConfirming handle luid target))"

definition stage_confirming ::
  "display_descriptor \<Rightarrow> monitor \<Rightarrow> adapter_luid \<Rightarrow> u32 \<Rightarrow> backend \<Rightarrow> backend \<times> arrive_stage" where
  "stage_confirming d handle luid target b =
     (case find_current_monitor (dd_display_id d) handle b of
        None \<Rightarrow> (b, StageDiscarding)
      | Some _ \<Rightarrow>
          (with_monitor (dd_display_id d) (\<lambda>r. r\<lparr>mr_arriving := False\<rparr>) b,
           StageReporting (Some handle)
             \<lparr>bdr_error = BackendNone, bdr_os_adapter_luid = luid, bdr_target_id = target\<rparr>))"

definition stage_discarding :: "display_descriptor \<Rightarrow> backend \<Rightarrow> backend \<times> arrive_stage" where
  "stage_discarding d b =
     (unregister_monitor_description_mode d b, StageReporting None failed_display)"

text \<open>
  The worker hands its result to the caller, unless the caller has given up: then a monitor that
  arrived is tagged and departed by the worker. The optional handle is the monitor that arrived.
\<close>

definition stage_reporting ::
  "thread \<Rightarrow> monitor option \<Rightarrow> backend_display_result \<Rightarrow> backend \<Rightarrow> backend \<times> arrive_stage" where
  "stage_reporting worker arrived result b =
     (case bk_arrival_states b worker of
        None \<Rightarrow> (b, StageFinishing arrived False)
      | Some state \<Rightarrow>
          if as_caller_timed_out state
          then (b, case arrived of None \<Rightarrow> StageFinishing None True
                   | Some handle \<Rightarrow> StageTagging handle)
          else (b\<lparr>bk_arrival_states := (bk_arrival_states b)(worker \<mapsto>
                    state\<lparr>as_result := result, as_worker_done := True\<rparr>)\<rparr>,
                StageFinishing arrived False))"

definition stage_tagging :: "display_descriptor \<Rightarrow> monitor \<Rightarrow> backend \<Rightarrow> backend \<times> arrive_stage" where
  "stage_tagging d handle b =
     ((case bk_monitors b (dd_display_id d) of
         None \<Rightarrow> b
       | Some record \<Rightarrow>
           if dd_generation (mr_descriptor record) = dd_generation d
           then with_monitor (dd_display_id d) (\<lambda>r. r\<lparr>mr_orphaned_late_arrival := True\<rparr>) b else b),
      StageLate handle)"

end
