(* ===== verification/Monitor_Callbacks.thy ===== *)
theory Monitor_Callbacks
  imports Monitor_Backend
begin

unbundle bit_operations_syntax

text \<open>
  The other operations of \<open>IddCxBackend\<close> (\<open>driver_main.cpp\<close>): assigning and unassigning
  swapchains, the render adapter preference, shutdown, the periodic cleanup of retired workers and
  late arrivals, and the application of a display manifest as a sequence of departures and
  arrivals.
\<close>

section \<open>Swapchain callbacks\<close>

definition attached_context :: "monitor \<Rightarrow> backend \<Rightarrow> monitor_context option" where
  "attached_context handle b =
     (case bk_contexts b handle of
        None \<Rightarrow> None
      | Some context \<Rightarrow> if mc_attached context then Some context else None)"

definition assign_swapchain :: "monitor \<Rightarrow> backend \<Rightarrow> backend \<times> swapchain_activity" where
  "assign_swapchain handle b =
     (case attached_context handle b of
        None \<Rightarrow> (b, AssignReturned False)
      | Some context \<Rightarrow>
          (case find_current_monitor (mc_display_id context) handle b of
             None \<Rightarrow> (b, AssignReturned False)
           | Some record \<Rightarrow>
               if mr_departing record \<or> bk_shutting_down b then (b, AssignReturned False)
               else (with_monitor (mc_display_id context)
                       (\<lambda>r. r\<lparr>mr_assign_callbacks_in_flight := mr_assign_callbacks_in_flight r + 1\<rparr>) b,
                     AssignStarting (mc_display_id context) handle)))"

text \<open>\<open>started\<close>: the processor, if it could be created and started.\<close>

definition assign_started :: "u64 \<Rightarrow> monitor \<Rightarrow> processor option \<Rightarrow> swapchain_activity" where
  "assign_started display_id handle started =
     (case started of
        None \<Rightarrow> AssignFinishing display_id handle False
      | Some p \<Rightarrow> AssignCommitting display_id handle p)"

definition collect_finished :: "(processor \<Rightarrow> bool) \<Rightarrow> processor list \<Rightarrow> processor list" where
  "collect_finished stopped = filter (\<lambda>p. \<not> stopped p)"

definition assign_commit ::
  "(processor \<Rightarrow> bool) \<Rightarrow> u64 \<Rightarrow> monitor \<Rightarrow> processor \<Rightarrow> backend \<Rightarrow> backend \<times> swapchain_activity" where
  "assign_commit stopped display_id handle p b =
     (case find_current_monitor display_id handle b of
        None \<Rightarrow> (b, AssignFinishing display_id handle False)
      | Some record \<Rightarrow>
          if mr_departing record then (b, AssignFinishing display_id handle False)
          else
            (with_monitor display_id
               (\<lambda>r. r\<lparr>mr_retired_swapchain_processors :=
                      collect_finished stopped (mr_retired_swapchain_processors r),
                    mr_swapchain_processor := Some p\<rparr>) b,
             case mr_swapchain_processor record of
               None \<Rightarrow> AssignFinishing display_id handle True
             | Some previous \<Rightarrow> AssignRetiring display_id handle previous))"

text \<open>\<open>allocated\<close>: appending to the vector did not throw; otherwise the cleanup is deferred.\<close>

definition assign_retire ::
  "bool \<Rightarrow> u64 \<Rightarrow> monitor \<Rightarrow> processor \<Rightarrow> backend \<Rightarrow> backend \<times> swapchain_activity" where
  "assign_retire allocated display_id handle previous b =
     ((case find_current_monitor display_id handle b of
         None \<Rightarrow> b
       | Some record \<Rightarrow>
           if \<not> mr_departing record \<and> allocated
           then with_monitor display_id
                  (\<lambda>r. r\<lparr>mr_retired_swapchain_processors :=
                         mr_retired_swapchain_processors r @ [previous]\<rparr>) b
           else b),
      AssignFinishing display_id handle True)"

definition finish_assign_callback ::
  "u64 \<Rightarrow> monitor \<Rightarrow> bool \<Rightarrow> backend \<Rightarrow> backend \<times> swapchain_activity" where
  "finish_assign_callback display_id handle success b =
     ((case find_current_monitor display_id handle b of
         None \<Rightarrow> b
       | Some record \<Rightarrow>
           if mr_assign_callbacks_in_flight record > 0
           then with_monitor display_id
                  (\<lambda>r. r\<lparr>mr_assign_callbacks_in_flight := mr_assign_callbacks_in_flight r - 1\<rparr>) b
           else b),
      AssignReturned success)"

definition unassign_swapchain ::
  "(processor \<Rightarrow> bool) \<Rightarrow> monitor \<Rightarrow> backend \<Rightarrow> backend \<times> swapchain_activity" where
  "unassign_swapchain stopped handle b =
     (case attached_context handle b of
        None \<Rightarrow> (b, UnassignReturned)
      | Some context \<Rightarrow>
          (case find_current_monitor (mc_display_id context) handle b of
             None \<Rightarrow> (b, UnassignReturned)
           | Some record \<Rightarrow>
               if mr_departing record \<or> bk_shutting_down b then (b, UnassignReturned)
               else (with_monitor (mc_display_id context)
                       (\<lambda>r. r\<lparr>mr_unassign_callbacks_in_flight := mr_unassign_callbacks_in_flight r + 1,
                            mr_swapchain_processor := None, mr_retired_swapchain_processors := []\<rparr>) b,
                     UnassignStopping (mc_display_id context) handle (mr_swapchain_processor record)
                       (collect_finished stopped (mr_retired_swapchain_processors record)))))"

definition unassign_stop ::
  "(processor \<Rightarrow> bool) \<Rightarrow> u64 \<Rightarrow> monitor \<Rightarrow> processor option \<Rightarrow> processor list \<Rightarrow> backend \<Rightarrow>
     backend \<times> swapchain_activity" where
  "unassign_stop stopped display_id handle active retired b =
     (let active1 = unstopped stopped active; retired1 = filter (\<lambda>p. \<not> stopped p) retired in
      ((if active1 = None \<and> retired1 = [] then b
        else
          (case find_current_monitor display_id handle b of
             None \<Rightarrow> b
           | Some _ \<Rightarrow>
               with_monitor display_id
                 (\<lambda>r. r\<lparr>mr_retired_swapchain_processors := mr_retired_swapchain_processors r @
                        (case active1 of None \<Rightarrow> [] | Some p \<Rightarrow> [p]) @ retired1\<rparr>) b)),
       UnassignFinishing display_id handle))"

definition finish_unassign_callback ::
  "u64 \<Rightarrow> monitor \<Rightarrow> backend \<Rightarrow> backend \<times> swapchain_activity" where
  "finish_unassign_callback display_id handle b =
     ((case find_current_monitor display_id handle b of
         None \<Rightarrow> b
       | Some record \<Rightarrow>
           if mr_unassign_callbacks_in_flight record > 0
           then with_monitor display_id
                  (\<lambda>r. r\<lparr>mr_unassign_callbacks_in_flight := mr_unassign_callbacks_in_flight r - 1\<rparr>) b
           else b),
      UnassignReturned)"

text \<open>The two callbacks that only record what the system sets.\<close>

definition set_default_hdr_metadata :: "monitor \<Rightarrow> u32 \<Rightarrow> u32 \<Rightarrow> backend \<Rightarrow> backend \<times> nt_status" where
  "set_default_hdr_metadata handle kind bytes b =
     (case attached_context handle b of
        None \<Rightarrow> (b, NtDeviceNotReady)
      | Some context \<Rightarrow>
          (case find_current_monitor (mc_display_id context) handle b of
             None \<Rightarrow> (b, NtDeviceNotReady)
           | Some _ \<Rightarrow>
               (with_monitor (mc_display_id context) (\<lambda>r. r\<lparr>mr_default_hdr_metadata := (kind, bytes)\<rparr>) b,
                NtSuccess)))"

definition set_gamma_ramp :: "monitor \<Rightarrow> u32 \<Rightarrow> u32 \<Rightarrow> backend \<Rightarrow> backend \<times> nt_status" where
  "set_gamma_ramp handle kind bytes b =
     (case attached_context handle b of
        None \<Rightarrow> (b, NtDeviceNotReady)
      | Some context \<Rightarrow>
          (case find_current_monitor (mc_display_id context) handle b of
             None \<Rightarrow> (b, NtDeviceNotReady)
           | Some _ \<Rightarrow>
               (with_monitor (mc_display_id context) (\<lambda>r. r\<lparr>mr_gamma_ramp := (kind, bytes)\<rparr>) b,
                NtSuccess)))"

section \<open>Adapter\<close>

text \<open>\<open>init\<close>: what \<open>IddCxAdapterInitAsync\<close> gives, an adapter object or a failure.\<close>

definition initialize_adapter ::
  "(adapter option + nt_status) \<Rightarrow> backend \<Rightarrow> backend \<times> nt_status" where
  "initialize_adapter init b =
     (if bk_adapter_ready b then (b, NtSuccess)
      else if bk_adapter b \<noteq> None
      then (b, if bk_adapter_init_status b = NtSuccess \<or> bk_adapter_init_status b = NtPending
               then NtDeviceNotReady else bk_adapter_init_status b)
      else
        (case init of
           Inr status \<Rightarrow> (b, status)
         | Inl None \<Rightarrow> (b, NtDeviceNotReady)
         | Inl (Some adapter) \<Rightarrow>
             (b\<lparr>bk_adapter := Some adapter, bk_adapter_ready := False,
                bk_adapter_init_status := NtPending\<rparr>, NtSuccess)))"

definition nt_success :: "nt_status \<Rightarrow> bool" where
  "nt_success status \<longleftrightarrow> status = NtSuccess \<or> status = NtPending"

definition zero_luid :: adapter_luid where
  "zero_luid = \<lparr>low_part = 0, high_part = 0\<rparr>"

definition adapter_init_finished :: "nt_status \<Rightarrow> backend \<Rightarrow> backend \<times> render_activity" where
  "adapter_init_finished status b =
     (let ready = nt_success status;
          b1 = b\<lparr>bk_adapter_init_status := status, bk_adapter_ready := ready\<rparr> in
      if \<not> ready then (b1, RenderReturned BackendNone)
      else if bk_adapter b \<noteq> None \<and>
              (high_part (bk_preferred_render_adapter b) \<noteq> 0 \<or> low_part (bk_preferred_render_adapter b) \<noteq> 0)
      then (b1, RenderCounting) else (b1, RenderReturned BackendNone))"

definition set_render_adapter :: "adapter_luid \<Rightarrow> backend \<Rightarrow> backend \<times> render_activity" where
  "set_render_adapter luid b =
     (let b1 = b\<lparr>bk_preferred_render_adapter := luid\<rparr> in
      if bk_adapter b = None then (b1, RenderReturned BackendNone) else (b1, RenderCounting))"

definition render_counted :: "backend \<Rightarrow> backend \<times> render_activity" where
  "render_counted b = (b\<lparr>bk_render_calls := bk_render_calls b + 1\<rparr>, RenderSpawning)"

definition render_spawn_failed :: "backend \<Rightarrow> backend \<times> render_activity" where
  "render_spawn_failed b = (finish_render_adapter_call b, RenderReturned BackendFailed)"

definition render_worker_finish :: "backend \<Rightarrow> backend \<times> render_activity" where
  "render_worker_finish b = (finish_render_adapter_call b, RenderWorkerFinished)"

definition render_timed_out :: "backend \<Rightarrow> backend \<times> render_activity" where
  "render_timed_out b =
     ((if bk_render_calls b > 0 then b\<lparr>bk_lifecycle_unhealthy := True\<rparr> else b),
      RenderReturned BackendFailed)"

section \<open>Shutdown and cleanup\<close>

definition lifecycle_in_flight :: "backend \<Rightarrow> bool" where
  "lifecycle_in_flight b \<longleftrightarrow> bk_arrivals b > 0 \<or> bk_departures b > 0 \<or> bk_render_calls b > 0"

definition shutdown_begin :: "backend \<Rightarrow> backend \<times> device_activity" where
  "shutdown_begin b =
     (b\<lparr>bk_shutting_down := True\<rparr>,
      if lifecycle_in_flight b then ShutdownWaiting else ShutdownCollecting)"

text \<open>After the bounded wait for operations in flight.\<close>

definition shutdown_waited :: "backend \<Rightarrow> device_activity" where
  "shutdown_waited b = (if lifecycle_in_flight b then ShutdownReturned False else ShutdownCollecting)"

definition monitor_ids :: "(monitor_record \<Rightarrow> bool) \<Rightarrow> backend \<Rightarrow> u64 list" where
  "monitor_ids p b = sorted_list_of_set {i. \<exists>r. bk_monitors b i = Some r \<and> p r}"

definition shutdown_collect :: "backend \<Rightarrow> device_activity" where
  "shutdown_collect b = ShutdownDeparting (monitor_ids (\<lambda>r. \<not> mr_departing r) b) []"

definition shutdown_departed ::
  "u64 \<Rightarrow> u64 list \<Rightarrow> u64 list \<Rightarrow> backend_error \<Rightarrow> device_activity" where
  "shutdown_departed display_id todo failed result =
     ShutdownDeparting todo (if result \<noteq> BackendNone then failed @ [display_id] else failed)"

text \<open>Monitors that would not depart keep their object, whose context forgets this backend.\<close>

definition detach_context :: "u64 \<Rightarrow> backend \<Rightarrow> backend" where
  "detach_context display_id b =
     (case bk_monitors b display_id of
        None \<Rightarrow> b
      | Some record \<Rightarrow>
          b\<lparr>bk_contexts := (bk_contexts b)(mr_monitor record :=
              map_option (\<lambda>c. c\<lparr>mc_attached := False\<rparr>) (bk_contexts b (mr_monitor record)))\<rparr>)"

definition shutdown_detach :: "u64 list \<Rightarrow> backend \<Rightarrow> backend \<times> device_activity" where
  "shutdown_detach failed b = (fold detach_context failed b, ShutdownSettling)"

definition shutdown_settle :: "backend \<Rightarrow> device_activity" where
  "shutdown_settle b =
     (if bk_departures b > 0 \<or> bk_monitors b \<noteq> Map.empty then ShutdownReturned False
      else ShutdownReturned True)"

definition cleanup_finished_retired_swapchains ::
  "(processor \<Rightarrow> bool) \<Rightarrow> backend \<Rightarrow> backend \<times> device_activity" where
  "cleanup_finished_retired_swapchains stopped b =
     (b\<lparr>bk_monitors := (\<lambda>i. map_option
          (\<lambda>r. r\<lparr>mr_retired_swapchain_processors :=
                 collect_finished stopped (mr_retired_swapchain_processors r)\<rparr>) (bk_monitors b i))\<rparr>,
      CleanupRetrying (map (\<lambda>i. (i, dd_generation (mr_descriptor (the (bk_monitors b i)))))
        (monitor_ids (\<lambda>r. mr_orphaned_late_arrival r \<and> \<not> mr_departing r) b)))"

section \<open>Display manifest\<close>

definition make_permanent_descriptor :: "bool \<Rightarrow> display_manifest_profile \<Rightarrow> display_descriptor" where
  "make_permanent_descriptor runtime_hdr profile =
     (let mode = dmp_allowed_modes profile ! unat (dmp_native_mode_index profile);
          options =
            \<lparr>eo_manufacturer_id = take 3 (dmp_manufacturer_id profile),
             eo_product_code = (if dmp_product_code profile > 0xffff then 0xffff
                                else ucast (dmp_product_code profile)),
             eo_serial_number = dmp_serial_number profile,
             eo_width = dm_width mode, eo_height = dm_height mode,
             eo_physical_width_mm = dmp_physical_width_mm profile,
             eo_physical_height_mm = dmp_physical_height_mm profile,
             eo_refresh_rate_millihz = dm_refresh_rate_millihz mode,
             eo_hdr_max_luminance_nits = 1000,
             eo_monitor_name = trim_display_name (dmp_display_name profile),
             eo_hdr_supported =
               (dmp_flags profile AND kDisplayManifestProfileFlagHdrSupported \<noteq> 0 \<and> runtime_hdr)\<rparr>
      in \<lparr>dd_lease_id = 0, dd_display_id = dmp_display_id profile,
          dd_container_id = dmp_container_id profile,
          dd_connector_index = dmp_connector_index profile,
          dd_width = eo_width options, dd_height = eo_height options,
          dd_physical_width_mm = eo_physical_width_mm options,
          dd_physical_height_mm = eo_physical_height_mm options,
          dd_refresh_rate_millihz = eo_refresh_rate_millihz options,
          dd_edid = create_edid options, dd_retain_identity = True, dd_generation = 0,
          dd_requested_resolution_only = False\<rparr>)"

definition backend_apply_display_manifest :: "u32 \<Rightarrow> display_manifest \<Rightarrow> backend \<Rightarrow> manifest_activity" where
  "backend_apply_display_manifest max_permanent manifest b =
     (if validate_display_manifest manifest max_permanent \<noteq> VNone then ApplyReturned BackendFailed
      else
        let active = map (\<lambda>i. mr_descriptor (the (bk_monitors b i))) (monitor_ids mr_permanent b) in
        ApplyDeparting active active manifest)"

definition apply_departed ::
  "backend_error \<Rightarrow> display_descriptor list \<Rightarrow> display_descriptor list \<Rightarrow> display_manifest \<Rightarrow>
     manifest_activity" where
  "apply_departed result todo active manifest =
     (if result \<noteq> BackendNone then ApplyRestoring active else ApplyDeparting todo active manifest)"

definition manifest_descriptors :: "bool \<Rightarrow> display_manifest \<Rightarrow> display_descriptor list" where
  "manifest_descriptors runtime_hdr manifest =
     map (\<lambda>i. make_permanent_descriptor runtime_hdr (man_profiles manifest ! i))
       [0..<unat (man_profile_count manifest)]"

definition apply_arrived ::
  "backend_display_result \<Rightarrow> u64 \<Rightarrow> display_descriptor list \<Rightarrow> u64 list \<Rightarrow> display_descriptor list \<Rightarrow>
     manifest_activity" where
  "apply_arrived result display_id todo added active =
     (if bdr_error result \<noteq> BackendNone then ApplyUndoing added active
      else ApplyArriving todo (added @ [display_id]) active)"

end
