(* ===== verification/Monitor_System.thy ===== *)
theory Monitor_System
  imports Monitor_Callbacks
begin

text \<open>
  The monitor backend as a system of threads: a step is one locked section (or one call between
  two sections) of one thread. Each group of activities has a step relation of its own; a label
  says whether the step starts another activity (a thread, or a nested call of
  \<open>backend_depart_display\<close> or \<open>arrive_display\<close>) or reads the result of one. Every interleaving, every
  outcome of the system calls and every bounded wait that times out is a run.
\<close>

section \<open>Steps of one thread\<close>

datatype label = Silent | Starts thread activity | Sees thread activity

inductive depart_step :: "label \<Rightarrow> backend \<Rightarrow> depart_activity \<Rightarrow> backend \<Rightarrow> depart_activity \<Rightarrow> bool" where
  depart_enters: "backend_depart_display i g b = (b1, a1) \<Longrightarrow> depart_step Silent b (DepartRequested i g) b1 a1"
| depart_resumes: "depart_display_resume i g h b = (b1, a1) \<Longrightarrow>
    depart_step Silent b (DepartWaiting i g h) b1 a1"
| depart_stops: "depart_display_stop stopped i g h p ps b = (b1, a1) \<Longrightarrow>
    depart_step Silent b (DepartStopping i g h p ps) b1 a1"
| depart_counts: "depart_monitor_with_timeout i g h b = (b1, a1) \<Longrightarrow>
    depart_step Silent b (DepartCalling i g h) b1 a1"
| depart_spawns: "depart_step (Starts u (Depart (DepartWorker i g h)))
    b (DepartSpawning i g h) b (DepartAwaiting u)"
| depart_no_thread: "depart_spawn_failed i h b = (b1, a1) \<Longrightarrow>
    depart_step Silent b (DepartSpawning i g h) b1 a1"
| depart_joins: "depart_step (Sees u (Depart (DepartWorkerFinished success)))
    b (DepartAwaiting u) b (depart_joined success)"
| depart_times_out: "depart_timed_out b = (b1, a1) \<Longrightarrow> depart_step Silent b (DepartAwaiting u) b1 a1"
| depart_call_returns: "depart_step Silent b (DepartWorker i g h) b (DepartWorkerReturned i g h success)"
| depart_finishes: "depart_worker_finish i h success b = (b1, a1) \<Longrightarrow>
    depart_step Silent b (DepartWorkerReturned i g h success) b1 a1"
| depart_unregisters: "depart_step Silent b (DepartWorkerUnregister d success)
    (unregister_monitor_description_mode d b) (DepartWorkerFinished success)"

inductive arrive_step :: "label \<Rightarrow> backend \<Rightarrow> arrive_activity \<Rightarrow> backend \<Rightarrow> arrive_activity \<Rightarrow> bool" where
  arrive_counts: "arrive_display d permanent b = (b1, a1) \<Longrightarrow>
    arrive_step Silent b (ArriveRequested d permanent) b1 a1"
| arrive_spawns: "arrive_spawned u b = (b1, a1) \<Longrightarrow>
    arrive_step (Starts u (Worker u (descriptor_with_runtime_hdr_policy (bk_runtime_hdr b) d)
      (StageChecking permanent))) b (ArriveSpawning d permanent) b1 a1"
| arrive_no_thread: "arrive_spawn_failed b = (b1, a1) \<Longrightarrow>
    arrive_step Silent b (ArriveSpawning d permanent) b1 a1"
| arrive_waited: "arrive_wait_over u b = (b1, a1) \<Longrightarrow> arrive_step Silent b (ArriveAwaiting u) b1 a1"
| arrive_joins: "arrive_step (Sees u (Worker u d (StageFinished arrived abandoned)))
    b (ArriveJoining u) b (arrive_joined u b)"

inductive worker_step ::
  "thread \<Rightarrow> display_descriptor \<Rightarrow> label \<Rightarrow> backend \<Rightarrow> arrive_stage \<Rightarrow> backend \<Rightarrow> arrive_stage \<Rightarrow> bool"
  for w :: thread and d :: display_descriptor where
  worker_checks: "worker_step w d Silent b (StageChecking permanent) b (stage_checking d permanent b)"
| worker_retires: "worker_step w d (Starts u (Depart (DepartRequested (dd_display_id d) g)))
    b (StageStale permanent g) b (StageRetiring permanent u)"
| worker_retired: "worker_step w d (Sees u (Depart (DepartReturned result)))
    b (StageRetiring permanent u) b (stage_retired permanent result)"
| worker_reserves: "worker_step w d Silent b (StageReserving permanent) b (stage_reserving d permanent b)"
| worker_registers: "stage_registering allocated d permanent adapter b = (b1, st1) \<Longrightarrow>
    worker_step w d Silent b (StageRegistering permanent adapter) b1 st1"
| worker_creates: "stage_creating created d permanent adapter b = (b1, st1) \<Longrightarrow>
    (\<And>h. created = Some h \<Longrightarrow> bk_contexts b h = None) \<Longrightarrow>
    worker_step w d Silent b (StageCreating permanent adapter) b1 st1"
| worker_records: "stage_recording allocated d permanent adapter h b = (b1, st1) \<Longrightarrow>
    worker_step w d Silent b (StageRecording permanent adapter h) b1 st1"
| worker_announces: "stage_announcing arrived d h b = (b1, st1) \<Longrightarrow>
    worker_step w d Silent b (StageAnnouncing h) b1 st1"
| worker_confirms: "stage_confirming d h luid target b = (b1, st1) \<Longrightarrow>
    worker_step w d Silent b (StageConfirming h luid target) b1 st1"
| worker_discards: "stage_discarding d b = (b1, st1) \<Longrightarrow> worker_step w d Silent b StageDiscarding b1 st1"
| worker_reports: "stage_reporting w arrived result b = (b1, st1) \<Longrightarrow>
    worker_step w d Silent b (StageReporting arrived result) b1 st1"
| worker_tags: "stage_tagging d h b = (b1, st1) \<Longrightarrow> worker_step w d Silent b (StageTagging h) b1 st1"
| worker_cleans: "worker_step w d (Starts u (Depart (DepartRequested (dd_display_id d) (dd_generation d))))
    b (StageLate h) b (StageCleaning h u)"
| worker_cleaned: "worker_step w d (Sees u (Depart (DepartReturned result)))
    b (StageCleaning h u) b (StageFinishing (Some h) True)"
| worker_finishes: "worker_step w d Silent b (StageFinishing arrived abandoned)
    (finish_monitor_arrival b) (StageFinished arrived abandoned)"

inductive swapchain_step ::
  "backend \<Rightarrow> swapchain_activity \<Rightarrow> backend \<Rightarrow> swapchain_activity \<Rightarrow> bool" where
  assign_enters: "assign_swapchain h b = (b1, a1) \<Longrightarrow> swapchain_step b (AssignRequested h) b1 a1"
| assign_starts: "swapchain_step b (AssignStarting i h) b (assign_started i h started)"
| assign_commits: "assign_commit stopped i h p b = (b1, a1) \<Longrightarrow>
    swapchain_step b (AssignCommitting i h p) b1 a1"
| assign_retires: "assign_retire allocated i h p b = (b1, a1) \<Longrightarrow>
    swapchain_step b (AssignRetiring i h p) b1 a1"
| assign_finishes: "finish_assign_callback i h success b = (b1, a1) \<Longrightarrow>
    swapchain_step b (AssignFinishing i h success) b1 a1"
| unassign_enters: "unassign_swapchain stopped h b = (b1, a1) \<Longrightarrow>
    swapchain_step b (UnassignRequested h) b1 a1"
| unassign_stops: "unassign_stop stopped i h p ps b = (b1, a1) \<Longrightarrow>
    swapchain_step b (UnassignStopping i h p ps) b1 a1"
| unassign_finishes: "finish_unassign_callback i h b = (b1, a1) \<Longrightarrow>
    swapchain_step b (UnassignFinishing i h) b1 a1"

inductive render_step :: "label \<Rightarrow> backend \<Rightarrow> render_activity \<Rightarrow> backend \<Rightarrow> render_activity \<Rightarrow> bool" where
  render_enters: "set_render_adapter luid b = (b1, a1) \<Longrightarrow> render_step Silent b (RenderRequested luid) b1 a1"
| render_initialised: "adapter_init_finished status b = (b1, a1) \<Longrightarrow>
    render_step Silent b (AdapterInitFinished status) b1 a1"
| render_counts: "render_counted b = (b1, a1) \<Longrightarrow> render_step Silent b RenderCounting b1 a1"
| render_spawns: "render_step (Starts u (Render RenderWorker)) b RenderSpawning b (RenderAwaiting u)"
| render_no_thread: "render_spawn_failed b = (b1, a1) \<Longrightarrow> render_step Silent b RenderSpawning b1 a1"
| render_call_returns: "render_worker_finish b = (b1, a1) \<Longrightarrow> render_step Silent b RenderWorker b1 a1"
| render_joins: "render_step (Sees u (Render RenderWorkerFinished))
    b (RenderAwaiting u) b (RenderReturned BackendNone)"
| render_times_out: "render_timed_out b = (b1, a1) \<Longrightarrow> render_step Silent b (RenderAwaiting u) b1 a1"

inductive device_step :: "label \<Rightarrow> backend \<Rightarrow> device_activity \<Rightarrow> backend \<Rightarrow> device_activity \<Rightarrow> bool" where
  shutdown_begins: "shutdown_begin b = (b1, a1) \<Longrightarrow> device_step Silent b ShutdownRequested b1 a1"
| shutdown_waits: "device_step Silent b ShutdownWaiting b (shutdown_waited b)"
| shutdown_collects: "device_step Silent b ShutdownCollecting b (shutdown_collect b)"
| shutdown_departs: "device_step (Starts u (Depart (DepartRequested i 0)))
    b (ShutdownDeparting (i # todo) failed) b (ShutdownAwaiting u i todo failed)"
| shutdown_departs_next: "device_step (Sees u (Depart (DepartReturned result)))
    b (ShutdownAwaiting u i todo failed) b (shutdown_departed i todo failed result)"
| shutdown_detaches: "shutdown_detach failed b = (b1, a1) \<Longrightarrow>
    device_step Silent b (ShutdownDeparting [] failed) b1 a1"
| shutdown_settles: "device_step Silent b ShutdownSettling b (shutdown_settle b)"
| cleanup_collects: "cleanup_finished_retired_swapchains stopped b = (b1, a1) \<Longrightarrow>
    device_step Silent b CleanupRequested b1 a1"
| cleanup_retries: "device_step (Starts u (Depart (DepartRequested i g)))
    b (CleanupRetrying ((i, g) # todo)) b (CleanupAwaiting u todo)"
| cleanup_retries_next: "device_step (Sees u (Depart (DepartReturned result)))
    b (CleanupAwaiting u todo) b (CleanupRetrying todo)"
| cleanup_returns: "device_step Silent b (CleanupRetrying []) b CleanupReturned"

inductive manifest_step ::
  "u32 \<Rightarrow> label \<Rightarrow> backend \<Rightarrow> manifest_activity \<Rightarrow> backend \<Rightarrow> manifest_activity \<Rightarrow> bool"
  for max_permanent :: u32 where
  apply_begins: "manifest_step max_permanent Silent b (ApplyRequested m)
    b (backend_apply_display_manifest max_permanent m b)"
| apply_departs: "manifest_step max_permanent (Starts u (Depart (DepartRequested (dd_display_id d) 0)))
    b (ApplyDeparting (d # todo) active m) b (ApplyDepartAwaiting u todo active m)"
| apply_departs_next: "manifest_step max_permanent (Sees u (Depart (DepartReturned result)))
    b (ApplyDepartAwaiting u todo active m) b (apply_departed result todo active m)"
| apply_all_departed: "manifest_step max_permanent Silent b (ApplyDeparting [] active m)
    b (ApplyArriving (manifest_descriptors (bk_runtime_hdr b) m) [] active)"
| apply_arrives: "manifest_step max_permanent (Starts u (Arrive (ArriveRequested d True)))
    b (ApplyArriving (d # todo) added active) b (ApplyArriveAwaiting u (dd_display_id d) todo added active)"
| apply_arrives_next: "manifest_step max_permanent (Sees u (Arrive (ArriveReturned result)))
    b (ApplyArriveAwaiting u i todo added active) b (apply_arrived result i todo added active)"
| apply_succeeds: "manifest_step max_permanent Silent b (ApplyArriving [] added active)
    b (ApplyReturned BackendNone)"
| apply_undoes: "manifest_step max_permanent (Starts u (Depart (DepartRequested i 0)))
    b (ApplyUndoing (i # todo) active) b (ApplyUndoAwaiting u todo active)"
| apply_undoes_next: "manifest_step max_permanent (Sees u (Depart (DepartReturned result)))
    b (ApplyUndoAwaiting u todo active) b (ApplyUndoing todo active)"
| apply_undone: "manifest_step max_permanent Silent b (ApplyUndoing [] active) b (ApplyRestoring active)"
| apply_restores: "manifest_step max_permanent (Starts u (Arrive (ArriveRequested d True)))
    b (ApplyRestoring (d # todo)) b (ApplyRestoreAwaiting u todo)"
| apply_restores_next: "manifest_step max_permanent (Sees u (Arrive (ArriveReturned result)))
    b (ApplyRestoreAwaiting u todo) b (ApplyRestoring todo)"
| apply_fails: "manifest_step max_permanent Silent b (ApplyRestoring []) b (ApplyReturned BackendFailed)"

section \<open>Steps of the system\<close>

inductive activity_step :: "label \<Rightarrow> backend \<Rightarrow> activity \<Rightarrow> backend \<Rightarrow> activity \<Rightarrow> bool" where
  by_depart: "depart_step l b a b1 a1 \<Longrightarrow> activity_step l b (Depart a) b1 (Depart a1)"
| by_arrive: "arrive_step l b a b1 a1 \<Longrightarrow> activity_step l b (Arrive a) b1 (Arrive a1)"
| by_worker: "worker_step w d l b st b1 st1 \<Longrightarrow> activity_step l b (Worker w d st) b1 (Worker w d st1)"
| by_swapchain: "swapchain_step b a b1 a1 \<Longrightarrow> activity_step Silent b (Swapchain a) b1 (Swapchain a1)"
| by_render: "render_step l b a b1 a1 \<Longrightarrow> activity_step l b (Render a) b1 (Render a1)"
| by_device: "device_step l b a b1 a1 \<Longrightarrow> activity_step l b (Device a) b1 (Device a1)"
| by_manifest: "manifest_step max_permanent l b a b1 a1 \<Longrightarrow>
    activity_step l b (Manifest a) b1 (Manifest a1)"

text \<open>The entry points of the backend.\<close>

inductive request :: "activity \<Rightarrow> bool" where
  "request (Depart (DepartRequested i g))"
| "request (Arrive (ArriveRequested d permanent))"
| "request (Swapchain (AssignRequested h))"
| "request (Swapchain (UnassignRequested h))"
| "request (Render (RenderRequested luid))"
| "request (Render (AdapterInitFinished status))"
| "request (Device ShutdownRequested)"
| "request (Device CleanupRequested)"
| "request (Manifest (ApplyRequested m))"

text \<open>The operations that only set fields.\<close>

inductive field_update :: "backend \<Rightarrow> backend \<Rightarrow> bool" where
  "field_update b (fst (initialize_adapter init b))"
| "field_update b (fst (set_default_hdr_metadata h kind bytes b))"
| "field_update b (fst (set_gamma_ramp h kind bytes b))"

text \<open>No counter is about to wrap: fewer than \<open>2 ^ 32 - 1\<close> operations of a kind are in flight.\<close>

definition counters_fit :: "backend \<Rightarrow> bool" where
  "counters_fit b \<longleftrightarrow> bk_arrivals b < 0xffffffff \<and> bk_departures b < 0xffffffff \<and>
     bk_render_calls b < 0xffffffff \<and>
     (\<forall>i r. bk_monitors b i = Some r \<longrightarrow>
        mr_assign_callbacks_in_flight r < 0xffffffff \<and> mr_unassign_callbacks_in_flight r < 0xffffffff)"

type_synonym threads = "thread \<rightharpoonup> activity"
type_synonym system = "backend \<times> threads"

inductive system_step :: "system \<Rightarrow> system \<Rightarrow> bool" where
  request_step: "thr t = None \<Longrightarrow> request a \<Longrightarrow> system_step (b, thr) (b, thr(t \<mapsto> a))"
| field_step: "field_update b b1 \<Longrightarrow> system_step (b, thr) (b1, thr)"
| silent_step: "thr t = Some a \<Longrightarrow> activity_step Silent b a b1 a1 \<Longrightarrow> counters_fit b \<Longrightarrow>
    system_step (b, thr) (b1, thr(t \<mapsto> a1))"
| start_step: "thr t = Some a \<Longrightarrow> thr u = None \<Longrightarrow> activity_step (Starts u c) b a b1 a1 \<Longrightarrow>
    counters_fit b \<Longrightarrow> system_step (b, thr) (b1, thr(t \<mapsto> a1, u \<mapsto> c))"
| see_step: "thr t = Some a \<Longrightarrow> thr u = Some c \<Longrightarrow> activity_step (Sees u c) b a b1 a1 \<Longrightarrow>
    counters_fit b \<Longrightarrow> system_step (b, thr) (b1, thr(t \<mapsto> a1))"

inductive system_reachable :: "system \<Rightarrow> bool" where
  initially: "system_reachable (initial_backend runtime_hdr, Map.empty)"
| steps: "system_reachable s \<Longrightarrow> system_step s s1 \<Longrightarrow> system_reachable s1"

text \<open>
  What the components of the system owe each other: a property of the initial backend that every
  step of a reachable system keeps.
\<close>

locale inductive_invariant =
  fixes inv :: "system \<Rightarrow> bool"
  assumes at_start: "inv (initial_backend hdr, Map.empty)"
    and kept: "system_reachable s \<Longrightarrow> system_step s s1 \<Longrightarrow> inv s \<Longrightarrow> inv s1"
begin

lemma holds: "system_reachable s \<Longrightarrow> inv s"
proof (induction rule: system_reachable.induct)
  case (initially x)
  show ?case by (rule at_start)
next
  case (steps s s1)
  then show ?case using kept by blast
qed

end

end
