(* ===== verification/Monitor_Table.thy ===== *)
theory Monitor_Table
  imports Monitor_Backend
begin

text \<open>
  The protocol of the monitor table, without threads, stages and results: what each thread holds
  of a monitor (its role), and how the table may change. A departure claims a record before it
  takes it apart, swapchain callbacks are counted in it, an arriving monitor belongs to the worker
  that creates it. \<open>Monitor_Refinement\<close> shows that the code follows this protocol.
\<close>

datatype phase = Recording | Announcing | Arrived | Tagged

text \<open>
  \<open>Claiming i g h q\<close>: departing monitor \<open>h\<close> of display \<open>i\<close> for generation \<open>g\<close>; \<open>q\<close>: its
  processors have been taken. \<open>Carrying i g h p\<close>: the worker that created \<open>h\<close>.
\<close>

datatype role =
    Idle
  | Claiming u64 u64 monitor bool
  | Assigning u64 monitor
  | Unassigning u64 monitor
  | Carrying u64 u64 monitor phase

type_synonym table = "u64 \<rightharpoonup> monitor_record"
type_synonym handles = "monitor \<rightharpoonup> u64 \<times> u64"
type_synonym roles = "thread \<Rightarrow> role"

definition generation_of :: "monitor_record \<Rightarrow> u64" where
  "generation_of r = dd_generation (mr_descriptor r)"

text \<open>Nothing of the swapchain side is left on the record.\<close>

definition settled :: "monitor_record \<Rightarrow> bool" where
  "settled r \<longleftrightarrow> mr_swapchain_processor r = None \<and> mr_retired_swapchain_processors r = [] \<and>
     mr_assign_callbacks_in_flight r = 0 \<and> mr_unassign_callbacks_in_flight r = 0"

definition fenced :: "u64 \<Rightarrow> monitor_record \<Rightarrow> bool" where
  "fenced g r \<longleftrightarrow> g = 0 \<or> generation_of r = 0 \<or> generation_of r = g"

text \<open>The parts of a record that only swapchain operations change.\<close>

definition same_identity :: "monitor_record \<Rightarrow> monitor_record \<Rightarrow> bool" where
  "same_identity r q \<longleftrightarrow> mr_descriptor q = mr_descriptor r \<and> mr_monitor q = mr_monitor r \<and>
     mr_arriving q = mr_arriving r \<and> (mr_orphaned_late_arrival r \<longrightarrow> mr_orphaned_late_arrival q)"

definition same_callbacks :: "monitor_record \<Rightarrow> monitor_record \<Rightarrow> bool" where
  "same_callbacks r q \<longleftrightarrow> mr_assign_callbacks_in_flight q = mr_assign_callbacks_in_flight r \<and>
     mr_unassign_callbacks_in_flight q = mr_unassign_callbacks_in_flight r"

inductive table_step :: "table \<times> handles \<times> roles \<Rightarrow> table \<times> handles \<times> roles \<Rightarrow> bool" where
  stutter: "table_step (M, C, R) (M, C, R)"
| touch: "M i = Some r \<Longrightarrow> same_identity r q \<Longrightarrow> same_callbacks r q \<Longrightarrow>
    mr_departing q = mr_departing r \<Longrightarrow> (settled r \<longrightarrow> settled q) \<Longrightarrow>
    table_step (M, C, R) (M(i \<mapsto> q), C, R)"
| sweep: "(\<And>i. N i = None \<longleftrightarrow> M i = None) \<Longrightarrow>
    (\<And>i r q. M i = Some r \<Longrightarrow> N i = Some q \<Longrightarrow> same_identity r q \<and> same_callbacks r q \<and>
       mr_departing q = mr_departing r \<and> (settled r \<longrightarrow> settled q)) \<Longrightarrow>
    table_step (M, C, R) (N, C, R)"
| claim: "M i = Some r \<Longrightarrow> R t = Idle \<Longrightarrow> \<not> mr_arriving r \<Longrightarrow> \<not> mr_departing r \<Longrightarrow> fenced g r \<Longrightarrow>
    same_identity r q \<Longrightarrow> same_callbacks r q \<Longrightarrow> mr_departing q \<Longrightarrow> (taken \<longrightarrow> settled q) \<Longrightarrow>
    table_step (M, C, R) (M(i \<mapsto> q), C, R(t := Claiming i g (mr_monitor r) taken))"
| take: "M i = Some r \<Longrightarrow> R t = Claiming i g h taken \<Longrightarrow> mr_monitor r = h \<Longrightarrow> same_identity r q \<Longrightarrow>
    same_callbacks r q \<Longrightarrow> mr_departing q \<Longrightarrow> settled q \<Longrightarrow>
    table_step (M, C, R) (M(i \<mapsto> q), C, R(t := Claiming i g h True))"
| abandon: "M i = Some r \<Longrightarrow> R t = Claiming i g h taken \<Longrightarrow> mr_monitor r = h \<Longrightarrow> same_identity r q \<Longrightarrow>
    same_callbacks r q \<Longrightarrow> \<not> mr_departing q \<Longrightarrow>
    table_step (M, C, R) (M(i \<mapsto> q), C, R(t := Idle))"
| hand_over: "R t = Claiming i g h taken \<Longrightarrow> R u = Idle \<Longrightarrow> t \<noteq> u \<Longrightarrow>
    table_step (M, C, R) (M, C, R(t := Idle, u := Claiming i g h taken))"
| depart: "R t = Claiming i g h True \<Longrightarrow> table_step (M, C, R) (M(i := None), C, R(t := Idle))"
| assign: "M i = Some r \<Longrightarrow> R t = Idle \<Longrightarrow> \<not> mr_departing r \<Longrightarrow>
    mr_assign_callbacks_in_flight r < 0xffffffff \<Longrightarrow> same_identity r q \<Longrightarrow>
    mr_assign_callbacks_in_flight q = mr_assign_callbacks_in_flight r + 1 \<Longrightarrow>
    mr_unassign_callbacks_in_flight q = mr_unassign_callbacks_in_flight r \<Longrightarrow> \<not> mr_departing q \<Longrightarrow>
    table_step (M, C, R) (M(i \<mapsto> q), C, R(t := Assigning i (mr_monitor r)))"
| unassign: "M i = Some r \<Longrightarrow> R t = Idle \<Longrightarrow> \<not> mr_departing r \<Longrightarrow>
    mr_unassign_callbacks_in_flight r < 0xffffffff \<Longrightarrow> same_identity r q \<Longrightarrow>
    mr_unassign_callbacks_in_flight q = mr_unassign_callbacks_in_flight r + 1 \<Longrightarrow>
    mr_assign_callbacks_in_flight q = mr_assign_callbacks_in_flight r \<Longrightarrow> \<not> mr_departing q \<Longrightarrow>
    table_step (M, C, R) (M(i \<mapsto> q), C, R(t := Unassigning i (mr_monitor r)))"
| attach: "M i = Some r \<Longrightarrow> R t = Assigning i h \<or> R t = Unassigning i h \<Longrightarrow> mr_monitor r = h \<Longrightarrow>
    same_identity r q \<Longrightarrow> same_callbacks r q \<Longrightarrow> mr_departing q = mr_departing r \<Longrightarrow>
    table_step (M, C, R) (M(i \<mapsto> q), C, R)"
| assigned: "R t = Assigning i h \<Longrightarrow> M i = Some r \<Longrightarrow> mr_monitor r = h \<Longrightarrow>
    0 < mr_assign_callbacks_in_flight r \<Longrightarrow>
    table_step (M, C, R)
      (M(i \<mapsto> r\<lparr>mr_assign_callbacks_in_flight := mr_assign_callbacks_in_flight r - 1\<rparr>), C, R(t := Idle))"
| assigned_gone: "R t = Assigning i h \<Longrightarrow> M i = None \<or> mr_monitor (the (M i)) \<noteq> h \<Longrightarrow>
    table_step (M, C, R) (M, C, R(t := Idle))"
| unassigned: "R t = Unassigning i h \<Longrightarrow> M i = Some r \<Longrightarrow> mr_monitor r = h \<Longrightarrow>
    0 < mr_unassign_callbacks_in_flight r \<Longrightarrow>
    table_step (M, C, R)
      (M(i \<mapsto> r\<lparr>mr_unassign_callbacks_in_flight := mr_unassign_callbacks_in_flight r - 1\<rparr>), C, R(t := Idle))"
| unassigned_gone: "R t = Unassigning i h \<Longrightarrow> M i = None \<or> mr_monitor (the (M i)) \<noteq> h \<Longrightarrow>
    table_step (M, C, R) (M, C, R(t := Idle))"
| create: "R t = Idle \<Longrightarrow> C h = None \<Longrightarrow>
    table_step (M, C, R) (M, C(h \<mapsto> (i, g)), R(t := Carrying i g h Recording))"
| recorded: "R t = Carrying i g h Recording \<Longrightarrow> M i = None \<Longrightarrow> mr_monitor q = h \<Longrightarrow> generation_of q = g \<Longrightarrow>
    mr_arriving q \<Longrightarrow> \<not> mr_departing q \<Longrightarrow> settled q \<Longrightarrow>
    table_step (M, C, R) (M(i \<mapsto> q), C, R(t := Carrying i g h Announcing))"
| withdraw: "R t = Carrying i g h Announcing \<Longrightarrow>
    table_step (M, C, R) (M(i := None), C, R(t := Idle))"
| confirm: "R t = Carrying i g h Announcing \<Longrightarrow> M i = Some r \<Longrightarrow> mr_monitor r = h \<Longrightarrow>
    table_step (M, C, R)
      (M(i \<mapsto> r\<lparr>mr_arriving := False\<rparr>), C, R(t := Carrying i g h Arrived))"
| give_up: "R t = Carrying i g h p \<Longrightarrow> p \<noteq> Announcing \<Longrightarrow> table_step (M, C, R) (M, C, R(t := Idle))"
| tag: "R t = Carrying i g h Arrived \<Longrightarrow> M i = Some r \<Longrightarrow> generation_of r = g \<Longrightarrow>
    table_step (M, C, R)
      (M(i \<mapsto> r\<lparr>mr_orphaned_late_arrival := True\<rparr>), C, R(t := Carrying i g h Tagged))"
| tag_gone: "R t = Carrying i g h Arrived \<Longrightarrow> M i = None \<or> generation_of (the (M i)) \<noteq> g \<Longrightarrow>
    table_step (M, C, R) (M, C, R(t := Carrying i g h Tagged))"

section \<open>The invariant\<close>

definition assigning :: "roles \<Rightarrow> u64 \<Rightarrow> monitor \<Rightarrow> thread set" where
  "assigning R i h = {t. R t = Assigning i h}"

definition unassigning :: "roles \<Rightarrow> u64 \<Rightarrow> monitor \<Rightarrow> thread set" where
  "unassigning R i h = {t. R t = Unassigning i h}"

text \<open>
  In this order: finitely many threads hold a role; every record and every carried monitor is
  known by its handle; a claim is on a departing record, fenced, and settled once taken; claims
  exclude each other, and a departing record has one; callback counters count the callbacks;
  callbacks run on monitors that were recorded; a created monitor has one worker; and the stages of
  that worker.
\<close>

definition finite_ok :: "roles \<Rightarrow> bool" where
  "finite_ok R \<longleftrightarrow> finite {t. R t \<noteq> Idle}"

definition known_ok :: "table \<Rightarrow> handles \<Rightarrow> roles \<Rightarrow> bool" where
  "known_ok M C R \<longleftrightarrow>
     (\<forall>i r. M i = Some r \<longrightarrow> C (mr_monitor r) = Some (i, generation_of r)) \<and>
     (\<forall>t i g h p. R t = Carrying i g h p \<longrightarrow> C h = Some (i, g)) \<and>
     (\<forall>t i h. R t = Assigning i h \<or> R t = Unassigning i h \<longrightarrow> C h \<noteq> None)"

definition claims_ok :: "table \<Rightarrow> roles \<Rightarrow> bool" where
  "claims_ok M R \<longleftrightarrow>
     (\<forall>t i g h q. R t = Claiming i g h q \<longrightarrow>
        (\<exists>r. M i = Some r \<and> mr_monitor r = h \<and> mr_departing r \<and> \<not> mr_arriving r \<and> fenced g r \<and>
           (q \<longrightarrow> settled r))) \<and>
     (\<forall>t u i g h q g1 h1 q1. R t = Claiming i g h q \<longrightarrow> R u = Claiming i g1 h1 q1 \<longrightarrow> t = u) \<and>
     (\<forall>i r. M i = Some r \<longrightarrow> mr_departing r \<longrightarrow> (\<exists>t g q. R t = Claiming i g (mr_monitor r) q))"

definition callbacks_ok :: "table \<Rightarrow> roles \<Rightarrow> bool" where
  "callbacks_ok M R \<longleftrightarrow>
     (\<forall>i r. M i = Some r \<longrightarrow>
        unat (mr_assign_callbacks_in_flight r) = card (assigning R i (mr_monitor r)) \<and>
        unat (mr_unassign_callbacks_in_flight r) = card (unassigning R i (mr_monitor r)))"

definition workers_ok :: "table \<Rightarrow> roles \<Rightarrow> bool" where
  "workers_ok M R \<longleftrightarrow>
     (\<forall>t u i g h p i1 g1 p1. R t = Carrying i g h p \<longrightarrow> R u = Carrying i1 g1 h p1 \<longrightarrow> t = u) \<and>
     (\<forall>t i g h. R t = Carrying i g h Recording \<longrightarrow>
        (\<forall>j r. M j = Some r \<longrightarrow> mr_monitor r \<noteq> h) \<and>
        (\<forall>u j. R u \<noteq> Assigning j h \<and> R u \<noteq> Unassigning j h)) \<and>
     (\<forall>t i g h. R t = Carrying i g h Announcing \<longrightarrow>
        (\<exists>r. M i = Some r \<and> mr_monitor r = h \<and> mr_arriving r \<and> \<not> mr_departing r)) \<and>
     (\<forall>i r. M i = Some r \<longrightarrow> mr_arriving r \<longrightarrow> (\<exists>t g. R t = Carrying i g (mr_monitor r) Announcing)) \<and>
     (\<forall>t i g h j r. R t = Carrying i g h Tagged \<longrightarrow> M j = Some r \<longrightarrow> mr_monitor r = h \<longrightarrow>
        mr_orphaned_late_arrival r)"

definition table_inv :: "table \<times> handles \<times> roles \<Rightarrow> bool" where
  "table_inv s = (case s of (M, C, R) \<Rightarrow>
     finite_ok R \<and> known_ok M C R \<and> claims_ok M R \<and> callbacks_ok M R \<and> workers_ok M R)"

end
