(* ===== verification/Monitor_Table_Inv.thy ===== *)
theory Monitor_Table_Inv
  imports Monitor_Table
begin

text \<open>
  The protocol of the monitor table keeps its invariant. The elementary changes (a record
  replaced, removed or inserted, a role changed, a handle created) are treated once; a step is a
  composition of them.
\<close>

lemma finite_ok_upd [simp]: "finite_ok (R(t := x)) = finite_ok R"
proof -
  have "{u. (R(t := x)) u \<noteq> Idle} \<subseteq> insert t {u. R u \<noteq> Idle}"
    and "{u. R u \<noteq> Idle} \<subseteq> insert t {u. (R(t := x)) u \<noteq> Idle}" by auto
  then show ?thesis unfolding finite_ok_def using finite_subset finite.insertI by metis
qed

section \<open>Handles\<close>

definition role_known :: "handles \<Rightarrow> role \<Rightarrow> bool" where
  "role_known C x = (case x of Carrying i g h p \<Rightarrow> C h = Some (i, g) | Assigning i h \<Rightarrow> C h \<noteq> None
     | Unassigning i h \<Rightarrow> C h \<noteq> None | _ \<Rightarrow> True)"

lemma role_known_simps [simp]:
  "role_known C Idle" "role_known C (Claiming i g h q)"
  "role_known C (Assigning i h) \<longleftrightarrow> C h \<noteq> None" "role_known C (Unassigning i h) \<longleftrightarrow> C h \<noteq> None"
  "role_known C (Carrying i g h p) \<longleftrightarrow> C h = Some (i, g)"
  by (simp_all add: role_known_def)

lemma known_ok_alt:
  "known_ok M C R \<longleftrightarrow>
     (\<forall>i r. M i = Some r \<longrightarrow> C (mr_monitor r) = Some (i, generation_of r)) \<and> (\<forall>t. role_known C (R t))"
  unfolding known_ok_def role_known_def by (auto split: role.split) metis+

lemma known_role:
  assumes "known_ok M C R" and "role_known C x" shows "known_ok M C (R(t := x))"
  using assms by (simp add: known_ok_alt)

lemma known_remove:
  assumes "known_ok M C R" shows "known_ok (M(i := None)) C R"
  using assms by (simp add: known_ok_alt)

lemma known_insert:
  assumes "known_ok M C R" and "C (mr_monitor q) = Some (i, generation_of q)"
  shows "known_ok (M(i \<mapsto> q)) C R"
  using assms by (simp add: known_ok_alt)

lemma known_record: "known_ok M C R \<Longrightarrow> M i = Some r \<Longrightarrow> C (mr_monitor r) = Some (i, generation_of r)"
  by (simp add: known_ok_alt)

lemma known_replace:
  assumes "known_ok M C R" and "M i = Some r" and "same_identity r q"
  shows "known_ok (M(i \<mapsto> q)) C R"
  using known_insert[OF assms(1)] known_record[OF assms(1,2)] assms(3)
  by (simp add: same_identity_def generation_of_def)

lemma known_sweep:
  assumes "known_ok M C R" and "\<And>i. N i = None \<longleftrightarrow> M i = None"
    and "\<And>i r q. M i = Some r \<Longrightarrow> N i = Some q \<Longrightarrow> same_identity r q"
  shows "known_ok N C R"
proof -
  have "C (mr_monitor q) = Some (i, generation_of q)" if q: "N i = Some q" for i q
  proof -
    obtain r where r: "M i = Some r" using assms(2)[of i] q by fastforce
    then show ?thesis
      using known_record[OF assms(1) r] assms(3)[OF r q] by (simp add: same_identity_def generation_of_def)
  qed
  then show ?thesis using assms(1) by (simp add: known_ok_alt)
qed

lemma known_fresh:
  assumes "known_ok M C R" and "C h = None"
  shows "known_ok M (C(h \<mapsto> x)) R"
proof -
  have "role_known (C(h \<mapsto> x)) (R t)" for t
    using assms by (cases "R t") (auto simp: known_ok_alt dest: spec[of _ t])
  then show ?thesis using assms by (auto simp: known_ok_alt)
qed

lemma same_identity_flags [simp]:
  "same_identity r (r\<lparr>mr_assign_callbacks_in_flight := n\<rparr>)"
  "same_identity r (r\<lparr>mr_unassign_callbacks_in_flight := n\<rparr>)"
  "same_identity r (r\<lparr>mr_orphaned_late_arrival := True\<rparr>)"
  by (simp_all add: same_identity_def)

lemma known_step:
  "table_step s s1 \<Longrightarrow> (case s of (M, C, R) \<Rightarrow> known_ok M C R) \<Longrightarrow>
     (case s1 of (M, C, R) \<Rightarrow> known_ok M C R)"
proof (induction rule: table_step.induct)
  case (sweep N M C R)
  then show ?case using known_sweep[of M C R N] by simp
next
  case (create R t C h M i g)
  then show ?case by (simp add: known_fresh known_role)
next
  case (recorded R t i g h M q C)
  then show ?case using spec[of _ t] by (auto simp: known_ok_alt dest: spec[of _ t])
next
  case (confirm R t i g h M r C)
  then show ?case by (auto simp: known_ok_alt generation_of_def dest: spec[of _ t])
next
  case (give_up R t i g h p M C)
  then show ?case by (simp add: known_role)
next
  case (tag R t i g h M r C)
  then show ?case by (auto simp: known_ok_alt generation_of_def dest: spec[of _ t])
next
  case (tag_gone R t i g h M C)
  then show ?case by (auto simp: known_ok_alt dest: spec[of _ t])
qed (simp_all add: known_role known_remove known_replace known_record)

section \<open>Claims\<close>

definition claim_holds :: "table \<Rightarrow> role \<Rightarrow> bool" where
  "claim_holds M x = (case x of
     Claiming i g h q \<Rightarrow> (\<exists>r. M i = Some r \<and> mr_monitor r = h \<and> mr_departing r \<and> \<not> mr_arriving r \<and>
       fenced g r \<and> (q \<longrightarrow> settled r))
   | _ \<Rightarrow> True)"

definition claimed :: "role \<Rightarrow> u64 option" where
  "claimed x = (case x of Claiming i g h q \<Rightarrow> Some i | _ \<Rightarrow> None)"

lemma claim_holds_simps [simp]:
  "claim_holds M Idle" "claim_holds M (Assigning i h)" "claim_holds M (Unassigning i h)"
  "claim_holds M (Carrying i g h p)"
  "claim_holds M (Claiming i g h q) \<longleftrightarrow>
     (\<exists>r. M i = Some r \<and> mr_monitor r = h \<and> mr_departing r \<and> \<not> mr_arriving r \<and> fenced g r \<and> (q \<longrightarrow> settled r))"
  by (simp_all add: claim_holds_def)

lemma claimed_simps [simp]:
  "claimed Idle = None" "claimed (Assigning i h) = None" "claimed (Unassigning i h) = None"
  "claimed (Carrying i g h p) = None" "claimed (Claiming i g h q) = Some i"
  by (simp_all add: claimed_def)

lemma claimed_SomeE:
  assumes "claimed x = Some i" obtains g h q where "x = Claiming i g h q"
  using assms by (cases x) auto

lemma claims_ok_alt:
  "claims_ok M R \<longleftrightarrow> (\<forall>t. claim_holds M (R t)) \<and>
     (\<forall>t u i. claimed (R t) = Some i \<longrightarrow> claimed (R u) = Some i \<longrightarrow> t = u) \<and>
     (\<forall>i r. M i = Some r \<longrightarrow> mr_departing r \<longrightarrow> (\<exists>t. claimed (R t) = Some i))"
proof -
  have a: "(\<forall>t. claim_holds M (R t)) \<longleftrightarrow> (\<forall>t i g h q. R t = Claiming i g h q \<longrightarrow>
        (\<exists>r. M i = Some r \<and> mr_monitor r = h \<and> mr_departing r \<and> \<not> mr_arriving r \<and> fenced g r \<and>
           (q \<longrightarrow> settled r)))"
    unfolding claim_holds_def by (auto split: role.split)
  have b: "(\<forall>t u i. claimed (R t) = Some i \<longrightarrow> claimed (R u) = Some i \<longrightarrow> t = u) \<longleftrightarrow>
      (\<forall>t u i g h q g1 h1 q1. R t = Claiming i g h q \<longrightarrow> R u = Claiming i g1 h1 q1 \<longrightarrow> t = u)"
    by (metis claimed_SomeE claimed_simps(5))
  have c: "(\<forall>i r. M i = Some r \<longrightarrow> mr_departing r \<longrightarrow> (\<exists>t. claimed (R t) = Some i)) \<longleftrightarrow>
      (\<forall>i r. M i = Some r \<longrightarrow> mr_departing r \<longrightarrow> (\<exists>t g q. R t = Claiming i g (mr_monitor r) q))"
    if "\<forall>t. claim_holds M (R t)"
  proof (intro iffI allI impI)
    fix i r assume *: "\<forall>i r. M i = Some r \<longrightarrow> mr_departing r \<longrightarrow> (\<exists>t. claimed (R t) = Some i)"
      and r: "M i = Some r" "mr_departing r"
    obtain t where "claimed (R t) = Some i" using * r by blast
    then obtain g h q where t: "R t = Claiming i g h q" by (elim claimed_SomeE)
    then have "mr_monitor r = h" using that r(1) by (metis claim_holds_simps(5) option.inject)
    then show "\<exists>t g q. R t = Claiming i g (mr_monitor r) q" using t by blast
  next
    fix i r assume *: "\<forall>i r. M i = Some r \<longrightarrow> mr_departing r \<longrightarrow> (\<exists>t g q. R t = Claiming i g (mr_monitor r) q)"
      and r: "M i = Some r" "mr_departing r"
    obtain t g q where "R t = Claiming i g (mr_monitor r) q" using * r by blast
    then show "\<exists>t. claimed (R t) = Some i" by (intro exI[of _ t]) simp
  qed
  show ?thesis unfolding claims_ok_def a[symmetric] b[symmetric] by (intro conj_cong refl c[symmetric])
qed

lemma claims_owner:
  assumes "claims_ok M R" and "M i = Some r" and "mr_departing r"
  obtains t where "claimed (R t) = Some i"
  using assms unfolding claims_ok_alt by metis

lemma claims_free:
  assumes "claims_ok M R" and "M i = Some r" and "\<not> mr_departing r" shows "claimed (R t) \<noteq> Some i"
  using assms unfolding claims_ok_alt by (metis claim_holds_simps(5) claimed_SomeE option.inject)

lemma claims_absent:
  assumes "claims_ok M R" and "M i = None" shows "claimed (R t) \<noteq> Some i"
  using assms unfolding claims_ok_alt by (metis claim_holds_simps(5) claimed_SomeE option.distinct(1))

text \<open>A role that claims nothing changes into another such role.\<close>

lemma claims_role:
  assumes "claims_ok M R" and "claimed (R t) = None" and "claimed x = None"
  shows "claims_ok M (R(t := x))"
proof -
  have "claim_holds M x" using assms(3) by (cases x) auto
  then show ?thesis using assms unfolding claims_ok_alt by (auto; metis option.distinct(1))
qed

text \<open>Changes of one record under its claims.\<close>

lemma claim_holds_other: "claimed x \<noteq> Some i \<Longrightarrow> claim_holds (M(i := y)) x \<longleftrightarrow> claim_holds M x"
  by (cases x) auto

lemma claims_record:
  assumes "claims_ok M R" and "\<And>t. claimed (R t) \<noteq> Some i" and "\<And>q. y = Some q \<Longrightarrow> \<not> mr_departing q"
  shows "claims_ok (M(i := y)) R"
  using assms unfolding claims_ok_alt by (auto simp: claim_holds_other)

lemma claims_replace:
  assumes "claims_ok M R" and "M i = Some r" and "same_identity r q"
    and "mr_departing q = mr_departing r" and "settled r \<longrightarrow> settled q"
  shows "claims_ok (M(i \<mapsto> q)) R"
proof -
  have "claim_holds (M(i \<mapsto> q)) (R t)" for t
  proof (cases "claimed (R t) = Some i")
    case True
    then obtain g h p where t: "R t = Claiming i g h p" by (elim claimed_SomeE)
    have "claim_holds M (R t)" using assms(1) by (simp add: claims_ok_alt)
    then show ?thesis using assms(2-5) t by (auto simp: same_identity_def fenced_def generation_of_def)
  next
    case False
    then show ?thesis using assms(1) by (simp add: claims_ok_alt claim_holds_other)
  qed
  then show ?thesis using assms unfolding claims_ok_alt by auto
qed

lemma claim_unique:
  assumes "claims_ok M R" and "claimed (R t) = Some i" and "claimed (R u) = Some i" shows "t = u"
  using assms unfolding claims_ok_alt by blast

lemma claims_claim:
  assumes ok: "claims_ok M R" and r: "M i = Some r" "\<not> mr_departing r" and t: "claimed (R t) = None"
    and x: "x = Claiming i g (mr_monitor q) taken" and q: "mr_departing q" "\<not> mr_arriving q" "fenced g q"
      "taken \<longrightarrow> settled q"
  shows "claims_ok (M(i \<mapsto> q)) (R(t := x))"
proof -
  have free: "claimed (R u) \<noteq> Some i" for u using claims_free[OF ok r] .
  have "claim_holds (M(i \<mapsto> q)) ((R(t := x)) u)" for u
    using ok free[of u] q x by (simp add: claims_ok_alt claim_holds_other)
  moreover have "u = v" if "claimed ((R(t := x)) u) = Some j" "claimed ((R(t := x)) v) = Some j" for u v j
    using that free claim_unique[OF ok] x by (auto split: if_splits)
  moreover have "\<exists>u. claimed ((R(t := x)) u) = Some j"
    if j: "(M(i \<mapsto> q)) j = Some p" "mr_departing p" for j p
  proof (cases "j = i")
    case True
    then show ?thesis by (intro exI[of _ t]) (simp add: x)
  next
    case False
    then obtain u where u: "claimed (R u) = Some j" using claims_owner[OF ok] j by auto
    then have "u \<noteq> t" using t by auto
    then show ?thesis using u by (intro exI[of _ u]) simp
  qed
  ultimately show ?thesis unfolding claims_ok_alt by blast
qed

lemma claims_change:
  assumes ok: "claims_ok M R" and t: "claimed (R t) = Some i" and x: "x = Claiming i g (mr_monitor q) taken"
    and q: "mr_departing q" "\<not> mr_arriving q" "fenced g q" "taken \<longrightarrow> settled q"
  shows "claims_ok (M(i \<mapsto> q)) (R(t := x))"
proof -
  have "claim_holds (M(i \<mapsto> q)) ((R(t := x)) u)" for u
  proof (cases "u = t")
    case False
    then have "claimed (R u) \<noteq> Some i" using claim_unique[OF ok t] by blast
    then show ?thesis using ok False by (simp add: claims_ok_alt claim_holds_other)
  qed (use x q in simp)
  moreover have cl: "claimed ((R(t := x)) u) = claimed (R u)" for u using t x by simp
  moreover have "\<exists>u. claimed (R u) = Some j"
    if "(M(i \<mapsto> q)) j = Some p" "mr_departing p" for j p
    using that ok t unfolding claims_ok_alt by (metis map_upd_Some_unfold)
  ultimately show ?thesis using ok unfolding claims_ok_alt cl by blast
qed

lemma claims_drop:
  assumes ok: "claims_ok M R" and t: "claimed (R t) = Some i" and x: "claimed x = None"
    and y: "\<And>q. y = Some q \<Longrightarrow> \<not> mr_departing q"
  shows "claims_ok (M(i := y)) (R(t := x))"
proof -
  have xh: "claim_holds N x" for N using x by (cases x) auto
  have other: "claimed (R u) \<noteq> Some i" if "u \<noteq> t" for u using that claim_unique[OF ok t] by blast
  have "claim_holds (M(i := y)) ((R(t := x)) u)" for u
    using ok other[of u] xh by (simp add: claims_ok_alt claim_holds_other)
  moreover have "u = v" if "claimed ((R(t := x)) u) = Some j" "claimed ((R(t := x)) v) = Some j" for u v j
    using that claim_unique[OF ok] x by (auto split: if_splits)
  moreover have "\<exists>u. claimed ((R(t := x)) u) = Some j"
    if j: "(M(i := y)) j = Some p" "mr_departing p" for j p
  proof -
    have "j \<noteq> i" using j y by auto
    then obtain u where u: "claimed (R u) = Some j" using claims_owner[OF ok] j by auto
    then have "u \<noteq> t" using t \<open>j \<noteq> i\<close> by auto
    then show ?thesis using u by (intro exI[of _ u]) simp
  qed
  ultimately show ?thesis unfolding claims_ok_alt by blast
qed

lemma claims_hand_over:
  assumes ok: "claims_ok M R" and t: "R t = Claiming i g h taken" and u: "claimed (R u) = None" and "t \<noteq> u"
  shows "claims_ok M (R(t := Idle, u := Claiming i g h taken))"
proof -
  let ?S = "R(t := Idle, u := Claiming i g h taken)"
  have "claim_holds M (R t)" using ok by (simp add: claims_ok_alt)
  then have a: "claim_holds M (?S v)" for v using ok t by (simp add: claims_ok_alt)
  have other: "claimed (R v) \<noteq> Some i" if "v \<noteq> t" for v
    using that claim_unique[OF ok, of t i v] t by auto
  have b: "v = w" if "claimed (?S v) = Some j" "claimed (?S w) = Some j" for v w j
    using that claim_unique[OF ok] other by (auto split: if_splits)
  have c: "\<exists>v. claimed (?S v) = Some j" if j: "M j = Some p" "mr_departing p" for j p
  proof -
    obtain v where v: "claimed (R v) = Some j" using ok j unfolding claims_ok_alt by blast
    show ?thesis
    proof (cases "v = t")
      case True
      then show ?thesis using v t by (intro exI[of _ u]) simp
    next
      case False
      then show ?thesis using v u by (intro exI[of _ v]) auto
    qed
  qed
  show ?thesis unfolding claims_ok_alt using a b c by blast
qed

lemma claims_sweep:
  assumes ok: "claims_ok M R" and dom: "\<And>i. N i = None \<longleftrightarrow> M i = None"
    and same: "\<And>i r q. M i = Some r \<Longrightarrow> N i = Some q \<Longrightarrow>
      same_identity r q \<and> mr_departing q = mr_departing r \<and> (settled r \<longrightarrow> settled q)"
  shows "claims_ok N R"
proof -
  have "claim_holds N (R t)" for t
  proof (cases "claimed (R t)")
    case (Some i)
    then obtain g h p where t: "R t = Claiming i g h p" by (elim claimed_SomeE)
    have "claim_holds M (R t)" using ok by (simp add: claims_ok_alt)
    then obtain r where r: "M i = Some r" "mr_monitor r = h" "mr_departing r" "\<not> mr_arriving r" "fenced g r"
      "p \<longrightarrow> settled r" using t by auto
    obtain q where q: "N i = Some q" using dom[of i] r(1) by fastforce
    then show ?thesis using t r same[OF r(1) q] by (auto simp: same_identity_def fenced_def generation_of_def)
  next
    case None
    then show ?thesis by (cases "R t") auto
  qed
  moreover have "\<exists>t. claimed (R t) = Some i" if i: "N i = Some q" "mr_departing q" for i q
  proof -
    obtain r where r: "M i = Some r" using dom[of i] i by fastforce
    then show ?thesis using same[OF r i(1)] i ok unfolding claims_ok_alt by blast
  qed
  ultimately show ?thesis using ok unfolding claims_ok_alt by blast
qed

section \<open>Callback counters\<close>

definition plain :: "role \<Rightarrow> bool" where
  "plain x \<longleftrightarrow> (\<forall>i h. x \<noteq> Assigning i h \<and> x \<noteq> Unassigning i h)"

lemma plain_simps [simp]:
  "plain Idle" "plain (Claiming i g h q)" "plain (Carrying i g h p)"
  "\<not> plain (Assigning i h)" "\<not> plain (Unassigning i h)"
  by (simp_all add: plain_def)

lemma callers_upd:
  "assigning (R(t := x)) i h =
     (if x = Assigning i h then insert t (assigning R i h) else assigning R i h - {t})"
  "unassigning (R(t := x)) i h =
     (if x = Unassigning i h then insert t (unassigning R i h) else unassigning R i h - {t})"
  by (auto simp: assigning_def unassigning_def split: if_splits)

lemma callers_plain [simp]:
  "plain (R t) \<Longrightarrow> plain x \<Longrightarrow> assigning (R(t := x)) i h = assigning R i h"
  "plain (R t) \<Longrightarrow> plain x \<Longrightarrow> unassigning (R(t := x)) i h = unassigning R i h"
  by (auto simp: assigning_def unassigning_def plain_def)

lemma callers_finite:
  assumes "finite_ok R" shows "finite (assigning R i h)" "finite (unassigning R i h)"
  using assms unfolding finite_ok_def assigning_def unassigning_def
  by (auto elim!: rev_finite_subset)

lemma callbacks_role: "callbacks_ok M R \<Longrightarrow> plain (R t) \<Longrightarrow> plain x \<Longrightarrow> callbacks_ok M (R(t := x))"
  by (simp add: callbacks_ok_def)

lemma callbacks_record:
  assumes "callbacks_ok M R" and "\<And>q. y = Some q \<Longrightarrow>
      unat (mr_assign_callbacks_in_flight q) = card (assigning R i (mr_monitor q)) \<and>
      unat (mr_unassign_callbacks_in_flight q) = card (unassigning R i (mr_monitor q))"
  shows "callbacks_ok (M(i := y)) R"
  using assms by (simp add: callbacks_ok_def)

lemma callbacksD:
  assumes "callbacks_ok M R" and "M i = Some r"
  shows "unat (mr_assign_callbacks_in_flight r) = card (assigning R i (mr_monitor r))"
    and "unat (mr_unassign_callbacks_in_flight r) = card (unassigning R i (mr_monitor r))"
  using assms by (simp_all add: callbacks_ok_def)

lemma callbacks_replace:
  assumes "callbacks_ok M R" and "M i = Some r" and "same_identity r q" and "same_callbacks r q"
  shows "callbacks_ok (M(i \<mapsto> q)) R"
  using callbacksD[OF assms(1,2)] assms(3,4)
  by (intro callbacks_record[OF assms(1)]) (simp add: same_identity_def same_callbacks_def)

lemma callbacks_sweep:
  assumes ok: "callbacks_ok M R" and dom: "\<And>i. N i = None \<longleftrightarrow> M i = None"
    and same: "\<And>i r q. M i = Some r \<Longrightarrow> N i = Some q \<Longrightarrow> same_identity r q \<and> same_callbacks r q"
  shows "callbacks_ok N R"
  unfolding callbacks_ok_def
proof (intro allI impI)
  fix i q assume q: "N i = Some q"
  then obtain r where r: "M i = Some r" using dom[of i] by fastforce
  then show "unat (mr_assign_callbacks_in_flight q) = card (assigning R i (mr_monitor q)) \<and>
      unat (mr_unassign_callbacks_in_flight q) = card (unassigning R i (mr_monitor q))"
    using callbacksD[OF ok r] same[OF r q] by (simp add: same_identity_def same_callbacks_def)
qed

lemma callbacks_positive:
  assumes "callbacks_ok M R" and "finite_ok R" and "M i = Some r"
  shows "R t = Assigning i (mr_monitor r) \<Longrightarrow> 0 < mr_assign_callbacks_in_flight r"
    and "R t = Unassigning i (mr_monitor r) \<Longrightarrow> 0 < mr_unassign_callbacks_in_flight r"
proof -
  assume "R t = Assigning i (mr_monitor r)"
  then have "card (assigning R i (mr_monitor r)) > 0"
    using callers_finite[OF assms(2)] by (auto simp: card_gt_0_iff assigning_def)
  then show "0 < mr_assign_callbacks_in_flight r"
    using callbacksD(1)[OF assms(1,3)] by (simp add: word_less_nat_alt)
next
  assume "R t = Unassigning i (mr_monitor r)"
  then have "card (unassigning R i (mr_monitor r)) > 0"
    using callers_finite[OF assms(2)] by (auto simp: card_gt_0_iff unassigning_def)
  then show "0 < mr_unassign_callbacks_in_flight r"
    using callbacksD(2)[OF assms(1,3)] by (simp add: word_less_nat_alt)
qed

lemma callbacks_not_settled:
  assumes "callbacks_ok M R" and "finite_ok R" and "M i = Some r"
    and "R t = Assigning i (mr_monitor r) \<or> R t = Unassigning i (mr_monitor r)"
  shows "\<not> settled r"
  using callbacks_positive[OF assms(1-3)] assms(4) by (auto simp: settled_def)

lemma unat_add_one: "w < 0xffffffff \<Longrightarrow> unat (w + 1 :: u32) = unat w + 1"
  by (simp add: unat_plus_simple[THEN iffD1] word_less_nat_alt unat_word_ariths)

lemma unat_sub_one: "0 < w \<Longrightarrow> unat (w - 1 :: u32) = unat w - 1"
  by (simp add: unat_minus_one word_neq_0_conv)

lemma callbacks_enter:
  assumes ok: "callbacks_ok M R" "finite_ok R" and r: "M i = Some r" and t: "R t = Idle"
    and q: "same_identity r q"
    and x: "x = Assigning i (mr_monitor r) \<and> mr_assign_callbacks_in_flight r < 0xffffffff \<and>
        mr_assign_callbacks_in_flight q = mr_assign_callbacks_in_flight r + 1 \<and>
        mr_unassign_callbacks_in_flight q = mr_unassign_callbacks_in_flight r \<or>
      x = Unassigning i (mr_monitor r) \<and> mr_unassign_callbacks_in_flight r < 0xffffffff \<and>
        mr_unassign_callbacks_in_flight q = mr_unassign_callbacks_in_flight r + 1 \<and>
        mr_assign_callbacks_in_flight q = mr_assign_callbacks_in_flight r"
  shows "callbacks_ok (M(i \<mapsto> q)) (R(t := x))"
proof -
  have h: "mr_monitor q = mr_monitor r" using q by (simp add: same_identity_def)
  have new: "t \<notin> assigning R j k" "t \<notin> unassigning R j k" for j k
    using t by (simp_all add: assigning_def unassigning_def)
  have fin: "finite (assigning R j k)" "finite (unassigning R j k)" for j k
    using callers_finite[OF ok(2)] by auto
  have at: "unat (mr_assign_callbacks_in_flight q) = card (assigning (R(t := x)) i (mr_monitor q))"
    "unat (mr_unassign_callbacks_in_flight q) = card (unassigning (R(t := x)) i (mr_monitor q))"
    using x callbacksD[OF ok(1) r] new fin by (auto simp: h callers_upd unat_add_one)
  have "callbacks_ok (M(i := None)) (R(t := x))"
    using ok(1) x new by (auto simp: callbacks_ok_def callers_upd)
  then show ?thesis using callbacks_record[of "M(i := None)" "R(t := x)" "Some q" i] at by simp
qed

lemma callbacks_leave:
  assumes ok: "callbacks_ok M R" "finite_ok R" and r: "M i = Some r" and h: "mr_monitor r = h"
    and q: "mr_monitor q = h"
    and x: "R t = Assigning i h \<and> 0 < mr_assign_callbacks_in_flight r \<and>
        mr_assign_callbacks_in_flight q = mr_assign_callbacks_in_flight r - 1 \<and>
        mr_unassign_callbacks_in_flight q = mr_unassign_callbacks_in_flight r \<or>
      R t = Unassigning i h \<and> 0 < mr_unassign_callbacks_in_flight r \<and>
        mr_unassign_callbacks_in_flight q = mr_unassign_callbacks_in_flight r - 1 \<and>
        mr_assign_callbacks_in_flight q = mr_assign_callbacks_in_flight r"
  shows "callbacks_ok (M(i \<mapsto> q)) (R(t := Idle))"
proof -
  have fin: "finite (assigning R j k)" "finite (unassigning R j k)" for j k
    using callers_finite[OF ok(2)] by auto
  have mem: "t \<in> assigning R j k \<longleftrightarrow> R t = Assigning j k" "t \<in> unassigning R j k \<longleftrightarrow> R t = Unassigning j k"
    for j k by (simp_all add: assigning_def unassigning_def)
  have at: "unat (mr_assign_callbacks_in_flight q) = card (assigning (R(t := Idle)) i h)"
    "unat (mr_unassign_callbacks_in_flight q) = card (unassigning (R(t := Idle)) i h)"
    using x callbacksD[OF ok(1) r] fin by (auto simp: h callers_upd unat_sub_one mem)
  have "callbacks_ok (M(i := None)) (R(t := Idle))"
    using ok(1) x by (auto simp: callbacks_ok_def callers_upd mem)
  then show ?thesis using callbacks_record[of "M(i := None)" "R(t := Idle)" "Some q" i] at q by simp
qed

lemma callbacks_gone:
  assumes ok: "callbacks_ok M R" and t: "R t = Assigning i h \<or> R t = Unassigning i h"
    and gone: "M i = None \<or> mr_monitor (the (M i)) \<noteq> h"
  shows "callbacks_ok M (R(t := Idle))"
proof -
  have "t \<notin> assigning R j (mr_monitor r) \<and> t \<notin> unassigning R j (mr_monitor r)" if "M j = Some r" for j r
    using t gone that by (auto simp: assigning_def unassigning_def)
  then have "assigning (R(t := Idle)) j (mr_monitor r) = assigning R j (mr_monitor r)"
    "unassigning (R(t := Idle)) j (mr_monitor r) = unassigning R j (mr_monitor r)" if "M j = Some r" for j r
    using that by (simp_all add: callers_upd)
  then show ?thesis using ok by (simp add: callbacks_ok_def)
qed

section \<open>Workers\<close>

definition carried :: "role \<Rightarrow> monitor option" where
  "carried x = (case x of Carrying i g h p \<Rightarrow> Some h | _ \<Rightarrow> None)"

lemma carried_simps [simp]:
  "carried Idle = None" "carried (Assigning i h) = None" "carried (Unassigning i h) = None"
  "carried (Carrying i g h p) = Some h" "carried (Claiming i g h q) = None"
  by (simp_all add: carried_def)

lemma workersD:
  assumes "workers_ok M R"
  shows "R t = Carrying i g h p \<Longrightarrow> R u = Carrying i1 g1 h p1 \<Longrightarrow> t = u"
    and "R t = Carrying i g h Recording \<Longrightarrow> M j = Some r \<Longrightarrow> mr_monitor r \<noteq> h"
    and "R t = Carrying i g h Recording \<Longrightarrow> R u \<noteq> Assigning j h \<and> R u \<noteq> Unassigning j h"
    and "R t = Carrying i g h Announcing \<Longrightarrow>
      \<exists>r. M i = Some r \<and> mr_monitor r = h \<and> mr_arriving r \<and> \<not> mr_departing r"
    and "M i = Some r \<Longrightarrow> mr_arriving r \<Longrightarrow> \<exists>t g. R t = Carrying i g (mr_monitor r) Announcing"
    and "R t = Carrying i g h Tagged \<Longrightarrow> M j = Some r \<Longrightarrow> mr_monitor r = h \<Longrightarrow> mr_orphaned_late_arrival r"
  using assms unfolding workers_ok_def by metis+

lemma workersI:
  assumes "\<And>t u i g h p i1 g1 p1. R t = Carrying i g h p \<Longrightarrow> R u = Carrying i1 g1 h p1 \<Longrightarrow> t = u"
    and "\<And>t i g h j r. R t = Carrying i g h Recording \<Longrightarrow> M j = Some r \<Longrightarrow> mr_monitor r \<noteq> h"
    and "\<And>t i g h u j. R t = Carrying i g h Recording \<Longrightarrow> R u \<noteq> Assigning j h \<and> R u \<noteq> Unassigning j h"
    and "\<And>t i g h. R t = Carrying i g h Announcing \<Longrightarrow>
      \<exists>r. M i = Some r \<and> mr_monitor r = h \<and> mr_arriving r \<and> \<not> mr_departing r"
    and "\<And>i r. M i = Some r \<Longrightarrow> mr_arriving r \<Longrightarrow> \<exists>t g. R t = Carrying i g (mr_monitor r) Announcing"
    and "\<And>t i g h j r. R t = Carrying i g h Tagged \<Longrightarrow> M j = Some r \<Longrightarrow> mr_monitor r = h \<Longrightarrow>
      mr_orphaned_late_arrival r"
  shows "workers_ok M R"
  unfolding workers_ok_def
  by (intro conjI allI impI; (rule assms(4,5))?; (rule assms; assumption)?) (use assms(3) in blast)+

lemma workers_role:
  assumes ok: "workers_ok M R" and t: "carried (R t) = None" and x: "carried x = None"
    and fresh: "\<And>j h u i g. x = Assigning j h \<or> x = Unassigning j h \<Longrightarrow> R u \<noteq> Carrying i g h Recording"
  shows "workers_ok M (R(t := x))"
proof (rule workersI)
  note D = workersD[OF ok]
  have carry: "(R(t := x)) u = Carrying i g h p \<longleftrightarrow> R u = Carrying i g h p" for u i g h p
    using t x by (auto simp: carried_def)
  show "u = v" if "(R(t := x)) u = Carrying i g h p" "(R(t := x)) v = Carrying i1 g1 h p1" for u v i g h p i1 g1 p1
    using D(1) that unfolding carry by blast
  show "mr_monitor r \<noteq> h" if "(R(t := x)) u = Carrying i g h Recording" "M j = Some r" for u i g h j r
    using D(2) that unfolding carry by blast
  show "(R(t := x)) v \<noteq> Assigning j h \<and> (R(t := x)) v \<noteq> Unassigning j h"
    if "(R(t := x)) u = Carrying i g h Recording" for u i g h v j
    using D(3)[of u i g h v j] that fresh[of j h u i g] unfolding carry by auto
  show "\<exists>r. M i = Some r \<and> mr_monitor r = h \<and> mr_arriving r \<and> \<not> mr_departing r"
    if "(R(t := x)) u = Carrying i g h Announcing" for u i g h
    using D(4) that unfolding carry by blast
  show "\<exists>u g. (R(t := x)) u = Carrying i g (mr_monitor r) Announcing"
    if "M i = Some r" "mr_arriving r" for i r
    using D(5)[OF that] unfolding carry by blast
  show "mr_orphaned_late_arrival r"
    if "(R(t := x)) u = Carrying i g h Tagged" "M j = Some r" "mr_monitor r = h" for u i g h j r
    using D(6) that unfolding carry by blast
qed

lemma workers_sweep:
  assumes ok: "workers_ok M R" and dom: "\<And>i. N i = None \<longleftrightarrow> M i = None"
    and same: "\<And>i r q. M i = Some r \<Longrightarrow> N i = Some q \<Longrightarrow>
      same_identity r q \<and> (mr_arriving r \<longrightarrow> mr_departing q \<longrightarrow> mr_departing r)"
  shows "workers_ok N R"
proof (rule workersI)
  note D = workersD[OF ok]
  have before: "\<exists>r. M i = Some r \<and> same_identity r q" if "N i = Some q" for i q
    using dom[of i] that same[of i _ q] by fastforce
  show "\<And>t u i g h p i1 g1 p1. R t = Carrying i g h p \<Longrightarrow> R u = Carrying i1 g1 h p1 \<Longrightarrow> t = u" by (rule D(1))
  show "mr_monitor q \<noteq> h" if "R t = Carrying i g h Recording" "N j = Some q" for t i g h j q
    using before[OF that(2)] D(2)[OF that(1)] by (metis same_identity_def)
  show "\<And>t i g h u j. R t = Carrying i g h Recording \<Longrightarrow> R u \<noteq> Assigning j h \<and> R u \<noteq> Unassigning j h" by (rule D(3))
  show "\<exists>q. N i = Some q \<and> mr_monitor q = h \<and> mr_arriving q \<and> \<not> mr_departing q"
    if ann: "R t = Carrying i g h Announcing" for t i g h
  proof -
    obtain r where r: "M i = Some r" "mr_monitor r = h" "mr_arriving r" "\<not> mr_departing r"
      using D(4)[OF ann] by blast
    then obtain q where q: "N i = Some q" using dom[of i] by fastforce
    then show ?thesis using same[OF r(1) q] r by (auto simp: same_identity_def)
  qed
  show "\<exists>t g. R t = Carrying i g (mr_monitor q) Announcing" if "N i = Some q" "mr_arriving q" for i q
    using before[OF that(1)] that(2) D(5) by (auto simp: same_identity_def)
  show "mr_orphaned_late_arrival q"
    if tagged: "R t = Carrying i g h Tagged" "N j = Some q" "mr_monitor q = h" for t i g h j q
  proof -
    obtain r where r: "M j = Some r" "same_identity r q" using before[OF tagged(2)] by blast
    then show ?thesis using D(6)[OF tagged(1) r(1)] tagged(3) by (simp add: same_identity_def)
  qed
qed

lemma workers_replace:
  assumes "workers_ok M R" and "M i = Some r" and "same_identity r q"
    and "mr_arriving r \<longrightarrow> mr_departing q \<longrightarrow> mr_departing r"
  shows "workers_ok (M(i \<mapsto> q)) R"
  by (rule workers_sweep[OF assms(1)]) (use assms(2-4) in \<open>auto simp: same_identity_def split: if_splits\<close>)

lemma workers_remove:
  assumes ok: "workers_ok M R" and r: "\<And>r. M i = Some r \<Longrightarrow> \<not> mr_arriving r"
  shows "workers_ok (M(i := None)) R"
proof (rule workersI)
  note D = workersD[OF ok]
  show "\<exists>r. (M(i := None)) j = Some r \<and> mr_monitor r = h \<and> mr_arriving r \<and> \<not> mr_departing r"
    if "R t = Carrying j g h Announcing" for t j g h
    using D(4)[OF that] r by (cases "j = i") auto
qed (use workersD[OF ok] in \<open>auto split: if_splits\<close>)

text \<open>The steps of a worker.\<close>

lemma workers_create:
  assumes ok: "workers_ok M R" and t: "carried (R t) = None"
    and new: "\<And>u. carried (R u) \<noteq> Some h" "\<And>j r. M j = Some r \<Longrightarrow> mr_monitor r \<noteq> h"
      "\<And>u j. R u \<noteq> Assigning j h \<and> R u \<noteq> Unassigning j h"
  shows "workers_ok M (R(t := Carrying i g h Recording))"
proof (rule workersI)
  note D = workersD[OF ok]
  let ?S = "R(t := Carrying i g h Recording)"
  have new1: "R u \<noteq> Carrying j k h p" for u j k p using new(1)[of u] by auto
  show "u = v" if "?S u = Carrying j k l p" "?S v = Carrying j1 k1 l p1" for u v j k l p j1 k1 p1
    using that new1 D(1) by (auto split: if_splits)
  show "mr_monitor r \<noteq> l" if "?S u = Carrying j k l Recording" "M n = Some r" for u j k l n r
    using that new(2) D(2) by (auto split: if_splits)
  show "?S v \<noteq> Assigning n l \<and> ?S v \<noteq> Unassigning n l" if "?S u = Carrying j k l Recording" for u j k l v n
    using that new(3) D(3) by (auto split: if_splits)
  show "\<exists>r. M j = Some r \<and> mr_monitor r = l \<and> mr_arriving r \<and> \<not> mr_departing r"
    if "?S u = Carrying j k l Announcing" for u j k l
    using that D(4) by (auto split: if_splits)
  show "\<exists>u k. ?S u = Carrying j k (mr_monitor r) Announcing" if r: "M j = Some r" "mr_arriving r" for j r
  proof -
    obtain u k where "R u = Carrying j k (mr_monitor r) Announcing" using D(5)[OF r] by blast
    then show ?thesis using t by (intro exI[of _ u] exI[of _ k]) auto
  qed
  show "mr_orphaned_late_arrival r"
    if "?S u = Carrying j k l Tagged" "M n = Some r" "mr_monitor r = l" for u j k l n r
    using that D(6) by (auto split: if_splits)
qed

lemma workers_recorded:
  assumes ok: "workers_ok M R" and t: "R t = Carrying i g h Recording" and none: "M i = None"
    and q: "mr_monitor q = h" "mr_arriving q" "\<not> mr_departing q"
  shows "workers_ok (M(i \<mapsto> q)) (R(t := Carrying i g h Announcing))"
proof (rule workersI)
  note D = workersD[OF ok]
  let ?S = "R(t := Carrying i g h Announcing)" and ?N = "M(i \<mapsto> q)"
  have own: "u = t" if "R u = Carrying j k h p" for u j k p using D(1)[OF that t] .
  show "u = v" if "?S u = Carrying j k l p" "?S v = Carrying j1 k1 l p1" for u v j k l p j1 k1 p1
    using that own D(1) by (auto split: if_splits)
  show "mr_monitor r \<noteq> l" if "?S u = Carrying j k l Recording" "?N n = Some r" for u j k l n r
    using that own D(2) q(1) by (auto split: if_splits)
  show "?S v \<noteq> Assigning n l \<and> ?S v \<noteq> Unassigning n l" if "?S u = Carrying j k l Recording" for u j k l v n
    using that D(3) by (auto split: if_splits)
  show "\<exists>r. ?N j = Some r \<and> mr_monitor r = l \<and> mr_arriving r \<and> \<not> mr_departing r"
    if ann: "?S u = Carrying j k l Announcing" for u j k l
  proof (cases "u = t")
    case False
    then obtain r where r: "M j = Some r" "mr_monitor r = l" "mr_arriving r" "\<not> mr_departing r"
      using D(4)[of u j k l] ann by auto
    then have "j \<noteq> i" using none by auto
    then show ?thesis using r by auto
  qed (use ann q in auto)
  show "\<exists>u k. ?S u = Carrying j k (mr_monitor r) Announcing" if r: "?N j = Some r" "mr_arriving r" for j r
  proof (cases "j = i")
    case False
    then obtain u k where "R u = Carrying j k (mr_monitor r) Announcing" using D(5)[of j r] r by auto
    then show ?thesis using t by (intro exI[of _ u] exI[of _ k]) auto
  qed (use r q t in auto)
  show "mr_orphaned_late_arrival r"
    if "?S u = Carrying j k l Tagged" "?N n = Some r" "mr_monitor r = l" for u j k l n r
    using that D(6) own q(1) by (auto split: if_splits)
qed

lemma workers_withdraw:
  assumes ok: "workers_ok M R" and t: "R t = Carrying i g h Announcing"
  shows "workers_ok (M(i := None)) (R(t := Idle))"
proof (rule workersI)
  note D = workersD[OF ok]
  obtain r where r: "M i = Some r" "mr_monitor r = h" using D(4)[OF t] by blast
  let ?S = "R(t := Idle)" and ?N = "M(i := None)"
  have own: "u = t" if "R u = Carrying j k h p" for u j k p using D(1)[OF that t] .
  show "u = v" if "?S u = Carrying j k l p" "?S v = Carrying j1 k1 l p1" for u v j k l p j1 k1 p1
    using that D(1) by (auto split: if_splits)
  show "mr_monitor r \<noteq> l" if "?S u = Carrying j k l Recording" "?N n = Some r" for u j k l n r
    using that D(2) by (auto split: if_splits)
  show "?S v \<noteq> Assigning n l \<and> ?S v \<noteq> Unassigning n l" if "?S u = Carrying j k l Recording" for u j k l v n
    using that D(3) by (auto split: if_splits)
  show "\<exists>p. ?N j = Some p \<and> mr_monitor p = l \<and> mr_arriving p \<and> \<not> mr_departing p"
    if ann: "?S u = Carrying j k l Announcing" for u j k l
  proof -
    have u: "u \<noteq> t" "R u = Carrying j k l Announcing" using ann by (auto split: if_splits)
    obtain p where p: "M j = Some p" "mr_monitor p = l" "mr_arriving p" "\<not> mr_departing p"
      using D(4)[OF u(2)] by blast
    have "l \<noteq> h" using own[of u j k] u by auto
    then have "j \<noteq> i" using p(1,2) r by auto
    then show ?thesis using p by auto
  qed
  show "\<exists>u k. ?S u = Carrying j k (mr_monitor p) Announcing" if p: "?N j = Some p" "mr_arriving p" for j p
  proof -
    have j: "j \<noteq> i" "M j = Some p" using p by (auto split: if_splits)
    obtain u k where u: "R u = Carrying j k (mr_monitor p) Announcing" using D(5)[OF j(2) p(2)] by blast
    then have "u \<noteq> t" using t j(1) by auto
    then show ?thesis using u by (intro exI[of _ u] exI[of _ k]) simp
  qed
  show "mr_orphaned_late_arrival p"
    if "?S u = Carrying j k l Tagged" "?N n = Some p" "mr_monitor p = l" for u j k l n p
    using that D(6) by (auto split: if_splits)
qed

text \<open>A worker that is past the announcement, or drops its monitor before it.\<close>

lemma workers_later:
  assumes ok: "workers_ok M R" and t: "R t = Carrying i g h p" and p: "p \<noteq> Announcing"
    and x: "x = Idle \<or> x = Carrying i g h Arrived \<or>
      x = Carrying i g h Tagged \<and> (\<forall>j r. M j = Some r \<longrightarrow> mr_monitor r = h \<longrightarrow> mr_orphaned_late_arrival r)"
  shows "workers_ok M (R(t := x))"
proof (rule workersI)
  note D = workersD[OF ok]
  let ?S = "R(t := x)"
  have own: "u = t" if "R u = Carrying j k h q" for u j k q using D(1)[OF that t] .
  show "u = v" if "?S u = Carrying j k l q" "?S v = Carrying j1 k1 l q1" for u v j k l q j1 k1 q1
    using that own x D(1) by (auto split: if_splits)
  show "mr_monitor r \<noteq> l" if "?S u = Carrying j k l Recording" "M n = Some r" for u j k l n r
    using that D(2) x by (auto split: if_splits)
  show "?S v \<noteq> Assigning n l \<and> ?S v \<noteq> Unassigning n l" if "?S u = Carrying j k l Recording" for u j k l v n
    using that D(3) x by (auto split: if_splits)
  show "\<exists>r. M j = Some r \<and> mr_monitor r = l \<and> mr_arriving r \<and> \<not> mr_departing r"
    if "?S u = Carrying j k l Announcing" for u j k l
    using that D(4) x by (auto split: if_splits)
  show "\<exists>u k. ?S u = Carrying j k (mr_monitor r) Announcing" if r: "M j = Some r" "mr_arriving r" for j r
  proof -
    obtain u k where u: "R u = Carrying j k (mr_monitor r) Announcing" using D(5)[OF r] by blast
    then have "u \<noteq> t" using t p by auto
    then show ?thesis using u by (intro exI[of _ u] exI[of _ k]) simp
  qed
  show "mr_orphaned_late_arrival r"
    if "?S u = Carrying j k l Tagged" "M n = Some r" "mr_monitor r = l" for u j k l n r
    using that D(6) x by (auto split: if_splits)
qed

lemma workers_confirm:
  assumes ok: "workers_ok M R" and t: "R t = Carrying i g h Announcing"
    and r: "M i = Some r" "mr_monitor r = h"
  shows "workers_ok (M(i \<mapsto> r\<lparr>mr_arriving := False\<rparr>)) (R(t := Carrying i g h Arrived))"
proof (rule workersI)
  note D = workersD[OF ok]
  let ?S = "R(t := Carrying i g h Arrived)" and ?N = "M(i \<mapsto> r\<lparr>mr_arriving := False\<rparr>)"
  have own: "u = t" if "R u = Carrying j k h q" for u j k q using D(1)[OF that t] .
  have same: "\<exists>p. M n = Some p \<and> mr_monitor p = mr_monitor q \<and>
      mr_orphaned_late_arrival p = mr_orphaned_late_arrival q" if "?N n = Some q" for n q
    using that r by (auto split: if_splits)
  show "u = v" if "?S u = Carrying j k l q" "?S v = Carrying j1 k1 l q1" for u v j k l q j1 k1 q1
    using that own D(1) by (auto split: if_splits)
  show "mr_monitor p \<noteq> l" if "?S u = Carrying j k l Recording" "?N n = Some p" for u j k l n p
    using that(1) same[OF that(2)] D(2)[of u j k l n] by (auto split: if_splits)
  show "?S v \<noteq> Assigning n l \<and> ?S v \<noteq> Unassigning n l" if "?S u = Carrying j k l Recording" for u j k l v n
    using that D(3) by (auto split: if_splits)
  show "\<exists>p. ?N j = Some p \<and> mr_monitor p = l \<and> mr_arriving p \<and> \<not> mr_departing p"
    if ann: "?S u = Carrying j k l Announcing" for u j k l
  proof -
    have u: "u \<noteq> t" "R u = Carrying j k l Announcing" using ann by (auto split: if_splits)
    obtain p where p: "M j = Some p" "mr_monitor p = l" "mr_arriving p" "\<not> mr_departing p"
      using D(4)[OF u(2)] by blast
    have "l \<noteq> h" using own[of u j k] u by auto
    then have "j \<noteq> i" using p(1,2) r by auto
    then show ?thesis using p by auto
  qed
  show "\<exists>u k. ?S u = Carrying j k (mr_monitor p) Announcing" if p: "?N j = Some p" "mr_arriving p" for j p
  proof -
    have j: "j \<noteq> i" "M j = Some p" using p by (auto split: if_splits)
    obtain u k where u: "R u = Carrying j k (mr_monitor p) Announcing" using D(5)[OF j(2) p(2)] by blast
    then have "u \<noteq> t" using t j(1) by auto
    then show ?thesis using u by (intro exI[of _ u] exI[of _ k]) simp
  qed
  show "mr_orphaned_late_arrival p"
    if "?S u = Carrying j k l Tagged" "?N n = Some p" "mr_monitor p = l" for u j k l n p
    using that(1,3) same[OF that(2)] D(6)[of u j k l n] by (auto split: if_splits)
qed

section \<open>Preservation\<close>

lemma table_invD:
  assumes "table_inv (M, C, R)"
  shows "finite_ok R" "known_ok M C R" "claims_ok M R" "callbacks_ok M R" "workers_ok M R"
  using assms by (simp_all add: table_inv_def)

lemma table_invI:
  "finite_ok R \<Longrightarrow> known_ok M C R \<Longrightarrow> claims_ok M R \<Longrightarrow> callbacks_ok M R \<Longrightarrow> workers_ok M R \<Longrightarrow>
     table_inv (M, C, R)"
  by (simp add: table_inv_def)

lemma fenced_same: "same_identity r q \<Longrightarrow> fenced g q \<longleftrightarrow> fenced g r"
  by (simp add: same_identity_def fenced_def generation_of_def)

lemma announcing_unclaimed:
  assumes "claims_ok M R" and "workers_ok M R" and "R t = Carrying i g h Announcing"
  shows "claimed (R u) \<noteq> Some i"
  using workersD(4)[OF assms(2,3)] claims_free[OF assms(1)] by blast

lemma claim_record:
  assumes "claims_ok M R" and "R t = Claiming i g h taken"
  obtains r where "M i = Some r" "mr_monitor r = h" "mr_departing r" "\<not> mr_arriving r" "fenced g r"
    "taken \<longrightarrow> settled r"
proof -
  have "claim_holds M (R t)" using assms(1) by (simp add: claims_ok_alt)
  then show thesis using that assms(2) by auto
qed

lemma unknown_handle:
  assumes "known_ok M C R" and "C h = None"
  shows "carried (R u) \<noteq> Some h" and "M j = Some r \<Longrightarrow> mr_monitor r \<noteq> h"
    and "R u \<noteq> Assigning j h \<and> R u \<noteq> Unassigning j h"
proof -
  have "role_known C (R u)" using assms(1) by (simp add: known_ok_alt)
  then show "carried (R u) \<noteq> Some h" and "R u \<noteq> Assigning j h \<and> R u \<noteq> Unassigning j h"
    using assms(2) by (cases "R u"; auto)+
  show "M j = Some r \<Longrightarrow> mr_monitor r \<noteq> h" using known_record[OF assms(1)] assms(2) by auto
qed

lemma unrecorded:
  assumes "workers_ok M R" and "M i = Some r" shows "R u \<noteq> Carrying j g (mr_monitor r) Recording"
  using workersD(2)[OF assms(1) _ assms(2)] by blast

text \<open>The parts of the invariant besides \<open>known_ok\<close>.\<close>

definition rest_ok :: "table \<Rightarrow> roles \<Rightarrow> bool" where
  "rest_ok M R \<longleftrightarrow> finite_ok R \<and> claims_ok M R \<and> callbacks_ok M R \<and> workers_ok M R"

lemma rest_same_record:
  assumes "rest_ok M R" and "M i = Some r" and "same_identity r q" and "same_callbacks r q"
    and "mr_departing q = mr_departing r" and "settled r \<longrightarrow> settled q"
  shows "rest_ok (M(i \<mapsto> q)) R"
  using assms claims_replace[of M R i r q] callbacks_replace[of M R i r q] workers_replace[of M R i r q]
  by (simp add: rest_ok_def)

lemma rest_step:
  "table_step s s1 \<Longrightarrow> table_inv s \<Longrightarrow> (case s1 of (N, D, S) \<Rightarrow> rest_ok N S)"
proof (induction rule: table_step.induct)
  case (stutter M C R)
  then show ?case by (simp add: table_inv_def rest_ok_def)
next
  case (touch M i r q C R)
  then show ?case using rest_same_record[of M R i r q] by (simp add: table_inv_def rest_ok_def)
next
  case (sweep N M C R)
  note I = table_invD[OF sweep(3)]
  have "claims_ok N R" by (rule claims_sweep[OF I(3) sweep(1)]) (use sweep(2) in blast)
  moreover have "callbacks_ok N R" by (rule callbacks_sweep[OF I(4) sweep(1)]) (use sweep(2) in blast)
  moreover have "workers_ok N R" by (rule workers_sweep[OF I(5) sweep(1)]) (use sweep(2) in blast)
  ultimately show ?case using I(1) by (simp add: rest_ok_def)
next
  case (claim M i r R t g q taken C)
  note I = table_invD[OF claim(10)]
  have q: "mr_monitor r = mr_monitor q" "\<not> mr_arriving q" "fenced g q"
    using claim fenced_same by (auto simp: same_identity_def)
  show ?case
    using claims_claim[OF I(3) claim(1,4), of t "Claiming i g (mr_monitor q) taken" g q taken] claim q
      callbacks_role[OF callbacks_replace[OF I(4) claim(1,6,7)], of t "Claiming i g (mr_monitor q) taken"]
      workers_role[OF workers_replace[OF I(5) claim(1,6)], of t "Claiming i g (mr_monitor q) taken"] I(1)
    by (simp add: rest_ok_def)
next
  case (take M i r R t g h taken q C)
  note I = table_invD[OF take(8)]
  obtain p where "M i = Some p" "\<not> mr_arriving p" "fenced g p" by (rule claim_record[OF I(3) take(2)])
  then have q: "mr_monitor q = h" "\<not> mr_arriving q" "fenced g q"
    using take fenced_same[of r q g] by (auto simp: same_identity_def)
  show ?case
    using claims_change[OF I(3), of t i "Claiming i g h True" g q True] take q
      callbacks_role[OF callbacks_replace[OF I(4) take(1,4,5)], of t "Claiming i g h True"]
      workers_role[OF workers_replace[OF I(5) take(1,4)], of t "Claiming i g h True"] I(1) \<open>M i = Some p\<close> \<open>\<not> mr_arriving p\<close>
    by (simp add: rest_ok_def)
next
  case (abandon M i r R t g h taken q C)
  note I = table_invD[OF abandon(7)]
  show ?case
    using claims_drop[OF I(3), of t i Idle "Some q"] abandon
      callbacks_role[OF callbacks_replace[OF I(4) abandon(1,4,5)], of t Idle]
      workers_role[OF workers_replace[OF I(5) abandon(1,4)], of t Idle] I(1)
    by (simp add: rest_ok_def)
next
  case (hand_over R t i g h taken u M C)
  note I = table_invD[OF hand_over(4)]
  have "callbacks_ok M (R(t := Idle))" "workers_ok M (R(t := Idle))"
    using callbacks_role[OF I(4), of t Idle] workers_role[OF I(5), of t Idle] hand_over by simp_all
  then show ?case
    using claims_hand_over[OF I(3) hand_over(1) _ hand_over(3)] hand_over I(1)
      callbacks_role[of M "R(t := Idle)" u "Claiming i g h taken"]
      workers_role[of M "R(t := Idle)" u "Claiming i g h taken"]
    by (simp add: rest_ok_def)
next
  case (depart R t i g h M C)
  note I = table_invD[OF depart(2)]
  obtain r where r: "M i = Some r" "\<not> mr_arriving r" by (rule claim_record[OF I(3) depart(1)])
  have "callbacks_ok (M(i := None)) R" by (rule callbacks_record[OF I(4)]) simp
  moreover have "workers_ok (M(i := None)) R" by (rule workers_remove[OF I(5)]) (use r in auto)
  ultimately show ?case
    using claims_drop[OF I(3), of t i Idle None] depart I(1)
      callbacks_role[of "M(i := None)" R t Idle] workers_role[of "M(i := None)" R t Idle]
    by (simp add: rest_ok_def)
next
  case (assign M i r R t q C)
  note I = table_invD[OF assign(9)]
  have "claims_ok (M(i \<mapsto> q)) R"
    by (rule claims_record[OF I(3) claims_free[OF I(3) assign(1,3)]]) (use assign in simp)
  then show ?case
    using callbacks_enter[OF I(4,1) assign(1,2,5), of "Assigning i (mr_monitor r)"] assign I(1)
      claims_role[of "M(i \<mapsto> q)" R t "Assigning i (mr_monitor r)"]
      workers_role[OF workers_replace[OF I(5) assign(1,5)], of t "Assigning i (mr_monitor r)"]
      unrecorded[OF I(5) assign(1)]
    by (simp add: rest_ok_def)
next
  case (unassign M i r R t q C)
  note I = table_invD[OF unassign(9)]
  have "claims_ok (M(i \<mapsto> q)) R"
    by (rule claims_record[OF I(3) claims_free[OF I(3) unassign(1,3)]]) (use unassign in simp)
  then show ?case
    using callbacks_enter[OF I(4,1) unassign(1,2,5), of "Unassigning i (mr_monitor r)"] unassign I(1)
      claims_role[of "M(i \<mapsto> q)" R t "Unassigning i (mr_monitor r)"]
      workers_role[OF workers_replace[OF I(5) unassign(1,5)], of t "Unassigning i (mr_monitor r)"]
      unrecorded[OF I(5) unassign(1)]
    by (simp add: rest_ok_def)
next
  case (attach M i r R t h q C)
  note I = table_invD[OF attach(7)]
  have "\<not> settled r" using callbacks_not_settled[OF I(4,1) attach(1)] attach(2,3) by blast
  then show ?case using rest_same_record[of M R i r q] attach I by (simp add: rest_ok_def)
next
  case (assigned R t i h M r C)
  note I = table_invD[OF assigned(5)]
  let ?q = "r\<lparr>mr_assign_callbacks_in_flight := mr_assign_callbacks_in_flight r - 1\<rparr>"
  have "\<not> settled r" using assigned(4) by (auto simp: settled_def)
  then have "claims_ok (M(i \<mapsto> ?q)) R" "workers_ok (M(i \<mapsto> ?q)) R"
    using claims_replace[OF I(3) assigned(2), of ?q] workers_replace[OF I(5) assigned(2), of ?q] by simp_all
  then show ?case
    using callbacks_leave[OF I(4,1) assigned(2,3), of ?q t] assigned I(1)
      claims_role[of "M(i \<mapsto> ?q)" R t Idle] workers_role[of "M(i \<mapsto> ?q)" R t Idle]
    by (simp add: rest_ok_def)
next
  case (assigned_gone R t i h M C)
  note I = table_invD[OF assigned_gone(3)]
  show ?case
    using callbacks_gone[OF I(4), of t i h] assigned_gone I(1) claims_role[OF I(3), of t Idle]
      workers_role[OF I(5), of t Idle] by (simp add: rest_ok_def)
next
  case (unassigned R t i h M r C)
  note I = table_invD[OF unassigned(5)]
  let ?q = "r\<lparr>mr_unassign_callbacks_in_flight := mr_unassign_callbacks_in_flight r - 1\<rparr>"
  have "\<not> settled r" using unassigned(4) by (auto simp: settled_def)
  then have "claims_ok (M(i \<mapsto> ?q)) R" "workers_ok (M(i \<mapsto> ?q)) R"
    using claims_replace[OF I(3) unassigned(2), of ?q] workers_replace[OF I(5) unassigned(2), of ?q] by simp_all
  then show ?case
    using callbacks_leave[OF I(4,1) unassigned(2,3), of ?q t] unassigned I(1)
      claims_role[of "M(i \<mapsto> ?q)" R t Idle] workers_role[of "M(i \<mapsto> ?q)" R t Idle]
    by (simp add: rest_ok_def)
next
  case (unassigned_gone R t i h M C)
  note I = table_invD[OF unassigned_gone(3)]
  show ?case
    using callbacks_gone[OF I(4), of t i h] unassigned_gone I(1) claims_role[OF I(3), of t Idle]
      workers_role[OF I(5), of t Idle] by (simp add: rest_ok_def)
next
  case (create R t C h M i g)
  note I = table_invD[OF create(3)]
  have "workers_ok M (R(t := Carrying i g h Recording))"
    by (rule workers_create[OF I(5)]) (use unknown_handle[OF I(2) create(2)] create(1) in auto)
  then show ?case
    using claims_role[OF I(3), of t "Carrying i g h Recording"]
      callbacks_role[OF I(4), of t "Carrying i g h Recording"] create I(1) by (simp add: rest_ok_def)
next
  case (recorded R t i g h M q C)
  note I = table_invD[OF recorded(8)]
  have none: "assigning R j h = {}" "unassigning R j h = {}" for j
    using workersD(3)[OF I(5) recorded(1)] by (auto simp: assigning_def unassigning_def)
  have "callbacks_ok (M(i \<mapsto> q)) R"
    by (rule callbacks_record[OF I(4)]) (use recorded none in \<open>simp add: settled_def\<close>)
  moreover have "claims_ok (M(i \<mapsto> q)) R"
    by (rule claims_record[OF I(3) claims_absent[OF I(3) recorded(2)]]) (use recorded in simp)
  ultimately show ?case
    using workers_recorded[OF I(5) recorded(1,2,3,5,6)] recorded I(1)
      claims_role[of "M(i \<mapsto> q)" R t "Carrying i g h Announcing"]
      callbacks_role[of "M(i \<mapsto> q)" R t "Carrying i g h Announcing"] by (simp add: rest_ok_def)
next
  case (withdraw R t i g h M C)
  note I = table_invD[OF withdraw(2)]
  have "claims_ok (M(i := None)) R"
    by (rule claims_record[OF I(3) announcing_unclaimed[OF I(3,5) withdraw(1)]]) simp
  moreover have "callbacks_ok (M(i := None)) R" by (rule callbacks_record[OF I(4)]) simp
  ultimately show ?case
    using workers_withdraw[OF I(5) withdraw(1)] withdraw I(1)
      claims_role[of "M(i := None)" R t Idle] callbacks_role[of "M(i := None)" R t Idle]
    by (simp add: rest_ok_def)
next
  case (confirm R t i g h M r C)
  note I = table_invD[OF confirm(4)]
  let ?q = "r\<lparr>mr_arriving := False\<rparr>"
  have "\<not> mr_departing r" using workersD(4)[OF I(5) confirm(1)] confirm(2) by auto
  then have "claims_ok (M(i \<mapsto> ?q)) R"
    using claims_record[OF I(3) announcing_unclaimed[OF I(3,5) confirm(1)], of "Some ?q"] by simp
  moreover have "callbacks_ok (M(i \<mapsto> ?q)) R"
    by (rule callbacks_record[OF I(4)]) (use callbacksD[OF I(4) confirm(2)] in simp)
  ultimately show ?case
    using workers_confirm[OF I(5) confirm(1-3)] confirm I(1)
      claims_role[of "M(i \<mapsto> ?q)" R t "Carrying i g h Arrived"]
      callbacks_role[of "M(i \<mapsto> ?q)" R t "Carrying i g h Arrived"] by (simp add: rest_ok_def)
next
  case (give_up R t i g h p M C)
  note I = table_invD[OF give_up(3)]
  show ?case
    using workers_later[OF I(5) give_up(1,2), of Idle] give_up(1) I(1) claims_role[OF I(3), of t Idle]
      callbacks_role[OF I(4), of t Idle] by (simp add: rest_ok_def)
next
  case (tag R t i g h M r C)
  note I = table_invD[OF tag(4)]
  let ?q = "r\<lparr>mr_orphaned_late_arrival := True\<rparr>"
  have same: "rest_ok (M(i \<mapsto> ?q)) R"
    using rest_same_record[of M R i r ?q] tag(2) I
    by (simp add: rest_ok_def same_callbacks_def settled_def)
  have "mr_orphaned_late_arrival p" if p: "(M(i \<mapsto> ?q)) j = Some p" "mr_monitor p = h" for j p
  proof (cases "j = i")
    case False
    then have j: "M j = Some p" using p by simp
    have "C h = Some (i, g)" using I(2) tag(1) unfolding known_ok_def by blast
    then show ?thesis using known_record[OF I(2) j] p(2) False by auto
  qed (use p in auto)
  then show ?case
    using workers_later[of "M(i \<mapsto> ?q)" R t i g h Arrived "Carrying i g h Tagged"] same tag(1)
      claims_role[of "M(i \<mapsto> ?q)" R t "Carrying i g h Tagged"]
      callbacks_role[of "M(i \<mapsto> ?q)" R t "Carrying i g h Tagged"]
    by (auto simp: rest_ok_def)
next
  case (tag_gone R t i g h M C)
  note I = table_invD[OF tag_gone(3)]
  have "mr_monitor p \<noteq> h" if p: "M j = Some p" for j p
  proof
    assume h: "mr_monitor p = h"
    have "C h = Some (i, g)" using I(2) tag_gone(1) unfolding known_ok_def by blast
    then show False using known_record[OF I(2) p] h p tag_gone(2) by auto
  qed
  then show ?case
    using workers_later[OF I(5) tag_gone(1), of "Carrying i g h Tagged"] tag_gone(1) I(1)
      claims_role[OF I(3), of t "Carrying i g h Tagged"]
      callbacks_role[OF I(4), of t "Carrying i g h Tagged"]
    by (auto simp: rest_ok_def)
qed

lemma table_step_inv:
  assumes step: "table_step s s1" and inv: "table_inv s"
  shows "table_inv s1"
proof -
  obtain M C R N D S where s: "s = (M, C, R)" "s1 = (N, D, S)" by (metis prod_cases3)
  show ?thesis
    using known_step[OF step] rest_step[OF step] inv by (simp add: s table_inv_def rest_ok_def)
qed

end
