(* ===== verification/Monitor_Refinement.thy ===== *)
theory Monitor_Refinement
  imports Monitor_System Monitor_Table_Inv
begin

text \<open>
  The monitor backend follows the protocol of its table: every step of the system is a step of
  \<open>Monitor_Table\<close> on the monitors, the known handles and the roles of the threads.
\<close>

section \<open>Roles\<close>

fun depart_role :: "depart_activity \<Rightarrow> role" where
  "depart_role (DepartWaiting i g h) = Claiming i g h False"
| "depart_role (DepartStopping i g h p ps) = Claiming i g h True"
| "depart_role (DepartCalling i g h) = Claiming i g h True"
| "depart_role (DepartSpawning i g h) = Claiming i g h True"
| "depart_role (DepartWorker i g h) = Claiming i g h True"
| "depart_role (DepartWorkerReturned i g h success) = Claiming i g h True"
| "depart_role _ = Idle"

fun stage_role :: "display_descriptor \<Rightarrow> arrive_stage \<Rightarrow> role" where
  "stage_role d (StageRecording permanent adapter h) = Carrying (dd_display_id d) (dd_generation d) h Recording"
| "stage_role d (StageAnnouncing h) = Carrying (dd_display_id d) (dd_generation d) h Announcing"
| "stage_role d (StageConfirming h luid target) = Carrying (dd_display_id d) (dd_generation d) h Announcing"
| "stage_role d (StageReporting (Some h) result) = Carrying (dd_display_id d) (dd_generation d) h Arrived"
| "stage_role d (StageTagging h) = Carrying (dd_display_id d) (dd_generation d) h Arrived"
| "stage_role d (StageLate h) = Carrying (dd_display_id d) (dd_generation d) h Tagged"
| "stage_role d (StageCleaning h u) = Carrying (dd_display_id d) (dd_generation d) h Tagged"
| "stage_role d (StageFinishing (Some h) abandoned) =
     Carrying (dd_display_id d) (dd_generation d) h (if abandoned then Tagged else Arrived)"
| "stage_role d (StageFinished (Some h) abandoned) =
     Carrying (dd_display_id d) (dd_generation d) h (if abandoned then Tagged else Arrived)"
| "stage_role d _ = Idle"

fun swapchain_role :: "swapchain_activity \<Rightarrow> role" where
  "swapchain_role (AssignStarting i h) = Assigning i h"
| "swapchain_role (AssignCommitting i h p) = Assigning i h"
| "swapchain_role (AssignRetiring i h p) = Assigning i h"
| "swapchain_role (AssignFinishing i h success) = Assigning i h"
| "swapchain_role (UnassignStopping i h p ps) = Unassigning i h"
| "swapchain_role (UnassignFinishing i h) = Unassigning i h"
| "swapchain_role _ = Idle"

fun role :: "activity \<Rightarrow> role" where
  "role (Depart a) = depart_role a"
| "role (Worker w d st) = stage_role d st"
| "role (Swapchain a) = swapchain_role a"
| "role _ = Idle"

definition roles :: "threads \<Rightarrow> roles" where
  "roles thr t = (case thr t of None \<Rightarrow> Idle | Some a \<Rightarrow> role a)"

definition handles :: "backend \<Rightarrow> handles" where
  "handles b h = map_option (\<lambda>c. (mc_display_id c, mc_display_generation c)) (bk_contexts b h)"

definition table_of :: "system \<Rightarrow> table \<times> handles \<times> roles" where
  "table_of s = (bk_monitors (fst s), handles (fst s), roles (snd s))"

lemma roles_upd [simp]: "roles (thr(t \<mapsto> a)) = (roles thr)(t := role a)"
  by (auto simp: roles_def)

lemma roles_at: "thr t = Some a \<Longrightarrow> roles thr t = role a" "thr t = None \<Longrightarrow> roles thr t = Idle"
  by (simp_all add: roles_def)

lemma roles_same: "thr t = Some a \<Longrightarrow> role a1 = role a \<Longrightarrow> (roles thr)(t := role a1) = roles thr"
  by (auto simp: roles_def)

section \<open>Steps without a role\<close>

text \<open>\<open>same_table b b1\<close>: a step that leaves monitors and handles alone.\<close>

definition same_table :: "backend \<Rightarrow> backend \<Rightarrow> bool" where
  "same_table b b1 \<longleftrightarrow> bk_monitors b1 = bk_monitors b \<and> handles b1 = handles b"

lemma same_table_simps [simp]:
  "same_table b b"
  "same_table b (b\<lparr>bk_arrivals := n\<rparr>)" "same_table b (b\<lparr>bk_departures := n\<rparr>)"
  "same_table b (b\<lparr>bk_render_calls := n\<rparr>)" "same_table b (b\<lparr>bk_lifecycle_unhealthy := x\<rparr>)"
  "same_table b (b\<lparr>bk_shutting_down := x\<rparr>)" "same_table b (b\<lparr>bk_modes := ms\<rparr>)"
  "same_table b (b\<lparr>bk_arrival_states := st\<rparr>)" "same_table b (b\<lparr>bk_preferred_render_adapter := l\<rparr>)"
  "same_table b (b\<lparr>bk_adapter_init_status := ns, bk_adapter_ready := x\<rparr>)"
  "same_table b (b\<lparr>bk_adapter := ad, bk_adapter_ready := x, bk_adapter_init_status := ns\<rparr>)"
  "same_table b (b\<lparr>bk_arrival_states := st, bk_lifecycle_unhealthy := x\<rparr>)"
  "same_table b (clear_unhealthy_if_settled b)" "same_table b (finish_monitor_arrival b)"
  "same_table b (finish_render_adapter_call b)" "same_table b (unregister_monitor_description_mode d b)"
  "same_table b (fst (register_monitor_description_mode d b))"
  by (simp_all add: same_table_def handles_def fun_eq_iff clear_unhealthy_if_settled_def
      finish_monitor_arrival_def finish_render_adapter_call_def unregister_monitor_description_mode_def
      register_monitor_description_mode_def Let_def case_prod_beta)

lemma arrive_step_table: "arrive_step l b a b1 a1 \<Longrightarrow> same_table b b1"
  by (erule arrive_step.cases)
     (auto simp: arrive_display_def arrive_spawned_def arrive_spawn_failed_def arrive_wait_over_def
        split: option.splits if_splits)

lemma render_step_table: "render_step l b a b1 a1 \<Longrightarrow> same_table b b1"
  by (erule render_step.cases)
     (auto simp: set_render_adapter_def adapter_init_finished_def render_counted_def
        render_spawn_failed_def render_worker_finish_def render_timed_out_def Let_def
        split: if_splits)

lemma manifest_step_table: "manifest_step m l b a b1 a1 \<Longrightarrow> b1 = b"
  by (erule manifest_step.cases) auto

section \<open>Departures\<close>

lemma with_monitor_table [simp]:
  "handles (with_monitor i f b) = handles b"
  "bk_monitors b i = Some r \<Longrightarrow> bk_monitors (with_monitor i f b) = (bk_monitors b)(i \<mapsto> f r)"
  "bk_departures (with_monitor i f b) = bk_departures b" "bk_arrivals (with_monitor i f b) = bk_arrivals b"
  "bk_render_calls (with_monitor i f b) = bk_render_calls b"
  by (simp_all add: with_monitor_def handles_def fun_eq_iff)

lemma find_current_Some:
  "find_current_monitor i h b = Some r \<longleftrightarrow> bk_monitors b i = Some r \<and> mr_monitor r = h"
  by (auto simp: find_current_monitor_def split: option.splits)

lemma find_current_None:
  "find_current_monitor i h b = None \<longleftrightarrow> bk_monitors b i = None \<or> mr_monitor (the (bk_monitors b i)) \<noteq> h"
  by (auto simp: find_current_monitor_def split: option.splits)

lemma clear_unhealthy_table [simp]:
  "bk_monitors (clear_unhealthy_if_settled b) = bk_monitors b"
  "handles (clear_unhealthy_if_settled b) = handles b"
  by (simp_all add: clear_unhealthy_if_settled_def handles_def fun_eq_iff)

lemma counter_table [simp]:
  "handles (b\<lparr>bk_departures := n\<rparr>) = handles b" "handles (b\<lparr>bk_monitors := M\<rparr>) = handles b"
  "handles (b\<lparr>bk_lifecycle_unhealthy := x\<rparr>) = handles b" "handles (b\<lparr>bk_modes := m\<rparr>) = handles b"
  "handles (b\<lparr>bk_shutting_down := x\<rparr>) = handles b"
  by (simp_all add: handles_def fun_eq_iff)

lemma finish_departure_table:
  assumes "bk_monitors b i = Some r" and "mr_monitor r = h"
  shows "bk_monitors (fst (finish_monitor_departure i h success b)) =
      (bk_monitors b)(i := if success then None else Some (r\<lparr>mr_departing := False\<rparr>))"
    and "handles (fst (finish_monitor_departure i h success b)) = handles b"
    and "snd (finish_monitor_departure i h success b) = (if success then Some (mr_descriptor r) else None)"
  using assms by (auto simp: finish_monitor_departure_def find_current_monitor_def Let_def with_monitor_def)

lemma unclaimed_callbacks: "\<not> callbacks_in_flight r \<longleftrightarrow>
    mr_assign_callbacks_in_flight r = 0 \<and> mr_unassign_callbacks_in_flight r = 0"
  by (auto simp: callbacks_in_flight_def word_gt_0)

lemma depart_display_table:
  assumes "backend_depart_display i g b = (b1, a1)" and "R t = Idle"
  shows "table_step (bk_monitors b, handles b, R) (bk_monitors b1, handles b1, R(t := depart_role a1))"
proof (cases "bk_monitors b i")
  case None
  then show ?thesis using assms stutter[of "bk_monitors b" "handles b" R]
    by (auto simp: backend_depart_display_def fun_upd_idem)
next
  case (Some r)
  show ?thesis
  proof (cases "\<not> fenced g r \<or> mr_arriving r \<or> mr_departing r")
    case True
    then have "b1 = b" "depart_role a1 = Idle"
      using assms(1) Some by (auto simp: backend_depart_display_def fenced_def generation_of_def split: if_splits)
    then show ?thesis using assms(2) stutter[of "bk_monitors b" "handles b" R] by (simp add: fun_upd_idem)
  next
    case False
    let ?d = "r\<lparr>mr_departing := True\<rparr>"
    show ?thesis
    proof (cases "callbacks_in_flight r")
      case True
      have "bk_monitors b1 = (bk_monitors b)(i \<mapsto> ?d)" "handles b1 = handles b"
        "depart_role a1 = Claiming i g (mr_monitor r) False"
        using assms(1) Some False True
        by (auto simp: backend_depart_display_def fenced_def generation_of_def Let_def split: if_splits)
      then show ?thesis
        using claim[of "bk_monitors b" i r R t g ?d False "handles b"] Some False assms(2)
        by (simp add: same_identity_def same_callbacks_def)
    next
      case quiet: False
      let ?q = "?d\<lparr>mr_swapchain_processor := None, mr_retired_swapchain_processors := []\<rparr>"
      have "bk_monitors b1 = (bk_monitors b)(i \<mapsto> ?q)" "handles b1 = handles b"
        "depart_role a1 = Claiming i g (mr_monitor r) True"
        using assms(1) Some False quiet
        by (auto simp: backend_depart_display_def fenced_def generation_of_def Let_def take_processors_def
            split: if_splits)
      then show ?thesis
        using claim[of "bk_monitors b" i r R t g ?q True "handles b"] Some False assms(2) quiet
        by (simp add: same_identity_def same_callbacks_def settled_def unclaimed_callbacks)
    qed
  qed
qed

lemma depart_step_table:
  assumes step: "depart_step Silent b a b1 a1" and R: "R t = depart_role a"
    and inv: "table_inv (bk_monitors b, handles b, R)"
  shows "table_step (bk_monitors b, handles b, R) (bk_monitors b1, handles b1, R(t := depart_role a1))"
proof -
  note I = table_invD[OF inv]
  note stays = stutter[of "bk_monitors b" "handles b" R]
  show ?thesis
    using step
  proof (cases rule: depart_step.cases)
    case (depart_enters i g)
    then show ?thesis using depart_display_table R by simp
  next
    case (depart_resumes i g h)
    have t: "R t = Claiming i g h False" using R depart_resumes by simp
    obtain r where r: "bk_monitors b i = Some r" "mr_monitor r = h" "mr_departing r"
      by (rule claim_record[OF I(3) t])
    show ?thesis
    proof (cases "callbacks_in_flight r")
      case True
      then show ?thesis
        using depart_resumes r abandon[of "bk_monitors b" i r R t g h False "r\<lparr>mr_departing := False\<rparr>" "handles b"] t
        by (auto simp: depart_display_resume_def find_current_monitor_def same_identity_def same_callbacks_def)
    next
      case False
      let ?q = "r\<lparr>mr_swapchain_processor := None, mr_retired_swapchain_processors := []\<rparr>"
      show ?thesis
        using depart_resumes r False take[of "bk_monitors b" i r R t g h False ?q "handles b"] t
        by (auto simp: depart_display_resume_def find_current_monitor_def take_processors_def
            same_identity_def same_callbacks_def settled_def unclaimed_callbacks)
    qed
  next
    case (depart_stops stopped i g h p ps)
    have t: "R t = Claiming i g h True" using R depart_stops by simp
    obtain r where r: "bk_monitors b i = Some r" "mr_monitor r = h" by (rule claim_record[OF I(3) t])
    let ?p = "unstopped stopped p" and ?ps = "filter (\<lambda>p. \<not> stopped p) ps"
    let ?q = "r\<lparr>mr_departing := False,
      mr_swapchain_processor := (if ?p = None then mr_swapchain_processor r else ?p),
      mr_retired_swapchain_processors := mr_retired_swapchain_processors r @ ?ps\<rparr>"
    show ?thesis
    proof (cases "?p = None \<and> ?ps = []")
      case True
      then show ?thesis using depart_stops t stays by (auto simp: depart_display_stop_def Let_def fun_upd_idem)
    next
      case False
      then show ?thesis
        using depart_stops r abandon[of "bk_monitors b" i r R t g h True ?q "handles b"] t
        by (auto simp: depart_display_stop_def Let_def find_current_monitor_def same_identity_def
            same_callbacks_def)
    qed
  next
    case (depart_counts i g h)
    then show ?thesis using R stays by (auto simp: depart_monitor_with_timeout_def fun_upd_idem)
  next
    case (depart_no_thread i h g)
    have t: "R t = Claiming i g h True" using R depart_no_thread by simp
    obtain r where r: "bk_monitors b i = Some r" "mr_monitor r = h" by (rule claim_record[OF I(3) t])
    show ?thesis
      using depart_no_thread finish_departure_table[OF r, of False]
        abandon[of "bk_monitors b" i r R t g h True "r\<lparr>mr_departing := False\<rparr>" "handles b"] t r
      by (auto simp: depart_spawn_failed_def same_identity_def same_callbacks_def)
  next
    case (depart_times_out u)
    then show ?thesis using R stays by (auto simp: depart_timed_out_def fun_upd_idem)
  next
    case (depart_call_returns i g h success)
    then show ?thesis using R stays by (auto simp: fun_upd_idem)
  next
    case (depart_finishes i h success g)
    have t: "R t = Claiming i g h True" using R depart_finishes by simp
    obtain r where r: "bk_monitors b i = Some r" "mr_monitor r = h" by (rule claim_record[OF I(3) t])
    note F = finish_departure_table[OF r, of success]
    show ?thesis
      using depart_finishes F depart[of R t i g h "bk_monitors b" "handles b"]
        abandon[of "bk_monitors b" i r R t g h True "r\<lparr>mr_departing := False\<rparr>" "handles b"] t r
      by (cases success)
         (auto simp: depart_worker_finish_def case_prod_beta same_identity_def same_callbacks_def)
  next
    case (depart_unregisters d success)
    then show ?thesis
      using R stays by (auto simp: unregister_monitor_description_mode_def fun_upd_idem)
  qed
qed

section \<open>Arrivals\<close>

lemma register_table [simp]:
  "bk_monitors (fst (register_monitor_description_mode d b)) = bk_monitors b"
  "handles (fst (register_monitor_description_mode d b)) = handles b"
  "bk_monitors (unregister_monitor_description_mode d b) = bk_monitors b"
  "handles (unregister_monitor_description_mode d b) = handles b"
  using same_table_simps(16,17)[of b d] by (simp_all add: same_table_def)

lemma worker_step_table:
  assumes step: "worker_step w d l b st b1 st1" and R: "R t = stage_role d st"
    and inv: "table_inv (bk_monitors b, handles b, R)"
  shows "table_step (bk_monitors b, handles b, R) (bk_monitors b1, handles b1, R(t := stage_role d st1))"
proof -
  note I = table_invD[OF inv]
  let ?i = "dd_display_id d" and ?g = "dd_generation d"
  have stays: "R(t := stage_role d st1) = R" if "stage_role d st1 = stage_role d st"
    using R that by (simp add: fun_upd_idem)
  show ?thesis
    using step
  proof (cases rule: worker_step.cases)
    case (worker_checks permanent)
    have "stage_role d (stage_checking d permanent b) = Idle"
      by (simp add: stage_checking_def split: option.split)
    then show ?thesis using worker_checks stays stutter by simp
  next
    case (worker_retired result permanent u)
    then show ?thesis using stays stutter by (simp add: stage_retired_def)
  next
    case (worker_reserves permanent)
    have "stage_role d (stage_reserving d permanent b) = Idle"
      by (simp add: stage_reserving_def split: option.split)
    then show ?thesis using worker_reserves stays stutter by simp
  next
    case (worker_registers allocated permanent adapter)
    have "b1 = b \<or> b1 = fst (register_monitor_description_mode d b)" "stage_role d st1 = Idle"
      using worker_registers by (auto simp: stage_registering_def case_prod_beta split: if_splits)
    then show ?thesis using worker_registers stays stutter by auto
  next
    case (worker_creates created permanent adapter)
    show ?thesis
    proof (cases created)
      case None
      then show ?thesis using worker_creates stays stutter by (auto simp: stage_creating_def)
    next
      case (Some h)
      have h: "handles b h = None" using worker_creates Some by (simp add: handles_def)
      have "bk_monitors b1 = bk_monitors b" "handles b1 = (handles b)(h \<mapsto> (?i, ?g))"
        "stage_role d st1 = Carrying ?i ?g h Recording"
        using worker_creates Some by (auto simp: stage_creating_def handles_def fun_eq_iff)
      then show ?thesis using create[of R t "handles b" h "bk_monitors b" ?i ?g] R worker_creates h by simp
    qed
  next
    case (worker_records allocated permanent adapter h)
    have t: "R t = Carrying ?i ?g h Recording" using R worker_records by simp
    show ?thesis
    proof (cases "st1 = StageAnnouncing h")
      case True
      then have "b1 = b\<lparr>bk_monitors := (bk_monitors b)(?i \<mapsto> new_record d permanent h)\<rparr>"
        "bk_monitors b ?i = None"
        using worker_records by (auto simp: stage_recording_def split: if_splits)
      then show ?thesis
        using True recorded[of R t ?i ?g h "bk_monitors b" "new_record d permanent h" "handles b"] t
        by (simp add: new_record_def generation_of_def settled_def)
    next
      case False
      then have "b1 = b" "st1 = StageDiscarding"
        using worker_records by (auto simp: stage_recording_def split: if_splits)
      then show ?thesis using give_up[of R t ?i ?g h Recording "bk_monitors b" "handles b"] t by simp
    qed
  next
    case (worker_announces arrived h)
    have t: "R t = Carrying ?i ?g h Announcing" using R worker_announces by simp
    show ?thesis
    proof (cases arrived)
      case None
      then show ?thesis
        using worker_announces withdraw[of R t ?i ?g h "bk_monitors b" "handles b"] t
        by (auto simp: stage_announcing_def)
    next
      case (Some x)
      then show ?thesis using worker_announces stays stutter by (auto simp: stage_announcing_def split: prod.splits)
    qed
  next
    case (worker_confirms h luid target)
    have t: "R t = Carrying ?i ?g h Announcing" using R worker_confirms by simp
    obtain r where r: "bk_monitors b ?i = Some r" "mr_monitor r = h" using workersD(4)[OF I(5) t] by blast
    then show ?thesis
      using worker_confirms confirm[of R t ?i ?g h "bk_monitors b" r "handles b"] t
      by (auto simp: stage_confirming_def find_current_monitor_def)
  next
    case worker_discards
    then show ?thesis using stays stutter by (auto simp: stage_discarding_def)
  next
    case (worker_reports arrived result)
    have b1: "bk_monitors b1 = bk_monitors b" "handles b1 = handles b"
      using worker_reports
      by (auto simp: stage_reporting_def handles_def fun_eq_iff split: option.splits if_splits)
    have "stage_role d st1 = stage_role d st"
      using worker_reports by (cases arrived) (auto simp: stage_reporting_def split: option.splits if_splits)
    then show ?thesis using b1 stays stutter by simp
  next
    case (worker_tags h)
    have t: "R t = Carrying ?i ?g h Arrived" using R worker_tags by simp
    have st1: "stage_role d st1 = Carrying ?i ?g h Tagged" using worker_tags by (auto simp: stage_tagging_def)
    show ?thesis
    proof (cases "\<exists>r. bk_monitors b ?i = Some r \<and> generation_of r = ?g")
      case True
      then obtain r where r: "bk_monitors b ?i = Some r" "generation_of r = ?g" by blast
      then show ?thesis
        using worker_tags st1 tag[of R t ?i ?g h "bk_monitors b" r "handles b"] t by (auto simp: stage_tagging_def generation_of_def)
    next
      case False
      then have "b1 = b" "bk_monitors b ?i = None \<or> generation_of (the (bk_monitors b ?i)) \<noteq> ?g"
        using worker_tags by (auto simp: stage_tagging_def generation_of_def split: option.splits if_splits)
      then show ?thesis using st1 tag_gone[of R t ?i ?g h "bk_monitors b" "handles b"] t by simp
    qed
  next
    case (worker_finishes arrived abandoned)
    then show ?thesis using stays stutter same_table_simps(14)[of b] by (cases arrived) (auto simp: same_table_def)
  qed (use stays stutter in auto)
qed

section \<open>Callbacks\<close>

lemma attached_context_handle:
  assumes "attached_context h b = Some c" shows "handles b h = Some (mc_display_id c, mc_display_generation c)"
  using assms by (auto simp: attached_context_def handles_def split: option.splits if_splits)

lemma swapchain_step_table:
  assumes step: "swapchain_step b a b1 a1" and R: "R t = swapchain_role a"
    and inv: "table_inv (bk_monitors b, handles b, R)" and fit: "counters_fit b"
  shows "table_step (bk_monitors b, handles b, R) (bk_monitors b1, handles b1, R(t := swapchain_role a1))"
proof -
  note I = table_invD[OF inv]
  have stays: "R(t := swapchain_role a1) = R" if "swapchain_role a1 = swapchain_role a"
    using R that by (simp add: fun_upd_idem)
  show ?thesis
    using step
  proof (cases rule: swapchain_step.cases)
    case (assign_enters h)
    show ?thesis
    proof (cases "a1 = AssignReturned False")
      case True
      then have "b1 = b" using assign_enters by (auto simp: assign_swapchain_def split: option.splits if_splits)
      then show ?thesis using True assign_enters stays stutter by simp
    next
      case False
      then obtain c where ctx: "attached_context h b = Some c"
        using assign_enters by (auto simp: assign_swapchain_def split: option.splits)
      then obtain r where c: "bk_monitors b (mc_display_id c) = Some r" "mr_monitor r = h" "\<not> mr_departing r"
        "b1 = with_monitor (mc_display_id c)
           (\<lambda>r. r\<lparr>mr_assign_callbacks_in_flight := mr_assign_callbacks_in_flight r + 1\<rparr>) b"
        "a1 = AssignStarting (mc_display_id c) h"
        using assign_enters False
        by (auto simp: assign_swapchain_def find_current_Some split: option.splits if_splits)
      then show ?thesis
        using assign[of "bk_monitors b" "mc_display_id c" r R t
            "r\<lparr>mr_assign_callbacks_in_flight := mr_assign_callbacks_in_flight r + 1\<rparr>" "handles b"]
          R assign_enters fit by (auto simp: counters_fit_def)
    qed
  next
    case (assign_starts i h started)
    then show ?thesis using stays stutter by (auto simp: assign_started_def split: option.splits)
  next
    case (assign_commits stopped i h p)
    have t: "R t = Assigning i h" using R assign_commits by simp
    have a1: "swapchain_role a1 = Assigning i h"
      using assign_commits by (auto simp: assign_commit_def split: option.splits if_splits)
    show ?thesis
    proof (cases "\<exists>r. bk_monitors b i = Some r \<and> mr_monitor r = h \<and> \<not> mr_departing r")
      case True
      then obtain r where r: "bk_monitors b i = Some r" "mr_monitor r = h" "\<not> mr_departing r" by blast
      then show ?thesis
        using assign_commits a1 t stays
          attach[of "bk_monitors b" i r R t h "r\<lparr>mr_retired_swapchain_processors :=
            collect_finished stopped (mr_retired_swapchain_processors r), mr_swapchain_processor := Some p\<rparr>"
            "handles b"]
        by (auto simp: assign_commit_def find_current_monitor_def same_identity_def same_callbacks_def)
    next
      case False
      then have "b1 = b"
        using assign_commits by (auto simp: assign_commit_def find_current_Some split: option.splits if_splits)
      then show ?thesis using a1 t stays assign_commits stutter by simp
    qed
  next
    case (assign_retires allocated i h p)
    have t: "R t = Assigning i h" using R assign_retires by simp
    have a1: "a1 = AssignFinishing i h True" using assign_retires by (simp add: assign_retire_def)
    show ?thesis
    proof (cases "\<exists>r. bk_monitors b i = Some r \<and> mr_monitor r = h \<and> \<not> mr_departing r \<and> allocated")
      case True
      then obtain r where r: "bk_monitors b i = Some r" "mr_monitor r = h" "\<not> mr_departing r" allocated by blast
      then show ?thesis
        using assign_retires a1 t stays
          attach[of "bk_monitors b" i r R t h "r\<lparr>mr_retired_swapchain_processors :=
            mr_retired_swapchain_processors r @ [p]\<rparr>" "handles b"]
        by (auto simp: assign_retire_def find_current_monitor_def same_identity_def same_callbacks_def)
    next
      case False
      then have "b1 = b"
        using assign_retires by (auto simp: assign_retire_def find_current_Some split: option.splits if_splits)
      then show ?thesis using a1 t stays assign_retires stutter by simp
    qed
  next
    case (assign_finishes i h success)
    have t: "R t = Assigning i h" using R assign_finishes by simp
    have a1: "swapchain_role a1 = Idle" using assign_finishes by (auto simp: finish_assign_callback_def)
    show ?thesis
    proof (cases "find_current_monitor i h b")
      case None
      then have "b1 = b" using assign_finishes by (simp add: finish_assign_callback_def)
      then show ?thesis
        using a1 assigned_gone[of R t i h "bk_monitors b" "handles b"] t None by (simp add: find_current_None)
    next
      case (Some r)
      then have r: "bk_monitors b i = Some r" "mr_monitor r = h" by (simp_all add: find_current_Some)
      have pos: "0 < mr_assign_callbacks_in_flight r" using callbacks_positive(1)[OF I(4,1) r(1)] t r(2) by simp
      show ?thesis
        using assign_finishes Some a1 assigned[of R t i h "bk_monitors b" r "handles b"] t pos r
        by (auto simp: finish_assign_callback_def)
    qed
  next
    case (unassign_enters stopped h)
    show ?thesis
    proof (cases "a1 = UnassignReturned")
      case True
      then have "b1 = b" using unassign_enters by (auto simp: unassign_swapchain_def split: option.splits if_splits)
      then show ?thesis using True unassign_enters stays stutter by simp
    next
      case False
      then obtain c where ctx: "attached_context h b = Some c"
        using unassign_enters by (auto simp: unassign_swapchain_def split: option.splits)
      then obtain r where c: "bk_monitors b (mc_display_id c) = Some r" "mr_monitor r = h" "\<not> mr_departing r"
        "b1 = with_monitor (mc_display_id c)
           (\<lambda>r. r\<lparr>mr_unassign_callbacks_in_flight := mr_unassign_callbacks_in_flight r + 1,
             mr_swapchain_processor := None, mr_retired_swapchain_processors := []\<rparr>) b"
        "swapchain_role a1 = Unassigning (mc_display_id c) h"
        using unassign_enters False
        by (auto simp: unassign_swapchain_def find_current_Some split: option.splits if_splits)
      then show ?thesis
        using unassign[of "bk_monitors b" "mc_display_id c" r R t
            "r\<lparr>mr_unassign_callbacks_in_flight := mr_unassign_callbacks_in_flight r + 1,
             mr_swapchain_processor := None, mr_retired_swapchain_processors := []\<rparr>" "handles b"]
          R unassign_enters fit by (auto simp: counters_fit_def same_identity_def)
    qed
  next
    case (unassign_stops stopped i h p ps)
    have t: "R t = Unassigning i h" using R unassign_stops by simp
    have a1: "a1 = UnassignFinishing i h" using unassign_stops by (auto simp: unassign_stop_def Let_def)
    let ?left = "(case unstopped stopped p of None \<Rightarrow> [] | Some p \<Rightarrow> [p]) @ filter (\<lambda>p. \<not> stopped p) ps"
    show ?thesis
    proof (cases "b1 = b")
      case True
      then show ?thesis using a1 t stays unassign_stops stutter by simp
    next
      case False
      then obtain r where r: "bk_monitors b i = Some r" "mr_monitor r = h"
        "bk_monitors b1 = (bk_monitors b)(i \<mapsto> r\<lparr>mr_retired_swapchain_processors :=
            mr_retired_swapchain_processors r @ ?left\<rparr>)" "handles b1 = handles b"
        using unassign_stops
        by (auto simp: unassign_stop_def Let_def find_current_Some split: option.splits if_splits)
      then show ?thesis
        using a1 t stays unassign_stops
          attach[of "bk_monitors b" i r R t h "r\<lparr>mr_retired_swapchain_processors :=
            mr_retired_swapchain_processors r @ ?left\<rparr>" "handles b"]
        by (simp add: same_identity_def same_callbacks_def)
    qed
  next
    case (unassign_finishes i h)
    have t: "R t = Unassigning i h" using R unassign_finishes by simp
    have a1: "swapchain_role a1 = Idle" using unassign_finishes by (auto simp: finish_unassign_callback_def)
    show ?thesis
    proof (cases "find_current_monitor i h b")
      case None
      then have "b1 = b" using unassign_finishes by (simp add: finish_unassign_callback_def)
      then show ?thesis
        using a1 unassigned_gone[of R t i h "bk_monitors b" "handles b"] t None by (simp add: find_current_None)
    next
      case (Some r)
      then have r: "bk_monitors b i = Some r" "mr_monitor r = h" by (simp_all add: find_current_Some)
      have pos: "0 < mr_unassign_callbacks_in_flight r" using callbacks_positive(2)[OF I(4,1) r(1)] t r(2) by simp
      show ?thesis
        using unassign_finishes Some a1 unassigned[of R t i h "bk_monitors b" r "handles b"] t pos r
        by (auto simp: finish_unassign_callback_def)
    qed
  qed
qed

section \<open>The device and the whole system\<close>

lemma detach_table:
  "bk_monitors (detach_context i b) = bk_monitors b" "handles (detach_context i b) = handles b"
  by (auto simp: detach_context_def handles_def fun_eq_iff option.map_comp o_def split: option.split)

lemma detach_all_table:
  "bk_monitors (fold detach_context is b) = bk_monitors b" "handles (fold detach_context is b) = handles b"
  by (induction "is" arbitrary: b) (simp_all add: detach_table)

lemma device_step_table:
  assumes "device_step l b a b1 a1"
  shows "table_step (bk_monitors b, handles b, R) (bk_monitors b1, handles b1, R)"
  using assms
proof (cases rule: device_step.cases)
  case (cleanup_collects stopped)
  then have b1: "handles b1 = handles b" "bk_monitors b1 = (\<lambda>i. map_option
      (\<lambda>r. r\<lparr>mr_retired_swapchain_processors := collect_finished stopped (mr_retired_swapchain_processors r)\<rparr>)
      (bk_monitors b i))"
    by (auto simp: cleanup_finished_retired_swapchains_def handles_def fun_eq_iff)
  show ?thesis unfolding b1
    by (rule sweep) (auto simp: same_identity_def same_callbacks_def settled_def collect_finished_def)
qed (use stutter in \<open>auto simp: shutdown_begin_def shutdown_detach_def detach_all_table\<close>)

lemma touched:
  assumes "same_identity r q" "same_callbacks r q" "mr_departing q = mr_departing r" "settled r \<longrightarrow> settled q"
    and "bk_monitors b i = Some r" and "bk_monitors b1 = (bk_monitors b)(i \<mapsto> q)" and "handles b1 = handles b"
  shows "table_step (bk_monitors b, handles b, R) (bk_monitors b1, handles b1, R)"
  using touch[of "bk_monitors b" i r q "handles b" R] assms by simp

lemma field_update_table:
  assumes "field_update b b1"
  shows "table_step (bk_monitors b, handles b, R) (bk_monitors b1, handles b1, R)"
  using assms
proof (cases rule: field_update.cases)
  case (1 init)
  have "same_table b b1" unfolding 1
    by (auto simp: initialize_adapter_def split: sum.split option.split if_splits)
  then show ?thesis using stutter by (simp add: same_table_def)
next
  case (2 h kind bytes)
  show ?thesis
  proof (cases "b1 = b")
    case False
    then obtain c where c: "attached_context h b = Some c" using 2
      by (auto simp: set_default_hdr_metadata_def split: option.splits)
    then obtain r where r: "find_current_monitor (mc_display_id c) h b = Some r" using 2 False
      by (auto simp: set_default_hdr_metadata_def split: option.splits)
    show ?thesis
      by (rule touched[of r "r\<lparr>mr_default_hdr_metadata := (kind, bytes)\<rparr>" b "mc_display_id c"])
         (use 2 c r in \<open>auto simp: set_default_hdr_metadata_def same_identity_def same_callbacks_def
            settled_def find_current_Some[symmetric]\<close>, simp_all add: find_current_Some)
  qed (simp add: stutter)
next
  case (3 h kind bytes)
  show ?thesis
  proof (cases "b1 = b")
    case False
    then obtain c where c: "attached_context h b = Some c" using 3
      by (auto simp: set_gamma_ramp_def split: option.splits)
    then obtain r where r: "find_current_monitor (mc_display_id c) h b = Some r" using 3 False
      by (auto simp: set_gamma_ramp_def split: option.splits)
    show ?thesis
      by (rule touched[of r "r\<lparr>mr_gamma_ramp := (kind, bytes)\<rparr>" b "mc_display_id c"])
         (use 3 c r in \<open>auto simp: set_gamma_ramp_def same_identity_def same_callbacks_def
            settled_def find_current_Some[symmetric]\<close>, simp_all add: find_current_Some)
  qed (simp add: stutter)
qed

lemma request_role: "request a \<Longrightarrow> role a = Idle"
  by (erule request.cases) simp_all

lemma silent_table:
  assumes step: "activity_step Silent b a b1 a1" and R: "R t = role a"
    and inv: "table_inv (bk_monitors b, handles b, R)" and fit: "counters_fit b"
  shows "table_step (bk_monitors b, handles b, R) (bk_monitors b1, handles b1, R(t := role a1))"
  using step
proof (cases rule: activity_step.cases)
  case (by_depart a a1)
  then show ?thesis using depart_step_table[OF by_depart(3) _ inv] R by simp
next
  case (by_arrive a a1)
  then show ?thesis using arrive_step_table[OF by_arrive(3)] R stutter by (simp add: same_table_def fun_upd_idem)
next
  case (by_worker w d st st1)
  then show ?thesis using worker_step_table[OF by_worker(3) _ inv] R by simp
next
  case (by_swapchain a a1)
  then show ?thesis using swapchain_step_table[OF by_swapchain(3) _ inv fit] R by simp
next
  case (by_render a a1)
  then show ?thesis using render_step_table[OF by_render(3)] R stutter by (simp add: same_table_def fun_upd_idem)
next
  case (by_device a a1)
  then show ?thesis using device_step_table[OF by_device(3), of R] R by (simp add: fun_upd_idem)
next
  case (by_manifest m a a1)
  then show ?thesis using manifest_step_table[OF by_manifest(3)] R stutter by (simp add: fun_upd_idem)
qed

lemma start_table:
  assumes step: "activity_step (Starts u c) b a b1 a1" and R: "R t = role a" "R u = Idle" "t \<noteq> u"
  shows "table_step (bk_monitors b, handles b, R) (bk_monitors b1, handles b1, R(t := role a1, u := role c))"
proof -
  have stays: "R(t := role a1, u := role c) = R" if "role a1 = role a" "role c = Idle"
    using that R by (auto simp: fun_eq_iff)
  show ?thesis
    using step
  proof (cases rule: activity_step.cases)
    case (by_depart a a1)
    from by_depart(3) show ?thesis
    proof (cases rule: depart_step.cases)
      case (depart_spawns i g h)
      then show ?thesis using hand_over[of R t i g h True u "bk_monitors b" "handles b"] by_depart R by simp
    qed
  next
    case (by_arrive a a1)
    have "role c = Idle" using by_arrive(3) by (cases rule: arrive_step.cases) auto
    then show ?thesis
      using stays stutter arrive_step_table[OF by_arrive(3)] by_arrive by (simp add: same_table_def)
  next
    case (by_worker w d st st1)
    have "role c = Idle" "stage_role d st1 = stage_role d st" "b1 = b"
      using by_worker(3) by (cases rule: worker_step.cases; simp)+
    then show ?thesis using stays stutter by_worker by simp
  next
    case (by_render a a1)
    have "role c = Idle" using by_render(3) by (cases rule: render_step.cases) auto
    then show ?thesis
      using stays stutter render_step_table[OF by_render(3)] by_render by (simp add: same_table_def)
  next
    case (by_device a a1)
    have "role c = Idle" using by_device(3) by (cases rule: device_step.cases) auto
    then show ?thesis using stays device_step_table[OF by_device(3), of R] by_device by simp
  next
    case (by_manifest m a a1)
    have "role c = Idle" using by_manifest(3) by (cases rule: manifest_step.cases) auto
    then show ?thesis using stays stutter manifest_step_table[OF by_manifest(3)] by_manifest by simp
  qed
qed

lemma see_table:
  assumes step: "activity_step (Sees u c) b a b1 a1" and R: "R t = role a"
  shows "table_step (bk_monitors b, handles b, R) (bk_monitors b1, handles b1, R(t := role a1))"
proof -
  have "b1 = b \<and> role a1 = role a"
    using step
  proof (cases rule: activity_step.cases)
    case (by_depart a a1)
    from by_depart(3) show ?thesis using by_depart by (cases rule: depart_step.cases) (auto simp: depart_joined_def)
  next
    case (by_arrive a a1)
    from by_arrive(3) show ?thesis using by_arrive by (cases rule: arrive_step.cases) (auto simp: arrive_joined_def)
  next
    case (by_worker w d st st1)
    from by_worker(3) show ?thesis using by_worker by (cases rule: worker_step.cases) (auto simp: stage_retired_def)
  next
    case (by_render a a1)
    from by_render(3) show ?thesis using by_render by (cases rule: render_step.cases) auto
  next
    case (by_device a a1)
    from by_device(3) show ?thesis using by_device by (cases rule: device_step.cases) auto
  next
    case (by_manifest m a a1)
    then show ?thesis using manifest_step_table by auto
  qed
  then show ?thesis using stutter R by (simp add: fun_upd_idem)
qed

lemma system_refines:
  assumes "system_step s s1" and "table_inv (table_of s)" shows "table_step (table_of s) (table_of s1)"
  using assms
proof (cases rule: system_step.cases)
  case (request_step thr t a b)
  then show ?thesis
    using stutter by (simp add: table_of_def request_role roles_at fun_upd_idem)
next
  case (field_step b b1 thr)
  then show ?thesis using field_update_table by (simp add: table_of_def)
next
  case (silent_step thr t a b b1 a1)
  then show ?thesis using silent_table[OF silent_step(4)] assms(2) by (simp add: table_of_def roles_at)
next
  case (start_step thr t a u c b b1 a1)
  have "t \<noteq> u" using start_step by auto
  then show ?thesis using start_table[OF start_step(5)] start_step by (simp add: table_of_def roles_at)
next
  case (see_step thr t a u c b b1 a1)
  then show ?thesis using see_table[OF see_step(5)] by (simp add: table_of_def roles_at)
qed

lemma initial_table: "table_inv (table_of (initial_backend x, Map.empty))"
  by (simp add: table_of_def initial_backend_def table_inv_def finite_ok_def known_ok_def claims_ok_def
      callbacks_ok_def workers_ok_def roles_def)

interpretation table: inductive_invariant "\<lambda>s. table_inv (table_of s)"
  by unfold_locales (auto intro: initial_table table_step_inv[OF system_refines])

lemma reachable_table: "system_reachable s \<Longrightarrow> table_inv (table_of s)"
  by (rule table.holds)

end
