(* ===== verification/Monitor_Counters.thy ===== *)
theory Monitor_Counters
  imports Monitor_Refinement
begin

text \<open>
  The counters of operations in flight, the health flag and the state an arriving worker shares
  with its caller: invariants over all runs of the system.
\<close>

section \<open>Counting threads\<close>

definition running :: "(activity \<Rightarrow> bool) \<Rightarrow> threads \<Rightarrow> thread set" where
  "running p thr = {t. \<exists>a. thr t = Some a \<and> p a}"

lemma running_upd:
  "running p (thr(t \<mapsto> a)) = (if p a then insert t (running p thr) else running p thr - {t})"
  by (auto simp: running_def split: if_splits)

lemma running_finite: "finite (dom thr) \<Longrightarrow> finite (running p thr)"
  by (rule finite_subset[of _ "dom thr"]) (auto simp: running_def)

lemma card_running_at:
  assumes "finite (dom thr)" and "thr t = Some a"
  shows "card (running p (thr(t \<mapsto> a1))) + of_bool (p a) = card (running p thr) + of_bool (p a1)"
proof -
  have fin: "finite (running p thr)" using running_finite[OF assms(1)] .
  have t: "t \<in> running p thr \<longleftrightarrow> p a" using assms(2) by (simp add: running_def)
  then have "p a \<Longrightarrow> card (running p thr) > 0" using fin card_gt_0_iff by blast
  then show ?thesis using t fin by (cases "p a") (auto simp: running_upd card_insert_if)
qed

lemma card_running_new:
  assumes "finite (dom thr)" and "thr t = None"
  shows "card (running p (thr(t \<mapsto> a1))) = card (running p thr) + of_bool (p a1)"
proof -
  have "t \<notin> running p thr" using assms(2) by (simp add: running_def)
  then show ?thesis using running_finite[OF assms(1)] by (simp add: running_upd)
qed

lemma running_ex:
  assumes "card (running p thr) > 0" obtains t a where "thr t = Some a" "p a"
proof -
  have "running p thr \<noteq> {}" using assms by (metis card.empty less_irrefl)
  then show thesis using that by (auto simp: running_def)
qed

lemma running_pos:
  assumes "finite (dom thr)" and "thr t = Some a" and "p a" shows "card (running p thr) > 0"
proof -
  have "t \<in> running p thr" using assms(2,3) by (simp add: running_def)
  then show ?thesis using running_finite[OF assms(1)] card_gt_0_iff by blast
qed

section \<open>Operations in flight\<close>

fun stage_over :: "arrive_stage \<Rightarrow> bool" where
  "stage_over (StageFinished arrived abandoned) = True"
| "stage_over _ = False"

fun arrival_live :: "activity \<Rightarrow> bool" where
  "arrival_live (Arrive (ArriveSpawning d permanent)) = True"
| "arrival_live (Worker w d st) = (\<not> stage_over st)"
| "arrival_live _ = False"

fun departure_live :: "activity \<Rightarrow> bool" where
  "departure_live (Depart (DepartSpawning i g h)) = True"
| "departure_live (Depart (DepartWorker i g h)) = True"
| "departure_live (Depart (DepartWorkerReturned i g h success)) = True"
| "departure_live _ = False"

fun render_live :: "activity \<Rightarrow> bool" where
  "render_live (Render RenderSpawning) = True"
| "render_live (Render RenderWorker) = True"
| "render_live _ = False"

fun started :: "(activity \<Rightarrow> bool) \<Rightarrow> label \<Rightarrow> nat" where
  "started p (Starts u c) = of_bool (p c)"
| "started p _ = 0"

lemma with_monitor_counters [simp]:
  "bk_lifecycle_unhealthy (with_monitor i f b) = bk_lifecycle_unhealthy b"
  "bk_arrival_states (with_monitor i f b) = bk_arrival_states b"
  "bk_shutting_down (with_monitor i f b) = bk_shutting_down b"
  by (simp_all add: with_monitor_def)

lemma clear_counters [simp]:
  "bk_arrivals (clear_unhealthy_if_settled b) = bk_arrivals b"
  "bk_departures (clear_unhealthy_if_settled b) = bk_departures b"
  "bk_render_calls (clear_unhealthy_if_settled b) = bk_render_calls b"
  "bk_arrival_states (clear_unhealthy_if_settled b) = bk_arrival_states b"
  "bk_shutting_down (clear_unhealthy_if_settled b) = bk_shutting_down b"
  by (simp_all add: clear_unhealthy_if_settled_def)

lemma finish_counters [simp]:
  "bk_arrivals (fst (finish_monitor_departure i h s b)) = bk_arrivals b"
  "bk_render_calls (fst (finish_monitor_departure i h s b)) = bk_render_calls b"
  "bk_departures (fst (finish_monitor_departure i h s b)) =
     (if bk_departures b > 0 then bk_departures b - 1 else bk_departures b)"
  "bk_arrivals (finish_monitor_arrival b) = (if bk_arrivals b > 0 then bk_arrivals b - 1 else bk_arrivals b)"
  "bk_departures (finish_monitor_arrival b) = bk_departures b"
  "bk_render_calls (finish_monitor_arrival b) = bk_render_calls b"
  "bk_arrivals (finish_render_adapter_call b) = bk_arrivals b"
  "bk_departures (finish_render_adapter_call b) = bk_departures b"
  "bk_render_calls (finish_render_adapter_call b) =
     (if bk_render_calls b > 0 then bk_render_calls b - 1 else bk_render_calls b)"
  by (auto simp: finish_monitor_departure_def finish_monitor_arrival_def finish_render_adapter_call_def
      Let_def split: option.split)

lemma modes_counters [simp]:
  "bk_arrivals (unregister_monitor_description_mode d b) = bk_arrivals b"
  "bk_departures (unregister_monitor_description_mode d b) = bk_departures b"
  "bk_render_calls (unregister_monitor_description_mode d b) = bk_render_calls b"
  "bk_arrivals (fst (register_monitor_description_mode d b)) = bk_arrivals b"
  "bk_departures (fst (register_monitor_description_mode d b)) = bk_departures b"
  "bk_render_calls (fst (register_monitor_description_mode d b)) = bk_render_calls b"
  by (auto simp: unregister_monitor_description_mode_def register_monitor_description_mode_def Let_def
      split: prod.split)

lemmas depart_defs = backend_depart_display_def depart_display_resume_def take_processors_def
  depart_display_stop_def depart_monitor_with_timeout_def depart_spawn_failed_def depart_timed_out_def
  depart_joined_def depart_worker_finish_def

lemmas arrive_defs = arrive_display_def arrive_spawned_def arrive_spawn_failed_def arrive_wait_over_def
  arrive_joined_def

lemmas stage_defs = stage_checking_def stage_retired_def stage_reserving_def stage_registering_def
  stage_creating_def stage_recording_def stage_announcing_def stage_confirming_def stage_discarding_def
  stage_reporting_def stage_tagging_def

lemmas swapchain_defs = assign_swapchain_def assign_started_def assign_commit_def assign_retire_def
  finish_assign_callback_def unassign_swapchain_def unassign_stop_def finish_unassign_callback_def

lemmas render_defs = set_render_adapter_def adapter_init_finished_def render_counted_def
  render_spawn_failed_def render_worker_finish_def render_timed_out_def

text \<open>What a step does to a counter, given that a thread that is counted is seen in it.\<close>

definition count_moves :: "(activity \<Rightarrow> bool) \<Rightarrow> (backend \<Rightarrow> u32) \<Rightarrow> label \<Rightarrow> backend \<Rightarrow> activity \<Rightarrow>
    backend \<Rightarrow> activity \<Rightarrow> bool" where
  "count_moves p counter l b a b1 a1 \<longleftrightarrow>
     unat (counter b1) + of_bool (p a) = unat (counter b) + of_bool (p a1) + started p l"

lemma depart_moves:
  assumes "depart_step l b a b1 a1" and "bk_departures b < 0xffffffff"
    and "departure_live (Depart a) \<longrightarrow> bk_departures b > 0"
  shows "bk_arrivals b1 = bk_arrivals b" and "bk_render_calls b1 = bk_render_calls b"
    and "count_moves departure_live bk_departures l b (Depart a) b1 (Depart a1)"
    and "\<not> arrival_live (Depart a1)" "\<not> render_live (Depart a1)"
    and "started arrival_live l = 0" "started render_live l = 0"
  using assms
  by (cases rule: depart_step.cases;
      auto simp: depart_defs count_moves_def case_prod_beta Let_def unat_add_one unat_sub_one
        word_less_nat_alt split: option.splits if_splits)+

lemma arrive_moves:
  assumes "arrive_step l b a b1 a1" and "bk_arrivals b < 0xffffffff"
    and "arrival_live (Arrive a) \<longrightarrow> bk_arrivals b > 0"
  shows "bk_departures b1 = bk_departures b" and "bk_render_calls b1 = bk_render_calls b"
    and "count_moves arrival_live bk_arrivals l b (Arrive a) b1 (Arrive a1)"
    and "\<not> departure_live (Arrive a1)" "\<not> render_live (Arrive a1)"
    and "started departure_live l = 0" "started render_live l = 0"
  using assms
  by (cases rule: arrive_step.cases;
      auto simp: arrive_defs count_moves_def Let_def unat_add_one unat_sub_one
        word_less_nat_alt split: option.splits if_splits)+

lemma worker_moves:
  assumes "worker_step w d l b st b1 st1" and "\<not> stage_over st \<longrightarrow> bk_arrivals b > 0"
  shows "bk_departures b1 = bk_departures b" and "bk_render_calls b1 = bk_render_calls b"
    and "count_moves arrival_live bk_arrivals l b (Worker w d st) b1 (Worker w d st1)"
    and "started departure_live l = 0" "started render_live l = 0"
  using assms
  by (cases rule: worker_step.cases;
      auto simp: stage_defs count_moves_def Let_def unat_add_one unat_sub_one case_prod_beta
        word_less_nat_alt split: option.splits if_splits prod.splits)+

lemma swapchain_moves:
  assumes "swapchain_step b a b1 a1"
  shows "bk_arrivals b1 = bk_arrivals b" "bk_departures b1 = bk_departures b"
    "bk_render_calls b1 = bk_render_calls b"
  using assms
  by (cases rule: swapchain_step.cases;
      auto simp: swapchain_defs Let_def split: option.splits if_splits)+

lemma render_moves:
  assumes "render_step l b a b1 a1" and "bk_render_calls b < 0xffffffff"
    and "render_live (Render a) \<longrightarrow> bk_render_calls b > 0"
  shows "bk_arrivals b1 = bk_arrivals b" and "bk_departures b1 = bk_departures b"
    and "count_moves render_live bk_render_calls l b (Render a) b1 (Render a1)"
    and "started departure_live l = 0" "started arrival_live l = 0"
  using assms
  by (cases rule: render_step.cases;
      auto simp: render_defs count_moves_def Let_def unat_add_one unat_sub_one
        word_less_nat_alt split: option.splits if_splits)+

lemma detach_counters:
  "bk_arrivals (fold detach_context is b) = bk_arrivals b \<and>
   bk_departures (fold detach_context is b) = bk_departures b \<and>
   bk_render_calls (fold detach_context is b) = bk_render_calls b \<and>
   bk_lifecycle_unhealthy (fold detach_context is b) = bk_lifecycle_unhealthy b \<and>
   bk_arrival_states (fold detach_context is b) = bk_arrival_states b \<and>
   bk_shutting_down (fold detach_context is b) = bk_shutting_down b"
  by (induction "is" arbitrary: b) (auto simp: detach_context_def split: option.split)

lemma device_moves:
  assumes "device_step l b a b1 a1"
  shows "bk_arrivals b1 = bk_arrivals b" "bk_departures b1 = bk_departures b"
    "bk_render_calls b1 = bk_render_calls b"
    and "started departure_live l = 0" "started arrival_live l = 0" "started render_live l = 0"
  using assms
  by (cases rule: device_step.cases;
      auto simp: shutdown_begin_def shutdown_detach_def detach_counters
        cleanup_finished_retired_swapchains_def)+

lemma manifest_moves:
  assumes "manifest_step m l b a b1 a1"
  shows "b1 = b" and "started departure_live l = 0" "started arrival_live l = 0" "started render_live l = 0"
  using assms by (cases rule: manifest_step.cases; auto)+

definition live_positive :: "backend \<Rightarrow> activity \<Rightarrow> bool" where
  "live_positive b a \<longleftrightarrow> (arrival_live a \<longrightarrow> bk_arrivals b > 0) \<and>
     (departure_live a \<longrightarrow> bk_departures b > 0) \<and> (render_live a \<longrightarrow> bk_render_calls b > 0)"

definition bounded :: "backend \<Rightarrow> bool" where
  "bounded b \<longleftrightarrow> bk_arrivals b < 0xffffffff \<and> bk_departures b < 0xffffffff \<and> bk_render_calls b < 0xffffffff"

lemma activity_moves:
  assumes step: "activity_step l b a b1 a1" and fit: "bounded b" and live: "live_positive b a"
  shows "count_moves arrival_live bk_arrivals l b a b1 a1"
    and "count_moves departure_live bk_departures l b a b1 a1"
    and "count_moves render_live bk_render_calls l b a b1 a1"
proof -
  have "count_moves arrival_live bk_arrivals l b a b1 a1 \<and> count_moves departure_live bk_departures l b a b1 a1 \<and>
      count_moves render_live bk_render_calls l b a b1 a1"
    using step
  proof (cases rule: activity_step.cases)
    case (by_depart x x1)
    then show ?thesis using depart_moves[OF by_depart(3)] fit live
      by (simp add: count_moves_def bounded_def live_positive_def)
  next
    case (by_arrive x x1)
    then show ?thesis using arrive_moves[OF by_arrive(3)] fit live
      by (simp add: count_moves_def bounded_def live_positive_def)
  next
    case (by_worker w d st st1)
    then show ?thesis using worker_moves[OF by_worker(3)] fit live
      by (simp add: count_moves_def bounded_def live_positive_def)
  next
    case (by_swapchain x x1)
    then show ?thesis using swapchain_moves[OF by_swapchain(4)] by (simp add: count_moves_def)
  next
    case (by_render x x1)
    then show ?thesis using render_moves[OF by_render(3)] fit live
      by (simp add: count_moves_def bounded_def live_positive_def)
  next
    case (by_device x x1)
    then show ?thesis using device_moves[OF by_device(3)] by (simp add: count_moves_def)
  next
    case (by_manifest m x x1)
    then show ?thesis using manifest_moves[OF by_manifest(3)] by (simp add: count_moves_def)
  qed
  then show "count_moves arrival_live bk_arrivals l b a b1 a1"
    "count_moves departure_live bk_departures l b a b1 a1"
    "count_moves render_live bk_render_calls l b a b1 a1" by auto
qed

definition counts :: "(activity \<Rightarrow> bool) \<Rightarrow> (backend \<Rightarrow> u32) \<Rightarrow> system \<Rightarrow> bool" where
  "counts p counter s \<longleftrightarrow> unat (counter (fst s)) = card (running p (snd s))"

text \<open>Every counter is the number of threads it counts.\<close>

definition counters_ok :: "system \<Rightarrow> bool" where
  "counters_ok s \<longleftrightarrow> finite (dom (snd s)) \<and> counts arrival_live bk_arrivals s \<and>
     counts departure_live bk_departures s \<and> counts render_live bk_render_calls s"

lemma counts_positive:
  assumes "counts p counter (b, thr)" and "finite (dom thr)" and "thr t = Some a" and "p a"
  shows "counter b > 0"
  using running_pos[where p = p, OF assms(2-4)] assms(1) by (auto simp: counts_def word_gt_0)

lemma counters_live:
  assumes "counters_ok (b, thr)" and "thr t = Some a" shows "live_positive b a"
  using assms counts_positive[of _ _ b thr t a] by (auto simp: counters_ok_def live_positive_def)

lemma counts_request: "request a \<Longrightarrow> \<not> arrival_live a \<and> \<not> departure_live a \<and> \<not> render_live a"
  by (erule request.cases) simp_all

lemma field_update_counters:
  "field_update b b1 \<Longrightarrow> bk_arrivals b1 = bk_arrivals b \<and> bk_departures b1 = bk_departures b \<and>
     bk_render_calls b1 = bk_render_calls b \<and> bk_lifecycle_unhealthy b1 = bk_lifecycle_unhealthy b \<and>
     bk_arrival_states b1 = bk_arrival_states b \<and> bk_shutting_down b1 = bk_shutting_down b"
  by (erule field_update.cases)
     (auto simp: initialize_adapter_def set_default_hdr_metadata_def set_gamma_ramp_def
        split: option.split sum.split)

lemma counts_move:
  assumes "counts p counter (b, thr)" and "finite (dom thr)" and "thr t = Some a"
    and "count_moves p counter l b a b1 a1" and "started p l = 0"
  shows "counts p counter (b1, thr(t \<mapsto> a1))"
  using assms card_running_at[OF assms(2,3), of p a1] by (simp add: counts_def count_moves_def)

lemma counts_start:
  assumes "counts p counter (b, thr)" and "finite (dom thr)" and "thr t = Some a" and "thr u = None"
    and "count_moves p counter (Starts u c) b a b1 a1"
  shows "counts p counter (b1, thr(t \<mapsto> a1, u \<mapsto> c))"
proof -
  have "(thr(t \<mapsto> a1)) u = None" using assms(3,4) by auto
  then show ?thesis
    using assms card_running_at[OF assms(2,3), of p a1] card_running_new[of "thr(t \<mapsto> a1)" u p c]
    by (simp add: counts_def count_moves_def)
qed

lemma counters_step: "system_step s s1 \<Longrightarrow> counters_ok s \<Longrightarrow> counters_ok s1"
proof (induction rule: system_step.induct)
  case (request_step thr t a b)
  then show ?case
    using counts_request[OF request_step(2)] card_running_new[of thr t _ a] request_step(1)
    by (simp add: counters_ok_def counts_def)
next
  case (field_step b b1 thr)
  then show ?case using field_update_counters[OF field_step(1)] by (simp add: counters_ok_def counts_def)
next
  case (silent_step thr t a b b1 a1)
  have "bounded b" using silent_step(3) by (simp add: counters_fit_def bounded_def)
  note M = activity_moves[OF silent_step(2) this counters_live[OF silent_step(4,1)]]
  show ?case
    using silent_step(1,4) M counts_move[of arrival_live bk_arrivals b thr t a Silent b1 a1]
      counts_move[of departure_live bk_departures b thr t a Silent b1 a1]
      counts_move[of render_live bk_render_calls b thr t a Silent b1 a1]
    by (simp add: counters_ok_def)
next
  case (start_step thr t a u c b b1 a1)
  have "bounded b" using start_step(4) by (simp add: counters_fit_def bounded_def)
  note M = activity_moves[OF start_step(3) this counters_live[OF start_step(5,1)]]
  show ?case
    using start_step(1,5) start_step(2) M counts_start[of arrival_live bk_arrivals b thr t a u c b1 a1]
      counts_start[of departure_live bk_departures b thr t a u c b1 a1]
      counts_start[of render_live bk_render_calls b thr t a u c b1 a1]
    by (simp add: counters_ok_def)
next
  case (see_step thr t a u c b b1 a1)
  have "bounded b" using see_step(4) by (simp add: counters_fit_def bounded_def)
  note M = activity_moves[OF see_step(3) this counters_live[OF see_step(5,1)]]
  show ?case
    using see_step(1,5) M counts_move[of arrival_live bk_arrivals b thr t a "Sees u c" b1 a1]
      counts_move[of departure_live bk_departures b thr t a "Sees u c" b1 a1]
      counts_move[of render_live bk_render_calls b thr t a "Sees u c" b1 a1]
    by (simp add: counters_ok_def)
qed

interpretation counters: inductive_invariant counters_ok
proof unfold_locales
  show "counters_ok (initial_backend hdr, Map.empty)" for hdr
    by (simp add: counters_ok_def counts_def running_def initial_backend_def)
qed (rule counters_step)

lemma counters_reachable: "system_reachable s \<Longrightarrow> counters_ok s"
  by (rule counters.holds)

end
