(* ===== verification/Monitor_Arrivals.thy ===== *)
theory Monitor_Arrivals
  imports Monitor_Counters
begin

text \<open>
  The race between an arriving worker and its caller: who gave up and who reported is decided once,
  under the lock. From this and the counters: the health flag is never left set without an
  operation in flight.
\<close>

section \<open>The shared state of an arrival\<close>

fun stage_agrees :: "arrive_stage \<Rightarrow> arrival_state \<Rightarrow> bool" where
  "stage_agrees (StageFinishing arrived abandoned) st =
     (if abandoned then as_caller_timed_out st \<and> \<not> as_worker_done st
      else as_worker_done st \<and> \<not> as_caller_timed_out st)"
| "stage_agrees (StageFinished arrived abandoned) st =
     (if abandoned then as_caller_timed_out st \<and> \<not> as_worker_done st
      else as_worker_done st \<and> \<not> as_caller_timed_out st)"
| "stage_agrees (StageTagging h) st = (as_caller_timed_out st \<and> \<not> as_worker_done st)"
| "stage_agrees (StageLate h) st = (as_caller_timed_out st \<and> \<not> as_worker_done st)"
| "stage_agrees (StageCleaning h u) st = (as_caller_timed_out st \<and> \<not> as_worker_done st)"
| "stage_agrees _ st = (\<not> as_worker_done st)"

definition states_ok :: "backend \<Rightarrow> threads \<Rightarrow> bool" where
  "states_ok b thr \<longleftrightarrow>
     (\<forall>w st. bk_arrival_states b w = Some st \<longrightarrow>
        (\<exists>d stage. thr w = Some (Worker w d stage) \<and> stage_agrees stage st)) \<and>
     (\<forall>t w d stage. thr t = Some (Worker w d stage) \<longrightarrow> t = w \<and> bk_arrival_states b w \<noteq> None)"

definition awaiting_ok :: "backend \<Rightarrow> threads \<Rightarrow> bool" where
  "awaiting_ok b thr \<longleftrightarrow>
     (\<forall>t w. thr t = Some (Arrive (ArriveAwaiting w)) \<longrightarrow>
        (\<exists>st. bk_arrival_states b w = Some st \<and> \<not> as_caller_timed_out st)) \<and>
     (\<forall>t u w. thr t = Some (Arrive (ArriveAwaiting w)) \<longrightarrow> thr u = Some (Arrive (ArriveAwaiting w)) \<longrightarrow> t = u)"

text \<open>Steps that are neither of a worker nor of a waiting caller.\<close>

fun arrival_neutral :: "activity \<Rightarrow> bool" where
  "arrival_neutral (Worker w d st) = False"
| "arrival_neutral (Arrive (ArriveAwaiting w)) = False"
| "arrival_neutral _ = True"

lemma states_neutral:
  assumes "states_ok b thr" "awaiting_ok b thr" and "bk_arrival_states b1 = bk_arrival_states b"
    and "thr t = None \<or> thr t = Some a \<and> arrival_neutral a" and "arrival_neutral a1"
  shows "states_ok b1 (thr(t \<mapsto> a1)) \<and> awaiting_ok b1 (thr(t \<mapsto> a1))"
proof -
  have w: "(thr(t \<mapsto> a1)) u = Some (Worker w d st) \<longleftrightarrow> thr u = Some (Worker w d st)"
    "(thr(t \<mapsto> a1)) u = Some (Arrive (ArriveAwaiting w)) \<longleftrightarrow> thr u = Some (Arrive (ArriveAwaiting w))" for u w d st
    using assms(4,5) by auto
  show ?thesis using assms(1-3) unfolding states_ok_def awaiting_ok_def w by simp
qed

lemma register_states [simp]:
  "bk_arrival_states (unregister_monitor_description_mode d b) = bk_arrival_states b"
  "bk_arrival_states (fst (register_monitor_description_mode d b)) = bk_arrival_states b"
  "bk_arrival_states (finish_monitor_arrival b) = bk_arrival_states b"
  "bk_arrival_states (finish_render_adapter_call b) = bk_arrival_states b"
  "bk_arrival_states (fst (finish_monitor_departure i h success b)) = bk_arrival_states b"
  by (auto simp: unregister_monitor_description_mode_def register_monitor_description_mode_def Let_def
      finish_monitor_arrival_def finish_render_adapter_call_def finish_monitor_departure_def
      split: prod.split option.split)

lemma depart_states: "depart_step l b a b1 a1 \<Longrightarrow> bk_arrival_states b1 = bk_arrival_states b"
  by (cases rule: depart_step.cases, assumption)
     (auto simp: depart_defs case_prod_beta Let_def split: option.splits if_splits)

lemma swapchain_states: "swapchain_step b a b1 a1 \<Longrightarrow> bk_arrival_states b1 = bk_arrival_states b"
  by (cases rule: swapchain_step.cases, assumption)
     (auto simp: swapchain_defs Let_def split: option.splits if_splits)

lemma render_states: "render_step l b a b1 a1 \<Longrightarrow> bk_arrival_states b1 = bk_arrival_states b"
  by (cases rule: render_step.cases, assumption) (auto simp: render_defs Let_def split: if_splits)

lemma device_states: "device_step l b a b1 a1 \<Longrightarrow> bk_arrival_states b1 = bk_arrival_states b"
  by (cases rule: device_step.cases, assumption)
     (auto simp: shutdown_begin_def shutdown_detach_def detach_counters cleanup_finished_retired_swapchains_def)

text \<open>The steps of the other groups start only neutral activities.\<close>

fun starts_neutral :: "label \<Rightarrow> bool" where
  "starts_neutral (Starts u c) = arrival_neutral c"
| "starts_neutral _ = True"

fun of_arrival :: "activity \<Rightarrow> bool" where
  "of_arrival (Worker w d st) = True"
| "of_arrival (Arrive x) = True"
| "of_arrival _ = False"

lemma others_neutral:
  assumes "activity_step l b a b1 a1" and "\<not> of_arrival a"
  shows "bk_arrival_states b1 = bk_arrival_states b" "arrival_neutral a" "arrival_neutral a1" "starts_neutral l"
proof -
  have "bk_arrival_states b1 = bk_arrival_states b \<and> arrival_neutral a \<and> arrival_neutral a1 \<and> starts_neutral l"
    using assms(1)
  proof (cases rule: activity_step.cases)
    case (by_depart x x1)
    have "starts_neutral l" using by_depart(3) by (cases rule: depart_step.cases) auto
    then show ?thesis using by_depart depart_states by simp
  next
    case (by_swapchain x x1)
    then show ?thesis using swapchain_states by simp
  next
    case (by_render x x1)
    have "starts_neutral l" using by_render(3) by (cases rule: render_step.cases) auto
    then show ?thesis using by_render render_states by simp
  next
    case (by_device x x1)
    have "starts_neutral l" using by_device(3) by (cases rule: device_step.cases) auto
    then show ?thesis using by_device device_states by simp
  next
    case (by_manifest m x x1)
    have "starts_neutral l" using by_manifest(3) by (cases rule: manifest_step.cases) auto
    then show ?thesis using by_manifest manifest_step_table[OF by_manifest(3)] by simp
  qed (use assms(2) in auto)
  then show "bk_arrival_states b1 = bk_arrival_states b" "arrival_neutral a" "arrival_neutral a1" "starts_neutral l"
    by auto
qed

lemma worker_states:
  assumes step: "worker_step w d l b st b1 st1" and s: "bk_arrival_states b w = Some s" and ok: "stage_agrees st s"
  obtains s1 where "bk_arrival_states b1 = (bk_arrival_states b)(w \<mapsto> s1)" "stage_agrees st1 s1"
    "as_caller_timed_out s1 = as_caller_timed_out s"
proof -
  have "\<exists>s1. bk_arrival_states b1 = (bk_arrival_states b)(w \<mapsto> s1) \<and> stage_agrees st1 s1 \<and>
      as_caller_timed_out s1 = as_caller_timed_out s"
  proof (cases "\<exists>arrived result. st = StageReporting arrived result")
    case True
    then obtain arrived result where st: "st = StageReporting arrived result" by blast
    have "worker_step w d l b (StageReporting arrived result) b1 st1" using step st by simp
    then have report: "stage_reporting w arrived result b = (b1, st1)"
      by (cases rule: worker_step.cases) auto
    show ?thesis
    proof (cases "as_caller_timed_out s")
      case True
      then show ?thesis using report s ok st
        by (intro exI[of _ s]) (auto simp: stage_reporting_def fun_upd_idem split: option.splits)
    next
      case False
      then show ?thesis using report s
        by (intro exI[of _ "s\<lparr>as_result := result, as_worker_done := True\<rparr>"])
           (auto simp: stage_reporting_def)
    qed
  next
    case False
    have "bk_arrival_states b1 = bk_arrival_states b" "stage_agrees st1 s"
      using step ok False
      by (cases rule: worker_step.cases;
          auto simp: stage_checking_def stage_retired_def stage_reserving_def stage_registering_def
            stage_creating_def stage_recording_def stage_announcing_def stage_confirming_def
            stage_discarding_def stage_tagging_def case_prod_beta split: option.splits if_splits prod.splits)+
    then show ?thesis using s by (intro exI[of _ s]) (simp add: fun_upd_idem)
  qed
  then show thesis using that by blast
qed

definition arrivals_ok :: "system \<Rightarrow> bool" where
  "arrivals_ok s \<longleftrightarrow> states_ok (fst s) (snd s) \<and> awaiting_ok (fst s) (snd s)"

lemma statesD:
  assumes "states_ok b thr"
  shows "bk_arrival_states b w = Some st \<Longrightarrow> \<exists>d stage. thr w = Some (Worker w d stage) \<and> stage_agrees stage st"
    and "thr t = Some (Worker w d stage) \<Longrightarrow> t = w"
    and "thr t = Some (Worker w d stage) \<Longrightarrow> \<exists>st. bk_arrival_states b w = Some st"
  using assms unfolding states_ok_def by blast+

lemma awaitingD:
  assumes "awaiting_ok b thr"
  shows "thr t = Some (Arrive (ArriveAwaiting w)) \<Longrightarrow> \<exists>st. bk_arrival_states b w = Some st \<and> \<not> as_caller_timed_out st"
    and "thr t = Some (Arrive (ArriveAwaiting w)) \<Longrightarrow> thr u = Some (Arrive (ArriveAwaiting w)) \<Longrightarrow> t = u"
  using assms unfolding awaiting_ok_def by blast+

text \<open>A step of a worker.\<close>

lemma arrivals_worker:
  assumes ok: "arrivals_ok (b, thr)" and t: "thr t = Some (Worker w d st)" and step: "worker_step w d l b st b1 st1"
  shows "arrivals_ok (b1, thr(t \<mapsto> Worker w d st1))"
proof -
  have S: "states_ok b thr" and A: "awaiting_ok b thr" using ok by (simp_all add: arrivals_ok_def)
  have tw: "t = w" using statesD(2)[OF S t] .
  obtain s where s: "bk_arrival_states b w = Some s" using statesD(3)[OF S t] by blast
  then have agree: "stage_agrees st s" using statesD(1)[OF S s] t tw by auto
  obtain s1 where s1: "bk_arrival_states b1 = (bk_arrival_states b)(w \<mapsto> s1)" "stage_agrees st1 s1"
    "as_caller_timed_out s1 = as_caller_timed_out s"
    by (rule worker_states[OF step s agree])
  have "states_ok b1 (thr(t \<mapsto> Worker w d st1))"
    using S s1(1,2) tw unfolding states_ok_def by (auto split: if_splits)
  moreover have "\<not> as_caller_timed_out s" if "thr v = Some (Arrive (ArriveAwaiting w))" for v
    using awaitingD(1)[OF A that] s by auto
  then have "awaiting_ok b1 (thr(t \<mapsto> Worker w d st1))"
    using A s s1(1,3) t unfolding awaiting_ok_def by (auto split: if_splits)
  ultimately show ?thesis by (simp add: arrivals_ok_def)
qed

text \<open>The caller: it starts its worker, and gives up or not.\<close>

lemma arrivals_spawn:
  assumes ok: "arrivals_ok (b, thr)" and t: "thr t = Some (Arrive (ArriveSpawning d permanent))" and u: "thr u = None"
    and step: "arrive_spawned u b = (b1, a1)" and c: "c = Worker u e (StageChecking permanent)"
  shows "arrivals_ok (b1, thr(t \<mapsto> Arrive a1, u \<mapsto> c))"
proof -
  have S: "states_ok b thr" and A: "awaiting_ok b thr" using ok by (simp_all add: arrivals_ok_def)
  have new: "bk_arrival_states b u = None" using statesD(1)[OF S, of u] u by (cases "bk_arrival_states b u") auto
  have tu: "t \<noteq> u" using t u by auto
  have keyless: "bk_arrival_states b t = None"
    using statesD(1)[OF S, of t] t by (cases "bk_arrival_states b t") auto
  have b1: "bk_arrival_states b1 = (bk_arrival_states b)(u \<mapsto>
      \<lparr>as_result = failed_display, as_worker_done = False, as_caller_timed_out = False\<rparr>)"
    and a1: "a1 = ArriveAwaiting u" using step by (auto simp: arrive_spawned_def)
  have none: "thr v \<noteq> Some (Arrive (ArriveAwaiting u))" for v
    using awaitingD(1)[OF A, of v u] new by auto
  have "states_ok b1 (thr(t \<mapsto> Arrive a1, u \<mapsto> c))"
    using S t u tu b1 c keyless unfolding states_ok_def by (auto simp: a1 split: if_splits)
  moreover have "awaiting_ok b1 (thr(t \<mapsto> Arrive a1, u \<mapsto> c))"
    using A none new t tu b1 c unfolding awaiting_ok_def by (auto simp: a1 split: if_splits)
  ultimately show ?thesis by (simp add: arrivals_ok_def)
qed

lemma arrivals_waited:
  assumes ok: "arrivals_ok (b, thr)" and t: "thr t = Some (Arrive (ArriveAwaiting w))"
    and step: "arrive_wait_over w b = (b1, a1)"
  shows "arrivals_ok (b1, thr(t \<mapsto> Arrive a1))"
proof -
  have S: "states_ok b thr" and A: "awaiting_ok b thr" using ok by (simp_all add: arrivals_ok_def)
  obtain s where s: "bk_arrival_states b w = Some s" "\<not> as_caller_timed_out s" using awaitingD(1)[OF A t] by blast
  obtain d st where w: "thr w = Some (Worker w d st)" "stage_agrees st s" using statesD(1)[OF S s(1)] by blast
  have tw: "t \<noteq> w" using t w(1) by auto
  have keyless: "bk_arrival_states b t = None"
    using statesD(1)[OF S, of t] t by (cases "bk_arrival_states b t") auto
  have only: "thr v \<noteq> Some (Arrive (ArriveAwaiting w))" if "v \<noteq> t" for v using awaitingD(2)[OF A t] that by blast
  have not_awaiting: "a1 \<noteq> ArriveAwaiting v" for v
    using step s by (auto simp: arrive_wait_over_def split: if_splits)
  show ?thesis
  proof (cases "as_worker_done s")
    case True
    then have "b1 = b" using step s by (simp add: arrive_wait_over_def)
    then have "states_ok b1 (thr(t \<mapsto> Arrive a1))" using S t keyless unfolding states_ok_def by auto
    moreover have "awaiting_ok b1 (thr(t \<mapsto> Arrive a1))"
      using A not_awaiting \<open>b1 = b\<close> unfolding awaiting_ok_def by auto
    ultimately show ?thesis by (simp add: arrivals_ok_def)
  next
    case False
    then have b1: "bk_arrival_states b1 = (bk_arrival_states b)(w \<mapsto> s\<lparr>as_caller_timed_out := True\<rparr>)"
      using step s by (auto simp: arrive_wait_over_def)
    have early: "stage_agrees st (s\<lparr>as_caller_timed_out := True\<rparr>)"
      using w(2) s(2) False by (cases st) (auto split: if_splits)
    have "states_ok b1 (thr(t \<mapsto> Arrive a1))"
      using S t w early tw keyless unfolding states_ok_def b1 by (auto split: if_splits)
    moreover have "awaiting_ok b1 (thr(t \<mapsto> Arrive a1))"
      using A not_awaiting only unfolding awaiting_ok_def b1 by (auto split: if_splits)
    ultimately show ?thesis by (simp add: arrivals_ok_def)
  qed
qed

lemma arrivals_neutral:
  assumes "arrivals_ok (b, thr)" and "bk_arrival_states b1 = bk_arrival_states b"
    and "thr t = None \<or> thr t = Some a \<and> arrival_neutral a" and "arrival_neutral a1"
  shows "arrivals_ok (b1, thr(t \<mapsto> a1))"
  using states_neutral[of b thr b1 t a a1] assms by (simp add: arrivals_ok_def)

lemma request_neutral: "request a \<Longrightarrow> arrival_neutral a"
  by (erule request.cases) simp_all

lemma arrivals_step: "system_step s s1 \<Longrightarrow> arrivals_ok s \<Longrightarrow> arrivals_ok s1"
proof (induction rule: system_step.induct)
  case (request_step thr t a b)
  then show ?case using arrivals_neutral[of b thr b t a a] request_neutral by blast
next
  case (field_step b b1 thr)
  then show ?case
    using field_update_counters[OF field_step(1)] by (simp add: arrivals_ok_def states_ok_def awaiting_ok_def)
next
  case (silent_step thr t a b b1 a1)
  show ?case
  proof (cases "of_arrival a")
    case False
    then show ?thesis using others_neutral[OF silent_step(2)] silent_step arrivals_neutral[of b thr b1 t a a1] by blast
  next
    case True
    show ?thesis using silent_step(2)
    proof (cases rule: activity_step.cases)
      case (by_arrive x x1)
      from by_arrive(3) show ?thesis
      proof (cases rule: arrive_step.cases)
        case (arrive_waited w)
        then show ?thesis using arrivals_waited[of b thr t w b1 x1] silent_step by_arrive by simp
      next
        case (arrive_counts d permanent)
        then show ?thesis using arrivals_neutral[of b thr b1 t a a1] silent_step by_arrive
          by (auto simp: arrive_display_def)
      next
        case (arrive_no_thread d permanent)
        then show ?thesis using arrivals_neutral[of b thr b1 t a a1] silent_step by_arrive
          by (auto simp: arrive_spawn_failed_def)
      qed
    next
      case (by_worker w d st st1)
      then show ?thesis using arrivals_worker[OF silent_step(4), of t w d st Silent b1 st1] silent_step by simp
    qed (use True in auto)
  qed
next
  case (start_step thr t a u c b b1 a1)
  have tu: "(thr(t \<mapsto> a1)) u = None" using start_step by auto
  have again: "arrivals_ok (b1, thr(t \<mapsto> a1, u \<mapsto> c))" if "arrivals_ok (b1, thr(t \<mapsto> a1))" "arrival_neutral c"
    using arrivals_neutral[of b1 "thr(t \<mapsto> a1)" b1 u c c] that tu by blast
  show ?case
  proof (cases "of_arrival a")
    case False
    then show ?thesis
      using others_neutral[OF start_step(3)] start_step arrivals_neutral[of b thr b1 t a a1] again by simp
  next
    case True
    show ?thesis using start_step(3)
    proof (cases rule: activity_step.cases)
      case (by_arrive x x1)
      from by_arrive(3) show ?thesis
      proof (cases rule: arrive_step.cases)
        case (arrive_spawns d permanent)
        then show ?thesis using arrivals_spawn[of b thr t d permanent u b1 x1 c] start_step by_arrive by simp
      qed
    next
      case (by_worker w d st st1)
      have "arrival_neutral c" using by_worker(3) by (cases rule: worker_step.cases) auto
      then show ?thesis
        using again arrivals_worker[OF start_step(5), of t w d st "Starts u c" b1 st1] start_step by_worker by simp
    qed (use True in auto)
  qed
next
  case (see_step thr t a u c b b1 a1)
  show ?case
  proof (cases "of_arrival a")
    case False
    then show ?thesis using others_neutral[OF see_step(3)] see_step arrivals_neutral[of b thr b1 t a a1] by blast
  next
    case True
    show ?thesis using see_step(3)
    proof (cases rule: activity_step.cases)
      case (by_arrive x x1)
      from by_arrive(3) show ?thesis
      proof (cases rule: arrive_step.cases)
        case (arrive_joins d arrived abandoned)
        then show ?thesis using arrivals_neutral[of b thr b1 t a a1] see_step by_arrive
          by (auto simp: arrive_joined_def)
      qed
    next
      case (by_worker w d st st1)
      then show ?thesis using arrivals_worker[OF see_step(5), of t w d st "Sees u c" b1 st1] see_step by simp
    qed (use True in auto)
  qed
qed

interpretation arrivals: inductive_invariant arrivals_ok
proof unfold_locales
  show "arrivals_ok (initial_backend hdr, Map.empty)" for hdr
    by (simp add: arrivals_ok_def states_ok_def awaiting_ok_def initial_backend_def)
qed (rule arrivals_step)

lemma arrivals_reachable: "system_reachable s \<Longrightarrow> arrivals_ok s"
  by (rule arrivals.holds)

end
