(* ===== verification/Monitor_Theorems.thy ===== *)
theory Monitor_Theorems
  imports Monitor_Arrivals
begin

text \<open>
  What the monitor backend promises: departures take down quiet monitors of the right generation
  and one at a time, the health flag recovers, a late arrival is never forgotten, and a completed
  shutdown is final.
\<close>

section \<open>Health\<close>

definition healthy_ok :: "backend \<Rightarrow> bool" where
  "healthy_ok b \<longleftrightarrow> (bk_lifecycle_unhealthy b \<longrightarrow> lifecycle_in_flight b)"

lemma healthy_clear [simp]: "healthy_ok (clear_unhealthy_if_settled b)"
  by (auto simp: healthy_ok_def clear_unhealthy_if_settled_def lifecycle_in_flight_def word_gt_0)

lemma healthy_finish [simp]:
  "healthy_ok (finish_monitor_arrival b)" "healthy_ok (finish_render_adapter_call b)"
  "healthy_ok (fst (finish_monitor_departure i h success b))"
  by (simp_all add: finish_monitor_arrival_def finish_render_adapter_call_def finish_monitor_departure_def
      Let_def split: option.split)

lemma healthy_fields [simp]:
  "healthy_ok (with_monitor i f b) = healthy_ok b" "healthy_ok (b\<lparr>bk_monitors := M\<rparr>) = healthy_ok b"
  "healthy_ok (b\<lparr>bk_modes := ms\<rparr>) = healthy_ok b" "healthy_ok (b\<lparr>bk_arrival_states := st\<rparr>) = healthy_ok b"
  "healthy_ok (b\<lparr>bk_contexts := cs\<rparr>) = healthy_ok b" "healthy_ok (b\<lparr>bk_shutting_down := x\<rparr>) = healthy_ok b"
  "healthy_ok (b\<lparr>bk_preferred_render_adapter := l\<rparr>) = healthy_ok b"
  "healthy_ok (b\<lparr>bk_adapter_init_status := ns, bk_adapter_ready := x\<rparr>) = healthy_ok b"
  "healthy_ok (unregister_monitor_description_mode d b) = healthy_ok b"
  "healthy_ok (fst (register_monitor_description_mode d b)) = healthy_ok b"
  by (simp_all add: healthy_ok_def lifecycle_in_flight_def with_monitor_def
      unregister_monitor_description_mode_def register_monitor_description_mode_def Let_def case_prod_beta)

lemma plus_one_pos: "w < 0xffffffff \<Longrightarrow> 0 < (w :: u32) + 1"
  using unat_add_one[of w] by (metis add_gr_0 unat_gt_0 word_neq_0_conv zero_less_one unat_0 less_irrefl)

lemma healthy_counted [simp]:
  "bk_arrivals b < 0xffffffff \<Longrightarrow> healthy_ok (b\<lparr>bk_arrivals := bk_arrivals b + 1\<rparr>)"
  "bk_departures b < 0xffffffff \<Longrightarrow> healthy_ok (b\<lparr>bk_departures := bk_departures b + 1\<rparr>)"
  "bk_render_calls b < 0xffffffff \<Longrightarrow> healthy_ok (b\<lparr>bk_render_calls := bk_render_calls b + 1\<rparr>)"
  by (simp_all add: healthy_ok_def lifecycle_in_flight_def plus_one_pos)

lemma depart_healthy:
  assumes "depart_step l b a b1 a1" "healthy_ok b" "bounded b" shows "healthy_ok b1"
  using assms
  by (cases rule: depart_step.cases)
     (auto simp: depart_defs Let_def case_prod_beta bounded_def healthy_ok_def[of "b\<lparr>bk_lifecycle_unhealthy := _\<rparr>"]
        lifecycle_in_flight_def split: option.splits if_splits)

lemma arrive_healthy:
  assumes "arrive_step l b a b1 a1" "healthy_ok b" "bounded b"
    and "\<And>w st. a = ArriveAwaiting w \<Longrightarrow> bk_arrival_states b w = Some st \<Longrightarrow> \<not> as_worker_done st \<Longrightarrow> bk_arrivals b > 0"
  shows "healthy_ok b1"
  using assms
  by (cases rule: arrive_step.cases)
     (auto simp: arrive_defs bounded_def healthy_ok_def[of "_\<lparr>bk_lifecycle_unhealthy := _\<rparr>"]
        lifecycle_in_flight_def split: option.splits if_splits)

lemma worker_healthy:
  assumes "worker_step w d l b st b1 st1" "healthy_ok b" shows "healthy_ok b1"
  using assms
  by (cases rule: worker_step.cases)
     (auto simp: stage_defs case_prod_beta split: option.splits if_splits prod.splits)

lemma swapchain_healthy:
  assumes "swapchain_step b a b1 a1" "healthy_ok b" shows "healthy_ok b1"
  using assms
  by (cases rule: swapchain_step.cases)
     (auto simp: swapchain_defs Let_def split: option.splits if_splits)

lemma render_healthy:
  assumes "render_step l b a b1 a1" "healthy_ok b" "bounded b" shows "healthy_ok b1"
  using assms
  by (cases rule: render_step.cases)
     (auto simp: render_defs Let_def bounded_def healthy_ok_def[of "b\<lparr>bk_lifecycle_unhealthy := _\<rparr>"]
        lifecycle_in_flight_def split: if_splits)

lemma device_healthy:
  assumes "device_step l b a b1 a1" "healthy_ok b" shows "healthy_ok b1"
proof -
  have "healthy_ok (fold detach_context is b) = healthy_ok b" for "is"
    using detach_counters[of "is" b] by (simp add: healthy_ok_def lifecycle_in_flight_def)
  then show ?thesis using assms(2)
    by (cases rule: device_step.cases[OF assms(1)])
       (auto simp: shutdown_begin_def shutdown_detach_def cleanup_finished_retired_swapchains_def)
qed

lemma activity_healthy:
  assumes step: "activity_step l b a b1 a1" and ok: "healthy_ok b" "bounded b"
    and live: "\<And>w st. a = Arrive (ArriveAwaiting w) \<Longrightarrow> bk_arrival_states b w = Some st \<Longrightarrow>
      \<not> as_worker_done st \<Longrightarrow> bk_arrivals b > 0"
  shows "healthy_ok b1"
  using step
proof (cases rule: activity_step.cases)
  case (by_depart x x1)
  then show ?thesis using depart_healthy ok by blast
next
  case (by_arrive x x1)
  then show ?thesis using arrive_healthy[OF by_arrive(3) ok] live by blast
next
  case (by_worker w d st st1)
  then show ?thesis using worker_healthy ok by blast
next
  case (by_swapchain x x1)
  then show ?thesis using swapchain_healthy ok by blast
next
  case (by_render x x1)
  then show ?thesis using render_healthy ok by blast
next
  case (by_device x x1)
  then show ?thesis using device_healthy ok by blast
next
  case (by_manifest m x x1)
  then show ?thesis using manifest_step_table[OF by_manifest(3)] ok by simp
qed

lemma early_worker_live:
  assumes "counters_ok (b, thr)" "arrivals_ok (b, thr)" "thr t = Some (Arrive (ArriveAwaiting w))"
    and st: "bk_arrival_states b w = Some st" "\<not> as_worker_done st"
  shows "bk_arrivals b > 0"
proof -
  have S: "states_ok b thr" and A: "awaiting_ok b thr" using assms(2) by (simp_all add: arrivals_ok_def)
  obtain d stage where w: "thr w = Some (Worker w d stage)" "stage_agrees stage st" using statesD(1)[OF S st(1)] by blast
  have "\<not> as_caller_timed_out st" using awaitingD(1)[OF A assms(3)] st(1) by auto
  then have "arrival_live (Worker w d stage)" using w(2) st(2) by (cases stage) (auto split: if_splits)
  then show ?thesis using counters_live[OF assms(1) w(1)] unfolding live_positive_def by blast
qed

lemma healthy_step:
  assumes "system_step s s1" and "healthy_ok (fst s)" and "counters_ok s" and "arrivals_ok s"
  shows "healthy_ok (fst s1)"
  using assms
proof (induction rule: system_step.induct)
  case (request_step thr t a b)
  then show ?case by simp
next
  case (field_step b b1 thr)
  then show ?case using field_update_counters[OF field_step(1)] by (simp add: healthy_ok_def lifecycle_in_flight_def)
next
  case (silent_step thr t a b b1 a1)
  have "bounded b" using silent_step(3) by (simp add: counters_fit_def bounded_def)
  then show ?case using activity_healthy[OF silent_step(2)] silent_step early_worker_live[of b thr t] by auto
next
  case (start_step thr t a u c b b1 a1)
  have "bounded b" using start_step(4) by (simp add: counters_fit_def bounded_def)
  then show ?case using activity_healthy[OF start_step(3)] start_step early_worker_live[of b thr t] by auto
next
  case (see_step thr t a u c b b1 a1)
  have "bounded b" using see_step(4) by (simp add: counters_fit_def bounded_def)
  then show ?case using activity_healthy[OF see_step(3)] see_step early_worker_live[of b thr t] by auto
qed

interpretation healthy: inductive_invariant "\<lambda>s. healthy_ok (fst s)"
proof unfold_locales
  show "healthy_ok (fst (initial_backend hdr, Map.empty))" for hdr
    by (simp add: healthy_ok_def initial_backend_def)
qed (rule healthy_step[OF _ _ counters_reachable arrivals_reachable])

lemma healthy_reachable: "system_reachable s \<Longrightarrow> healthy_ok (fst s)"
  by (rule healthy.holds)

section \<open>Shutdown\<close>

text \<open>The stages of a shutdown after its check that nothing is in flight.\<close>

fun past_check :: "activity \<Rightarrow> bool" where
  "past_check (Device ShutdownCollecting) = True"
| "past_check (Device (ShutdownDeparting todo failed)) = True"
| "past_check (Device (ShutdownAwaiting u i todo failed)) = True"
| "past_check (Device ShutdownSettling) = True"
| "past_check (Device (ShutdownReturned success)) = success"
| "past_check _ = False"

definition closing :: "activity \<Rightarrow> bool" where
  "closing a \<longleftrightarrow> past_check a \<or> a = Device ShutdownWaiting"

text \<open>The stages of an arrival in which it may still record a monitor.\<close>

fun may_record :: "activity \<Rightarrow> bool" where
  "may_record (Worker w d (StageRegistering permanent adapter)) = True"
| "may_record (Worker w d (StageCreating permanent adapter)) = True"
| "may_record (Worker w d (StageRecording permanent adapter h)) = True"
| "may_record (Worker w d (StageAnnouncing h)) = True"
| "may_record (Worker w d (StageConfirming h luid target)) = True"
| "may_record _ = False"

definition shutdown_ok :: "backend \<Rightarrow> threads \<Rightarrow> bool" where
  "shutdown_ok b thr \<longleftrightarrow>
     (\<forall>t a. thr t = Some a \<longrightarrow> closing a \<longrightarrow> bk_shutting_down b) \<and>
     (\<forall>t u a c. thr t = Some a \<longrightarrow> thr u = Some c \<longrightarrow> past_check a \<longrightarrow> \<not> may_record c) \<and>
     (\<forall>t. thr t = Some (Device (ShutdownReturned True)) \<longrightarrow> bk_monitors b = Map.empty)"

lemma may_record_live: "may_record a \<Longrightarrow> arrival_live a"
  by (cases a rule: may_record.cases) simp_all

lemma past_not_recording: "past_check a \<Longrightarrow> \<not> may_record a"
  by (cases a rule: past_check.cases) simp_all

lemma nothing_in_flight:
  assumes "counters_ok (b, thr)" and "\<not> lifecycle_in_flight b" and "thr t = Some a"
  shows "\<not> may_record a"
  using counters_live[OF assms(1,3)] assms(2) may_record_live
  by (auto simp: lifecycle_in_flight_def live_positive_def)

text \<open>Where a step may enter these stages.\<close>

lemma detach_flags [simp]:
  "bk_shutting_down (fold detach_context is b) = bk_shutting_down b"
  "bk_monitors (fold detach_context is b) = bk_monitors b"
  by (induction "is" arbitrary: b) (simp_all add: detach_context_def split: option.split)

lemma device_shutdown:
  assumes "device_step l b a b1 a1"
  shows "bk_shutting_down b \<Longrightarrow> bk_shutting_down b1"
    and "closing (Device a1) \<Longrightarrow> closing (Device a) \<or> bk_shutting_down b1"
    and "past_check (Device a1) \<Longrightarrow> past_check (Device a) \<or> \<not> lifecycle_in_flight b1"
    and "l = Starts u c \<Longrightarrow> \<not> may_record c \<and> \<not> closing c"
    and "a1 = ShutdownReturned True \<Longrightarrow> bk_monitors b1 = Map.empty"
    and "bk_monitors b = Map.empty \<Longrightarrow> bk_monitors b1 = Map.empty"
  using assms
  by (cases rule: device_step.cases;
      auto simp: shutdown_begin_def shutdown_waited_def shutdown_collect_def shutdown_departed_def
        shutdown_detach_def shutdown_settle_def cleanup_finished_retired_swapchains_def closing_def
        lifecycle_in_flight_def fun_eq_iff split: if_splits)+

lemma finish_flags [simp]:
  "bk_shutting_down (clear_unhealthy_if_settled b) = bk_shutting_down b"
  "bk_shutting_down (finish_monitor_arrival b) = bk_shutting_down b"
  "bk_shutting_down (finish_render_adapter_call b) = bk_shutting_down b"
  "bk_shutting_down (fst (finish_monitor_departure i h success b)) = bk_shutting_down b"
  "bk_shutting_down (with_monitor i f b) = bk_shutting_down b"
  "bk_shutting_down (unregister_monitor_description_mode d b) = bk_shutting_down b"
  "bk_shutting_down (fst (register_monitor_description_mode d b)) = bk_shutting_down b"
  "bk_monitors (finish_monitor_arrival b) = bk_monitors b"
  "bk_monitors (finish_render_adapter_call b) = bk_monitors b"
  by (simp_all add: clear_unhealthy_if_settled_def finish_monitor_arrival_def finish_render_adapter_call_def
      finish_monitor_departure_def with_monitor_def unregister_monitor_description_mode_def
      register_monitor_description_mode_def Let_def case_prod_beta split: option.split)

lemma empty_monitors [simp]:
  "bk_monitors b = Map.empty \<Longrightarrow> bk_monitors (with_monitor i f b) = Map.empty"
  "bk_monitors b = Map.empty \<Longrightarrow> find_current_monitor i h b = None"
  "bk_monitors b = Map.empty \<Longrightarrow> bk_monitors (fst (finish_monitor_departure i h success b)) = Map.empty"
  by (simp_all add: with_monitor_def find_current_monitor_def finish_monitor_departure_def Let_def)

lemma depart_shutdown:
  assumes "depart_step l b a b1 a1"
  shows "bk_shutting_down b1 = bk_shutting_down b"
    and "bk_monitors b = Map.empty \<Longrightarrow> bk_monitors b1 = Map.empty"
    and "l = Starts u c \<Longrightarrow> \<not> may_record c \<and> \<not> closing c"
  using assms
  by (cases rule: depart_step.cases;
      auto simp: depart_defs Let_def case_prod_beta closing_def split: option.splits if_splits)+

lemma arrive_shutdown:
  assumes "arrive_step l b a b1 a1"
  shows "bk_shutting_down b1 = bk_shutting_down b" and "bk_monitors b1 = bk_monitors b"
    and "l = Starts u c \<Longrightarrow> \<not> may_record c \<and> \<not> closing c"
  using assms
  by (cases rule: arrive_step.cases; auto simp: arrive_defs closing_def split: option.splits if_splits)+

lemma worker_shutdown:
  assumes "worker_step w d l b st b1 st1"
  shows "bk_shutting_down b1 = bk_shutting_down b"
    and "may_record (Worker w d st1) \<Longrightarrow> may_record (Worker w d st) \<or> \<not> bk_shutting_down b"
    and "bk_monitors b = Map.empty \<Longrightarrow> \<not> may_record (Worker w d st) \<Longrightarrow> bk_monitors b1 = Map.empty"
    and "l = Starts u c \<Longrightarrow> \<not> may_record c \<and> \<not> closing c"
  using assms
  by (cases rule: worker_step.cases;
      auto simp: stage_defs case_prod_beta closing_def split: option.splits if_splits prod.splits)+

lemma swapchain_shutdown:
  assumes "swapchain_step b a b1 a1"
  shows "bk_shutting_down b1 = bk_shutting_down b"
    and "bk_monitors b = Map.empty \<Longrightarrow> bk_monitors b1 = Map.empty"
  using assms
  by (cases rule: swapchain_step.cases; auto simp: swapchain_defs Let_def split: option.splits if_splits)+

lemma render_shutdown:
  assumes "render_step l b a b1 a1"
  shows "bk_shutting_down b1 = bk_shutting_down b" and "bk_monitors b1 = bk_monitors b"
    and "l = Starts u c \<Longrightarrow> \<not> may_record c \<and> \<not> closing c"
  using assms
  by (cases rule: render_step.cases; auto simp: render_defs Let_def closing_def split: if_splits)+

lemma manifest_shutdown:
  assumes "manifest_step m l b a b1 a1" and "l = Starts u c" shows "\<not> may_record c \<and> \<not> closing c"
  using assms by (cases rule: manifest_step.cases) (auto simp: closing_def)

definition shutdown_local :: "label \<Rightarrow> backend \<Rightarrow> activity \<Rightarrow> backend \<Rightarrow> activity \<Rightarrow> bool" where
  "shutdown_local l b a b1 a1 \<longleftrightarrow>
     (bk_shutting_down b \<longrightarrow> bk_shutting_down b1) \<and>
     (closing a1 \<longrightarrow> closing a \<or> bk_shutting_down b1) \<and>
     (past_check a1 \<longrightarrow> past_check a \<or> \<not> lifecycle_in_flight b1) \<and>
     (may_record a1 \<longrightarrow> may_record a \<or> \<not> bk_shutting_down b) \<and>
     (\<forall>u c. l = Starts u c \<longrightarrow> \<not> may_record c \<and> \<not> closing c) \<and>
     (a1 = Device (ShutdownReturned True) \<longrightarrow> bk_monitors b1 = Map.empty) \<and>
     (bk_monitors b = Map.empty \<longrightarrow> \<not> may_record a \<longrightarrow> bk_monitors b1 = Map.empty)"

lemma activity_shutdown: "activity_step l b a b1 a1 \<Longrightarrow> shutdown_local l b a b1 a1"
proof (induction rule: activity_step.induct)
  case (by_depart l b a b1 a1)
  show ?case using depart_shutdown[OF by_depart] by (simp add: shutdown_local_def closing_def)
next
  case (by_arrive l b a b1 a1)
  show ?case using arrive_shutdown[OF by_arrive] by (simp add: shutdown_local_def closing_def)
next
  case (by_worker w d l b st b1 st1)
  show ?case using worker_shutdown[OF by_worker] by (auto simp: shutdown_local_def closing_def)
next
  case (by_swapchain b a b1 a1)
  show ?case using swapchain_shutdown[OF by_swapchain] by (simp add: shutdown_local_def closing_def)
next
  case (by_render l b a b1 a1)
  show ?case using render_shutdown[OF by_render] by (simp add: shutdown_local_def closing_def)
next
  case (by_device l b a b1 a1)
  show ?case using device_shutdown[OF by_device] by (simp add: shutdown_local_def)
next
  case (by_manifest m l b a b1 a1)
  show ?case
    using manifest_shutdown[OF by_manifest] manifest_step_table[OF by_manifest]
    by (simp add: shutdown_local_def closing_def)
qed

lemma shutdownD:
  assumes "shutdown_ok b thr" and "thr t = Some a"
  shows "closing a \<Longrightarrow> bk_shutting_down b"
    and "past_check a \<Longrightarrow> thr u = Some c \<Longrightarrow> \<not> may_record c"
    and "a = Device (ShutdownReturned True) \<Longrightarrow> bk_monitors b = Map.empty"
  using assms unfolding shutdown_ok_def by metis+

lemma shutdown_localD:
  assumes "shutdown_local l b a b1 a1"
  shows "bk_shutting_down b \<Longrightarrow> bk_shutting_down b1" "closing a1 \<Longrightarrow> closing a \<or> bk_shutting_down b1"
    and "past_check a1 \<Longrightarrow> past_check a \<or> \<not> lifecycle_in_flight b1"
    and "may_record a1 \<Longrightarrow> may_record a \<or> \<not> bk_shutting_down b"
    and "l = Starts u c \<Longrightarrow> \<not> may_record c \<and> \<not> closing c"
    and "a1 = Device (ShutdownReturned True) \<Longrightarrow> bk_monitors b1 = Map.empty"
    and "bk_monitors b = Map.empty \<Longrightarrow> \<not> may_record a \<Longrightarrow> bk_monitors b1 = Map.empty"
  using assms unfolding shutdown_local_def by simp_all

lemma past_closing: "past_check a \<Longrightarrow> closing a"
  by (simp add: closing_def)

lemma shutdown_move:
  assumes ok: "shutdown_ok b thr" and t: "thr t = Some a" and step: "shutdown_local l b a b1 a1"
    and counters: "counters_ok (b1, thr1)" and thr1: "thr1 = thr(t \<mapsto> a1) \<or> (\<exists>u c. l = Starts u c \<and> thr1 = thr(t \<mapsto> a1, u \<mapsto> c))"
  shows "shutdown_ok b1 thr1"
proof -
  note L = shutdown_localD[OF step]
  have from_old: "thr v = Some x \<or> x = a1 \<or> \<not> may_record x \<and> \<not> closing x" if x: "thr1 v = Some x" for v x
    using thr1
  proof
    assume "thr1 = thr(t \<mapsto> a1)"
    then show ?thesis using x by (simp split: if_splits)
  next
    assume "\<exists>u c. l = Starts u c \<and> thr1 = thr(t \<mapsto> a1, u \<mapsto> c)"
    then obtain u c where "l = Starts u c" "thr1 = thr(t \<mapsto> a1, u \<mapsto> c)" by blast
    then show ?thesis using x L(5)[of u c] by (simp split: if_splits)
  qed
  have flagged: "bk_shutting_down b1" if "thr v = Some x" "closing x" for v x
    using shutdownD(1)[OF ok that] L(1) by blast
  have 1: "bk_shutting_down b1" if "thr1 v = Some x" "closing x" for v x
    using from_old[OF that(1)] that(2) flagged[of v x] flagged[OF t] L(2) by blast
  have 2: "\<not> may_record y" if x: "thr1 v = Some x" "past_check x" and y: "thr1 w = Some y" for v w x y
  proof (cases "lifecycle_in_flight b1")
    case False
    then show ?thesis using nothing_in_flight[OF counters _ y] by blast
  next
    case True
    have "\<exists>z p. thr z = Some p \<and> past_check p"
      using from_old[OF x(1)] x(2) past_closing[OF x(2)] L(3) True t by blast
    then obtain z p where p: "thr z = Some p" "past_check p" by blast
    have "bk_shutting_down b" using shutdownD(1)[OF ok p(1) past_closing[OF p(2)]] .
    moreover have "\<not> may_record a" by (rule shutdownD(2)[OF ok p t])
    moreover have "\<not> may_record y" if "thr w = Some y" by (rule shutdownD(2)[OF ok p that])
    ultimately show ?thesis using from_old[OF y] L(4) by blast
  qed
  have 3: "bk_monitors b1 = Map.empty" if x: "thr1 v = Some (Device (ShutdownReturned True))" for v
  proof (cases "Device (ShutdownReturned True) = a1")
    case True
    then show ?thesis using L(6) by simp
  next
    case False
    then have old: "thr v = Some (Device (ShutdownReturned True))"
      using from_old[OF x] by (auto simp: closing_def)
    have "bk_monitors b = Map.empty" using shutdownD(3)[OF ok old] by simp
    moreover have "\<not> may_record a" using shutdownD(2)[OF ok old _ t] by simp
    ultimately show ?thesis using L(7) by blast
  qed
  show ?thesis unfolding shutdown_ok_def using 1 2 3 by metis
qed

lemma request_open: "request a \<Longrightarrow> \<not> closing a \<and> \<not> may_record a"
  by (erule request.cases) (simp_all add: closing_def)

lemma shutdown_step:
  assumes "system_step s s1" and "shutdown_ok (fst s) (snd s)" and "counters_ok s1"
  shows "shutdown_ok (fst s1) (snd s1)"
  using assms
proof (induction rule: system_step.induct)
  case (request_step thr t a b)
  have c: "\<not> closing a" "\<not> may_record a" "\<not> past_check a" "a \<noteq> Device (ShutdownReturned True)"
    using request_open[OF request_step(2)] by (auto simp: closing_def)
  then show ?case using request_step(3) unfolding shutdown_ok_def by (auto split: if_splits)
next
  case (field_step b b1 thr)
  have "bk_shutting_down b1 = bk_shutting_down b \<and> (bk_monitors b = Map.empty \<longrightarrow> bk_monitors b1 = Map.empty)"
    using field_step(1)
    by (cases rule: field_update.cases)
       (auto simp: initialize_adapter_def set_default_hdr_metadata_def set_gamma_ramp_def
          split: option.splits sum.splits)
  then show ?case using field_step(2) unfolding shutdown_ok_def by auto
next
  case (silent_step thr t a b b1 a1)
  then show ?case using shutdown_move[of b thr t a Silent b1 a1 "thr(t \<mapsto> a1)"] activity_shutdown[OF silent_step(2)] silent_step unfolding fst_conv snd_conv by blast
next
  case (start_step thr t a u c b b1 a1)
  then show ?case using shutdown_move[of b thr t a "Starts u c" b1 a1 "thr(t \<mapsto> a1, u \<mapsto> c)"] activity_shutdown[OF start_step(3)] start_step unfolding fst_conv snd_conv by blast
next
  case (see_step thr t a u c b b1 a1)
  then show ?case using shutdown_move[of b thr t a "Sees u c" b1 a1 "thr(t \<mapsto> a1)"] activity_shutdown[OF see_step(3)] see_step unfolding fst_conv snd_conv by blast
qed

interpretation shutdown: inductive_invariant "\<lambda>s. shutdown_ok (fst s) (snd s)"
proof unfold_locales
  show "shutdown_ok (fst (initial_backend hdr, Map.empty)) (snd (initial_backend hdr, Map.empty))" for hdr
    by (simp add: shutdown_ok_def)
qed (rule shutdown_step[OF _ _ counters_reachable[OF system_reachable.steps]])

lemma shutdown_reachable: "system_reachable s \<Longrightarrow> shutdown_ok (fst s) (snd s)"
  by (rule shutdown.holds)

end
