(* ===== verification/Monitor_Safety.thy ===== *)
theory Monitor_Safety
  imports Monitor_Theorems
begin

text \<open>
  The promises of the monitor backend over all runs of its threads, and one run on which they are
  put to use: a display arrives too late for its caller, and its worker takes it down again.
\<close>

section \<open>A run\<close>

definition late_descriptor :: display_descriptor where
  "late_descriptor =
     \<lparr>dd_lease_id = 3, dd_display_id = 7, dd_container_id = \<lparr>data1 = 0, data2 = 0, data3 = 0, data4 = []\<rparr>,
      dd_connector_index = 1, dd_width = 1920, dd_height = 1080, dd_physical_width_mm = 600,
      dd_physical_height_mm = 340, dd_refresh_rate_millihz = 60000, dd_edid = [],
      dd_retain_identity = False, dd_generation = 5, dd_requested_resolution_only = False\<rparr>"

lemma silent_run:
  assumes "system_reachable (b, thr)" and "thr t = Some a" and "activity_step Silent b a b1 a1"
    and "counters_fit b" and "thr1 = thr(t \<mapsto> a1)"
  shows "system_reachable (b1, thr1)"
  using system_reachable.steps[OF assms(1) silent_step[of thr t a b b1 a1]] assms by simp

lemma start_run:
  assumes "system_reachable (b, thr)" and "thr t = Some a" and "thr u = None"
    and "activity_step (Starts u c) b a b1 a1" and "counters_fit b" and "thr1 = thr(t \<mapsto> a1, u \<mapsto> c)"
  shows "system_reachable (b1, thr1)"
  using system_reachable.steps[OF assms(1) start_step[OF assms(2-5)]] assms(6) by simp

lemma see_run:
  assumes "system_reachable (b, thr)" and "thr t = Some a" and "thr u = Some c"
    and "activity_step (Sees u c) b a b1 a1" and "counters_fit b" and "thr1 = thr(t \<mapsto> a1)"
  shows "system_reachable (b1, thr1)"
  using system_reachable.steps[OF assms(1) see_step[OF assms(2-5)]] assms(6) by simp

lemma request_run:
  assumes "system_reachable (b, thr)" and "thr t = None" and "request a" and "thr1 = thr(t \<mapsto> a)"
  shows "system_reachable (b, thr1)"
  using system_reachable.steps[OF assms(1) request_step[of thr t a b]] assms by simp

text \<open>The backend once the adapter is ready, with the parts the run changes as arguments.\<close>

definition run_backend ::
  "u32 \<Rightarrow> u32 \<Rightarrow> bool \<Rightarrow> monitor_record option \<Rightarrow> monitor_context option \<Rightarrow> arrival_state option \<Rightarrow>
     mode_store \<Rightarrow> backend" where
  "run_backend arrivals departures unhealthy mon context state modes =
     \<lparr>bk_runtime_hdr = True, bk_adapter = Some 0, bk_preferred_render_adapter = zero_luid,
      bk_adapter_ready = True, bk_adapter_init_status = NtSuccess, bk_shutting_down = False,
      bk_arrivals = arrivals, bk_departures = departures, bk_render_calls = 0,
      bk_lifecycle_unhealthy = unhealthy, bk_monitors = Map.empty(7 := mon),
      bk_contexts = Map.empty(0 := context), bk_arrival_states = Map.empty(2 := state), bk_modes = modes\<rparr>"

lemma run_backend_fits [simp]:
  "counters_fit (run_backend n m u mon c st modes) \<longleftrightarrow> n < 0xffffffff \<and> m < 0xffffffff \<and>
     (\<forall>r. mon = Some r \<longrightarrow> mr_assign_callbacks_in_flight r < 0xffffffff \<and>
        mr_unassign_callbacks_in_flight r < 0xffffffff)"
  by (auto simp: counters_fit_def run_backend_def)

abbreviation run_threads :: "arrive_activity \<Rightarrow> arrive_stage \<Rightarrow> threads" where
  "run_threads a stage \<equiv> [0 \<mapsto> Render (RenderReturned BackendNone), 1 \<mapsto> Arrive a, 2 \<mapsto> Worker 2 late_descriptor stage]"

definition fresh_state :: arrival_state where
  "fresh_state = \<lparr>as_result = failed_display, as_worker_done = False, as_caller_timed_out = False\<rparr>"

lemma adapter_ready_run:
  "system_reachable (run_backend 0 0 False None None None Map.empty, [0 \<mapsto> Render (RenderReturned BackendNone)])"
proof -
  let ?b = "fst (initialize_adapter (Inl (Some 0)) (initial_backend True))"
  have "system_reachable (?b, Map.empty)"
    by (rule system_reachable.steps[OF system_reachable.initially field_step]) (rule field_update.intros)
  then have 1: "system_reachable (?b, [0 \<mapsto> Render (AdapterInitFinished NtSuccess)])"
    by (rule request_run) (simp_all add: request.intros)
  show ?thesis
    by (rule silent_run[OF 1, of 0])
       (auto intro!: by_render render_initialised
          simp: adapter_init_finished_def Let_def initialize_adapter_def initial_backend_def run_backend_def
            nt_success_def zero_luid_def counters_fit_def)
qed

text \<open>The records of the run: arriving, arrived, tagged as late, departing.\<close>

definition run_record :: "bool \<Rightarrow> bool \<Rightarrow> bool \<Rightarrow> monitor_record" where
  "run_record arriving late departing =
     (new_record late_descriptor False 0)
       \<lparr>mr_arriving := arriving, mr_orphaned_late_arrival := late, mr_departing := departing\<rparr>"

definition run_context :: monitor_context where
  "run_context = \<lparr>mc_attached = True, mc_display_id = 7, mc_display_generation = 5\<rparr>"

definition late_state :: arrival_state where
  "late_state = fresh_state\<lparr>as_caller_timed_out := True\<rparr>"

lemma registers_run:
  obtains modes where "\<And>n m u mon c st. register_monitor_description_mode late_descriptor
    (run_backend n m u mon c st Map.empty) = (run_backend n m u mon c st modes, True)"
proof -
  let ?m = "mode_shape_from_descriptor late_descriptor"
  have "ms_width ?m \<noteq> 0" "ms_height ?m \<noteq> 0" "ms_refresh_rate_millihz ?m \<noteq> 0" by code_simp+
  then show thesis
    by (intro that) (simp add: register_monitor_description_mode_def Let_def register_mode_def run_backend_def)
qed

lemma run_fields [simp]:
  "dd_display_id late_descriptor = 7" "dd_generation late_descriptor = 5"
  "descriptor_with_runtime_hdr_policy True late_descriptor = late_descriptor"
  "bk_runtime_hdr (run_backend n m u mon c st modes) = True"
  by (simp_all add: late_descriptor_def descriptor_with_runtime_hdr_policy_def run_backend_def)

lemma worker_run:
  assumes "system_reachable (b, run_threads a stage)" and "counters_fit b"
    and "worker_step 2 late_descriptor Silent b stage b1 stage1"
  shows "system_reachable (b1, run_threads a stage1)"
  by (rule silent_run[OF assms(1) _ by_worker[OF assms(3)] assms(2), of 2]) auto

text \<open>Up to the arrival of the monitor.\<close>

lemma started_run:
  "system_reachable (run_backend 1 0 False None None (Some fresh_state) Map.empty,
     run_threads (ArriveAwaiting 2) (StageRegistering False 0))"
proof -
  let ?b = "run_backend 1 0 False None None None Map.empty"
  let ?b1 = "run_backend 1 0 False None None (Some fresh_state) Map.empty"
  have fits: "counters_fit (run_backend 0 0 False None None None Map.empty)" "counters_fit ?b" "counters_fit ?b1" by simp_all
  have 1: "system_reachable (run_backend 0 0 False None None None Map.empty,
      [0 \<mapsto> Render (RenderReturned BackendNone), 1 \<mapsto> Arrive (ArriveRequested late_descriptor False)])"
    by (rule request_run[OF adapter_ready_run, of 1]) (simp_all add: request.intros)
  have 2: "system_reachable (?b,
      [0 \<mapsto> Render (RenderReturned BackendNone), 1 \<mapsto> Arrive (ArriveSpawning late_descriptor False)])"
    by (rule silent_run[OF 1 _ by_arrive[OF arrive_counts] fits(1), where t = 1])
       (auto simp: arrive_display_def run_backend_def)
  have "arrive_step (Starts 2 (Worker 2 late_descriptor (StageChecking False))) ?b
      (ArriveSpawning late_descriptor False) ?b1 (ArriveAwaiting 2)"
    using arrive_spawns[of 2 ?b ?b1 "ArriveAwaiting 2" late_descriptor False]
    by (simp add: arrive_spawned_def run_backend_def fresh_state_def)
  then have 3: "system_reachable (?b1, run_threads (ArriveAwaiting 2) (StageChecking False))"
    by (intro start_run[OF 2 _ _ by_arrive fits(2), of 1]) auto
  have "system_reachable (?b1, run_threads (ArriveAwaiting 2) (StageReserving False))"
    using worker_run[OF 3 fits(3) worker_checks]
    by (simp add: stage_checking_def stale_generation_def run_backend_def)
  then show ?thesis
    using worker_run[OF _ fits(3) worker_reserves] by (simp add: stage_reserving_def run_backend_def)
qed

lemma arrived_run:
  obtains modes where
    "system_reachable (run_backend 1 0 False (Some (run_record False False False)) (Some run_context)
       (Some fresh_state) modes,
     run_threads (ArriveAwaiting 2)
       (StageReporting (Some 0) \<lparr>bdr_error = BackendNone, bdr_os_adapter_luid = zero_luid, bdr_target_id = 9\<rparr>))"
proof -
  let ?B = "\<lambda>mon c modes. run_backend 1 0 False mon c (Some fresh_state) modes"
  obtain modes where modes: "\<And>n m u mon c st. register_monitor_description_mode late_descriptor
    (run_backend n m u mon c st Map.empty) = (run_backend n m u mon c st modes, True)"
    by (rule registers_run) blast
  have r: "new_record late_descriptor False 0 = run_record True False False" "mr_assign_callbacks_in_flight (run_record x y z) = 0"
    "mr_unassign_callbacks_in_flight (run_record x y z) = 0" for x y z
    by (simp_all add: run_record_def new_record_def)
  have 1: "system_reachable (?B None None modes, run_threads (ArriveAwaiting 2) (StageCreating False 0))"
    by (rule worker_run[OF started_run _ worker_registers[of True]]) (simp_all add: stage_registering_def modes)
  have 2: "system_reachable (?B None (Some run_context) modes, run_threads (ArriveAwaiting 2) (StageRecording False 0 0))"
    by (rule worker_run[OF 1 _ worker_creates[of "Some 0"]])
       (simp, auto simp: stage_creating_def run_backend_def run_context_def)
  have 3: "system_reachable (?B (Some (run_record True False False)) (Some run_context) modes,
      run_threads (ArriveAwaiting 2) (StageAnnouncing 0))"
    by (rule worker_run[OF 2 _ worker_records[of True]]) (simp, auto simp: stage_recording_def run_backend_def r)
  have 4: "system_reachable (?B (Some (run_record True False False)) (Some run_context) modes,
      run_threads (ArriveAwaiting 2) (StageConfirming 0 zero_luid 9))"
    by (rule worker_run[OF 3 _ worker_announces[of "Some (zero_luid, 9)"]]) (simp_all add: stage_announcing_def r)
  show thesis
    by (rule that, rule worker_run[OF 4 _ worker_confirms])
       (simp add: r, auto simp: stage_confirming_def find_current_monitor_def with_monitor_def run_backend_def
          run_record_def new_record_def)
qed

text \<open>The caller gives up, and the worker finds out when it reports.\<close>

lemma record_callbacks [simp]:
  "mr_assign_callbacks_in_flight (run_record x y z) = 0" "mr_unassign_callbacks_in_flight (run_record x y z) = 0"
  "mr_swapchain_processor (run_record x y z) = None" "mr_retired_swapchain_processors (run_record x y z) = []"
  "mr_monitor (run_record x y z) = 0" "mr_descriptor (run_record x y z) = late_descriptor"
  "mr_arriving (run_record x y z) = x" "mr_orphaned_late_arrival (run_record x y z) = y"
  "mr_departing (run_record x y z) = z"
  by (simp_all add: run_record_def new_record_def)

lemma late_run:
  obtains modes where
    "system_reachable (run_backend 1 0 True (Some (run_record False True False)) (Some run_context)
       (Some late_state) modes,
     run_threads (ArriveReturned failed_display) (StageLate 0))"
proof -
  let ?B = "\<lambda>u mon st modes. run_backend 1 0 u (Some mon) (Some run_context) (Some st) modes"
  let ?r = "\<lparr>bdr_error = BackendNone, bdr_os_adapter_luid = zero_luid, bdr_target_id = 9\<rparr>"
  obtain modes where 1: "system_reachable (?B False (run_record False False False) fresh_state modes,
      run_threads (ArriveAwaiting 2) (StageReporting (Some 0) ?r))"
    by (rule arrived_run)
  have waited: "arrive_wait_over 2 (?B False (run_record False False False) fresh_state modes) =
      (?B True (run_record False False False) late_state modes, ArriveReturned failed_display)"
    by (simp add: arrive_wait_over_def run_backend_def fresh_state_def late_state_def)
  have 2: "system_reachable (?B True (run_record False False False) late_state modes,
      run_threads (ArriveReturned failed_display) (StageReporting (Some 0) ?r))"
    by (rule silent_run[OF 1 _ by_arrive[OF arrive_waited[OF waited]], of 1]) auto
  have 3: "system_reachable (?B True (run_record False False False) late_state modes,
      run_threads (ArriveReturned failed_display) (StageTagging 0))"
    by (rule worker_run[OF 2 _ worker_reports])
       (simp, auto simp: stage_reporting_def run_backend_def late_state_def)
  show thesis
    by (rule that, rule worker_run[OF 3 _ worker_tags])
       (simp, auto simp: stage_tagging_def with_monitor_def run_backend_def run_record_def new_record_def)
qed

text \<open>The worker takes the monitor down, up to the thread of that departure.\<close>

abbreviation cleaning_backend :: "u32 \<Rightarrow> bool \<Rightarrow> mode_store \<Rightarrow> backend" where
  "cleaning_backend n departing modes \<equiv>
     run_backend 1 n True (Some (run_record False True departing)) (Some run_context) (Some late_state) modes"

abbreviation cleaning_threads :: "depart_activity \<Rightarrow> threads" where
  "cleaning_threads a \<equiv> (run_threads (ArriveReturned failed_display) (StageCleaning 0 3))(3 \<mapsto> Depart a)"

lemma requested_run:
  obtains modes where "system_reachable (cleaning_backend 0 False modes, cleaning_threads (DepartRequested 7 5))"
proof -
  obtain modes where 1: "system_reachable (cleaning_backend 0 False modes,
      run_threads (ArriveReturned failed_display) (StageLate 0))"
    by (rule late_run)
  have clean: "worker_step 2 late_descriptor (Starts 3 (Depart (DepartRequested 7 5))) (cleaning_backend 0 False modes)
      (StageLate 0) (cleaning_backend 0 False modes) (StageCleaning 0 3)"
    using worker_cleans[of 2 late_descriptor 3 "cleaning_backend 0 False modes" 0] by simp
  show thesis by (rule that, rule start_run[OF 1 _ _ by_worker[OF clean], of 2]) auto
qed

lemma claiming_run:
  "backend_depart_display 7 5 (cleaning_backend 0 False modes) = (cleaning_backend 0 True modes, DepartStopping 7 5 0 None [])"
  by (auto simp: backend_depart_display_def Let_def callbacks_in_flight_def take_processors_def with_monitor_def
      run_backend_def run_record_def new_record_def)

lemma departing_run:
  obtains modes where "system_reachable (cleaning_backend 1 True modes, cleaning_threads (DepartSpawning 7 5 0))"
proof -
  obtain modes where 2: "system_reachable (cleaning_backend 0 False modes, cleaning_threads (DepartRequested 7 5))"
    by (rule requested_run)
  have 3: "system_reachable (cleaning_backend 0 True modes, cleaning_threads (DepartStopping 7 5 0 None []))"
    by (rule silent_run[OF 2 _ by_depart[OF depart_enters[OF claiming_run]], of 3]) auto
  have stops: "depart_display_stop (\<lambda>p. True) 7 5 0 None [] (cleaning_backend 0 True modes) = (cleaning_backend 0 True modes, DepartCalling 7 5 0)"
    by (simp add: depart_display_stop_def unstopped_def)
  have 4: "system_reachable (cleaning_backend 0 True modes, cleaning_threads (DepartCalling 7 5 0))"
    by (rule silent_run[OF 3 _ by_depart[OF depart_stops[OF stops]], of 3]) auto
  have counted: "depart_monitor_with_timeout 7 5 0 (cleaning_backend 0 True modes) = (cleaning_backend 1 True modes, DepartSpawning 7 5 0)"
    by (simp add: depart_monitor_with_timeout_def run_backend_def)
  show thesis
    by (rule that, rule silent_run[OF 4 _ by_depart[OF depart_counts[OF counted]], of 3]) auto
qed

section \<open>Departures\<close>

text \<open>
  C14: When the departure thread of a monitor is about to call into the display stack, the monitor
  it was given is still the recorded one for that display, of the generation the departure was
  asked for; it has arrived, no swapchain worker is attached to it or retired on it, no swapchain
  callback is inside it, and no second thread departs the same display.
\<close>

theorem departure_takes_a_quiet_monitor:
  assumes "system_reachable (b, thr)" and "thr t = Some (Depart (DepartWorker i g h))"
  shows "(\<exists>r. bk_monitors b i = Some r \<and> mr_monitor r = h \<and> mr_departing r \<and> \<not> mr_arriving r \<and>
       mr_swapchain_processor r = None \<and> mr_retired_swapchain_processors r = [] \<and>
       mr_assign_callbacks_in_flight r = 0 \<and> mr_unassign_callbacks_in_flight r = 0 \<and>
       (g = 0 \<or> dd_generation (mr_descriptor r) = 0 \<or> dd_generation (mr_descriptor r) = g)) \<and>
     (\<forall>u g1 h1. thr u = Some (Depart (DepartWorker i g1 h1)) \<longrightarrow> u = t)"
proof -
  have inv: "table_inv (bk_monitors b, handles b, roles thr)"
    using reachable_table[OF assms(1)] by (simp add: table_of_def)
  note C = table_invD(3)[OF inv]
  have role: "roles thr t = Claiming i g h True" using assms(2) by (simp add: roles_at)
  obtain r where "bk_monitors b i = Some r" "mr_monitor r = h" "mr_departing r" "\<not> mr_arriving r" "fenced g r" "settled r"
    using claim_record[OF C role] by blast
  moreover have "u = t" if "thr u = Some (Depart (DepartWorker i g1 h1))" for u g1 h1
    using claim_unique[OF C, of u i t] role that by (simp add: roles_at)
  ultimately show ?thesis by (auto simp: settled_def fenced_def generation_of_def)
qed

theorem departure_takes_a_quiet_monitor_witness:
  "\<exists>(b :: backend) (thr :: threads). thr 4 = Some (Depart (DepartWorker 7 5 0)) \<and>
     (\<exists>r. bk_monitors b 7 = Some r \<and> mr_monitor r = 0 \<and> mr_departing r \<and> mr_retired_swapchain_processors r = [])"
proof -
  obtain modes where run: "system_reachable (run_backend 1 1 True (Some (run_record False True True)) (Some run_context)
       (Some late_state) modes,
     (run_threads (ArriveReturned failed_display) (StageCleaning 0 3))(3 \<mapsto> Depart (DepartSpawning 7 5 0)))"
    by (rule departing_run)
  let ?b = "run_backend 1 1 True (Some (run_record False True True)) (Some run_context) (Some late_state) modes"
  let ?T = "(run_threads (ArriveReturned failed_display) (StageCleaning 0 3))
      (3 \<mapsto> Depart (DepartAwaiting 4), 4 \<mapsto> Depart (DepartWorker 7 5 0))"
  have spawned: "system_reachable (?b, ?T)"
    by (rule start_run[OF run _ _ by_depart[OF depart_spawns[of 4 7 5 0]], of 3]) auto
  have "?T 4 = Some (Depart (DepartWorker 7 5 0))" by simp
  then show ?thesis using departure_takes_a_quiet_monitor[OF spawned, of 4 7 5 0] by blast
qed

section \<open>Health, late arrivals and shutdown\<close>

text \<open>
  C16: The counters of arrivals, departures and render adapter calls in flight are exactly the
  numbers of threads inside such an operation, and the backend calls itself unhealthy only while
  one of these threads still runs: no timeout, however it races with the thread it waited for,
  leaves the flag set with nobody to clear it.
\<close>

theorem unhealthy_only_while_busy:
  assumes "system_reachable (b, thr)"
  shows "unat (bk_arrivals b) = card {t. \<exists>a. thr t = Some a \<and> arrival_live a} \<and>
    unat (bk_departures b) = card {t. \<exists>a. thr t = Some a \<and> departure_live a} \<and>
    unat (bk_render_calls b) = card {t. \<exists>a. thr t = Some a \<and> render_live a} \<and>
    (bk_lifecycle_unhealthy b \<longrightarrow>
       (\<exists>t a. thr t = Some a \<and> (arrival_live a \<or> departure_live a \<or> render_live a)))"
proof -
  have c: "unat (bk_arrivals b) = card (running arrival_live thr)"
    "unat (bk_departures b) = card (running departure_live thr)"
    "unat (bk_render_calls b) = card (running render_live thr)"
    using counters_reachable[OF assms] by (simp_all add: counters_ok_def counts_def)
  have "\<exists>t a. thr t = Some a \<and> (arrival_live a \<or> departure_live a \<or> render_live a)"
    if unhealthy: "bk_lifecycle_unhealthy b"
  proof -
    have "lifecycle_in_flight b" using healthy_reachable[OF assms] unhealthy by (simp add: healthy_ok_def)
    then have "card (running arrival_live thr) > 0 \<or> card (running departure_live thr) > 0 \<or>
        card (running render_live thr) > 0"
      by (auto simp: lifecycle_in_flight_def c[symmetric] word_gt_0 unat_gt_0)
    then show ?thesis by (auto elim!: running_ex)
  qed
  then show ?thesis using c by (simp add: running_def)
qed

theorem unhealthy_only_while_busy_witness:
  "\<exists>(b :: backend) (thr :: threads). bk_lifecycle_unhealthy b \<and> bk_departures b = 1 \<and>
     (\<exists>t a. thr t = Some a \<and> (arrival_live a \<or> departure_live a \<or> render_live a))"
proof -
  obtain modes thr where run: "system_reachable (run_backend 1 1 True (Some (run_record False True True))
      (Some run_context) (Some late_state) modes, thr)"
    using departing_run by blast
  let ?b = "run_backend 1 1 True (Some (run_record False True True)) (Some run_context) (Some late_state) modes"
  have "bk_lifecycle_unhealthy ?b" "bk_departures ?b = 1" by (simp_all add: run_backend_def)
  then show ?thesis using unhealthy_only_while_busy[OF run] by blast
qed

text \<open>
  C17: A monitor that arrived after its caller gave up is not forgotten. When its worker is done and
  the monitor is still there (its departure failed), it is tagged as orphaned, and unless a thread
  is departing it, the next periodic cleanup retries its departure, fenced by its own generation.
\<close>

theorem late_arrival_is_never_forgotten:
  assumes "system_reachable (b, thr)" and "thr w = Some (Worker w d (StageFinished (Some h) abandoned))"
    and "bk_arrival_states b w = Some st" and "as_caller_timed_out st"
    and "bk_monitors b i = Some r" and "mr_monitor r = h"
  shows "mr_orphaned_late_arrival r \<and>
    (mr_departing r \<or>
     (\<exists>todo. snd (cleanup_finished_retired_swapchains stopped b) = CleanupRetrying todo \<and>
        (i, dd_generation (mr_descriptor r)) \<in> set todo))"
proof -
  have states: "states_ok b thr" using arrivals_reachable[OF assms(1)] by (simp add: arrivals_ok_def)
  have "stage_agrees (StageFinished (Some h) abandoned) st"
    using statesD(1)[OF states assms(3)] assms(2) by auto
  then have abandoned using assms(4) by (auto split: if_splits)
  then have role: "roles thr w = Carrying (dd_display_id d) (dd_generation d) h Tagged"
    using assms(2) by (simp add: roles_at)
  have workers: "workers_ok (bk_monitors b) (roles thr)"
    using reachable_table[OF assms(1)] by (simp add: table_of_def table_inv_def)
  have tagged: "mr_orphaned_late_arrival r" using workersD(6)[OF workers role assms(5,6)] .
  moreover have "(i, dd_generation (mr_descriptor r)) \<in>
      set (map (\<lambda>i. (i, dd_generation (mr_descriptor (the (bk_monitors b i)))))
        (monitor_ids (\<lambda>r. mr_orphaned_late_arrival r \<and> \<not> mr_departing r) b))" if "\<not> mr_departing r"
    using tagged that assms(5) by (force simp: monitor_ids_def)
  ultimately show ?thesis by (auto simp: cleanup_finished_retired_swapchains_def)
qed

theorem late_arrival_is_never_forgotten_witness:
  "\<exists>(b :: backend) (thr :: threads). thr 2 = Some (Worker 2 late_descriptor (StageFinished (Some 0) True)) \<and>
     bk_monitors b 7 = Some (run_record False True False) \<and>
     (\<exists>todo. snd (cleanup_finished_retired_swapchains (\<lambda>p. False) b) = CleanupRetrying todo \<and> (7, 5) \<in> set todo)"
proof -
  let ?B = "\<lambda>n m u x modes. run_backend n m u (Some (run_record False True x)) (Some run_context) (Some late_state) modes"
  let ?T = "\<lambda>stage a. (run_threads (ArriveReturned failed_display) stage)(3 \<mapsto> Depart a)"
  obtain modes where 1: "system_reachable (?B 1 1 True True modes, ?T (StageCleaning 0 3) (DepartSpawning 7 5 0))"
    by (rule departing_run)
  have failed: "depart_spawn_failed 7 0 (?B 1 1 True True modes) = (?B 1 0 True False modes, DepartReturned BackendFailed)"
    by (auto simp: depart_spawn_failed_def finish_monitor_departure_def find_current_monitor_def with_monitor_def
        clear_unhealthy_if_settled_def Let_def run_backend_def run_record_def new_record_def)
  have 2: "system_reachable (?B 1 0 True False modes, ?T (StageCleaning 0 3) (DepartReturned BackendFailed))"
    by (rule silent_run[OF 1 _ by_depart[OF depart_no_thread[OF failed]], of 3]) auto
  have 3: "system_reachable (?B 1 0 True False modes, ?T (StageFinishing (Some 0) True) (DepartReturned BackendFailed))"
    by (rule see_run[OF 2 _ _ by_worker[OF worker_cleaned], of 2]) auto
  have over: "finish_monitor_arrival (?B 1 0 True False modes) = ?B 0 0 False False modes"
    by (simp add: finish_monitor_arrival_def clear_unhealthy_if_settled_def run_backend_def)
  let ?t = "?T (StageFinished (Some 0) True) (DepartReturned BackendFailed)"
  have 4: "system_reachable (?B 0 0 False False modes, ?t)"
    by (rule silent_run[OF 3 _ by_worker[OF worker_finishes[of 2 late_descriptor "?B 1 0 True False modes" "Some 0" True,
        unfolded over]], of 2]) auto
  have at: "?t 2 = Some (Worker 2 late_descriptor (StageFinished (Some 0) True))"
    "bk_arrival_states (?B 0 0 False False modes) 2 = Some late_state" "as_caller_timed_out late_state"
    "bk_monitors (?B 0 0 False False modes) 7 = Some (run_record False True False)"
    by (simp_all add: run_backend_def late_state_def)
  show ?thesis
    using late_arrival_is_never_forgotten[OF 4 at, of "\<lambda>p. False"] at(1,4) by fastforce
qed

text \<open>
  C18: A completed shutdown is final: once a shutdown has reported success, in every later state the
  backend has no monitor left and no departure in flight, whatever arrivals were requested since.
\<close>

theorem shutdown_is_final:
  assumes "system_reachable (b, thr)" and "thr t = Some (Device (ShutdownReturned True))"
  shows "bk_shutting_down b \<and> bk_monitors b = Map.empty \<and> bk_departures b = 0"
proof -
  have ok: "shutdown_ok b thr" using shutdown_reachable[OF assms(1)] by simp
  have empty: "bk_monitors b = Map.empty" and down: "bk_shutting_down b"
    using shutdownD[OF ok assms(2)] by (simp_all add: closing_def)
  have "claims_ok (bk_monitors b) (roles thr)"
    using reachable_table[OF assms(1)] by (simp add: table_of_def table_inv_def)
  then have unclaimed: "claimed (roles thr u) \<noteq> Some i" for u i
    using claims_absent[of "bk_monitors b" "roles thr" i u] empty by simp
  have "\<not> departure_live a" if "thr u = Some a" for u a
    using unclaimed[of u] that by (cases a rule: departure_live.cases) (auto simp: roles_def)
  then have "running departure_live thr = {}" by (auto simp: running_def)
  then have "bk_departures b = 0"
    using counters_reachable[OF assms(1)] by (simp add: counters_ok_def counts_def unat_eq_zero)
  then show ?thesis using empty down by simp
qed

theorem shutdown_is_final_witness:
  "\<exists>(b :: backend) (thr :: threads). thr 1 = Some (Device (ShutdownReturned True)) \<and>
     bk_adapter_ready b \<and> bk_shutting_down b \<and> bk_monitors b = Map.empty"
proof -
  let ?b = "run_backend 0 0 False None None None Map.empty"
  let ?c = "?b\<lparr>bk_shutting_down := True\<rparr>"
  let ?T = "\<lambda>a. [0 \<mapsto> Render (RenderReturned BackendNone), 1 \<mapsto> Device a]"
  have fits: "counters_fit ?b" "counters_fit ?c" by (simp_all add: counters_fit_def run_backend_def)
  have steps: "device_step Silent ?b ShutdownRequested ?c ShutdownCollecting"
    "device_step Silent ?c ShutdownCollecting ?c (ShutdownDeparting [] [])"
    "device_step Silent ?c (ShutdownDeparting [] []) ?c ShutdownSettling"
    "device_step Silent ?c ShutdownSettling ?c (ShutdownReturned True)"
    using shutdown_begins[of ?b] shutdown_collects[of ?c] shutdown_detaches[of "[]" ?c] shutdown_settles[of ?c]
    by (simp_all add: shutdown_begin_def lifecycle_in_flight_def shutdown_collect_def monitor_ids_def
        shutdown_detach_def shutdown_settle_def run_backend_def fun_eq_iff)
  have 1: "system_reachable (?b, ?T ShutdownRequested)"
    by (rule request_run[OF adapter_ready_run, of 1]) (simp_all add: request.intros)
  have 2: "system_reachable (?c, ?T ShutdownCollecting)"
    by (rule silent_run[OF 1 _ by_device[OF steps(1)] fits(1), of 1]) auto
  have 3: "system_reachable (?c, ?T (ShutdownDeparting [] []))"
    by (rule silent_run[OF 2 _ by_device[OF steps(2)] fits(2), of 1]) auto
  have 4: "system_reachable (?c, ?T ShutdownSettling)"
    by (rule silent_run[OF 3 _ by_device[OF steps(3)] fits(2), of 1]) auto
  have 5: "system_reachable (?c, ?T (ShutdownReturned True))"
    by (rule silent_run[OF 4 _ by_device[OF steps(4)] fits(2), of 1]) auto
  have at: "?T (ShutdownReturned True) 1 = Some (Device (ShutdownReturned True))" "bk_adapter_ready ?c"
    by (simp_all add: run_backend_def)
  show ?thesis using shutdown_is_final[OF 5 at(1)] at by blast
qed

text \<open>
  C19: The code of the backend implements the protocol of its monitor table: from every reachable
  state, every step of the system (any section of any thread, any outcome of a system call, any
  timeout) is a step of the protocol, which knows neither threads' locals nor results, only who
  holds which monitor.
\<close>

theorem backend_implements_protocol:
  assumes "system_reachable s" and "system_step s s1"
  shows "table_step (table_of s) (table_of s1)"
  by (rule system_refines[OF assms(2) reachable_table[OF assms(1)]])

theorem backend_implements_protocol_witness:
  "\<exists>modes. table_step
     (table_of (cleaning_backend 0 False modes, cleaning_threads (DepartRequested 7 5)))
     (table_of (cleaning_backend 0 True modes, cleaning_threads (DepartStopping 7 5 0 None [])))"
proof -
  obtain modes where run: "system_reachable (cleaning_backend 0 False modes, cleaning_threads (DepartRequested 7 5))"
    by (rule requested_run)
  have "system_step (cleaning_backend 0 False modes, cleaning_threads (DepartRequested 7 5))
      (cleaning_backend 0 True modes, (cleaning_threads (DepartRequested 7 5))(3 \<mapsto> Depart (DepartStopping 7 5 0 None [])))"
    by (rule silent_step[OF _ by_depart[OF depart_enters[OF claiming_run]]]) simp_all
  then show ?thesis using backend_implements_protocol[OF run] by (metis fun_upd_upd)
qed

end
