(* ===== verification/Monitor_Progress.thy ===== *)
theory Monitor_Progress
  imports Monitor_Safety
begin

text \<open>
  Departures come to an end: a departing monitor is always in the hands of one thread that has a turn
  to take, and a few turns of the threads that hold it release it, whatever the others do.
\<close>

section \<open>The thread that holds a departing monitor\<close>

text \<open>A step that thread \<open>t\<close> takes.\<close>

inductive thread_step :: "thread \<Rightarrow> system \<Rightarrow> system \<Rightarrow> bool" for t :: thread where
  own_silent: "thr t = Some a \<Longrightarrow> activity_step Silent b a b1 a1 \<Longrightarrow> counters_fit b \<Longrightarrow>
    thread_step t (b, thr) (b1, thr(t \<mapsto> a1))"
| own_start: "thr t = Some a \<Longrightarrow> thr u = None \<Longrightarrow> activity_step (Starts u c) b a b1 a1 \<Longrightarrow>
    counters_fit b \<Longrightarrow> thread_step t (b, thr) (b1, thr(t \<mapsto> a1, u \<mapsto> c))"
| own_see: "thr t = Some a \<Longrightarrow> thr u = Some c \<Longrightarrow> activity_step (Sees u c) b a b1 a1 \<Longrightarrow>
    counters_fit b \<Longrightarrow> thread_step t (b, thr) (b1, thr(t \<mapsto> a1))"

lemma thread_step_system: "thread_step t s s1 \<Longrightarrow> system_step s s1"
  by (induction rule: thread_step.induct) (auto intro: system_step.intros)

text \<open>The turns a thread still has to take before it lets go of monitor \<open>h\<close> of display \<open>i\<close>.\<close>

fun departure_turns :: "depart_activity \<Rightarrow> nat" where
  "departure_turns (DepartWaiting i g h) = 6"
| "departure_turns (DepartStopping i g h p ps) = 5"
| "departure_turns (DepartCalling i g h) = 4"
| "departure_turns (DepartSpawning i g h) = 3"
| "departure_turns (DepartWorker i g h) = 2"
| "departure_turns (DepartWorkerReturned i g h success) = 1"
| "departure_turns _ = 0"

definition holder :: "u64 \<Rightarrow> monitor \<Rightarrow> threads \<Rightarrow> thread \<Rightarrow> nat \<Rightarrow> bool" where
  "holder i h thr t n \<longleftrightarrow> (\<exists>x g q. thr t = Some (Depart x) \<and> depart_role x = Claiming i g h q \<and>
     departure_turns x = n)"

definition departing :: "u64 \<Rightarrow> monitor \<Rightarrow> backend \<Rightarrow> bool" where
  "departing i h b \<longleftrightarrow> (\<exists>r. bk_monitors b i = Some r \<and> mr_monitor r = h \<and> mr_departing r)"

lemma holder_exists:
  assumes "system_reachable (b, thr)" and "departing i h b"
  obtains t n where "holder i h thr t n"
proof -
  have "claims_ok (bk_monitors b) (roles thr)"
    using reachable_table[OF assms(1)] by (simp add: table_of_def table_inv_def)
  moreover obtain r where "bk_monitors b i = Some r" "mr_monitor r = h" "mr_departing r"
    using assms(2) unfolding departing_def by blast
  ultimately obtain t g q where role: "roles thr t = Claiming i g h q"
    unfolding claims_ok_def by metis
  then obtain a where a: "thr t = Some a" "role a = Claiming i g h q" by (auto simp: roles_def split: option.splits)
  then obtain x where "a = Depart x" "depart_role x = Claiming i g h q"
    by (cases a) (auto elim: stage_role.elims swapchain_role.elims)
  then show thesis using that a(1) unfolding holder_def by blast
qed

lemma holder_unique:
  assumes "system_reachable (b, thr)" and "holder i h thr t n" and "holder i h thr u m"
  shows "t = u \<and> n = m"
proof -
  have C: "claims_ok (bk_monitors b) (roles thr)"
    using reachable_table[OF assms(1)] by (simp add: table_of_def table_inv_def)
  have "t = u"
    by (rule claim_unique[OF C, of t i u]) (use assms(2,3) in \<open>auto simp: holder_def roles_at\<close>)
  then show ?thesis using assms(2,3) by (auto simp: holder_def)
qed

lemma holder_turns: "holder i h thr t n \<Longrightarrow> 0 < n \<and> n \<le> 6"
  unfolding holder_def by (elim exE conjE, rename_tac x g q, case_tac x) auto

text \<open>The holder is never blocked: each of its turns can be taken whatever the others do.\<close>

lemma holder_enabled:
  assumes "holder i h thr t n" and "counters_fit b"
  shows "\<exists>s1. thread_step t (b, thr) s1"
proof -
  obtain x g q where x: "thr t = Some (Depart x)" "depart_role x = Claiming i g h q"
    using assms(1) unfolding holder_def by blast
  have "\<exists>b1 x1. depart_step Silent b x b1 x1"
    using x(2) by (cases x) (auto intro: depart_resumes[OF surjective_pairing] depart_stops[OF surjective_pairing]
        depart_counts[OF surjective_pairing] depart_no_thread[OF surjective_pairing] depart_call_returns
        depart_finishes[OF surjective_pairing])
  then show ?thesis using own_silent[where thr = thr and t = t, OF x(1) by_depart assms(2)] by blast
qed

text \<open>A turn of the holder releases the monitor or brings it closer to its release.\<close>

lemma silent_turn:
  assumes "depart_step Silent b x b1 x1" and "depart_role x = Claiming i g h q" and "departing i h b"
    and "departing i h b1"
  shows "(\<exists>g q. depart_role x1 = Claiming i g h q) \<and> departure_turns x1 < departure_turns x"
  using assms(1)
proof cases
  case (depart_resumes i g h)
  then show ?thesis using assms(2-4)
    by (auto simp: depart_display_resume_def find_current_monitor_def departing_def take_processors_def
        with_monitor_def split: option.splits if_splits)
next
  case (depart_stops stopped i g h p ps)
  then show ?thesis using assms(2-4)
    by (auto simp: depart_display_stop_def find_current_monitor_def departing_def with_monitor_def Let_def
        split: option.splits if_splits)
next
  case (depart_counts i g h)
  then show ?thesis using assms(2) by (auto simp: depart_monitor_with_timeout_def)
next
  case (depart_no_thread i h g)
  then show ?thesis using assms(2-4)
    by (auto simp: departing_def depart_spawn_failed_def finish_departure_table)
next
  case (depart_finishes i h success g)
  then show ?thesis using assms(2-4)
    by (auto simp: departing_def depart_worker_finish_def case_prod_beta finish_departure_table split: if_splits option.splits)
qed (use assms(2) in auto)

lemma holder_turn:
  assumes "thread_step t (b, thr) (b1, thr1)" and "holder i h thr t n"
    and "departing i h b" and "departing i h b1"
  shows "\<exists>u m. holder i h thr1 u m \<and> m < n"
proof -
  obtain x g q where x: "thr t = Some (Depart x)" "depart_role x = Claiming i g h q" "departure_turns x = n"
    using assms(2) unfolding holder_def by blast
  show ?thesis using assms(1)
  proof cases
    case (own_silent a a1)
    then obtain x1 where x1: "depart_step Silent b x b1 x1" "a1 = Depart x1"
      using x(1) by (auto elim: activity_step.cases)
    then show ?thesis using silent_turn[OF x1(1) x(2) assms(3,4)] own_silent x(3)
      by (auto simp: holder_def intro!: exI[of _ t])
  next
    case (own_start a u c a1)
    then have "depart_step (Starts u c) b x b1 (case a1 of Depart y \<Rightarrow> y)"
      using x(1) by (auto elim: activity_step.cases)
    then show ?thesis using own_start x by (cases) (auto simp: holder_def intro!: exI[of _ u])
  next
    case (own_see a u c a1)
    then have "depart_step (Sees u c) b x b1 (case a1 of Depart y \<Rightarrow> y)"
      using x(1) by (auto elim: activity_step.cases)
    then show ?thesis using x by cases auto
  qed
qed

lemma others_turn:
  assumes "system_step (b, thr) (b1, thr1)" and "\<not> thread_step t (b, thr) (b1, thr1)" and "holder i h thr t n"
  shows "holder i h thr1 t n"
proof -
  obtain x where x: "thr t = Some x" using assms(3) by (auto simp: holder_def)
  have "thr1 t = thr t" using assms(1)
  proof cases
    case (silent_step u a a1)
    then show ?thesis using assms(2) own_silent[of thr t a b b1 a1] by (cases "u = t") auto
  next
    case (start_step u a v c a1)
    then show ?thesis using assms(2) own_start[of thr t a v c b b1 a1] x by (cases "u = t"; cases "v = t") auto
  next
    case (see_step u a v c a1)
    then show ?thesis using assms(2) own_see[of thr t a v c b b1 a1] by (cases "u = t") auto
  qed (use x in auto)
  then show ?thesis using assms(3) by (simp add: holder_def)
qed

section \<open>Release\<close>

text \<open>
  \<open>still_departing i h n s s1\<close>: a run from \<open>s\<close> to \<open>s1\<close> during which monitor \<open>h\<close> of display \<open>i\<close> stays
  marked as departing, and in which the threads that hold it take at least \<open>n\<close> turns.
\<close>

inductive still_departing :: "u64 \<Rightarrow> monitor \<Rightarrow> nat \<Rightarrow> system \<Rightarrow> system \<Rightarrow> bool"
  for i :: u64 and h :: monitor where
  begins: "departing i h (fst s) \<Longrightarrow> still_departing i h 0 s s"
| holder_moves: "still_departing i h n s s1 \<Longrightarrow> holder i h (snd s1) t m \<Longrightarrow> thread_step t s1 s2 \<Longrightarrow>
    departing i h (fst s2) \<Longrightarrow> still_departing i h (Suc n) s s2"
| anyone_moves: "still_departing i h n s s1 \<Longrightarrow> system_step s1 s2 \<Longrightarrow> departing i h (fst s2) \<Longrightarrow>
    still_departing i h n s s2"

lemma still_departing_rank:
  assumes "still_departing i h n s s1" and "system_reachable s"
  shows "system_reachable s1 \<and> departing i h (fst s1) \<and> (\<exists>t m. holder i h (snd s1) t m \<and> n + m \<le> 6)"
  using assms
proof (induction rule: still_departing.induct)
  case (begins s)
  obtain t m where "holder i h (snd s) t m" by (rule holder_exists[of "fst s" "snd s" i h]) (use begins in auto)
  then show ?case using begins holder_turns[of i h "snd s" t m] by auto
next
  case (holder_moves n s s1 t m s2)
  then obtain u k where u: "holder i h (snd s1) u k" "n + k \<le> 6" "departing i h (fst s1)" "system_reachable s1" by blast
  have "u = t \<and> k = m"
    using holder_unique[of "fst s1" "snd s1" i h u k t m] u holder_moves(2) by simp
  then obtain v j where "holder i h (snd s2) v j" "j < k"
    using holder_turn[of t "fst s1" "snd s1" "fst s2" "snd s2" i h m] holder_moves(2-4) u(3) by auto
  then show ?case
    using u(2,4) holder_moves(3,4) system_reachable.steps[OF u(4) thread_step_system[OF holder_moves(3)]]
    by (intro conjI exI[of _ v] exI[of _ j]) auto
next
  case (anyone_moves n s s1 s2)
  then obtain t m where t: "holder i h (snd s1) t m" "n + m \<le> 6" "departing i h (fst s1)" "system_reachable s1" by blast
  have "\<exists>v j. holder i h (snd s2) v j \<and> j \<le> m"
  proof (cases "thread_step t s1 s2")
    case True
    then show ?thesis
      using holder_turn[of t "fst s1" "snd s1" "fst s2" "snd s2" i h m] t(1,3) anyone_moves(3) by fastforce
  next
    case False
    then show ?thesis
      using others_turn[of "fst s1" "snd s1" "fst s2" "snd s2" t i h m] t(1) anyone_moves(2) by auto
  qed
  then obtain v j where "holder i h (snd s2) v j" "j \<le> m" by blast
  then show ?case
    using t(2) anyone_moves(3) system_reachable.steps[OF t(4) anyone_moves(2)]
    by (intro conjI exI[of _ v] exI[of _ j]) auto
qed

text \<open>
  C15: A monitor that is marked as departing is not stuck. As long as it is, exactly one thread
  holds it (the caller of the departure, or the worker that caller has handed it to), and that thread
  has a turn it can take whatever the other threads do or fail to do: it waits for none of them, only
  for the end of its own bounded waits and of the call into the display framework (as long as no
  counter of the backend is at its maximum). And every turn counts:
  however the turns of the others lie between them and whatever the system calls answer, no run
  contains six turns of the holders without the monitor being released (its departure mark taken
  back, or its record removed), so that a later departure may be tried again.
\<close>

theorem departing_monitor_is_released:
  assumes "system_reachable s" and "still_departing i h n s s1"
  shows "n < 6 \<and>
    (\<exists>!t. \<exists>m. holder i h (snd s1) t m) \<and>
    (\<forall>t m. holder i h (snd s1) t m \<longrightarrow> counters_fit (fst s1) \<longrightarrow> (\<exists>s2. thread_step t s1 s2))"
proof -
  obtain t m where t: "holder i h (snd s1) t m" "n + m \<le> 6" "system_reachable s1"
    using still_departing_rank[OF assms(2,1)] by blast
  have "n < 6" using t(2) holder_turns[OF t(1)] by simp
  moreover have "\<exists>!t. \<exists>m. holder i h (snd s1) t m"
    using t(1) holder_unique[of "fst s1" "snd s1" i h] t(3) by (metis prod.collapse)
  moreover have "\<exists>s2. thread_step u s1 s2" if "holder i h (snd s1) u k" "counters_fit (fst s1)" for u k
    using holder_enabled[OF that] by simp
  ultimately show ?thesis by blast
qed

text \<open>The departure of the late monitor: its thread hands it to a worker, which can take the next turn.\<close>

theorem departing_monitor_is_released_witness:
  "\<exists>s s1 s2. still_departing 7 0 1 s s1 \<and> holder 7 0 (snd s1) 4 2 \<and> thread_step 4 s1 s2"
proof -
  obtain modes where run: "system_reachable (cleaning_backend 1 True modes, cleaning_threads (DepartSpawning 7 5 0))"
    by (rule departing_run)
  let ?b = "cleaning_backend 1 True modes"
  let ?s = "(?b, cleaning_threads (DepartSpawning 7 5 0))"
  let ?T = "(cleaning_threads (DepartSpawning 7 5 0))(3 \<mapsto> Depart (DepartAwaiting 4), 4 \<mapsto> Depart (DepartWorker 7 5 0))"
  have held: "departing 7 0 ?b" by (simp add: departing_def run_backend_def run_record_def new_record_def)
  have turn: "thread_step 3 ?s (?b, ?T)"
    by (rule own_start[OF _ _ by_depart[OF depart_spawns[of 4 7 5 0]]]) auto
  have "holder 7 0 (snd ?s) 3 3" by (auto simp: holder_def)
  then have still: "still_departing 7 0 1 ?s (?b, ?T)"
    using still_departing.holder_moves[OF still_departing.begins _ turn] held by simp
  have "holder 7 0 (snd (?b, ?T)) 4 2" by (auto simp: holder_def)
  moreover have "counters_fit (fst (?b, ?T))" by simp
  ultimately show ?thesis using departing_monitor_is_released[OF run still] still by blast
qed

end
