(* ===== verification/Device_State.thy ===== *)
theory Device_State
  imports Ioctl_Dispatcher Frame_Ring Monitor_Callbacks
begin

unbundle bit_operations_syntax

text \<open>
  The device object of the Windows driver (\<open>DeviceState\<close> and the control entry point of
  \<open>driver_main.cpp\<close>): it puts the monitor backend, the controller with its dispatcher and the
  frame ring server behind one lock, refuses most requests while the backend is unhealthy, and
  answers the frame transport requests itself, against the monitor that is up. The build flag
  \<open>VDD_ENABLE_FRAME_TRANSPORT\<close> is on.

  What the swapchain worker threads publish (the surface mode last seen and the adapter of a ready
  device) is given by two functions of the processor; the result of locking, of identifying the
  requesting process and of importing the ring are arguments.
\<close>

section \<open>The monitor behind a ring\<close>

record texture_desc =
  td_width :: u32
  td_height :: u32
  td_mip_levels :: u32
  td_array_size :: u32
  td_sample_count :: u32
  td_sample_quality :: u32
  td_format :: u32

record surface_mode =
  sm_width :: u32
  sm_height :: u32
  sm_adapter_luid :: adapter_luid
  sm_format :: u32
  sm_color_space :: u32

text \<open>
  \<open>desc\<close>: the description of the acquired surface, if it is a texture. The mode of the previous
  surface does not survive an unsupported one. 87 and 10 are \<open>DXGI_FORMAT_B8G8R8A8_UNORM\<close> and
  \<open>DXGI_FORMAT_R16G16B16A16_FLOAT\<close>.
\<close>

definition record_frame_transport_surface_mode ::
  "texture_desc option \<Rightarrow> adapter_luid \<Rightarrow> surface_mode option" where
  "record_frame_transport_surface_mode desc render_adapter_luid =
     (case desc of
        None \<Rightarrow> None
      | Some d \<Rightarrow>
          if td_width d < kMinWidth \<or> td_width d > kMaxWidth \<or>
             td_height d < kMinHeight \<or> td_height d > kMaxHeight \<or>
             td_mip_levels d \<noteq> 1 \<or> td_array_size d \<noteq> 1 \<or> td_sample_count d \<noteq> 1 \<or> td_sample_quality d \<noteq> 0
          then None
          else
            let mode = (\<lambda>color_space. \<lparr>sm_width = td_width d, sm_height = td_height d,
                  sm_adapter_luid = render_adapter_luid, sm_format = td_format d,
                  sm_color_space = color_space\<rparr>) in
            if td_format d = 87 then Some (mode 0)
            else if td_format d = 10 then Some (mode 1) else None)"

text \<open>The lookup shared by the two queries: only the live temporary monitor of this generation.\<close>

definition frame_monitor :: "u64 \<Rightarrow> u64 \<Rightarrow> backend \<Rightarrow> (monitor_record \<times> processor) option" where
  "frame_monitor display_id display_generation b =
     (case bk_monitors b display_id of
        None \<Rightarrow> None
      | Some record \<Rightarrow>
          if mr_departing record \<or> mr_permanent record \<or>
             dd_generation (mr_descriptor record) \<noteq> display_generation then None
          else map_option (Pair record) (mr_swapchain_processor record))"

definition frame_import_device_for ::
  "(processor \<Rightarrow> adapter_luid option) \<Rightarrow> u64 \<Rightarrow> u64 \<Rightarrow> adapter_luid \<Rightarrow> backend \<Rightarrow> bool" where
  "frame_import_device_for ready_device display_id display_generation luid b =
     (case frame_monitor display_id display_generation b of
        None \<Rightarrow> False
      | Some (record, p) \<Rightarrow> ready_device p = Some luid)"

definition backend_frame_transport_target ::
  "(processor \<Rightarrow> surface_mode option) \<Rightarrow> u64 \<Rightarrow> u64 \<Rightarrow> backend \<Rightarrow> frame_transport_target option" where
  "backend_frame_transport_target surface display_id display_generation b =
     (case frame_monitor display_id display_generation b of
        None \<Rightarrow> None
      | Some (record, p) \<Rightarrow>
          (case surface p of
             None \<Rightarrow> None
           | Some mode \<Rightarrow>
               Some (empty_target
                 \<lparr>ftt_lease_id := dd_lease_id (mr_descriptor record), ftt_display_id := display_id,
                  ftt_display_generation := display_generation, ftt_width := sm_width mode,
                  ftt_height := sm_height mode, ftt_adapter_luid := sm_adapter_luid mode,
                  ftt_format := sm_format mode, ftt_color_space := sm_color_space mode\<rparr>)))"

section \<open>Frame transport requests\<close>

definition frame_ioctl_code :: "u32 \<Rightarrow> u32" where
  "frame_ioctl_code value =
     push_bit 16 0x22 OR push_bit 14 (ioctl_access_value AccessReadWrite) OR push_bit 2 value OR 0"

definition kIoctlRegisterFrameRing :: u32 where
  "kIoctlRegisterFrameRing = frame_ioctl_code 0x90f"

definition kIoctlClearFrameRing :: u32 where
  "kIoctlClearFrameRing = frame_ioctl_code 0x910"

text \<open>The first bytes of the input buffer, read as each of the three requests.\<close>

record frame_input =
  fin_present :: bool
  fin_size :: nat
  fin_target :: frame_transport_target_request
  fin_register :: frame_ring_register_request
  fin_clear :: frame_ring_clear_request

datatype frame_output = FrameNothing | FrameTarget frame_transport_target | FrameReply frame_ring_reply

text \<open>
  What a request meets: the answers of the backend (each read under its lock, so each of its own
  state), of the controller lock, of the identification of the caller, and of the swapchain workers.
\<close>

record 'r dispatch_context =
  dc_unhealthy :: bool
  dc_unhealthy_again :: bool
  dc_locked :: bool
  dc_peer :: "frame_request_peer option"
  dc_mode_backend :: backend
  dc_device_backend :: backend
  dc_surface :: "processor \<Rightarrow> surface_mode option"
  dc_ready_device :: "processor \<Rightarrow> adapter_luid option"
  dc_import :: "'r importer"

definition io_result :: "ioctl_status \<Rightarrow> nat \<Rightarrow> ioctl_dispatch_result" where
  "io_result status bytes = \<lparr>io_status = status, io_bytes_returned = bytes, io_controller_status = ok_status\<rparr>"

definition frame_query ::
  "'r dispatch_context \<Rightarrow> authority \<Rightarrow> frame_input \<Rightarrow> ioctl_buffer \<Rightarrow> frame_request_peer \<Rightarrow> time_point \<Rightarrow>
     ioctl_dispatch_result \<times> frame_output" where
  "frame_query context authorize input output peer now =
     (if \<not> fin_present input \<or> fin_size input \<noteq> 72 then (io_result InvalidInputBuffer 0, FrameNothing)
      else if \<not> out_present output \<or> out_size output < 72 then (io_result InvalidOutputBuffer 0, FrameNothing)
      else
        (case server_query_target authorize peer (fin_target input) now of
           None \<Rightarrow> (io_result InvalidRequest 0, FrameNothing)
         | Some target \<Rightarrow>
             (case backend_frame_transport_target (dc_surface context) (ftt_display_id target)
                     (ftt_display_generation target) (dc_mode_backend context) of
                None \<Rightarrow> (io_result BackendFailure 0, FrameNothing)
              | Some active \<Rightarrow>
                  let shown = target
                        \<lparr>ftt_width := ftt_width active, ftt_height := ftt_height active,
                         ftt_adapter_luid := ftt_adapter_luid active, ftt_format := ftt_format active,
                         ftt_color_space := ftt_color_space active\<rparr> in
                  if \<not> valid_frame_transport_target shown (fin_target input)
                  then (io_result BackendFailure 0, FrameNothing)
                  else (io_result IoctlSuccess 72, FrameTarget shown))))"

definition target_request_of :: "frame_ring_register_request \<Rightarrow> frame_transport_target_request" where
  "target_request_of r =
     \<lparr>ftr_api_namespace = kApiNamespaceGuid, ftr_version = kFrameRingWireVersion,
      ftr_size = kTargetRequestBytes, ftr_lease_id = frr_lease_id r, ftr_display_id = frr_display_id r,
      ftr_owner_capability = frr_owner_capability r\<rparr>"

definition ring_matches_target :: "frame_ring_register_request \<Rightarrow> frame_transport_target \<Rightarrow> bool" where
  "ring_matches_target r active \<longleftrightarrow>
     \<not> (frr_display_generation r \<noteq> ftt_display_generation active \<or>
        frr_width r \<noteq> ftt_width active \<or> frr_height r \<noteq> ftt_height active \<or>
        frr_adapter_luid r \<noteq> ftt_adapter_luid active \<or> frr_format r \<noteq> ftt_format active \<or>
        frr_color_space r \<noteq> ftt_color_space active)"

fun register_failure :: "frame_wire_status \<Rightarrow> ioctl_status" where
  "register_failure InvalidInput = InvalidRequest"
| "register_failure StaleGeneration = NotFound"
| "register_failure ImportFailed = BackendFailure"
| "register_failure _ = InvalidRequest"

definition frame_register ::
  "'r dispatch_context \<Rightarrow> authority \<Rightarrow> frame_input \<Rightarrow> ioctl_buffer \<Rightarrow> frame_request_peer \<Rightarrow> time_point \<Rightarrow>
     'r frame_ring_server \<Rightarrow> 'r frame_ring_server \<times> ioctl_dispatch_result \<times> frame_output" where
  "frame_register context authorize input output peer now sv =
     (let r = fin_register input; fails = (\<lambda>sv status. (sv, io_result status 0, FrameNothing)) in
      if \<not> fin_present input \<or> fin_size input \<noteq> 176 then fails sv InvalidInputBuffer
      else if \<not> out_present output \<or> out_size output < 48 then fails sv InvalidOutputBuffer
      else
        (case server_query_target authorize peer (target_request_of r) now of
           None \<Rightarrow> fails sv InvalidRequest
         | Some authorized \<Rightarrow>
             (case backend_frame_transport_target (dc_surface context) (ftt_display_id authorized)
                     (ftt_display_generation authorized) (dc_mode_backend context) of
                None \<Rightarrow> fails sv NotFound
              | Some active \<Rightarrow>
                  if \<not> ring_matches_target r active then fails sv NotFound
                  else if \<not> frame_import_device_for (dc_ready_device context) (frr_display_id r)
                              (frr_display_generation r) (frr_adapter_luid r) (dc_device_backend context)
                  then fails sv BackendFailure
                  else
                    (let (sv1, status, reply) = server_register authorize (dc_import context) peer r now sv in
                     if status \<noteq> WireSuccess then fails sv1 (register_failure status)
                     else (sv1, io_result IoctlSuccess 48, FrameReply reply)))))"

definition frame_clear ::
  "authority \<Rightarrow> frame_input \<Rightarrow> ioctl_buffer \<Rightarrow> frame_request_peer \<Rightarrow> time_point \<Rightarrow>
     'r frame_ring_server \<Rightarrow> 'r frame_ring_server \<times> ioctl_dispatch_result \<times> frame_output" where
  "frame_clear authorize input output peer now sv =
     (if \<not> fin_present input \<or> fin_size input \<noteq> 104 then (sv, io_result InvalidInputBuffer 0, FrameNothing)
      else if out_size output \<noteq> 0 then (sv, io_result InvalidOutputBuffer 0, FrameNothing)
      else
        (let (sv1, result) = server_clear authorize peer (fin_clear input) now sv in
         (sv1, io_result (if result \<noteq> WireSuccess
             then (if result = StaleGeneration then NotFound
                   else if result = ImportFailed then BackendFailure else InvalidRequest)
             else IoctlSuccess) 0, FrameNothing)))"

definition dispatch_frame_transport ::
  "'r dispatch_context \<Rightarrow> authority \<Rightarrow> u32 \<Rightarrow> frame_input \<Rightarrow> ioctl_buffer \<Rightarrow> frame_request_peer \<Rightarrow> time_point \<Rightarrow>
     'r frame_ring_server \<Rightarrow> 'r frame_ring_server \<times> ioctl_dispatch_result \<times> frame_output" where
  "dispatch_frame_transport context authorize code input output peer now sv =
     (if code = kIoctl FnQueryFrameTransportTarget
      then (sv, frame_query context authorize input output peer now)
      else if code = kIoctlRegisterFrameRing then frame_register context authorize input output peer now sv
      else if code = kIoctlClearFrameRing then frame_clear authorize input output peer now sv
      else (sv, io_result InvalidIoctl 0, FrameNothing))"

section \<open>The device\<close>

record 'r device =
  dv_world :: world
  dv_server :: "'r frame_ring_server"
  dv_shutdown_completed :: bool

definition can_dispatch_while_backend_unhealthy :: "u32 \<Rightarrow> bool" where
  "can_dispatch_while_backend_unhealthy code \<longleftrightarrow>
     code \<in> {kIoctl FnQueryFrameTransportCapabilities, kIoctlClearFrameRing, kIoctl FnGetProtocolVersion,
       kIoctl FnRemoveTemporaryDisplay, kIoctl FnFeedLease, kIoctl FnReleaseLease, kIoctl FnQueryLease,
       kIoctl FnReclaimTemporaryDisplay, kIoctl FnQueryPermanentDisplayCount, kIoctl FnQueryDisplayState,
       kIoctl FnQueryDisplayManifest}"

definition frame_request_code :: "u32 \<Rightarrow> bool" where
  "frame_request_code code \<longleftrightarrow>
     code = kIoctl FnQueryFrameTransportTarget \<or> code = kIoctlRegisterFrameRing \<or> code = kIoctlClearFrameRing"

definition device_dispatch ::
  "'r dispatch_context \<Rightarrow> u32 \<Rightarrow> ioctl_input \<Rightarrow> frame_input \<Rightarrow> ioctl_buffer \<Rightarrow> time_point \<Rightarrow>
     'r device \<Rightarrow> 'r device \<times> ioctl_dispatch_result \<times> ioctl_output \<times> frame_output" where
  "device_dispatch context code input frame_in output now dv =
     (let refuses = (\<lambda>status. (dv, io_result status 0, OutNothing, FrameNothing)) in
      if dc_unhealthy context \<and> \<not> can_dispatch_while_backend_unhealthy code then refuses BackendFailure
      else if dc_unhealthy_again context \<and>
              (code = kIoctl FnQueryFrameTransportTarget \<or> code = kIoctlRegisterFrameRing)
      then refuses BackendFailure
      else if \<not> dc_locked context then refuses BackendFailure
      else if frame_request_code code then
        (case dc_peer context of
           None \<Rightarrow> refuses InvalidRequest
         | Some peer \<Rightarrow>
             (let (sv, result, out) = dispatch_frame_transport context
                    (store_authority (w_store (dv_world dv))) code frame_in output peer now (dv_server dv)
              in (dv\<lparr>dv_server := sv\<rparr>, result, OutNothing, out)))
      else
        (let (w, result, out) = ioctl_dispatch True code input output now (dv_world dv)
         in (dv\<lparr>dv_world := w\<rparr>, result, out, FrameNothing)))"

text \<open>The codes the driver completes requests with; \<open>StatusOther\<close>: one it passes on.\<close>

datatype nt_code =
    StatusSuccess | StatusInvalidDeviceRequest | StatusInvalidParameter | StatusBufferTooSmall
  | StatusDeviceBusy | StatusInsufficientResources | StatusNotFound | StatusUnsuccessful
  | StatusDeviceNotReady | StatusOther u32

fun ntstatus_from_ioctl_status :: "ioctl_status \<Rightarrow> nt_code" where
  "ntstatus_from_ioctl_status IoctlSuccess = StatusSuccess"
| "ntstatus_from_ioctl_status InvalidIoctl = StatusInvalidDeviceRequest"
| "ntstatus_from_ioctl_status InvalidInputBuffer = StatusInvalidParameter"
| "ntstatus_from_ioctl_status InvalidRequest = StatusInvalidParameter"
| "ntstatus_from_ioctl_status InvalidOutputBuffer = StatusBufferTooSmall"
| "ntstatus_from_ioctl_status AlreadyExists = StatusDeviceBusy"
| "ntstatus_from_ioctl_status LimitReached = StatusInsufficientResources"
| "ntstatus_from_ioctl_status NotFound = StatusNotFound"
| "ntstatus_from_ioctl_status BackendFailure = StatusUnsuccessful"

text \<open>What the swapchain worker may publish to: nothing when the lock is busy.\<close>

definition device_ring_snapshot ::
  "bool \<Rightarrow> u64 \<Rightarrow> u64 \<Rightarrow> time_point \<Rightarrow> 'r device \<Rightarrow> 'r device \<times> 'r frame_ring_snapshot" where
  "device_ring_snapshot locked display_id generation now dv =
     (if \<not> locked then (dv, empty_snapshot)
      else
        (let (rings, snap) = ring_snapshot (store_authority (w_store (dv_world dv))) display_id generation
               now (sv_rings (dv_server dv))
         in (dv\<lparr>dv_server := (dv_server dv)\<lparr>sv_rings := rings\<rparr>\<rparr>, snap)))"

text \<open>One turn of the reaper that got the controller lock; the retired swapchains are cleaned up after it.\<close>

definition device_reap :: "time_point \<Rightarrow> 'r device \<Rightarrow> 'r device" where
  "device_reap now dv =
     (let w = fst (controller_reap_expired now (dv_world dv));
          authorize = store_authority (w_store w);
          sv = fst (server_reap authorize now (dv_server dv))
      in dv\<lparr>dv_world := w,
            dv_server := sv\<lparr>sv_rings := fst (retire_unavailable authorize now (sv_rings sv))\<rparr>\<rparr>)"

text \<open>
  \<open>reaper_stopped\<close>: the reaper thread ended in time; \<open>backend_down\<close>: the result of the backend's
  shutdown (\<open>ShutdownReturned\<close>).
\<close>

definition shutdown_for_cleanup :: "bool \<Rightarrow> bool \<Rightarrow> 'r device \<Rightarrow> 'r device \<times> bool" where
  "shutdown_for_cleanup reaper_stopped backend_down dv =
     (if dv_shutdown_completed dv then (dv, True)
      else if \<not> reaper_stopped then (dv, False)
      else
        let sv = server_reset (dv_server dv);
            dv1 = dv\<lparr>dv_server := sv\<lparr>sv_rings := reset_rings (sv_rings sv)\<rparr>\<rparr> in
        if \<not> backend_down then (dv1, False) else (dv1\<lparr>dv_shutdown_completed := True\<rparr>, True))"

end
