(* ===== verification/Control_Client.thy ===== *)
theory Control_Client
  imports Device_State
begin

text \<open>
  The client side of the control protocol (\<open>control_client.h\<close>, \<open>control_client.cpp\<close>, and the
  transport of \<open>windows_control_client.cpp\<close>): typed operations around one call of a transport,
  which checks that the reply has the size and the namespace of the structure asked for and that
  the driver speaks a compatible protocol version.

  A transport is a function on a state of its own. Its reply gives the bytes it wrote read as each
  of the structures of the protocol; the output structure's first field is the namespace.
\<close>

section \<open>Transport\<close>

datatype client_request =
    RequestNothing
  | RequestCreate create_temporary_display_request
  | RequestCreateOwned create_temporary_display_owned_request
  | RequestReclaim reclaim_temporary_display_request
  | RequestLeaseDisplay lease_display_request
  | RequestLease lease_request
  | RequestPermanentCount permanent_display_count_request
  | RequestManifest display_manifest
  | RequestRenderAdapter set_render_adapter_request
  | RequestTarget frame_transport_target_request

text \<open>The structure sizes the headers assert.\<close>

fun request_size :: "client_request \<Rightarrow> nat" where
  "request_size RequestNothing = 0"
| "request_size (RequestCreate _) = 96"
| "request_size (RequestCreateOwned _) = 128"
| "request_size (RequestReclaim _) = 72"
| "request_size (RequestLeaseDisplay _) = 32"
| "request_size (RequestLease _) = 32"
| "request_size (RequestPermanentCount _) = 76"
| "request_size (RequestManifest _) = 1312"
| "request_size (RequestRenderAdapter _) = 32"
| "request_size (RequestTarget _) = 72"

record client_output =
  co_api_namespace :: guid
  co_version :: protocol_version
  co_capabilities :: frame_transport_capabilities
  co_created :: create_temporary_display_result
  co_reclaimed :: reclaim_temporary_display_result
  co_lease :: query_lease_result
  co_permanent_count :: permanent_display_count_result
  co_display_state :: query_display_state_result
  co_manifest :: display_manifest
  co_target :: frame_transport_target

record transport_reply =
  tr_ok :: bool
  tr_bytes_returned :: nat
  tr_native_error :: u32
  tr_output :: client_output

text \<open>Control code, request, input size, output size.\<close>

type_synonym 's transport = "u32 \<Rightarrow> client_request \<Rightarrow> nat \<Rightarrow> nat \<Rightarrow> 's \<Rightarrow> 's \<times> transport_reply"

section \<open>Results\<close>

datatype control_status = ControlSuccess | TransportFailed | InvalidOutput | ProtocolIncompatible

record control_operation_result =
  cor_status :: control_status
  cor_native_error :: u32

text \<open>\<open>None\<close>: the value-initialised structure.\<close>

record 'a control_result =
  cr_status :: control_status
  cr_value :: "'a option"
  cr_native_error :: u32

definition control_result_ok :: "'a control_result \<Rightarrow> bool" where
  "control_result_ok result \<longleftrightarrow> cr_status result = ControlSuccess"

section \<open>One call\<close>

text \<open>The output structure of \<open>bytes\<close> bytes, whose value is the field \<open>read\<close> of the reply.\<close>

definition ioctl_out ::
  "'s transport \<Rightarrow> u32 \<Rightarrow> client_request \<Rightarrow> nat \<Rightarrow> (client_output \<Rightarrow> 'a) \<Rightarrow> 's \<Rightarrow> 's \<times> 'a control_result" where
  "ioctl_out transport code request bytes read s =
     (let (s1, reply) = transport code request (request_size request) bytes s in
      if \<not> tr_ok reply
      then (s1, \<lparr>cr_status = TransportFailed, cr_value = None, cr_native_error = tr_native_error reply\<rparr>)
      else if tr_bytes_returned reply \<noteq> bytes
      then (s1, \<lparr>cr_status = InvalidOutput, cr_value = None, cr_native_error = tr_native_error reply\<rparr>)
      else if \<not> is_valid_api_namespace (co_api_namespace (tr_output reply))
      then (s1, \<lparr>cr_status = ProtocolIncompatible, cr_value = Some (read (tr_output reply)),
                 cr_native_error = tr_native_error reply\<rparr>)
      else (s1, \<lparr>cr_status = ControlSuccess, cr_value = Some (read (tr_output reply)),
                 cr_native_error = tr_native_error reply\<rparr>))"

definition ioctl_no_out ::
  "'s transport \<Rightarrow> u32 \<Rightarrow> client_request \<Rightarrow> 's \<Rightarrow> 's \<times> control_operation_result" where
  "ioctl_no_out transport code request s =
     (let (s1, reply) = transport code request (request_size request) 0 s in
      (s1, \<lparr>cor_status = (if \<not> tr_ok reply then TransportFailed
              else if tr_bytes_returned reply \<noteq> 0 then InvalidOutput else ControlSuccess),
            cor_native_error = tr_native_error reply\<rparr>))"

section \<open>Operations\<close>

text \<open>The version is judged by the structure that was read, whatever its status so far.\<close>

definition query_protocol_version :: "'s transport \<Rightarrow> 's \<Rightarrow> 's \<times> protocol_version control_result" where
  "query_protocol_version transport s =
     (let (s1, result) = ioctl_out transport (kIoctl FnGetProtocolVersion) RequestNothing 24 co_version s in
      if \<not> control_result_ok result then (s1, result)
      else
        (case cr_value result of
           None \<Rightarrow> (s1, result\<lparr>cr_status := ProtocolIncompatible\<rparr>)
         | Some version \<Rightarrow>
             if \<not> is_valid_api_namespace (pv_api_namespace version) \<or>
                pv_major version \<noteq> kProtocolVersionMajor \<or>
                pv_minor version < kMinimumCompatibleProtocolVersionMinor
             then (s1, result\<lparr>cr_status := ProtocolIncompatible\<rparr>) else (s1, result)))"

definition check_protocol_compatible :: "'s transport \<Rightarrow> 's \<Rightarrow> 's \<times> control_operation_result" where
  "check_protocol_compatible transport s =
     (let (s1, version) = query_protocol_version transport s in
      (s1, \<lparr>cor_status = cr_status version, cor_native_error = cr_native_error version\<rparr>))"

text \<open>The minor version the frame transport requests appeared in.\<close>

definition speaks_frame_transport :: "protocol_version control_result \<Rightarrow> bool" where
  "speaks_frame_transport version \<longleftrightarrow>
     (case cr_value version of None \<Rightarrow> False | Some v \<Rightarrow> \<not> pv_minor v < 8)"

definition query_frame_transport_capabilities ::
  "'s transport \<Rightarrow> 's \<Rightarrow> 's \<times> frame_transport_capabilities control_result" where
  "query_frame_transport_capabilities transport s =
     (let (s1, version) = query_protocol_version transport s in
      if \<not> control_result_ok version
      then (s1, \<lparr>cr_status = cr_status version, cr_value = None, cr_native_error = cr_native_error version\<rparr>)
      else if \<not> speaks_frame_transport version
      then (s1, \<lparr>cr_status = ControlSuccess, cr_value = None, cr_native_error = 0\<rparr>)
      else
        (let (s2, result) = ioctl_out transport (kIoctl FnQueryFrameTransportCapabilities) RequestNothing 40
               co_capabilities s1 in
         (s2, case cr_value result of
                Some c \<Rightarrow>
                  if control_result_ok result \<and>
                     (ftc_version c \<noteq> 1 \<or> ftc_size c \<noteq> 40 \<or> ftc_reserved c \<noteq> 0 \<or>
                      ftc_capabilities c AND 1 \<noteq> 0 \<and> ftc_max_ring_slots c \<noteq> kFrameRingSlotCount)
                  then result\<lparr>cr_status := InvalidOutput\<rparr> else result
              | None \<Rightarrow> result)))"

definition query_frame_transport_target ::
  "'s transport \<Rightarrow> frame_transport_target_request \<Rightarrow> 's \<Rightarrow> 's \<times> frame_transport_target control_result" where
  "query_frame_transport_target transport request s =
     (let (s1, version) = query_protocol_version transport s in
      if \<not> control_result_ok version
      then (s1, \<lparr>cr_status = cr_status version, cr_value = None, cr_native_error = cr_native_error version\<rparr>)
      else if \<not> speaks_frame_transport version
      then (s1, \<lparr>cr_status = ProtocolIncompatible, cr_value = None, cr_native_error = 0\<rparr>)
      else if \<not> valid_frame_transport_target_request request
      then (s1, \<lparr>cr_status = InvalidOutput, cr_value = None, cr_native_error = 0\<rparr>)
      else
        (let (s2, result) = ioctl_out transport (kIoctl FnQueryFrameTransportTarget) (RequestTarget request) 72
               co_target s1 in
         (s2, case cr_value result of
                Some target \<Rightarrow>
                  if control_result_ok result \<and> \<not> valid_frame_transport_target target request
                  then result\<lparr>cr_status := InvalidOutput\<rparr> else result
              | None \<Rightarrow> result)))"

definition client_create_temporary_display ::
  "'s transport \<Rightarrow> create_temporary_display_request \<Rightarrow> 's \<Rightarrow> 's \<times> create_temporary_display_result control_result" where
  "client_create_temporary_display transport request =
     ioctl_out transport (kIoctl FnCreateTemporaryDisplay) (RequestCreate request) 56 co_created"

definition client_create_temporary_display_owned ::
  "'s transport \<Rightarrow> create_temporary_display_owned_request \<Rightarrow> 's \<Rightarrow>
     's \<times> create_temporary_display_result control_result" where
  "client_create_temporary_display_owned transport request =
     ioctl_out transport (kIoctl FnCreateTemporaryDisplayOwned) (RequestCreateOwned request) 56 co_created"

definition client_reclaim_temporary_display ::
  "'s transport \<Rightarrow> reclaim_temporary_display_request \<Rightarrow> 's \<Rightarrow>
     's \<times> reclaim_temporary_display_result control_result" where
  "client_reclaim_temporary_display transport request =
     ioctl_out transport (kIoctl FnReclaimTemporaryDisplay) (RequestReclaim request) 48 co_reclaimed"

definition client_remove_temporary_display ::
  "'s transport \<Rightarrow> lease_display_request \<Rightarrow> 's \<Rightarrow> 's \<times> control_operation_result" where
  "client_remove_temporary_display transport request =
     ioctl_no_out transport (kIoctl FnRemoveTemporaryDisplay) (RequestLeaseDisplay request)"

definition client_feed_lease :: "'s transport \<Rightarrow> lease_request \<Rightarrow> 's \<Rightarrow> 's \<times> control_operation_result" where
  "client_feed_lease transport request = ioctl_no_out transport (kIoctl FnFeedLease) (RequestLease request)"

definition client_release_lease :: "'s transport \<Rightarrow> lease_request \<Rightarrow> 's \<Rightarrow> 's \<times> control_operation_result" where
  "client_release_lease transport request = ioctl_no_out transport (kIoctl FnReleaseLease) (RequestLease request)"

definition client_query_lease :: "'s transport \<Rightarrow> lease_request \<Rightarrow> 's \<Rightarrow> 's \<times> query_lease_result control_result" where
  "client_query_lease transport request =
     ioctl_out transport (kIoctl FnQueryLease) (RequestLease request) 48 co_lease"

definition client_set_permanent_display_count ::
  "'s transport \<Rightarrow> permanent_display_count_request \<Rightarrow> 's \<Rightarrow> 's \<times> permanent_display_count_result control_result" where
  "client_set_permanent_display_count transport request =
     ioctl_out transport (kIoctl FnSetPermanentDisplayCount) (RequestPermanentCount request) 80 co_permanent_count"

definition client_query_permanent_display_count ::
  "'s transport \<Rightarrow> 's \<Rightarrow> 's \<times> permanent_display_count_result control_result" where
  "client_query_permanent_display_count transport =
     ioctl_out transport (kIoctl FnQueryPermanentDisplayCount) RequestNothing 80 co_permanent_count"

definition client_query_display_state :: "'s transport \<Rightarrow> 's \<Rightarrow> 's \<times> query_display_state_result control_result" where
  "client_query_display_state transport =
     ioctl_out transport (kIoctl FnQueryDisplayState) RequestNothing 1696 co_display_state"

definition client_set_display_manifest ::
  "'s transport \<Rightarrow> display_manifest \<Rightarrow> 's \<Rightarrow> 's \<times> display_manifest control_result" where
  "client_set_display_manifest transport manifest =
     ioctl_out transport (kIoctl FnSetDisplayManifest) (RequestManifest manifest) 1312 co_manifest"

definition client_query_display_manifest :: "'s transport \<Rightarrow> 's \<Rightarrow> 's \<times> display_manifest control_result" where
  "client_query_display_manifest transport =
     ioctl_out transport (kIoctl FnQueryDisplayManifest) RequestNothing 1312 co_manifest"

definition client_set_render_adapter ::
  "'s transport \<Rightarrow> set_render_adapter_request \<Rightarrow> 's \<Rightarrow> 's \<times> control_operation_result" where
  "client_set_render_adapter transport request =
     ioctl_no_out transport (kIoctl FnSetRenderAdapter) (RequestRenderAdapter request)"

section \<open>The Windows transport\<close>

text \<open>
  One overlapped call as the system answers it: whether the event could be created, whether
  \<open>DeviceIoControl\<close> finished at once, the bounded wait, and the result of the request. The error
  numbers are the documented ones of Windows (invalid parameter 87, I/O pending 997, timeout 1460).
\<close>

datatype wait_outcome = WaitSignalled | WaitTimedOut | WaitFailed u32

record overlapped_call =
  oc_event_error :: "u32 option"
  oc_error :: "u32 option"
  oc_wait :: wait_outcome
  oc_result :: "u32 + nat \<times> client_output"

definition transport_failure :: "client_output \<Rightarrow> u32 \<Rightarrow> transport_reply" where
  "transport_failure blank error =
     \<lparr>tr_ok = False, tr_bytes_returned = 0, tr_native_error = error, tr_output = blank\<rparr>"

definition overlapped_result :: "client_output \<Rightarrow> overlapped_call \<Rightarrow> transport_reply" where
  "overlapped_result blank call =
     (case oc_result call of
        Inl error \<Rightarrow> transport_failure blank error
      | Inr (bytes, out) \<Rightarrow>
          \<lparr>tr_ok = True, tr_bytes_returned = bytes, tr_native_error = 0, tr_output = out\<rparr>)"

definition windows_ioctl :: "bool \<Rightarrow> client_output \<Rightarrow> nat \<Rightarrow> nat \<Rightarrow> overlapped_call \<Rightarrow> transport_reply" where
  "windows_ioctl valid blank input_size output_size call =
     (if \<not> valid \<or> input_size > 0xffffffff \<or> output_size > 0xffffffff then transport_failure blank 87
      else
        (case oc_event_error call of
           Some error \<Rightarrow> transport_failure blank error
         | None \<Rightarrow>
             (case oc_error call of
                None \<Rightarrow> overlapped_result blank call
              | Some error \<Rightarrow>
                  if error \<noteq> 997 then transport_failure blank error
                  else
                    (case oc_wait call of
                       WaitTimedOut \<Rightarrow> transport_failure blank 1460
                     | WaitFailed error \<Rightarrow> transport_failure blank error
                     | WaitSignalled \<Rightarrow> overlapped_result blank call))))"

section \<open>Client and driver\<close>

text \<open>The request bytes in the driver, and the bytes it writes as the client reads them.\<close>

definition driver_input :: "ioctl_input \<Rightarrow> client_request \<Rightarrow> nat \<Rightarrow> ioctl_input" where
  "driver_input blank request bytes =
     (let input = blank\<lparr>in_present := request \<noteq> RequestNothing, in_size := bytes\<rparr> in
      case request of
        RequestCreate r \<Rightarrow> input\<lparr>in_create := r\<rparr>
      | RequestCreateOwned r \<Rightarrow> input\<lparr>in_create_owned := r\<rparr>
      | RequestReclaim r \<Rightarrow> input\<lparr>in_reclaim := r\<rparr>
      | RequestLeaseDisplay r \<Rightarrow> input\<lparr>in_lease_display := r\<rparr>
      | RequestLease r \<Rightarrow> input\<lparr>in_lease := r\<rparr>
      | RequestPermanentCount r \<Rightarrow> input\<lparr>in_permanent := r\<rparr>
      | RequestManifest r \<Rightarrow> input\<lparr>in_manifest := r\<rparr>
      | RequestRenderAdapter r \<Rightarrow> input\<lparr>in_adapter := r\<rparr>
      | _ \<Rightarrow> input)"

text \<open>
  The results of lease, count and state queries carry the namespace their structures are
  initialised with; the model of these structures leaves that constant field out.
\<close>

definition driver_output :: "client_output \<Rightarrow> ioctl_output \<Rightarrow> client_output" where
  "driver_output blank out =
     (case out of
        OutNothing \<Rightarrow> blank
      | OutCapabilities v \<Rightarrow> blank\<lparr>co_api_namespace := ftc_api_namespace v, co_capabilities := v\<rparr>
      | OutVersion v \<Rightarrow> blank\<lparr>co_api_namespace := pv_api_namespace v, co_version := v\<rparr>
      | OutCreated v \<Rightarrow> blank\<lparr>co_api_namespace := ctr_api_namespace v, co_created := v\<rparr>
      | OutReclaimed v \<Rightarrow> blank\<lparr>co_api_namespace := rtr_api_namespace v, co_reclaimed := v\<rparr>
      | OutLease v \<Rightarrow> blank\<lparr>co_api_namespace := kApiNamespaceGuid, co_lease := v\<rparr>
      | OutPermanentCount v \<Rightarrow> blank\<lparr>co_api_namespace := kApiNamespaceGuid, co_permanent_count := v\<rparr>
      | OutDisplayState v \<Rightarrow> blank\<lparr>co_api_namespace := kApiNamespaceGuid, co_display_state := v\<rparr>
      | OutManifest v \<Rightarrow> blank\<lparr>co_api_namespace := man_api_namespace v, co_manifest := v\<rparr>)"

definition driver_frame_output :: "client_output \<Rightarrow> frame_output \<Rightarrow> client_output" where
  "driver_frame_output blank out =
     (case out of
        FrameTarget v \<Rightarrow> blank\<lparr>co_api_namespace := ftt_api_namespace v, co_target := v\<rparr>
      | _ \<Rightarrow> blank)"

text \<open>
  What happens to the request on its way: \<open>DeliveryRefused\<close>: \<open>DeviceIoControl\<close> fails before the
  request reaches the driver; \<open>DeliveryImmediate\<close>: it returns with the completed request;
  \<open>DeliveryPending\<close>: it reports the error number for a pending request, the client waits, and the
  flag says whether the driver has run the request although the wait did not see it complete.
\<close>

datatype delivery = DeliveryRefused u32 | DeliveryImmediate | DeliveryPending wait_outcome bool

text \<open>
  The rest of what a call meets: views of the request bytes as other structures, the time, the
  state of the client's handle and of the driver's device object, the results of retrieving the
  buffers, and the system's translation of a completion code.
\<close>

record 'r connection =
  cn_context :: "'r dispatch_context"
  cn_now :: time_point
  cn_input :: ioctl_input
  cn_frame_input :: frame_input
  cn_blank :: client_output
  cn_win32 :: "nt_code \<Rightarrow> u32"
  cn_handle_valid :: bool
  cn_event_error :: "u32 option"
  cn_delivery :: delivery
  cn_device_ready :: bool
  cn_input_retrieved :: nt_code
  cn_output_retrieved :: nt_code

definition connection_frame_input :: "'r connection \<Rightarrow> client_request \<Rightarrow> nat \<Rightarrow> frame_input" where
  "connection_frame_input connection request bytes =
     (let input = (cn_frame_input connection)\<lparr>fin_present := request \<noteq> RequestNothing, fin_size := bytes\<rparr> in
      case request of RequestTarget r \<Rightarrow> input\<lparr>fin_target := r\<rparr> | _ \<Rightarrow> input)"

definition retrieve_request_buffer :: "nt_code \<Rightarrow> nat \<Rightarrow> nt_code" where
  "retrieve_request_buffer retrieved bytes = (if bytes = 0 then StatusSuccess else retrieved)"

text \<open>The completion of a request: its code, the number of bytes and what was written.\<close>

definition device_io_control ::
  "'r connection \<Rightarrow> u32 \<Rightarrow> client_request \<Rightarrow> nat \<Rightarrow> nat \<Rightarrow> 'r device \<Rightarrow>
     'r device \<times> nt_code \<times> nat \<times> client_output" where
  "device_io_control connection code request input_size output_size dv =
     (let input_status = retrieve_request_buffer (cn_input_retrieved connection) input_size;
          output_status = retrieve_request_buffer (cn_output_retrieved connection) output_size in
      if \<not> cn_device_ready connection then (dv, StatusDeviceNotReady, 0, cn_blank connection)
      else if input_status \<noteq> StatusSuccess then (dv, input_status, 0, cn_blank connection)
      else if output_status \<noteq> StatusSuccess then (dv, output_status, 0, cn_blank connection)
      else
        (let (dv1, result, out, frame_out) = device_dispatch (cn_context connection) code
               (driver_input (cn_input connection) request input_size)
               (connection_frame_input connection request input_size)
               \<lparr>out_present = output_size > 0, out_size = output_size\<rparr> (cn_now connection) dv
         in (dv1, ntstatus_from_ioctl_status (io_status result), io_bytes_returned result,
             driver_frame_output (driver_output (cn_blank connection) out) frame_out)))"

text \<open>The driver runs a request that gets past the checks of the transport and is delivered.\<close>

definition request_runs :: "'r connection \<Rightarrow> nat \<Rightarrow> nat \<Rightarrow> bool" where
  "request_runs connection input_size output_size \<longleftrightarrow>
     cn_handle_valid connection \<and> input_size \<le> 0xffffffff \<and> output_size \<le> 0xffffffff \<and>
     cn_event_error connection = None \<and>
     (case cn_delivery connection of
        DeliveryRefused error \<Rightarrow> error = 997
      | DeliveryImmediate \<Rightarrow> True
      | DeliveryPending wait run \<Rightarrow> wait = WaitSignalled \<or> run)"

text \<open>
  \<open>SunshineEvtIddCxDeviceIoControl\<close> behind the Windows transport. A request that is completed with
  an error code is an error of the overlapped call, at once or in its result.
\<close>

definition driver_transport :: "'r connection \<Rightarrow> 'r device transport" where
  "driver_transport connection code request input_size output_size dv =
     (let (dv1, status, bytes, written) = device_io_control connection code request input_size output_size dv;
          completed = (if status = StatusSuccess then Inr (bytes, written) else Inl (cn_win32 connection status)) in
      (if request_runs connection input_size output_size then dv1 else dv,
       windows_ioctl (cn_handle_valid connection) (cn_blank connection) input_size output_size
         \<lparr>oc_event_error = cn_event_error connection,
          oc_error = (case cn_delivery connection of
              DeliveryRefused error \<Rightarrow> Some error
            | DeliveryImmediate \<Rightarrow> (case completed of Inl error \<Rightarrow> Some error | Inr _ \<Rightarrow> None)
            | DeliveryPending _ _ \<Rightarrow> Some 997),
          oc_wait = (case cn_delivery connection of DeliveryPending wait _ \<Rightarrow> wait | _ \<Rightarrow> WaitSignalled),
          oc_result = completed\<rparr>))"

end
