(* ===== verification/Device_Theorems.thy ===== *)
theory Device_Theorems
  imports Device_State Frame_Server_Theorems Ioctl_Theorems
begin

text \<open>
  What the device guarantees across its parts: which ring a registration can be accepted for, what
  an unhealthy backend is still asked, and that a shut down device publishes nothing.
\<close>

section \<open>The monitor of a ring\<close>

lemma frame_monitorD:
  assumes "frame_monitor i g b = Some (mon, p)"
  shows "bk_monitors b i = Some mon" "\<not> mr_departing mon" "\<not> mr_permanent mon"
    "dd_generation (mr_descriptor mon) = g" "mr_swapchain_processor mon = Some p"
  using assms by (auto simp: frame_monitor_def split: option.splits if_splits)

lemma backend_targetD:
  assumes "backend_frame_transport_target surface i g b = Some active"
  obtains mon p mode where "frame_monitor i g b = Some (mon, p)" "surface p = Some mode"
    "ftt_display_generation active = g" "ftt_width active = sm_width mode" "ftt_height active = sm_height mode"
    "ftt_adapter_luid active = sm_adapter_luid mode" "ftt_format active = sm_format mode"
    "ftt_color_space active = sm_color_space mode"
  using assms by (auto simp: backend_frame_transport_target_def split: option.splits)

lemma import_deviceD:
  assumes "frame_import_device_for ready i g luid b"
  obtains mon p where "frame_monitor i g b = Some (mon, p)" "ready p = Some luid"
  using assms by (auto simp: frame_import_device_for_def split: option.splits)

lemma frame_codes:
  "kIoctlRegisterFrameRing = 0x22e43c" "kIoctlClearFrameRing = 0x22e440"
  "kIoctl FnQueryFrameTransportTarget = 0x226444"
  by code_simp+

lemma query_targetD:
  assumes "server_query_target authorize peer request now = Some target"
  obtains display where "authorize \<lparr>ldr_api_namespace = kApiNamespaceGuid, ldr_lease_id = ftr_lease_id request,
      ldr_display_id = ftr_display_id request\<rparr> (ftr_owner_capability request) now = Some display"
    "\<not> tdr_pending_departure display" "ftt_display_id target = tdr_display_id display"
    "ftt_display_generation target = tdr_generation display" "ftt_lease_id target = tdr_lease_id display"
  using assms by (auto simp: server_query_target_def split: option.splits if_splits)

text \<open>A registration that succeeds has passed every check.\<close>

lemma frame_registerD:
  assumes "frame_register context authorize input output peer now sv = (sv1, result, out)"
    and "io_status result = IoctlSuccess"
  obtains target active reply where
    "server_query_target authorize peer (target_request_of (fin_register input)) now = Some target"
    "backend_frame_transport_target (dc_surface context) (ftt_display_id target) (ftt_display_generation target)
       (dc_mode_backend context) = Some active"
    "ring_matches_target (fin_register input) active"
    "frame_import_device_for (dc_ready_device context) (frr_display_id (fin_register input))
       (frr_display_generation (fin_register input)) (frr_adapter_luid (fin_register input)) (dc_device_backend context)"
    "server_register authorize (dc_import context) peer (fin_register input) now sv = (sv1, WireSuccess, reply)"
    "out = FrameReply reply"
proof -
  have failing: "register_failure st \<noteq> IoctlSuccess" for st by (cases st) auto
  show thesis
    using assms failing
    by (auto simp: frame_register_def Let_def io_result_def split: if_splits option.splits prod.splits intro: that)
qed

lemma register_is_frame_code: "frame_request_code kIoctlRegisterFrameRing"
  "kIoctlRegisterFrameRing \<noteq> kIoctl FnQueryFrameTransportTarget"
  by (simp_all add: frame_request_code_def frame_codes)

lemma device_registers:
  assumes "device_dispatch context kIoctlRegisterFrameRing input frame_in output now dv = (dv1, result, out, frame_out)"
    and "io_status result = IoctlSuccess"
  obtains peer where "dc_peer context = Some peer"
    "frame_register context (store_authority (w_store (dv_world dv))) frame_in output peer now (dv_server dv) =
       (dv_server dv1, result, frame_out)"
    "dv_world dv1 = dv_world dv"
proof -
  let ?refused = "\<lambda>status. (dv, io_result status 0, OutNothing, FrameNothing) = (dv1, result, out, frame_out)"
  have refused: "\<not> ?refused BackendFailure" "\<not> ?refused InvalidRequest" using assms(2) by (auto simp: io_result_def)
  obtain sv res f where reg: "\<And>peer. dc_peer context = Some peer \<Longrightarrow>
      frame_register context (store_authority (w_store (dv_world dv))) frame_in output peer now (dv_server dv) = (sv, res, f)"
    by (cases "dc_peer context") (auto, metis prod_cases3)
  show thesis
  proof (cases "dc_peer context")
    case None
    then show ?thesis
      using assms(1) refused by (simp add: device_dispatch_def Let_def register_is_frame_code split: if_split_asm)
  next
    case (Some peer)
    then have "(dv\<lparr>dv_server := sv\<rparr>, res, OutNothing, f) = (dv1, result, out, frame_out)"
      using assms(1) refused reg[OF Some]
      by (simp add: device_dispatch_def dispatch_frame_transport_def Let_def register_is_frame_code split: if_split_asm)
    then show ?thesis using that[OF Some] reg[OF Some] by auto
  qed
qed

text \<open>
  C24: A frame ring is only ever accepted for a monitor that is up. When the device reports success
  for a registration, the store knows the display under the caller's lease and with the generation
  of the request, it is not about to depart and not expired; the lease is live and its owner
  capability is the one the caller presented; the backend holds a temporary,
  not departing monitor of exactly this display and generation, whose swapchain worker last saw
  frames of the size, format, colour space and adapter of the ring; and the reply names a ring that
  is registered for the caller and may be published to.
\<close>

theorem accepted_ring_has_live_monitor:
  assumes "store_reachable (w_store (dv_world dv))" and "server_reachable (dv_server dv)"
    and "device_dispatch context kIoctlRegisterFrameRing input frame_in output now dv = (dv1, result, out, frame_out)"
    and "io_status result = IoctlSuccess"
  defines "r \<equiv> fin_register frame_in"
  shows "(\<exists>display. find_temporary_display (frr_display_id r) (w_store (dv_world dv)) = Some display \<and>
       tdr_lease_id display = frr_lease_id r \<and> tdr_generation display = frr_display_generation r \<and>
       \<not> tdr_pending_departure display \<and> now < tdr_expires_at display) \<and>
    (\<exists>lease capability. omap_find (leases_by_id (w_store (dv_world dv))) (frr_lease_id r) = Some lease \<and>
       now < lease_expires_at lease \<and> lease_owner_capability lease = Some capability \<and>
       owner_capabilities_equal capability (frr_owner_capability r)) \<and>
    (\<exists>monitor p mode. bk_monitors (dc_mode_backend context) (frr_display_id r) = Some monitor \<and>
       \<not> mr_departing monitor \<and> \<not> mr_permanent monitor \<and>
       dd_generation (mr_descriptor monitor) = frr_display_generation r \<and>
       mr_swapchain_processor monitor = Some p \<and> dc_surface context p = Some mode \<and>
       sm_width mode = frr_width r \<and> sm_height mode = frr_height r \<and> sm_format mode = frr_format r \<and>
       sm_color_space mode = frr_color_space r \<and> sm_adapter_luid mode = frr_adapter_luid r) \<and>
    (\<exists>reply e. frame_out = FrameReply reply \<and> valid_frame_ring_reply reply r \<and>
       omap_find (lt_rings (sv_rings (dv_server dv1))) (frr_display_id r) = Some e \<and>
       rs_ring_generation (re_snapshot e) = rep_ring_generation reply \<and> re_owner e = owner_for r \<and>
       can_publish (lt_gates (sv_rings (dv_server dv1))) (re_snapshot e))"
proof -
  obtain peer where peer: "dc_peer context = Some peer"
    "frame_register context (store_authority (w_store (dv_world dv))) frame_in output peer now (dv_server dv) =
       (dv_server dv1, result, frame_out)" using device_registers[OF assms(3,4)] by blast
  obtain target active reply where t: "server_query_target (store_authority (w_store (dv_world dv))) peer
      (target_request_of r) now = Some target"
    "backend_frame_transport_target (dc_surface context) (ftt_display_id target) (ftt_display_generation target)
       (dc_mode_backend context) = Some active" "ring_matches_target r active"
    "server_register (store_authority (w_store (dv_world dv))) (dc_import context) peer r now (dv_server dv) =
       (dv_server dv1, WireSuccess, reply)" "frame_out = FrameReply reply"
    using frame_registerD[OF peer(2) assms(4)] unfolding r_def by blast
  obtain display where d: "store_authority (w_store (dv_world dv)) \<lparr>ldr_api_namespace = kApiNamespaceGuid,
      ldr_lease_id = frr_lease_id r, ldr_display_id = frr_display_id r\<rparr> (frr_owner_capability r) now = Some display"
    "\<not> tdr_pending_departure display" "ftt_display_id target = tdr_display_id display"
    "ftt_display_generation target = tdr_generation display"
    by (rule query_targetD[OF t(1)]) (auto simp: target_request_of_def)
  have found: "display_at (w_store (dv_world dv)) (frr_display_id r) = Some display" "tdr_lease_id display = frr_lease_id r"
    using d(1) by (auto simp: store_authority_def authorize_temporary_display_owner_def split: if_splits option.splits)
  have live: "now < tdr_expires_at display" and lease: "\<exists>lease capability.
      lease_at (w_store (dv_world dv)) (frr_lease_id r) = Some lease \<and> now < lease_expires_at lease \<and>
      lease_owner_capability lease = Some capability \<and> owner_capabilities_equal capability (frr_owner_capability r)"
    using d(1) by (auto simp: store_authority_def authorize_temporary_display_owner_def capability_matches_def not_le
        split: if_splits option.splits)
  have id: "tdr_display_id display = frr_display_id r"
    using table_okD(1)[OF store_invD(2)[OF store_reachable_inv[OF assms(1)]] found(1)] by (simp add: record_ok_def)
  obtain monitor p mode where m: "frame_monitor (frr_display_id r) (tdr_generation display) (dc_mode_backend context) =
      Some (monitor, p)" "dc_surface context p = Some mode" "ftt_display_generation active = tdr_generation display"
    "ftt_width active = sm_width mode" "ftt_height active = sm_height mode"
    "ftt_adapter_luid active = sm_adapter_luid mode" "ftt_format active = sm_format mode"
    "ftt_color_space active = sm_color_space mode"
    using backend_targetD[OF t(2)] d(3,4) id by metis
  show ?thesis
    using registration_success_is_live[OF assms(2) t(4)] t(3,5) frame_monitorD[OF m(1)] m(2-) found d(2) live lease
    by (auto simp: ring_matches_target_def find_temporary_display_def)
qed

section \<open>An unhealthy backend\<close>

text \<open>The calls a handler adds are departures.\<close>

definition only_departs :: "world \<Rightarrow> world \<Rightarrow> bool" where
  "only_departs w w1 \<longleftrightarrow>
     (\<exists>calls. w_log w1 = w_log w @ calls \<and> (\<forall>c \<in> set calls. \<exists>i g. c = DepartTemporaryDisplay i g))"

lemma only_departs_refl [simp]: "only_departs w w"
  by (simp add: only_departs_def)

lemma only_departs_trans: "only_departs w w1 \<Longrightarrow> only_departs w1 w2 \<Longrightarrow> only_departs w w2"
  unfolding only_departs_def by (metis Un_iff append_assoc set_append)

lemma only_departs_log: "w_log w1 = w_log w \<Longrightarrow> only_departs w w1"
  by (simp add: only_departs_def)

lemma lock_window_log: "w_log (fst (lock_window w)) = w_log w"
  by (auto simp: lock_window_def Let_def split: list.split call_outcome.split)

lemma on_store_log: "w_log (fst (on_store f w)) = w_log w"
  by (simp add: on_store_def case_prod_beta)

lemma depart_call_departs: "only_departs w (fst (call_backend (DepartTemporaryDisplay i g) w))"
proof -
  obtain w1 outcome where lock: "lock_window w = (w1, outcome)" by force
  then have "w_log w1 = w_log w" using lock_window_log[of w] by simp
  then show ?thesis using lock by (cases outcome) (auto simp: call_backend_def only_departs_def)
qed

lemma then_store_departs: "only_departs w w1 \<Longrightarrow> only_departs w (fst (on_store f w1))"
  by (simp add: only_departs_def on_store_log)

lemma remove_departs: "only_departs w (fst (controller_remove request w))"
  using depart_call_departs[of w]
  by (auto simp: controller_remove_def Let_def backend_error_of_def case_prod_beta then_store_departs
      split: option.split)

lemma depart_one_departs: "only_departs w (fst (depart_display display w))"
  using depart_call_departs[of w]
  by (auto simp: Driver_Controller.depart_display_def Let_def backend_error_of_def case_prod_beta then_store_departs)

lemma release_all_departs: "only_departs w (fst (release_displays displays e w))"
proof (induction displays arbitrary: e w)
  case (Cons display displays)
  obtain w1 d x where one: "depart_display display w = (w1, d, x)" by (metis prod_cases3)
  then have "only_departs w w1" using depart_one_departs[of w display] by simp
  then show ?case using Cons one by (simp add: only_departs_trans)
qed simp

lemma release_departs: "only_departs w (fst (controller_release_lease request w))"
  using release_all_departs[of w]
  by (simp add: controller_release_lease_def Let_def case_prod_beta only_departs_log on_store_log)

lemma feed_departs: "only_departs w (fst (controller_feed_lease request now w))"
  by (simp add: controller_feed_lease_def case_prod_beta only_departs_log on_store_log)

lemma reclaim_departs: "only_departs w (fst (controller_reclaim request now w))"
proof -
  obtain w1 outcome where lock: "lock_window w = (w1, outcome)" by force
  then have "w_log w1 = w_log w" using lock_window_log[of w] by simp
  then show ?thesis
    using lock by (cases outcome) (simp_all add: controller_reclaim_def Let_def case_prod_beta only_departs_log on_store_log)
qed

lemma output_keeps [simp]:
  "fst (write_output output v w) = w" "fst (ioctl_fails w e) = w" "fst (result_from_controller w st) = w"
  "fst (finish_with output w st v) = w" "fst (dispatch_capabilities ft input output w) = w"
  "fst (dispatch_query_lease input output now w) = w"
  by (simp_all add: write_output_def ioctl_fails_def result_from_controller_def finish_with_def
      dispatch_capabilities_def dispatch_query_lease_def Let_def)

lemma status_departs:
  "(\<And>w. only_departs w (fst (call w))) \<Longrightarrow> only_departs w (fst (dispatch_status input n call w))"
  by (simp add: dispatch_status_def case_prod_beta)

lemma reclaim_dispatch_departs: "only_departs w (fst (dispatch_reclaim input output now w))"
  using reclaim_departs[of w] by (simp add: dispatch_reclaim_def case_prod_beta)

lemma allowed_dispatch_departs:
  assumes "can_dispatch_while_backend_unhealthy code" and "\<not> frame_request_code code"
  shows "only_departs w (fst (ioctl_dispatch frame_transport code input output now w))"
proof -
  have "code = kIoctl FnQueryFrameTransportCapabilities \<or> code = kIoctl FnGetProtocolVersion \<or>
      code = kIoctl FnRemoveTemporaryDisplay \<or> code = kIoctl FnFeedLease \<or> code = kIoctl FnReleaseLease \<or>
      code = kIoctl FnQueryLease \<or> code = kIoctl FnReclaimTemporaryDisplay \<or>
      code = kIoctl FnQueryPermanentDisplayCount \<or> code = kIoctl FnQueryDisplayState \<or>
      code = kIoctl FnQueryDisplayManifest"
    using assms unfolding can_dispatch_while_backend_unhealthy_def frame_request_code_def by blast
  then show ?thesis
    by (elim disjE; hypsubst)
       (simp_all add: ioctl_dispatch_def kIoctl_values frame_codes status_departs remove_departs release_departs feed_departs
         reclaim_dispatch_departs)
qed

text \<open>
  C25: While the backend is unhealthy the device brings nothing up. Whatever is requested, the only
  backend calls made are departures of temporary displays: no display arrives, no manifest is
  applied, no render adapter is chosen; and a request outside the list of recovery and query
  requests is answered with a backend failure and changes nothing at all.
\<close>

theorem unhealthy_device_only_departs:
  assumes "dc_unhealthy context"
    and "device_dispatch context code input frame_in output now dv = (dv1, result, out, frame_out)"
  shows "(\<exists>calls. w_log (dv_world dv1) = w_log (dv_world dv) @ calls \<and>
       (\<forall>c \<in> set calls. \<exists>i g. c = DepartTemporaryDisplay i g)) \<and>
     (can_dispatch_while_backend_unhealthy code \<or>
       dv1 = dv \<and> io_status result = BackendFailure \<and> out = OutNothing \<and> frame_out = FrameNothing)"
proof (cases "can_dispatch_while_backend_unhealthy code")
  case False
  then show ?thesis using assms by (auto simp: device_dispatch_def Let_def io_result_def)
next
  case allowed: True
  have "only_departs (dv_world dv) (dv_world dv1)"
  proof (cases "frame_request_code code")
    case True
    then have "dv_world dv1 = dv_world dv"
      using assms(2) by (auto simp: device_dispatch_def Let_def split: if_splits option.splits prod.splits)
    then show ?thesis by simp
  next
    case False
    obtain w res o1 where run: "ioctl_dispatch True code input output now (dv_world dv) = (w, res, o1)"
      by (metis prod_cases3)
    have "only_departs (dv_world dv) w"
      using allowed_dispatch_departs[OF allowed False, of "dv_world dv" True input "output" now] run by simp
    moreover have "dv_world dv1 = w \<or> dv1 = dv"
      using assms(2) run False by (auto simp: device_dispatch_def Let_def split: if_splits)
    ultimately show ?thesis by auto
  qed
  then show ?thesis using allowed by (simp add: only_departs_def)
qed

section \<open>Concrete requests\<close>

definition ring_monitor :: monitor_record where
  "ring_monitor =
     (new_record (descriptor_from_record (the (find_temporary_display 1 sample_store))) False 0)
       \<lparr>mr_arriving := False, mr_swapchain_processor := Some 9\<rparr>"

definition sample_context :: "bool \<Rightarrow> nat dispatch_context" where
  "sample_context unhealthy =
     \<lparr>dc_unhealthy = unhealthy, dc_unhealthy_again = unhealthy, dc_locked = True, dc_peer = Some sample_peer,
      dc_mode_backend = (initial_backend True)\<lparr>bk_monitors := [1 \<mapsto> ring_monitor]\<rparr>,
      dc_device_backend = (initial_backend True)\<lparr>bk_monitors := [1 \<mapsto> ring_monitor]\<rparr>,
      dc_surface = (\<lambda>p. record_frame_transport_surface_mode
        (Some \<lparr>td_width = 1920, td_height = 1080, td_mip_levels = 1, td_array_size = 1, td_sample_count = 1,
          td_sample_quality = 0, td_format = 87\<rparr>) \<lparr>low_part = 0, high_part = 0\<rparr>),
      dc_ready_device = (\<lambda>p. Some \<lparr>low_part = 0, high_part = 0\<rparr>), dc_import = (\<lambda>peer r. Some 6)\<rparr>"

definition sample_device :: "nat device" where
  "sample_device = \<lparr>dv_world = sample_world [], dv_server = sample_server, dv_shutdown_completed = False\<rparr>"

definition sample_frame_input :: frame_input where
  "sample_frame_input =
     \<lparr>fin_present = True, fin_size = 176, fin_target = target_request_of (sample_registration 4),
      fin_register = sample_registration 4, fin_clear = sample_clear 4\<rparr>"

lemma sample_query:
  obtains target where "server_query_target (store_authority sample_store) sample_peer
      (target_request_of (sample_registration 4)) 0 = Some target"
    "ftt_display_id target = 1" "ftt_display_generation target = 1"
proof -
  have "map_option (\<lambda>t. (ftt_display_id t, ftt_display_generation t)) (server_query_target (store_authority sample_store)
      sample_peer (target_request_of (sample_registration 4)) 0) = Some (1, 1)" by code_simp
  then show thesis using that by auto
qed

lemma sample_monitor:
  "frame_monitor 1 1 (dc_mode_backend (sample_context x)) = Some (ring_monitor, 9)"
  "frame_monitor 1 1 (dc_device_backend (sample_context x)) = Some (ring_monitor, 9)"
proof -
  have "map_option tdr_generation (find_temporary_display 1 sample_store) = Some 1" by code_simp
  then have "dd_generation (mr_descriptor ring_monitor) = 1" "\<not> mr_departing ring_monitor" "\<not> mr_permanent ring_monitor"
    "mr_swapchain_processor ring_monitor = Some 9"
    by (auto simp: ring_monitor_def new_record_def descriptor_from_record_def Let_def)
  then show "frame_monitor 1 1 (dc_mode_backend (sample_context x)) = Some (ring_monitor, 9)"
    "frame_monitor 1 1 (dc_device_backend (sample_context x)) = Some (ring_monitor, 9)"
    by (simp_all add: frame_monitor_def sample_context_def)
qed

lemma sample_fields [simp]:
  "frr_display_id (sample_registration c) = 1" "frr_display_generation (sample_registration c) = 1"
  "frr_adapter_luid (sample_registration c) = \<lparr>low_part = 0, high_part = 0\<rparr>"
  by (simp_all add: sample_registration_def empty_register_request_def)

lemma sample_registers:
  obtains sv reply where "frame_register (sample_context False) (store_authority sample_store) sample_frame_input
      \<lparr>out_present = True, out_size = 48\<rparr> sample_peer 0 sample_server = (sv, io_result IoctlSuccess 48, FrameReply reply)"
proof -
  let ?r = "sample_registration 4"
  obtain target where t: "server_query_target (store_authority sample_store) sample_peer (target_request_of ?r) 0 = Some target"
    "ftt_display_id target = 1" "ftt_display_generation target = 1"
    by (rule sample_query)
  have "\<exists>active. backend_frame_transport_target (dc_surface (sample_context False)) 1 1
      (dc_mode_backend (sample_context False)) = Some active \<and> ring_matches_target ?r active"
    by (simp add: backend_frame_transport_target_def sample_monitor)
       (simp add: ring_matches_target_def sample_context_def record_frame_transport_surface_mode_def
          sample_registration_def empty_register_request_def Let_def)
  then obtain active where active: "backend_frame_transport_target (dc_surface (sample_context False)) 1 1
      (dc_mode_backend (sample_context False)) = Some active" "ring_matches_target ?r active" by blast
  have device: "frame_import_device_for (dc_ready_device (sample_context False)) 1 1 \<lparr>low_part = 0, high_part = 0\<rparr>
      (dc_device_backend (sample_context False))"
    by (simp add: frame_import_device_for_def sample_monitor) (simp add: sample_context_def)
  obtain sv status reply where run: "server_register (store_authority sample_store) (\<lambda>peer r. Some 6) sample_peer ?r 0
      sample_server = (sv, status, reply)" by (metis prod_cases3)
  have "fst (snd (server_register (store_authority sample_store) (\<lambda>peer r. Some 6) sample_peer ?r 0 sample_server)) =
      WireSuccess" by code_simp
  moreover have "dc_import (sample_context False) = (\<lambda>peer r. Some 6)" by (simp add: sample_context_def)
  ultimately show thesis
    using that[of sv reply] t active device run
    by (simp add: frame_register_def Let_def sample_frame_input_def)
qed

theorem accepted_ring_has_live_monitor_witness:
  "\<exists>result out reply e dv1. device_dispatch (sample_context False) kIoctlRegisterFrameRing (sample_input 0) sample_frame_input
      \<lparr>out_present = True, out_size = 48\<rparr> 0 sample_device = (dv1, result, out, FrameReply reply) \<and>
    omap_find (lt_rings (sv_rings (dv_server dv1))) 1 = Some e \<and>
    can_publish (lt_gates (sv_rings (dv_server dv1))) (re_snapshot e)"
proof -
  obtain sv reply where reg: "frame_register (sample_context False) (store_authority sample_store) sample_frame_input
      \<lparr>out_present = True, out_size = 48\<rparr> sample_peer 0 sample_server = (sv, io_result IoctlSuccess 48, FrameReply reply)"
    by (rule sample_registers)
  have open_context: "\<not> dc_unhealthy (sample_context False)" "\<not> dc_unhealthy_again (sample_context False)"
    "dc_locked (sample_context False)" "dc_peer (sample_context False) = Some sample_peer"
    by (simp_all add: sample_context_def)
  have run: "device_dispatch (sample_context False) kIoctlRegisterFrameRing (sample_input 0) sample_frame_input
      \<lparr>out_present = True, out_size = 48\<rparr> 0 sample_device =
    (sample_device\<lparr>dv_server := sv\<rparr>, io_result IoctlSuccess 48, OutNothing, FrameReply reply)"
    using reg by (simp add: device_dispatch_def Let_def open_context register_is_frame_code
        dispatch_frame_transport_def sample_device_def sample_world_def)
  have reach: "store_reachable (w_store (dv_world sample_device))" "server_reachable (dv_server sample_device)"
    using sample_reachable sample_server_reachable by (simp_all add: sample_device_def sample_world_def)
  show ?thesis
    using accepted_ring_has_live_monitor[OF reach run] run
    by (auto simp: sample_frame_input_def io_result_def)
qed

theorem unhealthy_device_only_departs_witness:
  "\<exists>result out frame_out dv1. device_dispatch (sample_context True) (kIoctl FnCreateTemporaryDisplayOwned)
      (sample_input 128) sample_frame_input \<lparr>out_present = True, out_size = 56\<rparr> 0 sample_device =
        (dv1, result, out, frame_out) \<and>
     w_log (dv_world dv1) = w_log (dv_world sample_device) \<and> io_status result = BackendFailure"
proof -
  obtain dv1 result out frame_out where run: "device_dispatch (sample_context True) (kIoctl FnCreateTemporaryDisplayOwned)
      (sample_input 128) sample_frame_input \<lparr>out_present = True, out_size = 56\<rparr> 0 sample_device =
        (dv1, result, out, frame_out)" by (metis prod_cases4)
  have "dc_unhealthy (sample_context True)" by (simp add: sample_context_def)
  moreover have "\<not> can_dispatch_while_backend_unhealthy (kIoctl FnCreateTemporaryDisplayOwned)"
    by (simp add: can_dispatch_while_backend_unhealthy_def kIoctl_values frame_codes)
  ultimately show ?thesis using unhealthy_device_only_departs[OF _ run] run by auto
qed

text \<open>A device that has shut down publishes nothing: every gate is closed.\<close>

lemma shut_down_device_publishes_nothing:
  assumes "shutdown_for_cleanup reaper_stopped backend_down dv = (dv1, True)" and "\<not> dv_shutdown_completed dv"
  shows "lt_rings (sv_rings (dv_server dv1)) = [] \<and> dv_shutdown_completed dv1 \<and> backend_down"
  using assms by (auto simp: shutdown_for_cleanup_def Let_def reset_rings_def split: if_splits)

end
