(* ===== verification/Control_Client_Theorems.thy ===== *)
theory Control_Client_Theorems
  imports Control_Client Device_Theorems
begin

text \<open>
  What a client of the control protocol can rely on: over the Windows transport and the device it
  sees exactly what the controller decided, and over any transport it neither sends a frame
  transport request to a driver that does not know it, nor believes a reply that does not answer
  its request.
\<close>

section \<open>One request through the stack\<close>

text \<open>The driver's side works: its device is up, healthy and not locked, and the buffers are there.\<close>

definition serves :: "'r connection \<Rightarrow> bool" where
  "serves connection \<longleftrightarrow>
     \<not> dc_unhealthy (cn_context connection) \<and> dc_locked (cn_context connection) \<and>
     cn_device_ready connection \<and> cn_input_retrieved connection = StatusSuccess \<and>
     cn_output_retrieved connection = StatusSuccess"

text \<open>The failure of the client's side, if the call fails there.\<close>

definition client_side_error :: "'r connection \<Rightarrow> u32 option" where
  "client_side_error connection =
     (if \<not> cn_handle_valid connection then Some 87
      else
        (case cn_event_error connection of
           Some error \<Rightarrow> Some error
         | None \<Rightarrow>
             (case cn_delivery connection of
                DeliveryRefused error \<Rightarrow> if error = 997 then None else Some error
              | DeliveryImmediate \<Rightarrow> None
              | DeliveryPending WaitSignalled _ \<Rightarrow> None
              | DeliveryPending WaitTimedOut _ \<Rightarrow> Some 1460
              | DeliveryPending (WaitFailed error) _ \<Rightarrow> Some error)))"

text \<open>The error a caller of the client sees for a verdict of the controller, if any.\<close>

definition call_error :: "'r connection \<Rightarrow> controller_status \<Rightarrow> u32 option" where
  "call_error connection st =
     (case client_side_error connection of
        Some error \<Rightarrow> Some error
      | None \<Rightarrow> if status_ok st then None
                else Some (cn_win32 connection (ntstatus_from_ioctl_status (status_from_controller st))))"

definition device_after :: "'r connection \<Rightarrow> 'r device \<Rightarrow> world \<Rightarrow> 'r device" where
  "device_after connection dv w = (if request_runs connection 0 0 then dv\<lparr>dv_world := w\<rparr> else dv)"

text \<open>What the transport reports for a verdict of the controller.\<close>

definition transport_answer :: "'r connection \<Rightarrow> controller_status \<Rightarrow> ioctl_output \<Rightarrow> transport_reply" where
  "transport_answer connection st v =
     (case call_error connection st of
        None \<Rightarrow> \<lparr>tr_ok = True, tr_bytes_returned = output_bytes v, tr_native_error = 0,
                  tr_output = driver_output (cn_blank connection) v\<rparr>
      | Some error \<Rightarrow> transport_failure (cn_blank connection) error)"

lemma dispatched_not_frame: "dispatched f \<Longrightarrow> \<not> frame_request_code (kIoctl f)"
  by (cases f) (simp_all add: frame_request_code_def frame_codes kIoctl_values dispatched_def)

lemma nt_success [simp]: "ntstatus_from_ioctl_status status = StatusSuccess \<longleftrightarrow> status = IoctlSuccess"
  by (cases status) auto

lemma transport_serves:
  assumes "serves connection" and "dispatched f"
    and "buffers_fit f (driver_input (cn_input connection) request n) \<lparr>out_present = m > 0, out_size = m\<rparr>"
    and "n \<le> 0xffffffff" and "m \<le> 0xffffffff"
    and call: "control_call True f (driver_input (cn_input connection) request n) (cn_now connection) (dv_world dv) =
      (w, st, v)"
  shows "driver_transport connection (kIoctl f) request n m dv =
    (device_after connection dv w, transport_answer connection st v)"
proof -
  let ?c = "cn_context connection"
  have "device_dispatch ?c (kIoctl f) (driver_input (cn_input connection) request n)
      (connection_frame_input connection request n) \<lparr>out_present = m > 0, out_size = m\<rparr> (cn_now connection) dv =
    (dv\<lparr>dv_world := w\<rparr>, fst (snd (reply_of (w, st, v))), snd (snd (reply_of (w, st, v))), FrameNothing)"
    using assms(1) dispatched_not_frame[OF assms(2)] dispatch_fits[OF assms(2,3), of True "cn_now connection" "dv_world dv"] call
    by (auto simp: device_dispatch_def Let_def serves_def case_prod_beta frame_request_code_def)
  then have completed: "device_io_control connection (kIoctl f) request n m dv =
      (dv\<lparr>dv_world := w\<rparr>, ntstatus_from_ioctl_status (io_status (fst (snd (reply_of (w, st, v))))),
       io_bytes_returned (fst (snd (reply_of (w, st, v)))),
       driver_output (cn_blank connection) (snd (snd (reply_of (w, st, v)))))"
    using assms(1) by (simp add: device_io_control_def retrieve_request_buffer_def serves_def driver_frame_output_def Let_def)
  have runs: "request_runs connection n m \<longleftrightarrow> request_runs connection 0 0"
    using assms(4,5) by (simp add: request_runs_def)
  show ?thesis
    using assms(4,5)
    by (auto simp: driver_transport_def completed device_after_def runs transport_answer_def call_error_def
        client_side_error_def windows_ioctl_def overlapped_result_def transport_failure_def Let_def
        split: option.split delivery.split wait_outcome.split)
qed

section \<open>What the client sees\<close>

text \<open>The contract of a client operation, by the verdict of the controller operation it stands for.\<close>

definition client_value ::
  "'r connection \<Rightarrow> 'r device \<Rightarrow> world \<times> controller_status \<times> 'a \<Rightarrow> 'r device \<times> 'a control_result" where
  "client_value connection dv call =
     (let (w, st, v) = call in
      (device_after connection dv w,
       case call_error connection st of
         None \<Rightarrow> \<lparr>cr_status = ControlSuccess, cr_value = Some v, cr_native_error = 0\<rparr>
       | Some error \<Rightarrow> \<lparr>cr_status = TransportFailed, cr_value = None, cr_native_error = error\<rparr>))"

definition client_verdict ::
  "'r connection \<Rightarrow> 'r device \<Rightarrow> world \<times> controller_status \<Rightarrow> 'r device \<times> control_operation_result" where
  "client_verdict connection dv call =
     (let (w, st) = call in
      (device_after connection dv w,
       case call_error connection st of
         None \<Rightarrow> \<lparr>cor_status = ControlSuccess, cor_native_error = 0\<rparr>
       | Some error \<Rightarrow> \<lparr>cor_status = TransportFailed, cor_native_error = error\<rparr>))"

lemma own_namespace [simp]: "is_valid_api_namespace kApiNamespaceGuid"
  by (simp add: is_valid_api_namespace_def)

lemma ioctl_out_serves:
  assumes "serves connection" and "dispatched f"
    and "buffers_fit f (driver_input (cn_input connection) request (request_size request)) \<lparr>out_present = m > 0, out_size = m\<rparr>"
    and "m \<le> 0xffffffff"
    and "control_call True f (driver_input (cn_input connection) request (request_size request)) (cn_now connection)
      (dv_world dv) = apsnd (apsnd wrap) call"
    and "output_bytes (wrap (snd (snd call))) = m"
    and "is_valid_api_namespace (co_api_namespace (driver_output (cn_blank connection) (wrap (snd (snd call)))))"
    and "read (driver_output (cn_blank connection) (wrap (snd (snd call)))) = snd (snd call)"
  shows "ioctl_out (driver_transport connection) (kIoctl f) request m read dv = client_value connection dv call"
proof -
  obtain w st v where c: "call = (w, st, v)" by (metis prod_cases3)
  have "request_size request \<le> 0xffffffff" by (cases request) auto
  then show ?thesis
    using transport_serves[OF assms(1,2,3) _ assms(4), of dv w st "wrap v"] assms(5-8)
    by (auto simp: c ioctl_out_def client_value_def transport_answer_def transport_failure_def split: option.split)
qed

lemma ioctl_no_out_serves:
  assumes "serves connection" and "dispatched f"
    and "buffers_fit f (driver_input (cn_input connection) request (request_size request)) \<lparr>out_present = False, out_size = 0\<rparr>"
    and "control_call True f (driver_input (cn_input connection) request (request_size request)) (cn_now connection)
      (dv_world dv) = apsnd (\<lambda>st. (st, OutNothing)) call"
  shows "ioctl_no_out (driver_transport connection) (kIoctl f) request dv = client_verdict connection dv call"
proof -
  obtain w st where c: "call = (w, st)" by fastforce
  have "request_size request \<le> 0xffffffff" by (cases request) auto
  then show ?thesis
    using transport_serves[OF assms(1,2), of request "request_size request" 0 dv w st OutNothing] assms(3,4)
    by (auto simp: c ioctl_no_out_def client_verdict_def transport_answer_def transport_failure_def split: option.split)
qed

section \<open>Namespaces of the results\<close>

lemma install_namespace:
  "ctr_api_namespace (snd (snd (install_temporary_display v cap now c keep i s))) = kApiNamespaceGuid"
  by (simp add: install_temporary_display_def Let_def empty_create_result_def case_prod_beta)

lemma create_impl_namespace:
  "ctr_api_namespace (snd (snd (create_temporary_display_impl request cap now s))) = kApiNamespaceGuid"
  by (simp add: create_temporary_display_impl_def create_on_connector_def install_namespace Let_def case_prod_beta
      create_failure_def split: option.split prod.split) (simp add: empty_create_result_def)

lemma store_create_namespace:
  "ctr_api_namespace (snd (snd (store_create request cap now s))) = kApiNamespaceGuid"
  by (simp add: store_create_def create_temporary_display_def create_temporary_display_owned_def create_impl_namespace
      Let_def split: option.split) (simp add: empty_create_result_def)

lemma create_fails_namespace: "ctr_api_namespace (snd (snd (create_fails w st))) = kApiNamespaceGuid"
  by (simp add: create_fails_def empty_create_result_def)

lemma bring_up_namespace:
  "ctr_api_namespace result = kApiNamespaceGuid \<Longrightarrow>
   ctr_api_namespace (snd (snd (bring_up request made result w))) = kApiNamespaceGuid"
  by (simp add: bring_up_def arrival_succeeded_def arrival_failed_def create_fails_namespace Let_def case_prod_beta
      split: option.split)

lemma controller_create_namespace:
  "ctr_api_namespace (snd (snd (controller_create_impl request cap now w))) = kApiNamespaceGuid"
  using store_create_namespace[of request cap now]
  by (simp add: controller_create_impl_def create_fails_namespace bring_up_namespace on_store_def Let_def
      case_prod_beta split: option.split)

lemma created_namespace:
  "ctr_api_namespace (snd (snd (controller_create_owned request now w))) = kApiNamespaceGuid"
  by (simp add: controller_create_owned_def create_fails_namespace controller_create_namespace Let_def)

lemma reclaimed_namespace:
  "rtr_api_namespace (snd (snd (controller_reclaim request now w))) = kApiNamespaceGuid"
  by (simp add: controller_reclaim_def Let_def on_store_def reclaim_temporary_display_def case_prod_beta
      split: option.split call_outcome.split prod.split) (simp add: empty_reclaim_result_def)

section \<open>Properties\<close>

text \<open>
  C26: What a client learns of the controller's decision. Through the client library, the Windows
  transport, the entry point of a healthy device and the dispatcher, creating, reclaiming and
  removing a display and feeding and releasing a lease change the driver exactly as the controller
  operation does if the request runs, and not at all otherwise. If the call fails on the client's
  side (invalid handle, no event, refused, time-out of the bounded wait, failed wait) the client
  reports that error and no value, whatever the controller decided: after a time-out the operation
  may have happened. In all other cases the request has run, and the client reports success and
  the controller's result exactly when the controller succeeded; a refusal arrives as the system
  error of its status, with no value.
\<close>

theorem client_sees_the_controller:
  assumes "serves connection"
  defines "transport \<equiv> driver_transport connection" and "now \<equiv> cn_now connection"
  shows "client_create_temporary_display_owned transport create dv =
      client_value connection dv (controller_create_owned create now (dv_world dv)) \<and>
    client_reclaim_temporary_display transport reclaim dv =
      client_value connection dv (controller_reclaim reclaim now (dv_world dv)) \<and>
    client_remove_temporary_display transport display dv =
      client_verdict connection dv (controller_remove display (dv_world dv)) \<and>
    client_feed_lease transport lease dv =
      client_verdict connection dv (controller_feed_lease lease now (dv_world dv)) \<and>
    client_release_lease transport lease dv =
      client_verdict connection dv (controller_release_lease lease (dv_world dv)) \<and>
    (client_side_error connection = None \<longrightarrow> request_runs connection 0 0)"
proof (intro conjI)
  show "client_side_error connection = None \<longrightarrow> request_runs connection 0 0"
    by (auto simp: client_side_error_def request_runs_def split: option.splits delivery.splits wait_outcome.splits if_splits)
next
  note fits = buffers_fit_def driver_input_def read_input_def can_write_def dispatched_def Let_def
  note call = client_create_temporary_display_owned_def client_reclaim_temporary_display_def
    client_remove_temporary_display_def client_feed_lease_def client_release_lease_def transport_def now_def
  show "client_create_temporary_display_owned transport create dv =
      client_value connection dv (controller_create_owned create now (dv_world dv))"
    unfolding call
    by (rule ioctl_out_serves[OF assms(1), where wrap = OutCreated]) (simp_all add: fits driver_output_def created_namespace)
  show "client_reclaim_temporary_display transport reclaim dv =
      client_value connection dv (controller_reclaim reclaim now (dv_world dv))"
    unfolding call
    by (rule ioctl_out_serves[OF assms(1), where wrap = OutReclaimed]) (simp_all add: fits driver_output_def reclaimed_namespace)
qed (unfold client_remove_temporary_display_def client_feed_lease_def client_release_lease_def transport_def now_def,
  (rule ioctl_no_out_serves[OF assms(1)];
   simp add: buffers_fit_def driver_input_def read_input_def dispatched_def Let_def)+)

section \<open>What the client asks and believes\<close>

text \<open>A transport that records the control codes it is asked for.\<close>

definition logged :: "'s transport \<Rightarrow> ('s \<times> u32 list) transport" where
  "logged transport code request input_size output_size state =
     (let (s, sent) = state; (s1, reply) = transport code request input_size output_size s
      in ((s1, sent @ [code]), reply))"

lemma ioctl_out_logged:
  "ioctl_out (logged transport) code request bytes read (s, sent) =
     (let (s1, result) = ioctl_out transport code request bytes read s in ((s1, sent @ [code]), result))"
  by (simp add: ioctl_out_def logged_def Let_def case_prod_beta)

lemma version_logged:
  "query_protocol_version (logged transport) (s, sent) =
     (let (s1, version) = query_protocol_version transport s in ((s1, sent @ [kIoctl FnGetProtocolVersion]), version))"
  by (simp add: query_protocol_version_def ioctl_out_logged Let_def case_prod_beta split: option.split)

lemma compatible_version:
  assumes "query_protocol_version transport s = (s1, version)" and "control_result_ok version"
    and "speaks_frame_transport version"
  shows "\<exists>v. cr_value version = Some v \<and> is_valid_api_namespace (pv_api_namespace v) \<and>
      pv_major v = kProtocolVersionMajor \<and> 8 \<le> pv_minor v"
proof (cases "cr_value version")
  case None
  then show ?thesis using assms(3) by (simp add: speaks_frame_transport_def)
next
  case (Some v)
  obtain s2 result where o: "ioctl_out transport (kIoctl FnGetProtocolVersion) RequestNothing 24 co_version s = (s2, result)"
    by fastforce
  have "is_valid_api_namespace (pv_api_namespace v) \<and> pv_major v = kProtocolVersionMajor"
    using assms(1,2) Some by (auto simp: query_protocol_version_def o control_result_ok_def split: if_splits option.splits)
  then show ?thesis using assms(3) Some by (simp add: speaks_frame_transport_def not_less)
qed

text \<open>The two ends of the target query.\<close>

definition believed :: "frame_transport_target_request \<Rightarrow> frame_transport_target control_result \<Rightarrow>
    frame_transport_target control_result" where
  "believed request result =
     (case cr_value result of
        Some target \<Rightarrow>
          if control_result_ok result \<and> \<not> valid_frame_transport_target target request
          then result\<lparr>cr_status := InvalidOutput\<rparr> else result
      | None \<Rightarrow> result)"

definition unasked :: "protocol_version control_result \<Rightarrow> frame_transport_target control_result" where
  "unasked version =
     (if \<not> control_result_ok version
      then \<lparr>cr_status = cr_status version, cr_value = None, cr_native_error = cr_native_error version\<rparr>
      else if \<not> speaks_frame_transport version
      then \<lparr>cr_status = ProtocolIncompatible, cr_value = None, cr_native_error = 0\<rparr>
      else \<lparr>cr_status = InvalidOutput, cr_value = None, cr_native_error = 0\<rparr>)"

lemma unasked_fails: "cr_status (unasked version) \<noteq> ControlSuccess"
  by (simp add: unasked_def control_result_ok_def)

lemma ioctl_out_valued:
  assumes "ioctl_out transport code request bytes read s = (s1, result)" and "cr_status result = ControlSuccess"
  obtains v where "cr_value result = Some v"
  using assms by (auto simp: ioctl_out_def Let_def split: if_splits prod.splits)

lemma believed_success:
  assumes "cr_status (believed request result) = ControlSuccess" and "cr_value result = Some target"
  shows "cr_value (believed request result) = Some target \<and> valid_frame_transport_target target request"
  using assms by (auto simp: believed_def control_result_ok_def split: if_splits)

lemma believed_status: "cr_status (believed request result) = ControlSuccess \<Longrightarrow> cr_status result = ControlSuccess"
  by (auto simp: believed_def split: if_splits option.splits)

text \<open>
  C27: A client never sends a frame transport query to a driver that does not know it, and never
  believes an answer to another question. Whatever the transport does, a target query sends the
  version request and at most the target request after it, the latter only for a well formed
  request and after a reply of a compatible driver of minor version 8 or later; and it reports
  success only together with a target that is well formed and names the display and the lease asked
  for.
\<close>

theorem client_asks_only_speakers:
  fixes transport :: "'s transport"
  shows "let ((s1, sent), result) = query_frame_transport_target (logged transport) request (s, []);
      version = snd (query_protocol_version transport s) in
    (sent = [kIoctl FnGetProtocolVersion] \<or>
     sent = [kIoctl FnGetProtocolVersion, kIoctl FnQueryFrameTransportTarget] \<and>
     valid_frame_transport_target_request request \<and>
     (\<exists>v. cr_value version = Some v \<and> is_valid_api_namespace (pv_api_namespace v) \<and>
        pv_major v = kProtocolVersionMajor \<and> 8 \<le> pv_minor v)) \<and>
    (cr_status result = ControlSuccess \<longrightarrow>
       length sent = 2 \<and> (\<exists>target. cr_value result = Some target \<and> valid_frame_transport_target target request))"
proof -
  obtain s1 version where v: "query_protocol_version transport s = (s1, version)" by fastforce
  obtain s2 result where q: "ioctl_out transport (kIoctl FnQueryFrameTransportTarget) (RequestTarget request) 72 co_target s1 =
      (s2, result)" by fastforce
  have sent: "query_frame_transport_target (logged transport) request (s, []) =
      (if control_result_ok version \<and> speaks_frame_transport version \<and> valid_frame_transport_target_request request
       then ((s2, [kIoctl FnGetProtocolVersion, kIoctl FnQueryFrameTransportTarget]), believed request result)
       else ((s1, [kIoctl FnGetProtocolVersion]), unasked version))"
    by (simp add: query_frame_transport_target_def version_logged ioctl_out_logged v q believed_def unasked_def Let_def)
  show ?thesis
  proof (cases "control_result_ok version \<and> speaks_frame_transport version \<and> valid_frame_transport_target_request request")
    case True
    have answer: "\<exists>target. cr_value (believed request result) = Some target \<and> valid_frame_transport_target target request"
      if "cr_status (believed request result) = ControlSuccess"
      using ioctl_out_valued[OF q believed_status[OF that]] believed_success[OF that] by metis
    then show ?thesis
      using True compatible_version[OF v] by (simp add: sent v)
  next
    case False
    then have "query_frame_transport_target (logged transport) request (s, []) =
        ((s1, [kIoctl FnGetProtocolVersion]), unasked version)" by (simp add: sent)
    then show ?thesis using unasked_fails[of version] by simp
  qed
qed

section \<open>Concrete clients\<close>

definition blank_output :: client_output where
  "blank_output =
     \<lparr>co_api_namespace = zero_guid, co_version = current_protocol_version,
      co_capabilities = frame_transport_capabilities_of False, co_created = empty_create_result,
      co_reclaimed = empty_reclaim_result, co_lease = query_lease 0 0 sample_store,
      co_permanent_count = query_permanent_display_count sample_store,
      co_display_state = query_display_state sample_store, co_manifest = default_manifest, co_target = empty_target\<rparr>"

definition sample_connection :: "nat connection" where
  "sample_connection =
     \<lparr>cn_context = sample_context False, cn_now = 0, cn_input = sample_input 0, cn_frame_input = sample_frame_input,
      cn_blank = blank_output, cn_win32 = (\<lambda>status. 31), cn_handle_valid = True, cn_event_error = None,
      cn_delivery = DeliveryPending WaitSignalled True, cn_device_ready = True,
      cn_input_retrieved = StatusSuccess, cn_output_retrieved = StatusSuccess\<rparr>"

text \<open>The same connection when the client's wait times out although the driver has run the request.\<close>

definition impatient_connection :: "nat connection" where
  "impatient_connection = sample_connection\<lparr>cn_delivery := DeliveryPending WaitTimedOut True\<rparr>"

theorem client_sees_the_controller_witness:
  "let made = client_create_temporary_display_owned (driver_transport sample_connection) (sample_owned sample_lease 3 0)
       (sample_device\<lparr>dv_world := sample_world [quiet_window success, quiet_window success]\<rparr>);
     late = client_create_temporary_display_owned (driver_transport impatient_connection) (sample_owned sample_lease 3 0)
       (sample_device\<lparr>dv_world := sample_world [quiet_window success, quiet_window success]\<rparr>);
     refused = client_feed_lease (driver_transport sample_connection) (sample_feed\<lparr>lr_lease_id := 77\<rparr>)
       sample_device in
   cr_status (snd made) = ControlSuccess \<and>
   snd late = \<lparr>cr_status = TransportFailed, cr_value = None, cr_native_error = 1460\<rparr> \<and> fst late = fst made \<and>
   snd refused = \<lparr>cor_status = TransportFailed, cor_native_error = 31\<rparr>"
proof -
  have serves: "serves sample_connection" by (simp add: serves_def sample_connection_def sample_context_def)
  let ?w = "sample_world [quiet_window success, quiet_window success]"
  have inv: "store_inv (w_store ?w)"
    using store_reachable_inv[OF sample_reachable] by (simp add: sample_world_def)
  have made: "sr_error (fst (snd (create_temporary_display_owned (sample_owned sample_lease 3 0) 0 (w_store ?w)))) = StoreNone"
    unfolding sample_world_def by code_simp
  have "w_script ?w = quiet_window success # quiet_window success # []" by (simp add: sample_world_def)
  from quiet_create_ok[OF inv this made]
  have create: "status_ok (fst (snd (controller_create_owned (sample_owned sample_lease 3 0) 0 ?w)))" by simp
  have "sr_error (snd (feed_lease (sample_feed\<lparr>lr_lease_id := 77\<rparr>) 0 sample_store)) \<noteq> StoreNone" by code_simp
  then have feed: "\<not> status_ok (snd (controller_feed_lease (sample_feed\<lparr>lr_lease_id := 77\<rparr>) 0 (sample_world [])))"
    by (simp add: controller_feed_lease_def on_store_def sample_world_def case_prod_beta from_store_result_def status_ok_def)
  have waits: "serves impatient_connection" using serves by (simp add: serves_def impatient_connection_def)
  have parts: "cn_now sample_connection = 0" "cn_win32 sample_connection = (\<lambda>status. 31)"
    "cn_now impatient_connection = 0" "dv_world sample_device = sample_world []"
    by (simp_all add: sample_connection_def impatient_connection_def sample_device_def)
  have sides: "client_side_error sample_connection = None" "client_side_error impatient_connection = Some 1460"
    by (simp_all add: client_side_error_def sample_connection_def impatient_connection_def)
  have runs: "request_runs sample_connection 0 0" "request_runs impatient_connection 0 0"
    by (simp_all add: request_runs_def sample_connection_def impatient_connection_def)
  show ?thesis
    using create feed
    by (simp add: client_sees_the_controller[OF serves] client_sees_the_controller[OF waits] parts sides runs
        client_value_def client_verdict_def call_error_def device_after_def case_prod_beta)
qed

text \<open>A driver of version 3.8 that answers every target query with the same target.\<close>

definition sample_target :: frame_transport_target where
  "sample_target = empty_target
     \<lparr>ftt_lease_id := sample_lease, ftt_display_id := 1, ftt_display_generation := 1, ftt_width := 1920,
      ftt_height := 1080, ftt_adapter_luid := \<lparr>low_part = 1, high_part = 0\<rparr>, ftt_format := 87\<rparr>"

definition sample_transport :: "unit transport" where
  "sample_transport code request input_size output_size s =
     (s, \<lparr>tr_ok = True, tr_bytes_returned = output_size, tr_native_error = 0,
          tr_output = blank_output\<lparr>co_api_namespace := kApiNamespaceGuid,
            co_version := current_protocol_version\<lparr>pv_minor := 8\<rparr>, co_target := sample_target\<rparr>\<rparr>)"

theorem client_asks_only_speakers_witness:
  "\<exists>sent result. query_frame_transport_target (logged sample_transport) (target_request_of (sample_registration 4)) ((), []) =
      (((), sent), result) \<and> length sent = 2 \<and> cr_status result = ControlSuccess \<and>
    (\<exists>target. cr_value result = Some target \<and>
       valid_frame_transport_target target (target_request_of (sample_registration 4)))"
proof -
  let ?r = "target_request_of (sample_registration 4)"
  have valid: "valid_frame_transport_target_request ?r" "valid_frame_transport_target sample_target ?r" by code_simp+
  have version: "\<not> pv_minor (current_protocol_version\<lparr>pv_minor := 8\<rparr>) < kMinimumCompatibleProtocolVersionMinor"
    "pv_major (current_protocol_version\<lparr>pv_minor := 8\<rparr>) = kProtocolVersionMajor"
    "is_valid_api_namespace (pv_api_namespace (current_protocol_version\<lparr>pv_minor := 8\<rparr>))" by code_simp+
  obtain sent result where run: "query_frame_transport_target (logged sample_transport) ?r ((), []) = (((), sent), result)"
    by (metis prod.exhaust old.unit.exhaust)
  have "cr_status (snd (query_frame_transport_target (logged sample_transport) ?r ((), []))) = ControlSuccess"
    using valid version
    by (simp add: query_frame_transport_target_def logged_def query_protocol_version_def ioctl_out_def
        sample_transport_def control_result_ok_def speaks_frame_transport_def)
  then show ?thesis
    using client_asks_only_speakers[where transport = sample_transport and request = ?r and s = "()"] run
    by (auto simp: Let_def)
qed

end
