(* ===== verification/Frame_Publish.thy ===== *)
theory Frame_Publish
  imports Device_State
begin

text \<open>
  The producer end of a frame ring (\<open>open_frame_ring_for_producer\<close>, \<open>publish_frame_to_ring\<close> and
  their caller in the swapchain worker, \<open>driver_main.cpp\<close>): a captured frame is copied into the
  first slot whose keyed mutex can be acquired without waiting, and its metadata is written and the
  slot released to the consumer under the lock that retirement takes.

  A call is an activity with a program counter; each access to shared state (the gate, a keyed
  mutex, the textures) is a step of its own, so retirement, the consumer and another worker of the
  same display can come in between. The answers of Windows are in \<open>publish_answers\<close>. A keyed mutex
  behaves as documented: it is acquired with the key it was last released with, by one holder at a
  time, and is abandoned when its holder dies.
\<close>

section \<open>Opening a ring\<close>

definition texture_fits :: "frame_ring_register_request \<Rightarrow> texture_desc \<Rightarrow> bool" where
  "texture_fits request desc \<longleftrightarrow>
     \<not> (td_width desc \<noteq> frr_width request \<or> td_height desc \<noteq> frr_height request \<or>
        td_format desc \<noteq> frr_format request \<or> td_mip_levels desc \<noteq> 1 \<or> td_array_size desc \<noteq> 1 \<or>
        td_sample_count desc \<noteq> 1 \<or> td_sample_quality desc \<noteq> 0)"

text \<open>
  \<open>imported\<close>: the registration request kept in the resources, if they are an imported ring;
  \<open>adapter\<close>: the adapter of the device; \<open>opened\<close>: the description of the texture of each slot, if it
  could be opened and has a keyed mutex.
\<close>

definition open_frame_ring_for_producer ::
  "frame_ring_publication list \<Rightarrow> ('r \<Rightarrow> frame_ring_register_request option) \<Rightarrow> 'r frame_ring_snapshot \<Rightarrow>
     adapter_luid \<Rightarrow> u64 \<Rightarrow> u64 \<Rightarrow> adapter_luid option \<Rightarrow> (nat \<Rightarrow> texture_desc option) \<Rightarrow>
     frame_ring_register_request option" where
  "open_frame_ring_for_producer gates imported snap render_adapter_luid display_id display_generation
       adapter opened =
     (if \<not> can_publish gates snap \<or> rs_display_generation snap \<noteq> display_generation \<or>
         rs_ring_generation snap = 0 then None
      else
        (case Option.bind (rs_resources snap) imported of
           None \<Rightarrow> None
         | Some request \<Rightarrow>
             if frr_display_id request \<noteq> display_id \<or> frr_display_generation request \<noteq> display_generation \<or>
                frr_adapter_luid request \<noteq> render_adapter_luid \<or> adapter \<noteq> Some render_adapter_luid
             then None
             else if list_all (\<lambda>slot. case opened slot of None \<Rightarrow> False | Some desc \<Rightarrow> texture_fits request desc)
                       [0..<unat kFrameRingSlotCount]
             then Some request else None))"

record 'r ring_producer =
  rp_snapshot :: "'r frame_ring_snapshot"
  rp_imported :: "frame_ring_register_request option"

text \<open>
  The worker's producer for a new snapshot: the one it has, if it is for the same ring, otherwise a
  new one. A producer without an imported ring takes no frames.
\<close>

definition refresh_producer ::
  "frame_ring_publication list \<Rightarrow> ('r \<Rightarrow> frame_ring_register_request option) \<Rightarrow> 'r frame_ring_snapshot \<Rightarrow>
     adapter_luid \<Rightarrow> u64 \<Rightarrow> u64 \<Rightarrow> adapter_luid option \<Rightarrow> (nat \<Rightarrow> texture_desc option) \<Rightarrow>
     'r ring_producer option \<Rightarrow> 'r ring_producer option" where
  "refresh_producer gates imported snap render_adapter_luid display_id display_generation adapter opened producer =
     (if \<not> can_publish gates snap then None
      else
        (case producer of
           Some p \<Rightarrow>
             if rs_ring_generation (rp_snapshot p) = rs_ring_generation snap \<and>
                rs_display_generation (rp_snapshot p) = rs_display_generation snap
             then Some (p\<lparr>rp_snapshot := snap, rp_imported := Option.bind (rs_resources snap) imported\<rparr>)
             else map_option (\<lambda>request. \<lparr>rp_snapshot = snap, rp_imported = Some request\<rparr>)
                    (open_frame_ring_for_producer gates imported snap render_adapter_luid display_id
                       display_generation adapter opened)
         | None \<Rightarrow> map_option (\<lambda>request. \<lparr>rp_snapshot = snap, rp_imported = Some request\<rparr>)
                    (open_frame_ring_for_producer gates imported snap render_adapter_luid display_id
                       display_generation adapter opened)))"

section \<open>The shared ring\<close>

record slot_metadata =
  fsm_client_cookie :: u64
  fsm_display_generation :: u64
  fsm_ring_generation :: u64
  fsm_sequence :: u64
  fsm_acquired_qpc :: u64
  fsm_reserved :: u64

type_synonym worker = nat

datatype mutex_holder = HeldByWorker worker | HeldByConsumer

datatype keyed_mutex = ReleasedWith u64 | HeldBy mutex_holder | Abandoned

record 'p ring_slot =
  rl_mutex :: keyed_mutex
  rl_pixels :: 'p
  rl_metadata :: slot_metadata

text \<open>
  The gates of all rings, the slots of this one, and, for the statements only, the frames published
  so far.
\<close>

record 'p ring_world =
  rw_gates :: "frame_ring_publication list"
  rw_slots :: "'p ring_slot list"
  rw_published :: "(slot_metadata \<times> 'p) list"

datatype acquire_result = AcquireOk | AcquireTimeout | AcquireError

fun acquire_sync :: "worker \<Rightarrow> u64 \<Rightarrow> keyed_mutex \<Rightarrow> acquire_result" where
  "acquire_sync t key (ReleasedWith k) = (if k = key then AcquireOk else AcquireTimeout)"
| "acquire_sync t key (HeldBy _) = AcquireTimeout"
| "acquire_sync t key Abandoned = AcquireError"

definition with_slot :: "nat \<Rightarrow> ('p ring_slot \<Rightarrow> 'p ring_slot) \<Rightarrow> 'p ring_world \<Rightarrow> 'p ring_world" where
  "with_slot i f w = w\<lparr>rw_slots := (rw_slots w)[i := f (rw_slots w ! i)]\<rparr>"

definition set_mutex :: "nat \<Rightarrow> keyed_mutex \<Rightarrow> 'p ring_world \<Rightarrow> 'p ring_world" where
  "set_mutex i m = with_slot i (rl_mutex_update (\<lambda>_. m))"

section \<open>Publishing a frame\<close>

text \<open>
  The acquired surface: its description, if it is a texture, whether it belongs to the producer's
  device, and what it shows.
\<close>

record 'p captured_frame =
  cf_desc :: "texture_desc option"
  cf_same_device :: bool
  cf_pixels :: 'p

datatype frame_publish_result = PublishedOrDropped | ModeMismatch | PublishFailed

datatype publish_activity =
    PublishBegin
  | PublishLoop nat
  | PublishTry nat
  | PublishReclaim nat
  | PublishAcquired nat u64
  | PublishStamp nat u64
  | PublishCopy nat u64 u64
  | PublishCheckDevice nat u64 u64
  | PublishLocked nat u64 u64
  | PublishRelease nat u64 frame_publish_result
  | PublishDone frame_publish_result

text \<open>\<open>QueryPerformanceCounter\<close>, \<open>GetDeviceRemovedReason\<close> and \<open>ReleaseSync\<close>.\<close>

record publish_answers =
  pa_qpc :: "u64 option"
  pa_device_ok :: bool
  pa_release_ok :: bool

definition release_sync :: "publish_answers \<Rightarrow> nat \<Rightarrow> u64 \<Rightarrow> 'p ring_world \<Rightarrow> 'p ring_world" where
  "release_sync answers i key w = (if pa_release_ok answers then set_mutex i (ReleasedWith key) w else w)"

text \<open>The section under the publication lock.\<close>

definition publish_locked ::
  "'r frame_ring_snapshot \<Rightarrow> frame_ring_register_request \<Rightarrow> 'p captured_frame \<Rightarrow> publish_answers \<Rightarrow>
     nat \<Rightarrow> u64 \<Rightarrow> u64 \<Rightarrow> 'p ring_world \<Rightarrow> 'p ring_world \<times> publish_activity" where
  "publish_locked snap request frame answers i key qpc w =
     (if \<not> can_publish (rw_gates w) snap
      then (release_sync answers i 0 w, PublishDone PublishedOrDropped)
      else
        (case snapshot_next_sequence snap (rw_gates w) of
           None \<Rightarrow> (release_sync answers i key w, PublishDone PublishFailed)
         | Some (sequence, gates) \<Rightarrow>
             let metadata = \<lparr>fsm_client_cookie = frr_client_cookie request,
                   fsm_display_generation = rs_display_generation snap,
                   fsm_ring_generation = rs_ring_generation snap, fsm_sequence = sequence,
                   fsm_acquired_qpc = qpc, fsm_reserved = 0\<rparr>;
                 w1 = with_slot i (rl_metadata_update (\<lambda>_. metadata)) (w\<lparr>rw_gates := gates\<rparr>) in
             if \<not> pa_release_ok answers then (w1, PublishDone PublishFailed)
             else (set_mutex i (ReleasedWith 1)
                     (w1\<lparr>rw_published := rw_published w @ [(metadata, rl_pixels (rw_slots w ! i))]\<rparr>),
                   PublishDone PublishedOrDropped)))"

fun publish_next ::
  "'r frame_ring_snapshot \<Rightarrow> frame_ring_register_request \<Rightarrow> worker \<Rightarrow> 'p captured_frame \<Rightarrow> publish_answers \<Rightarrow>
     publish_activity \<Rightarrow> 'p ring_world \<Rightarrow> 'p ring_world \<times> publish_activity" where
  "publish_next snap request t frame answers PublishBegin w =
     (w, if \<not> can_publish (rw_gates w) snap then PublishDone PublishedOrDropped
         else
           (case cf_desc frame of
              None \<Rightarrow> PublishDone PublishFailed
            | Some desc \<Rightarrow>
                if \<not> texture_fits request desc then PublishDone ModeMismatch
                else if \<not> cf_same_device frame then PublishDone PublishFailed else PublishLoop 0))"
| "publish_next snap request t frame answers (PublishLoop i) w =
     (w, if i \<ge> unat kFrameRingSlotCount \<or> \<not> can_publish (rw_gates w) snap
         then PublishDone PublishedOrDropped else PublishTry i)"
| "publish_next snap request t frame answers (PublishTry i) w =
     (case acquire_sync t 0 (rl_mutex (rw_slots w ! i)) of
        AcquireOk \<Rightarrow> (set_mutex i (HeldBy (HeldByWorker t)) w, PublishAcquired i 0)
      | AcquireTimeout \<Rightarrow> (w, PublishReclaim i)
      | AcquireError \<Rightarrow> (w, PublishDone PublishFailed))"
| "publish_next snap request t frame answers (PublishReclaim i) w =
     (case acquire_sync t 1 (rl_mutex (rw_slots w ! i)) of
        AcquireOk \<Rightarrow> (set_mutex i (HeldBy (HeldByWorker t)) w, PublishAcquired i 1)
      | AcquireTimeout \<Rightarrow> (w, PublishLoop (i + 1))
      | AcquireError \<Rightarrow> (w, PublishDone PublishFailed))"
| "publish_next snap request t frame answers (PublishAcquired i key) w =
     (w, if \<not> can_publish (rw_gates w) snap then PublishRelease i key PublishedOrDropped
         else PublishStamp i key)"
| "publish_next snap request t frame answers (PublishStamp i key) w =
     (w, case pa_qpc answers of
           None \<Rightarrow> PublishRelease i key PublishFailed
         | Some qpc \<Rightarrow> if sint qpc \<le> 0 then PublishRelease i key PublishFailed else PublishCopy i key qpc)"
| "publish_next snap request t frame answers (PublishCopy i key qpc) w =
     (with_slot i (rl_pixels_update (\<lambda>_. cf_pixels frame)) w, PublishCheckDevice i key qpc)"
| "publish_next snap request t frame answers (PublishCheckDevice i key qpc) w =
     (w, if \<not> pa_device_ok answers then PublishRelease i key PublishFailed else PublishLocked i key qpc)"
| "publish_next snap request t frame answers (PublishLocked i key qpc) w =
     publish_locked snap request frame answers i key qpc w"
| "publish_next snap request t frame answers (PublishRelease i key result) w =
     (case release_unpublished_slot snap key (rw_gates w) of
        None \<Rightarrow> w | Some k \<Rightarrow> release_sync answers i k w, PublishDone result)"
| "publish_next snap request t frame answers (PublishDone result) w = (w, PublishDone result)"

text \<open>What the worker does with the result: a ring that did not take the frame is retired.\<close>

definition worker_after_publish ::
  "'r frame_ring_snapshot \<Rightarrow> frame_publish_result \<Rightarrow> 'p ring_world \<Rightarrow> 'p ring_world" where
  "worker_after_publish snap result w =
     (if result = PublishedOrDropped then w
      else w\<lparr>rw_gates := retire_publication snap (rw_gates w)\<rparr>)"

section \<open>The ring in motion\<close>

text \<open>
  The workers of the display, retirement by the control thread, and a consumer that follows the
  documented protocol: it acquires with key 1, returns key 0, and may die while it holds a slot.
  \<open>faults\<close> allows the failures after which a frame that is already copied is given up: the device is
  removed, a release fails, the sequence is used up.
\<close>

type_synonym 'p ring_system = "'p ring_world \<times> (worker \<rightharpoonup> 'p captured_frame \<times> publish_activity)"

definition calm :: "'r frame_ring_snapshot \<Rightarrow> publish_answers \<Rightarrow> 'p ring_world \<Rightarrow> bool" where
  "calm snap answers w \<longleftrightarrow> pa_device_ok answers \<and> pa_release_ok answers \<and>
     (case rs_publication snap of
        None \<Rightarrow> True | Some p \<Rightarrow> gate_sequence (rw_gates w ! p) < 0xffffffffffffffff - 1)"

inductive ring_step ::
  "'r frame_ring_snapshot \<Rightarrow> frame_ring_register_request \<Rightarrow> bool \<Rightarrow> 'p ring_system \<Rightarrow> 'p ring_system \<Rightarrow> bool"
  for snap request faults where
  capture: "thr t = None \<Longrightarrow> ring_step snap request faults (w, thr) (w, thr(t \<mapsto> (frame, PublishBegin)))"
| work: "thr t = Some (frame, a) \<Longrightarrow> faults \<or> calm snap answers w \<Longrightarrow>
    publish_next snap request t frame answers a w = (w1, a1) \<Longrightarrow>
    ring_step snap request faults (w, thr) (w1, thr(t \<mapsto> (frame, a1)))"
| report: "thr t = Some (frame, PublishDone result) \<Longrightarrow>
    ring_step snap request faults (w, thr) (worker_after_publish snap result w, thr(t := None))"
| retire: "ring_step snap request faults (w, thr) (w\<lparr>rw_gates := retire_publication snap (rw_gates w)\<rparr>, thr)"
| consume: "i < length (rw_slots w) \<Longrightarrow> rl_mutex (rw_slots w ! i) = ReleasedWith 1 \<Longrightarrow>
    ring_step snap request faults (w, thr) (set_mutex i (HeldBy HeldByConsumer) w, thr)"
| recycle: "i < length (rw_slots w) \<Longrightarrow> rl_mutex (rw_slots w ! i) = HeldBy HeldByConsumer \<Longrightarrow>
    ring_step snap request faults (w, thr) (set_mutex i (ReleasedWith 0) w, thr)"
| crash: "i < length (rw_slots w) \<Longrightarrow> rl_mutex (rw_slots w ! i) = HeldBy HeldByConsumer \<Longrightarrow>
    ring_step snap request faults (w, thr) (set_mutex i Abandoned w, thr)"

text \<open>A ring as it is registered: an open gate of its own and four free slots.\<close>

definition fresh_ring :: "'r frame_ring_snapshot \<Rightarrow> 'p ring_system \<Rightarrow> bool" where
  "fresh_ring snap s \<longleftrightarrow>
     (case rs_publication snap of
        None \<Rightarrow> False
      | Some p \<Rightarrow> p < length (rw_gates (fst s)) \<and> rw_gates (fst s) ! p = new_gate) \<and>
     length (rw_slots (fst s)) = unat kFrameRingSlotCount \<and>
     list_all (\<lambda>slot. rl_mutex slot = ReleasedWith 0) (rw_slots (fst s)) \<and>
     rw_published (fst s) = [] \<and> snd s = Map.empty"

inductive ring_reachable ::
  "'r frame_ring_snapshot \<Rightarrow> frame_ring_register_request \<Rightarrow> bool \<Rightarrow> 'p ring_system \<Rightarrow> bool"
  for snap request faults where
  registered: "fresh_ring snap s \<Longrightarrow> ring_reachable snap request faults s"
| moves: "ring_reachable snap request faults s \<Longrightarrow> ring_step snap request faults s s1 \<Longrightarrow>
    ring_reachable snap request faults s1"

end
