(* ===== verification/Frame_Publish_Theorems.thy ===== *)
theory Frame_Publish_Theorems
  imports Frame_Publish
begin

text \<open>
  What the consumer of a frame ring may rely on while the producer, retirement and the consumer
  itself interleave: who holds a slot, what a readable slot shows, that nothing appears after
  retirement, and that the producer never waits.
\<close>

section \<open>Slots\<close>

fun holds :: "publish_activity \<Rightarrow> (nat \<times> u64) option" where
  "holds (PublishAcquired i k) = Some (i, k)"
| "holds (PublishStamp i k) = Some (i, k)"
| "holds (PublishCopy i k q) = Some (i, k)"
| "holds (PublishCheckDevice i k q) = Some (i, k)"
| "holds (PublishLocked i k q) = Some (i, k)"
| "holds (PublishRelease i k r) = Some (i, k)"
| "holds _ = None"

fun aims :: "publish_activity \<Rightarrow> nat option" where
  "aims (PublishTry i) = Some i"
| "aims (PublishReclaim i) = Some i"
| "aims _ = None"

text \<open>A slot the consumer can read: its turn, or already in its hands.\<close>

definition readable :: "'p ring_slot \<Rightarrow> bool" where
  "readable slot \<longleftrightarrow> rl_mutex slot = ReleasedWith 1 \<or> rl_mutex slot = HeldBy HeldByConsumer"

definition content :: "'p ring_slot \<Rightarrow> slot_metadata \<times> 'p" where
  "content slot = (rl_metadata slot, rl_pixels slot)"

lemma with_slot_simps [simp]:
  "rw_gates (with_slot i f w) = rw_gates w" "rw_published (with_slot i f w) = rw_published w"
  "length (rw_slots (with_slot i f w)) = length (rw_slots w)"
  "i < length (rw_slots w) \<Longrightarrow> rw_slots (with_slot i f w) ! i = f (rw_slots w ! i)"
  "j \<noteq> i \<Longrightarrow> rw_slots (with_slot i f w) ! j = rw_slots w ! j"
  by (simp_all add: with_slot_def)

lemma set_mutex_simps [simp]:
  "rw_gates (set_mutex i m w) = rw_gates w" "rw_published (set_mutex i m w) = rw_published w"
  "length (rw_slots (set_mutex i m w)) = length (rw_slots w)"
  "i < length (rw_slots w) \<Longrightarrow> rl_mutex (rw_slots (set_mutex i m w) ! i) = m"
  "j \<noteq> i \<Longrightarrow> rw_slots (set_mutex i m w) ! j = rw_slots w ! j"
  by (simp_all add: set_mutex_def)

lemma set_mutex_content [simp]: "content (rw_slots (set_mutex i m w) ! j) = content (rw_slots w ! j)"
  by (cases "i < length (rw_slots w)"; cases "j = i")
     (simp_all add: set_mutex_def with_slot_def content_def list_update_beyond)

lemma acquire_ok: "acquire_sync t key m = AcquireOk \<longleftrightarrow> m = ReleasedWith key"
  by (cases m) auto

section \<open>Who holds a slot\<close>

definition ring_shape :: "'r frame_ring_snapshot \<Rightarrow> 'p ring_world \<Rightarrow> bool" where
  "ring_shape snap w \<longleftrightarrow> length (rw_slots w) = 4 \<and>
     (\<exists>p. rs_publication snap = Some p \<and> p < length (rw_gates w)) \<and>
     (\<forall>i < 4. \<forall>k. rl_mutex (rw_slots w ! i) = ReleasedWith k \<longrightarrow> k = 0 \<or> k = 1)"

text \<open>A worker at a slot holds it.\<close>

definition worker_ok :: "'p ring_world \<Rightarrow> worker \<Rightarrow> publish_activity \<Rightarrow> bool" where
  "worker_ok w t a \<longleftrightarrow>
     (case holds a of
        None \<Rightarrow> True
      | Some (i, k) \<Rightarrow> i < 4 \<and> (k = 0 \<or> k = 1) \<and> rl_mutex (rw_slots w ! i) = HeldBy (HeldByWorker t)) \<and>
     (case aims a of None \<Rightarrow> True | Some i \<Rightarrow> i < 4)"

definition holders_ok :: "'r frame_ring_snapshot \<Rightarrow> 'p ring_system \<Rightarrow> bool" where
  "holders_ok snap s \<longleftrightarrow> ring_shape snap (fst s) \<and>
     (\<forall>t frame a. snd s t = Some (frame, a) \<longrightarrow> worker_ok (fst s) t a)"

text \<open>
  What one turn of a worker does to the slots: only the slot it holds or takes changes, and after it
  the worker holds what its activity says.
\<close>

definition touches :: "publish_activity \<Rightarrow> nat \<Rightarrow> bool" where
  "touches a i \<longleftrightarrow> (\<exists>k. holds a = Some (i, k)) \<or> aims a = Some i"

lemma next_other_slot:
  assumes "publish_next snap request t frame answers a w = (w1, a1)" and "\<not> touches a i"
  shows "rw_slots w1 ! i = rw_slots w ! i"
  using assms
  by (cases a)
     (auto simp: touches_def release_sync_def publish_locked_def Let_def split: acquire_result.splits option.splits if_splits)

lemma next_keeps_held:
  assumes "publish_next snap request t frame answers a w = (w1, a1)" and "worker_ok w t a"
    and "rl_mutex (rw_slots w ! i) = HeldBy h" and "h \<noteq> HeldByWorker t"
  shows "rw_slots w1 ! i = rw_slots w ! i"
proof (cases "touches a i")
  case False
  then show ?thesis using next_other_slot assms(1) by blast
next
  case True
  then have "aims a = Some i" using assms(2-4) by (auto simp: touches_def worker_ok_def)
  then have "a = PublishTry i \<or> a = PublishReclaim i" by (cases a) auto
  then show ?thesis using assms(1,3) by auto
qed

lemma retire_length [simp]: "length (retire_publication snap gates) = length gates"
  by (simp add: retire_publication_def split: option.split)

lemma next_sequenceD:
  assumes "snapshot_next_sequence snap gates = Some (n, gates')"
  obtains p where "rs_publication snap = Some p" "gate_enabled (gates ! p)" "n = gate_sequence (gates ! p) + 1"
    "gate_sequence (gates ! p) < 0xffffffffffffffff - 1"
    "gates' = gates[p := (gates ! p)\<lparr>gate_sequence := gate_sequence (gates ! p) + 1\<rparr>]"
  using assms
  by (auto simp: snapshot_next_sequence_def can_publish_def gate_next_sequence_def split: if_splits option.splits)

lemma next_sequence_length: "snapshot_next_sequence snap gates = Some (n, gates') \<Longrightarrow> length gates' = length gates"
  by (erule next_sequenceD) simp

lemma locked_keeps:
  assumes "publish_locked snap request frame answers i k q w = (w1, a1)" and "ring_shape snap w" and "k = 0 \<or> k = 1" and "i < 4"
  shows "ring_shape snap w1" and "\<exists>r. a1 = PublishDone r"
proof -
  have "length (rw_slots w1) = 4 \<and> length (rw_gates w1) = length (rw_gates w) \<and>
      (\<forall>j. j \<noteq> i \<longrightarrow> rw_slots w1 ! j = rw_slots w ! j) \<and>
      (rl_mutex (rw_slots w1 ! i) = rl_mutex (rw_slots w ! i) \<or> rl_mutex (rw_slots w1 ! i) = ReleasedWith 0 \<or>
       rl_mutex (rw_slots w1 ! i) = ReleasedWith 1) \<and> (\<exists>r. a1 = PublishDone r)"
    using assms
    by (auto simp: publish_locked_def release_sync_def ring_shape_def Let_def next_sequence_length
        split: if_splits option.splits)
  then show "ring_shape snap w1" and "\<exists>r. a1 = PublishDone r"
    using assms(2) by (auto simp: ring_shape_def) (metis keyed_mutex.inject(1))+
qed

lemma release_key: "release_unpublished_slot snap k gates = Some key \<Longrightarrow> key = k \<or> key = 0"
  by (auto simp: release_unpublished_slot_def split: option.splits if_splits)

lemma shape_set_mutex:
  assumes "ring_shape snap w" and "i < 4" and "\<And>k. m = ReleasedWith k \<Longrightarrow> k = 0 \<or> k = 1"
  shows "ring_shape snap (set_mutex i m w)"
proof -
  have "rl_mutex (rw_slots (set_mutex i m w) ! j) = (if j = i then m else rl_mutex (rw_slots w ! j))" if "j < 4" for j
    using that assms(1,2) by (simp add: ring_shape_def)
  then show ?thesis using assms by (auto simp: ring_shape_def)
qed

lemma pixels_mutex: "rl_mutex (rw_slots (with_slot i (rl_pixels_update g) w) ! j) = rl_mutex (rw_slots w ! j)"
  by (cases "i < length (rw_slots w)"; cases "j = i") (simp_all add: with_slot_def list_update_beyond)

lemma shape_length: "ring_shape snap w \<Longrightarrow> length (rw_slots w) = 4"
  by (simp add: ring_shape_def)

lemma next_mine:
  assumes "publish_next snap request t frame answers a w = (w1, a1)" and "ring_shape snap w" and "worker_ok w t a"
  shows "ring_shape snap w1 \<and> worker_ok w1 t a1"
proof (cases a)
  case (PublishLocked i k q)
  then show ?thesis using assms locked_keeps[of snap request frame answers i k q w w1 a1] by (auto simp: worker_ok_def)
next
  case (PublishRelease i k r)
  then show ?thesis using assms
    by (auto simp: worker_ok_def release_sync_def dest: release_key intro!: shape_set_mutex split: option.splits)
next
  case (PublishTry i)
  then show ?thesis using assms
    by (auto simp: worker_ok_def shape_length acquire_ok intro!: shape_set_mutex split: acquire_result.splits)
next
  case (PublishReclaim i)
  then show ?thesis using assms
    by (auto simp: worker_ok_def shape_length acquire_ok intro!: shape_set_mutex split: acquire_result.splits)
next
  case (PublishCopy i k q)
  then show ?thesis using assms by (auto simp: worker_ok_def ring_shape_def pixels_mutex)
qed (use assms in \<open>auto simp: worker_ok_def split: if_splits option.splits\<close>)

lemma next_others:
  assumes "publish_next snap request t frame answers a w = (w1, a1)" and "worker_ok w t a" and "worker_ok w u b"
    and "u \<noteq> t"
  shows "worker_ok w1 u b"
  using assms next_keeps_held[OF assms(1,2)]
  by (auto simp: worker_ok_def split: option.splits)

lemma consumer_others:
  assumes "worker_ok w u b" and "\<And>t. rl_mutex (rw_slots w ! i) \<noteq> HeldBy (HeldByWorker t)"
  shows "worker_ok (set_mutex i m w) u b"
proof -
  have "rl_mutex (rw_slots (set_mutex i m w) ! j) = HeldBy (HeldByWorker u)"
    if "rl_mutex (rw_slots w ! j) = HeldBy (HeldByWorker u)" for j
    using that assms(2) by (cases "j = i") auto
  then show ?thesis using assms(1) by (auto simp: worker_ok_def split: option.splits)
qed

lemma gates_irrelevant [simp]: "worker_ok (w\<lparr>rw_gates := g\<rparr>) t a = worker_ok w t a"
  by (simp add: worker_ok_def split: option.split)

lemma holders_kept:
  assumes "ring_step snap request faults s s1" and "holders_ok snap s"
  shows "holders_ok snap s1"
  using assms
proof cases
  case (capture t thr w frame)
  then show ?thesis using assms(2) by (auto simp: holders_ok_def worker_ok_def)
next
  case (work thr t frame a answers w w1 a1)
  have mine: "ring_shape snap w" "worker_ok w t a" using assms(2) work by (auto simp: holders_ok_def)
  have after: "ring_shape snap w1" "worker_ok w1 t a1" using next_mine[OF work(5) mine] by auto
  have "worker_ok w1 u b" if "u \<noteq> t" and "thr u = Some (f, b)" for u f b
    using next_others[OF work(5) mine(2) _ that(1)] assms(2) work(1) that(2) by (auto simp: holders_ok_def)
  then show ?thesis using after work(2) by (auto simp: holders_ok_def)
next
  case (report thr t frame result w)
  then show ?thesis using assms(2) by (auto simp: holders_ok_def worker_after_publish_def ring_shape_def)
next
  case (retire w thr)
  then show ?thesis using assms(2) by (auto simp: holders_ok_def ring_shape_def)
next
  case (consume i w thr)
  then show ?thesis using assms(2)
    by (auto simp: holders_ok_def shape_length intro!: shape_set_mutex consumer_others)
next
  case (recycle i w thr)
  then show ?thesis using assms(2)
    by (auto simp: holders_ok_def shape_length intro!: shape_set_mutex consumer_others)
next
  case (crash i w thr)
  then show ?thesis using assms(2)
    by (auto simp: holders_ok_def shape_length intro!: shape_set_mutex consumer_others)
qed

lemma fresh_shape: "fresh_ring snap s \<Longrightarrow> ring_shape snap (fst s)"
  by (auto simp: fresh_ring_def ring_shape_def list_all_length split: option.splits)

lemma holders_hold: "ring_reachable snap request faults s \<Longrightarrow> holders_ok snap s"
proof (induction rule: ring_reachable.induct)
  case (registered s)
  then show ?case using fresh_shape[of snap s] by (simp add: holders_ok_def) (simp add: fresh_ring_def)
next
  case (moves s s1)
  then show ?case using holders_kept by blast
qed

section \<open>What was published\<close>

definition seq_of :: "'r frame_ring_snapshot \<Rightarrow> 'p ring_world \<Rightarrow> u64" where
  "seq_of snap w = gate_sequence (rw_gates w ! the (rs_publication snap))"

definition stamped_for :: "'r frame_ring_snapshot \<Rightarrow> frame_ring_register_request \<Rightarrow> slot_metadata \<Rightarrow> bool" where
  "stamped_for snap request m \<longleftrightarrow>
     fsm_client_cookie m = frr_client_cookie request \<and> fsm_display_generation m = rs_display_generation snap \<and>
     fsm_ring_generation m = rs_ring_generation snap \<and> 0 < fsm_sequence m \<and> fsm_reserved m = 0"

definition published_ok :: "'r frame_ring_snapshot \<Rightarrow> frame_ring_register_request \<Rightarrow> 'p ring_world \<Rightarrow> bool" where
  "published_ok snap request w \<longleftrightarrow>
     sorted_wrt (\<lambda>x y. fsm_sequence (fst x) < fsm_sequence (fst y)) (rw_published w) \<and>
     (\<forall>x \<in> set (rw_published w). stamped_for snap request (fst x) \<and> fsm_sequence (fst x) \<le> seq_of snap w)"

lemma next_quiet:
  assumes "publish_next snap request t frame answers a w = (w1, a1)" and "\<And>i k q. a \<noteq> PublishLocked i k q"
  shows "rw_published w1 = rw_published w" and "rw_gates w1 = rw_gates w"
  using assms by (cases a; auto simp: release_sync_def split: acquire_result.splits option.splits if_splits)+

lemma retire_simps:
  assumes "ring_shape snap w"
  shows "seq_of snap (w\<lparr>rw_gates := retire_publication snap (rw_gates w)\<rparr>) = seq_of snap w"
    and "\<not> can_publish (retire_publication snap (rw_gates w)) snap"
  using assms by (auto simp: ring_shape_def seq_of_def retire_publication_def can_publish_def)

text \<open>The outcomes of the locked section.\<close>

lemma locked_cases:
  assumes "publish_locked snap request frame answers i k q w = (w1, a1)" and "ring_shape snap w" and "i < 4"
  obtains (retired) "\<not> can_publish (rw_gates w) snap" "w1 = release_sync answers i 0 w"
    | (exhausted) p where "rs_publication snap = Some p" "\<not> gate_sequence (rw_gates w ! p) < 0xffffffffffffffff - 1"
        "w1 = release_sync answers i k w"
    | (stuck) "\<not> pa_release_ok answers" "rw_published w1 = rw_published w" "seq_of snap w < seq_of snap w1"
        "can_publish (rw_gates w) snap" "rl_mutex (rw_slots w1 ! i) = rl_mutex (rw_slots w ! i)"
    | (published) m where "rw_published w1 = rw_published w @ [(m, rl_pixels (rw_slots w ! i))]"
        "stamped_for snap request m" "seq_of snap w < fsm_sequence m" "seq_of snap w1 = fsm_sequence m"
        "content (rw_slots w1 ! i) = (m, rl_pixels (rw_slots w ! i))" "can_publish (rw_gates w) snap"
proof (cases "can_publish (rw_gates w) snap")
  case False
  then show ?thesis using assms(1) retired by (simp add: publish_locked_def)
next
  case True
  then obtain p where p: "rs_publication snap = Some p" "p < length (rw_gates w)" "gate_enabled (rw_gates w ! p)"
    using assms(2) by (auto simp: can_publish_def ring_shape_def)
  show ?thesis
  proof (cases "gate_sequence (rw_gates w ! p) < 0xffffffffffffffff - 1")
    case False
    then have "w1 = release_sync answers i k w"
      using assms(1) True p by (simp add: publish_locked_def snapshot_next_sequence_def gate_next_sequence_def)
    then show ?thesis using exhausted p(1) False by blast
  next
    case fits: True
    let ?n = "gate_sequence (rw_gates w ! p) + 1"
    have up: "gate_sequence (rw_gates w ! p) < ?n" using fits by (simp add: word_less_nat_alt unat_word_ariths)
    then have pos: "0 < ?n" by (rule order.strict_trans1[OF word_zero_le])
    show ?thesis
    proof (cases "pa_release_ok answers")
      case ok: True
      show ?thesis
        by (rule published) (use assms True p fits up pos ok in
          \<open>auto simp: publish_locked_def snapshot_next_sequence_def gate_next_sequence_def stamped_for_def seq_of_def
            content_def ring_shape_def Let_def set_mutex_def\<close>)
    next
      case bad: False
      show ?thesis
        by (rule stuck) (use assms True p fits up bad in
          \<open>auto simp: publish_locked_def snapshot_next_sequence_def gate_next_sequence_def seq_of_def ring_shape_def Let_def\<close>)
    qed
  qed
qed

lemma published_kept:
  assumes "ring_step snap request faults s s1" and "holders_ok snap s" and "published_ok snap request (fst s)"
  shows "published_ok snap request (fst s1)"
  using assms(1)
proof cases
  case (work thr t frame a answers w w1 a1)
  have w: "ring_shape snap w" "worker_ok w t a" "published_ok snap request w"
    using assms(2,3) work by (auto simp: holders_ok_def)
  show ?thesis
  proof (cases "\<exists>i k q. a = PublishLocked i k q")
    case False
    then show ?thesis using next_quiet[OF work(5)] w(3) work by (auto simp: published_ok_def seq_of_def)
  next
    case True
    then obtain i k q where a: "a = PublishLocked i k q" by blast
    then have i: "i < 4" and run: "publish_locked snap request frame answers i k q w = (w1, a1)"
      using w(2) work(5) by (auto simp: worker_ok_def)
    have same: "published_ok snap request w1" if "w1 = release_sync answers i k' w" for k'
      using that w(3) by (auto simp: release_sync_def published_ok_def seq_of_def)
    from run w(1) i have "published_ok snap request w1"
    proof (cases rule: locked_cases)
      case stuck
      then show ?thesis using w(3) by (auto simp: published_ok_def)
    next
      case (published m)
      then show ?thesis using w(3) by (force simp: published_ok_def sorted_wrt_append)
    qed (use same in auto)
    then show ?thesis using work by simp
  qed
next
  case (report thr t frame result w)
  then show ?thesis using assms(2,3) retire_simps(1)[of snap w]
    by (auto simp: published_ok_def worker_after_publish_def holders_ok_def)
next
  case (retire w thr)
  then show ?thesis using assms(2,3) retire_simps(1)[of snap w] by (auto simp: published_ok_def holders_ok_def)
qed (use assms(3) in \<open>auto simp: published_ok_def seq_of_def\<close>)

lemma published_holds: "ring_reachable snap request faults s \<Longrightarrow> published_ok snap request (fst s)"
proof (induction rule: ring_reachable.induct)
  case (registered s)
  then show ?case by (simp add: fresh_ring_def published_ok_def)
next
  case (moves s s1)
  then show ?case using published_kept holders_hold by blast
qed

section \<open>Readable slots show published frames\<close>

fun overwritten :: "publish_activity \<Rightarrow> bool" where
  "overwritten (PublishCheckDevice i k q) \<longleftrightarrow> True"
| "overwritten (PublishLocked i k q) \<longleftrightarrow> True"
| "overwritten _ \<longleftrightarrow> False"

text \<open>A slot taken from the consumer's side is still the frame it was, until the copy.\<close>

definition whole_slot :: "'p ring_world \<Rightarrow> nat \<Rightarrow> bool" where
  "whole_slot w i \<longleftrightarrow> content (rw_slots w ! i) \<in> set (rw_published w)"

definition claims :: "publish_activity \<Rightarrow> nat \<Rightarrow> bool" where
  "claims a i \<longleftrightarrow> holds a = Some (i, 1) \<and> \<not> overwritten a"

definition whole_ok :: "'p ring_system \<Rightarrow> bool" where
  "whole_ok s \<longleftrightarrow>
     (\<forall>i < 4. readable (rw_slots (fst s) ! i) \<longrightarrow> whole_slot (fst s) i) \<and>
     (\<forall>t frame a i. snd s t = Some (frame, a) \<longrightarrow> claims a i \<longrightarrow> whole_slot (fst s) i)"

lemma published_grows:
  assumes "publish_next snap request t frame answers a w = (w1, a1)" and "ring_shape snap w" and "worker_ok w t a"
  shows "set (rw_published w) \<subseteq> set (rw_published w1)"
proof (cases "\<exists>i k q. a = PublishLocked i k q")
  case False
  then show ?thesis using next_quiet(1)[OF assms(1)] by simp
next
  case True
  then obtain i k q where a: "a = PublishLocked i k q" by blast
  then show ?thesis
    using assms by (auto simp: publish_locked_def release_sync_def Let_def split: if_splits option.splits)
qed

lemma held_not_readable: "rl_mutex slot = HeldBy (HeldByWorker t) \<Longrightarrow> \<not> readable slot"
  by (simp add: readable_def)

lemma calm_sequence:
  "calm snap answers w \<Longrightarrow> rs_publication snap = Some p \<Longrightarrow> gate_sequence (rw_gates w ! p) < 0xffffffffffffffff - 1"
  by (simp add: calm_def)

text \<open>The slot a worker acts on, without faults.\<close>

lemma whole_turn:
  assumes run: "publish_next snap request t frame answers a w = (w1, a1)" and shape: "ring_shape snap w"
    and mine: "worker_ok w t a" and calm: "calm snap answers w" and touched: "touches a i"
    and before: "readable (rw_slots w ! i) \<Longrightarrow> whole_slot w i" "claims a i \<Longrightarrow> whole_slot w i"
  shows "(readable (rw_slots w1 ! i) \<longrightarrow> whole_slot w1 i) \<and> (claims a1 i \<longrightarrow> whole_slot w1 i)"
proof -
  have i: "i < 4" "i < length (rw_slots w)" using mine touched shape
    by (auto simp: touches_def worker_ok_def ring_shape_def split: option.splits)
  show ?thesis
  proof (cases a)
    case (PublishLocked j k q)
    then have j: "j = i" "publish_locked snap request frame answers i k q w = (w1, a1)"
      using touched run by (auto simp: touches_def)
    have over: "\<not> claims a1 i" using locked_keeps(2)[OF j(2) shape] mine PublishLocked j(1)
      by (auto simp: claims_def worker_ok_def)
    from j(2) shape i(1) show ?thesis
    proof (cases rule: locked_cases)
      case retired
      then show ?thesis using calm over i by (auto simp: release_sync_def calm_def readable_def)
    next
      case (exhausted p)
      then show ?thesis using calm_sequence[OF calm] by blast
    next
      case stuck
      then show ?thesis using calm by (simp add: calm_def)
    next
      case (published m)
      then show ?thesis using over by (simp add: whole_slot_def)
    qed
  next
    case (PublishRelease j k r)
    then have j: "j = i" using touched by (auto simp: touches_def)
    show ?thesis
      using PublishRelease j run before(2) calm i mine
      by (auto simp: claims_def release_sync_def calm_def readable_def whole_slot_def worker_ok_def
          dest!: release_key split: option.splits)
  next
    case (PublishCopy j k q)
    then show ?thesis using run touched mine i
      by (auto simp: touches_def claims_def worker_ok_def readable_def pixels_mutex)
  next
    case (PublishTry j)
    then show ?thesis using run touched before i
      by (auto simp: touches_def claims_def readable_def whole_slot_def acquire_ok split: acquire_result.splits)
  next
    case (PublishReclaim j)
    then show ?thesis using run touched before i
      by (auto simp: touches_def claims_def readable_def whole_slot_def acquire_ok split: acquire_result.splits)
  next
    case (PublishCheckDevice j k q)
    then show ?thesis using run touched before calm mine
      by (auto simp: touches_def claims_def calm_def worker_ok_def held_not_readable)
  qed (use run touched before in \<open>auto simp: touches_def claims_def split: if_splits option.splits\<close>)
qed

lemma whole_slot_grows:
  assumes "whole_slot w i" and "rw_slots w1 ! i = rw_slots w ! i" and "set (rw_published w) \<subseteq> set (rw_published w1)"
  shows "whole_slot w1 i"
  using assms by (auto simp: whole_slot_def)

lemma whole_set_mutex:
  assumes "whole_ok (w, thr)" and "readable (rw_slots w ! i) \<or> m \<noteq> ReleasedWith 1 \<and> m \<noteq> HeldBy HeldByConsumer"
  shows "whole_ok (set_mutex i m w, thr)"
proof -
  have "whole_slot (set_mutex i m w) j = whole_slot w j" for j by (simp add: whole_slot_def)
  moreover have "readable (rw_slots w ! j)" if "readable (rw_slots (set_mutex i m w) ! j)" for j
    using that assms(2) by (cases "j = i"; cases "i < length (rw_slots w)")
      (auto simp: readable_def set_mutex_def with_slot_def list_update_beyond)
  ultimately show ?thesis using assms(1) by (auto simp: whole_ok_def)
qed

lemma whole_kept:
  assumes "ring_step snap request False s s1" and "holders_ok snap s" and "whole_ok s"
  shows "whole_ok s1"
  using assms(1)
proof cases
  case (work thr t frame a answers w w1 a1)
  have w: "ring_shape snap w" "worker_ok w t a" and calm: "calm snap answers w"
    using assms(2) work by (auto simp: holders_ok_def)
  note grows = published_grows[OF work(5) w]
  have slots: "readable (rw_slots w ! i) \<Longrightarrow> i < 4 \<Longrightarrow> whole_slot w i" "claims a i \<Longrightarrow> whole_slot w i" for i
    using assms(3) work by (auto simp: whole_ok_def)
  have mine: "(readable (rw_slots w1 ! i) \<longrightarrow> whole_slot w1 i) \<and> (claims a1 i \<longrightarrow> whole_slot w1 i)"
    if "touches a i" for i
  proof -
    have "i < 4" using that w(2) by (auto simp: touches_def worker_ok_def split: option.splits)
    then show ?thesis using whole_turn[OF work(5) w calm that] slots by blast
  qed
  have idle: "rw_slots w1 ! i = rw_slots w ! i" if "\<not> touches a i" for i
    using next_other_slot[OF work(5) that] .
  have untouched: "\<not> claims a1 i" if "\<not> touches a i" for i
    using that work(5)
    by (cases a) (auto simp: touches_def claims_def publish_locked_def Let_def split: acquire_result.splits option.splits if_splits)
  have others: "whole_slot w1 i" if "u \<noteq> t" "thr u = Some (f, b)" "claims b i" for u f b i
  proof -
    have held: "rl_mutex (rw_slots w ! i) = HeldBy (HeldByWorker u)" and whole: "whole_slot w i"
      using assms(2,3) work(1) that(2,3) by (fastforce simp: holders_ok_def worker_ok_def claims_def whole_ok_def)+
    have "rw_slots w1 ! i = rw_slots w ! i" using next_keeps_held[OF work(5) w(2) held] that(1) by simp
    then show ?thesis using whole_slot_grows[OF whole _ grows] by simp
  qed
  have "readable (rw_slots w1 ! i) \<longrightarrow> whole_slot w1 i" if "i < 4" for i
    using mine[of i] idle[of i] slots(1)[OF _ that] whole_slot_grows[OF _ _ grows] by (cases "touches a i") auto
  moreover have "claims a1 i \<longrightarrow> whole_slot w1 i" for i using mine untouched by blast
  ultimately show ?thesis using others work(2) by (auto simp: whole_ok_def)
next
  case (capture thr t w frame)
  then show ?thesis using assms(3) by (auto simp: whole_ok_def claims_def)
next
  case (report thr t frame result w)
  then show ?thesis using assms(3) by (auto simp: whole_ok_def whole_slot_def worker_after_publish_def)
next
  case (retire w thr)
  then show ?thesis using assms(3) by (auto simp: whole_ok_def whole_slot_def)
next
  case (consume i w thr)
  then show ?thesis using assms(2,3) whole_set_mutex[of w thr i "HeldBy HeldByConsumer"]
    by (auto simp: readable_def)
next
  case (recycle i w thr)
  then show ?thesis using assms(2,3) whole_set_mutex[of w thr i "ReleasedWith 0"] by auto
next
  case (crash i w thr)
  then show ?thesis using assms(2,3) whole_set_mutex[of w thr i Abandoned] by auto
qed

lemma whole_holds: "ring_reachable snap request False s \<Longrightarrow> whole_ok s"
proof (induction rule: ring_reachable.induct)
  case (registered s)
  then show ?case by (auto simp: fresh_ring_def whole_ok_def readable_def list_all_length)
next
  case (moves s s1)
  then show ?case using whole_kept holders_hold by blast
qed

section \<open>After retirement\<close>

definition closed :: "'r frame_ring_snapshot \<Rightarrow> 'p ring_world \<Rightarrow> bool" where
  "closed snap w \<longleftrightarrow> \<not> can_publish (rw_gates w) snap"

text \<open>Nothing new can be read, and nothing that can be read has changed.\<close>

definition only_fades :: "'p ring_world \<Rightarrow> 'p ring_world \<Rightarrow> bool" where
  "only_fades w w1 \<longleftrightarrow> rw_published w1 = rw_published w \<and>
     (\<forall>i < 4. readable (rw_slots w1 ! i) \<longrightarrow>
        readable (rw_slots w ! i) \<and> content (rw_slots w1 ! i) = content (rw_slots w ! i))"

lemma only_fades_refl: "rw_slots w1 = rw_slots w \<Longrightarrow> rw_published w1 = rw_published w \<Longrightarrow> only_fades w w1"
  by (simp add: only_fades_def)

lemma only_fades_trans: "only_fades w w1 \<Longrightarrow> only_fades w1 w2 \<Longrightarrow> only_fades w w2"
  by (simp add: only_fades_def)

lemma fades_set_mutex:
  "readable (rw_slots w ! i) \<or> m \<noteq> ReleasedWith 1 \<and> m \<noteq> HeldBy HeldByConsumer \<Longrightarrow> only_fades w (set_mutex i m w)"
  unfolding only_fades_def
proof (intro conjI allI impI)
  fix j assume "readable (rw_slots w ! i) \<or> m \<noteq> ReleasedWith 1 \<and> m \<noteq> HeldBy HeldByConsumer"
    and "readable (rw_slots (set_mutex i m w) ! j)"
  then show "readable (rw_slots w ! j)"
    by (cases "j = i"; cases "i < length (rw_slots w)")
       (auto simp: readable_def set_mutex_def with_slot_def list_update_beyond)
qed simp_all

lemma closed_turn:
  assumes run: "publish_next snap request t frame answers a w = (w1, a1)" and shape: "ring_shape snap w"
    and mine: "worker_ok w t a" and closed: "closed snap w"
  shows "only_fades w w1 \<and> rw_gates w1 = rw_gates w"
proof (cases a)
  case (PublishLocked i k q)
  then show ?thesis using run closed
    by (auto simp: publish_locked_def closed_def release_sync_def only_fades_refl intro!: fades_set_mutex)
next
  case (PublishRelease i k r)
  then show ?thesis using run closed
    by (auto simp: release_unpublished_slot_def closed_def release_sync_def only_fades_refl intro!: fades_set_mutex
        split: option.splits)
next
  case (PublishCopy i k q)
  have "\<not> readable (rw_slots w1 ! i)" and "\<And>j. j \<noteq> i \<Longrightarrow> rw_slots w1 ! j = rw_slots w ! j"
    and "rw_published w1 = rw_published w" and "rw_gates w1 = rw_gates w"
    using PublishCopy run mine by (auto simp: worker_ok_def readable_def pixels_mutex)
  then show ?thesis unfolding only_fades_def by metis
qed (use run in \<open>auto simp: only_fades_refl intro!: fades_set_mutex split: acquire_result.splits option.splits if_splits\<close>)

lemma closed_step:
  assumes "ring_step snap request faults s s1" and "holders_ok snap s" and "closed snap (fst s)"
  shows "only_fades (fst s) (fst s1) \<and> closed snap (fst s1)"
  using assms(1)
proof cases
  case (work thr t frame a answers w w1 a1)
  then show ?thesis using closed_turn[OF work(5)] assms(2,3) by (auto simp: holders_ok_def closed_def)
next
  case (report thr t frame result w)
  then show ?thesis using assms(2,3) retire_simps(2)[of snap w]
    by (auto simp: worker_after_publish_def closed_def holders_ok_def only_fades_refl)
next
  case (retire w thr)
  then show ?thesis using assms(2,3) retire_simps(2)[of snap w]
    by (auto simp: closed_def holders_ok_def only_fades_refl)
next
  case (consume i w thr)
  then show ?thesis using assms(3) by (auto simp: closed_def readable_def intro!: fades_set_mutex)
qed (use assms(3) in \<open>auto simp: closed_def only_fades_refl intro!: fades_set_mutex\<close>)

lemma closed_run:
  assumes "ring_reachable snap request faults s" and "closed snap (fst s)" and "(ring_step snap request faults)\<^sup>*\<^sup>* s s1"
  shows "only_fades (fst s) (fst s1)"
proof -
  from assms(3) have "ring_reachable snap request faults s1 \<and> only_fades (fst s) (fst s1) \<and> closed snap (fst s1)"
  proof (induction rule: rtranclp_induct)
    case base
    then show ?case using assms(1,2) by (simp add: only_fades_refl)
  next
    case (step y z)
    then show ?case
      using closed_step[OF step(2)] holders_hold only_fades_trans ring_reachable.moves by blast
  qed
  then show ?thesis by simp
qed

section \<open>Properties\<close>

text \<open>
  C21: What the consumer of a frame ring can read is a frame that was published for its ring.
  However the workers of a display, retirement and the consumer interleave, and as long as no
  device is removed, no release of a mutex fails and the sequence is not used up, every slot that
  is released to the consumer or in its hands holds pixels and metadata of one and the same
  publication; the metadata carry the cookie and the generations of the ring, and later
  publications have greater sequence numbers.
\<close>

theorem readable_slot_is_published:
  assumes "ring_reachable snap request False (w, thr)" and "i < 4" and "readable (rw_slots w ! i)"
  shows "(rl_metadata (rw_slots w ! i), rl_pixels (rw_slots w ! i)) \<in> set (rw_published w) \<and>
    stamped_for snap request (rl_metadata (rw_slots w ! i)) \<and>
    sorted_wrt (\<lambda>x y. fsm_sequence (fst x) < fsm_sequence (fst y)) (rw_published w)"
  using whole_holds[OF assms(1)] published_holds[OF assms(1)] assms(2,3)
  by (fastforce simp: whole_ok_def whole_slot_def content_def published_ok_def)

text \<open>
  C22: No frame appears after a ring is retired. From any reachable moment at which its gate is
  closed, whatever workers that are still copying, the consumer or the control thread do, and
  whatever fails: nothing more is published, and a slot that can be read later could be read then,
  with the same pixels and metadata.
\<close>

theorem nothing_appears_after_retirement:
  assumes "ring_reachable snap request faults s" and "\<not> can_publish (rw_gates (fst s)) snap"
    and "(ring_step snap request faults)\<^sup>*\<^sup>* s s1"
  shows "rw_published (fst s1) = rw_published (fst s) \<and>
    (\<forall>i < 4. readable (rw_slots (fst s1) ! i) \<longrightarrow> readable (rw_slots (fst s) ! i) \<and>
       content (rw_slots (fst s1) ! i) = content (rw_slots (fst s) ! i))"
  using closed_run[OF assms(1) _ assms(3)] assms(2) by (simp add: only_fades_def closed_def)

section \<open>The producer does not wait\<close>

fun turns_left :: "publish_activity \<Rightarrow> nat" where
  "turns_left PublishBegin = 19"
| "turns_left (PublishLoop i) = 3 * (4 - i) + 6"
| "turns_left (PublishTry i) = 3 * (4 - i) + 5"
| "turns_left (PublishReclaim i) = 3 * (4 - i) + 4"
| "turns_left (PublishAcquired i k) = 5"
| "turns_left (PublishStamp i k) = 4"
| "turns_left (PublishCopy i k q) = 3"
| "turns_left (PublishCheckDevice i k q) = 2"
| "turns_left (PublishLocked i k q) = 1"
| "turns_left (PublishRelease i k r) = 1"
| "turns_left (PublishDone r) = 0"

definition on_course :: "publish_activity \<Rightarrow> bool" where
  "on_course a \<longleftrightarrow> (\<forall>i. aims a = Some i \<longrightarrow> i < 4)"

lemma turn_advances:
  assumes "on_course a" and "\<not> (\<exists>r. a = PublishDone r)"
  shows "on_course (snd (publish_next snap request t frame answers a w)) \<and>
    turns_left (snd (publish_next snap request t frame answers a w)) < turns_left a"
proof (cases a)
  case (PublishLocked i k q)
  then show ?thesis
    by (auto simp: on_course_def publish_locked_def Let_def split: option.splits)
qed (use assms in \<open>auto simp: on_course_def split: acquire_result.splits option.splits if_splits\<close>)

text \<open>The turns of one worker, each in whatever state the others have left.\<close>

definition own_turns ::
  "'r frame_ring_snapshot \<Rightarrow> frame_ring_register_request \<Rightarrow> worker \<Rightarrow> 'p captured_frame \<Rightarrow>
     (publish_answers \<times> 'p ring_world) list \<Rightarrow> publish_activity \<Rightarrow> publish_activity" where
  "own_turns snap request t frame moments =
     fold (\<lambda>(answers, w) a. snd (publish_next snap request t frame answers a w)) moments"

lemma own_turns_done: "own_turns snap request t frame moments (PublishDone r) = PublishDone r"
  by (induction moments) (auto simp: own_turns_def)

lemma own_turns_end:
  "on_course a \<Longrightarrow> turns_left a \<le> length moments \<Longrightarrow>
   \<exists>r. own_turns snap request t frame moments a = PublishDone r"
proof (induction moments arbitrary: a)
  case Nil
  then show ?case by (cases a) (auto simp: own_turns_def)
next
  case (Cons m moments)
  show ?case
  proof (cases "\<exists>r. a = PublishDone r")
    case True
    then show ?thesis using own_turns_done by blast
  next
    case False
    obtain answers w where m: "m = (answers, w)" by fastforce
    have "turns_left (snd (publish_next snap request t frame answers a w)) \<le> length moments"
      using turn_advances[OF Cons(2) False, of snap request t frame answers w] Cons(3) by simp
    then show ?thesis
      using Cons.IH turn_advances[OF Cons(2) False, of snap request t frame answers w] by (auto simp: own_turns_def m)
  qed
qed

text \<open>
  The producer never waits for the consumer: handling one captured frame ends within nineteen
  turns of the worker, whatever state the slots, the gate and the device are in at each of them and
  whatever other threads do in between.
\<close>

theorem frame_is_handled_in_bounded_turns:
  assumes "19 \<le> length moments"
  shows "\<exists>r. own_turns snap request t frame moments PublishBegin = PublishDone r"
  using assms by (intro own_turns_end) (simp_all add: on_course_def)

section \<open>Concrete rings\<close>

text \<open>A worker that runs through its turns without interference.\<close>

definition turns ::
  "'r frame_ring_snapshot \<Rightarrow> frame_ring_register_request \<Rightarrow> worker \<Rightarrow> 'p captured_frame \<Rightarrow>
     publish_answers list \<Rightarrow> 'p ring_world \<times> publish_activity \<Rightarrow> 'p ring_world \<times> publish_activity" where
  "turns snap request t frame answers =
     fold (\<lambda>answer (w, a). publish_next snap request t frame answer a w) answers"

fun calm_turns ::
  "'r frame_ring_snapshot \<Rightarrow> frame_ring_register_request \<Rightarrow> worker \<Rightarrow> 'p captured_frame \<Rightarrow>
     publish_answers list \<Rightarrow> 'p ring_world \<times> publish_activity \<Rightarrow> bool" where
  "calm_turns snap request t frame [] s \<longleftrightarrow> True"
| "calm_turns snap request t frame (answer # answers) s \<longleftrightarrow> calm snap answer (fst s) \<and>
     calm_turns snap request t frame answers (publish_next snap request t frame answer (snd s) (fst s))"

lemma turns_reachable:
  assumes "ring_reachable snap request faults (w, thr(t \<mapsto> (frame, a)))"
    and "faults \<or> calm_turns snap request t frame answers (w, a)"
  shows "turns snap request t frame answers (w, a) = (w1, a1) \<Longrightarrow>
    ring_reachable snap request faults (w1, thr(t \<mapsto> (frame, a1)))"
  using assms
proof (induction answers arbitrary: w a)
  case Nil
  then show ?case by (simp add: turns_def)
next
  case (Cons answer answers)
  obtain w2 a2 where one: "publish_next snap request t frame answer a w = (w2, a2)" by fastforce
  have "ring_step snap request faults (w, thr(t \<mapsto> (frame, a))) (w2, thr(t \<mapsto> (frame, a), t \<mapsto> (frame, a2)))"
    by (rule ring_step.work[OF _ _ one]) (use Cons.prems(3) in auto)
  from ring_reachable.moves[OF Cons.prems(2) this]
  have reach: "ring_reachable snap request faults (w2, thr(t \<mapsto> (frame, a2)))" by (simp only: fun_upd_upd)
  have run: "turns snap request t frame answers (w2, a2) = (w1, a1)" using Cons.prems(1) one by (simp add: turns_def)
  have "faults \<or> calm_turns snap request t frame answers (w2, a2)" using Cons.prems(3) one by auto
  from Cons.IH[OF run reach this] show ?case .
qed

lemma frame_reachable:
  assumes "ring_reachable snap request faults (w, Map.empty)"
    and "faults \<or> calm_turns snap request t frame answers (w, PublishBegin)"
    and "turns snap request t frame answers (w, PublishBegin) = (w1, PublishDone r)"
  shows "ring_reachable snap request faults (worker_after_publish snap r w1, Map.empty)"
proof -
  have "ring_reachable snap request faults (w, Map.empty(t \<mapsto> (frame, PublishBegin)))"
    by (rule ring_reachable.moves[OF assms(1) ring_step.capture]) simp
  from turns_reachable[OF this assms(2,3)]
  have "ring_reachable snap request faults (w1, Map.empty(t \<mapsto> (frame, PublishDone r)))" .
  from ring_reachable.moves[OF this ring_step.report[of _ t frame r]]
  have "ring_reachable snap request faults (worker_after_publish snap r w1, (Map.empty(t \<mapsto> (frame, PublishDone r)))(t := None))"
    by simp
  then show ?thesis by (simp add: fun_upd_idem)
qed

definition ring_request :: frame_ring_register_request where
  "ring_request = empty_register_request\<lparr>frr_width := 1920, frr_height := 1080, frr_format := 87, frr_client_cookie := 4\<rparr>"

definition ring_snap :: "unit frame_ring_snapshot" where
  "ring_snap = \<lparr>rs_display_generation = 1, rs_ring_generation = 1, rs_resources = Some (), rs_publication = Some 0\<rparr>"

definition ring_frame :: "nat \<Rightarrow> nat captured_frame" where
  "ring_frame n =
     \<lparr>cf_desc = Some \<lparr>td_width = 1920, td_height = 1080, td_mip_levels = 1, td_array_size = 1, td_sample_count = 1,
        td_sample_quality = 0, td_format = 87\<rparr>, cf_same_device = True, cf_pixels = n\<rparr>"

definition blank_slot :: "nat ring_slot" where
  "blank_slot =
     \<lparr>rl_mutex = ReleasedWith 0, rl_pixels = 0,
      rl_metadata = \<lparr>fsm_client_cookie = 0, fsm_display_generation = 0, fsm_ring_generation = 0, fsm_sequence = 0,
        fsm_acquired_qpc = 0, fsm_reserved = 0\<rparr>\<rparr>"

definition ring_start :: "nat ring_world" where
  "ring_start = \<lparr>rw_gates = [new_gate], rw_slots = replicate 4 blank_slot, rw_published = []\<rparr>"

definition fine :: publish_answers where
  "fine = \<lparr>pa_qpc = Some 7, pa_device_ok = True, pa_release_ok = True\<rparr>"

definition ring_first :: "nat ring_world" where
  "ring_first = fst (turns ring_snap ring_request 0 (ring_frame 1) (replicate 9 fine) (ring_start, PublishBegin))"

lemma first_published:
  "ring_reachable ring_snap ring_request faults (ring_first, Map.empty)" "readable (rw_slots ring_first ! 0)"
proof -
  let ?run = "turns ring_snap ring_request 0 (ring_frame 1) (replicate 9 fine) (ring_start, PublishBegin)"
  have start: "ring_reachable ring_snap ring_request faults (ring_start, Map.empty)"
    by (rule registered) (simp add: fresh_ring_def ring_snap_def ring_start_def blank_slot_def list_all_length)
  have calm: "calm_turns ring_snap ring_request 0 (ring_frame 1) (replicate 9 fine) (ring_start, PublishBegin)" by code_simp
  have "snd ?run = PublishDone PublishedOrDropped" by code_simp
  then have "?run = (ring_first, PublishDone PublishedOrDropped)" by (simp add: ring_first_def prod_eq_iff)
  from frame_reachable[OF start _ this] calm
  show "ring_reachable ring_snap ring_request faults (ring_first, Map.empty)" by (simp add: worker_after_publish_def)
  show "readable (rw_slots ring_first ! 0)" unfolding readable_def by code_simp
qed

theorem readable_slot_is_published_witness:
  "(rl_metadata (rw_slots ring_first ! 0), rl_pixels (rw_slots ring_first ! 0)) \<in> set (rw_published ring_first) \<and>
    stamped_for ring_snap ring_request (rl_metadata (rw_slots ring_first ! 0))"
  using readable_slot_is_published[OF first_published(1) _ first_published(2)] by simp

definition ring_retired :: "nat ring_world" where
  "ring_retired = ring_first\<lparr>rw_gates := retire_publication ring_snap (rw_gates ring_first)\<rparr>"

theorem nothing_appears_after_retirement_witness:
  "rw_published (set_mutex 0 (HeldBy HeldByConsumer) ring_retired) = rw_published ring_retired \<and>
    content (rw_slots (set_mutex 0 (HeldBy HeldByConsumer) ring_retired) ! 0) = content (rw_slots ring_retired ! 0)"
proof -
  have reach: "ring_reachable ring_snap ring_request True (ring_retired, Map.empty)"
    unfolding ring_retired_def by (rule ring_reachable.moves[OF first_published(1) ring_step.retire])
  have closed: "\<not> can_publish (rw_gates ring_retired) ring_snap" by code_simp
  have slot: "0 < length (rw_slots ring_retired)" "rl_mutex (rw_slots ring_retired ! 0) = ReleasedWith 1" by code_simp+
  have "(ring_step ring_snap ring_request True)\<^sup>*\<^sup>* (ring_retired, Map.empty)
      (set_mutex 0 (HeldBy HeldByConsumer) ring_retired, Map.empty)"
    by (rule r_into_rtranclp) (rule ring_step.consume[OF slot])
  from nothing_appears_after_retirement[OF reach _ this] closed
  show ?thesis using slot(1) by (auto simp: readable_def)
qed

theorem frame_is_handled_in_bounded_turns_witness:
  "\<exists>r. own_turns ring_snap ring_request 0 (ring_frame 1) (replicate 19 (fine, ring_start)) PublishBegin = PublishDone r"
  by (rule frame_is_handled_in_bounded_turns) simp

section \<open>A frame given up after the copy\<close>

text \<open>The device is removed: four turns go well, the check after the copy fails, the release succeeds.\<close>

definition device_lost :: "publish_answers list" where
  "device_lost = replicate 4 fine @ [fine\<lparr>pa_device_ok := False\<rparr>, fine]"

definition lost_copy :: "nat \<Rightarrow> 'p \<Rightarrow> 'p ring_world \<Rightarrow> 'p ring_world" where
  "lost_copy i pixels w = with_slot i (\<lambda>slot. slot\<lparr>rl_pixels := pixels, rl_mutex := ReleasedWith 1\<rparr>) w"

lemma lost_turns:
  assumes "ring_shape snap w" and "i < 4" and "rl_mutex (rw_slots w ! i) = ReleasedWith 1"
    and "can_publish (rw_gates w) snap"
  shows "turns snap request t frame device_lost (w, PublishReclaim i) =
    (lost_copy i (cf_pixels frame) w, PublishDone PublishFailed)"
proof -
  have len: "i < length (rw_slots w)" and pub: "rs_publication snap \<noteq> None"
    using assms(1,2) by (auto simp: ring_shape_def)
  have "(0 :: int) < sint (7 :: u64)" by simp
  then show ?thesis
    using assms(3,4) len pub
    by (auto simp: turns_def device_lost_def fine_def eval_nat_numeral lost_copy_def release_unpublished_slot_def
        release_sync_def set_mutex_def with_slot_def)
qed

text \<open>Sequence numbers tell publications apart.\<close>

lemma published_once:
  assumes "published_ok snap request w" and "(m, p) \<in> set (rw_published w)" and "(m, q) \<in> set (rw_published w)"
  shows "p = q"
proof -
  obtain j k where j: "j < length (rw_published w)" "rw_published w ! j = (m, p)"
    and k: "k < length (rw_published w)" "rw_published w ! k = (m, q)"
    using assms(2,3) by (auto simp: in_set_conv_nth)
  have sorted: "sorted_wrt (\<lambda>x y. fsm_sequence (fst x) < fsm_sequence (fst y)) (rw_published w)"
    using assms(1) by (simp add: published_ok_def)
  have "j = k"
  proof (rule ccontr)
    assume "j \<noteq> k"
    then show False
      using sorted_wrt_nth_less[OF sorted, of j k] sorted_wrt_nth_less[OF sorted, of k j] j k by (cases "j < k") auto
  qed
  then show ?thesis using j k by simp
qed

text \<open>
  C23: A frame that is given up after its copy can stay readable. From every reachable state of an
  open ring in which a worker is about to take an unread slot back (it is still released to the
  consumer), if the worker takes it and the device is found removed right after the copy, then the
  slot goes back to the consumer with its old key before the ring is retired: the closed ring, a
  reachable state, has the slot readable, with the pixels of the abandoned frame under the metadata
  of the previous one, nothing having been published. If that previous frame was published with other
  pixels, this combination never was. And whatever happens afterwards, as long as the slot can be
  read it shows that combination.
\<close>

theorem abandoned_copy_stays_readable:
  assumes "ring_reachable snap request True (w, thr)" and "thr t = Some (frame, PublishReclaim i)"
    and "can_publish (rw_gates w) snap" and "rl_mutex (rw_slots w ! i) = ReleasedWith 1"
  shows "\<exists>w1. turns snap request t frame device_lost (w, PublishReclaim i) = (w1, PublishDone PublishFailed) \<and>
    (let closed_ring = (worker_after_publish snap PublishFailed w1, thr(t := None));
         previous = rl_metadata (rw_slots w ! i) in
     ring_reachable snap request True closed_ring \<and> \<not> can_publish (rw_gates (fst closed_ring)) snap \<and>
     rw_published (fst closed_ring) = rw_published w \<and>
     rl_mutex (rw_slots (fst closed_ring) ! i) = ReleasedWith 1 \<and>
     content (rw_slots (fst closed_ring) ! i) = (previous, cf_pixels frame) \<and>
     ((previous, rl_pixels (rw_slots w ! i)) \<in> set (rw_published w) \<longrightarrow>
        rl_pixels (rw_slots w ! i) \<noteq> cf_pixels frame \<longrightarrow>
        (previous, cf_pixels frame) \<notin> set (rw_published (fst closed_ring))) \<and>
     (\<forall>s. (ring_step snap request True)\<^sup>*\<^sup>* closed_ring s \<longrightarrow> readable (rw_slots (fst s) ! i) \<longrightarrow>
        content (rw_slots (fst s) ! i) = (previous, cf_pixels frame)))"
proof -
  have holders: "holders_ok snap (w, thr)" by (rule holders_hold[OF assms(1)])
  then have shape: "ring_shape snap w" and "worker_ok w t (PublishReclaim i)"
    using assms(2) by (auto simp: holders_ok_def)
  then have i: "i < 4" by (simp add: worker_ok_def)
  have len: "i < length (rw_slots w)" using shape i by (simp add: ring_shape_def)
  let ?w1 = "lost_copy i (cf_pixels frame) w"
  let ?s = "(worker_after_publish snap PublishFailed ?w1, thr(t := None))"
  note run = lost_turns[OF shape i assms(4,3), of request t frame]
  have thr: "thr(t \<mapsto> (frame, PublishReclaim i)) = thr" using assms(2) by (simp add: fun_upd_idem)
  have "ring_reachable snap request True (?w1, thr(t \<mapsto> (frame, PublishDone PublishFailed)))"
    by (rule turns_reachable[OF _ _ run]) (use assms(1) thr in simp_all)
  from ring_reachable.moves[OF this ring_step.report[of _ t frame PublishFailed]]
  have reach: "ring_reachable snap request True ?s" by (simp add: worker_after_publish_def)
  have shape1: "ring_shape snap ?w1"
    using shape i by (auto simp: ring_shape_def lost_copy_def with_slot_def nth_list_update)
  have slots: "rw_slots (fst ?s) = rw_slots ?w1" "rw_published (fst ?s) = rw_published w"
    by (simp_all add: worker_after_publish_def lost_copy_def)
  have slot: "rw_slots ?w1 ! i = (rw_slots w ! i)\<lparr>rl_pixels := cf_pixels frame, rl_mutex := ReleasedWith 1\<rparr>"
    using len by (simp add: lost_copy_def)
  have closed: "\<not> can_publish (rw_gates (fst ?s)) snap"
    using retire_simps(2)[OF shape1] by (simp add: worker_after_publish_def)
  have never: "(rl_metadata (rw_slots w ! i), cf_pixels frame) \<notin> set (rw_published w)"
    if "(rl_metadata (rw_slots w ! i), rl_pixels (rw_slots w ! i)) \<in> set (rw_published w)"
      "rl_pixels (rw_slots w ! i) \<noteq> cf_pixels frame"
    using published_once[OF published_holds[OF assms(1)]] that by force
  have stays: "content (rw_slots (fst s) ! i) = (rl_metadata (rw_slots w ! i), cf_pixels frame)"
    if "(ring_step snap request True)\<^sup>*\<^sup>* ?s s" "readable (rw_slots (fst s) ! i)" for s
    using closed_run[OF reach _ that(1)] closed that(2) i slots slot
    by (auto simp: only_fades_def closed_def content_def)
  show ?thesis
    unfolding Let_def
    by (intro exI[of _ ?w1] conjI) (use run reach closed slots slot never stays in \<open>auto simp: content_def\<close>)
qed

text \<open>A second frame meets the unread first one in slot 0.\<close>

theorem abandoned_copy_stays_readable_witness:
  "\<exists>s :: nat ring_system. ring_reachable ring_snap ring_request True s \<and> \<not> can_publish (rw_gates (fst s)) ring_snap \<and>
     readable (rw_slots (fst s) ! 0) \<and> content (rw_slots (fst s) ! 0) \<notin> set (rw_published (fst s))"
proof -
  let ?T = "Map.empty(0 \<mapsto> (ring_frame 2, PublishReclaim 0))"
  have "ring_reachable ring_snap ring_request True (ring_first, Map.empty(0 \<mapsto> (ring_frame 2, PublishBegin)))"
    by (rule ring_reachable.moves[OF first_published(1) ring_step.capture]) simp
  moreover have "turns ring_snap ring_request 0 (ring_frame 2) (replicate 3 fine) (ring_first, PublishBegin) =
      (ring_first, PublishReclaim 0)"
  proof -
    have "rl_mutex (rw_slots ring_first ! 0) = ReleasedWith 1" "can_publish (rw_gates ring_first) ring_snap"
      "texture_fits ring_request (the (cf_desc (ring_frame 2)))" by code_simp+
    then show ?thesis by (simp add: turns_def eval_nat_numeral) (simp add: ring_frame_def)
  qed
  ultimately have reach: "ring_reachable ring_snap ring_request True (ring_first, ?T)"
    using turns_reachable[where faults = True] by blast
  have state: "can_publish (rw_gates ring_first) ring_snap" "rl_mutex (rw_slots ring_first ! 0) = ReleasedWith 1"
    "(rl_metadata (rw_slots ring_first ! 0), rl_pixels (rw_slots ring_first ! 0)) \<in> set (rw_published ring_first)"
    "rl_pixels (rw_slots ring_first ! 0) \<noteq> cf_pixels (ring_frame 2)" by code_simp+
  have "?T 0 = Some (ring_frame 2, PublishReclaim 0)" by simp
  from abandoned_copy_stays_readable[OF reach this state(1,2)] state(3,4)
  show ?thesis unfolding Let_def readable_def by metis
qed

end
