(* ===== verification/Linux_Control_Client.thy ===== *)
theory Linux_Control_Client
  imports Number_Text Lease_Store
begin

text \<open>
  The client of the connector broker on Linux (\<open>linux_control_client.h\<close>,
  \<open>linux_control_client.cpp\<close>): one text line to a socket and one line back, with a deadline over
  the whole exchange.

  The system is a script of the answers to come, per kind of call, which the calls use up; a client
  that needs more answers than there are is still waiting, which is \<open>None\<close>. What was handed to the
  socket and what came out of it is recorded.
\<close>

section \<open>Results\<close>

datatype linux_control_status =
    LinuxSuccess | InvalidBrokerRequest | LinuxTransportFailed | TimedOut | ProtocolError

record linux_control_result =
  lcr_status :: linux_control_status
  lcr_connected :: "bool option"
  lcr_native_error :: int
  lcr_detail :: string

definition linux_result_ok :: "linux_control_result \<Rightarrow> bool" where
  "linux_result_ok result \<longleftrightarrow> lcr_status result = LinuxSuccess"

definition linux_failure :: "linux_control_status \<Rightarrow> int \<Rightarrow> string \<Rightarrow> linux_control_result" where
  "linux_failure status error detail =
     \<lparr>lcr_status = status, lcr_connected = None, lcr_native_error = error, lcr_detail = detail\<rparr>"

text \<open>The error numbers of Linux.\<close>

abbreviation (input) EINTR :: int where "EINTR \<equiv> 4"
abbreviation (input) EIO :: int where "EIO \<equiv> 5"
abbreviation (input) EAGAIN :: int where "EAGAIN \<equiv> 11"
abbreviation (input) EINVAL :: int where "EINVAL \<equiv> 22"
abbreviation (input) ENAMETOOLONG :: int where "ENAMETOOLONG \<equiv> 36"
abbreviation (input) EPROTO :: int where "EPROTO \<equiv> 71"
abbreviation (input) EMSGSIZE :: int where "EMSGSIZE \<equiv> 90"
abbreviation (input) ECONNRESET :: int where "ECONNRESET \<equiv> 104"
abbreviation (input) EINPROGRESS :: int where "EINPROGRESS \<equiv> 115"

section \<open>Output names\<close>

definition valid_output_name :: "string \<Rightarrow> bool" where
  "valid_output_name output_name \<longleftrightarrow>
     (let prefix = ''Virtual-''; suffix = drop (length prefix) output_name in
      if take (length prefix) output_name \<noteq> prefix \<or> length output_name \<le> length prefix then False
      else if length suffix > 10 \<or> char_code (hd suffix) < 49 \<or> char_code (hd suffix) > 57 \<or>
              \<not> list_all is_digit suffix then False
      else
        (case from_chars_i32 suffix of
           None \<Rightarrow> False
         | Some (connector_type_id, rest) \<Rightarrow> rest = [] \<and> sint connector_type_id > 0))"

section \<open>The system\<close>

text \<open>
  \<open>poll\<close>: the clock before it, and what it returns. A positive result comes with three facts about
  \<open>revents\<close>: an error bit, the requested bit, a hang-up.
\<close>

datatype poll_outcome =
    PollReady bool bool bool
  | PollElapsed
  | PollErrno int

record poll_answer =
  po_now :: time_point
  po_outcome :: poll_outcome

record send_answer =
  se_count :: int
  se_errno :: int

text \<open>\<open>recv\<close>: bytes (none at the end of the stream), or an error number.\<close>

datatype recv_answer = Received string | RecvErrno int

record broker_system =
  bs_polls :: "poll_answer list"
  bs_sends :: "send_answer list"
  bs_recvs :: "recv_answer list"
  bs_sent :: string
  bs_received :: string

text \<open>\<open>socket\<close>, the clock at the start, \<open>connect\<close>, and \<open>getsockopt\<close> (its failure, or the pending error).\<close>

record connect_answers =
  ca_socket_errno :: "int option"
  ca_now :: time_point
  ca_connect_errno :: "int option"
  ca_pending_error :: "int + int"

datatype wait_result = WaitReady | WaitTimedOut | WaitFailed

section \<open>Waiting\<close>

text \<open>\<open>input\<close>: whether the event waited for is \<open>POLLIN\<close>. The interrupted call starts over.\<close>

fun wait_polls :: "bool \<Rightarrow> time_point \<Rightarrow> poll_answer list \<Rightarrow> (wait_result \<times> int \<times> poll_answer list) option" where
  "wait_polls input deadline [] = None"
| "wait_polls input deadline (answer # polls) =
     (if duration_cast_milliseconds (deadline - po_now answer) \<le> 0 then Some (WaitTimedOut, 0, polls)
      else
        (case po_outcome answer of
           PollReady error requested hangup \<Rightarrow>
             Some (if error then WaitFailed else if requested \<or> input \<and> hangup then WaitReady else WaitFailed,
                   if error \<or> \<not> (requested \<or> input \<and> hangup) then EIO else 0, polls)
         | PollElapsed \<Rightarrow> Some (WaitTimedOut, 0, polls)
         | PollErrno e \<Rightarrow>
             if e = EINTR then wait_polls input deadline polls else Some (WaitFailed, e, polls)))"

definition wait_for_fd :: "bool \<Rightarrow> time_point \<Rightarrow> broker_system \<Rightarrow> (wait_result \<times> int \<times> broker_system) option" where
  "wait_for_fd input deadline sys =
     map_option (\<lambda>(waited, error, polls). (waited, error, sys\<lparr>bs_polls := polls\<rparr>))
       (wait_polls input deadline (bs_polls sys))"

definition wait_failure :: "wait_result \<Rightarrow> int \<Rightarrow> string \<Rightarrow> linux_control_result" where
  "wait_failure waited error detail =
     linux_failure (if waited = WaitTimedOut then TimedOut else LinuxTransportFailed) error detail"

lemma wait_polls_shrinks: "wait_polls input deadline polls = Some (waited, e, rest) \<Longrightarrow> length rest < length polls"
proof (induction polls)
  case (Cons p polls)
  then show ?case by (cases "po_outcome p") (auto split: if_splits)
qed simp

lemma wait_shrinks:
  "wait_for_fd input deadline sys = Some (waited, e, sys1) \<Longrightarrow> length (bs_polls sys1) < length (bs_polls sys)"
  using wait_polls_shrinks by (auto simp: wait_for_fd_def)

section \<open>One exchange\<close>

definition request_not_written :: string where "request_not_written = ''broker request could not be written''"
definition response_not_received :: string where "response_not_received = ''broker response was not received''"
definition response_too_large :: string where "response_too_large = ''broker response is too large''"
definition closed_early :: string where "closed_early = ''broker closed without a complete response''"

text \<open>The write loop: \<open>Inl\<close> is the request given up.\<close>

function send_all ::
  "(int \<Rightarrow> string) \<Rightarrow> time_point \<Rightarrow> string \<Rightarrow> nat \<Rightarrow> broker_system \<Rightarrow>
     (linux_control_result + unit) option \<times> broker_system" where
  "send_all strerror deadline text' sent sys =
     (if sent \<ge> length text' then (Some (Inr ()), sys)
      else
        (case wait_for_fd False deadline sys of
           None \<Rightarrow> (None, sys)
         | Some (waited, error, sys1) \<Rightarrow>
             if waited \<noteq> WaitReady
             then (Some (Inl (wait_failure waited error request_not_written)), sys1)
             else
               (case bs_sends sys1 of
                  [] \<Rightarrow> (None, sys1)
                | answer # sends \<Rightarrow>
                    let sys2 = sys1\<lparr>bs_sends := sends\<rparr>; count = se_count answer in
                    if count > 0 then
                      send_all strerror deadline text' (sent + nat count)
                        (sys2\<lparr>bs_sent := bs_sent sys2 @ take (nat count) (drop sent text')\<rparr>)
                    else if count < 0 \<and> (se_errno answer = EINTR \<or> se_errno answer = EAGAIN)
                    then send_all strerror deadline text' sent sys2
                    else (Some (Inl (linux_failure LinuxTransportFailed (se_errno answer)
                            (strerror (se_errno answer)))), sys2))))"
  by pat_completeness auto
termination
  by (relation "measure (\<lambda>(_, _, _, _, sys). length (bs_polls sys))") (auto dest: wait_shrinks)

definition connected_reply :: "string \<Rightarrow> string" where
  "connected_reply output_name = ''STATUS connected '' @ output_name"

definition disconnected_reply :: "string \<Rightarrow> string" where
  "disconnected_reply output_name = ''STATUS disconnected '' @ output_name"

definition connected_ok :: "string \<Rightarrow> string" where
  "connected_ok output_name = ''OK connected '' @ output_name"

definition disconnected_ok :: "string \<Rightarrow> string" where
  "disconnected_ok output_name = ''OK disconnected '' @ output_name"

text \<open>A complete response: up to the first newline, which must be its end.\<close>

definition judge_response :: "string \<Rightarrow> string \<Rightarrow> linux_control_result" where
  "judge_response output_name response =
     (let line = takeWhile (\<lambda>c. c \<noteq> CHR 0x0A) response in
      if length line + 1 \<noteq> length response \<or> CHR 0x0D \<in> set response
      then linux_failure ProtocolError EPROTO ''malformed broker response''
      else if line = connected_reply output_name \<or> line = connected_ok output_name
      then \<lparr>lcr_status = LinuxSuccess, lcr_connected = Some True, lcr_native_error = 0, lcr_detail = []\<rparr>
      else if line = disconnected_reply output_name \<or> line = disconnected_ok output_name
      then \<lparr>lcr_status = LinuxSuccess, lcr_connected = Some False, lcr_native_error = 0, lcr_detail = []\<rparr>
      else linux_failure ProtocolError EPROTO line)"

function receive_response ::
  "(int \<Rightarrow> string) \<Rightarrow> time_point \<Rightarrow> string \<Rightarrow> string \<Rightarrow> broker_system \<Rightarrow>
     linux_control_result option \<times> broker_system" where
  "receive_response strerror deadline output_name response sys =
     (if length response > 128
      then (Some (linux_failure ProtocolError EMSGSIZE response_too_large), sys)
      else
        (case wait_for_fd True deadline sys of
           None \<Rightarrow> (None, sys)
         | Some (waited, error, sys1) \<Rightarrow>
             if waited \<noteq> WaitReady
             then (Some (wait_failure waited error response_not_received), sys1)
             else
               (case bs_recvs sys1 of
                  [] \<Rightarrow> (None, sys1)
                | RecvErrno e # recvs \<Rightarrow>
                    let sys2 = sys1\<lparr>bs_recvs := recvs\<rparr> in
                    if e = EINTR \<or> e = EAGAIN
                    then receive_response strerror deadline output_name response sys2
                    else (Some (linux_failure LinuxTransportFailed e (strerror e)), sys2)
                | Received bytes # recvs \<Rightarrow>
                    let sys2 = sys1\<lparr>bs_recvs := recvs, bs_received := bs_received sys1 @ bytes\<rparr> in
                    if bytes = []
                    then (Some (linux_failure LinuxTransportFailed ECONNRESET
                            closed_early), sys2)
                    else if CHR 0x0A \<notin> set (response @ bytes)
                    then receive_response strerror deadline output_name (response @ bytes) sys2
                    else (Some (judge_response output_name (response @ bytes)), sys2))))"
  by pat_completeness auto
termination
  by (relation "measure (\<lambda>(_, _, _, _, sys). length (bs_polls sys))") (auto dest: wait_shrinks)

text \<open>The connection: \<open>Some\<close> is a failure.\<close>

definition connect_broker ::
  "(int \<Rightarrow> string) \<Rightarrow> time_point \<Rightarrow> connect_answers \<Rightarrow> broker_system \<Rightarrow>
     linux_control_result option option \<times> broker_system" where
  "connect_broker strerror deadline answers sys =
     (case ca_connect_errno answers of
        None \<Rightarrow> (Some None, sys)
      | Some e \<Rightarrow>
          if e \<noteq> EINPROGRESS then (Some (Some (linux_failure LinuxTransportFailed e (strerror e))), sys)
          else
            (case wait_for_fd False deadline sys of
               None \<Rightarrow> (None, sys)
             | Some (waited, error, sys1) \<Rightarrow>
                 if waited \<noteq> WaitReady
                 then (Some (Some (wait_failure waited error ''broker connection did not become writable'')), sys1)
                 else
                   (case ca_pending_error answers of
                      Inl e \<Rightarrow> (Some (Some (linux_failure LinuxTransportFailed e (strerror e))), sys1)
                    | Inr pending \<Rightarrow>
                        (Some (if pending \<noteq> 0
                               then Some (linux_failure LinuxTransportFailed pending (strerror pending))
                               else None), sys1))))"

text \<open>The path field of a socket address has 108 bytes.\<close>

definition broker_request ::
  "(int \<Rightarrow> string) \<Rightarrow> string \<Rightarrow> time_point \<Rightarrow> string \<Rightarrow> string \<Rightarrow> connect_answers \<Rightarrow> broker_system \<Rightarrow>
     linux_control_result option \<times> broker_system" where
  "broker_request strerror socket_path timeout verb output_name answers sys =
     (if verb \<notin> {''connect'', ''disconnect'', ''status''} \<or> \<not> valid_output_name output_name \<or> socket_path = []
      then (Some (linux_failure InvalidBrokerRequest EINVAL ''invalid broker request''), sys)
      else
        (case ca_socket_errno answers of
           Some e \<Rightarrow> (Some (linux_failure LinuxTransportFailed e (strerror e)), sys)
         | None \<Rightarrow>
             if length socket_path \<ge> 108
             then (Some (linux_failure InvalidBrokerRequest ENAMETOOLONG ''socket path is too long''), sys)
             else
               let deadline = ca_now answers + timeout in
               (case connect_broker strerror deadline answers sys of
                  (None, sys1) \<Rightarrow> (None, sys1)
                | (Some (Some failure), sys1) \<Rightarrow> (Some failure, sys1)
                | (Some None, sys1) \<Rightarrow>
                    (case send_all strerror deadline (verb @ '' '' @ output_name @ [CHR 0x0A]) 0 sys1 of
                       (None, sys2) \<Rightarrow> (None, sys2)
                     | (Some (Inl failure), sys2) \<Rightarrow> (Some failure, sys2)
                     | (Some (Inr _), sys2) \<Rightarrow> receive_response strerror deadline output_name [] sys2))))"

definition query_connector ::
  "(int \<Rightarrow> string) \<Rightarrow> string \<Rightarrow> time_point \<Rightarrow> string \<Rightarrow> connect_answers \<Rightarrow> broker_system \<Rightarrow>
     linux_control_result option \<times> broker_system" where
  "query_connector strerror socket_path timeout output_name =
     broker_request strerror socket_path timeout ''status'' output_name"

definition set_connector ::
  "(int \<Rightarrow> string) \<Rightarrow> string \<Rightarrow> time_point \<Rightarrow> string \<Rightarrow> bool \<Rightarrow> connect_answers \<Rightarrow> broker_system \<Rightarrow>
     linux_control_result option \<times> broker_system" where
  "set_connector strerror socket_path timeout output_name wanted answers sys =
     (let (outcome, sys1) = broker_request strerror socket_path timeout
            (if wanted then ''connect'' else ''disconnect'') output_name answers sys in
      (map_option (\<lambda>result.
         if \<not> linux_result_ok result \<or> lcr_connected result \<noteq> Some wanted
         then (if linux_result_ok result
               then \<lparr>lcr_status = ProtocolError, lcr_connected = lcr_connected result, lcr_native_error = EPROTO,
                     lcr_detail = ''broker acknowledged the wrong connector state''\<rparr>
               else result)
         else result) outcome, sys1))"

end
