(* ===== verification/Linux_Client_Theorems.thy ===== *)
theory Linux_Client_Theorems
  imports Linux_Control_Client
begin

text \<open>
  What the Linux broker client guarantees: which output names exist, what a success means, and that
  a request ends once its deadline has passed.
\<close>

section \<open>Output names\<close>

lemma decimal_of_digits:
  "list_all is_digit cs \<Longrightarrow> cs \<noteq> [] \<Longrightarrow> hd cs \<noteq> CHR ''0'' \<Longrightarrow>
     0 < digits_value cs \<and> decimal (digits_value cs) = cs"
proof (induction cs rule: rev_induct)
  case (snoc c cs)
  let ?d = "char_code c - 48"
  have c: "is_digit c" "?d < 10" "char_of (?d + 48) = c"
    using snoc.prems(1) by (auto simp: is_digit_def char_code_def)
  show ?case
  proof (cases "cs = []")
    case True
    have "?d \<noteq> 0"
    proof
      assume "?d = 0"
      then have "c = char_of (48 :: nat)" using c(3) by simp
      moreover have "char_of (48 :: nat) = CHR ''0''" by code_simp
      ultimately have "c = CHR ''0''" by simp
      then show False using snoc.prems(3) True by simp
    qed
    then show ?thesis using True c(2,3) by (simp add: digits_value_def decimal.simps)
  next
    case False
    then have IH: "0 < digits_value cs" "decimal (digits_value cs) = cs"
      using snoc.IH snoc.prems by auto
    have "\<not> 10 * digits_value cs + ?d < 10" "(10 * digits_value cs + ?d) div 10 = digits_value cs"
      "(10 * digits_value cs + ?d) mod 10 = ?d" using IH(1) c(2) by auto
    then have "decimal (10 * digits_value cs + ?d) = decimal (digits_value cs) @ [char_of (?d + 48)]"
      by (subst decimal.simps) simp
    then show ?thesis using IH c(3) by (simp add: digits_value_snoc)
  qed
qed simp

lemma decimal_length: "n < 10 ^ k \<Longrightarrow> 0 < k \<Longrightarrow> length (decimal n) \<le> k"
proof (induction k arbitrary: n)
  case (Suc k)
  show ?case
  proof (cases "n < 10")
    case False
    then have "n div 10 < 10 ^ k" using Suc.prems by (simp add: div_less_iff_less_mult mult.commute)
    moreover have "0 < k" using False Suc.prems by (cases k) auto
    ultimately show ?thesis using Suc.IH[of "n div 10"] False by (subst decimal.simps) simp
  qed (simp add: decimal.simps)
qed simp

lemma decimal_first: "0 < n \<Longrightarrow> 49 \<le> char_code (hd (decimal n)) \<and> char_code (hd (decimal n)) \<le> 57"
proof (induction n rule: decimal.induct)
  case (1 n)
  show ?case
  proof (cases "n < 10")
    case True
    then show ?thesis using 1 by (simp add: decimal.simps char_code_def)
  next
    case False
    then show ?thesis using 1 by (subst (1 2) decimal.simps) (simp add: hd_append)
  qed
qed

lemma from_chars_digits:
  assumes "list_all is_digit cs" and "cs \<noteq> []"
  shows "from_chars_i32 cs = (if digits_value cs > 0x7fffffff then None else Some (of_nat (digits_value cs), []))"
proof -
  have "hd cs \<noteq> CHR ''-''" using assms by (cases cs) (auto simp: is_digit_def char_code_def)
  then have body: "(if cs \<noteq> [] \<and> hd cs = CHR ''-'' then tl cs else cs) = cs" "(cs \<noteq> [] \<and> hd cs = CHR ''-'') = False"
    by simp_all
  have digits: "takeWhile is_digit cs = cs" "dropWhile is_digit cs = []"
    using assms(1) by (simp_all add: list_all_iff takeWhile_eq_all_conv)
  show ?thesis unfolding from_chars_i32_def Let_def body(1) unfolding body(2) if_False digits using assms(2) by simp
qed

lemma sint_of_small: "n \<le> 0x7fffffff \<Longrightarrow> sint (of_nat n :: u32) = int n"
  by (subst of_int_of_nat_eq[symmetric]) (simp add: sint_sbintrunc' signed_take_bit_int_eq_self del: of_int_of_nat_eq)

lemma output_name_parts:
  "valid_output_name x \<longleftrightarrow> take 8 x = ''Virtual-'' \<and> 8 < length x \<and> length (drop 8 x) \<le> 10 \<and>
     49 \<le> char_code (hd (drop 8 x)) \<and> char_code (hd (drop 8 x)) \<le> 57 \<and> list_all is_digit (drop 8 x) \<and>
     digits_value (drop 8 x) \<le> 0x7fffffff \<and> 0 < digits_value (drop 8 x)"
proof -
  have prefix: "length ''Virtual-'' = 8" by simp
  have parsed: "(case from_chars_i32 cs of None \<Rightarrow> False | Some (v, rest) \<Rightarrow> rest = [] \<and> 0 < sint v) \<longleftrightarrow>
      digits_value cs \<le> 0x7fffffff \<and> 0 < digits_value cs" if "list_all is_digit cs" "cs \<noteq> []" for cs
    using from_chars_digits[OF that] by (auto simp: sint_of_small)
  have shape: "(if a \<or> b then False else if c \<or> d \<or> e \<or> \<not> f then False else g) \<longleftrightarrow>
      \<not> a \<and> \<not> b \<and> \<not> c \<and> \<not> d \<and> \<not> e \<and> f \<and> g" for a b c d e f g by auto
  have "drop 8 x \<noteq> [] \<longleftrightarrow> 8 < length x" by auto
  then show ?thesis
    unfolding valid_output_name_def Let_def prefix shape not_less not_le not_not
    using parsed[of "drop 8 x"] by blast
qed

text \<open>
  An output name is accepted exactly when it is \<open>Virtual-\<close> and a connector number from 1 to
  2147483647, written the one way numbers are written: no sign, no leading zero, nothing after it.
\<close>

theorem output_names_exact:
  "valid_output_name output_name \<longleftrightarrow>
     (\<exists>n. 0 < n \<and> n \<le> 0x7fffffff \<and> output_name = ''Virtual-'' @ decimal n)"
proof
  assume valid: "valid_output_name output_name"
  let ?s = "drop 8 output_name"
  have name: "output_name = ''Virtual-'' @ ?s"
    using valid append_take_drop_id[of 8 output_name] unfolding output_name_parts by metis
  have "hd ?s \<noteq> CHR ''0''" using valid unfolding output_name_parts by (auto simp: char_code_def)
  then have "decimal (digits_value ?s) = ?s"
    using decimal_of_digits[of ?s] valid unfolding output_name_parts by auto
  then show "\<exists>n. 0 < n \<and> n \<le> 0x7fffffff \<and> output_name = ''Virtual-'' @ decimal n"
    using name valid unfolding output_name_parts by metis
next
  assume "\<exists>n. 0 < n \<and> n \<le> 0x7fffffff \<and> output_name = ''Virtual-'' @ decimal n"
  then obtain n where n: "0 < n" "n \<le> 0x7fffffff" "output_name = ''Virtual-'' @ decimal n" by blast
  have parts: "drop 8 output_name = decimal n" "take 8 output_name = ''Virtual-''" "length output_name = 8 + length (decimal n)"
    by (simp_all add: n(3))
  have "length (decimal n) \<le> 10" using n(2) by (intro decimal_length) auto
  then show "valid_output_name output_name"
    unfolding output_name_parts parts using decimal_first[OF n(1)] decimal_digits[of n] n(1,2) by simp
qed

section \<open>The exchange\<close>

lemma wait_keeps:
  "wait_for_fd input deadline sys = Some (waited, e, sys1) \<Longrightarrow>
     bs_sent sys1 = bs_sent sys \<and> bs_received sys1 = bs_received sys \<and> bs_sends sys1 = bs_sends sys \<and>
     bs_recvs sys1 = bs_recvs sys"
  by (auto simp: wait_for_fd_def)

declare send_all.simps [simp del] receive_response.simps [simp del]

lemma take_on: "take n xs @ take m (drop n xs) = take (n + m) xs"
  by (simp add: take_add)

text \<open>When the write loop ends well, the whole request has been handed over, and nothing else.\<close>

lemma send_all_sends:
  "send_all strerror deadline text' sent sys = (Some (Inr ()), sys1) \<Longrightarrow>
     bs_sent sys = pre @ take sent text' \<Longrightarrow> bs_sent sys1 = pre @ text' \<and> bs_received sys1 = bs_received sys"
proof (induction strerror deadline text' sent sys rule: send_all.induct)
  case (1 strerror deadline text' sent sys)
  show ?case
  proof (cases "sent \<ge> length text'")
    case True
    then show ?thesis using 1(3,4) by (simp add: send_all.simps[of strerror deadline text' sent])
  next
    case False
    from 1(3) False obtain waited e sys2 answer sends where w: "wait_for_fd False deadline sys = Some (WaitReady, e, sys2)"
      "bs_sends sys2 = answer # sends"
      by (auto simp: send_all.simps[of strerror deadline text' sent sys] Let_def split: option.splits if_splits list.splits)
    note kept = wait_keeps[OF w(1)]
    have run: "send_all strerror deadline text' sent sys =
      (let sys3 = sys2\<lparr>bs_sends := sends\<rparr> in
       if se_count answer > 0 then send_all strerror deadline text' (sent + nat (se_count answer))
           (sys3\<lparr>bs_sent := bs_sent sys3 @ take (nat (se_count answer)) (drop sent text')\<rparr>)
       else if se_count answer < 0 \<and> (se_errno answer = 4 \<or> se_errno answer = 11)
       then send_all strerror deadline text' sent sys3
       else (Some (Inl (linux_failure LinuxTransportFailed (se_errno answer) (strerror (se_errno answer)))), sys3))"
      using False w by (simp add: send_all.simps[of strerror deadline text' sent sys] Let_def)
    show ?thesis
    proof (cases "se_count answer > 0")
      case True
      then show ?thesis
        using 1(1)[OF False w(1) _ _ _ w(2) refl refl True] 1(3,4) run kept by (simp add: take_on Let_def)
    next
      case stopped: False
      then show ?thesis
        using 1(2)[OF False w(1) _ _ _ w(2) refl refl stopped] 1(3,4) run kept by (auto simp: Let_def split: if_splits)
    qed
  qed
qed

text \<open>The failures never look like a success.\<close>

lemma failures_fail [simp]:
  "lcr_status (wait_failure waited e d) \<noteq> LinuxSuccess"
  "st \<noteq> LinuxSuccess \<Longrightarrow> lcr_status (linux_failure st e d) \<noteq> LinuxSuccess"
  by (simp_all add: wait_failure_def linux_failure_def)

lemma send_all_fails:
  "send_all strerror deadline text' sent sys = (Some (Inl failure), sys1) \<Longrightarrow> lcr_status failure \<noteq> LinuxSuccess"
proof (induction strerror deadline text' sent sys rule: send_all.induct)
  case (1 strerror deadline text' sent sys)
  then show ?case
    by (subst (asm) (3) send_all.simps)
       (auto simp: Let_def split: option.splits if_splits list.splits prod.splits)
qed

lemma connect_fails:
  "connect_broker strerror deadline answers sys = (Some (Some failure), sys1) \<Longrightarrow> lcr_status failure \<noteq> LinuxSuccess"
  by (auto simp: connect_broker_def split: option.splits if_splits sum.splits)

lemma connect_keeps:
  "connect_broker strerror deadline answers sys = (outcome, sys1) \<Longrightarrow>
     bs_sent sys1 = bs_sent sys \<and> bs_received sys1 = bs_received sys"
  using wait_keeps by (fastforce simp: connect_broker_def split: option.splits if_splits sum.splits)

text \<open>A complete line that names a state of the output.\<close>

definition acknowledges :: "string \<Rightarrow> bool \<Rightarrow> string \<Rightarrow> bool" where
  "acknowledges output_name state bytes \<longleftrightarrow>
     (\<exists>line. bytes = line @ [CHR 0x0A] \<and>
        (if state then line = connected_reply output_name \<or> line = connected_ok output_name
         else line = disconnected_reply output_name \<or> line = disconnected_ok output_name))"

lemma judged:
  assumes "lcr_status (judge_response output_name response) = LinuxSuccess" and "CHR 0x0A \<in> set response"
  shows "\<exists>state. lcr_connected (judge_response output_name response) = Some state \<and> acknowledges output_name state response"
proof -
  let ?line = "takeWhile (\<lambda>c. c \<noteq> CHR 0x0A) response"
  have ok: "length ?line + 1 = length response"
    using assms(1) by (auto simp: judge_response_def Let_def split: if_splits)
  have rest: "dropWhile (\<lambda>c. c \<noteq> CHR 0x0A) response \<noteq> []"
    using assms(2) by (auto simp: dropWhile_eq_Nil_conv)
  have "length (dropWhile (\<lambda>c. c \<noteq> CHR 0x0A) response) = 1"
    using ok takeWhile_dropWhile_id[of "\<lambda>c. c \<noteq> CHR 0x0A" response] by (metis add_left_imp_eq length_append)
  then have "dropWhile (\<lambda>c. c \<noteq> CHR 0x0A) response = [CHR 0x0A]"
    using hd_dropWhile[OF rest] by (cases "dropWhile (\<lambda>c. c \<noteq> CHR 0x0A) response") auto
  then have line: "response = ?line @ [CHR 0x0A]" using takeWhile_dropWhile_id[of "\<lambda>c. c \<noteq> CHR 0x0A" response] by simp
  have named: "?line = connected_reply output_name \<or> ?line = connected_ok output_name \<Longrightarrow>
      lcr_connected (judge_response output_name response) = Some True"
    "\<not> (?line = connected_reply output_name \<or> ?line = connected_ok output_name) \<Longrightarrow>
      lcr_connected (judge_response output_name response) = Some False \<and>
      (?line = disconnected_reply output_name \<or> ?line = disconnected_ok output_name)"
    using assms(1) ok by (auto simp: judge_response_def Let_def split: if_splits)
  show ?thesis
  proof (cases "?line = connected_reply output_name \<or> ?line = connected_ok output_name")
    case True
    then show ?thesis using named(1) line unfolding acknowledges_def by metis
  next
    case False
    then show ?thesis using named(2) line unfolding acknowledges_def by metis
  qed
qed

lemma receive_acknowledged:
  "receive_response strerror deadline output_name response sys = (Some result, sys1) \<Longrightarrow>
     lcr_status result = LinuxSuccess \<Longrightarrow> bs_received sys = pre @ response \<Longrightarrow>
     (\<exists>state bytes. lcr_connected result = Some state \<and> bs_received sys1 = pre @ bytes \<and> acknowledges output_name state bytes) \<and>
     bs_sent sys1 = bs_sent sys"
proof (induction strerror deadline output_name response sys rule: receive_response.induct)
  case (1 strerror deadline output_name response sys)
  have short: "\<not> length response > 128"
    using 1(3,4) by (auto simp: receive_response.simps[of strerror deadline output_name response sys])
  obtain e sys2 answer recvs where w: "wait_for_fd True deadline sys = Some (WaitReady, e, sys2)"
    "bs_recvs sys2 = answer # recvs"
    using 1(3,4) short
    by (auto simp: receive_response.simps[of strerror deadline output_name response sys] Let_def
        split: option.splits if_splits list.splits)
  note kept = wait_keeps[OF w(1)]
  show ?case
  proof (cases answer)
    case (RecvErrno err)
    then have again: "err = 4 \<or> err = 11" "receive_response strerror deadline output_name response (sys2\<lparr>bs_recvs := recvs\<rparr>) =
        (Some result, sys1)"
      using 1(3,4) short w
      by (auto simp: receive_response.simps[of strerror deadline output_name response sys] Let_def split: if_splits)
    then show ?thesis
      using 1(2)[OF short w(1) _ _ _ w(2) RecvErrno refl again] 1(4,5) kept by simp
  next
    case (Received bytes)
    let ?sys = "sys2\<lparr>bs_recvs := recvs, bs_received := bs_received sys2 @ bytes\<rparr>"
    have some: "bytes \<noteq> []"
      using 1(3,4) short w Received
      by (auto simp: receive_response.simps[of strerror deadline output_name response sys] Let_def)
    show ?thesis
    proof (cases "CHR 0x0A \<in> set (response @ bytes)")
      case False
      then have "receive_response strerror deadline output_name (response @ bytes) ?sys = (Some result, sys1)"
        using 1(3) short w Received some
        by (simp add: receive_response.simps[of strerror deadline output_name response sys] Let_def)
      then show ?thesis
        using 1(1)[OF short w(1) _ _ _ w(2) Received refl some False] 1(4,5) kept by simp
    next
      case True
      then have "result = judge_response output_name (response @ bytes)" "sys1 = ?sys"
        using 1(3) short w Received some
        by (auto simp: receive_response.simps[of strerror deadline output_name response sys] Let_def)
      then show ?thesis using judged[OF _ True] 1(4,5) kept by auto
    qed
  qed
qed

lemma broker_success:
  assumes "broker_request strerror path timeout verb output_name answers sys = (Some result, sys1)"
    and "lcr_status result = LinuxSuccess" and "bs_sent sys = []" and "bs_received sys = []"
  shows "valid_output_name output_name \<and> bs_sent sys1 = verb @ '' '' @ output_name @ [CHR 0x0A] \<and>
    (\<exists>state. lcr_connected result = Some state \<and> acknowledges output_name state (bs_received sys1))"
proof -
  let ?text = "verb @ '' '' @ output_name @ [CHR 0x0A]" and ?deadline = "ca_now answers + timeout"
  have valid: "valid_output_name output_name" and run:
    "(case connect_broker strerror ?deadline answers sys of
        (None, sys1) \<Rightarrow> (None, sys1)
      | (Some (Some failure), sys1) \<Rightarrow> (Some failure, sys1)
      | (Some None, sys1) \<Rightarrow>
          (case send_all strerror ?deadline ?text 0 sys1 of
             (None, sys2) \<Rightarrow> (None, sys2)
           | (Some (Inl failure), sys2) \<Rightarrow> (Some failure, sys2)
           | (Some (Inr _), sys2) \<Rightarrow> receive_response strerror ?deadline output_name [] sys2)) = (Some result, sys1)"
    using assms(1,2) by (auto simp: broker_request_def Let_def split: if_splits option.splits)
  obtain sysc where c: "connect_broker strerror ?deadline answers sys = (Some None, sysc)"
    using run assms(2) connect_fails[of strerror ?deadline answers sys]
    by (cases "connect_broker strerror ?deadline answers sys") (auto split: option.splits)
  note kept = connect_keeps[OF c]
  obtain syss where snd: "send_all strerror ?deadline ?text 0 sysc = (Some (Inr ()), syss)"
    using run c assms(2) send_all_fails[of strerror ?deadline ?text 0 sysc]
    by (cases "send_all strerror ?deadline ?text 0 sysc") (auto split: option.splits sum.splits)
  have sent: "bs_sent syss = ?text" "bs_received syss = []"
    using send_all_sends[OF snd, of "[]"] kept assms(3,4) by simp_all
  have "receive_response strerror ?deadline output_name [] syss = (Some result, sys1)" using run c snd by simp
  from receive_acknowledged[OF this assms(2), of "[]"] sent valid show ?thesis by simp
qed

text \<open>
  C36: Setting a connector is reported as done only when the broker was asked and confirmed it. On
  success the output name is valid, exactly the one request line for it has been handed to the
  socket, and the bytes that came back are one complete line that names this output in the wanted
  state; the reported state is the wanted one.
\<close>

theorem connector_change_is_confirmed:
  assumes "set_connector strerror path timeout output_name wanted answers sys = (Some result, sys1)"
    and "linux_result_ok result" and "bs_sent sys = []" and "bs_received sys = []"
  shows "valid_output_name output_name \<and> lcr_connected result = Some wanted \<and>
    bs_sent sys1 = (if wanted then ''connect'' else ''disconnect'') @ '' '' @ output_name @ [CHR 0x0A] \<and>
    acknowledges output_name wanted (bs_received sys1)"
proof -
  let ?run = "broker_request strerror path timeout (if wanted then ''connect'' else ''disconnect'') output_name answers sys"
  obtain outcome where run: "?run = (Some outcome, sys1)"
    and shape: "result = (if \<not> linux_result_ok outcome \<or> lcr_connected outcome \<noteq> Some wanted
         then (if linux_result_ok outcome
               then \<lparr>lcr_status = ProtocolError, lcr_connected = lcr_connected outcome, lcr_native_error = EPROTO,
                     lcr_detail = ''broker acknowledged the wrong connector state''\<rparr>
               else outcome)
         else outcome)"
    using assms(1) by (cases ?run) (auto simp: set_connector_def Let_def)
  have ok: "linux_result_ok outcome" "lcr_connected outcome = Some wanted" "result = outcome"
    using assms(2) unfolding shape by (simp_all add: linux_result_ok_def split: if_splits)
  show ?thesis using broker_success[OF run _ assms(3,4)] ok by (auto simp: linux_result_ok_def)
qed

section \<open>The deadline\<close>

definition expired :: "time_point \<Rightarrow> poll_answer \<Rightarrow> bool" where
  "expired deadline p \<longleftrightarrow> duration_cast_milliseconds (deadline - po_now p) \<le> 0"

lemma wait_polls_ends:
  "p \<in> set polls \<Longrightarrow> expired deadline p \<Longrightarrow>
     \<exists>waited e rest. wait_polls input deadline polls = Some (waited, e, rest) \<and> (waited = WaitReady \<longrightarrow> p \<in> set rest)"
proof (induction polls)
  case (Cons a polls)
  show ?case
  proof (cases "expired deadline a")
    case True
    then show ?thesis by (simp add: expired_def)
  next
    case False
    then have "p \<in> set polls" using Cons.prems by auto
    then show ?thesis using Cons False by (cases "po_outcome a") (auto simp: expired_def)
  qed
qed simp

lemma wait_ends:
  assumes "p \<in> set (bs_polls sys)" and "expired deadline p"
  obtains waited e sys1 where "wait_for_fd input deadline sys = Some (waited, e, sys1)"
    and "waited = WaitReady \<Longrightarrow> p \<in> set (bs_polls sys1)"
  using wait_polls_ends[OF assms, of input] by (auto simp: wait_for_fd_def)

lemma send_all_ends:
  "p \<in> set (bs_polls sys) \<Longrightarrow> expired deadline p \<Longrightarrow> length (bs_polls sys) \<le> length (bs_sends sys) \<Longrightarrow>
   length (bs_polls sys) \<le> length (bs_recvs sys) \<Longrightarrow>
   send_all strerror deadline text' sent sys = (outcome, sys1) \<Longrightarrow>
     outcome \<noteq> None \<and>
     (outcome = Some (Inr ()) \<longrightarrow> p \<in> set (bs_polls sys1) \<and> length (bs_polls sys1) \<le> length (bs_recvs sys1))"
proof (induction strerror deadline text' sent sys rule: send_all.induct)
  case (1 strerror deadline text' sent sys)
  show ?case
  proof (cases "sent \<ge> length text'")
    case True
    then show ?thesis using 1(3-7) by (auto simp: send_all.simps[of strerror deadline text' sent])
  next
    case False
    obtain waited e sys2 where w: "wait_for_fd False deadline sys = Some (waited, e, sys2)"
      "waited = WaitReady \<Longrightarrow> p \<in> set (bs_polls sys2)" using wait_ends[OF 1(3,4)] by metis
    note kept = wait_keeps[OF w(1)] and less = wait_shrinks[OF w(1)]
    show ?thesis
    proof (cases "waited = WaitReady")
      case stopped: False
      then show ?thesis using 1(7) False w(1) by (auto simp: send_all.simps[of strerror deadline text' sent sys])
    next
      case True
      obtain answer sends where s: "bs_sends sys2 = answer # sends" using 1(5) less kept by (cases "bs_sends sys") auto
      have fits: "length (bs_polls sys2) \<le> length sends" "length (bs_polls sys2) \<le> length (bs_recvs sys2)"
        using 1(5,6) less kept arg_cong[OF s, of length] by auto
      show ?thesis
      proof (cases "se_count answer > 0")
        case more: True
        then show ?thesis
          using 1(1)[OF False w(1) refl refl _ s refl refl more] w(2)[OF True] 1(4,7) True fits False w(1) s
          by (simp add: send_all.simps[of strerror deadline text' sent sys] Let_def)
      next
        case stopped: False
        then show ?thesis
          using 1(2)[OF False w(1) refl refl _ s refl refl stopped] w(2)[OF True] 1(4,7) True fits False w(1) s
          by (auto simp: send_all.simps[of strerror deadline text' sent sys] Let_def split: if_splits)
      qed
    qed
  qed
qed

lemma receive_ends:
  "p \<in> set (bs_polls sys) \<Longrightarrow> expired deadline p \<Longrightarrow> length (bs_polls sys) \<le> length (bs_recvs sys) \<Longrightarrow>
   fst (receive_response strerror deadline output_name response sys) \<noteq> None"
proof (induction strerror deadline output_name response sys rule: receive_response.induct)
  case (1 strerror deadline output_name response sys)
  show ?case
  proof (cases "length response > 128")
    case True
    then show ?thesis by (simp add: receive_response.simps[of strerror deadline output_name response sys])
  next
    case short: False
    obtain waited e sys2 where w: "wait_for_fd True deadline sys = Some (waited, e, sys2)"
      "waited = WaitReady \<Longrightarrow> p \<in> set (bs_polls sys2)" using wait_ends[OF 1(3,4)] by metis
    note kept = wait_keeps[OF w(1)] and less = wait_shrinks[OF w(1)]
    show ?thesis
    proof (cases "waited = WaitReady")
      case False
      then show ?thesis using short w(1) by (simp add: receive_response.simps[of strerror deadline output_name response sys])
    next
      case True
      obtain answer recvs where s: "bs_recvs sys2 = answer # recvs" using 1(5) less kept by (cases "bs_recvs sys") auto
      have "length (bs_recvs sys2) = Suc (length recvs)" using s by simp
      then have fits: "length (bs_polls sys2) \<le> length recvs" using 1(5) less kept by auto
      show ?thesis
      proof (cases answer)
        case (RecvErrno err)
        then show ?thesis
          using 1(2)[OF short w(1) refl refl _ s RecvErrno refl] w(2)[OF True] 1(4) True fits short w(1) s
          by (simp add: receive_response.simps[of strerror deadline output_name response sys] Let_def)
      next
        case (Received bytes)
        then show ?thesis
          using 1(1)[OF short w(1) refl refl _ s Received refl] w(2)[OF True] 1(4) True fits short w(1) s
          by (simp add: receive_response.simps[of strerror deadline output_name response sys] Let_def)
      qed
    qed
  qed
qed

text \<open>
  C37: A request ends. As soon as the clock is once past the deadline (eight seconds unless the
  caller chose otherwise) when the client looks at it, the request returns, however often the
  system interrupts its calls, takes the request in pieces or delivers the reply in pieces before;
  every turn of its loops takes one look at the clock and at most one answer of \<open>send\<close> or \<open>recv\<close>.
\<close>

theorem request_ends_at_deadline:
  assumes "p \<in> set (bs_polls sys)" and "expired (ca_now answers + timeout) p"
    and "length (bs_polls sys) \<le> length (bs_sends sys)" and "length (bs_polls sys) \<le> length (bs_recvs sys)"
  shows "\<exists>result sys1. broker_request strerror path timeout verb output_name answers sys = (Some result, sys1)"
proof -
  let ?text = "verb @ '' '' @ output_name @ [CHR 0x0A]" and ?deadline = "ca_now answers + timeout"
  have connect: "outcome \<noteq> None \<and> (outcome = Some None \<longrightarrow> p \<in> set (bs_polls sysc) \<and>
      length (bs_polls sysc) \<le> length (bs_sends sysc) \<and> length (bs_polls sysc) \<le> length (bs_recvs sysc))"
    if c: "connect_broker strerror ?deadline answers sys = (outcome, sysc)" for outcome sysc
  proof -
    obtain waited e sys2 where w: "wait_for_fd False ?deadline sys = Some (waited, e, sys2)"
      "waited = WaitReady \<Longrightarrow> p \<in> set (bs_polls sys2)" using wait_ends[OF assms(1,2)] by metis
    show ?thesis
      using c w wait_keeps[OF w(1)] wait_shrinks[OF w(1)] assms
      by (auto simp: connect_broker_def split: option.splits if_splits sum.splits)
  qed
  have "fst (case connect_broker strerror ?deadline answers sys of
        (None, sys1) \<Rightarrow> (None, sys1)
      | (Some (Some failure), sys1) \<Rightarrow> (Some failure, sys1)
      | (Some None, sys1) \<Rightarrow>
          (case send_all strerror ?deadline ?text 0 sys1 of
             (None, sys2) \<Rightarrow> (None, sys2)
           | (Some (Inl failure), sys2) \<Rightarrow> (Some failure, sys2)
           | (Some (Inr _), sys2) \<Rightarrow> receive_response strerror ?deadline output_name [] sys2)) \<noteq> None"
    (is "fst ?talk \<noteq> None")
  proof -
    obtain outcome sysc where c: "connect_broker strerror ?deadline answers sys = (outcome, sysc)" by fastforce
    obtain sent syss where d: "send_all strerror ?deadline ?text 0 sysc = (sent, syss)" by fastforce
    show ?thesis
    proof (cases "outcome = Some None")
      case True
      then have in_time: "p \<in> set (bs_polls sysc)" "length (bs_polls sysc) \<le> length (bs_sends sysc)"
        "length (bs_polls sysc) \<le> length (bs_recvs sysc)" using connect[OF c] by auto
      note sends = send_all_ends[OF in_time(1) assms(2) in_time(2,3) d]
      show ?thesis
      proof (cases "sent = Some (Inr ())")
        case written: True
        then show ?thesis using c d \<open>outcome = Some None\<close> sends receive_ends[OF _ assms(2)] by simp
      next
        case False
        then obtain failure where "sent = Some (Inl failure)" using sends by (cases sent; cases "the sent") auto
        then show ?thesis using c d \<open>outcome = Some None\<close> by simp
      qed
    next
      case False
      then obtain failure where "outcome = Some (Some failure)" using connect[OF c] by (cases outcome) auto
      then show ?thesis using c by simp
    qed
  qed
  then obtain r sysr where talk: "?talk = (Some r, sysr)" by (cases ?talk) auto
  show ?thesis unfolding broker_request_def Let_def talk by (cases "ca_socket_errno answers") auto
qed

section \<open>A concrete exchange\<close>

definition ready :: poll_answer where "ready = \<lparr>po_now = 0, po_outcome = PollReady False True False\<rparr>"
definition late :: poll_answer where "late = \<lparr>po_now = 8000000000, po_outcome = PollElapsed\<rparr>"

definition sample_answers :: connect_answers where
  "sample_answers = \<lparr>ca_socket_errno = None, ca_now = 0, ca_connect_errno = None, ca_pending_error = Inr 0\<rparr>"

text \<open>The request goes out in two pieces and the reply comes in two pieces.\<close>

definition sample_system :: broker_system where
  "sample_system =
     \<lparr>bs_polls = [ready, ready, ready, ready],
      bs_sends = [\<lparr>se_count = 5, se_errno = 0\<rparr>, \<lparr>se_count = 13, se_errno = 0\<rparr>],
      bs_recvs = [Received ''OK connected Vir'', Received (''tual-3'' @ [CHR 0x0A])],
      bs_sent = [], bs_received = []\<rparr>"

lemma sample_sends:
  "send_all (\<lambda>e. []) 8000000000 (''connect Virtual-3'' @ [CHR 0x0A]) 0 sample_system =
     (Some (Inr ()), sample_system\<lparr>bs_polls := [ready, ready], bs_sends := [], bs_sent := ''connect Virtual-3'' @ [CHR 0x0A]\<rparr>)"
  by code_simp

lemma sample_receives:
  "receive_response (\<lambda>e. []) 8000000000 ''Virtual-3'' []
     (sample_system\<lparr>bs_polls := [ready, ready], bs_sends := [], bs_sent := ''connect Virtual-3'' @ [CHR 0x0A]\<rparr>) =
   (Some \<lparr>lcr_status = LinuxSuccess, lcr_connected = Some True, lcr_native_error = 0, lcr_detail = []\<rparr>,
      \<lparr>bs_polls = [], bs_sends = [], bs_recvs = [], bs_sent = ''connect Virtual-3'' @ [CHR 0x0A],
       bs_received = ''OK connected Virtual-3'' @ [CHR 0x0A]\<rparr>)"
  by code_simp

lemma sample_name: "valid_output_name ''Virtual-3''"
  unfolding output_name_parts by (simp add: char_code_def is_digit_def digits_value_def)

lemma sample_exchange:
  "set_connector (\<lambda>e. []) ''/run/s'' 8000000000 ''Virtual-3'' True sample_answers sample_system =
     (Some \<lparr>lcr_status = LinuxSuccess, lcr_connected = Some True, lcr_native_error = 0, lcr_detail = []\<rparr>,
      \<lparr>bs_polls = [], bs_sends = [], bs_recvs = [], bs_sent = ''connect Virtual-3'' @ [CHR 0x0A],
       bs_received = ''OK connected Virtual-3'' @ [CHR 0x0A]\<rparr>)"
proof -
  have connect: "connect_broker (\<lambda>e. []) 8000000000 sample_answers sample_system = (Some None, sample_system)" by code_simp
  have parts: "ca_now sample_answers + 8000000000 = 8000000000" "ca_socket_errno sample_answers = None"
    "length ''/run/s'' < 108" "''connect'' \<in> {''connect'', ''disconnect'', ''status''}"
    "''connect'' @ '' '' @ ''Virtual-3'' @ [CHR 0x0A] = ''connect Virtual-3'' @ [CHR 0x0A]" "''/run/s'' \<noteq> []"
    by (simp_all add: sample_answers_def)
  have "broker_request (\<lambda>e. []) ''/run/s'' 8000000000 ''connect'' ''Virtual-3'' sample_answers sample_system =
     (Some \<lparr>lcr_status = LinuxSuccess, lcr_connected = Some True, lcr_native_error = 0, lcr_detail = []\<rparr>,
      \<lparr>bs_polls = [], bs_sends = [], bs_recvs = [], bs_sent = ''connect Virtual-3'' @ [CHR 0x0A],
       bs_received = ''OK connected Virtual-3'' @ [CHR 0x0A]\<rparr>)"
    unfolding broker_request_def Let_def parts(1,2,5) connect
    using parts(3,4,6) sample_name by (simp del: append.simps add: sample_sends sample_receives)
  then show ?thesis by (simp add: set_connector_def linux_result_ok_def Let_def)
qed

theorem connector_change_is_confirmed_witness:
  "acknowledges ''Virtual-3'' True (''OK connected Virtual-3'' @ [CHR 0x0A])"
  using connector_change_is_confirmed[OF sample_exchange]
  by (simp add: linux_result_ok_def sample_system_def)

theorem request_ends_at_deadline_witness:
  "\<exists>result sys1. broker_request (\<lambda>e. []) ''/run/s'' 8000000000 ''status'' ''Virtual-3'' sample_answers
     (sample_system\<lparr>bs_polls := [ready, late]\<rparr>) = (Some result, sys1)"
  by (rule request_ends_at_deadline[where p = late])
     (simp_all add: sample_system_def late_def expired_def sample_answers_def duration_cast_milliseconds_def)

end
