(* ===== verification/Spec2Isabelle.thy ===== *)
theory Spec2Isabelle
  imports Driver_Controller_Race Driver_State_Theorems Frame_Server_Theorems Ioctl_Theorems
    Edid_Theorems Driver_Modes_Theorems Command_Theorems
    Drm_Output_Theorems Drm_Modes Monitor_Progress Control_Client_Theorems
    Frame_Publish_Theorems Linux_Client_Theorems
begin

text \<open>
  A verification development for libvirtualdisplay: virtual displays that a streaming host creates
  through a Windows indirect display driver, or through the Linux DRM driver \<open>vibeshine-drm\<close>.
  Paths below are relative to \<open>src/src/driver\<close> unless they name another directory; headers are
  those of \<open>include/virtual_display/driver\<close>.

  \<^bold>\<open>The program.\<close> A host opens the driver's control device and sends fixed-size structures
  (\<open>control_protocol.h\<close>). \<open>control_client.cpp\<close> wraps one such call; \<open>windows_control_client.cpp\<close>
  performs it. In the driver \<open>SunshineEvtIddCxDeviceIoControl\<close> and \<open>DeviceState\<close>
  (\<open>windows_driver/driver_main.cpp\<close>) put everything behind one controller lock: frame transport
  requests go to the frame ring server, the others to the dispatcher (\<open>ioctl_dispatcher.cpp\<close>), which
  calls a handler of the controller (\<open>driver_controller.cpp\<close>). The controller keeps the records of
  displays and leases in the store (\<open>lease_store.cpp\<close>) and releases the lock while it asks the
  backend (\<open>IddCxBackend\<close> of \<open>driver_main.cpp\<close>) to bring monitors up and down; the backend runs
  the actual calls on worker threads, with time limits. A monitor shows an EDID (\<open>edid.cpp\<close>) made
  from its identity (\<open>display_identity.cpp\<close>) and a list of modes (\<open>windows_driver_modes.cpp\<close>).
  Leases must be fed; a reaper removes expired displays. Permanent displays come from a manifest,
  which the command line (\<open>cli_commands.cpp\<close>) sets through a broker with a text protocol
  (\<open>broker_commands.cpp\<close>). Captured frames reach the host through rings of shared textures that it
  registers for a display (\<open>frame_ring_server.cpp\<close>, \<open>frame_ring_lifetime.cpp\<close>); on Linux the capture
  client waits for presentations through ioctls of \<open>src/linux/vibeshine-drm\<close>.

  \<^bold>\<open>Conventions.\<close> A struct is a \<open>record\<close> with the fields of the code under a short prefix, an enum
  a \<open>datatype\<close>, an integer of fixed width a word of that width. \<open>std::map\<close> is a list of pairs
  sorted by key (\<open>omap\<close> of VDD_Prelude), \<open>std::string\<close> and byte spans are lists, \<open>std::optional\<close> is
  an option, a time point is an integer of nanoseconds. An operation takes the state last and
  returns it first. A call into code outside the repository is an argument or a script: the answers
  it gives, in the order the code asks for them.

  \<^bold>\<open>Theories, by component.\<close>
  \<^item> Control_Protocol, Request_Validation: the wire structures, and every validator and normaliser
    of \<open>control_protocol.cpp\<close>. Request_Validation_Props characterises them; here
    \<open>manifest_validation_exact\<close> gives the manifest validator a declarative meaning.
  \<^item> Display_Identity, Edid: identities of displays; the generator and the readers of EDIDs.
    Edid_Props and Edid_Theorems: bytes by position, checksums, what the readers get back.
  \<^item> Lease_Store: \<open>DisplayStore\<close> with all its operations; Permanent_Displays: counts against
    manifests. Lease_Store_Props and Lease_Store_Create: the invariant \<open>store_inv\<close> (displays under
    their ids, connectors and identities distinct, every lease backed by displays and back,
    a display that is not departing expires with its lease) operation by operation. Lease_Store_Steps: runs
    of operations (\<open>store_op\<close>), which is also what other threads do in a window without the lock.
    Lease_Store_Theorems, Lease_Lifecycle_Theorems: what leases guarantee.
  \<^item> Driver_Controller: the handlers. \<open>world\<close> is the store, the script of lock windows and the log of
    backend calls. A \<open>window\<close> holds the store operations of other threads before the backend slot is
    taken and during the call, and the outcome of the call, a time-out included.
    Driver_Controller_Props: every handler moves the store by store operations only;
    Driver_Controller_Theorems: results under arbitrary interference (the store stays invariant, a
    create that succeeds has brought up the monitor of its own record); Driver_Controller_Quiet: exact
    effects without interference (roll-back of a failed create, one turn of the reaper);
    Driver_Controller_Race: a schedule that orphans a display.
  \<^item> Driver_State, Driver_State_Theorems: the registry blob of temporary display profiles and its codec.
  \<^item> Frame_Transport, Frame_Ring: validators of the frame structures; ring registrations with their
    publication gates, cookies and tombstones. Frame_Ring_Props, Frame_Ring_Theorems,
    Frame_Server_Props, Frame_Server_Theorems: a gate is open exactly while its ring is registered.
  \<^item> Ioctl_Dispatcher, Ioctl_Theorems: control codes, buffer checks, dispatch; it refines the
    contract \<open>control_call\<close>, which knows no buffers.
  \<^item> Monitor_Backend: the monitor table of \<open>IddCxBackend\<close> and the threads that work on it. An
    activity (departure, arrival, worker, swapchain callback, render adapter call, shutdown,
    manifest) is a program counter; each locked section of the code is one step, so that steps
    interleave as the mutex lets them. Monitor_Callbacks: the callbacks of the display framework and
    the cleanup; Monitor_System: the step relation \<open>system_step\<close>, reachability, and the locale
    \<open>inductive_invariant\<close>, interpreted for each invariant below. Monitor_Table, Monitor_Table_Inv,
    Monitor_Refinement: the table is well formed and each step is a step of an abstract protocol of
    monitors; Monitor_Counters: the in-flight counters count threads; Monitor_Arrivals: no late
    arrival is lost; Monitor_Theorems: health and shutdown; Monitor_Safety: the safety properties.
    Monitor_Progress: the turns of one thread (\<open>thread_step\<close>); no run has six turns of the threads
    that hold a departing monitor without releasing it.
  \<^item> Frame_Publish: \<open>open_frame_ring_for_producer\<close>, \<open>publish_frame_to_ring\<close> as one step per acquired,
    written or released slot, and what the swapchain worker does with the result. A keyed mutex has
    its documented behaviour (a key, or the side that holds it); a device call may fail. Frame_Publish_Theorems:
    which slots the consumer can read after every interleaving with retirement and the consumer, that
    the producer never waits, and what stays readable when a copy is abandoned.
  \<^item> Device_State, Device_Theorems: \<open>DeviceState\<close>, the frame transport requests against the live
    monitor, the requests an unhealthy backend still gets, the reaper turn, the shutdown.
  \<^item> Control_Client, Control_Client_Theorems: the client, the overlapped call with its time-out
    and failures, and both put on top of the device. A \<open>delivery\<close> says what happens to a request on
    its way: refused, completed at once, or pending, with the outcome of the bounded wait and
    whether the driver has run the request all the same.
  \<^item> Linux_Control_Client, Linux_Client_Theorems: the exchange of \<open>linux_control_client.cpp\<close> with the
    connector broker over a socket. The answers of the system calls are a script (no answer: the
    call is still waiting), and the clock is among them. A connector change is reported only if the broker
    confirmed it; a request ends once its deadline has passed.
  \<^item> Driver_Modes, Driver_Modes_Theorems: the mode catalogue, registered modes, signal frequencies.
  \<^item> Number_Text, Cli_Commands, Broker_Commands, Command_Theorems: number parsing and printing, options
    to commands, commands to requests, replies; refresh rates are in binary64, written out on
    integers.
  \<^item> Drm_Present, Drm_Output, Drm_Output_Theorems: when a commit changes the picture, and the
    presentation state of an output with the wait and trace ioctls, as a step relation over the
    locked sections of \<open>vkms_crtc.c\<close> and \<open>vkms_drv.c\<close>: a commit takes its timestamp, publishes, and
    wakes the wait queue in three steps, and a waiter registers, checks its condition or sleeps, is
    woken or cut short, and leaves. Drm_Modes: modes, deadlines, padded buffers.

  \<^bold>\<open>How the pieces fit.\<close> The window of a controller call and the activity of the backend are two
  views of one call: the controller's theorems hold for every script, so for the answers the backend
  gives; the backend's theorems hold for every schedule. \<open>store_authority\<close> hands the store to the
  rings, \<open>device_dispatch\<close> joins dispatcher and rings, and \<open>driver_transport\<close> the device and the
  client, so that \<open>client_sees_the_controller\<close> goes from the client's call to the controller's verdict.

  \<^bold>\<open>Bounds and fuel.\<close> The search for an ephemeral identity (\<open>pick_ephemeral_identity\<close>) has no bound
  in the code and is a \<open>partial_function\<close>; \<open>create_never_diverges\<close> shows that it returns, since the
  store holds fewer displays than there are identities. Where a counter could wrap around, the
  hypothesis says how far away that is: display generations and trace sequences below \<open>2 ^ 64\<close>,
  display counts below \<open>2 ^ 32\<close>, threads in flight below \<open>2 ^ 32 - 1\<close>. Handling a captured frame takes
  at most 19 turns of the worker (three at each of the four slots, and seven more); the release of a
  departing monitor at most six turns of its holders. All other loops are structural
  or have a termination proof.

  \<^bold>\<open>Not modelled.\<close> Code that is nothing but calls into closed interfaces: swapchain and cursor
  workers on Direct3D, the registry and colour profile handling and the driver entry points of
  \<open>driver_main.cpp\<close>, the import of textures (\<open>windows_frame_importer.cpp\<close>, an argument of the ring
  server), device enumeration, the service and helper programs under \<open>src/tools\<close>, the Vulkan layer and
  the KWin interposer. The pixel and configuration code of \<open>vibeshine-drm\<close> that is adapted from the
  kernel's vkms driver. Name tables (\<open>to_string\<close>), tracing and usage texts. Memory reclamation and
  the release of native handles are not observable in the model.
\<close>

text \<open>
  C34: A display manifest is accepted by the validator exactly when its header fields are right,
  every profile it announces is well formed on its own, and no two profiles share a connector,
  display id, container id, product code or serial number.
\<close>

theorem manifest_validation_exact:
  "validate_display_manifest m max_count = VNone \<longleftrightarrow> manifest_ok max_count m"
  by (rule validate_display_manifest_iff)

text \<open>
  C32: Two displays that are live at the same time never present the same identity to the operating
  system: the EDIDs generated for them decode to different pairs of product code and serial number.
\<close>

theorem live_displays_have_distinct_edids:
  assumes "store_reachable s" and "find_temporary_display d s = Some r"
    and "find_temporary_display e s = Some q" and "d \<noteq> e"
  defines "edid \<equiv> \<lambda>r. create_edid (edid_options_for_temporary_display r)"
  shows "(read_product_code (edid r), read_serial_number (edid r)) \<noteq>
    (read_product_code (edid q), read_serial_number (edid q))"
proof -
  have ok: "table_ok s" using store_invD(2)[OF store_reachable_inv[OF assms(1)]] .
  have "display_at s d = Some r" "display_at s e = Some q"
    using assms(2,3) by (simp_all add: find_temporary_display_def)
  then show ?thesis
    using table_okD(3)[OF ok _ _ assms(4)]
    by (auto simp: edid_def product_code_read serial_number_read edid_options_for_temporary_display_def
        edid_identity_def)
qed

theorem live_displays_have_distinct_edids_witness:
  "\<exists>r q. find_temporary_display 1 sample_store = Some r \<and> find_temporary_display 2 sample_store = Some q \<and>
     (read_product_code (create_edid (edid_options_for_temporary_display r)),
      read_serial_number (create_edid (edid_options_for_temporary_display r))) \<noteq>
     (read_product_code (create_edid (edid_options_for_temporary_display q)),
      read_serial_number (create_edid (edid_options_for_temporary_display q)))"
proof -
  have "find_temporary_display 1 sample_store \<noteq> None" "find_temporary_display 2 sample_store \<noteq> None"
    by code_simp+
  then obtain r q where rq: "find_temporary_display 1 sample_store = Some r"
    "find_temporary_display 2 sample_store = Some q" by auto
  show ?thesis using rq live_displays_have_distinct_edids[OF sample_reachable rq] by auto
qed

end
